(* ===== verification/Prelude.thy ===== *)
theory Prelude
  imports Main "HOL-Library.AList" "HOL-Library.Multiset" "HOL-Library.Product_Lexorder" "HOL-Library.Monad_Syntax"
begin

text \<open>
  Vocabulary shared by every component: the Python values that travel in payload dictionaries
  (with truthiness, \<open>or\<close>, \<open>str\<close> and \<open>int\<close>), instants and the time stamps stored as text,
  insertion-ordered dictionaries, order-preserving removal of duplicates, and the interface
  \<open>keyed_table\<close> that the stores of the components provide.
\<close>

named_theorems py_simps "evaluation rules for the Python values"
named_theorems dict_simps "rules for insertion-ordered dictionaries"

section \<open>Python values\<close>

text \<open>
  \<open>PTime t\<close> is the text of the instant \<open>t\<close> (microseconds since the epoch) as \<open>isoformat()\<close> writes
  it; keeping it apart from other texts lets the model compare instants without parsing. Floats
  do not occur among the dictionary values that the modelled code reads.
\<close>

datatype pyval =
    PNone
  | PBool bool
  | PInt int
  | PStr string
  | PTime int
  | PList "pyval list"
  | PDict "(string \<times> pyval) list"

type_synonym pydict = "(string \<times> pyval) list"

datatype py_error = ValueError | TypeError | KeyError | ZeroDivisionError | OverflowError | IntegrityError

text \<open>Truth value testing, and the value of \<open>a or b\<close>.\<close>

fun truthy :: "pyval \<Rightarrow> bool" where
  "truthy PNone = False"
| "truthy (PBool b) = b"
| "truthy (PInt i) = (i \<noteq> 0)"
| "truthy (PStr s) = (s \<noteq> [])"
| "truthy (PTime t) = True"
| "truthy (PList xs) = (xs \<noteq> [])"
| "truthy (PDict d) = (d \<noteq> [])"

definition py_or :: "pyval \<Rightarrow> pyval \<Rightarrow> pyval" where
  "py_or a b = (if truthy a then a else b)"

text \<open>\<open>a or b\<close> on strings, the commonest use: the empty string is the falsy one.\<close>

definition str_or :: "string \<Rightarrow> string \<Rightarrow> string" where
  "str_or a b = (if a \<noteq> [] then a else b)"

text \<open>\<open>d.get(k)\<close> and \<open>d.get(k, v)\<close>.\<close>

definition dget :: "pydict \<Rightarrow> string \<Rightarrow> pyval" where
  "dget d k = (case map_of d k of None \<Rightarrow> PNone | Some v \<Rightarrow> v)"

definition dget_default :: "pydict \<Rightarrow> string \<Rightarrow> pyval \<Rightarrow> pyval" where
  "dget_default d k dflt = (case map_of d k of None \<Rightarrow> dflt | Some v \<Rightarrow> v)"

lemmas [py_simps] = py_or_def str_or_def dget_def dget_default_def

section \<open>Decimal text\<close>

definition digit_char :: "nat \<Rightarrow> char" where
  "digit_char n = char_of (48 + n mod 10)"

fun show_nat :: "nat \<Rightarrow> string" where
  "show_nat n = (if n < 10 then [digit_char n] else show_nat (n div 10) @ [digit_char n])"

declare show_nat.simps [simp del]

text \<open>For evaluation, the recursion is guarded by a pattern on the test.\<close>

definition show_nat_step :: "bool \<Rightarrow> nat \<Rightarrow> string" where
  "show_nat_step small n = (if small then [digit_char n] else show_nat (n div 10) @ [digit_char n])"

lemma show_nat_step_code [code]:
  "show_nat_step True n = [digit_char n]" "show_nat_step False n = show_nat (n div 10) @ [digit_char n]"
  by (simp_all add: show_nat_step_def)

lemma show_nat_code [code]: "show_nat n = show_nat_step (n < 10) n"
  by (simp add: show_nat_step_def show_nat.simps [of n])

definition show_int :: "int \<Rightarrow> string" where
  "show_int i = (if i < 0 then CHR ''-'' # show_nat (nat (- i)) else show_nat (nat i))"

text \<open>Digits computed on integers, so that evaluation does not count in unary.\<close>

definition show_digits :: "int \<Rightarrow> string" where
  "show_digits i = show_nat (nat i)"

definition show_digits_step :: "bool \<Rightarrow> int \<Rightarrow> string" where
  "show_digits_step small i = show_nat (nat i)"

lemma show_digits_step_code [code]:
  "show_digits_step True i = (if i < 10 then [digit_char (nat i)] else show_nat (nat i))"
  "show_digits_step False i = (if i < 10 then [digit_char (nat i)] else show_digits (i div 10) @ [digit_char (nat (i mod 10))])"
proof -
  have small: "show_nat (nat i) = [digit_char (nat i)]" if "i < 10"
    using that by (subst show_nat.simps) auto
  have large: "show_nat (nat i) = show_nat (nat (i div 10)) @ [digit_char (nat (i mod 10))]" if "\<not> i < 10"
  proof -
    have "\<not> nat i < 10" using that by simp
    then have "show_nat (nat i) = show_nat (nat i div 10) @ [digit_char (nat i)]" by (subst show_nat.simps) simp
    with that show ?thesis by (simp add: nat_div_distrib nat_mod_distrib digit_char_def)
  qed
  show "show_digits_step True i = (if i < 10 then [digit_char (nat i)] else show_nat (nat i))"
    "show_digits_step False i = (if i < 10 then [digit_char (nat i)] else show_digits (i div 10) @ [digit_char (nat (i mod 10))])"
    using small large by (simp_all add: show_digits_step_def show_digits_def)
qed

lemma show_digits_code [code]: "show_digits i = show_digits_step (i < 10) i"
  by (simp add: show_digits_def show_digits_step_def)

lemma show_int_code [code]: "show_int i = (if i < 0 then CHR ''-'' # show_digits (- i) else show_digits i)"
  by (simp add: show_int_def show_digits_def)

definition digit_value :: "char \<Rightarrow> nat" where
  "digit_value c = of_char c - 48"

definition is_digit :: "char \<Rightarrow> bool" where
  "is_digit c \<longleftrightarrow> 48 \<le> (of_char c :: nat) \<and> (of_char c :: nat) \<le> 57"

definition read_nat :: "string \<Rightarrow> nat" where
  "read_nat s = foldl (\<lambda>a c. a * 10 + digit_value c) 0 s"

lemma of_char_digit_char: "(of_char (digit_char n) :: nat) = 48 + n mod 10"
proof -
  have "(48 + n mod 10) < 256" by simp
  then show ?thesis by (simp add: digit_char_def)
qed

lemma is_digit_digit_char [simp]: "is_digit (digit_char n)"
proof -
  have "n mod 10 < 10" by simp
  then show ?thesis by (simp add: is_digit_def of_char_digit_char del: mod_less_divisor)
qed

lemma digit_value_digit_char [simp]: "digit_value (digit_char n) = n mod 10"
  by (simp add: digit_value_def of_char_digit_char)

lemma show_nat_digits: "c \<in> set (show_nat n) \<Longrightarrow> is_digit c"
proof (induction n rule: show_nat.induct)
  case (1 n)
  then show ?case by (cases "n < 10") (auto simp: show_nat.simps [of n])
qed

lemma show_nat_nonempty [simp]: "show_nat n \<noteq> []"
  by (subst show_nat.simps) simp

lemma read_show_nat: "read_nat (show_nat n) = n"
proof (induction n rule: show_nat.induct)
  case (1 n)
  show ?case
  proof (cases "n < 10")
    case True
    then show ?thesis by (simp add: show_nat.simps [of n] read_nat_def)
  next
    case False
    with 1 have "read_nat (show_nat (n div 10)) = n div 10" by simp
    with False show ?thesis by (simp add: show_nat.simps [of n] read_nat_def)
  qed
qed

lemma show_nat_inj [simp]: "show_nat a = show_nat b \<longleftrightarrow> a = b"
  by (metis read_show_nat)

lemma show_nat_not_dash: "CHR ''-'' # s \<noteq> show_nat n"
proof
  assume "CHR ''-'' # s = show_nat n"
  then have "CHR ''-'' \<in> set (show_nat n)" by (metis list.set_intros(1))
  then have "is_digit (CHR ''-'')" by (rule show_nat_digits)
  then show False by (simp add: is_digit_def)
qed

lemma show_int_inj [simp]: "show_int a = show_int b \<longleftrightarrow> a = b"
  using show_nat_not_dash show_nat_not_dash [symmetric] by (auto simp: show_int_def)

lemma show_int_chars: "c \<in> set (show_int i) \<Longrightarrow> is_digit c \<or> c = CHR ''-''"
  by (auto simp: show_int_def dest: show_nat_digits split: if_splits)


lemma colon_not_in_show_int [simp]: "CHR '':'' \<notin> set (show_int i)"
  by (auto dest!: show_int_chars simp: is_digit_def)

section \<open>Text helpers\<close>

text \<open>Python's \<open>sep.join(parts)\<close>, for a separator of one character.\<close>

fun join :: "char \<Rightarrow> string list \<Rightarrow> string" where
  "join sep [] = []"
| "join sep [x] = x"
| "join sep (x # y # xs) = x @ sep # join sep (y # xs)"

definition is_space :: "char \<Rightarrow> bool" where
  "is_space c \<longleftrightarrow> (of_char c :: nat) \<in> {9, 10, 11, 12, 13, 28, 29, 30, 31, 32, 133, 160}"

text \<open>\<open>s.strip()\<close>, and \<open>s.upper()\<close> / \<open>s.lower()\<close> on ASCII letters.\<close>

definition strip :: "string \<Rightarrow> string" where
  "strip s = rev (dropWhile is_space (rev (dropWhile is_space s)))"

text \<open>\<open>pat in s\<close>, for texts.\<close>

fun contains :: "string \<Rightarrow> string \<Rightarrow> bool" where
  "contains pat [] \<longleftrightarrow> pat = []"
| "contains pat (c # cs) \<longleftrightarrow> take (length pat) (c # cs) = pat \<or> contains pat cs"

definition upper_char :: "char \<Rightarrow> char" where
  "upper_char c = (let n = (of_char c :: nat) in if 97 \<le> n \<and> n \<le> 122 then char_of (n - 32) else c)"

definition lower_char :: "char \<Rightarrow> char" where
  "lower_char c = (let n = (of_char c :: nat) in if 65 \<le> n \<and> n \<le> 90 then char_of (n + 32) else c)"

definition upper :: "string \<Rightarrow> string" where
  "upper s = map upper_char s"

definition lower :: "string \<Rightarrow> string" where
  "lower s = map lower_char s"

text \<open>\<open>repr\<close> of a string: the quote is \<open>'\<close> unless the text has one and no double quote.\<close>

definition hex_digit :: "nat \<Rightarrow> char" where
  "hex_digit n = (if n < 10 then char_of (48 + n) else char_of (87 + n))"

definition repr_char :: "char \<Rightarrow> char \<Rightarrow> string" where
  "repr_char q c =
     (let n = (of_char c :: nat) in
      if c = q \<or> n = 92 then [char_of (92::nat), c]
      else if n = 10 then [char_of (92::nat), CHR ''n'']
      else if n = 13 then [char_of (92::nat), CHR ''r'']
      else if n = 9 then [char_of (92::nat), CHR ''t'']
      else if n < 32 \<or> 127 \<le> n \<and> n \<le> 160 \<or> n = 173
        then [char_of (92::nat), CHR ''x'', hex_digit (n div 16), hex_digit (n mod 16)]
      else [c])"

definition repr_str :: "string \<Rightarrow> string" where
  "repr_str s =
     (let q = (if char_of (39::nat) \<in> set s \<and> char_of (34::nat) \<notin> set s
               then char_of (34::nat) else char_of (39::nat))
      in [q] @ concat (map (repr_char q) s) @ [q])"

text \<open>
  The civil date of an instant in UTC and its texts: \<open>date().isoformat()\<close> and \<open>isoformat()\<close>. The
  date is computed from the days since the epoch over the 400-year cycle of the calendar, years
  counted from March.
\<close>

fun fixed_digits :: "nat \<Rightarrow> int \<Rightarrow> string" where
  "fixed_digits 0 n = []"
| "fixed_digits (Suc k) n = fixed_digits k (n div 10) @ [digit_char (nat (n mod 10))]"

definition civil_date :: "int \<Rightarrow> int \<times> int \<times> int" where
  "civil_date days =
     (let z = days + 719468;
          era = z div 146097;
          doe = z mod 146097;
          yoe = (doe - doe div 1460 + doe div 36524 - doe div 146096) div 365;
          doy = doe - (365 * yoe + yoe div 4 - yoe div 100);
          mp = (5 * doy + 2) div 153;
          d = doy - (153 * mp + 2) div 5 + 1;
          m = (if mp < 10 then mp + 3 else mp - 9)
      in (yoe + era * 400 + (if m \<le> 2 then 1 else 0), m, d))"

definition date_text :: "int \<Rightarrow> string" where
  "date_text t =
     (let (y, m, d) = civil_date (t div 86400000000)
      in fixed_digits 4 y @ ''-'' @ fixed_digits 2 m @ ''-'' @ fixed_digits 2 d)"

definition iso_text :: "int \<Rightarrow> string" where
  "iso_text t =
     (let s = t div 1000000; us = t mod 1000000
      in date_text t @ ''T'' @ fixed_digits 2 (s div 3600 mod 24) @ '':'' @
         fixed_digits 2 (s div 60 mod 60) @ '':'' @ fixed_digits 2 (s mod 60) @
         (if us = 0 then [] else ''.'' @ fixed_digits 6 us) @ ''+00:00'')"

text \<open>\<open>repr(v)\<close> and \<open>str(v)\<close>: they differ on strings only.\<close>

fun py_repr :: "pyval \<Rightarrow> string" where
  "py_repr PNone = ''None''"
| "py_repr (PBool b) = (if b then ''True'' else ''False'')"
| "py_repr (PInt i) = show_int i"
| "py_repr (PStr s) = repr_str s"
| "py_repr (PTime t) = repr_str (iso_text t)"
| "py_repr (PList xs) =
     ''['' @ concat (case map py_repr xs of [] \<Rightarrow> [] | y # ys \<Rightarrow> y # map (\<lambda>z. '', '' @ z) ys) @ '']''"
| "py_repr (PDict d) =
     ''{'' @ concat (case map (\<lambda>(k, v). repr_str k @ '': '' @ py_repr v) d of
                 [] \<Rightarrow> [] | y # ys \<Rightarrow> y # map (\<lambda>z. '', '' @ z) ys) @ ''}''"

definition py_str :: "pyval \<Rightarrow> string" where
  "py_str v = (case v of PStr s \<Rightarrow> s | PTime t \<Rightarrow> iso_text t | _ \<Rightarrow> py_repr v)"

lemma py_str_simps [simp, py_simps]:
  "py_str (PStr s) = s" "py_str PNone = ''None''" "py_str (PInt i) = show_int i"
  "py_str (PTime t) = iso_text t"
  by (simp_all add: py_str_def)

text \<open>
  \<open>int(v)\<close>: a text is stripped, may carry a sign, and may have single underscores between digits.
  The two idioms that read a field of a payload are \<open>str(d.get(k) or s)\<close> and \<open>int(d.get(k) or 0)\<close>.
\<close>

fun read_digits :: "bool \<Rightarrow> nat \<Rightarrow> string \<Rightarrow> nat option" where
  "read_digits seen a [] = (if seen then Some a else None)"
| "read_digits seen a (c # cs) =
     (if is_digit c then read_digits True (a * 10 + digit_value c) cs
      else if c = CHR ''_'' \<and> seen then read_digits False a cs
      else None)"

definition read_int :: "string \<Rightarrow> int option" where
  "read_int s =
     (case strip s of
        [] \<Rightarrow> None
      | c # cs \<Rightarrow>
          if c = CHR ''-'' then map_option (\<lambda>n. - int n) (read_digits False 0 cs)
          else if c = CHR ''+'' then map_option int (read_digits False 0 cs)
          else map_option int (read_digits False 0 (c # cs)))"

definition py_int :: "pyval \<Rightarrow> py_error + int" where
  "py_int v =
     (case v of
        PInt i \<Rightarrow> Inr i
      | PBool b \<Rightarrow> Inr (if b then 1 else 0)
      | PStr s \<Rightarrow> (case read_int s of Some i \<Rightarrow> Inr i | None \<Rightarrow> Inl ValueError)
      | PTime t \<Rightarrow> Inl ValueError
      | _ \<Rightarrow> Inl TypeError)"

definition text_or :: "pydict \<Rightarrow> string \<Rightarrow> string \<Rightarrow> string" where
  "text_or d k dflt = py_str (py_or (dget d k) (PStr dflt))"

definition int_or0 :: "pydict \<Rightarrow> string \<Rightarrow> py_error + int" where
  "int_or0 d k = py_int (py_or (dget d k) (PInt 0))"

text \<open>\<open>dict(d.get(k) or {})\<close>, for a value that is a dictionary when it is truthy.\<close>

definition dict_or :: "pydict \<Rightarrow> string \<Rightarrow> pydict" where
  "dict_or d k = (case dget d k of PDict e \<Rightarrow> e | _ \<Rightarrow> [])"

text \<open>Sequencing of computations that may raise.\<close>

fun bindE :: "'e + 'a \<Rightarrow> ('a \<Rightarrow> 'e + 'b) \<Rightarrow> 'e + 'b" where
  "bindE (Inl e) f = Inl e"
| "bindE (Inr x) f = f x"

lemma bindE_eq_Inr: "bindE m f = Inr y \<longleftrightarrow> (\<exists>x. m = Inr x \<and> f x = Inr y)"
  by (cases m) auto

lemma py_int_PInt [simp, py_simps]: "py_int (PInt i) = Inr i" "py_int (PBool b) = Inr (if b then 1 else 0)"
  by (simp_all add: py_int_def)

lemma read_digits_show: "(\<forall>c\<in>set s. is_digit c) \<Longrightarrow> seen \<or> s \<noteq> [] \<Longrightarrow>
    read_digits seen a s = Some (foldl (\<lambda>a c. a * 10 + digit_value c) a s)"
  by (induction s arbitrary: seen a) auto

lemma is_digit_not_space: "is_digit c \<Longrightarrow> \<not> is_space c"
  by (auto simp: is_digit_def is_space_def)

lemma dropWhile_hd: "xs = [] \<or> \<not> P (hd xs) \<Longrightarrow> dropWhile P xs = xs"
  by (cases xs) auto

lemma strip_no_edge: "s = [] \<or> \<not> is_space (hd s) \<and> \<not> is_space (last s) \<Longrightarrow> strip s = s"
  by (cases "s = []") (auto simp: strip_def dropWhile_hd hd_rev)

lemma show_nat_last_digit: "is_digit (last (show_nat n))" "is_digit (hd (show_nat n))"
  by (meson last_in_set hd_in_set show_nat_digits show_nat_nonempty)+

text \<open>Reading the decimal text of a number gives the number back.\<close>

lemma read_show_int: "read_int (show_int i) = Some i"
proof (cases "i < 0")
  case True
  have "strip (CHR ''-'' # show_nat (nat (- i))) = CHR ''-'' # show_nat (nat (- i))"
    using is_digit_not_space [OF show_nat_last_digit(1), of "nat (- i)"]
    by (intro strip_no_edge) (simp add: is_space_def [of "CHR ''-''"])
  with True show ?thesis
    using read_show_nat [of "nat (- i)"]
    by (simp add: read_int_def show_int_def read_digits_show show_nat_digits read_nat_def)
next
  case False
  have "strip (show_nat (nat i)) = show_nat (nat i)"
    using is_digit_not_space [OF show_nat_last_digit(1)] is_digit_not_space [OF show_nat_last_digit(2)]
    by (intro strip_no_edge) blast
  moreover obtain c cs where "show_nat (nat i) = c # cs" "is_digit c"
    using show_nat_last_digit(2) [of "nat i"] by (cases "show_nat (nat i)") auto
  moreover have "c \<noteq> CHR ''-''" "c \<noteq> CHR ''+''" if "is_digit c" for c
    using that by (auto simp: is_digit_def)
  ultimately show ?thesis
    using False read_show_nat [of "nat i"] read_digits_show [of "show_nat (nat i)" False 0] show_nat_digits [of _ "nat i"]
    by (simp add: read_int_def show_int_def read_nat_def)
qed

text \<open>A join of pieces free of the separator determines the pieces.\<close>

lemma join_sep_append:
  assumes "sep \<notin> set x" "sep \<notin> set y" "x @ sep # u = y @ sep # v"
  shows "x = y \<and> u = v"
  using assms
proof (induction x arbitrary: y)
  case Nil
  then show ?case by (cases y) auto
next
  case (Cons a x)
  then show ?case by (cases y) auto
qed

lemma join_inj:
  assumes "length xs = length ys" "\<forall>x\<in>set xs. sep \<notin> set x" "\<forall>y\<in>set ys. sep \<notin> set y"
    and "join sep xs = join sep ys"
  shows "xs = ys"
  using assms
proof (induction sep xs arbitrary: ys rule: join.induct)
  case (1 sep)
  then show ?case by simp
next
  case (2 sep x)
  then show ?case by (cases ys) (auto simp: length_Suc_conv)
next
  case (3 sep x y xs)
  then obtain x' y' ys' where ys: "ys = x' # y' # ys'" by (auto simp: length_Suc_conv Suc_length_conv)
  with "3.prems" have "x = x' \<and> join sep (y # xs) = join sep (y' # ys')"
    by (intro join_sep_append) auto
  with ys "3.IH" [of "y' # ys'"] "3.prems" show ?case by auto
qed

section \<open>Instants and stored time stamps\<close>

text \<open>
  An aware \<open>datetime\<close> is the number of microseconds since the epoch (UTC). A time stamp is the
  text the program stores for an instant: the empty string, or an ISO text that parses. The
  texts the program writes have one fixed format, so comparing them as strings compares the
  instants, and the empty string is below every other.
\<close>

type_synonym time = int

abbreviation second :: time where
  "second \<equiv> 1000000"

datatype stamp = Blank | At time

instantiation stamp :: linorder
begin

definition less_eq_stamp :: "stamp \<Rightarrow> stamp \<Rightarrow> bool" where
  "less_eq_stamp a b = (case (a, b) of
      (Blank, _) \<Rightarrow> True | (At _, Blank) \<Rightarrow> False | (At s, At t) \<Rightarrow> s \<le> t)"

definition less_stamp :: "stamp \<Rightarrow> stamp \<Rightarrow> bool" where
  "less_stamp a b = (case (a, b) of
      (_, Blank) \<Rightarrow> False | (Blank, At _) \<Rightarrow> True | (At s, At t) \<Rightarrow> s < t)"

instance
  by standard (auto simp: less_eq_stamp_def less_stamp_def split: stamp.splits)

end

lemma stamp_le_simps [simp]:
  "Blank \<le> s" "\<not> At t \<le> Blank" "At t \<le> At u \<longleftrightarrow> t \<le> u"
  "\<not> s < Blank" "Blank < At t" "At t < At u \<longleftrightarrow> t < u"
  by (auto simp: less_eq_stamp_def less_stamp_def split: stamp.splits)

text \<open>\<open>value.replace(microsecond=0)\<close>.\<close>

definition whole_second :: "time \<Rightarrow> time" where
  "whole_second t = t - t mod second"

lemma whole_second_le: "whole_second t \<le> t"
  by (simp add: whole_second_def)

lemma whole_second_idem [simp]: "whole_second (whole_second t) = whole_second t"
  by (simp add: whole_second_def mod_diff_left_eq [symmetric])

text \<open>A stamp as the text value it is stored as, and a payload value read as a stamp.\<close>

definition stamp_val :: "stamp \<Rightarrow> pyval" where
  "stamp_val s = (case s of Blank \<Rightarrow> PStr [] | At t \<Rightarrow> PTime t)"

definition val_stamp :: "pyval \<Rightarrow> stamp" where
  "val_stamp v = (case v of PTime t \<Rightarrow> At t | _ \<Rightarrow> Blank)"

lemma val_stamp_val [simp]: "val_stamp (stamp_val s) = s"
  by (cases s) (simp_all add: stamp_val_def val_stamp_def)

definition stamp_or :: "stamp \<Rightarrow> stamp \<Rightarrow> stamp" where
  "stamp_or a b = (if a \<noteq> Blank then a else b)"

section \<open>Removing duplicates, first occurrence kept\<close>

fun uniq_from :: "'a list \<Rightarrow> 'a list \<Rightarrow> 'a list" where
  "uniq_from seen [] = []"
| "uniq_from seen (x # xs) =
     (if x \<in> set seen then uniq_from seen xs else x # uniq_from (seen @ [x]) xs)"

text \<open>\<open>list(dict.fromkeys(xs))\<close>, and the same after dropping the empty strings.\<close>

definition uniq :: "'a list \<Rightarrow> 'a list" where
  "uniq xs = uniq_from [] xs"

definition uniq_nonempty :: "string list \<Rightarrow> string list" where
  "uniq_nonempty xs = uniq (filter (\<lambda>x. x \<noteq> []) xs)"

lemma set_uniq_from: "set (uniq_from seen xs) = set xs - set seen"
  by (induction seen xs rule: uniq_from.induct) auto

lemma distinct_uniq_from: "distinct (uniq_from seen xs)"
  by (induction seen xs rule: uniq_from.induct) (auto simp: set_uniq_from)

lemma set_uniq [simp]: "set (uniq xs) = set xs"
  by (simp add: uniq_def set_uniq_from)

lemma distinct_uniq [simp]: "distinct (uniq xs)"
  by (simp add: uniq_def distinct_uniq_from)

lemma set_uniq_nonempty [simp]: "set (uniq_nonempty xs) = set xs - {[]}"
  by (auto simp: uniq_nonempty_def)

lemma distinct_uniq_nonempty [simp]: "distinct (uniq_nonempty xs)"
  by (simp add: uniq_nonempty_def)

lemma uniq_from_distinct: "distinct xs \<Longrightarrow> set xs \<inter> set seen = {} \<Longrightarrow> uniq_from seen xs = xs"
  by (induction seen xs rule: uniq_from.induct) auto

lemma uniq_distinct: "distinct xs \<Longrightarrow> uniq xs = xs"
  by (simp add: uniq_def uniq_from_distinct)

lemma count_list_distinct: "distinct xs \<Longrightarrow> count_list xs x = (if x \<in> set xs then 1 else 0)"
  by (induction xs) auto

lemma uniq_eq_Nil [simp]: "uniq xs = [] \<longleftrightarrow> xs = []"
  by (metis set_empty set_uniq)

text \<open>The helper \<open>_dedupe\<close> that many modules share: texts stripped, empty ones and repetitions dropped.\<close>

definition dedupe :: "string list \<Rightarrow> string list" where
  "dedupe xs = uniq_nonempty (map strip xs)"

lemma set_dedupe [simp]: "set (dedupe xs) = strip ` set xs - {[]}"
  by (simp add: dedupe_def)

lemma distinct_dedupe [simp]: "distinct (dedupe xs)"
  by (simp add: dedupe_def)

lemma dropWhile_strip: "dropWhile P (dropWhile P xs) = dropWhile P xs"
  by (induction xs) auto

lemma last_dropWhile: "dropWhile P xs \<noteq> [] \<Longrightarrow> last (dropWhile P xs) = last xs"
  by (induction xs) auto

lemma strip_ends: "strip s = [] \<or> \<not> is_space (hd (strip s)) \<and> \<not> is_space (last (strip s))"
proof (cases "strip s = []")
  case False
  let ?t = "dropWhile is_space s" and ?u = "dropWhile is_space (rev (dropWhile is_space s))"
  have u: "?u \<noteq> []" using False by (simp add: strip_def)
  then have t: "?t \<noteq> []" by fastforce
  have "\<not> is_space (hd ?u)" "\<not> is_space (hd ?t)" using u t hd_dropWhile by blast+
  moreover have "last ?u = hd ?t" using u t by (simp add: last_dropWhile last_rev)
  ultimately show ?thesis using u by (simp add: strip_def hd_rev last_rev)
qed simp

lemma strip_strip [simp]: "strip (strip s) = strip s"
  by (rule strip_no_edge [OF strip_ends])

lemma dedupe_dedupe [simp]: "dedupe (dedupe xs) = dedupe xs"
proof -
  have "map strip (dedupe xs) = dedupe xs" by (rule map_idI) auto
  moreover have "filter (\<lambda>x. x \<noteq> []) (dedupe xs) = dedupe xs" by (rule filter_True) auto
  ultimately show ?thesis
    unfolding dedupe_def [of "dedupe xs"] uniq_nonempty_def by (simp add: uniq_distinct)
qed

section \<open>Sorting\<close>

text \<open>\<open>sorted(xs, key=f, reverse=True)\<close>, and a descending \<open>ORDER BY\<close>: elements with equal keys keep their order.\<close>

definition descending :: "('a \<Rightarrow> 'b :: linorder) \<Rightarrow> 'a list \<Rightarrow> 'a list" where
  "descending f xs = rev (sort_key f (rev xs))"

lemma mset_descending [simp]: "mset (descending f xs) = mset xs"
  by (simp add: descending_def)

lemma set_descending [simp]: "set (descending f xs) = set xs"
  by (simp add: descending_def)

lemma length_descending [simp]: "length (descending f xs) = length xs"
  by (simp add: descending_def)

lemma descending_Nil [simp]: "descending f [] = []" "descending f xs = [] \<longleftrightarrow> xs = []"
  by (simp add: descending_def) (metis length_0_conv length_descending)

lemma distinct_map_descending: "distinct (map g (descending f xs)) = distinct (map g xs)"
  by (metis mset_descending mset_eq_imp_distinct_iff mset_map)

lemma sorted_descending: "sorted_wrt (\<lambda>a b. f b \<le> f a) (descending f xs)"
proof -
  have "sorted (map f (sort_key f (rev xs)))" by simp
  then have "sorted_wrt (\<lambda>a b. f a \<le> f b) (sort_key f (rev xs))" by (simp add: sorted_wrt_map)
  then show ?thesis by (simp add: descending_def sorted_wrt_rev)
qed

section \<open>Insertion-ordered dictionaries\<close>

text \<open>
  A Python dict keeps the order of insertion: storing under a key that is present keeps its
  place, a new key goes to the end. \<open>AList.update\<close> and \<open>AList.delete\<close> do exactly that.
\<close>

lemma keys_update: "map fst (AList.update k v d) = (if k \<in> fst ` set d then map fst d else map fst d @ [k])"
  by (induction d) auto

lemma distinct_keys_update: "distinct (map fst d) \<Longrightarrow> distinct (map fst (AList.update k v d))"
  by (auto simp: keys_update)

lemma lookup_update [dict_simps]: "map_of (AList.update k v d) k' = (if k' = k then Some v else map_of d k')"
  by (simp add: update_conv')

lemma lookup_delete [dict_simps]: "map_of (AList.delete k d) k' = (if k' = k then None else map_of d k')"
  by (simp add: delete_conv')

lemma lookup_mem: "distinct (map fst d) \<Longrightarrow> (k, v) \<in> set d \<longleftrightarrow> map_of d k = Some v"
  by (metis map_of_SomeD map_of_is_SomeI)

lemma set_update_distinct:
  "distinct (map fst d) \<Longrightarrow>
   set (AList.update k v d) = insert (k, v) {p \<in> set d. fst p \<noteq> k}"
  by (induction d) (force simp: image_iff)+

lemma map_fst_filter_keys: "map fst (filter (\<lambda>(k, v). P k) d) = filter P (map fst d)"
  by (induction d) auto

lemma lookup_filter_keys: "map_of (filter (\<lambda>(k, v). P k) d) k = (if P k then map_of d k else None)"
  by (induction d) auto

text \<open>\<open>{f(x): x for x in xs}\<close>: the last element with a key wins, at the place of the first.\<close>

definition dict_of :: "('a \<Rightarrow> 'k) \<Rightarrow> 'a list \<Rightarrow> ('k \<times> 'a) list" where
  "dict_of f xs = fold (\<lambda>x d. AList.update (f x) x d) xs []"

lemma dict_of_snoc: "dict_of f (xs @ [x]) = AList.update (f x) x (dict_of f xs)"
  by (simp add: dict_of_def)

lemma distinct_dict_of [simp]: "distinct (map fst (dict_of f xs))"
  by (induction xs rule: rev_induct) (simp add: dict_of_def, simp add: dict_of_snoc distinct_keys_update)

lemma keys_dict_of: "fst ` set (dict_of f xs) = f ` set xs"
  by (induction xs rule: rev_induct) (simp add: dict_of_def, auto simp: dict_of_snoc dom_update)

lemma lookup_dict_of: "map_of (dict_of f xs) k = Some x \<Longrightarrow> x \<in> set xs \<and> f x = k"
  by (induction xs rule: rev_induct) (simp add: dict_of_def, auto simp: dict_of_snoc dict_simps split: if_splits)

lemma dict_of_member: "x \<in> set xs \<Longrightarrow> \<exists>y. map_of (dict_of f xs) (f x) = Some y"
  using keys_dict_of [of f xs] by (metis image_eqI map_of_eq_None_iff not_None_eq)

text \<open>
  What a client of a store relies on: a lookup right after a store returns the stored value, a
  store leaves every other key alone, and every store keeps the store's own invariant.
\<close>

locale keyed_table =
  fixes lookup :: "'s \<Rightarrow> 'k \<Rightarrow> 'v option"
    and store :: "'k \<Rightarrow> 'v \<Rightarrow> 's \<Rightarrow> 's"
    and ok :: "'s \<Rightarrow> bool"
  assumes lookup_store: "lookup (store k v s) k' = (if k' = k then Some v else lookup s k')"
    and ok_store: "ok s \<Longrightarrow> ok (store k v s)"
begin

lemma lookup_store_same: "lookup (store k v s) k = Some v"
  by (simp add: lookup_store)

lemma lookup_store_other: "k' \<noteq> k \<Longrightarrow> lookup (store k v s) k' = lookup s k'"
  by (simp add: lookup_store)

lemma store_twice: "lookup (store k w (store k v s)) = lookup (store k w s)"
  by (rule ext) (simp add: lookup_store)

lemma fold_store_other:
  "k \<notin> fst ` set kvs \<Longrightarrow> lookup (fold (\<lambda>(k, v). store k v) kvs s) k = lookup s k"
  by (induction kvs arbitrary: s) (auto simp: lookup_store)

lemma ok_fold_store: "ok s \<Longrightarrow> ok (fold (\<lambda>(k, v). store k v) kvs s)"
  by (induction kvs arbitrary: s) (auto simp: ok_store)

lemma dom_store: "dom (lookup (store k v s)) = insert k (dom (lookup s))"
  by (auto simp: lookup_store dom_def)

end

interpretation dict: keyed_table map_of AList.update "\<lambda>d. distinct (map fst d)"
  by unfold_locales (auto simp: lookup_update distinct_keys_update)

section \<open>Stable sorting\<close>

text \<open>\<open>sorted(xs, key=f)\<close> is \<open>sort_key f xs\<close>: sorted by the key, stable.\<close>

lemma sort_key_pairwise:
  "i < j \<Longrightarrow> j < length xs \<Longrightarrow> f (sort_key f xs ! i) \<le> f (sort_key f xs ! j)"
  by (metis (mono_tags, lifting) length_map length_sort less_imp_le_nat nth_map order.strict_trans
      sorted_nth_mono sorted_sort_key)

end
