(* ===== verification/Broker_Models.thy ===== *)
theory Broker_Models
  imports Prelude
begin

text \<open>
  The messages exchanged with the Kiwoom gateway (\<open>trading/broker/models.py\<close>): one record per
  frozen dataclass, with the dictionary form that \<open>to_dict\<close> writes and \<open>from_dict\<close> reads. A
  default that the code draws from the clock or from \<open>uuid4\<close> is an argument (\<open>now\<close>, \<open>fresh\<close>).
  \<open>BrokerPriceTick\<close> is left out: its fields are floats parsed from broker text.

  A field that holds a time stamp is a \<open>stamp\<close>: the texts in these fields are empty or ISO
  texts, as \<open>utc_timestamp\<close> writes them.
\<close>

section \<open>Messages\<close>

record broker_order_request =
  or_account :: string
  or_code :: string
  or_quantity :: int
  or_price :: int
  or_side :: string
  or_tag :: string
  or_order_type :: int
  or_hoga :: string
  or_original_order_no :: string
  or_command_id :: string
  or_idempotency_key :: string
  or_metadata :: pydict

record broker_order_result =
  res_ok :: bool
  res_code :: int
  res_message :: string
  res_request :: broker_order_request
  res_order_no :: string
  res_command_id :: string
  res_idempotency_key :: string
  res_raw :: pydict

record broker_execution_event =
  ex_code :: string
  ex_order_no :: string
  ex_side :: string
  ex_quantity :: int
  ex_price :: int
  ex_filled_quantity :: int
  ex_remaining_quantity :: int
  ex_tag :: string
  ex_account :: string
  ex_execution_id :: string
  ex_command_id :: string
  ex_idempotency_key :: string
  ex_timestamp :: stamp
  ex_raw :: pydict

record broker_condition_event =
  ce_condition_name :: string
  ce_code :: string
  ce_condition_index :: int
  ce_event_type :: string
  ce_source :: string
  ce_strategy_profile :: string
  ce_purpose :: string
  ce_timestamp :: stamp

record broker_tr_request =
  trq_rq_name :: string
  trq_tr_code :: string
  trq_screen_no :: string
  trq_inputs :: "(string \<times> string) list"
  trq_prev_next :: int
  trq_request_id :: string
  trq_command_id :: string

record broker_tr_response =
  trs_rq_name :: string
  trs_tr_code :: string
  trs_record_name :: string
  trs_prev_next :: string
  trs_rows :: "pydict list"
  trs_error_code :: string
  trs_message :: string
  trs_request_id :: string
  trs_timestamp :: stamp

record gateway_event =
  ge_type :: string
  ge_payload :: pydict
  ge_event_id :: string
  ge_request_id :: string
  ge_timestamp :: stamp
  ge_source :: string
  ge_command_id :: string
  ge_idempotency_key :: string

record gateway_command =
  gc_type :: string
  gc_payload :: pydict
  gc_command_id :: string
  gc_request_id :: string
  gc_timestamp :: stamp
  gc_source :: string
  gc_idempotency_key :: string

section \<open>Dictionary form\<close>

definition utc_timestamp :: "time \<Rightarrow> stamp" where
  "utc_timestamp now = At (whole_second now)"

definition time_or :: "pydict \<Rightarrow> string \<Rightarrow> time \<Rightarrow> stamp" where
  "time_or d k now = stamp_or (val_stamp (dget d k)) (utc_timestamp now)"

definition order_request_to_dict :: "broker_order_request \<Rightarrow> pydict" where
  "order_request_to_dict r =
     [(''account'', PStr (or_account r)), (''code'', PStr (or_code r)),
      (''quantity'', PInt (or_quantity r)), (''price'', PInt (or_price r)),
      (''side'', PStr (or_side r)), (''tag'', PStr (or_tag r)),
      (''order_type'', PInt (or_order_type r)), (''hoga'', PStr (or_hoga r)),
      (''original_order_no'', PStr (or_original_order_no r)),
      (''command_id'', PStr (or_command_id r)),
      (''idempotency_key'', PStr (or_idempotency_key r)),
      (''metadata'', PDict (or_metadata r))]"

definition order_request_from_dict :: "pydict \<Rightarrow> py_error + broker_order_request" where
  "order_request_from_dict d =
     bindE (int_or0 d ''quantity'') (\<lambda>quantity.
     bindE (int_or0 d ''price'') (\<lambda>price.
     bindE (int_or0 d ''order_type'') (\<lambda>order_type.
       Inr \<lparr>or_account = text_or d ''account'' [], or_code = text_or d ''code'' [],
            or_quantity = quantity, or_price = price, or_side = text_or d ''side'' [],
            or_tag = text_or d ''tag'' [], or_order_type = order_type,
            or_hoga = text_or d ''hoga'' ''00'',
            or_original_order_no = text_or d ''original_order_no'' [],
            or_command_id = text_or d ''command_id'' [],
            or_idempotency_key = text_or d ''idempotency_key'' [],
            or_metadata = dict_or d ''metadata''\<rparr>)))"

definition order_result_to_dict :: "broker_order_result \<Rightarrow> pydict" where
  "order_result_to_dict r =
     [(''ok'', PBool (res_ok r)), (''code'', PInt (res_code r)), (''message'', PStr (res_message r)),
      (''request'', PDict (order_request_to_dict (res_request r))),
      (''order_no'', PStr (res_order_no r)), (''command_id'', PStr (res_command_id r)),
      (''idempotency_key'', PStr (res_idempotency_key r)), (''raw'', PDict (res_raw r))]"

definition order_result_from_dict :: "pydict \<Rightarrow> py_error + broker_order_result" where
  "order_result_from_dict d =
     bindE (order_request_from_dict (dict_or d ''request'')) (\<lambda>request.
     bindE (py_int (py_or (dget_default d ''code'' (dget_default d ''result_code'' (PInt 0))) (PInt 0))) (\<lambda>code.
       Inr \<lparr>res_ok = truthy (dget d ''ok''), res_code = code, res_message = text_or d ''message'' [],
            res_request = request, res_order_no = text_or d ''order_no'' [],
            res_command_id = text_or d ''command_id'' (or_command_id request),
            res_idempotency_key = text_or d ''idempotency_key'' (or_idempotency_key request),
            res_raw = dict_or d ''raw''\<rparr>))"

definition execution_to_dict :: "broker_execution_event \<Rightarrow> pydict" where
  "execution_to_dict e =
     [(''code'', PStr (ex_code e)), (''order_no'', PStr (ex_order_no e)), (''side'', PStr (ex_side e)),
      (''quantity'', PInt (ex_quantity e)), (''price'', PInt (ex_price e)),
      (''filled_quantity'', PInt (ex_filled_quantity e)),
      (''remaining_quantity'', PInt (ex_remaining_quantity e)),
      (''tag'', PStr (ex_tag e)), (''account'', PStr (ex_account e)),
      (''execution_id'', PStr (ex_execution_id e)), (''command_id'', PStr (ex_command_id e)),
      (''idempotency_key'', PStr (ex_idempotency_key e)),
      (''timestamp'', stamp_val (ex_timestamp e)), (''raw'', PDict (ex_raw e))]"

definition execution_from_dict :: "time \<Rightarrow> pydict \<Rightarrow> py_error + broker_execution_event" where
  "execution_from_dict now d =
     bindE (int_or0 d ''quantity'') (\<lambda>quantity.
     bindE (int_or0 d ''price'') (\<lambda>price.
     bindE (int_or0 d ''filled_quantity'') (\<lambda>filled.
     bindE (int_or0 d ''remaining_quantity'') (\<lambda>remaining.
       Inr \<lparr>ex_code = text_or d ''code'' [], ex_order_no = text_or d ''order_no'' [],
            ex_side = text_or d ''side'' [], ex_quantity = quantity, ex_price = price,
            ex_filled_quantity = filled, ex_remaining_quantity = remaining,
            ex_tag = text_or d ''tag'' [], ex_account = text_or d ''account'' [],
            ex_execution_id = text_or d ''execution_id'' [],
            ex_command_id = text_or d ''command_id'' [],
            ex_idempotency_key = text_or d ''idempotency_key'' [],
            ex_timestamp = time_or d ''timestamp'' now, ex_raw = dict_or d ''raw''\<rparr>))))"

definition condition_event_to_dict :: "broker_condition_event \<Rightarrow> pydict" where
  "condition_event_to_dict e =
     [(''condition_name'', PStr (ce_condition_name e)), (''code'', PStr (ce_code e)),
      (''condition_index'', PInt (ce_condition_index e)), (''event_type'', PStr (ce_event_type e)),
      (''source'', PStr (ce_source e)), (''strategy_profile'', PStr (ce_strategy_profile e)),
      (''purpose'', PStr (ce_purpose e)), (''timestamp'', stamp_val (ce_timestamp e))]"

definition condition_event_from_dict :: "time \<Rightarrow> pydict \<Rightarrow> py_error + broker_condition_event" where
  "condition_event_from_dict now d =
     bindE (py_int (py_or (dget_default d ''condition_index'' (PInt (- 1))) (PInt (- 1)))) (\<lambda>index.
       Inr \<lparr>ce_condition_name = text_or d ''condition_name'' [], ce_code = text_or d ''code'' [],
            ce_condition_index = index, ce_event_type = text_or d ''event_type'' ''include'',
            ce_source = text_or d ''source'' ''condition'',
            ce_strategy_profile = text_or d ''strategy_profile'' [],
            ce_purpose = text_or d ''purpose'' [], ce_timestamp = time_or d ''timestamp'' now\<rparr>)"

definition tr_request_to_dict :: "broker_tr_request \<Rightarrow> pydict" where
  "tr_request_to_dict r =
     [(''rq_name'', PStr (trq_rq_name r)), (''tr_code'', PStr (trq_tr_code r)),
      (''screen_no'', PStr (trq_screen_no r)),
      (''inputs'', PDict (map (\<lambda>(k, v). (k, PStr v)) (trq_inputs r))),
      (''prev_next'', PInt (trq_prev_next r)), (''request_id'', PStr (trq_request_id r)),
      (''command_id'', PStr (trq_command_id r))]"

definition tr_request_from_dict :: "pydict \<Rightarrow> py_error + broker_tr_request" where
  "tr_request_from_dict d =
     bindE (int_or0 d ''prev_next'') (\<lambda>prev_next.
       Inr \<lparr>trq_rq_name = text_or d ''rq_name'' [], trq_tr_code = text_or d ''tr_code'' [],
            trq_screen_no = text_or d ''screen_no'' [],
            trq_inputs = map (\<lambda>(k, v). (k, py_str v)) (dict_or d ''inputs''),
            trq_prev_next = prev_next, trq_request_id = text_or d ''request_id'' [],
            trq_command_id = text_or d ''command_id'' []\<rparr>)"

text \<open>\<open>list(d.get(k) or [])\<close> with every row passed through \<open>dict\<close>.\<close>

definition row_list :: "pydict \<Rightarrow> string \<Rightarrow> pydict list" where
  "row_list d k =
     (case dget d k of PList rows \<Rightarrow> map (\<lambda>v. case v of PDict e \<Rightarrow> e | _ \<Rightarrow> []) rows | _ \<Rightarrow> [])"

definition tr_response_to_dict :: "broker_tr_response \<Rightarrow> pydict" where
  "tr_response_to_dict r =
     [(''rq_name'', PStr (trs_rq_name r)), (''tr_code'', PStr (trs_tr_code r)),
      (''record_name'', PStr (trs_record_name r)), (''prev_next'', PStr (trs_prev_next r)),
      (''rows'', PList (map PDict (trs_rows r))), (''error_code'', PStr (trs_error_code r)),
      (''message'', PStr (trs_message r)), (''request_id'', PStr (trs_request_id r)),
      (''timestamp'', stamp_val (trs_timestamp r))]"

definition tr_response_from_dict :: "time \<Rightarrow> pydict \<Rightarrow> broker_tr_response" where
  "tr_response_from_dict now d =
     \<lparr>trs_rq_name = text_or d ''rq_name'' [], trs_tr_code = text_or d ''tr_code'' [],
      trs_record_name = text_or d ''record_name'' [], trs_prev_next = text_or d ''prev_next'' [],
      trs_rows = row_list d ''rows'', trs_error_code = text_or d ''error_code'' [],
      trs_message = text_or d ''message'' [], trs_request_id = text_or d ''request_id'' [],
      trs_timestamp = time_or d ''timestamp'' now\<rparr>"

definition gateway_event_to_dict :: "gateway_event \<Rightarrow> pydict" where
  "gateway_event_to_dict e =
     [(''type'', PStr (ge_type e)), (''payload'', PDict (ge_payload e)),
      (''event_id'', PStr (ge_event_id e)), (''request_id'', PStr (ge_request_id e)),
      (''timestamp'', stamp_val (ge_timestamp e)), (''source'', PStr (ge_source e)),
      (''command_id'', PStr (ge_command_id e)), (''idempotency_key'', PStr (ge_idempotency_key e))]"

definition gateway_event_from_dict :: "string \<Rightarrow> time \<Rightarrow> pydict \<Rightarrow> gateway_event" where
  "gateway_event_from_dict fresh now d =
     \<lparr>ge_type = text_or d ''type'' [], ge_payload = dict_or d ''payload'',
      ge_event_id = text_or d ''event_id'' fresh, ge_request_id = text_or d ''request_id'' [],
      ge_timestamp = time_or d ''timestamp'' now, ge_source = text_or d ''source'' ''kiwoom_gateway'',
      ge_command_id = text_or d ''command_id'' [], ge_idempotency_key = text_or d ''idempotency_key'' []\<rparr>"

definition gateway_command_to_dict :: "gateway_command \<Rightarrow> pydict" where
  "gateway_command_to_dict c =
     [(''type'', PStr (gc_type c)), (''payload'', PDict (gc_payload c)),
      (''command_id'', PStr (gc_command_id c)), (''request_id'', PStr (gc_request_id c)),
      (''timestamp'', stamp_val (gc_timestamp c)), (''source'', PStr (gc_source c)),
      (''idempotency_key'', PStr (gc_idempotency_key c))]"

definition gateway_command_from_dict :: "string \<Rightarrow> time \<Rightarrow> pydict \<Rightarrow> gateway_command" where
  "gateway_command_from_dict fresh now d =
     \<lparr>gc_type = text_or d ''type'' [], gc_payload = dict_or d ''payload'',
      gc_command_id = text_or d ''command_id'' fresh, gc_request_id = text_or d ''request_id'' [],
      gc_timestamp = time_or d ''timestamp'' now, gc_source = text_or d ''source'' ''core'',
      gc_idempotency_key = text_or d ''idempotency_key'' []\<rparr>"

section \<open>Reading back what was written\<close>

named_theorems wire_defs "definitions of the dictionary forms"

lemmas [wire_defs] = order_request_to_dict_def order_request_from_dict_def
  order_result_to_dict_def order_result_from_dict_def execution_to_dict_def
  execution_from_dict_def condition_event_to_dict_def condition_event_from_dict_def
  tr_request_to_dict_def tr_request_from_dict_def tr_response_to_dict_def
  tr_response_from_dict_def gateway_event_to_dict_def gateway_event_from_dict_def
  gateway_command_to_dict_def gateway_command_from_dict_def

lemma text_or_str: "dget d k = PStr s \<Longrightarrow> text_or d k dflt = str_or s dflt"
  by (simp add: text_or_def py_or_def str_or_def)

lemma int_or0_int: "dget d k = PInt i \<Longrightarrow> int_or0 d k = Inr i"
  by (simp add: int_or0_def py_or_def)

lemma dict_or_dict: "dget d k = PDict e \<Longrightarrow> dict_or d k = e"
  by (simp add: dict_or_def)

lemma time_or_stamp: "dget d k = stamp_val s \<Longrightarrow> s \<noteq> Blank \<Longrightarrow> time_or d k now = s"
  by (simp add: time_or_def stamp_or_def)

lemma row_list_rows: "dget d k = PList (map PDict rows) \<Longrightarrow> row_list d k = rows"
  by (simp add: row_list_def o_def)

lemma dget_Cons: "dget ((k', v) # d) k = (if k = k' then v else dget d k)"
  by (simp add: dget_def)

lemmas wire_read = text_or_str int_or0_int dict_or_dict time_or_stamp row_list_rows
  dget_Cons str_or_def

lemma order_request_round_trip:
  "or_hoga r \<noteq> [] \<Longrightarrow> order_request_from_dict (order_request_to_dict r) = Inr r"
  by (simp add: wire_defs wire_read)

lemma tr_request_round_trip: "tr_request_from_dict (tr_request_to_dict r) = Inr r"
  by (simp add: wire_defs wire_read o_def case_prod_unfold)

lemma execution_round_trip:
  "ex_timestamp e \<noteq> Blank \<Longrightarrow> execution_from_dict now (execution_to_dict e) = Inr e"
  by (simp add: wire_defs wire_read)

lemma order_result_round_trip:
  assumes "or_hoga (res_request r) \<noteq> []"
    and "res_command_id r = [] \<Longrightarrow> or_command_id (res_request r) = []"
    and "res_idempotency_key r = [] \<Longrightarrow> or_idempotency_key (res_request r) = []"
  shows "order_result_from_dict (order_result_to_dict r) = Inr r"
proof -
  have "dict_or (order_result_to_dict r) ''request'' = order_request_to_dict (res_request r)"
    by (simp add: order_result_to_dict_def wire_read)
  with assms show ?thesis
    by (auto simp: order_result_from_dict_def order_request_round_trip)
       (auto simp: order_result_to_dict_def wire_read dget_default_def py_or_def)
qed

lemma condition_event_round_trip:
  assumes "ce_condition_index e \<noteq> 0" "ce_event_type e \<noteq> []" "ce_source e \<noteq> []" "ce_timestamp e \<noteq> Blank"
  shows "condition_event_from_dict now (condition_event_to_dict e) = Inr e"
  using assms by (simp add: wire_defs wire_read dget_default_def py_or_def)

lemma gateway_event_round_trip:
  "ge_event_id e \<noteq> [] \<Longrightarrow> ge_source e \<noteq> [] \<Longrightarrow> ge_timestamp e \<noteq> Blank \<Longrightarrow>
   gateway_event_from_dict fresh now (gateway_event_to_dict e) = e"
  by (simp add: wire_defs wire_read)

lemma gateway_command_round_trip:
  "gc_command_id c \<noteq> [] \<Longrightarrow> gc_source c \<noteq> [] \<Longrightarrow> gc_timestamp c \<noteq> Blank \<Longrightarrow>
   gateway_command_from_dict fresh now (gateway_command_to_dict c) = c"
  by (simp add: wire_defs wire_read)

lemma tr_response_round_trip:
  "trs_timestamp r \<noteq> Blank \<Longrightarrow> tr_response_from_dict now (tr_response_to_dict r) = r"
  by (simp add: wire_defs wire_read)

text \<open>
  A message as it travels: the constructors of the dataclasses, with the field values that the
  producers always set (\<open>complete\<close>) and the dictionary form of each.
\<close>

datatype message =
    OrderRequest broker_order_request
  | OrderResult broker_order_result
  | Execution broker_execution_event
  | ConditionEvent broker_condition_event
  | TrRequest broker_tr_request
  | TrResponse broker_tr_response
  | Event gateway_event
  | Command gateway_command

fun complete :: "message \<Rightarrow> bool" where
  "complete (OrderRequest r) \<longleftrightarrow> or_hoga r \<noteq> []"
| "complete (OrderResult r) \<longleftrightarrow> or_hoga (res_request r) \<noteq> [] \<and>
     (res_command_id r \<noteq> [] \<or> or_command_id (res_request r) = []) \<and>
     (res_idempotency_key r \<noteq> [] \<or> or_idempotency_key (res_request r) = [])"
| "complete (Execution e) \<longleftrightarrow> ex_timestamp e \<noteq> Blank"
| "complete (ConditionEvent e) \<longleftrightarrow> ce_condition_index e \<noteq> 0 \<and> ce_event_type e \<noteq> [] \<and>
     ce_source e \<noteq> [] \<and> ce_timestamp e \<noteq> Blank"
| "complete (TrRequest r) \<longleftrightarrow> True"
| "complete (TrResponse r) \<longleftrightarrow> trs_timestamp r \<noteq> Blank"
| "complete (Event e) \<longleftrightarrow> ge_event_id e \<noteq> [] \<and> ge_source e \<noteq> [] \<and> ge_timestamp e \<noteq> Blank"
| "complete (Command c) \<longleftrightarrow> gc_command_id c \<noteq> [] \<and> gc_source c \<noteq> [] \<and> gc_timestamp c \<noteq> Blank"

fun to_dict :: "message \<Rightarrow> pydict" where
  "to_dict (OrderRequest r) = order_request_to_dict r"
| "to_dict (OrderResult r) = order_result_to_dict r"
| "to_dict (Execution e) = execution_to_dict e"
| "to_dict (ConditionEvent e) = condition_event_to_dict e"
| "to_dict (TrRequest r) = tr_request_to_dict r"
| "to_dict (TrResponse r) = tr_response_to_dict r"
| "to_dict (Event e) = gateway_event_to_dict e"
| "to_dict (Command c) = gateway_command_to_dict c"

text \<open>Reading a dictionary with the \<open>from_dict\<close> of the class of a message.\<close>

fun from_dict_like :: "message \<Rightarrow> string \<Rightarrow> time \<Rightarrow> pydict \<Rightarrow> py_error + message" where
  "from_dict_like (OrderRequest _) fresh now d = map_sum id OrderRequest (order_request_from_dict d)"
| "from_dict_like (OrderResult _) fresh now d = map_sum id OrderResult (order_result_from_dict d)"
| "from_dict_like (Execution _) fresh now d = map_sum id Execution (execution_from_dict now d)"
| "from_dict_like (ConditionEvent _) fresh now d = map_sum id ConditionEvent (condition_event_from_dict now d)"
| "from_dict_like (TrRequest _) fresh now d = map_sum id TrRequest (tr_request_from_dict d)"
| "from_dict_like (TrResponse _) fresh now d = Inr (TrResponse (tr_response_from_dict now d))"
| "from_dict_like (Event _) fresh now d = Inr (Event (gateway_event_from_dict fresh now d))"
| "from_dict_like (Command _) fresh now d = Inr (Command (gateway_command_from_dict fresh now d))"

text \<open>Every complete message is read back exactly as it was written: \<open>from_dict\<close> of the
  message's class inverts \<open>to_dict\<close>, whatever the clock and the fresh identifier are.\<close>
lemma message_round_trip:
  assumes "complete msg"
  shows "from_dict_like msg fresh now (to_dict msg) = Inr msg"
  using assms
  by (cases msg)
    (auto simp: order_request_round_trip order_result_round_trip execution_round_trip
      condition_event_round_trip tr_request_round_trip tr_response_round_trip
      gateway_event_round_trip gateway_command_round_trip)

definition sample_execution :: broker_execution_event where
  "sample_execution = \<lparr>ex_code = ''005930'', ex_order_no = ''77'', ex_side = ''BUY'', ex_quantity = 3,
     ex_price = 70100, ex_filled_quantity = 3, ex_remaining_quantity = 0, ex_tag = [], ex_account = ''8100'',
     ex_execution_id = ''x1'', ex_command_id = [], ex_idempotency_key = [], ex_timestamp = At 5000000,
     ex_raw = []\<rparr>"

text \<open>\<open>from_dict\<close> cannot tell the condition with index 0 from a missing index: the first
  condition of the list is read back with index \<open>-1\<close>, and only that index is lost.\<close>
lemma condition_index_zero_lost:
  assumes "ce_event_type e \<noteq> []" "ce_source e \<noteq> []" "ce_timestamp e \<noteq> Blank"
  shows "condition_event_from_dict now (condition_event_to_dict e) =
           Inr (e\<lparr>ce_condition_index := (if ce_condition_index e = 0 then - 1 else ce_condition_index e)\<rparr>)"
  using assms by (simp add: wire_defs wire_read dget_default_def py_or_def)

definition sample_condition :: broker_condition_event where
  "sample_condition = \<lparr>ce_condition_name = ''gap'', ce_code = ''005930'', ce_condition_index = 0,
     ce_event_type = ''include'', ce_source = ''condition'', ce_strategy_profile = [], ce_purpose = [],
     ce_timestamp = At 5000000\<rparr>"

end
