(* ===== verification/Command_Queue.thy ===== *)
theory Command_Queue
  imports Broker_Models
begin

text \<open>
  The in-memory queue of commands for the Kiwoom gateway (\<open>trading/broker/command_queue.py\<close>): admission with duplicate detection,
  dispatch in priority order with a bounded number of attempts, acknowledgement, failure and
  retry, cancellation, expiry by time to live, and pruning of finished records.

  \<open>CommandQueue._records\<close> is the insertion-ordered dictionary \<open>q_records\<close>; a record that the
  code mutates in place is stored back under its key. The clock is an argument of every
  operation. The digest that the fallback duplicate key takes of the JSON text of a command is
  the parameter \<open>digest\<close>.
\<close>

section \<open>Data\<close>

datatype command_status =
    QUEUED | DISPATCHED | ACKED | REJECTED | FAILED | EXPIRED | CANCELLED
  | SKIPPED_READY | SKIPPED_ORDER_PENDING | SKIPPED_GATEWAY_UNHEALTHY
  | SKIPPED_NON_BACKFILL_PENDING | SKIPPED_NOT_OBSERVE_MODE | SKIPPED_REGULAR_SESSION
  | EXPIRED_BEFORE_DISPATCH | DUPLICATED_BUCKET

datatype command_priority = HIGH | NORMAL | LOW

definition FINISHED_STATUSES :: "command_status list" where
  "FINISHED_STATUSES = [ACKED, REJECTED, FAILED, EXPIRED, CANCELLED, SKIPPED_READY,
     SKIPPED_ORDER_PENDING, SKIPPED_GATEWAY_UNHEALTHY, SKIPPED_NON_BACKFILL_PENDING,
     SKIPPED_NOT_OBSERVE_MODE, SKIPPED_REGULAR_SESSION, EXPIRED_BEFORE_DISPATCH,
     DUPLICATED_BUCKET]"

definition ACTIVE_DEDUPE_STATUSES :: "command_status list" where
  "ACTIVE_DEDUPE_STATUSES = [QUEUED, DISPATCHED, ACKED]"

definition ORDER_COMMAND_TYPES :: "string list" where
  "ORDER_COMMAND_TYPES = [''send_order'', ''cancel_order'', ''modify_order'']"

definition COMMAND_CLASS_RANK :: "(string \<times> nat) list" where
  "COMMAND_CLASS_RANK = [(''ORDER'', 0), (''BROKER_RECONCILE'', 1), (''CONTROL'', 2),
     (''HYDRATION'', 3), (''BACKFILL'', 4)]"

definition DEFAULT_TTL_SEC :: "(string \<times> int) list" where
  "DEFAULT_TTL_SEC = [(''send_order'', 30), (''cancel_order'', 30), (''modify_order'', 30),
     (''tr_request'', 20), (''send_condition'', 60), (''register_realtime'', 60),
     (''remove_realtime'', 60), (''remove_all_realtime'', 60), (''stop_condition'', 60),
     (''load_conditions'', 120), (''login'', 120)]"

definition DEFAULT_MAX_ATTEMPTS :: "(string \<times> int) list" where
  "DEFAULT_MAX_ATTEMPTS = [(''send_order'', 1), (''cancel_order'', 1), (''modify_order'', 1),
     (''tr_request'', 2), (''send_condition'', 2), (''register_realtime'', 2),
     (''remove_realtime'', 2), (''remove_all_realtime'', 2), (''stop_condition'', 2),
     (''load_conditions'', 2), (''login'', 2)]"

record command_record =
  rec_command :: gateway_command
  rec_status :: command_status
  rec_priority :: command_priority
  rec_created_at :: stamp
  rec_dispatched_at :: stamp
  rec_acked_at :: stamp
  rec_finished_at :: stamp
  rec_expires_at :: stamp
  rec_attempts :: int
  rec_max_attempts :: int
  rec_last_error :: string
  rec_result_payload :: pydict
  rec_command_type :: string
  rec_command_id :: string
  rec_idempotency_key :: string
  rec_dedupe_key :: string
  rec_source :: string
  rec_metadata :: pydict

record enqueue_result =
  er_accepted :: bool
  er_record :: "command_record option"
  er_reason :: string
  er_duplicate_of :: string

record command_queue =
  q_records :: "(string \<times> command_record) list"
  q_sequence :: "string list"
  q_duplicate_rejected_count :: int
  q_rate_limited_count :: int
  q_last_command_at :: stamp
  q_last_order_command_at :: stamp

definition empty_queue :: command_queue where
  "empty_queue = \<lparr>q_records = [], q_sequence = [], q_duplicate_rejected_count = 0,
     q_rate_limited_count = 0, q_last_command_at = Blank, q_last_order_command_at = Blank\<rparr>"

section \<open>Helpers of the module\<close>

definition default_priority :: "string \<Rightarrow> command_priority" where
  "default_priority command_type =
     (if command_type \<in> set ORDER_COMMAND_TYPES then HIGH
      else if command_type \<in> {''login'', ''load_conditions''} then LOW
      else NORMAL)"

definition command_class_rank :: "command_record \<Rightarrow> nat" where
  "command_class_rank r =
     (let payload = gc_payload (rec_command r);
          given = upper (py_str (py_or (py_or (dget (rec_metadata r) ''command_class'')
                                              (dget payload ''command_class'')) (PStr [])));
          purpose = py_str (py_or (dget payload ''purpose'') (PStr []));
          command_class =
            (if given \<noteq> [] then given
             else if rec_command_type r \<in> set ORDER_COMMAND_TYPES then ''ORDER''
             else if purpose = ''broker_reconcile'' then ''BROKER_RECONCILE''
             else if purpose = ''candidate_hydration'' then ''HYDRATION''
             else if purpose \<noteq> [] then ''BACKFILL''
             else if rec_command_type r \<in> {''login'', ''load_conditions'', ''send_condition'',
                       ''register_realtime'', ''remove_realtime'', ''remove_all_realtime'',
                       ''stop_condition''} then ''CONTROL''
             else [])
      in case map_of COMMAND_CLASS_RANK command_class of Some n \<Rightarrow> n | None \<Rightarrow> 3)"

definition payload_text :: "pydict \<Rightarrow> string \<Rightarrow> string" where
  "payload_text payload k = py_str (dget_default payload k (PStr []))"

definition dedupe_key_for_command :: "(string \<Rightarrow> pydict \<Rightarrow> string) \<Rightarrow> gateway_command \<Rightarrow> string" where
  "dedupe_key_for_command digest c =
     (let payload = gc_payload c; ty = gc_type c; f = payload_text payload in
      if gc_idempotency_key c \<noteq> [] then gc_idempotency_key c
      else if ty = ''send_order'' then
        join (CHR '':'') [''order'', f ''account'', f ''code'', f ''side'', f ''quantity'', f ''price'', f ''tag'',
          py_str (py_or (py_or (dget payload ''strategy_order_id'') (dget payload ''candidate_id'')) (PStr []))]
      else if ty = ''cancel_order'' then
        join (CHR '':'') [''cancel'', f ''account'', f ''code'', f ''original_order_no'']
      else if ty = ''modify_order'' then
        join (CHR '':'') [''modify'', f ''account'', f ''code'', f ''original_order_no'', f ''quantity'', f ''price'']
      else if ty = ''tr_request'' then
        join (CHR '':'') [''tr'', f ''rq_name'', f ''tr_code'', f ''screen_no'',
          py_str (py_or (PStr (gc_request_id c)) (dget_default payload ''request_id'' (PStr [])))]
      else ty @ '':'' @ digest ty payload)"

text \<open>\<open>_parse_time\<close> raises on the empty text, and then the command does not expire.\<close>

definition is_expired :: "command_record \<Rightarrow> time \<Rightarrow> bool" where
  "is_expired r now = (case rec_expires_at r of Blank \<Rightarrow> False | At t \<Rightarrow> t \<le> now)"

definition rec_finished :: "command_record \<Rightarrow> bool" where
  "rec_finished r \<longleftrightarrow> rec_status r \<in> set FINISHED_STATUSES"

definition create_record ::
  "(string \<Rightarrow> pydict \<Rightarrow> string) \<Rightarrow> gateway_command \<Rightarrow> command_priority option \<Rightarrow> int option \<Rightarrow>
   int option \<Rightarrow> time \<Rightarrow> pydict \<Rightarrow> command_record" where
  "create_record digest c priority ttl_sec max_attempts now metadata =
     (let current = whole_second now;
          ty = gc_type c;
          ttl = (case ttl_sec of Some n \<Rightarrow> n | None \<Rightarrow>
                   (case map_of DEFAULT_TTL_SEC ty of Some n \<Rightarrow> n | None \<Rightarrow> 60));
          tries = (case max_attempts of Some n \<Rightarrow> n | None \<Rightarrow>
                   (case map_of DEFAULT_MAX_ATTEMPTS ty of Some n \<Rightarrow> n | None \<Rightarrow> 2))
      in \<lparr>rec_command = c, rec_status = QUEUED,
          rec_priority = (case priority of Some p \<Rightarrow> p | None \<Rightarrow> default_priority ty),
          rec_created_at = At current, rec_dispatched_at = Blank, rec_acked_at = Blank,
          rec_finished_at = Blank, rec_expires_at = At (current + max 1 ttl * second),
          rec_attempts = 0, rec_max_attempts = max 1 tries, rec_last_error = [],
          rec_result_payload = [], rec_command_type = ty, rec_command_id = gc_command_id c,
          rec_idempotency_key = gc_idempotency_key c,
          rec_dedupe_key = dedupe_key_for_command digest c, rec_source = gc_source c,
          rec_metadata = metadata\<rparr>)"

section \<open>The queue's operations\<close>

definition get_record :: "command_queue \<Rightarrow> string \<Rightarrow> command_record option" where
  "get_record q command_id = map_of (q_records q) command_id"

definition put_record :: "string \<Rightarrow> command_record \<Rightarrow> command_queue \<Rightarrow> command_queue" where
  "put_record k r q = q\<lparr>q_records := AList.update k r (q_records q)\<rparr>"

text \<open>\<open>_finish\<close>: an error text replaces the last one only when it is not empty.\<close>

definition finish_record ::
  "command_record \<Rightarrow> command_status \<Rightarrow> time \<Rightarrow> string \<Rightarrow> pydict option \<Rightarrow> command_record" where
  "finish_record r status now err payload =
     r\<lparr>rec_status := status,
       rec_finished_at := At (whole_second now),
       rec_last_error := (if err \<noteq> [] then err else rec_last_error r),
       rec_result_payload := (case payload of Some p \<Rightarrow> p | None \<Rightarrow> rec_result_payload r)\<rparr>"

definition active_duplicate :: "command_queue \<Rightarrow> string \<Rightarrow> command_record option" where
  "active_duplicate q key =
     (if key = [] then None
      else find (\<lambda>r. rec_dedupe_key r = key \<and> rec_status r \<in> set ACTIVE_DEDUPE_STATUSES)
             (map snd (q_records q)))"

definition has_duplicate :: "command_queue \<Rightarrow> string \<Rightarrow> bool" where
  "has_duplicate q key \<longleftrightarrow> active_duplicate q key \<noteq> None"

definition duplicate_of :: "command_queue \<Rightarrow> string \<Rightarrow> string" where
  "duplicate_of q key = (case active_duplicate q key of Some r \<Rightarrow> rec_command_id r | None \<Rightarrow> [])"

definition record_rate_limited :: "command_queue \<Rightarrow> command_queue" where
  "record_rate_limited q = q\<lparr>q_rate_limited_count := q_rate_limited_count q + 1\<rparr>"

definition enqueue ::
  "(string \<Rightarrow> pydict \<Rightarrow> string) \<Rightarrow> command_queue \<Rightarrow> gateway_command \<Rightarrow> command_priority option \<Rightarrow>
   int option \<Rightarrow> int option \<Rightarrow> time \<Rightarrow> pydict \<Rightarrow> command_queue \<times> enqueue_result" where
  "enqueue digest q c priority ttl_sec max_attempts now metadata =
     (if gc_command_id c = [] then
        (q, \<lparr>er_accepted = False, er_record = None, er_reason = ''COMMAND_ID_REQUIRED'', er_duplicate_of = []\<rparr>)
      else
        let r = create_record digest c priority ttl_sec max_attempts now metadata;
            id = rec_command_id r;
            rejected = q\<lparr>q_duplicate_rejected_count := q_duplicate_rejected_count q + 1\<rparr>
        in case active_duplicate q (rec_dedupe_key r) of
             Some d \<Rightarrow>
               (rejected, \<lparr>er_accepted = False, er_record = Some d, er_reason = ''DUPLICATE_COMMAND'',
                           er_duplicate_of = rec_command_id d\<rparr>)
           | None \<Rightarrow>
               (case get_record q id of
                  Some d \<Rightarrow>
                    (rejected, \<lparr>er_accepted = False, er_record = Some d,
                                er_reason = ''DUPLICATE_COMMAND_ID'', er_duplicate_of = id\<rparr>)
                | None \<Rightarrow>
                    ((put_record id r q)
                       \<lparr>q_sequence := q_sequence q @ [id],
                        q_last_command_at := rec_created_at r,
                        q_last_order_command_at :=
                          (if rec_command_type r \<in> set ORDER_COMMAND_TYPES then rec_created_at r
                           else q_last_order_command_at q)\<rparr>,
                     \<lparr>er_accepted = True, er_record = Some r, er_reason = [], er_duplicate_of = []\<rparr>)))"

definition restore :: "command_queue \<Rightarrow> command_record \<Rightarrow> command_queue" where
  "restore q r =
     (if rec_command_id r = [] then q
      else (put_record (rec_command_id r) r q)
        \<lparr>q_sequence := (if get_record q (rec_command_id r) = None
                        then q_sequence q @ [rec_command_id r] else q_sequence q),
         q_last_command_at :=
           (if q_last_command_at q = Blank \<or> q_last_command_at q < rec_created_at r
            then rec_created_at r else q_last_command_at q),
         q_last_order_command_at :=
           (if rec_command_type r \<in> set ORDER_COMMAND_TYPES \<and>
               (q_last_order_command_at q = Blank \<or> q_last_order_command_at q < rec_created_at r)
            then rec_created_at r else q_last_order_command_at q)\<rparr>)"

text \<open>\<open>expire_old\<close> visits every record; it returns the number it expired.\<close>

definition expires_now :: "time \<Rightarrow> command_record \<Rightarrow> bool" where
  "expires_now current r \<longleftrightarrow> \<not> rec_finished r \<and> is_expired r current"

definition expire_old :: "command_queue \<Rightarrow> time \<Rightarrow> command_queue \<times> int" where
  "expire_old q now =
     (let current = whole_second now in
      (q\<lparr>q_records := map (\<lambda>(k, r).
            (k, if expires_now current r
                then finish_record r EXPIRED current ''COMMAND_TTL_EXPIRED'' None else r)) (q_records q)\<rparr>,
       int (length (filter (\<lambda>(k, r). expires_now current r) (q_records q)))))"

fun priority_rank :: "command_priority \<Rightarrow> nat" where
  "priority_rank HIGH = 0"
| "priority_rank NORMAL = 1"
| "priority_rank LOW = 2"

definition dispatch_key :: "command_record \<Rightarrow> nat \<times> nat \<times> stamp" where
  "dispatch_key r = (priority_rank (rec_priority r), command_class_rank r, rec_created_at r)"

definition dispatch_candidates :: "command_queue \<Rightarrow> (string \<times> command_record) list" where
  "dispatch_candidates q =
     sort_key (\<lambda>(k, r). dispatch_key r)
       (concat (map (\<lambda>k. case get_record q k of
                          Some r \<Rightarrow> if rec_status r = QUEUED then [(k, r)] else []
                        | None \<Rightarrow> []) (q_sequence q)))"

definition mark_dispatched :: "time \<Rightarrow> command_record \<Rightarrow> command_record" where
  "mark_dispatched current r =
     r\<lparr>rec_status := DISPATCHED, rec_dispatched_at := At current, rec_attempts := rec_attempts r + 1\<rparr>"

fun dispatch_loop ::
  "time \<Rightarrow> int \<Rightarrow> (string \<times> command_record) list \<Rightarrow> command_queue \<Rightarrow> (string \<times> command_record) list \<Rightarrow>
   command_queue \<times> (string \<times> command_record) list" where
  "dispatch_loop current limit [] q selected = (q, selected)"
| "dispatch_loop current limit ((k, r) # cs) q selected =
     (if max 0 limit \<le> int (length selected) then (q, selected)
      else if rec_max_attempts r \<le> rec_attempts r then
        dispatch_loop current limit cs
          (put_record k (finish_record r FAILED current ''MAX_ATTEMPTS_EXCEEDED'' None) q) selected
      else
        dispatch_loop current limit cs (put_record k (mark_dispatched current r) q)
          (selected @ [(k, mark_dispatched current r)]))"

definition dispatch_records :: "command_queue \<Rightarrow> int \<Rightarrow> time \<Rightarrow> command_queue \<times> (string \<times> command_record) list" where
  "dispatch_records q limit now =
     (let current = whole_second now;
          q1 = fst (expire_old q current)
      in dispatch_loop current limit (dispatch_candidates q1) q1 [])"

definition dispatch :: "command_queue \<Rightarrow> int \<Rightarrow> time \<Rightarrow> command_queue \<times> gateway_command list" where
  "dispatch q limit now =
     (let (q', selected) = dispatch_records q limit now in (q', map (rec_command \<circ> snd) selected))"

definition ack ::
  "command_queue \<Rightarrow> string \<Rightarrow> command_status \<Rightarrow> pydict \<Rightarrow> string \<Rightarrow> time \<Rightarrow> command_queue \<times> bool" where
  "ack q command_id target result_payload err now =
     (case get_record q command_id of
        None \<Rightarrow> (q, False)
      | Some r \<Rightarrow>
          if target = DISPATCHED then
            (put_record command_id
               (r\<lparr>rec_status := DISPATCHED,
                  rec_dispatched_at := (if rec_dispatched_at r = Blank then At (whole_second now)
                                        else rec_dispatched_at r),
                  rec_result_payload := result_payload\<rparr>) q, True)
          else
            (put_record command_id
               (finish_record
                  (if target = ACKED then r\<lparr>rec_acked_at := At (whole_second now)\<rparr> else r)
                  target (whole_second now) err (Some result_payload)) q, True))"

definition fail_command ::
  "command_queue \<Rightarrow> string \<Rightarrow> string \<Rightarrow> bool \<Rightarrow> time \<Rightarrow> command_queue \<times> bool" where
  "fail_command q command_id err retryable now =
     (case get_record q command_id of
        None \<Rightarrow> (q, False)
      | Some r \<Rightarrow>
          let current = whole_second now; r1 = r\<lparr>rec_last_error := err\<rparr> in
          if retryable \<and> rec_attempts r1 < rec_max_attempts r1 \<and> \<not> is_expired r1 current then
            (put_record command_id (r1\<lparr>rec_status := QUEUED\<rparr>) q, True)
          else (put_record command_id (finish_record r1 FAILED current err None) q, True))"

definition cancel :: "command_queue \<Rightarrow> string \<Rightarrow> time \<Rightarrow> command_queue \<times> bool" where
  "cancel q command_id now =
     (case get_record q command_id of
        None \<Rightarrow> (q, False)
      | Some r \<Rightarrow>
          if rec_status r \<noteq> QUEUED then (q, False)
          else (put_record command_id (finish_record r CANCELLED (whole_second now) [] None) q, True))"

text \<open>\<open>prune\<close> removes the finished records older than the retention, from both containers.\<close>

definition prunable :: "int \<Rightarrow> time \<Rightarrow> command_record \<Rightarrow> bool" where
  "prunable older_than_sec current r \<longleftrightarrow> rec_finished r \<and>
     (case rec_finished_at r of Blank \<Rightarrow> False
      | At t \<Rightarrow> t + max 0 older_than_sec * second \<le> current)"

fun prune_loop :: "int \<Rightarrow> time \<Rightarrow> string list \<Rightarrow> command_queue \<Rightarrow> string list \<Rightarrow> int \<Rightarrow> command_queue \<times> int" where
  "prune_loop older_than_sec current [] q kept removed = (q\<lparr>q_sequence := kept\<rparr>, removed)"
| "prune_loop older_than_sec current (k # ks) q kept removed =
     (case get_record q k of
        None \<Rightarrow> prune_loop older_than_sec current ks q kept removed
      | Some r \<Rightarrow>
          if prunable older_than_sec current r then
            prune_loop older_than_sec current ks
              (q\<lparr>q_records := AList.delete k (q_records q)\<rparr>) kept (removed + 1)
          else prune_loop older_than_sec current ks q (kept @ [k]) removed)"

definition prune :: "command_queue \<Rightarrow> int \<Rightarrow> time \<Rightarrow> command_queue \<times> int" where
  "prune q older_than_sec now =
     prune_loop older_than_sec (whole_second now) (q_sequence q) q [] 0"

text \<open>
  \<open>list\<close> walks the sequence from the newest record; the length is tested after the append.
\<close>

fun list_loop ::
  "command_queue \<Rightarrow> command_status option \<Rightarrow> int \<Rightarrow> bool \<Rightarrow> string list \<Rightarrow> command_record list \<Rightarrow> command_record list" where
  "list_loop q target limit include_finished [] acc = acc"
| "list_loop q target limit include_finished (k # ks) acc =
     (case get_record q k of
        None \<Rightarrow> list_loop q target limit include_finished ks acc
      | Some r \<Rightarrow>
          if target \<noteq> None \<and> rec_status r \<noteq> the target then list_loop q target limit include_finished ks acc
          else if \<not> include_finished \<and> rec_finished r then list_loop q target limit include_finished ks acc
          else if max 0 limit \<le> int (length (acc @ [r])) then acc @ [r]
          else list_loop q target limit include_finished ks (acc @ [r]))"

definition list_records :: "command_queue \<Rightarrow> command_status option \<Rightarrow> int \<Rightarrow> bool \<Rightarrow> command_record list" where
  "list_records q target limit include_finished =
     list_loop q target limit include_finished (rev (q_sequence q)) []"

record queue_snapshot =
  qs_queued_count :: int
  qs_dispatched_count :: int
  qs_acked_count :: int
  qs_failed_count :: int
  qs_expired_count :: int
  qs_rejected_count :: int
  qs_cancelled_count :: int
  qs_skipped_count :: int
  qs_expired_before_dispatch_count :: int
  qs_duplicate_rejected_count :: int
  qs_last_command_at :: stamp
  qs_last_order_command_at :: stamp
  qs_rate_limited_count :: int
  qs_total_count :: int

definition status_count :: "command_queue \<Rightarrow> command_status \<Rightarrow> int" where
  "status_count q s = int (count_list (map (rec_status \<circ> snd) (q_records q)) s)"

definition queue_snapshot_of :: "command_queue \<Rightarrow> queue_snapshot" where
  "queue_snapshot_of q =
     \<lparr>qs_queued_count = status_count q QUEUED, qs_dispatched_count = status_count q DISPATCHED,
      qs_acked_count = status_count q ACKED, qs_failed_count = status_count q FAILED,
      qs_expired_count = status_count q EXPIRED, qs_rejected_count = status_count q REJECTED,
      qs_cancelled_count = status_count q CANCELLED,
      qs_skipped_count = sum_list (map (status_count q)
        [SKIPPED_READY, SKIPPED_ORDER_PENDING, SKIPPED_GATEWAY_UNHEALTHY,
         SKIPPED_NON_BACKFILL_PENDING, SKIPPED_NOT_OBSERVE_MODE]),
      qs_expired_before_dispatch_count = status_count q EXPIRED_BEFORE_DISPATCH,
      qs_duplicate_rejected_count = q_duplicate_rejected_count q,
      qs_last_command_at = q_last_command_at q, qs_last_order_command_at = q_last_order_command_at q,
      qs_rate_limited_count = q_rate_limited_count q,
      qs_total_count = int (length (q_records q))\<rparr>"

section \<open>One operation of the queue\<close>

datatype queue_op =
    Enqueue gateway_command "command_priority option" "int option" "int option" time pydict
  | Restore command_record
  | Dispatch int time
  | Ack string command_status pydict string time
  | Fail string string bool time
  | Cancel string time
  | ExpireOld time
  | Prune int time
  | RateLimited

fun apply_op :: "(string \<Rightarrow> pydict \<Rightarrow> string) \<Rightarrow> command_queue \<Rightarrow> queue_op \<Rightarrow> command_queue" where
  "apply_op digest q (Enqueue c p ttl tries now md) = fst (enqueue digest q c p ttl tries now md)"
| "apply_op digest q (Restore r) = restore q r"
| "apply_op digest q (Dispatch limit now) = fst (dispatch q limit now)"
| "apply_op digest q (Ack k s payload err now) = fst (ack q k s payload err now)"
| "apply_op digest q (Fail k err retryable now) = fst (fail_command q k err retryable now)"
| "apply_op digest q (Cancel k now) = fst (cancel q k now)"
| "apply_op digest q (ExpireOld now) = fst (expire_old q now)"
| "apply_op digest q (Prune s now) = fst (prune q s now)"
| "apply_op digest q RateLimited = record_rate_limited q"

definition run_ops :: "(string \<Rightarrow> pydict \<Rightarrow> string) \<Rightarrow> command_queue \<Rightarrow> queue_op list \<Rightarrow> command_queue" where
  "run_ops digest q ops = foldl (apply_op digest) q ops"

text \<open>The identifiers that an operation, and a whole run, hand to the gateway.\<close>

fun dispatched_ids :: "command_queue \<Rightarrow> queue_op \<Rightarrow> string list" where
  "dispatched_ids q (Dispatch limit now) = map fst (snd (dispatch_records q limit now))"
| "dispatched_ids q _ = []"

fun dispatch_trace :: "(string \<Rightarrow> pydict \<Rightarrow> string) \<Rightarrow> command_queue \<Rightarrow> queue_op list \<Rightarrow> string list" where
  "dispatch_trace digest q [] = []"
| "dispatch_trace digest q (x # xs) = dispatched_ids q x @ dispatch_trace digest (apply_op digest q x) xs"

end
