(* ===== verification/Command_Codec.thy ===== *)
theory Command_Codec
  imports Command_Queue
begin

text \<open>
  The dictionary form of a queue record (\<open>CommandRecord.to_dict\<close> and \<open>from_dict\<close> of
  \<open>trading/broker/command_queue.py\<close>), in which records are persisted and restored. \<open>from_dict\<close>
  accepts both nested dictionaries and JSON texts; the JSON reader is the parameter \<open>loads\<close>.
\<close>

fun status_value :: "command_status \<Rightarrow> string" where
  "status_value QUEUED = ''QUEUED''"
| "status_value DISPATCHED = ''DISPATCHED''"
| "status_value ACKED = ''ACKED''"
| "status_value REJECTED = ''REJECTED''"
| "status_value FAILED = ''FAILED''"
| "status_value EXPIRED = ''EXPIRED''"
| "status_value CANCELLED = ''CANCELLED''"
| "status_value SKIPPED_READY = ''SKIPPED_READY''"
| "status_value SKIPPED_ORDER_PENDING = ''SKIPPED_ORDER_PENDING''"
| "status_value SKIPPED_GATEWAY_UNHEALTHY = ''SKIPPED_GATEWAY_UNHEALTHY''"
| "status_value SKIPPED_NON_BACKFILL_PENDING = ''SKIPPED_NON_BACKFILL_PENDING''"
| "status_value SKIPPED_NOT_OBSERVE_MODE = ''SKIPPED_NOT_OBSERVE_MODE''"
| "status_value SKIPPED_REGULAR_SESSION = ''SKIPPED_REGULAR_SESSION''"
| "status_value EXPIRED_BEFORE_DISPATCH = ''EXPIRED_BEFORE_DISPATCH''"
| "status_value DUPLICATED_BUCKET = ''DUPLICATED_BUCKET''"

fun priority_value :: "command_priority \<Rightarrow> string" where
  "priority_value HIGH = ''HIGH''"
| "priority_value NORMAL = ''NORMAL''"
| "priority_value LOW = ''LOW''"

text \<open>The enum constructors \<open>CommandStatus(text)\<close> and \<open>CommandPriority(text)\<close>.\<close>

definition all_statuses :: "command_status list" where
  "all_statuses = [QUEUED, DISPATCHED] @ FINISHED_STATUSES"

definition status_of :: "string \<Rightarrow> command_status option" where
  "status_of s = find (\<lambda>st. status_value st = s) all_statuses"

definition priority_of :: "string \<Rightarrow> command_priority option" where
  "priority_of s = find (\<lambda>p. priority_value p = s) [HIGH, NORMAL, LOW]"

definition coerce_status :: "pyval \<Rightarrow> command_status" where
  "coerce_status v = (case status_of (py_str (py_or v (PStr ''QUEUED''))) of Some s \<Rightarrow> s | None \<Rightarrow> QUEUED)"

definition coerce_priority :: "pyval \<Rightarrow> command_priority" where
  "coerce_priority v = (case priority_of (py_str (py_or v (PStr ''NORMAL''))) of Some p \<Rightarrow> p | None \<Rightarrow> NORMAL)"

definition safe_int :: "pyval \<Rightarrow> int \<Rightarrow> int" where
  "safe_int v dflt = (case py_int v of Inr i \<Rightarrow> i | Inl _ \<Rightarrow> dflt)"

definition loads_mapping :: "(string \<Rightarrow> pyval option) \<Rightarrow> pyval \<Rightarrow> pydict" where
  "loads_mapping loads v =
     (case v of
        PDict d \<Rightarrow> d
      | _ \<Rightarrow> if \<not> truthy v then []
             else (case loads (py_str v) of Some (PDict d) \<Rightarrow> d | _ \<Rightarrow> []))"

definition record_to_dict :: "command_record \<Rightarrow> pydict" where
  "record_to_dict r =
     [(''command'', PDict (gateway_command_to_dict (rec_command r))),
      (''status'', PStr (status_value (rec_status r))),
      (''priority'', PStr (priority_value (rec_priority r))),
      (''created_at'', stamp_val (rec_created_at r)), (''dispatched_at'', stamp_val (rec_dispatched_at r)),
      (''acked_at'', stamp_val (rec_acked_at r)), (''finished_at'', stamp_val (rec_finished_at r)),
      (''expires_at'', stamp_val (rec_expires_at r)), (''attempts'', PInt (rec_attempts r)),
      (''max_attempts'', PInt (rec_max_attempts r)), (''last_error'', PStr (rec_last_error r)),
      (''result_payload'', PDict (rec_result_payload r)), (''command_type'', PStr (rec_command_type r)),
      (''command_id'', PStr (rec_command_id r)), (''idempotency_key'', PStr (rec_idempotency_key r)),
      (''dedupe_key'', PStr (rec_dedupe_key r)), (''source'', PStr (rec_source r)),
      (''metadata'', PDict (rec_metadata r))]"

definition raw_command_of :: "(string \<Rightarrow> pyval option) \<Rightarrow> pydict \<Rightarrow> pydict" where
  "raw_command_of loads data =
     (let raw_command = loads_mapping loads (py_or (dget data ''command'') (dget data ''command_json''));
          raw_payload = loads_mapping loads (py_or (dget data ''payload'') (dget data ''payload_json''))
      in if raw_command = [] then
           [(''type'', py_or (py_or (dget data ''command_type'') (dget data ''type'')) (PStr [])),
            (''command_id'', py_or (dget data ''command_id'') (PStr [])),
            (''request_id'', py_or (dget data ''request_id'') (PStr [])),
            (''source'', py_or (dget data ''source'') (PStr ''core'')),
            (''idempotency_key'', py_or (dget data ''idempotency_key'') (PStr [])),
            (''payload'', PDict raw_payload)]
         else if raw_payload \<noteq> [] \<and> \<not> truthy (dget raw_command ''payload'') then
           AList.update ''payload'' (PDict raw_payload) raw_command
         else raw_command)"

definition record_from_dict ::
  "(string \<Rightarrow> pydict \<Rightarrow> string) \<Rightarrow> (string \<Rightarrow> pyval option) \<Rightarrow> string \<Rightarrow> time \<Rightarrow> pydict \<Rightarrow> command_record" where
  "record_from_dict digest loads fresh now data =
     (let command = gateway_command_from_dict fresh now (raw_command_of loads data)
      in \<lparr>rec_command = command,
          rec_status = coerce_status (dget data ''status''),
          rec_priority = coerce_priority (dget data ''priority''),
          rec_created_at = stamp_or (stamp_or (val_stamp (dget data ''created_at'')) (gc_timestamp command))
                             (utc_timestamp now),
          rec_dispatched_at = val_stamp (dget data ''dispatched_at''),
          rec_acked_at = val_stamp (dget data ''acked_at''),
          rec_finished_at = val_stamp (dget data ''finished_at''),
          rec_expires_at = val_stamp (dget data ''expires_at''),
          rec_attempts = safe_int (dget data ''attempts'') 0,
          rec_max_attempts = max 1 (safe_int (dget data ''max_attempts'') 1),
          rec_last_error = text_or data ''last_error'' [],
          rec_result_payload = loads_mapping loads (py_or (dget data ''result_payload'') (dget data ''result_payload_json'')),
          rec_command_type = text_or data ''command_type'' (gc_type command),
          rec_command_id = text_or data ''command_id'' (gc_command_id command),
          rec_idempotency_key = text_or data ''idempotency_key'' (gc_idempotency_key command),
          rec_dedupe_key = text_or data ''dedupe_key'' (dedupe_key_for_command digest command),
          rec_source = text_or data ''source'' (gc_source command),
          rec_metadata = loads_mapping loads (py_or (dget data ''metadata'') (dget data ''metadata_json''))\<rparr>)"

definition enqueue_result_to_dict :: "enqueue_result \<Rightarrow> pydict" where
  "enqueue_result_to_dict r =
     [(''accepted'', PBool (er_accepted r)), (''reason'', PStr (er_reason r)),
      (''duplicate_of'', PStr (er_duplicate_of r)),
      (''record'', case er_record r of Some d \<Rightarrow> PDict (record_to_dict d) | None \<Rightarrow> PNone)]"

section \<open>Records survive persistence\<close>

lemma status_of_value [simp]: "status_of (status_value s) = Some s"
  by (cases s) (simp_all add: status_of_def all_statuses_def FINISHED_STATUSES_def)

lemma priority_of_value [simp]: "priority_of (priority_value p) = Some p"
  by (cases p) (simp_all add: priority_of_def)

lemma coerce_status_value [simp]: "coerce_status (PStr (status_value s)) = s"
  by (cases s) (simp_all add: coerce_status_def py_or_def status_of_def all_statuses_def FINISHED_STATUSES_def)

lemma coerce_priority_value [simp]: "coerce_priority (PStr (priority_value p)) = p"
  by (cases p) (simp_all add: coerce_priority_def py_or_def priority_of_def)

lemma loads_mapping_dict [simp]: "loads_mapping loads (PDict d) = d"
  by (simp add: loads_mapping_def)

lemma loads_mapping_or_none [simp]: "loads_mapping loads (py_or (PDict d) PNone) = d"
  by (cases "d = []") (simp_all add: py_or_def loads_mapping_def)

text \<open>The records that \<open>create\<close> makes of a complete command, after any of the queue's operations.\<close>

definition faithful_record :: "command_record \<Rightarrow> bool" where
  "faithful_record r \<longleftrightarrow> complete (Command (rec_command r)) \<and>
     rec_command_type r = gc_type (rec_command r) \<and> rec_command_id r = gc_command_id (rec_command r) \<and>
     rec_idempotency_key r = gc_idempotency_key (rec_command r) \<and>
     rec_source r = gc_source (rec_command r) \<and>
     rec_dedupe_key r \<noteq> [] \<and> rec_created_at r \<noteq> Blank \<and> 1 \<le> rec_max_attempts r"

lemma raw_command_of_record: "raw_command_of loads (record_to_dict r) = gateway_command_to_dict (rec_command r)"
proof -
  have "dget (record_to_dict r) ''command'' = PDict (gateway_command_to_dict (rec_command r))"
    and none: "dget (record_to_dict r) ''command_json'' = PNone" "dget (record_to_dict r) ''payload'' = PNone"
      "dget (record_to_dict r) ''payload_json'' = PNone"
    by (simp_all add: record_to_dict_def dget_def)
  moreover have "gateway_command_to_dict (rec_command r) \<noteq> []"
    by (simp add: gateway_command_to_dict_def)
  ultimately show ?thesis by (simp add: raw_command_of_def Let_def py_or_def loads_mapping_def)
qed

lemma record_fields:
  "dget (record_to_dict r) ''status'' = PStr (status_value (rec_status r))"
  "dget (record_to_dict r) ''priority'' = PStr (priority_value (rec_priority r))"
  "dget (record_to_dict r) ''created_at'' = stamp_val (rec_created_at r)"
  "dget (record_to_dict r) ''dispatched_at'' = stamp_val (rec_dispatched_at r)"
  "dget (record_to_dict r) ''acked_at'' = stamp_val (rec_acked_at r)"
  "dget (record_to_dict r) ''finished_at'' = stamp_val (rec_finished_at r)"
  "dget (record_to_dict r) ''expires_at'' = stamp_val (rec_expires_at r)"
  "dget (record_to_dict r) ''attempts'' = PInt (rec_attempts r)"
  "dget (record_to_dict r) ''max_attempts'' = PInt (rec_max_attempts r)"
  "dget (record_to_dict r) ''result_payload'' = PDict (rec_result_payload r)"
  "dget (record_to_dict r) ''result_payload_json'' = PNone"
  "dget (record_to_dict r) ''metadata'' = PDict (rec_metadata r)"
  "dget (record_to_dict r) ''metadata_json'' = PNone"
  "text_or (record_to_dict r) ''last_error'' [] = rec_last_error r"
  "text_or (record_to_dict r) ''command_type'' s = str_or (rec_command_type r) s"
  "text_or (record_to_dict r) ''command_id'' s = str_or (rec_command_id r) s"
  "text_or (record_to_dict r) ''idempotency_key'' s = str_or (rec_idempotency_key r) s"
  "text_or (record_to_dict r) ''dedupe_key'' s = str_or (rec_dedupe_key r) s"
  "text_or (record_to_dict r) ''source'' s = str_or (rec_source r) s"
  by (simp_all add: record_to_dict_def dget_def text_or_def py_or_def str_or_def)

text \<open>A record that was persisted as a dictionary is restored exactly: status, attempts, expiry
  and duplicate key included, whatever the JSON reader, the digest and the clock are.\<close>
lemma record_round_trip:
  assumes "faithful_record r"
  shows "record_from_dict digest loads fresh now (record_to_dict r) = r"
proof -
  have "gateway_command_from_dict fresh now (raw_command_of loads (record_to_dict r)) = rec_command r"
    using assms by (simp add: raw_command_of_record faithful_record_def gateway_command_round_trip)
  then show ?thesis
    using assms
    by (simp add: record_from_dict_def record_fields Let_def faithful_record_def safe_int_def str_or_def
        stamp_or_def)
qed

definition sample_command :: gateway_command where
  "sample_command = \<lparr>gc_type = ''send_order'', gc_payload = [(''code'', PStr ''005930'')],
     gc_command_id = ''cmd-1'', gc_request_id = [], gc_timestamp = At 1000000, gc_source = ''core'',
     gc_idempotency_key = ''k1''\<rparr>"

end
