(* ===== verification/Gateway_State.thy ===== *)
theory Gateway_State
  imports Command_Codec
begin

text \<open>
  The core's view of the gateway (\<open>trading/broker/gateway_state.py\<close>): the status record that events
  update, the set of event identifiers already seen, the bounded list of recent events, the latest
  ticks, and the command queue behind \<open>enqueue_command\<close>, \<open>dispatch_commands\<close>, \<open>ack_command\<close> and the
  others.

  The model is the store without a persistent command store (\<open>command_store = None\<close>). The event
  log is not part of the module; what its \<open>append_gateway_event\<close> reported for an event is the
  argument \<open>log\<close> of \<open>record_event\<close>. The lock makes every method atomic, so a method is a function
  of the state; an exception leaves the state as far as it was changed. Ages are microseconds.
\<close>

record gateway_status =
  gs_connection_state :: string
  gs_connected :: bool
  gs_kiwoom_logged_in :: bool
  gs_orderable :: bool
  gs_mode :: string
  gs_account :: string
  gs_last_heartbeat_at :: stamp
  gs_last_event_at :: stamp
  gs_last_error :: string
  gs_heartbeat_timeout_sec :: int
  gs_heartbeat_age :: "time option"
  gs_heartbeat_ok :: bool
  gs_pending_command_count :: int
  gs_received_event_count :: int
  gs_deduped_event_count :: int
  gs_event_log_append_error_count :: int
  gs_reconnect_count :: int
  gs_gateway_client_id :: string
  gs_event_log_last_warning :: string
  gs_last_heartbeat_payload :: pydict

record gateway_store =
  g_status :: gateway_status
  g_queue :: command_queue
  g_recent_events :: "gateway_event list"
  g_event_log_warnings :: "string list"
  g_seen_event_ids :: "string list"
  g_latest_ticks :: "(string \<times> pydict) list"
  g_max_recent_events :: nat
  g_max_event_log_warnings :: nat

definition initial_status :: "int \<Rightarrow> gateway_status" where
  "initial_status timeout_sec =
     \<lparr>gs_connection_state = ''DISCONNECTED'', gs_connected = False, gs_kiwoom_logged_in = False,
      gs_orderable = False, gs_mode = ''OBSERVE'', gs_account = [], gs_last_heartbeat_at = Blank,
      gs_last_event_at = Blank, gs_last_error = [], gs_heartbeat_timeout_sec = timeout_sec,
      gs_heartbeat_age = None, gs_heartbeat_ok = False, gs_pending_command_count = 0,
      gs_received_event_count = 0, gs_deduped_event_count = 0, gs_event_log_append_error_count = 0,
      gs_reconnect_count = 0, gs_gateway_client_id = [], gs_event_log_last_warning = [],
      gs_last_heartbeat_payload = []\<rparr>"

definition new_store :: "int \<Rightarrow> nat \<Rightarrow> nat \<Rightarrow> gateway_store" where
  "new_store timeout_sec max_recent max_warnings =
     \<lparr>g_status = initial_status timeout_sec, g_queue = empty_queue, g_recent_events = [],
      g_event_log_warnings = [], g_seen_event_ids = [], g_latest_ticks = [],
      g_max_recent_events = max_recent, g_max_event_log_warnings = max_warnings\<rparr>"

text \<open>The slice \<open>xs[-n:]\<close>: since \<open>-0\<close> is \<open>0\<close>, it is the whole list for \<open>n = 0\<close>.\<close>

definition last_slice :: "nat \<Rightarrow> 'a list \<Rightarrow> 'a list" where
  "last_slice n xs = (if n = 0 then xs else drop (length xs - n) xs)"

section \<open>Events\<close>

text \<open>
  \<open>_apply_heartbeat_status_locked\<close>; \<open>int(reconnect_count or 0)\<close> may raise, after the other
  fields were set.
\<close>

definition apply_heartbeat_status :: "time \<Rightarrow> gateway_event \<Rightarrow> gateway_status \<Rightarrow> gateway_status \<times> py_error option" where
  "apply_heartbeat_status now e st =
     (let p = ge_payload e;
          st1 = st\<lparr>gs_last_heartbeat_at := stamp_or (ge_timestamp e) (utc_timestamp now),
                   gs_last_heartbeat_payload := p,
                   gs_last_error := text_or p ''last_error'' [],
                   gs_kiwoom_logged_in := truthy (dget_default p ''kiwoom_logged_in'' (PBool (gs_kiwoom_logged_in st))),
                   gs_orderable := truthy (dget_default p ''orderable'' (PBool (gs_orderable st))),
                   gs_account := text_or p ''account'' (gs_account st),
                   gs_mode := str_or (text_or p ''mode'' (gs_mode st)) ''OBSERVE''\<rparr>
      in if dget p ''reconnect_count'' = PNone then (st1, None)
         else case int_or0 p ''reconnect_count'' of
                Inl err \<Rightarrow> (st1, Some err)
              | Inr n \<Rightarrow> (st1\<lparr>gs_reconnect_count := n\<rparr>, None))"

text \<open>The marks that every event leaves on the status before its type is looked at.\<close>

definition mark_connected :: "time \<Rightarrow> gateway_event \<Rightarrow> gateway_status \<Rightarrow> gateway_status" where
  "mark_connected now e st =
     st\<lparr>gs_connected := True, gs_connection_state := ''CONNECTED'',
        gs_last_event_at := stamp_or (ge_timestamp e) (utc_timestamp now),
        gs_gateway_client_id := str_or (ge_source e) (gs_gateway_client_id st)\<rparr>"

definition apply_event_type :: "time \<Rightarrow> gateway_event \<Rightarrow> gateway_store \<Rightarrow> gateway_store \<times> py_error option" where
  "apply_event_type now e s =
     (let st = g_status s; p = ge_payload e; ty = ge_type e in
      if ty = ''heartbeat'' then
        (let (st1, err) = apply_heartbeat_status now e st in (s\<lparr>g_status := st1\<rparr>, err))
      else if ty = ''login_status'' then
        (s\<lparr>g_status := st\<lparr>gs_kiwoom_logged_in := truthy (dget p ''logged_in''),
                           gs_last_error := text_or p ''message'' []\<rparr>\<rparr>, None)
      else if ty = ''orderability'' then
        (s\<lparr>g_status := st\<lparr>gs_orderable := truthy (dget p ''orderable''),
                           gs_account := text_or p ''account'' (gs_account st),
                           gs_mode := str_or (text_or p ''mode'' (gs_mode st)) ''OBSERVE''\<rparr>\<rparr>, None)
      else if ty = ''price_tick'' then
        (let code = text_or p ''code'' [] in
         (if code = [] then s else s\<lparr>g_latest_ticks := AList.update code p (g_latest_ticks s)\<rparr>, None))
      else if ty \<in> {''gateway_error'', ''error''} then
        (s\<lparr>g_status := st\<lparr>gs_last_error :=
             py_str (py_or (py_or (dget p ''message'') (dget p ''error'')) (PStr []))\<rparr>\<rparr>, None)
      else if ty = ''rate_limited'' then (s\<lparr>g_queue := record_rate_limited (g_queue s)\<rparr>, None)
      else (s, None))"

text \<open>What the event log reported for an event.\<close>

datatype log_outcome =
    NoEventLog
  | LogRaised string
  | LogResult (log_warning: string) (log_ignored: bool) (log_duplicate: bool) (log_appended: bool) (log_reason: string)

definition record_log_warning :: "string \<Rightarrow> gateway_store \<Rightarrow> gateway_store" where
  "record_log_warning warning s =
     (let ws = g_event_log_warnings s @ [warning]; n = g_max_event_log_warnings s in
      s\<lparr>g_status := (g_status s)
          \<lparr>gs_event_log_append_error_count := gs_event_log_append_error_count (g_status s) + 1,
           gs_event_log_last_warning := warning\<rparr>,
        g_event_log_warnings := (if n < length ws then last_slice n ws else ws)\<rparr>)"

definition append_event_log :: "log_outcome \<Rightarrow> gateway_event \<Rightarrow> gateway_store \<Rightarrow> gateway_store" where
  "append_event_log log e s =
     (case log of
        NoEventLog \<Rightarrow> s
      | LogRaised exc \<Rightarrow> record_log_warning (join (CHR '':'') [''EVENT_LOG_APPEND_FAILED'', ge_event_id e, exc]) s
      | LogResult warning ignored duplicate appended reason \<Rightarrow>
          if warning \<noteq> [] then record_log_warning warning s
          else if ignored \<or> duplicate then s
          else if \<not> appended then
            record_log_warning (join (CHR '':'') [''EVENT_LOG_APPEND_NOT_ACCEPTED'', ge_event_id e,
              str_or reason ''EVENT_LOG_APPEND_NOT_ACCEPTED'']) s
          else s)"

definition append_recent :: "gateway_event \<Rightarrow> gateway_store \<Rightarrow> gateway_store" where
  "append_recent e s =
     (let es = g_recent_events s @ [e]; n = g_max_recent_events s in
      s\<lparr>g_recent_events := (if n < length es then last_slice n es else es)\<rparr>)"

definition record_event :: "log_outcome \<Rightarrow> gateway_store \<Rightarrow> gateway_event \<Rightarrow> time \<Rightarrow> gateway_store \<times> (py_error + bool)" where
  "record_event log s e now =
     (if ge_event_id e \<in> set (g_seen_event_ids s) then
        (s\<lparr>g_status := (g_status s)\<lparr>gs_deduped_event_count := gs_deduped_event_count (g_status s) + 1\<rparr>\<rparr>, Inr False)
      else
        let s1 = s\<lparr>g_seen_event_ids := g_seen_event_ids s @ [ge_event_id e],
                   g_status := mark_connected now e
                     ((g_status s)\<lparr>gs_received_event_count := gs_received_event_count (g_status s) + 1\<rparr>)\<rparr>;
            (s2, err) = apply_event_type now e s1
        in case err of
             Some x \<Rightarrow> (s2, Inl x)
           | None \<Rightarrow> (append_event_log log e (append_recent e s2), Inr True))"

definition record_heartbeat_hint :: "gateway_store \<Rightarrow> gateway_event \<Rightarrow> time \<Rightarrow> gateway_store \<times> py_error option" where
  "record_heartbeat_hint s e now =
     (if ge_type e \<noteq> ''heartbeat'' then (s, None)
      else let (st, err) = apply_heartbeat_status now e (mark_connected now e (g_status s))
           in (s\<lparr>g_status := st\<rparr>, err))"

section \<open>Commands\<close>

definition refresh_pending :: "gateway_store \<Rightarrow> gateway_store" where
  "refresh_pending s =
     s\<lparr>g_status := (g_status s)\<lparr>gs_pending_command_count := qs_queued_count (queue_snapshot_of (g_queue s))\<rparr>\<rparr>"

definition enqueue_command ::
  "(string \<Rightarrow> pydict \<Rightarrow> string) \<Rightarrow> gateway_store \<Rightarrow> gateway_command \<Rightarrow> command_priority option \<Rightarrow>
   int option \<Rightarrow> int option \<Rightarrow> pydict \<Rightarrow> time \<Rightarrow> gateway_store \<times> enqueue_result" where
  "enqueue_command digest s c priority ttl_sec max_attempts metadata now =
     (let (q, result) = enqueue digest (g_queue s) c priority ttl_sec max_attempts now metadata
      in (refresh_pending (s\<lparr>g_queue := q\<rparr>), result))"

definition dispatch_commands :: "gateway_store \<Rightarrow> int \<Rightarrow> time \<Rightarrow> gateway_store \<times> gateway_command list" where
  "dispatch_commands s limit now =
     (let (q, commands) = dispatch (g_queue s) limit now in (refresh_pending (s\<lparr>g_queue := q\<rparr>), commands))"

definition ack_command ::
  "gateway_store \<Rightarrow> string \<Rightarrow> string \<Rightarrow> pydict \<Rightarrow> string \<Rightarrow> time \<Rightarrow> gateway_store \<times> (py_error + bool)" where
  "ack_command s command_id status result_payload err now =
     (case status_of status of
        None \<Rightarrow> (s, Inl ValueError)
      | Some target \<Rightarrow>
          let (q, ok) = ack (g_queue s) command_id target result_payload err now in (s\<lparr>g_queue := q\<rparr>, Inr ok))"

definition fail_gateway_command :: "gateway_store \<Rightarrow> string \<Rightarrow> string \<Rightarrow> bool \<Rightarrow> time \<Rightarrow> gateway_store \<times> bool" where
  "fail_gateway_command s command_id err retryable now =
     (let (q, ok) = Command_Queue.fail_command (g_queue s) command_id err retryable now in (s\<lparr>g_queue := q\<rparr>, ok))"

definition cancel_command :: "gateway_store \<Rightarrow> string \<Rightarrow> time \<Rightarrow> gateway_store \<times> bool" where
  "cancel_command s command_id now =
     (let (q, ok) = cancel (g_queue s) command_id now in (s\<lparr>g_queue := q\<rparr>, ok))"

definition expire_old_commands :: "gateway_store \<Rightarrow> time \<Rightarrow> gateway_store \<times> int" where
  "expire_old_commands s now =
     (let (q, n) = expire_old (g_queue s) now in (refresh_pending (s\<lparr>g_queue := q\<rparr>), n))"

definition prune_commands :: "gateway_store \<Rightarrow> int \<Rightarrow> time \<Rightarrow> gateway_store \<times> int" where
  "prune_commands s older_than_sec now =
     (let (q, n) = prune (g_queue s) older_than_sec now in (s\<lparr>g_queue := q\<rparr>, n))"

definition list_commands :: "gateway_store \<Rightarrow> command_status option \<Rightarrow> int \<Rightarrow> bool \<Rightarrow> pydict list" where
  "list_commands s status limit include_finished =
     map record_to_dict (list_records (g_queue s) status limit include_finished)"

definition command_snapshot :: "gateway_store \<Rightarrow> queue_snapshot \<times> int \<times> int" where
  "command_snapshot s =
     (let snap = queue_snapshot_of (g_queue s) in (snap, qs_dispatched_count snap, 0))"

text \<open>The trade date of an instant in Korea, nine hours ahead of UTC.\<close>

definition kst_trade_date :: "stamp \<Rightarrow> string" where
  "kst_trade_date s = (case s of Blank \<Rightarrow> [] | At t \<Rightarrow> date_text (t + 9 * 3600 * second))"

definition counts_as_order :: "string \<Rightarrow> string \<Rightarrow> string \<Rightarrow> string \<Rightarrow> int option \<Rightarrow> command_record \<Rightarrow> bool" where
  "counts_as_order trade_date code side tag order_type r \<longleftrightarrow>
     (let payload = gc_payload (rec_command r) in
      rec_command_type r \<in> set ORDER_COMMAND_TYPES \<and>
      kst_trade_date (rec_created_at r) = trade_date \<and>
      text_or payload ''code'' [] = code \<and>
      text_or payload ''side'' [] = side \<and>
      (tag = [] \<or> text_or payload ''tag'' [] = tag) \<and>
      (case order_type of None \<Rightarrow> True
       | Some n \<Rightarrow> (case int_or0 payload ''order_type'' of Inr m \<Rightarrow> m | Inl _ \<Rightarrow> - 1) = n))"

definition daily_order_command_count ::
  "gateway_store \<Rightarrow> string \<Rightarrow> string \<Rightarrow> string \<Rightarrow> string \<Rightarrow> int option \<Rightarrow> int" where
  "daily_order_command_count s trade_date code side tag order_type =
     int (length (filter (counts_as_order trade_date code side tag order_type)
       (list_records (g_queue s) None 10000 True)))"

section \<open>Reading the state\<close>

definition age_of :: "stamp \<Rightarrow> time \<Rightarrow> time option" where
  "age_of s now = (case s of Blank \<Rightarrow> None | At t \<Rightarrow> Some (max 0 (now - t)))"

definition snapshot_at :: "gateway_store \<Rightarrow> time \<Rightarrow> gateway_status" where
  "snapshot_at s now =
     (let st = g_status s;
          age = age_of (gs_last_heartbeat_at st) now;
          ok = (gs_connected st \<and> (case age of None \<Rightarrow> False | Some a \<Rightarrow> a \<le> gs_heartbeat_timeout_sec st * second))
      in st\<lparr>gs_pending_command_count := qs_queued_count (queue_snapshot_of (g_queue s)),
            gs_heartbeat_age := age, gs_heartbeat_ok := ok,
            gs_connection_state := (if gs_connected st \<and> \<not> ok then ''STALE'' else gs_connection_state st)\<rparr>)"

definition recent_events :: "gateway_store \<Rightarrow> int \<Rightarrow> gateway_event list" where
  "recent_events s limit = last_slice (nat limit) (g_recent_events s)"

definition latest_ticks :: "gateway_store \<Rightarrow> int \<Rightarrow> pydict list" where
  "latest_ticks s limit = last_slice (nat limit) (map snd (g_latest_ticks s))"

definition event_log_warnings :: "gateway_store \<Rightarrow> int \<Rightarrow> string list" where
  "event_log_warnings s limit = last_slice (nat limit) (g_event_log_warnings s)"

section \<open>Runs\<close>

datatype gateway_op =
    RecordEvent log_outcome gateway_event time
  | HeartbeatHint gateway_event time
  | EnqueueCommand gateway_command "command_priority option" "int option" "int option" pydict time
  | DispatchCommands int time
  | AckCommand string string pydict string time
  | FailCommand string string bool time
  | CancelCommand string time
  | ExpireOldCommands time
  | PruneCommands int time

fun gateway_step :: "(string \<Rightarrow> pydict \<Rightarrow> string) \<Rightarrow> gateway_store \<Rightarrow> gateway_op \<Rightarrow> gateway_store" where
  "gateway_step digest s (RecordEvent log e now) = fst (record_event log s e now)"
| "gateway_step digest s (HeartbeatHint e now) = fst (record_heartbeat_hint s e now)"
| "gateway_step digest s (EnqueueCommand c p ttl tries md now) = fst (enqueue_command digest s c p ttl tries md now)"
| "gateway_step digest s (DispatchCommands limit now) = fst (dispatch_commands s limit now)"
| "gateway_step digest s (AckCommand k st payload err now) = fst (ack_command s k st payload err now)"
| "gateway_step digest s (FailCommand k err retryable now) = fst (fail_gateway_command s k err retryable now)"
| "gateway_step digest s (CancelCommand k now) = fst (cancel_command s k now)"
| "gateway_step digest s (ExpireOldCommands now) = fst (expire_old_commands s now)"
| "gateway_step digest s (PruneCommands n now) = fst (prune_commands s n now)"

definition run_gateway :: "(string \<Rightarrow> pydict \<Rightarrow> string) \<Rightarrow> gateway_store \<Rightarrow> gateway_op list \<Rightarrow> gateway_store" where
  "run_gateway digest s ops = foldl (gateway_step digest) s ops"

section \<open>Events are taken once\<close>

text \<open>
  Every command operation leaves the event side of the store alone; only the queue and the count
  of pending commands change.
\<close>

definition event_side :: "gateway_store \<Rightarrow> gateway_event list \<times> string list \<times> string list \<times> nat \<times> nat" where
  "event_side s = (g_recent_events s, g_event_log_warnings s, g_seen_event_ids s, g_max_recent_events s,
     g_max_event_log_warnings s)"

definition heartbeat_side :: "gateway_store \<Rightarrow> int \<times> stamp \<times> int \<times> int \<times> bool" where
  "heartbeat_side s = (gs_heartbeat_timeout_sec (g_status s), gs_last_heartbeat_at (g_status s),
     gs_received_event_count (g_status s), gs_event_log_append_error_count (g_status s),
     gs_connected (g_status s))"

lemmas side_defs = event_side_def heartbeat_side_def

fun command_only :: "gateway_op \<Rightarrow> bool" where
  "command_only (RecordEvent _ _ _) = False"
| "command_only (HeartbeatHint _ _) = False"
| "command_only _ = True"

lemma command_step_sides:
  "command_only x \<Longrightarrow> event_side (gateway_step digest s x) = event_side s \<and>
     heartbeat_side (gateway_step digest s x) = heartbeat_side s"
  by (cases x)
    (auto simp: side_defs enqueue_command_def dispatch_commands_def ack_command_def Let_def
      fail_gateway_command_def cancel_command_def expire_old_commands_def prune_commands_def
      refresh_pending_def split: prod.splits option.splits)

lemma heartbeat_status_fields [simp]:
  "gs_received_event_count (fst (apply_heartbeat_status now e st)) = gs_received_event_count st"
  "gs_event_log_append_error_count (fst (apply_heartbeat_status now e st)) = gs_event_log_append_error_count st"
  "gs_heartbeat_timeout_sec (fst (apply_heartbeat_status now e st)) = gs_heartbeat_timeout_sec st"
  "gs_last_heartbeat_at (fst (apply_heartbeat_status now e st)) = stamp_or (ge_timestamp e) (utc_timestamp now)"
  by (auto simp: apply_heartbeat_status_def Let_def split: sum.splits)

lemma mark_connected_fields [simp]:
  "gs_received_event_count (mark_connected now e st) = gs_received_event_count st"
  "gs_event_log_append_error_count (mark_connected now e st) = gs_event_log_append_error_count st"
  "gs_heartbeat_timeout_sec (mark_connected now e st) = gs_heartbeat_timeout_sec st"
  "gs_last_heartbeat_at (mark_connected now e st) = gs_last_heartbeat_at st"
  by (simp_all add: mark_connected_def)

lemma event_type_sides:
  "event_side (fst (apply_event_type now e s)) = event_side s"
  "gs_received_event_count (g_status (fst (apply_event_type now e s))) = gs_received_event_count (g_status s)"
  "gs_event_log_append_error_count (g_status (fst (apply_event_type now e s))) = gs_event_log_append_error_count (g_status s)"
  "gs_heartbeat_timeout_sec (g_status (fst (apply_event_type now e s))) = gs_heartbeat_timeout_sec (g_status s)"
  "gs_last_heartbeat_at (g_status (fst (apply_event_type now e s))) =
     (if ge_type e = ''heartbeat'' then stamp_or (ge_timestamp e) (utc_timestamp now)
      else gs_last_heartbeat_at (g_status s))"
  by (auto simp: apply_event_type_def Let_def event_side_def case_prod_beta)

lemma log_warning_fields:
  "g_recent_events (append_event_log log e s) = g_recent_events s"
  "g_seen_event_ids (append_event_log log e s) = g_seen_event_ids s"
  "g_max_recent_events (append_event_log log e s) = g_max_recent_events s"
  "g_max_event_log_warnings (append_event_log log e s) = g_max_event_log_warnings s"
  "gs_received_event_count (g_status (append_event_log log e s)) = gs_received_event_count (g_status s)"
  "gs_heartbeat_timeout_sec (g_status (append_event_log log e s)) = gs_heartbeat_timeout_sec (g_status s)"
  "gs_last_heartbeat_at (g_status (append_event_log log e s)) = gs_last_heartbeat_at (g_status s)"
  by (auto simp: append_event_log_def record_log_warning_def Let_def split: log_outcome.splits)

lemma append_recent_fields:
  "g_seen_event_ids (append_recent e s) = g_seen_event_ids s"
  "g_event_log_warnings (append_recent e s) = g_event_log_warnings s"
  "g_max_recent_events (append_recent e s) = g_max_recent_events s"
  "g_max_event_log_warnings (append_recent e s) = g_max_event_log_warnings s"
  "g_status (append_recent e s) = g_status s"
  by (auto simp: append_recent_def Let_def)

lemma last_slice_drop: "\<exists>k. last_slice n xs = drop k xs"
  by (auto simp: last_slice_def intro: exI [of _ 0])

lemma length_last_slice: "n \<noteq> 0 \<Longrightarrow> length (last_slice n xs) = min n (length xs)"
  by (simp add: last_slice_def)

definition bounded :: "nat \<Rightarrow> 'a list \<Rightarrow> bool" where
  "bounded n xs \<longleftrightarrow> (n \<noteq> 0 \<longrightarrow> length xs \<le> n)"

lemma bounded_append: "bounded n (if n < length ys then last_slice n ys else ys)"
  by (auto simp: bounded_def length_last_slice)

text \<open>
  The invariant of the event side: an identifier is counted once, the recent events are distinct
  events that were counted, and both rings respect their bound.
\<close>

definition store_ok :: "gateway_store \<Rightarrow> bool" where
  "store_ok s \<longleftrightarrow>
     distinct (g_seen_event_ids s) \<and>
     gs_received_event_count (g_status s) = int (length (g_seen_event_ids s)) \<and>
     distinct (map ge_event_id (g_recent_events s)) \<and>
     ge_event_id ` set (g_recent_events s) \<subseteq> set (g_seen_event_ids s) \<and>
     bounded (g_max_recent_events s) (g_recent_events s) \<and>
     bounded (g_max_event_log_warnings s) (g_event_log_warnings s) \<and>
     int (length (g_event_log_warnings s)) \<le> gs_event_log_append_error_count (g_status s)"

lemma store_ok_sides:
  "event_side s' = event_side s \<Longrightarrow>
   gs_received_event_count (g_status s') = gs_received_event_count (g_status s) \<Longrightarrow>
   gs_event_log_append_error_count (g_status s') = gs_event_log_append_error_count (g_status s) \<Longrightarrow>
   store_ok s \<Longrightarrow> store_ok s'"
  by (simp add: store_ok_def event_side_def)

lemma store_ok_log: "store_ok s \<Longrightarrow> store_ok (append_event_log log e s)"
proof -
  assume ok: "store_ok s"
  have "store_ok (record_log_warning w s)" for w
    using ok bounded_append [of "g_max_event_log_warnings s" "g_event_log_warnings s @ [w]"]
    by (auto simp: store_ok_def record_log_warning_def Let_def length_last_slice last_slice_def)
  with ok show ?thesis by (auto simp: append_event_log_def split: log_outcome.splits)
qed

lemma store_ok_append:
  assumes "store_ok s" "ge_event_id e \<in> set (g_seen_event_ids s)" "ge_event_id e \<notin> ge_event_id ` set (g_recent_events s)"
  shows "store_ok (append_recent e s)"
proof -
  let ?es = "g_recent_events s @ [e]"
  obtain k where k: "last_slice (g_max_recent_events s) ?es = drop k ?es" using last_slice_drop by blast
  have d: "distinct (map ge_event_id ?es)" using assms by (auto simp: store_ok_def)
  have dk: "distinct (map ge_event_id (drop k ?es))"
    using distinct_drop [OF d, of k] by (simp only: drop_map)
  have "set (drop k ?es) \<subseteq> set ?es" by (rule set_drop_subset)
  with assms(1,2) have sub: "ge_event_id ` set (drop k ?es) \<subseteq> set (g_seen_event_ids s)"
    by (fastforce simp: store_ok_def)
  show ?thesis
    using assms d dk sub bounded_append [of "g_max_recent_events s" ?es]
    unfolding store_ok_def append_recent_def Let_def by (auto simp: k)
qed

lemma record_event_ok: "store_ok s \<Longrightarrow> store_ok (fst (record_event log s e now))"
proof (cases "ge_event_id e \<in> set (g_seen_event_ids s)")
  case True
  assume "store_ok s"
  with True show ?thesis
    by (auto simp: record_event_def event_side_def intro: store_ok_sides [rotated 3])
next
  case False
  assume ok: "store_ok s"
  define s1 where "s1 = s\<lparr>g_seen_event_ids := g_seen_event_ids s @ [ge_event_id e],
      g_status := mark_connected now e ((g_status s)\<lparr>gs_received_event_count := gs_received_event_count (g_status s) + 1\<rparr>)\<rparr>"
  define s2 where "s2 = fst (apply_event_type now e s1)"
  from ok False have ok1: "store_ok s1" by (auto simp: store_ok_def s1_def)
  then have ok2: "store_ok s2" unfolding s2_def by (rule store_ok_sides [OF event_type_sides(1-3)])
  have side: "event_side s2 = event_side s1" unfolding s2_def by (rule event_type_sides)
  have "store_ok (append_recent e s2)"
    using ok2
  proof (rule store_ok_append)
    show "ge_event_id e \<in> set (g_seen_event_ids s2)" using side by (simp add: event_side_def s1_def)
    show "ge_event_id e \<notin> ge_event_id ` set (g_recent_events s2)"
      using side ok False by (auto simp: event_side_def s1_def store_ok_def)
  qed
  then have "store_ok (append_event_log log e (append_recent e s2))" by (rule store_ok_log)
  with ok2 False show ?thesis
    unfolding record_event_def s2_def s1_def
    by (auto simp: Let_def split: prod.splits option.splits)
qed

lemma gateway_step_ok: "store_ok s \<Longrightarrow> store_ok (gateway_step digest s x)"
proof (cases "command_only x")
  case True
  assume "store_ok s"
  with command_step_sides [OF True, of digest s] show ?thesis
    by (auto simp: heartbeat_side_def intro: store_ok_sides)
next
  case False
  assume ok: "store_ok s"
  from False show ?thesis
  proof (cases x)
    case (HeartbeatHint e now)
    show ?thesis
      by (rule store_ok_sides [OF _ _ _ ok])
        (auto simp: HeartbeatHint record_heartbeat_hint_def event_side_def case_prod_beta)
  qed (auto simp: record_event_ok ok)
qed

lemma run_gateway_ok: "store_ok s \<Longrightarrow> store_ok (run_gateway digest s ops)"
  unfolding run_gateway_def by (induction ops arbitrary: s) (auto simp: gateway_step_ok)

lemma new_store_ok: "store_ok (new_store timeout_sec n w)"
  by (simp add: store_ok_def new_store_def initial_status_def bounded_def)

text \<open>The identifiers that a run records, and how many of the events were duplicates.\<close>

fun recorded_ids :: "gateway_op list \<Rightarrow> string list" where
  "recorded_ids [] = []"
| "recorded_ids (RecordEvent log e now # ops) = ge_event_id e # recorded_ids ops"
| "recorded_ids (_ # ops) = recorded_ids ops"

lemma recorded_ids_Cons: "recorded_ids (x # ops) = recorded_ids [x] @ recorded_ids ops"
  by (cases x) auto

lemma deduped_fields [simp]:
  "gs_deduped_event_count (fst (apply_heartbeat_status now e st)) = gs_deduped_event_count st"
  "gs_deduped_event_count (mark_connected now e st) = gs_deduped_event_count st"
  "gs_deduped_event_count (g_status (append_event_log log e s)) = gs_deduped_event_count (g_status s)"
  by (auto simp: apply_heartbeat_status_def mark_connected_def append_event_log_def record_log_warning_def Let_def
    split: sum.splits log_outcome.splits)

lemma event_type_deduped [simp]:
  "gs_deduped_event_count (g_status (fst (apply_event_type now e s))) = gs_deduped_event_count (g_status s)"
  by (auto simp: apply_event_type_def Let_def case_prod_beta)

lemma event_type_seen [simp]: "g_seen_event_ids (fst (apply_event_type now e s)) = g_seen_event_ids s"
  using event_type_sides(1) [of now e s] by (simp add: event_side_def)

lemma command_step_deduped:
  "command_only x \<Longrightarrow> gs_deduped_event_count (g_status (gateway_step digest s x)) = gs_deduped_event_count (g_status s)"
  by (cases x)
    (auto simp: enqueue_command_def dispatch_commands_def ack_command_def Let_def
      fail_gateway_command_def cancel_command_def expire_old_commands_def prune_commands_def
      refresh_pending_def split: prod.splits option.splits)

lemma gateway_step_ids:
  "set (g_seen_event_ids (gateway_step digest s x)) = set (g_seen_event_ids s) \<union> set (recorded_ids [x]) \<and>
   gs_received_event_count (g_status (gateway_step digest s x)) + gs_deduped_event_count (g_status (gateway_step digest s x)) =
     gs_received_event_count (g_status s) + gs_deduped_event_count (g_status s) + int (length (recorded_ids [x]))"
proof (cases "command_only x")
  case True
  with command_step_sides [OF True, of digest s] command_step_deduped [OF True, of digest s] show ?thesis
    by (cases x) (auto simp: side_defs)
next
  case False
  then show ?thesis
    by (cases x) (auto simp: record_event_def record_heartbeat_hint_def Let_def case_prod_beta log_warning_fields
      append_recent_fields event_type_sides(2) split: option.split)
qed

lemma run_gateway_ids:
  "set (g_seen_event_ids (run_gateway digest s ops)) = set (g_seen_event_ids s) \<union> set (recorded_ids ops) \<and>
   gs_received_event_count (g_status (run_gateway digest s ops)) + gs_deduped_event_count (g_status (run_gateway digest s ops)) =
     gs_received_event_count (g_status s) + gs_deduped_event_count (g_status s) + int (length (recorded_ids ops))"
proof (induction ops arbitrary: s)
  case (Cons x ops)
  have run: "run_gateway digest s (x # ops) = run_gateway digest (gateway_step digest s x) ops"
    by (simp add: run_gateway_def)
  have len: "length (recorded_ids (x # ops)) = length (recorded_ids [x]) + length (recorded_ids ops)"
    by (subst recorded_ids_Cons) simp
  have ids: "set (recorded_ids (x # ops)) = set (recorded_ids [x]) \<union> set (recorded_ids ops)"
    by (subst recorded_ids_Cons) simp
  from gateway_step_ids [of digest s x] Cons [of "gateway_step digest s x"] show ?case
    unfolding run len ids by auto
qed (simp add: run_gateway_def)

text \<open>C4: Over any run of the store, the identifiers taken in are those of the recorded events, each counted
  once, so the received and the duplicate events together are all that were recorded; the recent events
  are distinct, taken in, and within their bound; and recording an identifier that was recorded before is
  refused and changes nothing at all but the count of duplicates.\<close>
theorem gateway_events_taken_once:
  assumes "s = run_gateway digest (new_store timeout_sec n w) ops"
  shows "distinct (g_seen_event_ids s) \<and> set (g_seen_event_ids s) = set (recorded_ids ops) \<and>
     gs_received_event_count (g_status s) = int (length (g_seen_event_ids s)) \<and>
     gs_received_event_count (g_status s) + gs_deduped_event_count (g_status s) = int (length (recorded_ids ops)) \<and>
     distinct (map ge_event_id (g_recent_events s)) \<and>
     ge_event_id ` set (g_recent_events s) \<subseteq> set (g_seen_event_ids s) \<and>
     bounded (g_max_recent_events s) (g_recent_events s) \<and>
     (ge_event_id e \<in> set (recorded_ids ops) \<longrightarrow>
        record_event log s e now =
          (s\<lparr>g_status := (g_status s)\<lparr>gs_deduped_event_count := gs_deduped_event_count (g_status s) + 1\<rparr>\<rparr>, Inr False))"
proof -
  have ids: "set (g_seen_event_ids s) = set (recorded_ids ops)"
    "gs_received_event_count (g_status s) + gs_deduped_event_count (g_status s) = int (length (recorded_ids ops))"
    using run_gateway_ids [of digest "new_store timeout_sec n w" ops]
    by (simp_all add: assms new_store_def initial_status_def)
  have "store_ok s" using run_gateway_ok [OF new_store_ok] by (simp add: assms)
  then show ?thesis using ids by (simp add: store_ok_def record_event_def)
qed

definition heartbeat_event :: "string \<Rightarrow> time \<Rightarrow> pydict \<Rightarrow> gateway_event" where
  "heartbeat_event i t payload = \<lparr>ge_type = ''heartbeat'', ge_payload = payload, ge_event_id = i, ge_request_id = [],
     ge_timestamp = At t, ge_source = ''kiwoom_gateway'', ge_command_id = [], ge_idempotency_key = []\<rparr>"

definition heartbeat_run :: "gateway_op list" where
  "heartbeat_run = [RecordEvent NoEventLog (heartbeat_event ''e1'' 1000000 [(''orderable'', PBool True)]) 1000000,
     RecordEvent (LogRaised ''disk'') (heartbeat_event ''e2'' 9000000 []) 9000000]"

theorem gateway_events_taken_once_witness:
  "distinct (g_seen_event_ids (run_gateway (\<lambda>_ _. []) (new_store 15 200 50) heartbeat_run)) \<and>
   snd (record_event NoEventLog (run_gateway (\<lambda>_ _. []) (new_store 15 200 50) heartbeat_run)
          (heartbeat_event ''e1'' 12000000 []) 12000000) = Inr False"
proof -
  have "ge_event_id (heartbeat_event ''e1'' 12000000 []) \<in> set (recorded_ids heartbeat_run)"
    by code_simp
  then show ?thesis
    using gateway_events_taken_once [OF refl, of "\<lambda>_ _. []" 15 200 50 heartbeat_run
        "heartbeat_event ''e1'' 12000000 []" NoEventLog 12000000] by simp
qed

section \<open>Health comes from heartbeats only\<close>

text \<open>The time stamps of the heartbeats that a run carries.\<close>

fun heartbeat_stamps :: "gateway_op list \<Rightarrow> stamp list" where
  "heartbeat_stamps [] = []"
| "heartbeat_stamps (RecordEvent log e now # ops) =
     (if ge_type e = ''heartbeat'' then stamp_or (ge_timestamp e) (utc_timestamp now) # heartbeat_stamps ops
      else heartbeat_stamps ops)"
| "heartbeat_stamps (HeartbeatHint e now # ops) =
     (if ge_type e = ''heartbeat'' then stamp_or (ge_timestamp e) (utc_timestamp now) # heartbeat_stamps ops
      else heartbeat_stamps ops)"
| "heartbeat_stamps (_ # ops) = heartbeat_stamps ops"

lemma record_event_heartbeat:
  "gs_heartbeat_timeout_sec (g_status (fst (record_event log s e now))) = gs_heartbeat_timeout_sec (g_status s)"
  "gs_last_heartbeat_at (g_status (fst (record_event log s e now))) =
     (if ge_type e = ''heartbeat'' \<and> ge_event_id e \<notin> set (g_seen_event_ids s)
      then stamp_or (ge_timestamp e) (utc_timestamp now) else gs_last_heartbeat_at (g_status s))"
  by (simp_all add: record_event_def Let_def case_prod_beta log_warning_fields append_recent_fields
      event_type_sides(4,5) split: option.split)

lemma heartbeat_hint_status:
  "gs_heartbeat_timeout_sec (g_status (fst (record_heartbeat_hint s e now))) = gs_heartbeat_timeout_sec (g_status s)"
  "gs_last_heartbeat_at (g_status (fst (record_heartbeat_hint s e now))) =
     (if ge_type e = ''heartbeat'' then stamp_or (ge_timestamp e) (utc_timestamp now)
      else gs_last_heartbeat_at (g_status s))"
  by (simp_all add: record_heartbeat_hint_def case_prod_beta)

lemma step_heartbeat_at:
  "gs_heartbeat_timeout_sec (g_status (gateway_step digest s x)) = gs_heartbeat_timeout_sec (g_status s) \<and>
   gs_last_heartbeat_at (g_status (gateway_step digest s x)) \<in>
     insert (gs_last_heartbeat_at (g_status s)) (set (heartbeat_stamps [x]))"
proof (cases "command_only x")
  case True
  with command_step_sides [OF True, of digest s] show ?thesis by (simp add: heartbeat_side_def)
next
  case False
  then show ?thesis by (cases x) (simp_all add: record_event_heartbeat heartbeat_hint_status)
qed

lemma heartbeat_stamps_Cons: "set (heartbeat_stamps (x # ops)) = set (heartbeat_stamps [x]) \<union> set (heartbeat_stamps ops)"
  by (cases x) auto

lemma run_timeout: "gs_heartbeat_timeout_sec (g_status (run_gateway digest s ops)) = gs_heartbeat_timeout_sec (g_status s)"
  unfolding run_gateway_def by (induction ops arbitrary: s) (simp_all add: step_heartbeat_at)

lemma run_heartbeat_at:
  "gs_last_heartbeat_at (g_status (run_gateway digest s ops)) \<in>
     insert (gs_last_heartbeat_at (g_status s)) (set (heartbeat_stamps ops))"
  unfolding run_gateway_def
proof (induction ops arbitrary: s)
  case (Cons x ops)
  have "A \<in> insert C (D \<union> E)" if "A \<in> insert B E" "B \<in> insert C D" for A B C :: stamp and D E
    using that by blast
  from this [OF Cons.IH [of "gateway_step digest s x"] conjunct2 [OF step_heartbeat_at [of digest s x]]]
  show ?case by (simp only: foldl.simps heartbeat_stamps_Cons [of x ops])
qed simp

text \<open>The gateway is reported healthy only while a heartbeat, recorded or hinted during the run,
  is at most the timeout old; ticks, acknowledgements and command traffic never keep it healthy, and
  a connected gateway without such a heartbeat is reported \<open>STALE\<close>.\<close>
lemma heartbeat_ok_needs_recent_heartbeat:
  assumes s: "s = run_gateway digest (new_store timeout_sec n w) ops"
    and old: "\<forall>t. At t \<in> set (heartbeat_stamps ops) \<longrightarrow> t + timeout_sec * second < now"
  shows "\<not> gs_heartbeat_ok (snapshot_at s now) \<and>
     (gs_connected (g_status s) \<longrightarrow> gs_connection_state (snapshot_at s now) = ''STALE'')"
proof -
  have "gs_last_heartbeat_at (g_status s) \<in> insert Blank (set (heartbeat_stamps ops))"
    using run_heartbeat_at [of digest "new_store timeout_sec n w" ops]
    by (simp add: s new_store_def initial_status_def)
  moreover have "gs_heartbeat_timeout_sec (g_status s) = timeout_sec"
    by (simp add: s run_timeout) (simp add: new_store_def initial_status_def)
  ultimately show ?thesis
    using old by (auto simp: snapshot_at_def Let_def age_of_def split: stamp.splits)
qed

text \<open>A heartbeat whose reconnect count is not a number is lost for good: recording it raises,
  its identifier stays among the seen ones while the event is in no list, and sending it again is
  refused as a duplicate.\<close>
lemma malformed_heartbeat_is_lost:
  assumes "ge_type e = ''heartbeat''" "ge_event_id e \<notin> set (g_seen_event_ids s)"
    and "dget (ge_payload e) ''reconnect_count'' \<noteq> PNone" "int_or0 (ge_payload e) ''reconnect_count'' = Inl err"
    and s': "s' = fst (record_event log s e now)"
  shows "snd (record_event log s e now) = Inl err \<and> g_recent_events s' = g_recent_events s \<and>
     ge_event_id e \<in> set (g_seen_event_ids s') \<and> snd (record_event log' s' e now') = Inr False"
  using assms
  by (simp add: record_event_def apply_event_type_def apply_heartbeat_status_def Let_def)

end
