(* ===== verification/Command_Store.thy ===== *)
theory Command_Store
  imports Gateway_State Command_Codec
begin

text \<open>
  The persistent store of gateway commands (\<open>SQLiteCommandStore\<close> in
  \<open>trading/broker/command_persistence.py\<close>): three tables, for commands, their events and the duplicate keys.
  A table with a text primary key is an insertion-ordered dictionary, so \<open>ON CONFLICT DO UPDATE\<close> keeps the
  place of a row; rows with equal sort keys come in the order of insertion. A JSON column holds
  the value that its text stands for. The clock is the argument \<open>now\<close> of every operation that
  reads it; the callers pass none of their own.
\<close>

section \<open>Rows\<close>

record command_row =
  cr_command_id :: string
  cr_request_id :: string
  cr_command_type :: string
  cr_status :: string
  cr_priority :: string
  cr_idempotency_key :: string
  cr_dedupe_key :: string
  cr_source :: string
  cr_payload :: pydict
  cr_command :: pydict
  cr_metadata :: pydict
  cr_result_payload :: pydict
  cr_last_error :: string
  cr_created_at :: stamp
  cr_updated_at :: stamp
  cr_dispatched_at :: stamp
  cr_acked_at :: stamp
  cr_finished_at :: stamp
  cr_expires_at :: stamp
  cr_attempts :: int
  cr_max_attempts :: int
  cr_trade_date :: string

record dedupe_row =
  dk_dedupe_key :: string
  dk_command_id :: string
  dk_command_type :: string
  dk_idempotency_key :: string
  dk_status :: string
  dk_trade_date :: string
  dk_created_at :: stamp
  dk_updated_at :: stamp
  dk_expires_at :: stamp
  dk_metadata :: pydict

record command_event_row =
  ev_id :: nat
  ev_command_id :: string
  ev_event_type :: string
  ev_status_from :: string
  ev_status_to :: string
  ev_message :: string
  ev_payload :: pydict
  ev_created_at :: stamp

record command_store =
  cs_commands :: "(string \<times> command_row) list"
  cs_dedupe :: "(string \<times> dedupe_row) list"
  cs_events :: "command_event_row list"
  cs_next_event_id :: nat
  cs_dedupe_retention_sec :: int
  cs_history_retention_sec :: int

definition open_store :: "int \<Rightarrow> int \<Rightarrow> command_store" where
  "open_store dedupe_retention history_retention =
     \<lparr>cs_commands = [], cs_dedupe = [], cs_events = [], cs_next_event_id = 1,
      cs_dedupe_retention_sec = dedupe_retention, cs_history_retention_sec = history_retention\<rparr>"

text \<open>What reading a row back takes from outside: the digest, the JSON reader, a fresh identifier.\<close>

record codec =
  cx_digest :: "string \<Rightarrow> pydict \<Rightarrow> string"
  cx_loads :: "string \<Rightarrow> pyval option"
  cx_fresh :: string

definition row_of_record :: "time \<Rightarrow> command_record \<Rightarrow> command_row" where
  "row_of_record now r =
     \<lparr>cr_command_id = rec_command_id r, cr_request_id = gc_request_id (rec_command r),
      cr_command_type = rec_command_type r, cr_status = status_value (rec_status r),
      cr_priority = priority_value (rec_priority r), cr_idempotency_key = rec_idempotency_key r,
      cr_dedupe_key = rec_dedupe_key r, cr_source = rec_source r, cr_payload = gc_payload (rec_command r),
      cr_command = gateway_command_to_dict (rec_command r), cr_metadata = rec_metadata r,
      cr_result_payload = rec_result_payload r, cr_last_error = rec_last_error r,
      cr_created_at = rec_created_at r, cr_updated_at = utc_timestamp now, cr_dispatched_at = rec_dispatched_at r,
      cr_acked_at = rec_acked_at r, cr_finished_at = rec_finished_at r, cr_expires_at = rec_expires_at r,
      cr_attempts = rec_attempts r, cr_max_attempts = rec_max_attempts r,
      cr_trade_date = kst_trade_date (rec_created_at r)\<rparr>"

definition row_dict :: "command_row \<Rightarrow> pydict" where
  "row_dict w =
     [(''command_id'', PStr (cr_command_id w)), (''request_id'', PStr (cr_request_id w)),
      (''command_type'', PStr (cr_command_type w)), (''status'', PStr (cr_status w)),
      (''priority'', PStr (cr_priority w)), (''idempotency_key'', PStr (cr_idempotency_key w)),
      (''dedupe_key'', PStr (cr_dedupe_key w)), (''source'', PStr (cr_source w)),
      (''payload_json'', PDict (cr_payload w)), (''command_json'', PDict (cr_command w)),
      (''metadata_json'', PDict (cr_metadata w)), (''result_payload_json'', PDict (cr_result_payload w)),
      (''last_error'', PStr (cr_last_error w)), (''created_at'', stamp_val (cr_created_at w)),
      (''updated_at'', stamp_val (cr_updated_at w)), (''dispatched_at'', stamp_val (cr_dispatched_at w)),
      (''acked_at'', stamp_val (cr_acked_at w)), (''finished_at'', stamp_val (cr_finished_at w)),
      (''expires_at'', stamp_val (cr_expires_at w)), (''attempts'', PInt (cr_attempts w)),
      (''max_attempts'', PInt (cr_max_attempts w)), (''trade_date'', PStr (cr_trade_date w))]"

definition row_to_record :: "codec \<Rightarrow> time \<Rightarrow> command_row \<Rightarrow> command_record" where
  "row_to_record x now w = record_from_dict (cx_digest x) (cx_loads x) (cx_fresh x) now (row_dict w)"

section \<open>Writing rows\<close>

definition insert_event :: "string \<Rightarrow> string \<Rightarrow> string \<Rightarrow> string \<Rightarrow> string \<Rightarrow> pydict \<Rightarrow> stamp \<Rightarrow> command_store \<Rightarrow> command_store" where
  "insert_event command_id event_type status_from status_to message payload created_at db =
     db\<lparr>cs_events := cs_events db @
          [\<lparr>ev_id = cs_next_event_id db, ev_command_id = command_id, ev_event_type = event_type,
            ev_status_from = status_from, ev_status_to = status_to, ev_message = message,
            ev_payload = payload, ev_created_at = created_at\<rparr>],
        cs_next_event_id := cs_next_event_id db + 1\<rparr>"

definition append_event ::
  "string \<Rightarrow> string \<Rightarrow> string \<Rightarrow> string \<Rightarrow> string \<Rightarrow> pydict \<Rightarrow> stamp \<Rightarrow> time \<Rightarrow> command_store \<Rightarrow> command_store" where
  "append_event command_id event_type status_from status_to message payload created_at now db =
     insert_event command_id event_type status_from status_to message payload
       (stamp_or created_at (utc_timestamp now)) db"

definition put_row :: "string \<Rightarrow> command_row \<Rightarrow> command_store \<Rightarrow> command_store" where
  "put_row k w db = db\<lparr>cs_commands := AList.update k w (cs_commands db)\<rparr>"

definition get_row :: "command_store \<Rightarrow> string \<Rightarrow> command_row option" where
  "get_row db k = map_of (cs_commands db) k"

text \<open>On conflict every column but the identifier and \<open>created_at\<close> is overwritten.\<close>

definition upsert_row :: "time \<Rightarrow> command_record \<Rightarrow> command_store \<Rightarrow> command_store" where
  "upsert_row now r db =
     (let w = row_of_record now r in
      put_row (rec_command_id r)
        (case get_row db (rec_command_id r) of
           None \<Rightarrow> w
         | Some old \<Rightarrow> w\<lparr>cr_created_at := cr_created_at old\<rparr>) db)"

definition RETAINED_CONTROL_DEDUPE_COMMAND_TYPES :: "string list" where
  "RETAINED_CONTROL_DEDUPE_COMMAND_TYPES = [''register_realtime'', ''remove_all_realtime'']"

definition dedupe_expires_at :: "command_record \<Rightarrow> int \<Rightarrow> time \<Rightarrow> stamp" where
  "dedupe_expires_at r retention_sec now =
     (let retained = At (whole_second now + max 1 retention_sec * second) in
      if rec_command_type r \<in> set ORDER_COMMAND_TYPES \<or>
         rec_command_type r \<in> set RETAINED_CONTROL_DEDUPE_COMMAND_TYPES then retained
      else stamp_or (rec_expires_at r) retained)"

definition upsert_dedupe :: "time \<Rightarrow> int option \<Rightarrow> command_record \<Rightarrow> command_store \<Rightarrow> command_store" where
  "upsert_dedupe now retention_sec r db =
     (let key = rec_dedupe_key r;
          retention = (case retention_sec of None \<Rightarrow> cs_dedupe_retention_sec db | Some n \<Rightarrow> n)
      in if key = [] then db
         else db\<lparr>cs_dedupe := AList.update key
           \<lparr>dk_dedupe_key = key, dk_command_id = rec_command_id r, dk_command_type = rec_command_type r,
            dk_idempotency_key = rec_idempotency_key r, dk_status = status_value (rec_status r),
            dk_trade_date = kst_trade_date (rec_created_at r),
            dk_created_at = (case map_of (cs_dedupe db) key of
               None \<Rightarrow> rec_created_at r | Some old \<Rightarrow> dk_created_at old),
            dk_updated_at = utc_timestamp now, dk_expires_at = dedupe_expires_at r retention now,
            dk_metadata = rec_metadata r\<rparr> (cs_dedupe db)\<rparr>)"

definition upsert_record :: "time \<Rightarrow> command_record \<Rightarrow> command_store \<Rightarrow> command_store" where
  "upsert_record now r db = upsert_dedupe now None r (upsert_row now r db)"

text \<open>\<open>expires_at = '' OR expires_at > now\<close>\<close>

definition outlives :: "stamp \<Rightarrow> time \<Rightarrow> bool" where
  "outlives expires_at now \<longleftrightarrow> expires_at = Blank \<or> At (whole_second now) < expires_at"

definition retained_dedupe :: "command_store \<Rightarrow> string \<Rightarrow> time \<Rightarrow> dedupe_row option" where
  "retained_dedupe db key now =
     (if key = [] then None
      else case map_of (cs_dedupe db) key of
             None \<Rightarrow> None
           | Some d \<Rightarrow> if outlives (dk_expires_at d) now then Some d else None)"

definition finished_value :: "string \<Rightarrow> bool" where
  "finished_value s \<longleftrightarrow> s \<in> set (map status_value FINISHED_STATUSES)"

text \<open>\<open>_update_status_no_lock\<close>: an unknown command leaves only an event.\<close>

definition updated_row :: "string \<Rightarrow> pydict option \<Rightarrow> string \<Rightarrow> time \<Rightarrow> command_row \<Rightarrow> command_row" where
  "updated_row status result_payload err now w =
     (let current = utc_timestamp now; status_to = str_or status (cr_status w) in
      w\<lparr>cr_status := status_to,
        cr_result_payload := (case result_payload of Some p \<Rightarrow> p | None \<Rightarrow> cr_result_payload w),
        cr_last_error := str_or err (cr_last_error w), cr_updated_at := current,
        cr_dispatched_at := (if status_to = ''DISPATCHED'' then stamp_or (cr_dispatched_at w) current else cr_dispatched_at w),
        cr_acked_at := (if status_to = ''ACKED'' then current else cr_acked_at w),
        cr_finished_at := (if finished_value status_to then current else cr_finished_at w),
        cr_attempts := (if status_to = ''DISPATCHED'' then max 1 (cr_attempts w) else cr_attempts w)\<rparr>)"

definition update_record_status ::
  "string \<Rightarrow> string \<Rightarrow> pydict option \<Rightarrow> string \<Rightarrow> string \<Rightarrow> string \<Rightarrow> time \<Rightarrow> command_store \<Rightarrow> command_store \<times> bool" where
  "update_record_status command_id status result_payload err event_type message now db =
     (let current = utc_timestamp now; payload = (case result_payload of Some p \<Rightarrow> p | None \<Rightarrow> []) in
      case get_row db command_id of
        None \<Rightarrow>
          (insert_event command_id event_type [] status (str_or message err)
             [(''missing_record'', PBool True), (''result_payload'', PDict payload)] current db, False)
      | Some w \<Rightarrow>
          (let w' = updated_row status result_payload err now w;
               db1 = put_row command_id w' db;
               db2 = db1\<lparr>cs_dedupe := map (\<lambda>(k, d). (k,
                  if dk_command_id d = command_id then d\<lparr>dk_status := cr_status w', dk_updated_at := current\<rparr> else d))
                  (cs_dedupe db1)\<rparr>
           in (insert_event command_id event_type (cr_status w) (cr_status w') (str_or message (cr_last_error w'))
                 payload current db2, True)))"

section \<open>The operations of the store\<close>

definition store_get :: "codec \<Rightarrow> time \<Rightarrow> command_store \<Rightarrow> string \<Rightarrow> command_record option" where
  "store_get x now db command_id = map_option (row_to_record x now) (get_row db command_id)"

definition duplicate_event :: "command_record \<Rightarrow> string \<Rightarrow> pydict \<Rightarrow> time \<Rightarrow> command_store \<Rightarrow> command_store" where
  "duplicate_event r original payload now db =
     append_event (rec_command_id r) ''duplicate_rejected'' [] ''REJECTED'' (''duplicate of '' @ original)
       payload Blank now db"

definition enqueue_record :: "codec \<Rightarrow> time \<Rightarrow> command_record \<Rightarrow> command_store \<Rightarrow> command_store \<times> enqueue_result" where
  "enqueue_record x now r db =
     (if rec_command_id r = [] then
        (db, \<lparr>er_accepted = False, er_record = None, er_reason = ''COMMAND_ID_REQUIRED'', er_duplicate_of = []\<rparr>)
      else case get_row db (rec_command_id r) of
        Some w \<Rightarrow>
          (duplicate_event r (cr_command_id w)
             [(''dedupe_key'', PStr (rec_dedupe_key r)), (''duplicate_of'', PStr (cr_command_id w)),
              (''reason'', PStr ''DUPLICATE_COMMAND_ID'')] now db,
           \<lparr>er_accepted = False, er_record = Some r, er_reason = ''DUPLICATE_COMMAND_ID'',
            er_duplicate_of = rec_command_id r\<rparr>)
      | None \<Rightarrow>
          (let retained = retained_dedupe db (rec_dedupe_key r) now in
           if retained \<noteq> None \<and> dk_command_id (the retained) \<noteq> rec_command_id r then
             let other = dk_command_id (the retained) in
             (duplicate_event r other
                [(''dedupe_key'', PStr (rec_dedupe_key r)), (''duplicate_of'', PStr other),
                 (''reason'', PStr ''DUPLICATE_COMMAND''), (''attempted_command'', PDict (record_to_dict r))] now db,
              \<lparr>er_accepted = False, er_record = store_get x now db other, er_reason = ''DUPLICATE_COMMAND'',
               er_duplicate_of = other\<rparr>)
           else
             (append_event (rec_command_id r) ''enqueue'' [] (status_value (rec_status r)) ''command enqueued''
                (record_to_dict r) (rec_created_at r) now (upsert_dedupe now None r (upsert_row now r db)),
              \<lparr>er_accepted = True, er_record = Some r, er_reason = [], er_duplicate_of = []\<rparr>)))"

definition store_list ::
  "codec \<Rightarrow> time \<Rightarrow> command_store \<Rightarrow> string \<Rightarrow> string \<Rightarrow> int \<Rightarrow> int \<Rightarrow> bool \<Rightarrow> string \<Rightarrow> command_record list" where
  "store_list x now db status command_type limit offset include_finished trade_date =
     map (row_to_record x now)
       (take (nat (max 0 limit)) (drop (nat (max 0 offset))
         (descending (\<lambda>w. (cr_created_at w, cr_updated_at w))
           (filter (\<lambda>w. (status = [] \<or> cr_status w = status) \<and>
                        (command_type = [] \<or> cr_command_type w = command_type) \<and>
                        (trade_date = [] \<or> cr_trade_date w = trade_date) \<and>
                        (include_finished \<or> \<not> finished_value (cr_status w)))
             (map snd (cs_commands db))))))"

definition load_recoverable_records :: "codec \<Rightarrow> time \<Rightarrow> command_store \<Rightarrow> command_record list" where
  "load_recoverable_records x now db =
     map (row_to_record x now)
       (sort_key cr_created_at
         (filter (\<lambda>w. cr_status w = ''QUEUED'' \<and> outlives (cr_expires_at w) now) (map snd (cs_commands db))))"

definition row_expires :: "bool \<Rightarrow> time \<Rightarrow> command_row \<Rightarrow> bool" where
  "row_expires include_dispatched now w \<longleftrightarrow>
     (cr_status w = ''QUEUED'' \<or> include_dispatched \<and> cr_status w = ''DISPATCHED'') \<and>
     cr_expires_at w \<noteq> Blank \<and> cr_expires_at w \<le> At (whole_second now)"

definition expire_old_records :: "bool \<Rightarrow> time \<Rightarrow> command_store \<Rightarrow> command_store \<times> int" where
  "expire_old_records include_dispatched now db =
     (let ids = map fst (filter (\<lambda>(k, w). row_expires include_dispatched now w) (cs_commands db)) in
      (fold (\<lambda>k db. fst (update_record_status k ''EXPIRED'' None ''COMMAND_TTL_EXPIRED'' ''expired'' ''command TTL expired'' now db))
         ids db, int (length ids)))"

record store_snapshot =
  ss_counts :: queue_snapshot
  ss_stale_dispatched_count :: int

definition row_count :: "command_row list \<Rightarrow> command_status \<Rightarrow> int" where
  "row_count ws s = int (length (filter (\<lambda>w. cr_status w = status_value s) ws))"

definition event_count :: "command_store \<Rightarrow> string \<Rightarrow> int" where
  "event_count db event_type = int (length (filter (\<lambda>e. ev_event_type e = event_type) (cs_events db)))"

definition latest :: "stamp list \<Rightarrow> stamp" where
  "latest ss = fold max ss Blank"

definition store_snapshot_of :: "command_store \<Rightarrow> string \<Rightarrow> string \<Rightarrow> store_snapshot" where
  "store_snapshot_of db status trade_date =
     (let ws = filter (\<lambda>w. (status = [] \<or> cr_status w = status) \<and> (trade_date = [] \<or> cr_trade_date w = trade_date))
                 (map snd (cs_commands db))
      in \<lparr>ss_counts =
            \<lparr>qs_queued_count = row_count ws QUEUED, qs_dispatched_count = row_count ws DISPATCHED,
             qs_acked_count = row_count ws ACKED, qs_failed_count = row_count ws FAILED,
             qs_expired_count = row_count ws EXPIRED, qs_rejected_count = row_count ws REJECTED,
             qs_cancelled_count = row_count ws CANCELLED,
             qs_skipped_count = sum_list (map (row_count ws)
               [SKIPPED_READY, SKIPPED_ORDER_PENDING, SKIPPED_GATEWAY_UNHEALTHY,
                SKIPPED_NON_BACKFILL_PENDING, SKIPPED_NOT_OBSERVE_MODE]),
             qs_expired_before_dispatch_count = row_count ws EXPIRED_BEFORE_DISPATCH,
             qs_duplicate_rejected_count = event_count db ''duplicate_rejected'',
             qs_last_command_at = latest (map cr_created_at ws),
             qs_last_order_command_at =
               latest (map cr_created_at (filter (\<lambda>w. cr_command_type w \<in> set ORDER_COMMAND_TYPES) ws)),
             qs_rate_limited_count = event_count db ''rate_limited'',
             qs_total_count = int (length ws)\<rparr>,
          ss_stale_dispatched_count = row_count ws DISPATCHED\<rparr>)"

definition count_order_commands :: "command_store \<Rightarrow> string \<Rightarrow> string \<Rightarrow> string \<Rightarrow> string \<Rightarrow> int option \<Rightarrow> int" where
  "count_order_commands db trade_date code side tag order_type =
     (if trade_date = [] \<or> code = [] \<or> side = [] then 0
      else int (length (filter (\<lambda>w. let payload = cr_payload w in
             cr_trade_date w = trade_date \<and> cr_command_type w \<in> set ORDER_COMMAND_TYPES \<and>
             text_or payload ''code'' [] = code \<and> text_or payload ''side'' [] = side \<and>
             (tag = [] \<or> text_or payload ''tag'' [] = tag) \<and>
             (case order_type of None \<Rightarrow> True | Some n \<Rightarrow> safe_int (dget payload ''order_type'') (- 1) = n))
           (map snd (cs_commands db)))))"

definition has_active_or_retained_dedupe :: "command_store \<Rightarrow> string \<Rightarrow> time \<Rightarrow> bool" where
  "has_active_or_retained_dedupe db key now \<longleftrightarrow> retained_dedupe db key now \<noteq> None"

definition find_active_or_retained_dedupe :: "command_store \<Rightarrow> string \<Rightarrow> time \<Rightarrow> dedupe_row option" where
  "find_active_or_retained_dedupe db key now = retained_dedupe db key now"

definition register_dedupe :: "time \<Rightarrow> int option \<Rightarrow> command_record \<Rightarrow> command_store \<Rightarrow> command_store \<times> bool" where
  "register_dedupe now retention_sec r db =
     (case retained_dedupe db (rec_dedupe_key r) now of
        Some d \<Rightarrow> if dk_command_id d \<noteq> rec_command_id r then (db, False) else (upsert_dedupe now retention_sec r db, True)
      | None \<Rightarrow> (upsert_dedupe now retention_sec r db, True))"

text \<open>\<open>{"a": x, **extra}\<close>\<close>

definition merged :: "pydict \<Rightarrow> pydict \<Rightarrow> pydict" where
  "merged d extra = fold (\<lambda>(k, v). AList.update k v) extra d"

definition mark_duplicate_rejected :: "string \<Rightarrow> string \<Rightarrow> string \<Rightarrow> pydict \<Rightarrow> time \<Rightarrow> command_store \<Rightarrow> command_store" where
  "mark_duplicate_rejected key command_id original payload now db =
     append_event command_id ''duplicate_rejected'' [] ''REJECTED'' (''duplicate of '' @ original)
       (merged [(''dedupe_key'', PStr key), (''duplicate_of'', PStr original)] payload) Blank now db"

definition event_kept :: "string \<Rightarrow> command_event_row \<Rightarrow> bool" where
  "event_kept k e \<longleftrightarrow> ev_command_id e \<noteq> k \<or> ev_event_type e = ''duplicate_rejected''"

definition row_prunable :: "int \<Rightarrow> time \<Rightarrow> command_row \<Rightarrow> bool" where
  "row_prunable older_than_sec now w \<longleftrightarrow> finished_value (cr_status w) \<and> cr_finished_at w \<noteq> Blank \<and>
     cr_finished_at w \<le> At (whole_second now - max 0 older_than_sec * second)"

definition prune_finished :: "int \<Rightarrow> time \<Rightarrow> command_store \<Rightarrow> command_store \<times> int" where
  "prune_finished older_than_sec now db =
     (let ids = map fst (filter (\<lambda>(k, w). row_prunable older_than_sec now w) (cs_commands db)) in
      (fold (\<lambda>k db. db\<lparr>cs_commands := AList.delete k (cs_commands db),
                       cs_events := filter (event_kept k) (cs_events db)\<rparr>) ids db,
       int (length ids)))"

definition prune_dedupe_keys :: "time \<Rightarrow> command_store \<Rightarrow> command_store \<times> int" where
  "prune_dedupe_keys now db =
     (db\<lparr>cs_dedupe := filter (\<lambda>(k, d). outlives (dk_expires_at d) now) (cs_dedupe db)\<rparr>,
      int (length (filter (\<lambda>(k, d). \<not> outlives (dk_expires_at d) now) (cs_dedupe db))))"

definition list_events :: "command_store \<Rightarrow> string \<Rightarrow> int \<Rightarrow> command_event_row list" where
  "list_events db command_id limit =
     take (nat (max 0 limit)) (filter (\<lambda>e. ev_command_id e = command_id) (cs_events db))"

end
