(* ===== verification/Command_Queue_Props.thy ===== *)
theory Command_Queue_Props
  imports Command_Queue
begin

text \<open>
  Correctness of the command queue: the coupling of its two containers, the bound on attempts,
  what \<open>dispatch\<close>, \<open>expire_old\<close> and \<open>prune\<close> do, and duplicate detection.
\<close>

section \<open>Invariants\<close>

definition queue_ok :: "command_queue \<Rightarrow> bool" where
  "queue_ok q \<longleftrightarrow> map fst (q_records q) = q_sequence q \<and> distinct (q_sequence q) \<and>
     (\<forall>(k, r) \<in> set (q_records q). rec_command_id r = k \<and> k \<noteq> [])"

definition tries_ok :: "command_record \<Rightarrow> bool" where
  "tries_ok r \<longleftrightarrow> 0 \<le> rec_attempts r \<and> rec_attempts r \<le> rec_max_attempts r"

definition attempts_ok :: "command_queue \<Rightarrow> bool" where
  "attempts_ok q \<longleftrightarrow> (\<forall>(k, r) \<in> set (q_records q). tries_ok r)"

lemma queue_ok_distinct: "queue_ok q \<Longrightarrow> distinct (map fst (q_records q))"
  by (simp add: queue_ok_def)

lemma queue_ok_set: "queue_ok q \<Longrightarrow> set (q_sequence q) = fst ` set (q_records q)"
  by (metis queue_ok_def set_map)

lemma queue_ok_mem: "queue_ok q \<Longrightarrow> (k, r) \<in> set (q_records q) \<longleftrightarrow> get_record q k = Some r"
  unfolding get_record_def by (rule lookup_mem) (rule queue_ok_distinct)

lemma queue_ok_id: "queue_ok q \<Longrightarrow> get_record q k = Some r \<Longrightarrow> rec_command_id r = k \<and> k \<noteq> []"
  using queue_ok_mem [of q k r] by (auto simp: queue_ok_def)

lemma queue_ok_keys: "queue_ok q \<Longrightarrow> k \<in> set (q_sequence q) \<longleftrightarrow> get_record q k \<noteq> None"
  by (metis get_record_def map_of_eq_None_iff queue_ok_def set_map)

lemma attempts_okD: "queue_ok q \<Longrightarrow> attempts_ok q \<Longrightarrow> get_record q k = Some r \<Longrightarrow> tries_ok r"
  by (auto simp: attempts_ok_def queue_ok_mem [symmetric])

lemma attempts_ok_alt:
  "queue_ok q \<Longrightarrow> attempts_ok q \<longleftrightarrow> (\<forall>k r. get_record q k = Some r \<longrightarrow> tries_ok r)"
  by (auto simp: attempts_ok_def queue_ok_mem [symmetric])

text \<open>The queue is a keyed table under \<open>put_record\<close>: the interface of the prelude.\<close>

interpretation cq: keyed_table get_record put_record "\<lambda>q. distinct (map fst (q_records q))"
  by unfold_locales
    (auto simp: get_record_def put_record_def lookup_update distinct_keys_update)

lemma queue_ok_put:
  assumes "queue_ok q" "get_record q k = Some r0" "rec_command_id r = k"
  shows "queue_ok (put_record k r q)"
proof -
  have "k \<in> fst ` set (q_records q)"
    using assms(2) by (metis get_record_def map_of_eq_None_iff option.distinct(1))
  moreover have "set (AList.update k r (q_records q)) = insert (k, r) {p \<in> set (q_records q). fst p \<noteq> k}"
    using assms(1) by (intro set_update_distinct) (simp add: queue_ok_distinct)
  ultimately show ?thesis
    using assms queue_ok_id [OF assms(1,2)]
    by (auto simp: queue_ok_def put_record_def keys_update)
qed

lemma queue_ok_append:
  assumes "queue_ok q" "get_record q k = None" "rec_command_id r = k" "k \<noteq> []"
  shows "queue_ok ((put_record k r q)\<lparr>q_sequence := q_sequence q @ [k]\<rparr>)"
proof -
  have "k \<notin> fst ` set (q_records q)"
    using assms(2) by (metis get_record_def map_of_eq_None_iff)
  moreover have "set (AList.update k r (q_records q)) = insert (k, r) {p \<in> set (q_records q). fst p \<noteq> k}"
    using assms(1) by (intro set_update_distinct) (simp add: queue_ok_distinct)
  ultimately show ?thesis
    using assms queue_ok_keys [OF assms(1), of k]
    by (auto simp: queue_ok_def put_record_def keys_update)
qed

lemma queue_ok_update_misc [simp]:
  "queue_ok (q\<lparr>q_duplicate_rejected_count := n\<rparr>) = queue_ok q"
  "queue_ok (q\<lparr>q_rate_limited_count := n\<rparr>) = queue_ok q"
  "queue_ok (q\<lparr>q_last_command_at := s\<rparr>) = queue_ok q"
  "queue_ok (q\<lparr>q_last_order_command_at := s\<rparr>) = queue_ok q"
  by (simp_all add: queue_ok_def)

lemma queue_ok_same_sequence: "q_sequence q = ks \<Longrightarrow> queue_ok (q\<lparr>q_sequence := ks\<rparr>) = queue_ok q"
  by (auto simp: queue_ok_def)

lemma attempts_ok_update_misc [simp]:
  "attempts_ok (q\<lparr>q_duplicate_rejected_count := n\<rparr>) = attempts_ok q"
  "attempts_ok (q\<lparr>q_rate_limited_count := n\<rparr>) = attempts_ok q"
  "attempts_ok (q\<lparr>q_last_command_at := s\<rparr>) = attempts_ok q"
  "attempts_ok (q\<lparr>q_last_order_command_at := s\<rparr>) = attempts_ok q"
  "attempts_ok (q\<lparr>q_sequence := ks\<rparr>) = attempts_ok q"
  by (simp_all add: attempts_ok_def)

lemma get_record_misc [simp]:
  "get_record (q\<lparr>q_duplicate_rejected_count := n\<rparr>) = get_record q"
  "get_record (q\<lparr>q_rate_limited_count := n\<rparr>) = get_record q"
  "get_record (q\<lparr>q_last_command_at := s\<rparr>) = get_record q"
  "get_record (q\<lparr>q_last_order_command_at := s\<rparr>) = get_record q"
  "get_record (q\<lparr>q_sequence := ks\<rparr>) = get_record q"
  by (auto simp: get_record_def fun_eq_iff)

lemma finish_record_simps [simp]:
  "rec_command_id (finish_record r s now e p) = rec_command_id r"
  "rec_status (finish_record r s now e p) = s"
  "rec_attempts (finish_record r s now e p) = rec_attempts r"
  "rec_max_attempts (finish_record r s now e p) = rec_max_attempts r"
  "rec_dedupe_key (finish_record r s now e p) = rec_dedupe_key r"
  "rec_expires_at (finish_record r s now e p) = rec_expires_at r"
  "rec_command (finish_record r s now e p) = rec_command r"
  "rec_finished_at (finish_record r s now e p) = At (whole_second now)"
  by (simp_all add: finish_record_def)

lemma mark_dispatched_simps [simp]:
  "rec_command_id (mark_dispatched t r) = rec_command_id r"
  "rec_status (mark_dispatched t r) = DISPATCHED"
  "rec_attempts (mark_dispatched t r) = rec_attempts r + 1"
  "rec_max_attempts (mark_dispatched t r) = rec_max_attempts r"
  "rec_dedupe_key (mark_dispatched t r) = rec_dedupe_key r"
  "rec_expires_at (mark_dispatched t r) = rec_expires_at r"
  "rec_command (mark_dispatched t r) = rec_command r"
  by (simp_all add: mark_dispatched_def)

lemma create_record_simps [simp]:
  "rec_command_id (create_record digest c p ttl tries now md) = gc_command_id c"
  "rec_status (create_record digest c p ttl tries now md) = QUEUED"
  "rec_attempts (create_record digest c p ttl tries now md) = 0"
  "rec_dedupe_key (create_record digest c p ttl tries now md) = dedupe_key_for_command digest c"
  "rec_command_type (create_record digest c p ttl tries now md) = gc_type c"
  "1 \<le> rec_max_attempts (create_record digest c p ttl tries now md)"
  by (simp_all add: create_record_def Let_def)

lemma tries_ok_create [simp]: "tries_ok (create_record digest c p ttl tries now md)"
  by (simp add: tries_ok_def order_trans [OF zero_le_one create_record_simps(6)])

lemma tries_ok_finish [simp]: "tries_ok (finish_record r s now e p) = tries_ok r"
  by (simp add: tries_ok_def)

section \<open>What each operation does to one record\<close>

lemma get_record_expire_old:
  "get_record (fst (expire_old q now)) k =
     map_option (\<lambda>r. if expires_now (whole_second now) r
                     then finish_record r EXPIRED (whole_second now) ''COMMAND_TTL_EXPIRED'' None else r)
       (get_record q k)"
  by (simp add: expire_old_def get_record_def Let_def map_of_map)

lemma queue_ok_expire_old: "queue_ok q \<Longrightarrow> queue_ok (fst (expire_old q now))"
  by (auto simp: queue_ok_def expire_old_def Let_def case_prod_beta comp_def)

lemma attempts_ok_expire_old: "attempts_ok q \<Longrightarrow> attempts_ok (fst (expire_old q now))"
  by (force simp: attempts_ok_def expire_old_def Let_def case_prod_beta)

lemma sequence_expire_old [simp]: "q_sequence (fst (expire_old q now)) = q_sequence q"
  by (simp add: expire_old_def Let_def)

lemma attempts_ok_put [simp]:
  assumes "queue_ok q" "attempts_ok q" "tries_ok r"
  shows "attempts_ok (put_record k r q)"
proof -
  have "set (AList.update k r (q_records q)) = insert (k, r) {p \<in> set (q_records q). fst p \<noteq> k}"
    using assms(1) by (intro set_update_distinct) (simp add: queue_ok_distinct)
  then show ?thesis using assms(2,3) by (auto simp: attempts_ok_def put_record_def)
qed

lemma put_record_sequence [simp]: "q_sequence (put_record k r q) = q_sequence q"
  by (simp add: put_record_def)

text \<open>The dispatch loop.\<close>

lemma dispatch_candidates_set:
  assumes "queue_ok q"
  shows "(k, r) \<in> set (dispatch_candidates q) \<longleftrightarrow> get_record q k = Some r \<and> rec_status r = QUEUED"
  using queue_ok_keys [OF assms, of k]
  by (auto simp: dispatch_candidates_def split: option.splits if_splits)

lemma map_fst_candidates:
  "map fst (concat (map (\<lambda>k. case get_record q k of
        Some r \<Rightarrow> if rec_status r = QUEUED then [(k, r)] else [] | None \<Rightarrow> []) ks)) =
   filter (\<lambda>k. \<exists>r. get_record q k = Some r \<and> rec_status r = QUEUED) ks"
  by (induction ks) (auto split: option.splits)

lemma distinct_dispatch_candidates:
  assumes "queue_ok q"
  shows "distinct (map fst (dispatch_candidates q))"
proof -
  let ?xs = "concat (map (\<lambda>k. case get_record q k of
        Some r \<Rightarrow> if rec_status r = QUEUED then [(k, r)] else [] | None \<Rightarrow> []) (q_sequence q))"
  have "distinct (map fst ?xs)"
    using assms by (simp add: map_fst_candidates queue_ok_def)
  moreover have "mset (map fst (dispatch_candidates q)) = mset (map fst ?xs)"
    by (simp only: dispatch_candidates_def mset_map mset_sort)
  ultimately show ?thesis
    using mset_eq_imp_distinct_iff by blast
qed

lemma dispatch_loop_selected:
  "snd (dispatch_loop current limit cs q sel) =
     sel @ map (\<lambda>(k, r). (k, mark_dispatched current r))
       (take (nat (max 0 limit) - length sel) (filter (\<lambda>(k, r). rec_attempts r < rec_max_attempts r) cs))"
proof (induction current limit cs q sel rule: dispatch_loop.induct)
  case (1 current limit q sel)
  then show ?case by simp
next
  case (2 current limit k r cs q sel)
  show ?case
  proof (cases "max 0 limit \<le> int (length sel)")
    case True
    then show ?thesis by simp
  next
    case False
    then have "nat (max 0 limit) - length sel = Suc (nat (max 0 limit) - Suc (length sel))" by auto
    with False 2 show ?thesis by (cases "rec_max_attempts r \<le> rec_attempts r") auto
  qed
qed

lemma dispatch_loop_invariant:
  assumes "P q"
    and "\<And>k r q. (k, r) \<in> set cs \<Longrightarrow> P q \<Longrightarrow>
           P (put_record k (finish_record r FAILED current ''MAX_ATTEMPTS_EXCEEDED'' None) q)"
    and "\<And>k r q. (k, r) \<in> set cs \<Longrightarrow> P q \<Longrightarrow> rec_attempts r < rec_max_attempts r \<Longrightarrow>
           P (put_record k (mark_dispatched current r) q)"
  shows "P (fst (dispatch_loop current limit cs q sel))"
  using assms
proof (induction current limit cs q sel rule: dispatch_loop.induct)
  case (1 current limit q sel)
  then show ?case by simp
next
  case (2 current limit k r cs q sel)
  show ?case
  proof (cases "max 0 limit \<le> int (length sel)")
    case True
    with "2.prems"(1) show ?thesis by simp
  next
    case False
    then show ?thesis
      using "2.IH" "2.prems" by (cases "rec_max_attempts r \<le> rec_attempts r") auto
  qed
qed

lemma dispatch_loop_other:
  assumes "k \<notin> fst ` set cs"
  shows "get_record (fst (dispatch_loop current limit cs q sel)) k = get_record q k"
  by (rule dispatch_loop_invariant [where P = "\<lambda>q'. get_record q' k = get_record q k"])
    (use assms in \<open>force simp: cq.lookup_store\<close>)+

lemma dispatch_loop_record:
  assumes "distinct (map fst cs)" "(k, r) \<in> set cs" "get_record q k = Some r" "k \<notin> fst ` set sel"
  shows "(let q' = fst (dispatch_loop current limit cs q sel); sel' = snd (dispatch_loop current limit cs q sel) in
      if k \<in> fst ` set sel' then get_record q' k = Some (mark_dispatched current r)
      else get_record q' k \<in> {Some r, Some (finish_record r FAILED current ''MAX_ATTEMPTS_EXCEEDED'' None)})"
  using assms
proof (induction current limit cs q sel rule: dispatch_loop.induct)
  case (1 current limit q sel)
  then show ?case by simp
next
  case (2 current limit k' r' cs q sel)
  show ?case
  proof (cases "max 0 limit \<le> int (length sel)")
    case True
    with "2.prems" show ?thesis by (auto simp: Let_def)
  next
    case False
    show ?thesis
    proof (cases "k = k'")
      case True
      with "2.prems" have [simp]: "r = r'" and k: "k \<notin> fst ` set cs" by force+
      have k2: "k \<notin> fst ` (\<lambda>(k, r). (k, mark_dispatched current r)) ` set (take n (filter Q cs))" for n Q
        using k by (force dest: in_set_takeD)
      from False True "2.prems" k k2 show ?thesis
        by (auto simp: Let_def dispatch_loop_other dispatch_loop_selected cq.lookup_store image_Un)
    next
      case kk: False
      with "2.prems" have "(k, r) \<in> set cs" "distinct (map fst cs)" by auto
      with False kk 2 show ?thesis
        by (cases "rec_max_attempts r' \<le> rec_attempts r'") (auto simp: cq.lookup_store)
    qed
  qed
qed

text \<open>Pruning, as one filter over the records.\<close>

definition pruned :: "command_queue \<Rightarrow> int \<Rightarrow> time \<Rightarrow> string \<Rightarrow> bool" where
  "pruned q s current k \<longleftrightarrow> (case get_record q k of Some r \<Rightarrow> prunable s current r | None \<Rightarrow> False)"

lemma prune_loop_eq:
  assumes "distinct ks" "\<forall>k\<in>set ks. get_record q k \<noteq> None"
  shows "prune_loop s current ks q kept n =
     (q\<lparr>q_records := filter (\<lambda>(k, r). \<not> (k \<in> set ks \<and> pruned q s current k)) (q_records q),
        q_sequence := kept @ filter (\<lambda>k. \<not> pruned q s current k) ks\<rparr>,
      n + int (length (filter (pruned q s current) ks)))"
  using assms
proof (induction ks arbitrary: q kept n)
  case Nil
  then show ?case by (simp add: case_prod_beta)
next
  case (Cons k ks)
  then obtain r where r: "get_record q k = Some r" by auto
  show ?case
  proof (cases "prunable s current r")
    case False
    then have np: "\<not> pruned q s current k" by (simp add: pruned_def r)
    have "prune_loop s current (k # ks) q kept n = prune_loop s current ks q (kept @ [k]) n"
      using False r by simp
    also have "\<dots> = (q\<lparr>q_records := filter (\<lambda>(k, r). \<not> (k \<in> set ks \<and> pruned q s current k)) (q_records q),
        q_sequence := (kept @ [k]) @ filter (\<lambda>k. \<not> pruned q s current k) ks\<rparr>,
      n + int (length (filter (pruned q s current) ks)))"
      using Cons.prems by (intro Cons.IH) auto
    also have "filter (\<lambda>(k, r). \<not> (k \<in> set ks \<and> pruned q s current k)) (q_records q) =
        filter (\<lambda>(k', r). \<not> (k' \<in> set (k # ks) \<and> pruned q s current k')) (q_records q)"
      using np by (auto intro!: filter_cong)
    finally show ?thesis using np by simp
  next
    case True
    let ?q = "q\<lparr>q_records := AList.delete k (q_records q)\<rparr>"
    have p: "pruned q s current k" by (simp add: pruned_def r True)
    have look: "get_record ?q k' = (if k' = k then None else get_record q k')" for k'
      by (simp add: get_record_def lookup_delete)
    have same: "pruned ?q s current k' = pruned q s current k'" if "k' \<in> set ks" for k'
      using that Cons.prems(1) by (auto simp: pruned_def look)
    have "prune_loop s current (k # ks) q kept n = prune_loop s current ks ?q kept (n + 1)"
      using True r by simp
    also have "\<dots> = (?q\<lparr>q_records := filter (\<lambda>(k, r). \<not> (k \<in> set ks \<and> pruned ?q s current k)) (q_records ?q),
        q_sequence := kept @ filter (\<lambda>k. \<not> pruned ?q s current k) ks\<rparr>,
      n + 1 + int (length (filter (pruned ?q s current) ks)))"
      using Cons.prems by (intro Cons.IH) (auto simp: look)
    also have "filter (\<lambda>(k, r). \<not> (k \<in> set ks \<and> pruned ?q s current k)) (q_records ?q) =
        filter (\<lambda>(k', r). \<not> (k' \<in> set (k # ks) \<and> pruned q s current k')) (q_records q)"
      using same p by (auto simp: AList.delete_eq intro!: filter_cong)
    also have "filter (\<lambda>k. \<not> pruned ?q s current k) ks = filter (\<lambda>k. \<not> pruned q s current k) (k # ks)"
      using same p by (auto intro!: filter_cong)
    also have "filter (pruned ?q s current) ks = filter (pruned q s current) ks"
      using same by (auto intro!: filter_cong)
    finally show ?thesis using p by simp
  qed
qed

lemma prune_eq:
  assumes "queue_ok q"
  shows "prune q s now =
     (q\<lparr>q_records := filter (\<lambda>(k, r). \<not> pruned q s (whole_second now) k) (q_records q),
        q_sequence := filter (\<lambda>k. \<not> pruned q s (whole_second now) k) (q_sequence q)\<rparr>,
      int (length (filter (pruned q s (whole_second now)) (q_sequence q))))"
proof -
  have "filter (\<lambda>(k, r). \<not> (k \<in> set (q_sequence q) \<and> pruned q s (whole_second now) k)) (q_records q) =
      filter (\<lambda>(k, r). \<not> pruned q s (whole_second now) k) (q_records q)"
  proof (rule filter_cong [OF refl])
    fix p assume "p \<in> set (q_records q)"
    then have "fst p \<in> set (q_sequence q)"
      by (simp add: queue_ok_set [OF assms])
    then show "(case p of (k, r) \<Rightarrow> \<not> (k \<in> set (q_sequence q) \<and> pruned q s (whole_second now) k)) =
        (case p of (k, r) \<Rightarrow> \<not> pruned q s (whole_second now) k)" by (auto split: prod.split)
  qed
  moreover have "distinct (q_sequence q)" using assms by (simp add: queue_ok_def)
  moreover have "\<forall>k\<in>set (q_sequence q). get_record q k \<noteq> None"
    using queue_ok_keys [OF assms] by blast
  ultimately show ?thesis
    unfolding prune_def by (subst prune_loop_eq) auto
qed

lemma queue_ok_prune: "queue_ok q \<Longrightarrow> queue_ok (fst (prune q s now))"
  by (subst prune_eq) (auto simp: queue_ok_def map_fst_filter_keys)

lemma attempts_ok_prune: "queue_ok q \<Longrightarrow> attempts_ok q \<Longrightarrow> attempts_ok (fst (prune q s now))"
  by (auto simp: prune_eq attempts_ok_def)

lemma get_record_prune:
  assumes "queue_ok q"
  shows "get_record (fst (prune q s now)) k = (if pruned q s (whole_second now) k then None else get_record q k)"
  using assms lookup_filter_keys [of "\<lambda>k. \<not> pruned q s (whole_second now) k" "q_records q" k]
  by (subst prune_eq) (auto simp: get_record_def)

section \<open>The invariants hold in every reachable state\<close>

text \<open>Records restored from the command store carry a sound attempt counter.\<close>

fun admissible_op :: "queue_op \<Rightarrow> bool" where
  "admissible_op (Restore r) = tries_ok r"
| "admissible_op _ = True"

definition inv_ok :: "command_queue \<Rightarrow> bool" where
  "inv_ok q \<longleftrightarrow> queue_ok q \<and> attempts_ok q"

lemma inv_ok_put:
  "inv_ok q \<Longrightarrow> get_record q k = Some r0 \<Longrightarrow> rec_command_id r = k \<Longrightarrow> tries_ok r \<Longrightarrow> inv_ok (put_record k r q)"
  by (simp add: inv_ok_def queue_ok_put attempts_ok_put)

lemma inv_okD: "inv_ok q \<Longrightarrow> get_record q k = Some r \<Longrightarrow> rec_command_id r = k \<and> k \<noteq> [] \<and> tries_ok r"
  by (auto simp: inv_ok_def dest: queue_ok_id attempts_okD)

lemma inv_ok_misc [simp]:
  "inv_ok (q\<lparr>q_duplicate_rejected_count := n\<rparr>) = inv_ok q"
  "inv_ok (q\<lparr>q_rate_limited_count := n\<rparr>) = inv_ok q"
  by (simp_all add: inv_ok_def attempts_ok_def)

lemma inv_ok_enqueue: "inv_ok q \<Longrightarrow> inv_ok (fst (enqueue digest q c p ttl tries now md))"
  by (auto simp: enqueue_def Let_def inv_ok_def queue_ok_append split: option.splits)

lemma inv_ok_restore:
  assumes "inv_ok q" "tries_ok r"
  shows "inv_ok (restore q r)"
proof (cases "get_record q (rec_command_id r)")
  case None
  with assms show ?thesis
    by (auto simp: restore_def inv_ok_def queue_ok_append)
next
  case (Some r0)
  have "inv_ok (put_record (rec_command_id r) r q)"
    using assms Some by (intro inv_ok_put) auto
  then show ?thesis
    using assms by (auto simp: restore_def Some inv_ok_def queue_ok_same_sequence)
qed

lemma inv_ok_dispatch_loop:
  assumes "inv_ok q" "\<forall>(k, r) \<in> set cs. get_record q k = Some r"
  shows "inv_ok (fst (dispatch_loop current limit cs q sel))"
proof -
  let ?P = "\<lambda>q'. inv_ok q' \<and> (\<forall>k. (get_record q' k = None) = (get_record q k = None))"
  have "?P (fst (dispatch_loop current limit cs q sel))"
  proof (rule dispatch_loop_invariant)
    show "?P q" using assms by simp
  next
    fix k r q'
    assume kr: "(k, r) \<in> set cs" and P: "?P q'"
    from kr assms have r: "get_record q k = Some r" by auto
    with P have ex: "\<exists>r0. get_record q' k = Some r0" by (metis option.exhaust option.distinct(1))
    have ids: "rec_command_id r = k" "tries_ok r" using inv_okD [OF assms(1) r] by auto
    show "?P (put_record k (finish_record r FAILED current ''MAX_ATTEMPTS_EXCEEDED'' None) q')"
      using P ex ids r by (auto simp: cq.lookup_store intro: inv_ok_put)
    show "?P (put_record k (mark_dispatched current r) q')" if "rec_attempts r < rec_max_attempts r"
      using P ex ids r that by (auto simp: cq.lookup_store tries_ok_def intro: inv_ok_put)
  qed
  then show ?thesis by simp
qed

lemma inv_ok_expire_old: "inv_ok q \<Longrightarrow> inv_ok (fst (expire_old q now))"
  by (simp add: inv_ok_def queue_ok_expire_old attempts_ok_expire_old)

lemma inv_ok_dispatch: "inv_ok q \<Longrightarrow> inv_ok (fst (dispatch_records q limit now))"
  unfolding dispatch_records_def Let_def
  by (rule inv_ok_dispatch_loop)
    (auto simp: inv_ok_expire_old dispatch_candidates_set queue_ok_expire_old inv_ok_def [THEN iffD1, THEN conjunct1])

lemma fst_dispatch [simp]: "fst (dispatch q limit now) = fst (dispatch_records q limit now)"
  by (simp add: dispatch_def case_prod_beta)

lemma inv_ok_ack: "inv_ok q \<Longrightarrow> inv_ok (fst (ack q k s payload err now))"
  by (auto simp: ack_def tries_ok_def split: option.splits dest: inv_okD intro!: inv_ok_put)

lemma inv_ok_fail: "inv_ok q \<Longrightarrow> inv_ok (fst (fail_command q k err retryable now))"
  by (auto simp: fail_command_def Let_def tries_ok_def split: option.splits dest: inv_okD intro!: inv_ok_put)

lemma inv_ok_cancel: "inv_ok q \<Longrightarrow> inv_ok (fst (cancel q k now))"
  by (auto simp: cancel_def tries_ok_def split: option.splits dest: inv_okD intro!: inv_ok_put)

lemma inv_ok_prune: "inv_ok q \<Longrightarrow> inv_ok (fst (prune q s now))"
  by (simp add: inv_ok_def queue_ok_prune attempts_ok_prune)

lemma inv_ok_apply_op: "inv_ok q \<Longrightarrow> admissible_op x \<Longrightarrow> inv_ok (apply_op digest q x)"
  by (cases x)
    (auto simp: inv_ok_enqueue inv_ok_restore inv_ok_dispatch inv_ok_ack inv_ok_fail inv_ok_cancel
      inv_ok_expire_old record_rate_limited_def inv_ok_prune)

text \<open>The states reachable from the empty queue by the operations, in any order.\<close>

inductive queue_reachable :: "(string \<Rightarrow> pydict \<Rightarrow> string) \<Rightarrow> command_queue \<Rightarrow> bool"
  for digest :: "string \<Rightarrow> pydict \<Rightarrow> string" where
  start: "queue_reachable digest empty_queue"
| step: "queue_reachable digest q \<Longrightarrow> admissible_op x \<Longrightarrow> queue_reachable digest (apply_op digest q x)"

lemma inv_ok_reachable: "queue_reachable digest q \<Longrightarrow> inv_ok q"
  by (induction rule: queue_reachable.induct)
    (auto simp: inv_ok_apply_op, simp add: inv_ok_def queue_ok_def attempts_ok_def empty_queue_def)

section \<open>Attempts count dispatches\<close>

definition tries_of :: "command_queue \<Rightarrow> string \<Rightarrow> int" where
  "tries_of q k = (case get_record q k of Some r \<Rightarrow> rec_attempts r | None \<Rightarrow> 0)"

fun keeps_history :: "queue_op \<Rightarrow> bool" where
  "keeps_history (Restore r) = False"
| "keeps_history (Prune s now) = False"
| "keeps_history _ = True"

lemma tries_of_put: "tries_of (put_record k r q) k' = (if k' = k then rec_attempts r else tries_of q k')"
  by (simp add: tries_of_def cq.lookup_store)

lemma tries_of_get: "get_record q k = Some r \<Longrightarrow> tries_of q k = rec_attempts r"
  by (simp add: tries_of_def)

lemma tries_of_misc [simp]:
  "tries_of (q\<lparr>q_duplicate_rejected_count := n\<rparr>) = tries_of q"
  "tries_of (q\<lparr>q_rate_limited_count := n\<rparr>) = tries_of q"
  "tries_of (q\<lparr>q_last_command_at := s\<rparr>) = tries_of q"
  "tries_of (q\<lparr>q_last_order_command_at := s\<rparr>) = tries_of q"
  "tries_of (q\<lparr>q_sequence := ks\<rparr>) = tries_of q"
  by (auto simp: tries_of_def fun_eq_iff)

lemma tries_of_expire_old [simp]: "tries_of (fst (expire_old q now)) k = tries_of q k"
  by (auto simp: tries_of_def get_record_expire_old split: option.split)

lemma tries_of_enqueue: "tries_of (fst (enqueue digest q c p ttl tries now md)) k = tries_of q k"
  by (auto simp: enqueue_def Let_def tries_of_put split: option.splits) (simp add: tries_of_def)

text \<open>The keys that one dispatch selects are distinct.\<close>

lemma dispatch_records_eq:
  "snd (dispatch_records q limit now) =
     map (\<lambda>(k, r). (k, mark_dispatched (whole_second now) r))
       (take (nat (max 0 limit)) (filter (\<lambda>(k, r). rec_attempts r < rec_max_attempts r)
          (dispatch_candidates (fst (expire_old q (whole_second now))))))"
  by (simp add: dispatch_records_def Let_def dispatch_loop_selected)

lemma map_fst_dispatched:
  "map fst (snd (dispatch_records q limit now)) =
     map fst (take (nat (max 0 limit)) (filter (\<lambda>(k, r). rec_attempts r < rec_max_attempts r)
       (dispatch_candidates (fst (expire_old q (whole_second now))))))"
  by (simp add: dispatch_records_eq comp_def case_prod_beta)

lemma distinct_map_filter_take: "distinct (map f xs) \<Longrightarrow> distinct (map f (take n (filter P xs)))"
  by (metis distinct_map_filter distinct_take take_map)

lemma distinct_dispatched: "queue_ok q \<Longrightarrow> distinct (map fst (snd (dispatch_records q limit now)))"
  unfolding map_fst_dispatched
  by (intro distinct_map_filter_take distinct_dispatch_candidates queue_ok_expire_old)

text \<open>After a dispatch a key is either selected and marked, or has kept its attempts.\<close>

definition swept :: "command_queue \<Rightarrow> time \<Rightarrow> command_queue" where
  "swept q now = fst (expire_old q (whole_second now))"

lemma get_record_dispatch:
  assumes "queue_ok q"
  shows "let q' = fst (dispatch_records q limit now) in
     if k \<in> fst ` set (snd (dispatch_records q limit now))
     then \<exists>r. get_record (swept q now) k = Some r \<and> rec_status r = QUEUED \<and> rec_attempts r < rec_max_attempts r \<and>
            get_record q' k = Some (mark_dispatched (whole_second now) r)
     else get_record q' k = get_record (swept q now) k \<or>
          (\<exists>r. get_record (swept q now) k = Some r \<and> rec_status r = QUEUED \<and>
             get_record q' k = Some (finish_record r FAILED (whole_second now) ''MAX_ATTEMPTS_EXCEEDED'' None))"
proof -
  let ?cs = "dispatch_candidates (swept q now)"
  have ok: "queue_ok (swept q now)" using assms by (simp add: swept_def queue_ok_expire_old)
  have q': "dispatch_records q limit now = dispatch_loop (whole_second now) limit ?cs (swept q now) []"
    by (simp add: dispatch_records_def swept_def Let_def)
  show ?thesis
  proof (cases "k \<in> fst ` set ?cs")
    case False
    then have "k \<notin> fst ` set (snd (dispatch_records q limit now))"
      unfolding dispatch_records_eq swept_def [symmetric] by (force dest: in_set_takeD)
    with False show ?thesis by (simp add: q' dispatch_loop_other)
  next
    case True
    then obtain r where kr: "(k, r) \<in> set ?cs" by auto
    then have r: "get_record (swept q now) k = Some r" "rec_status r = QUEUED"
      using dispatch_candidates_set [OF ok] by auto
    have "rec_attempts r < rec_max_attempts r" if "k \<in> fst ` set (snd (dispatch_records q limit now))"
    proof -
      from that obtain r' where "(k, r') \<in> set ?cs" "rec_attempts r' < rec_max_attempts r'"
        unfolding dispatch_records_eq swept_def [symmetric] by (force dest!: in_set_takeD)
      with dispatch_candidates_set [OF ok, of k r'] r(1) show ?thesis by simp
    qed
    with dispatch_loop_record [OF distinct_dispatch_candidates [OF ok] kr r(1), of "[]" "whole_second now" limit] r
    show ?thesis by (auto simp: q' Let_def split: if_splits)
  qed
qed

lemma tries_of_dispatch:
  assumes "queue_ok q"
  shows "tries_of (fst (dispatch_records q limit now)) k =
     tries_of q k + int (count_list (map fst (snd (dispatch_records q limit now))) k)"
proof -
  let ?ids = "map fst (snd (dispatch_records q limit now))"
  have c: "count_list ?ids k = (if k \<in> set ?ids then 1 else 0)"
    using distinct_dispatched [OF assms, of limit now] by (rule count_list_distinct)
  have "tries_of q k = tries_of (swept q now) k" by (simp add: swept_def)
  then show ?thesis
    using get_record_dispatch [OF assms, of limit now k]
    unfolding c by (auto simp: Let_def tries_of_def split: if_splits)
qed

lemma tries_of_apply_op:
  assumes "inv_ok q" "keeps_history x"
  shows "tries_of (apply_op digest q x) k = tries_of q k + int (count_list (dispatched_ids q x) k)"
proof (cases x)
  case (Dispatch limit now)
  then show ?thesis using assms tries_of_dispatch [of q limit now k] by (simp add: inv_ok_def)
qed (use assms in \<open>auto simp: tries_of_enqueue ack_def fail_command_def cancel_def Let_def tries_of_put
  tries_of_get record_rate_limited_def split: option.splits\<close>)

lemma tries_of_run:
  "inv_ok q \<Longrightarrow> \<forall>x\<in>set xs. keeps_history x \<Longrightarrow>
   tries_of (run_ops digest q xs) k = tries_of q k + int (count_list (dispatch_trace digest q xs) k)"
proof (induction xs arbitrary: q)
  case Nil
  then show ?case by (simp add: run_ops_def)
next
  case (Cons x xs)
  have "admissible_op x" using Cons.prems(2) by (cases x) auto
  with Cons show ?case
    by (simp add: run_ops_def tries_of_apply_op inv_ok_apply_op)
qed

section \<open>Records advance pointwise\<close>

text \<open>
  Most operations change each record on its own, without giving it a new duplicate key and
  without making an inactive record active. Such a step keeps active duplicate keys unique.
\<close>

definition is_active :: "command_record \<Rightarrow> bool" where
  "is_active r \<longleftrightarrow> rec_status r \<in> set ACTIVE_DEDUPE_STATUSES"

lemma is_active_simps [simp]:
  "is_active (mark_dispatched t r)"
  "is_active (finish_record r s now e p) \<longleftrightarrow> s \<in> set ACTIVE_DEDUPE_STATUSES"
  "is_active (create_record digest c pr ttl tries now md)"
  by (simp_all add: is_active_def ACTIVE_DEDUPE_STATUSES_def)

lemma is_active_queued: "rec_status r = QUEUED \<Longrightarrow> is_active r"
  by (simp add: is_active_def ACTIVE_DEDUPE_STATUSES_def)

definition no_new_active :: "command_queue \<Rightarrow> command_queue \<Rightarrow> bool" where
  "no_new_active q q' \<longleftrightarrow> (\<forall>k r'. get_record q' k = Some r' \<longrightarrow>
     (\<exists>r. get_record q k = Some r \<and> rec_dedupe_key r' = rec_dedupe_key r \<and> (is_active r' \<longrightarrow> is_active r)))"

definition dedupe_unique :: "command_queue \<Rightarrow> bool" where
  "dedupe_unique q \<longleftrightarrow> (\<forall>k1 k2 r1 r2. get_record q k1 = Some r1 \<longrightarrow> get_record q k2 = Some r2 \<longrightarrow>
     is_active r1 \<longrightarrow> is_active r2 \<longrightarrow> rec_dedupe_key r1 = rec_dedupe_key r2 \<longrightarrow> rec_dedupe_key r1 \<noteq> [] \<longrightarrow> k1 = k2)"

lemma no_new_active_refl [simp]: "no_new_active q q"
  by (simp add: no_new_active_def)

lemma no_new_active_put:
  "get_record q k = Some r \<Longrightarrow> rec_dedupe_key r' = rec_dedupe_key r \<Longrightarrow> (is_active r' \<Longrightarrow> is_active r) \<Longrightarrow>
   no_new_active q (put_record k r' q)"
  by (auto simp: no_new_active_def cq.lookup_store)

lemma dedupe_unique_step: "dedupe_unique q \<Longrightarrow> no_new_active q q' \<Longrightarrow> dedupe_unique q'"
proof -
  assume u: "dedupe_unique q" and n: "no_new_active q q'"
  show "dedupe_unique q'"
    unfolding dedupe_unique_def
  proof (intro allI impI)
    fix k1 k2 r1 r2
    assume g: "get_record q' k1 = Some r1" "get_record q' k2 = Some r2"
      and a: "is_active r1" "is_active r2" and d: "rec_dedupe_key r1 = rec_dedupe_key r2" "rec_dedupe_key r1 \<noteq> []"
    from n g(1) a(1) obtain s1 where s1: "get_record q k1 = Some s1" "rec_dedupe_key r1 = rec_dedupe_key s1" "is_active s1"
      unfolding no_new_active_def by blast
    from n g(2) a(2) obtain s2 where s2: "get_record q k2 = Some s2" "rec_dedupe_key r2 = rec_dedupe_key s2" "is_active s2"
      unfolding no_new_active_def by blast
    have "rec_dedupe_key s1 = rec_dedupe_key s2" "rec_dedupe_key s1 \<noteq> []" using d s1(2) s2(2) by simp_all
    with u s1 s2 show "k1 = k2" unfolding dedupe_unique_def by blast
  qed
qed

lemma no_new_active_expire_old: "no_new_active q (fst (expire_old q now))"
  by (auto simp: no_new_active_def get_record_expire_old ACTIVE_DEDUPE_STATUSES_def)

lemma no_new_active_trans: "no_new_active q q1 \<Longrightarrow> no_new_active q1 q2 \<Longrightarrow> no_new_active q q2"
  unfolding no_new_active_def by (metis)

lemma no_new_active_dispatch:
  assumes "queue_ok q"
  shows "no_new_active q (fst (dispatch_records q limit now))"
proof -
  have "no_new_active (swept q now) (fst (dispatch_records q limit now))"
    unfolding no_new_active_def
  proof (intro allI impI)
    fix k r' assume "get_record (fst (dispatch_records q limit now)) k = Some r'"
    with get_record_dispatch [OF assms, of limit now k]
    show "\<exists>r. get_record (swept q now) k = Some r \<and> rec_dedupe_key r' = rec_dedupe_key r \<and> (is_active r' \<longrightarrow> is_active r)"
      by (auto simp: Let_def is_active_queued split: if_splits) (metis option.inject)
  qed
  moreover have "no_new_active q (swept q now)" by (simp add: swept_def no_new_active_expire_old)
  ultimately show ?thesis by (rule no_new_active_trans [rotated])
qed

lemma no_new_active_prune: "queue_ok q \<Longrightarrow> no_new_active q (fst (prune q s now))"
  by (auto simp: no_new_active_def get_record_prune)

lemma no_new_active_cancel: "no_new_active q (fst (cancel q k now))"
  by (auto simp: cancel_def is_active_queued split: option.splits intro: no_new_active_put)

lemma active_duplicate_None:
  assumes "active_duplicate q key = None" "key \<noteq> []" "get_record q k = Some r" "rec_dedupe_key r = key"
  shows "\<not> is_active r"
proof -
  have "r \<in> set (map snd (q_records q))"
    using assms(3) by (force simp: get_record_def dest: map_of_SomeD)
  with assms show ?thesis
    by (auto simp: active_duplicate_def find_None_iff is_active_def)
qed

text \<open>
  A well-timed run: acknowledgements that activate, and failures, arrive for commands that are
  still active, and the store restores no second active record of a key.
\<close>

fun orderly :: "command_queue \<Rightarrow> queue_op \<Rightarrow> bool" where
  "orderly q (Ack k s payload err now) =
     (s \<in> set ACTIVE_DEDUPE_STATUSES \<longrightarrow> (case get_record q k of Some r \<Rightarrow> is_active r | None \<Rightarrow> True))"
| "orderly q (Fail k err retryable now) = (case get_record q k of Some r \<Rightarrow> is_active r | None \<Rightarrow> True)"
| "orderly q (Restore r) = (tries_ok r \<and> (is_active r \<longrightarrow> active_duplicate q (rec_dedupe_key r) = None))"
| "orderly q _ = True"

lemma is_active_dispatched [simp]: "is_active (r\<lparr>rec_status := DISPATCHED, rec_dispatched_at := t, rec_result_payload := p\<rparr>)"
  by (simp add: is_active_def ACTIVE_DEDUPE_STATUSES_def)

lemma DISPATCHED_active: "DISPATCHED \<in> set ACTIVE_DEDUPE_STATUSES"
  by (simp add: ACTIVE_DEDUPE_STATUSES_def)

lemma no_new_active_ack:
  assumes "orderly q (Ack k s payload err now)"
  shows "no_new_active q (fst (ack q k s payload err now))"
proof (cases "get_record q k")
  case None
  then show ?thesis by (simp add: ack_def)
next
  case (Some r)
  with assms have "s \<in> set ACTIVE_DEDUPE_STATUSES \<Longrightarrow> is_active r" by simp
  then show ?thesis
    using Some DISPATCHED_active by (auto simp: ack_def intro!: no_new_active_put)
qed

lemma no_new_active_fail:
  "orderly q (Fail k err retryable now) \<Longrightarrow> no_new_active q (fst (fail_command q k err retryable now))"
  by (auto simp: fail_command_def Let_def split: option.splits intro!: no_new_active_put)

lemma dedupe_unique_fresh:
  assumes "dedupe_unique q" "is_active r \<longrightarrow> active_duplicate q (rec_dedupe_key r) = None"
  shows "dedupe_unique (put_record k r q)"
  using assms active_duplicate_None [of q "rec_dedupe_key r"]
  unfolding dedupe_unique_def cq.lookup_store by (auto split: if_splits) blast+

lemma dedupe_unique_misc [simp]:
  "dedupe_unique (q\<lparr>q_duplicate_rejected_count := n\<rparr>) = dedupe_unique q"
  "dedupe_unique (q\<lparr>q_rate_limited_count := n\<rparr>) = dedupe_unique q"
  "dedupe_unique (q\<lparr>q_last_command_at := s\<rparr>) = dedupe_unique q"
  "dedupe_unique (q\<lparr>q_last_order_command_at := s\<rparr>) = dedupe_unique q"
  "dedupe_unique (q\<lparr>q_sequence := ks\<rparr>) = dedupe_unique q"
  by (simp_all add: dedupe_unique_def)

lemma dedupe_unique_enqueue: "dedupe_unique q \<Longrightarrow> dedupe_unique (fst (enqueue digest q c p ttl tries now md))"
  by (auto simp: enqueue_def Let_def dedupe_unique_fresh split: option.splits)

lemma dedupe_unique_restore:
  "dedupe_unique q \<Longrightarrow> orderly q (Restore r) \<Longrightarrow> dedupe_unique (restore q r)"
  by (auto simp: restore_def dedupe_unique_fresh)

lemma dedupe_unique_apply_op:
  assumes "inv_ok q" "dedupe_unique q" "orderly q x"
  shows "dedupe_unique (apply_op digest q x)"
proof (cases x)
  case Enqueue
  with assms(2) show ?thesis by (simp add: dedupe_unique_enqueue)
next
  case Restore
  with assms(2,3) show ?thesis by (simp add: dedupe_unique_restore del: orderly.simps)
next
  case RateLimited
  with assms(2) show ?thesis by (simp add: record_rate_limited_def)
next
  case (Dispatch limit now)
  with assms(1) show ?thesis
    by (auto simp: inv_ok_def intro: dedupe_unique_step [OF assms(2)] no_new_active_dispatch)
next
  case (Ack k s payload err now)
  with assms(3) show ?thesis
    by (auto simp del: orderly.simps intro: dedupe_unique_step [OF assms(2)] no_new_active_ack)
next
  case (Fail k err retryable now)
  with assms(3) show ?thesis
    by (auto simp del: orderly.simps intro: dedupe_unique_step [OF assms(2)] no_new_active_fail)
next
  case (Cancel k now)
  then show ?thesis by (auto intro: dedupe_unique_step [OF assms(2)] no_new_active_cancel)
next
  case (ExpireOld now)
  then show ?thesis by (auto intro: dedupe_unique_step [OF assms(2)] no_new_active_expire_old)
next
  case (Prune s now)
  with assms(1) show ?thesis
    by (auto simp: inv_ok_def intro: dedupe_unique_step [OF assms(2)] no_new_active_prune)
qed

inductive orderly_reachable :: "(string \<Rightarrow> pydict \<Rightarrow> string) \<Rightarrow> command_queue \<Rightarrow> bool"
  for digest :: "string \<Rightarrow> pydict \<Rightarrow> string" where
  ostart: "orderly_reachable digest empty_queue"
| ostep: "orderly_reachable digest q \<Longrightarrow> orderly q x \<Longrightarrow> orderly_reachable digest (apply_op digest q x)"

lemma orderly_inv: "orderly_reachable digest q \<Longrightarrow> inv_ok q \<and> dedupe_unique q"
proof (induction rule: orderly_reachable.induct)
  case ostart
  show ?case
    by (simp add: inv_ok_def queue_ok_def attempts_ok_def empty_queue_def dedupe_unique_def get_record_def)
next
  case (ostep q x)
  have "admissible_op x" using ostep.hyps(2) by (cases x) auto
  with ostep show ?case by (simp add: inv_ok_apply_op dedupe_unique_apply_op)
qed

section \<open>A bound of one attempt\<close>

definition single_try :: "command_queue \<Rightarrow> string \<Rightarrow> bool" where
  "single_try q k \<longleftrightarrow> (\<forall>r. get_record q k = Some r \<longrightarrow> rec_max_attempts r = 1)"

text \<open>An enqueued order command that does not override the attempt limit.\<close>

fun default_order_op :: "string \<Rightarrow> queue_op \<Rightarrow> bool" where
  "default_order_op k (Enqueue c p ttl tries now md) =
     (gc_command_id c = k \<longrightarrow> gc_type c \<in> set ORDER_COMMAND_TYPES \<and> tries = None)"
| "default_order_op k _ = True"

lemma max_attempts_default_order:
  "gc_type c \<in> set ORDER_COMMAND_TYPES \<Longrightarrow> rec_max_attempts (create_record digest c p ttl None now md) = 1"
  by (auto simp: create_record_def Let_def ORDER_COMMAND_TYPES_def DEFAULT_MAX_ATTEMPTS_def)

lemma single_try_put:
  "single_try q k \<Longrightarrow> (k' = k \<Longrightarrow> rec_max_attempts r = 1) \<Longrightarrow> single_try (put_record k' r q) k"
  by (auto simp: single_try_def cq.lookup_store)

lemma single_try_misc [simp]:
  "single_try (q\<lparr>q_duplicate_rejected_count := n\<rparr>) = single_try q"
  "single_try (q\<lparr>q_rate_limited_count := n\<rparr>) = single_try q"
  "single_try (q\<lparr>q_last_command_at := s\<rparr>) = single_try q"
  "single_try (q\<lparr>q_last_order_command_at := s\<rparr>) = single_try q"
  "single_try (q\<lparr>q_sequence := ks\<rparr>) = single_try q"
  by (auto simp: single_try_def fun_eq_iff)

lemma single_try_swept: "single_try q k \<Longrightarrow> single_try (swept q now) k"
  by (auto simp: single_try_def swept_def get_record_expire_old)

lemma single_try_expire_old: "single_try q k \<Longrightarrow> single_try (fst (expire_old q now)) k"
  by (auto simp: single_try_def get_record_expire_old)

lemma single_try_dispatch:
  assumes "queue_ok q" "single_try q k"
  shows "single_try (fst (dispatch_records q limit now)) k"
  using get_record_dispatch [OF assms(1), of limit now k] single_try_swept [OF assms(2), of now]
  by (auto simp: single_try_def Let_def split: if_splits)

lemma single_try_apply_op:
  assumes "inv_ok q" "single_try q k" "keeps_history x" "default_order_op k x"
  shows "single_try (apply_op digest q x) k"
proof (cases x)
  case (Enqueue c p ttl tries now md)
  with assms(2,4) show ?thesis
    by (auto simp: enqueue_def Let_def max_attempts_default_order intro!: single_try_put split: option.splits)
next
  case (Dispatch limit now)
  with assms(1,2) show ?thesis by (simp add: single_try_dispatch inv_ok_def)
next
  case (ExpireOld now)
  with assms(2) show ?thesis by (simp add: single_try_expire_old)
next
  case (Ack k' s payload err now)
  with assms(2) show ?thesis
    by (auto simp: ack_def single_try_def cq.lookup_store split: option.splits if_splits)
next
  case (Fail k' err retryable now)
  with assms(2) show ?thesis
    by (auto simp: fail_command_def Let_def single_try_def cq.lookup_store split: option.splits if_splits)
next
  case (Cancel k' now)
  with assms(2) show ?thesis
    by (auto simp: cancel_def single_try_def cq.lookup_store split: option.splits if_splits)
qed (use assms in \<open>auto simp: record_rate_limited_def\<close>)

lemma single_try_run:
  "inv_ok q \<Longrightarrow> single_try q k \<Longrightarrow> \<forall>x\<in>set xs. keeps_history x \<and> default_order_op k x \<Longrightarrow>
   inv_ok (run_ops digest q xs) \<and> single_try (run_ops digest q xs) k"
proof (induction xs arbitrary: q)
  case Nil
  then show ?case by (simp add: run_ops_def)
next
  case (Cons x xs)
  have "admissible_op x" using Cons.prems(3) by (cases x) auto
  with Cons show ?case by (simp add: run_ops_def inv_ok_apply_op single_try_apply_op)
qed

text \<open>Pruning forgets the attempts of a finished command, so a run is bounded by the number of enqueues.\<close>

fun enqueues :: "string \<Rightarrow> queue_op \<Rightarrow> bool" where
  "enqueues k (Enqueue c p ttl tries now md) \<longleftrightarrow> gc_command_id c = k"
| "enqueues k _ \<longleftrightarrow> False"

fun restores :: "string \<Rightarrow> queue_op \<Rightarrow> bool" where
  "restores k (Restore r) \<longleftrightarrow> rec_command_id r = k"
| "restores k _ \<longleftrightarrow> False"

definition left_tries :: "command_queue \<Rightarrow> string \<Rightarrow> int" where
  "left_tries q k = (case get_record q k of Some r \<Rightarrow> 1 - rec_attempts r | None \<Rightarrow> 0)"

lemma left_tries_nonneg: "inv_ok q \<Longrightarrow> single_try q k \<Longrightarrow> 0 \<le> left_tries q k"
  using inv_okD [of q k] by (force simp: left_tries_def single_try_def tries_ok_def split: option.split)

lemma get_record_restore_other: "rec_command_id r \<noteq> k \<Longrightarrow> get_record (restore q r) k = get_record q k"
  by (simp add: restore_def cq.lookup_store)

lemma get_record_enqueue:
  "get_record (fst (enqueue digest q c p ttl tries now md)) k =
     (if gc_command_id c = k \<and> er_accepted (snd (enqueue digest q c p ttl tries now md))
      then Some (create_record digest c p ttl tries now md) else get_record q k)"
  by (auto simp: enqueue_def Let_def cq.lookup_store split: option.split)

lemma enqueue_accepted_fresh:
  "er_accepted (snd (enqueue digest q c p ttl tries now md)) \<Longrightarrow> get_record q (gc_command_id c) = None"
  by (auto simp: enqueue_def Let_def split: option.splits if_splits)

lemma single_try_any_op:
  assumes "inv_ok q" "single_try q k" "default_order_op k x" "\<not> restores k x"
  shows "single_try (apply_op digest q x) k"
proof (cases "keeps_history x")
  case True
  then show ?thesis using single_try_apply_op [OF assms(1,2)] assms(3) by blast
next
  case False
  with assms show ?thesis
    by (cases x) (simp_all add: single_try_def get_record_restore_other get_record_prune inv_ok_def)
qed

lemma left_tries_step:
  assumes ok: "inv_ok q" "single_try q k" and x: "\<not> restores k x"
  shows "int (count_list (dispatched_ids q x) k) + left_tries (apply_op digest q x) k
    \<le> left_tries q k + (if enqueues k x then 1 else 0)"
proof -
  have same: "left_tries q' k = left_tries q k" if "tries_of q' k = tries_of q k"
    "get_record q' k = None \<longleftrightarrow> get_record q k = None" for q'
    using that by (auto simp: left_tries_def tries_of_def split: option.splits)
  show ?thesis
  proof (cases x)
    case (Enqueue c p ttl tries now md)
    then show ?thesis
      using enqueue_accepted_fresh [of digest q c p ttl tries now md]
      by (auto simp: left_tries_def get_record_enqueue)
  next
    case (Restore r)
    with x show ?thesis by (simp add: left_tries_def get_record_restore_other)
  next
    case (Prune s now)
    with ok left_tries_nonneg [OF ok] show ?thesis by (simp add: left_tries_def get_record_prune inv_ok_def)
  next
    case (Dispatch limit now)
    have q: "queue_ok q" using ok(1) by (simp add: inv_ok_def)
    have "count_list (dispatched_ids q x) k = (if k \<in> fst ` set (snd (dispatch_records q limit now)) then 1 else 0)"
      using distinct_dispatched [OF q, of limit now] by (simp add: Dispatch count_list_distinct)
    then show ?thesis
      using get_record_dispatch [OF q, of limit now k]
      by (auto simp: Dispatch Let_def left_tries_def swept_def get_record_expire_old split: if_splits option.splits)
  next
    case (ExpireOld now)
    then show ?thesis using same [of "fst (expire_old q now)"] by (simp add: get_record_expire_old)
  qed (auto simp: left_tries_def ack_def fail_command_def cancel_def Let_def cq.lookup_store
    record_rate_limited_def split: option.splits)
qed

lemma dispatched_at_most_as_enqueued:
  "inv_ok q \<Longrightarrow> single_try q k \<Longrightarrow>
   \<forall>x\<in>set xs. admissible_op x \<and> default_order_op k x \<and> \<not> restores k x \<Longrightarrow>
   int (count_list (dispatch_trace digest q xs) k) \<le> left_tries q k + int (length (filter (enqueues k) xs))"
proof (induction xs arbitrary: q)
  case Nil
  then show ?case by (simp add: left_tries_nonneg)
next
  case (Cons x xs)
  have "inv_ok (apply_op digest q x)" "single_try (apply_op digest q x) k"
    using Cons.prems by (simp_all add: inv_ok_apply_op single_try_any_op)
  then have "int (count_list (dispatch_trace digest (apply_op digest q x) xs) k)
      \<le> left_tries (apply_op digest q x) k + int (length (filter (enqueues k) xs))"
    using Cons.prems by (intro Cons.IH) auto
  moreover have "int (count_list (dispatched_ids q x) k) + left_tries (apply_op digest q x) k
      \<le> left_tries q k + (if enqueues k x then 1 else 0)"
    using Cons.prems by (intro left_tries_step) auto
  ultimately show ?case by (simp add: count_list_append split: if_splits)
qed

section \<open>Order of dispatch\<close>

lemma dispatch_key_mark [simp]: "dispatch_key (mark_dispatched t r) = dispatch_key r"
  by (simp add: dispatch_key_def mark_dispatched_def command_class_rank_def Let_def)

lemma sorted_dispatch_candidates:
  "sorted_wrt (\<lambda>a b. dispatch_key (snd a) \<le> dispatch_key (snd b)) (dispatch_candidates q)"
proof -
  have "sorted (map (\<lambda>(k, r). dispatch_key r) (dispatch_candidates q))"
    unfolding dispatch_candidates_def by (rule sorted_sort_key)
  then show ?thesis by (simp add: sorted_map case_prod_beta)
qed

definition eligible :: "command_queue \<Rightarrow> time \<Rightarrow> (string \<times> command_record) list" where
  "eligible q now = filter (\<lambda>(k, r). rec_attempts r < rec_max_attempts r) (dispatch_candidates (swept q now))"

lemma dispatched_eq:
  "snd (dispatch_records q limit now) =
     map (\<lambda>(k, r). (k, mark_dispatched (whole_second now) r)) (take (nat (max 0 limit)) (eligible q now))"
  by (simp add: dispatch_records_eq eligible_def swept_def)

lemma sorted_eligible: "sorted_wrt (\<lambda>a b. dispatch_key (snd a) \<le> dispatch_key (snd b)) (eligible q now)"
  unfolding eligible_def by (intro sorted_wrt_filter sorted_dispatch_candidates)

lemma queued_not_finished: "rec_status r = QUEUED \<Longrightarrow> \<not> rec_finished r"
  by (simp add: rec_finished_def FINISHED_STATUSES_def)

lemma swept_queued:
  "get_record (swept q now) k = Some r \<and> rec_status r = QUEUED \<longleftrightarrow>
   get_record q k = Some r \<and> rec_status r = QUEUED \<and> \<not> is_expired r (whole_second now)"
proof (cases "get_record q k")
  case None
  then show ?thesis by (simp add: swept_def get_record_expire_old)
next
  case (Some s)
  show ?thesis
  proof (cases "expires_now (whole_second now) s")
    case True
    then show ?thesis
      using Some queued_not_finished [of s] by (auto simp: swept_def get_record_expire_old expires_now_def)
  next
    case False
    then show ?thesis
      using Some queued_not_finished [of r] by (auto simp: swept_def get_record_expire_old expires_now_def)
  qed
qed

lemma eligible_iff:
  assumes "queue_ok q"
  shows "(k, r) \<in> set (eligible q now) \<longleftrightarrow> get_record q k = Some r \<and> rec_status r = QUEUED \<and>
     \<not> is_expired r (whole_second now) \<and> rec_attempts r < rec_max_attempts r"
proof -
  have "queue_ok (swept q now)" using assms by (simp add: swept_def queue_ok_expire_old)
  then have "(k, r) \<in> set (eligible q now) \<longleftrightarrow>
      (get_record (swept q now) k = Some r \<and> rec_status r = QUEUED) \<and> rec_attempts r < rec_max_attempts r"
    by (simp add: eligible_def dispatch_candidates_set)
  then show ?thesis unfolding swept_queued by blast
qed

text \<open>A sorted list splits into a prefix whose elements are below the rest.\<close>

lemma sorted_take_below:
  assumes "sorted_wrt R xs" "y \<in> set xs" "y \<notin> set (take n xs)"
  shows "length (take n xs) = n \<and> (\<forall>x\<in>set (take n xs). R x y)"
proof -
  have y: "y \<in> set (drop n xs)"
    using assms(2,3) by (metis Un_iff append_take_drop_id set_append)
  have "sorted_wrt R (take n xs @ drop n xs)" using assms(1) by simp
  moreover have "n < length xs" using y by (metis drop_all empty_iff empty_set not_le)
  ultimately show ?thesis using y by (simp add: sorted_wrt_append del: append_take_drop_id)
qed

section \<open>Properties\<close>

definition sample_order :: gateway_command where
  "sample_order = \<lparr>gc_type = ''send_order'',
     gc_payload = [(''account'', PStr ''81''), (''code'', PStr ''005930''), (''side'', PStr ''buy''),
       (''quantity'', PInt 1), (''price'', PInt 70000), (''tag'', PStr ''T'')],
     gc_command_id = ''c1'', gc_request_id = [], gc_timestamp = Blank, gc_source = ''core'',
     gc_idempotency_key = ''k1''\<rparr>"

definition sample_tr :: gateway_command where
  "sample_tr = \<lparr>gc_type = ''tr_request'', gc_payload = [(''rq_name'', PStr ''opt''), (''tr_code'', PStr ''opt10001'')],
     gc_command_id = ''t1'', gc_request_id = ''r1'', gc_timestamp = Blank, gc_source = ''core'',
     gc_idempotency_key = []\<rparr>"

definition no_digest :: "string \<Rightarrow> pydict \<Rightarrow> string" where
  "no_digest ty payload = []"

definition sample_queue :: command_queue where
  "sample_queue = run_ops no_digest empty_queue
     [Enqueue sample_tr None None None 0 [], Enqueue sample_order None None None second []]"

definition order_run :: "queue_op list" where
  "order_run = [Enqueue sample_order None None None 0 [], Dispatch 20 second,
     Fail ''c1'' ''timeout'' True (2 * second), Dispatch 20 (3 * second)]"

lemma sample_queue_reachable: "orderly_reachable no_digest sample_queue" "queue_reachable no_digest sample_queue"
proof -
  have "orderly_reachable no_digest (apply_op no_digest (apply_op no_digest empty_queue
      (Enqueue sample_tr None None None 0 [])) (Enqueue sample_order None None None second []))"
    by (rule ostep [OF ostep [OF ostart]]) simp_all
  then show "orderly_reachable no_digest sample_queue" by (simp add: sample_queue_def run_ops_def)
  have "queue_reachable no_digest (apply_op no_digest (apply_op no_digest empty_queue
      (Enqueue sample_tr None None None 0 [])) (Enqueue sample_order None None None second []))"
    by (rule queue_reachable.step [OF queue_reachable.step [OF queue_reachable.start]]) simp_all
  then show "queue_reachable no_digest sample_queue" by (simp add: sample_queue_def run_ops_def)
qed

text \<open>C1: In every state that any interleaving of the queue's operations reaches, the record dictionary
  and the sequence hold the same identifiers in the same order, without duplicates, every record
  is filed under its own non-empty identifier, and no record was attempted more often than its limit.\<close>
theorem queue_containers_agree:
  assumes "queue_reachable digest q"
  shows "map fst (q_records q) = q_sequence q \<and> distinct (q_sequence q) \<and>
    (\<forall>(k, r) \<in> set (q_records q). rec_command_id r = k \<and> k \<noteq> [] \<and>
       0 \<le> rec_attempts r \<and> rec_attempts r \<le> rec_max_attempts r)"
  using inv_ok_reachable [OF assms]
  by (auto simp: inv_ok_def queue_ok_def attempts_ok_def tries_ok_def)

theorem queue_containers_agree_witness:
  "queue_reachable no_digest sample_queue \<and> q_sequence sample_queue = [''t1'', ''c1''] \<and>
   map fst (q_records sample_queue) = q_sequence sample_queue \<and> distinct (q_sequence sample_queue)"
proof -
  have "q_sequence sample_queue = [''t1'', ''c1'']" by code_simp
  with queue_containers_agree [OF sample_queue_reachable(2)] sample_queue_reachable(2)
  show ?thesis by auto
qed


definition pruned_run :: "queue_op list" where
  "pruned_run = order_run @ [Prune 0 (4 * second)]"


text \<open>C3: A dispatch returns at most the requested number of records, in the order of priority, command
  class and creation time, each identifier once; every one was queued, had not expired and had an
  attempt left, and is marked as dispatched in the resulting queue with one attempt more.\<close>
theorem dispatch_selects_eligible:
  assumes "queue_reachable digest q"
  shows "int (length (snd (dispatch_records q limit now))) \<le> max 0 limit \<and>
    distinct (map fst (snd (dispatch_records q limit now))) \<and>
    sorted_wrt (\<lambda>a b. dispatch_key (snd a) \<le> dispatch_key (snd b)) (snd (dispatch_records q limit now)) \<and>
    (\<forall>(k, r') \<in> set (snd (dispatch_records q limit now)). \<exists>r.
       get_record q k = Some r \<and> rec_status r = QUEUED \<and> \<not> is_expired r (whole_second now) \<and>
       rec_attempts r < rec_max_attempts r \<and> r' = mark_dispatched (whole_second now) r \<and>
       get_record (fst (dispatch_records q limit now)) k = Some r')"
proof -
  let ?sel = "snd (dispatch_records q limit now)"
  have ok: "queue_ok q" using inv_ok_reachable [OF assms] by (simp add: inv_ok_def)
  have "sorted_wrt (\<lambda>a b. dispatch_key (snd a) \<le> dispatch_key (snd b)) ?sel"
    using sorted_wrt_take [OF sorted_eligible, of "nat (max 0 limit)" q now]
    by (simp add: dispatched_eq sorted_wrt_map case_prod_beta)
  moreover have "\<exists>r. get_record q k = Some r \<and> rec_status r = QUEUED \<and> \<not> is_expired r (whole_second now) \<and>
       rec_attempts r < rec_max_attempts r \<and> r' = mark_dispatched (whole_second now) r \<and>
       get_record (fst (dispatch_records q limit now)) k = Some r'" if kr: "(k, r') \<in> set ?sel" for k r'
  proof -
    obtain r where r: "(k, r) \<in> set (eligible q now)" "r' = mark_dispatched (whole_second now) r"
      using kr unfolding dispatched_eq by (auto dest: in_set_takeD)
    have "k \<in> fst ` set ?sel" using kr by force
    with get_record_dispatch [OF ok, of limit now k] obtain s
      where "get_record (swept q now) k = Some s \<and> rec_status s = QUEUED"
        "get_record (fst (dispatch_records q limit now)) k = Some (mark_dispatched (whole_second now) s)"
      by (auto simp: Let_def)
    moreover have "get_record q k = Some r" using r(1) eligible_iff [OF ok] by blast
    ultimately have "get_record (fst (dispatch_records q limit now)) k = Some (mark_dispatched (whole_second now) r)"
      using swept_queued [of q now k s] by simp
    with r eligible_iff [OF ok, of k r now] show ?thesis by blast
  qed
  moreover have "int (length ?sel) \<le> max 0 limit" by (simp add: dispatched_eq)
  ultimately show ?thesis using distinct_dispatched [OF ok, of limit now] by fast
qed

theorem dispatch_selects_eligible_witness:
  "map fst (snd (dispatch_records sample_queue 1 (2 * second))) = [''c1''] \<and>
   int (length (snd (dispatch_records sample_queue 1 (2 * second)))) \<le> max 0 1"
proof -
  have "map fst (snd (dispatch_records sample_queue 1 (2 * second))) = [''c1'']" by code_simp
  then show ?thesis using dispatch_selects_eligible [OF sample_queue_reachable(2), of 1 "2 * second"] by blast
qed

text \<open>No command is passed over: when a queued, unexpired record with an attempt left is not among the
  dispatched ones, the dispatch has used its whole limit, and on records that all come no later in
  the order of priority, command class and creation time.\<close>
lemma dispatch_no_priority_inversion:
  assumes "queue_reachable digest q"
    and "get_record q k = Some r" "rec_status r = QUEUED" "\<not> is_expired r (whole_second now)"
      "rec_attempts r < rec_max_attempts r"
    and "k \<notin> fst ` set (snd (dispatch_records q limit now))"
  shows "int (length (snd (dispatch_records q limit now))) = max 0 limit \<and>
    (\<forall>(k', r') \<in> set (snd (dispatch_records q limit now)). dispatch_key r' \<le> dispatch_key r)"
proof -
  have ok: "queue_ok q" using inv_ok_reachable [OF assms(1)] by (simp add: inv_ok_def)
  have "(k, r) \<in> set (eligible q now)" using assms(2-5) by (simp add: eligible_iff [OF ok])
  moreover have "(k, r) \<notin> set (take (nat (max 0 limit)) (eligible q now))"
    using assms(6) unfolding dispatched_eq by force
  ultimately have "length (take (nat (max 0 limit)) (eligible q now)) = nat (max 0 limit) \<and>
      (\<forall>a\<in>set (take (nat (max 0 limit)) (eligible q now)). dispatch_key (snd a) \<le> dispatch_key (snd (k, r)))"
    by (rule sorted_take_below [OF sorted_eligible])
  then show ?thesis unfolding dispatched_eq by (auto simp del: length_take)
qed

text \<open>After \<open>expire_old\<close> no unfinished record is past its expiry, finished records are as they were, and a
  second sweep at the same instant expires nothing; the count returned is the number of records
  that were unfinished and past their expiry.\<close>
lemma expire_old_complete:
  "let q' = fst (expire_old q now) in
     (\<forall>(k, r) \<in> set (q_records q'). \<not> (\<not> rec_finished r \<and> is_expired r (whole_second now))) \<and>
     (\<forall>(k, r) \<in> set (q_records q). rec_finished r \<longrightarrow> (k, r) \<in> set (q_records q')) \<and>
     snd (expire_old q' now) = 0 \<and>
     snd (expire_old q now) = int (length (filter (\<lambda>(k, r). \<not> rec_finished r \<and> is_expired r (whole_second now)) (q_records q)))"
proof -
  let ?q = "fst (expire_old q now)"
  have fin: "rec_finished (finish_record r EXPIRED t e p)" for r t e p
    by (simp add: rec_finished_def FINISHED_STATUSES_def)
  have none: "\<forall>(k, r) \<in> set (q_records ?q). \<not> expires_now (whole_second now) r"
    by (auto simp: expire_old_def Let_def expires_now_def fin split: if_splits)
  then have "filter (\<lambda>(k, r). expires_now (whole_second now) r) (q_records ?q) = []"
    by (auto simp: filter_empty_conv)
  then have "snd (expire_old ?q now) = 0" by (simp add: expire_old_def [of ?q] Let_def)
  moreover have "\<forall>(k, r) \<in> set (q_records q). rec_finished r \<longrightarrow> (k, r) \<in> set (q_records ?q)"
    by (force simp: expire_old_def Let_def expires_now_def)
  ultimately show ?thesis
    using none by (simp add: Let_def expires_now_def) (simp add: expire_old_def Let_def expires_now_def)
qed

definition finished_queue :: command_queue where
  "finished_queue = run_ops no_digest sample_queue [Cancel ''c1'' (2 * second)]"

text \<open>Pruning drops a record exactly when it is finished and its retention has passed, keeps every other
  record as it is (all unfinished ones in particular), and returns the number it dropped.\<close>
lemma prune_drops_exactly_old_finished:
  assumes "queue_reachable digest q"
  shows "(\<forall>k. get_record (fst (prune q s now)) k =
      (case get_record q k of
         None \<Rightarrow> None
       | Some r \<Rightarrow> if rec_finished r \<and> (\<exists>t. rec_finished_at r = At t \<and> t + max 0 s * second \<le> whole_second now)
                 then None else Some r)) \<and>
    snd (prune q s now) = int (length (q_records q)) - int (length (q_records (fst (prune q s now))))"
proof -
  have ok: "queue_ok q" using inv_ok_reachable [OF assms] by (simp add: inv_ok_def)
  let ?P = "pruned q s (whole_second now)"
  have "length (filter ?P (q_sequence q)) + length (filter (\<lambda>k. \<not> ?P k) (q_sequence q)) = length (q_sequence q)"
    by (rule sum_length_filter_compl)
  moreover have "length (q_sequence q) = length (q_records q)"
    using ok by (metis length_map queue_ok_def)
  moreover have "length (filter (\<lambda>k. \<not> ?P k) (q_sequence q)) = length (q_records (fst (prune q s now)))"
  proof -
    have "filter (\<lambda>k. \<not> ?P k) (q_sequence q) = map fst (q_records (fst (prune q s now)))"
      using ok map_fst_filter_keys [of "\<lambda>k. \<not> ?P k" "q_records q"] by (simp add: prune_eq [OF ok] queue_ok_def)
    then show ?thesis by simp
  qed
  ultimately have "snd (prune q s now) = int (length (q_records q)) - int (length (q_records (fst (prune q s now))))"
    by (simp add: prune_eq [OF ok])
  then show ?thesis
    by (auto simp: get_record_prune [OF ok] pruned_def prunable_def split: option.splits stamp.splits)
qed

text \<open>When acknowledgements and failures only arrive for commands that are still active, no two records that
  are queued, dispatched or acknowledged ever share a duplicate key, so a logical order is not in the
  queue twice.\<close>
lemma active_dedupe_keys_unique:
  assumes "orderly_reachable digest q"
    and "get_record q k1 = Some r1" "get_record q k2 = Some r2"
    and "rec_status r1 \<in> set ACTIVE_DEDUPE_STATUSES" "rec_status r2 \<in> set ACTIVE_DEDUPE_STATUSES"
    and "rec_dedupe_key r1 = rec_dedupe_key r2" "rec_dedupe_key r1 \<noteq> []"
  shows "k1 = k2"
proof -
  have "dedupe_unique q" using orderly_inv [OF assms(1)] by simp
  with assms(2-) show ?thesis unfolding dedupe_unique_def is_active_def by blast
qed

text \<open>Two order commands without an idempotency key share a duplicate key only when account, code, side,
  quantity, price, tag and strategy order all agree, provided no field holds a colon.\<close>
lemma send_order_key_injective:
  assumes "gc_type a = ''send_order''" "gc_type b = ''send_order''"
    and "gc_idempotency_key a = []" "gc_idempotency_key b = []"
    and "\<forall>k\<in>{''account'', ''code'', ''side'', ''quantity'', ''price'', ''tag'', ''strategy_order_id'', ''candidate_id''}.
      CHR '':'' \<notin> set (payload_text (gc_payload a) k) \<and> CHR '':'' \<notin> set (payload_text (gc_payload b) k)"
    and "dedupe_key_for_command digest a = dedupe_key_for_command digest b"
  shows "\<forall>k\<in>{''account'', ''code'', ''side'', ''quantity'', ''price'', ''tag''}.
    payload_text (gc_payload a) k = payload_text (gc_payload b) k"
proof -
  define fields where "fields c = [''order'', payload_text (gc_payload c) ''account'',
    payload_text (gc_payload c) ''code'', payload_text (gc_payload c) ''side'',
    payload_text (gc_payload c) ''quantity'', payload_text (gc_payload c) ''price'',
    payload_text (gc_payload c) ''tag'',
    py_str (py_or (py_or (dget (gc_payload c) ''strategy_order_id'') (dget (gc_payload c) ''candidate_id'')) (PStr []))]"
    for c :: gateway_command
  have last: "CHR '':'' \<notin> set (py_str (py_or (py_or (dget d ''strategy_order_id'') (dget d ''candidate_id'')) (PStr [])))"
    if "CHR '':'' \<notin> set (payload_text d ''strategy_order_id'')" "CHR '':'' \<notin> set (payload_text d ''candidate_id'')" for d
    using that by (auto simp: py_or_def payload_text_def dget_def dget_default_def split: option.splits)
  have "join (CHR '':'') (fields a) = join (CHR '':'') (fields b)"
    using assms(1-4,6) by (simp add: dedupe_key_for_command_def fields_def Let_def)
  moreover have "length (fields a) = length (fields b)" by (simp add: fields_def)
  moreover have "\<forall>x\<in>set (fields a). CHR '':'' \<notin> set x" "\<forall>x\<in>set (fields b). CHR '':'' \<notin> set x"
    using assms(5) last [of "gc_payload a"] last [of "gc_payload b"] by (simp_all add: fields_def)
  ultimately have "fields a = fields b" by (intro join_inj)
  then show ?thesis by (simp add: fields_def)
qed

definition keyless_order :: "string \<Rightarrow> gateway_command" where
  "keyless_order i = sample_order\<lparr>gc_command_id := i, gc_idempotency_key := []\<rparr>"

text \<open>\<open>fail\<close> does not look at the status of the record: a late retryable failure puts a cancelled command with
  an attempt left back into the queue, and the next dispatch hands it to the gateway.\<close>
lemma late_failure_requeues_cancelled:
  assumes "queue_reachable digest q" "get_record q k = Some r" "rec_status r = CANCELLED"
    and "rec_attempts r < rec_max_attempts r" "\<not> is_expired r (whole_second now)"
  shows "\<exists>r'. get_record (fst (fail_command q k err True now)) k = Some r' \<and> rec_status r' = QUEUED \<and>
    (k, r') \<in> set (eligible (fst (fail_command q k err True now)) now)"
proof -
  let ?r = "r\<lparr>rec_last_error := err, rec_status := QUEUED\<rparr>"
  let ?q = "fst (fail_command q k err True now)"
  have "is_expired (r\<lparr>rec_last_error := err\<rparr>) (whole_second now) = is_expired r (whole_second now)"
    "is_expired ?r (whole_second now) = is_expired r (whole_second now)"
    by (simp_all add: is_expired_def)
  with assms(2,4,5) have q: "?q = put_record k ?r q" and e: "\<not> is_expired ?r (whole_second now)"
    by (simp_all add: fail_command_def Let_def)
  have "inv_ok ?q" using inv_ok_reachable [OF assms(1)] by (rule inv_ok_fail)
  then have "queue_ok ?q" by (simp add: inv_ok_def)
  moreover have "get_record ?q k = Some ?r" by (simp add: q cq.lookup_store)
  ultimately show ?thesis using e assms(4) by (auto simp: eligible_iff)
qed

definition cancelled_run :: "queue_op list" where
  "cancelled_run = [Enqueue sample_tr None None None 0 [], Dispatch 20 second,
     Fail ''t1'' ''busy'' True (2 * second), Cancel ''t1'' (3 * second)]"

section \<open>Listing\<close>

definition list_match :: "command_status option \<Rightarrow> bool \<Rightarrow> command_record \<Rightarrow> bool" where
  "list_match target include_finished r \<longleftrightarrow>
     (target = None \<or> target = Some (rec_status r)) \<and> (include_finished \<or> \<not> rec_finished r)"

lemma list_loop_eq:
  assumes "length acc < max 1 (nat limit)" "\<forall>k\<in>set ks. get_record q k \<noteq> None"
  shows "list_loop q target limit inc ks acc =
     acc @ take (max 1 (nat limit) - length acc) (filter (list_match target inc) (map (the \<circ> get_record q) ks))"
  using assms
proof (induction ks arbitrary: acc)
  case Nil
  then show ?case by simp
next
  case (Cons k ks)
  then obtain r where r: "get_record q k = Some r" by auto
  have step: "list_loop q target limit inc (k # ks) acc =
      (if \<not> list_match target inc r then list_loop q target limit inc ks acc
       else if max 0 limit \<le> int (length acc + 1) then acc @ [r]
       else list_loop q target limit inc ks (acc @ [r]))"
    by (cases target) (simp_all add: r list_match_def)
  have m: "max 1 (nat limit) - length acc = Suc (max 1 (nat limit) - Suc (length acc))"
    using Cons.prems(1) by simp
  have IH: "list_loop q target limit inc ks acc' = acc' @ take (max 1 (nat limit) - length acc')
      (filter (list_match target inc) (map (the \<circ> get_record q) ks))"
    if "length acc' < max 1 (nat limit)" for acc'
    using Cons.IH [OF that] Cons.prems(2) by (simp add: comp_def)
  have full: "max 0 limit \<le> int (length acc + 1) \<longleftrightarrow> max 1 (nat limit) \<le> Suc (length acc)" by arith
  show ?case
  proof (cases "list_match target inc r")
    case False
    then show ?thesis by (simp add: step IH [OF Cons.prems(1)] r comp_def del: list_loop.simps)
  next
    case True
    show ?thesis
    proof (cases "max 1 (nat limit) \<le> Suc (length acc)")
      case f: True
      then have "max 1 (nat limit) - Suc (length acc) = 0" "max 0 limit \<le> int (length acc + 1)"
        using full by simp_all
      with True m show ?thesis by (simp add: step r comp_def del: max.bounded_iff list_loop.simps)
    next
      case False
      then have "\<not> max 0 limit \<le> int (length acc + 1)" using full by simp
      with False IH [of "acc @ [r]"] True m show ?thesis by (simp add: step r comp_def del: list_loop.simps)
    qed
  qed
qed

text \<open>Listing returns the newest matching records first, up to the limit, but never fewer than one when one
  matches: a limit of zero still yields the newest match, because the length is tested after the append.\<close>
lemma list_returns_newest:
  assumes "queue_reachable digest q"
  shows "list_records q target limit include_finished =
     take (max 1 (nat limit)) (filter (list_match target include_finished) (map snd (rev (q_records q))))"
proof -
  have ok: "queue_ok q" using inv_ok_reachable [OF assms] by (simp add: inv_ok_def)
  have "map (the \<circ> get_record q) (q_sequence q) = map snd (q_records q)"
  proof -
    have "map (the \<circ> get_record q) (map fst (q_records q)) = map snd (q_records q)"
      using queue_ok_mem [OF ok] by (auto simp: comp_def)
    with ok show ?thesis by (simp add: queue_ok_def)
  qed
  moreover have "\<forall>k\<in>set (rev (q_sequence q)). get_record q k \<noteq> None"
    using queue_ok_keys [OF ok] by auto
  ultimately show ?thesis
    unfolding list_records_def by (subst list_loop_eq) (simp_all flip: rev_map)
qed

end
