(* ===== verification/Persistent_Gateway.thy ===== *)
theory Persistent_Gateway
  imports Command_Store Command_Queue_Props
begin

text \<open>
  The state store of the gateway with a persistent command store (the branches of \<open>GatewayStateStore\<close> in
  \<open>trading/broker/gateway_state.py\<close> for a \<open>command_store\<close>, here the SQLite store): every operation works on the
  queue in memory and writes through to the tables; a restart loses the memory and recovers it from
  the tables. The methods of the store that the code looks up with \<open>getattr\<close> all exist.
\<close>

section \<open>Operations\<close>

record persistent_gateway =
  pg_gateway :: gateway_store
  pg_db :: command_store
  pg_expire_stale_dispatched :: bool
  pg_recovered_queued_count :: int

definition pg_queue :: "persistent_gateway \<Rightarrow> command_queue" where
  "pg_queue s = g_queue (pg_gateway s)"

definition set_queue :: "command_queue \<Rightarrow> persistent_gateway \<Rightarrow> persistent_gateway" where
  "set_queue q s = s\<lparr>pg_gateway := (pg_gateway s)\<lparr>g_queue := q\<rparr>\<rparr>"

definition set_pending :: "int \<Rightarrow> persistent_gateway \<Rightarrow> persistent_gateway" where
  "set_pending n s = s\<lparr>pg_gateway := (pg_gateway s)
     \<lparr>g_status := (g_status (pg_gateway s))\<lparr>gs_pending_command_count := n\<rparr>\<rparr>\<rparr>"

definition stored_snapshot :: "persistent_gateway \<Rightarrow> store_snapshot \<times> int" where
  "stored_snapshot s = (store_snapshot_of (pg_db s) [] [], pg_recovered_queued_count s)"

definition memory_pending :: "persistent_gateway \<Rightarrow> int" where
  "memory_pending s = qs_queued_count (queue_snapshot_of (pg_queue s))"

definition recover_from_store :: "codec \<Rightarrow> time \<Rightarrow> persistent_gateway \<Rightarrow> persistent_gateway \<times> int" where
  "recover_from_store x now s =
     (let db = fst (expire_old_records (pg_expire_stale_dispatched s) now (pg_db s));
          recovered = load_recoverable_records x now db;
          n = int (length recovered)
      in (set_pending n (set_queue (fold (\<lambda>r q. restore q r) recovered empty_queue)
            (s\<lparr>pg_db := db, pg_recovered_queued_count := n\<rparr>)), n))"

text \<open>A new process over the same tables.\<close>

definition start_gateway :: "codec \<Rightarrow> time \<Rightarrow> bool \<Rightarrow> gateway_store \<Rightarrow> command_store \<Rightarrow> persistent_gateway" where
  "start_gateway x now expire_stale fresh_store db =
     fst (recover_from_store x now
       \<lparr>pg_gateway = fresh_store, pg_db = db, pg_expire_stale_dispatched = expire_stale, pg_recovered_queued_count = 0\<rparr>)"

definition enqueue_stored ::
  "codec \<Rightarrow> persistent_gateway \<Rightarrow> gateway_command \<Rightarrow> command_priority option \<Rightarrow> int option \<Rightarrow> int option \<Rightarrow> pydict \<Rightarrow> time \<Rightarrow>
   persistent_gateway \<times> enqueue_result" where
  "enqueue_stored x s c priority ttl_sec max_attempts metadata now =
     (if gc_command_id c = [] then
        (s, \<lparr>er_accepted = False, er_record = None, er_reason = ''COMMAND_ID_REQUIRED'', er_duplicate_of = []\<rparr>)
      else
        let r = create_record (cx_digest x) c priority ttl_sec max_attempts now metadata;
            (db, result) = enqueue_record x now r (pg_db s);
            s1 = s\<lparr>pg_db := db\<rparr>;
            s2 = (case er_record result of
                    Some r' \<Rightarrow> if er_accepted result then set_queue (restore (pg_queue s1) r') s1 else s1
                  | None \<Rightarrow> s1)
        in (set_pending (qs_queued_count (ss_counts (store_snapshot_of db [] []))) s2, result))"

text \<open>A dispatched command is written back, with an event, before it is handed out.\<close>

definition store_dispatched :: "time \<Rightarrow> command_queue \<Rightarrow> gateway_command \<Rightarrow> command_store \<Rightarrow> command_store" where
  "store_dispatched now q c db =
     (case get_record q (gc_command_id c) of
        None \<Rightarrow> db
      | Some r \<Rightarrow>
          append_event (rec_command_id r) ''dispatch'' ''QUEUED'' ''DISPATCHED'' ''dispatched to gateway polling response''
            (record_to_dict r) (rec_dispatched_at r) now (upsert_record now r db))"

definition dispatch_stored :: "persistent_gateway \<Rightarrow> int \<Rightarrow> time \<Rightarrow> persistent_gateway \<times> gateway_command list" where
  "dispatch_stored s limit now =
     (let db = fst (expire_old_records True now (pg_db s));
          (q, commands) = dispatch (pg_queue s) limit now;
          s1 = set_queue q (s\<lparr>pg_db := fold (store_dispatched now q) commands db\<rparr>)
      in (set_pending (memory_pending s1) s1, commands))"

definition ack_stored ::
  "persistent_gateway \<Rightarrow> string \<Rightarrow> string \<Rightarrow> pydict option \<Rightarrow> string \<Rightarrow> time \<Rightarrow> persistent_gateway \<times> (py_error + bool)" where
  "ack_stored s command_id status result_payload err now =
     (case status_of status of
        None \<Rightarrow> (s, Inl ValueError)
      | Some target \<Rightarrow>
          let payload = (case result_payload of Some p \<Rightarrow> p | None \<Rightarrow> []);
              (q, acknowledged) = ack (pg_queue s) command_id target payload err now;
              (db, stored) = update_record_status command_id status result_payload err
                (if status \<noteq> ''DISPATCHED'' then ''command_ack'' else ''command_started'')
                (str_or err (text_or payload ''message'' [])) now (pg_db s)
          in (set_queue q (s\<lparr>pg_db := db\<rparr>), Inr (acknowledged \<or> stored)))"

definition fail_stored :: "persistent_gateway \<Rightarrow> string \<Rightarrow> string \<Rightarrow> bool \<Rightarrow> time \<Rightarrow> persistent_gateway \<times> bool" where
  "fail_stored s command_id err retryable now =
     (let (q, failed) = fail_command (pg_queue s) command_id err retryable now;
          s1 = set_queue q s
      in case (if failed then get_record q command_id else None) of
           Some r \<Rightarrow>
             (s1\<lparr>pg_db := append_event command_id ''command_failed'' [] (status_value (rec_status r)) err
                [(''retryable'', PBool retryable)] Blank now (upsert_record now r (pg_db s1))\<rparr>, True)
         | None \<Rightarrow>
             (let (db, stored) = update_record_status command_id ''FAILED'' None err ''command_failed'' err now (pg_db s1)
              in (s1\<lparr>pg_db := db\<rparr>, failed \<or> stored)))"

definition cancel_stored :: "codec \<Rightarrow> persistent_gateway \<Rightarrow> string \<Rightarrow> time \<Rightarrow> persistent_gateway \<times> bool" where
  "cancel_stored x s command_id now =
     (let (q, cancelled) = cancel (pg_queue s) command_id now;
          s1 = set_queue q s
      in case (if cancelled then get_record q command_id else None) of
           Some r \<Rightarrow>
             (s1\<lparr>pg_db := append_event command_id ''cancelled'' [] ''CANCELLED'' ''cancelled before dispatch'' [] Blank now
                (upsert_record now r (pg_db s1))\<rparr>, True)
         | None \<Rightarrow>
             (case store_get x now (pg_db s1) command_id of
                Some r \<Rightarrow>
                  if rec_status r = QUEUED then
                    (let (db, stored) = update_record_status command_id ''CANCELLED'' None [] ''cancelled''
                       ''cancelled before dispatch'' now (pg_db s1)
                     in (s1\<lparr>pg_db := db\<rparr>, stored))
                  else (s1, False)
              | None \<Rightarrow> (s1, False)))"

text \<open>Every expired record in memory is written back, also the ones that expired long ago.\<close>

definition expire_stored :: "persistent_gateway \<Rightarrow> time \<Rightarrow> persistent_gateway \<times> int" where
  "expire_stored s now =
     (let (q, n) = expire_old (pg_queue s) now;
          (db, m) = expire_old_records True now (pg_db s);
          db' = fold (\<lambda>r db. if rec_status r = EXPIRED then upsert_record now r db else db)
                  (list_records q None 10000 True) db;
          s1 = set_queue q (s\<lparr>pg_db := db'\<rparr>)
      in (set_pending (memory_pending s1) s1, max n m))"

text \<open>Only the tables are pruned.\<close>

definition prune_stored :: "persistent_gateway \<Rightarrow> int \<Rightarrow> time \<Rightarrow> persistent_gateway \<times> int" where
  "prune_stored s older_than_sec now =
     (let (db, removed) = prune_finished older_than_sec now (pg_db s)
      in (s\<lparr>pg_db := fst (prune_dedupe_keys now db)\<rparr>, removed))"

definition list_stored :: "codec \<Rightarrow> time \<Rightarrow> persistent_gateway \<Rightarrow> string \<Rightarrow> string \<Rightarrow> int \<Rightarrow> int \<Rightarrow> bool \<Rightarrow> string \<Rightarrow> pydict list" where
  "list_stored x now s status command_type limit offset include_finished trade_date =
     map record_to_dict (store_list x now (pg_db s) status command_type limit offset include_finished trade_date)"

definition daily_stored_count :: "persistent_gateway \<Rightarrow> string \<Rightarrow> string \<Rightarrow> string \<Rightarrow> string \<Rightarrow> int option \<Rightarrow> int" where
  "daily_stored_count s = count_order_commands (pg_db s)"

definition has_stored_duplicate :: "persistent_gateway \<Rightarrow> string \<Rightarrow> time \<Rightarrow> bool" where
  "has_stored_duplicate s key now = has_active_or_retained_dedupe (pg_db s) key now"

definition stored_duplicate_of :: "persistent_gateway \<Rightarrow> string \<Rightarrow> time \<Rightarrow> string" where
  "stored_duplicate_of s key now =
     (case find_active_or_retained_dedupe (pg_db s) key now of Some d \<Rightarrow> dk_command_id d | None \<Rightarrow> [])"

definition get_stored :: "codec \<Rightarrow> time \<Rightarrow> persistent_gateway \<Rightarrow> string \<Rightarrow> command_record option" where
  "get_stored x now s command_id = store_get x now (pg_db s) command_id"

definition command_events :: "persistent_gateway \<Rightarrow> string \<Rightarrow> int \<Rightarrow> command_event_row list" where
  "command_events s command_id limit = list_events (pg_db s) command_id limit"

definition append_command_event ::
  "persistent_gateway \<Rightarrow> string \<Rightarrow> string \<Rightarrow> string \<Rightarrow> string \<Rightarrow> string \<Rightarrow> pydict \<Rightarrow> time \<Rightarrow> persistent_gateway" where
  "append_command_event s command_id event_type status_from status_to message payload now =
     s\<lparr>pg_db := append_event command_id event_type status_from status_to message payload Blank now (pg_db s)\<rparr>"

section \<open>Runs with restarts\<close>

datatype stored_op =
    StoredEnqueue gateway_command "command_priority option" "int option" "int option" pydict time
  | StoredDispatch int time
  | StoredAck string string "pydict option" string time
  | StoredFail string string bool time
  | StoredCancel string time
  | StoredExpire time
  | StoredPrune int time
  | Restart gateway_store bool time

fun stored_step :: "codec \<Rightarrow> persistent_gateway \<Rightarrow> stored_op \<Rightarrow> persistent_gateway" where
  "stored_step x s (StoredEnqueue c p ttl tries md now) = fst (enqueue_stored x s c p ttl tries md now)"
| "stored_step x s (StoredDispatch limit now) = fst (dispatch_stored s limit now)"
| "stored_step x s (StoredAck k st payload err now) = fst (ack_stored s k st payload err now)"
| "stored_step x s (StoredFail k err retryable now) = fst (fail_stored s k err retryable now)"
| "stored_step x s (StoredCancel k now) = fst (cancel_stored x s k now)"
| "stored_step x s (StoredExpire now) = fst (expire_stored s now)"
| "stored_step x s (StoredPrune n now) = fst (prune_stored s n now)"
| "stored_step x s (Restart fresh expire_stale now) = start_gateway x now expire_stale fresh (pg_db s)"

definition run_stored :: "codec \<Rightarrow> persistent_gateway \<Rightarrow> stored_op list \<Rightarrow> persistent_gateway" where
  "run_stored x s ops = foldl (stored_step x) s ops"

text \<open>The commands that an operation, and a run, hand to the gateway.\<close>

fun handed_out :: "persistent_gateway \<Rightarrow> stored_op \<Rightarrow> gateway_command list" where
  "handed_out s (StoredDispatch limit now) = snd (dispatch_stored s limit now)"
| "handed_out s _ = []"

fun stored_trace :: "codec \<Rightarrow> persistent_gateway \<Rightarrow> stored_op list \<Rightarrow> gateway_command list" where
  "stored_trace x s [] = []"
| "stored_trace x s (op # ops) = handed_out s op @ stored_trace x (stored_step x s op) ops"

end
