(* ===== verification/Persistent_Gateway_Props.thy ===== *)
theory Persistent_Gateway_Props
  imports Persistent_Gateway
begin

text \<open>
  What the persistent store adds to the queue: no command is handed out a second time after a restart,
  duplicate keys outlive the commands, and what is recovered; and where tables and memory part.
\<close>

section \<open>Rows and records\<close>

definition rec_ok :: "command_record \<Rightarrow> bool" where
  "rec_ok r \<longleftrightarrow> gc_command_id (rec_command r) = rec_command_id r \<and> rec_command_id r \<noteq> [] \<and>
     rec_command_type r = gc_type (rec_command r) \<and> rec_dedupe_key r \<noteq> [] \<and> tries_ok r \<and> 1 \<le> rec_max_attempts r"

definition row_ok :: "string \<Rightarrow> command_row \<Rightarrow> bool" where
  "row_ok k w \<longleftrightarrow> cr_command_id w = k \<and> k \<noteq> [] \<and> cr_dedupe_key w \<noteq> [] \<and> 0 \<le> cr_attempts w \<and>
     cr_attempts w \<le> cr_max_attempts w \<and> 1 \<le> cr_max_attempts w \<and>
     (\<exists>c. cr_command w = gateway_command_to_dict c \<and> cr_payload w = gc_payload c \<and> gc_command_id c = k \<and>
        cr_command_type w = gc_type c)"

lemma row_dict_fields:
  "dget (row_dict w) ''command'' = PNone" "dget (row_dict w) ''payload'' = PNone"
  "dget (row_dict w) ''command_json'' = PDict (cr_command w)" "dget (row_dict w) ''payload_json'' = PDict (cr_payload w)"
  "dget (row_dict w) ''status'' = PStr (cr_status w)" "dget (row_dict w) ''expires_at'' = stamp_val (cr_expires_at w)"
  "dget (row_dict w) ''attempts'' = PInt (cr_attempts w)" "dget (row_dict w) ''max_attempts'' = PInt (cr_max_attempts w)"
  "text_or (row_dict w) ''command_id'' s = str_or (cr_command_id w) s"
  "text_or (row_dict w) ''command_type'' s = str_or (cr_command_type w) s"
  "text_or (row_dict w) ''dedupe_key'' s = str_or (cr_dedupe_key w) s"
  by (simp_all add: row_dict_def dget_def text_or_def py_or_def str_or_def)

lemma raw_command_of_row:
  assumes "cr_command w = gateway_command_to_dict c" "cr_payload w = gc_payload c"
  shows "raw_command_of loads (row_dict w) = gateway_command_to_dict c"
proof -
  have "truthy (dget (gateway_command_to_dict c) ''payload'') = (gc_payload c \<noteq> [])"
    by (simp add: gateway_command_to_dict_def dget_def)
  moreover have "gateway_command_to_dict c \<noteq> []" by (simp add: gateway_command_to_dict_def)
  ultimately show ?thesis
    using assms by (auto simp: raw_command_of_def row_dict_fields py_or_def loads_mapping_def Let_def)
qed

lemma row_to_record_ok:
  assumes "row_ok k w"
  shows "rec_ok (row_to_record x now w)" "rec_command_id (row_to_record x now w) = k"
    "rec_attempts (row_to_record x now w) = cr_attempts w" "rec_max_attempts (row_to_record x now w) = cr_max_attempts w"
    "rec_dedupe_key (row_to_record x now w) = cr_dedupe_key w"
    "rec_expires_at (row_to_record x now w) = cr_expires_at w" "rec_status (row_to_record x now w) = coerce_status (PStr (cr_status w))"
    "rec_command_type (row_to_record x now w) = cr_command_type w"
proof -
  from assms obtain c where c: "cr_command w = gateway_command_to_dict c" "cr_payload w = gc_payload c"
    "gc_command_id c = k" "cr_command_type w = gc_type c" by (auto simp: row_ok_def)
  define r where "r = row_to_record x now w"
  have r: "r = record_from_dict (cx_digest x) (cx_loads x) (cx_fresh x) now (row_dict w)" by (simp add: r_def row_to_record_def)
  have cmd: "rec_command r = gateway_command_from_dict (cx_fresh x) now (gateway_command_to_dict c)"
    unfolding r by (simp add: record_from_dict_def Let_def raw_command_of_row [OF c(1,2)])
  have "gc_command_id (rec_command r) = k" "gc_type (rec_command r) = gc_type c"
    using c(3) assms unfolding cmd by (simp_all add: wire_defs wire_read row_ok_def)
  moreover have "rec_command_id r = k" "rec_dedupe_key r = cr_dedupe_key w" "rec_attempts r = cr_attempts w"
    "rec_max_attempts r = cr_max_attempts w" "rec_expires_at r = cr_expires_at w" "rec_status r = coerce_status (PStr (cr_status w))"
    using assms unfolding r by (simp_all add: record_from_dict_def Let_def row_dict_fields row_ok_def str_or_def safe_int_def)
  moreover have "rec_command_type r = str_or (cr_command_type w) (gc_type (rec_command r))"
    unfolding r by (simp add: record_from_dict_def Let_def row_dict_fields)
  ultimately show "rec_ok (row_to_record x now w)" "rec_command_id (row_to_record x now w) = k"
    "rec_attempts (row_to_record x now w) = cr_attempts w" "rec_max_attempts (row_to_record x now w) = cr_max_attempts w"
    "rec_dedupe_key (row_to_record x now w) = cr_dedupe_key w"
    "rec_expires_at (row_to_record x now w) = cr_expires_at w" "rec_status (row_to_record x now w) = coerce_status (PStr (cr_status w))"
    "rec_command_type (row_to_record x now w) = cr_command_type w"
    using assms c(4) by (auto simp: r_def [symmetric] rec_ok_def row_ok_def tries_ok_def str_or_def)
qed

lemma row_of_record_ok: "rec_ok r \<Longrightarrow> row_ok (rec_command_id r) (row_of_record now r)"
  by (auto simp: rec_ok_def row_ok_def row_of_record_def tries_ok_def)

section \<open>Steps on the tables\<close>

text \<open>A step that changes rows without touching their identity and never takes an attempt back.\<close>

definition row_core :: "command_row \<Rightarrow> string \<times> string \<times> string \<times> pydict \<times> pydict \<times> int" where
  "row_core w = (cr_command_id w, cr_command_type w, cr_dedupe_key w, cr_command w, cr_payload w, cr_max_attempts w)"

definition rows_step :: "command_store \<Rightarrow> command_store \<Rightarrow> bool" where
  "rows_step db db' \<longleftrightarrow> (\<forall>k w'. get_row db' k = Some w' \<longrightarrow>
     (\<exists>w. get_row db k = Some w \<and> row_core w' = row_core w \<and> cr_attempts w \<le> cr_attempts w' \<and>
        cr_attempts w' \<le> max 1 (cr_attempts w)))"

lemma rows_step_refl [simp]: "rows_step db db"
  by (simp add: rows_step_def)

lemma rows_step_trans:
  assumes "rows_step db db1" "rows_step db1 db2"
  shows "rows_step db db2"
  unfolding rows_step_def
proof (intro allI impI)
  fix k w2 assume "get_row db2 k = Some w2"
  with assms(2) obtain w1 where 1: "get_row db1 k = Some w1" "row_core w2 = row_core w1" "cr_attempts w1 \<le> cr_attempts w2"
    "cr_attempts w2 \<le> max 1 (cr_attempts w1)" by (auto simp: rows_step_def)
  with assms(1) obtain w where "get_row db k = Some w" "row_core w1 = row_core w" "cr_attempts w \<le> cr_attempts w1"
    "cr_attempts w1 \<le> max 1 (cr_attempts w)" by (auto simp: rows_step_def)
  with 1 show "\<exists>w. get_row db k = Some w \<and> row_core w2 = row_core w \<and> cr_attempts w \<le> cr_attempts w2 \<and>
      cr_attempts w2 \<le> max 1 (cr_attempts w)" by (intro exI [of _ w]) auto
qed

lemma rows_step_fold:
  assumes "\<And>k db. rows_step db (f k db)"
  shows "rows_step db (fold f ks db)"
proof (induction ks arbitrary: db)
  case (Cons k ks)
  show ?case using rows_step_trans [OF assms [of db k] Cons.IH] by simp
qed simp

lemma get_row_simps [simp]:
  "get_row (put_row k w db) k' = (if k' = k then Some w else get_row db k')"
  "get_row (insert_event a b c d e p t db) = get_row db" "get_row (append_event a b c d e p t now db) = get_row db"
  "get_row (upsert_dedupe now ret r db) = get_row db" "get_row (db\<lparr>cs_dedupe := ds\<rparr>) = get_row db"
  "get_row (db\<lparr>cs_events := es\<rparr>) = get_row db"
  by (auto simp: put_row_def get_row_def insert_event_def append_event_def upsert_dedupe_def Let_def dict_simps fun_eq_iff)

lemma updated_row_step: "row_core (updated_row st p err now w) = row_core w"
  "cr_attempts w \<le> cr_attempts (updated_row st p err now w)" "cr_attempts (updated_row st p err now w) \<le> max 1 (cr_attempts w)"
  by (simp_all add: updated_row_def row_core_def Let_def)

lemma update_status_row:
  "get_row (fst (update_record_status k st p err ty msg now db)) k' =
     (if k' = k then map_option (updated_row st p err now) (get_row db k) else get_row db k')"
  by (auto simp: update_record_status_def Let_def split: option.splits)

lemma update_status_step [simp]: "rows_step db (fst (update_record_status k st p err ty msg now db))"
  unfolding rows_step_def update_status_row using updated_row_step by (auto split: if_splits)

lemma expire_rows_step [simp]: "rows_step db (fst (expire_old_records b now db))"
  unfolding expire_old_records_def Let_def fst_conv by (rule rows_step_fold) simp_all

lemma prune_rows_step [simp]: "rows_step db (fst (prune_finished n now db))" "rows_step db (fst (prune_dedupe_keys now db))"
proof -
  have "rows_step db (db\<lparr>cs_commands := AList.delete k (cs_commands db), cs_events := es\<rparr>)" for k es db
    by (auto simp: rows_step_def get_row_def dict_simps split: if_splits)
  then show "rows_step db (fst (prune_finished n now db))"
    unfolding prune_finished_def Let_def fst_conv by (intro rows_step_fold) simp_all
  show "rows_step db (fst (prune_dedupe_keys now db))"
    by (simp add: prune_dedupe_keys_def rows_step_def)
qed

lemma rows_step_append [simp]: "rows_step db (append_event a b c d e p t now db') = rows_step db db'"
  by (simp add: rows_step_def)

lemma upsert_record_row:
  "get_row (upsert_record now r db) k =
     (if k = rec_command_id r then Some ((row_of_record now r)\<lparr>cr_created_at :=
        (case get_row db k of None \<Rightarrow> rec_created_at r | Some old \<Rightarrow> cr_created_at old)\<rparr>)
      else get_row db k)"
  by (auto simp: upsert_record_def upsert_row_def Let_def row_of_record_def split: option.split)

lemma row_ok_step: "row_ok k w \<Longrightarrow> row_core w' = row_core w \<Longrightarrow> cr_attempts w \<le> cr_attempts w' \<Longrightarrow>
    cr_attempts w' \<le> max 1 (cr_attempts w) \<Longrightarrow> row_ok k w'"
  by (auto simp: row_ok_def row_core_def)

section \<open>The invariant of the system\<close>

definition mem_ok :: "command_queue \<Rightarrow> bool" where
  "mem_ok q \<longleftrightarrow> inv_ok q \<and> (\<forall>k r. get_record q k = Some r \<longrightarrow> rec_ok r)"

definition rows_ok :: "command_store \<Rightarrow> bool" where
  "rows_ok db \<longleftrightarrow> distinct (map fst (cs_commands db)) \<and> (\<forall>k w. get_row db k = Some w \<longrightarrow> row_ok k w)"

definition system_ok :: "persistent_gateway \<Rightarrow> bool" where
  "system_ok s \<longleftrightarrow> mem_ok (pg_queue s) \<and> rows_ok (pg_db s)"

lemma rows_okD: "rows_ok db \<Longrightarrow> get_row db k = Some w \<Longrightarrow> row_ok k w"
  by (simp add: rows_ok_def)

lemma rows_step_ok: "rows_step db db' \<Longrightarrow> rows_ok db \<Longrightarrow> distinct (map fst (cs_commands db')) \<Longrightarrow> rows_ok db'"
  unfolding rows_ok_def rows_step_def using row_ok_step by blast

lemma distinct_commands [simp]:
  "distinct (map fst (cs_commands (put_row k w db))) = distinct (map fst (AList.update k w (cs_commands db)))"
  "cs_commands (insert_event a b c d e p t db) = cs_commands db" "cs_commands (append_event a b c d e p t now db) = cs_commands db"
  "cs_commands (upsert_dedupe now ret r db) = cs_commands db" "cs_commands (fst (prune_dedupe_keys now db)) = cs_commands db"
  by (simp_all add: put_row_def insert_event_def append_event_def upsert_dedupe_def Let_def prune_dedupe_keys_def)

lemma distinct_update_status:
  "distinct (map fst (cs_commands db)) \<Longrightarrow> distinct (map fst (cs_commands (fst (update_record_status k st p err ty msg now db))))"
  by (auto simp: update_record_status_def Let_def put_row_def insert_event_def distinct_keys_update split: option.splits)

lemma fold_keeps: "(\<And>x s. P s \<Longrightarrow> P (f x s)) \<Longrightarrow> P s \<Longrightarrow> P (fold f xs s)"
  by (induction xs arbitrary: s) auto

lemma rows_ok_update_status [simp]: "rows_ok db \<Longrightarrow> rows_ok (fst (update_record_status k st p err ty msg now db))"
  by (rule rows_step_ok [OF update_status_step]) (auto simp: rows_ok_def intro: distinct_update_status)

lemma rows_ok_expire [simp]: "rows_ok db \<Longrightarrow> rows_ok (fst (expire_old_records b now db))"
  unfolding expire_old_records_def Let_def fst_conv by (rule fold_keeps) simp_all

lemma rows_ok_misc [simp]:
  "rows_ok (append_event a b c d e p t now db) = rows_ok db" "rows_ok (upsert_dedupe now ret r db) = rows_ok db"
  "rows_ok (fst (prune_dedupe_keys now db)) = rows_ok db"
proof -
  show "rows_ok (fst (prune_dedupe_keys now db)) = rows_ok db"
    by (simp add: rows_ok_def get_row_def)
qed (simp_all add: rows_ok_def)

lemma rows_ok_upsert [simp]: "rows_ok db \<Longrightarrow> rec_ok r \<Longrightarrow> rows_ok (upsert_record now r db)"
proof -
  assume ok: "rows_ok db" "rec_ok r"
  have "distinct (map fst (cs_commands (upsert_record now r db)))"
    using ok(1) by (simp add: rows_ok_def upsert_record_def upsert_row_def Let_def distinct_keys_update)
  moreover have "row_ok (rec_command_id r) ((row_of_record now r)\<lparr>cr_created_at := t\<rparr>)" for t
    using row_of_record_ok [OF ok(2), of now] by (simp add: row_ok_def)
  ultimately show ?thesis
    using ok(1) by (auto simp: rows_ok_def upsert_record_row split: if_splits)
qed

lemma rows_ok_prune [simp]: "rows_ok db \<Longrightarrow> rows_ok (fst (prune_finished n now db))"
proof -
  assume ok: "rows_ok db"
  have "distinct (map fst (cs_commands (fst (prune_finished n now db))))"
    unfolding prune_finished_def Let_def fst_conv
    by (rule fold_keeps) (use ok in \<open>auto simp: rows_ok_def intro: distinct_delete\<close>)
  with ok show ?thesis by (intro rows_step_ok [OF prune_rows_step(1)])
qed

text \<open>A step of the memory that changes records but not what they are, and takes no attempt back.\<close>

definition rec_core :: "command_record \<Rightarrow> gateway_command \<times> string \<times> string \<times> string \<times> int" where
  "rec_core r = (rec_command r, rec_command_id r, rec_command_type r, rec_dedupe_key r, rec_max_attempts r)"

definition mem_step :: "command_queue \<Rightarrow> command_queue \<Rightarrow> bool" where
  "mem_step q q' \<longleftrightarrow> (\<forall>k r'. get_record q' k = Some r' \<longrightarrow>
     (\<exists>r. get_record q k = Some r \<and> rec_core r' = rec_core r \<and> rec_attempts r \<le> rec_attempts r'))"

lemma finish_core [simp]: "rec_core (finish_record r st now e p) = rec_core r"
  "rec_core (mark_dispatched now r) = rec_core r"
  by (simp_all add: rec_core_def finish_record_def mark_dispatched_def)

lemma mem_step_refl [simp]: "mem_step q q"
  by (simp add: mem_step_def)

lemma mem_step_put:
  "get_record q k = Some r \<Longrightarrow> rec_core r' = rec_core r \<Longrightarrow> rec_attempts r \<le> rec_attempts r' \<Longrightarrow> mem_step q (put_record k r' q)"
  by (auto simp: mem_step_def cq.lookup_store)

lemma mem_step_expire: "mem_step q (fst (expire_old q now))"
  by (auto simp: mem_step_def get_record_expire_old)

lemma mem_step_ack: "mem_step q (fst (ack q k st p err now))"
  by (auto simp: ack_def rec_core_def finish_record_def intro!: mem_step_put split: option.split)

lemma mem_step_fail: "mem_step q (fst (fail_command q k err retryable now))"
  by (auto simp: fail_command_def Let_def rec_core_def finish_record_def intro!: mem_step_put split: option.split)

lemma mem_step_cancel: "mem_step q (fst (cancel q k now))"
  by (auto simp: cancel_def rec_core_def finish_record_def intro!: mem_step_put split: option.split)

lemma mem_step_dispatch:
  assumes "queue_ok q"
  shows "mem_step q (fst (dispatch_records q limit now))"
  unfolding mem_step_def
proof (intro allI impI)
  fix k r' assume r': "get_record (fst (dispatch_records q limit now)) k = Some r'"
  obtain r where r: "get_record (swept q now) k = Some r" "rec_core r' = rec_core r" "rec_attempts r \<le> rec_attempts r'"
  proof (cases "k \<in> fst ` set (snd (dispatch_records q limit now))")
    case True
    with get_record_dispatch [OF assms, of limit now k] obtain r where
      "get_record (swept q now) k = Some r" "r' = mark_dispatched (whole_second now) r"
      using r' by (auto simp: Let_def)
    then show thesis by (intro that [of r]) simp_all
  next
    case False
    with get_record_dispatch [OF assms, of limit now k] consider "get_record (swept q now) k = Some r'" |
      r where "get_record (swept q now) k = Some r" "r' = finish_record r FAILED (whole_second now) ''MAX_ATTEMPTS_EXCEEDED'' None"
      using r' by (auto simp: Let_def)
    then show thesis
    proof cases
      case 1
      then show thesis by (rule that) simp_all
    next
      case 2
      then show thesis by (intro that [of r]) simp_all
    qed
  qed
  obtain r0 where "get_record q k = Some r0" "rec_core r = rec_core r0" "rec_attempts r0 \<le> rec_attempts r"
    using mem_step_expire [of q "whole_second now"] r(1) by (auto simp: mem_step_def swept_def)
  with r show "\<exists>r. get_record q k = Some r \<and> rec_core r' = rec_core r \<and> rec_attempts r \<le> rec_attempts r'" by auto
qed

lemma mem_step_ok: "mem_step q q' \<Longrightarrow> inv_ok q' \<Longrightarrow> mem_ok q \<Longrightarrow> mem_ok q'"
proof -
  assume s: "mem_step q q'" "inv_ok q'" "mem_ok q"
  have "rec_ok r'" if r': "get_record q' k = Some r'" for k r'
  proof -
    obtain r where "get_record q k = Some r" "rec_core r' = rec_core r" using s(1) r' by (auto simp: mem_step_def)
    with s(3) have "rec_ok r" "rec_core r' = rec_core r" by (auto simp: mem_ok_def)
    moreover have "tries_ok r'" using inv_okD [OF s(2) r'] by simp
    ultimately show ?thesis by (simp add: rec_ok_def rec_core_def)
  qed
  with s(2) show ?thesis by (simp add: mem_ok_def)
qed

lemma mem_step_trans:
  assumes "mem_step q q1" "mem_step q1 q2"
  shows "mem_step q q2"
  unfolding mem_step_def
proof (intro allI impI)
  fix k r2 assume "get_record q2 k = Some r2"
  with assms(2) obtain r1 where 1: "get_record q1 k = Some r1" "rec_core r2 = rec_core r1" "rec_attempts r1 \<le> rec_attempts r2"
    by (auto simp: mem_step_def)
  with assms(1) obtain r where "get_record q k = Some r" "rec_core r1 = rec_core r" "rec_attempts r \<le> rec_attempts r1"
    by (auto simp: mem_step_def)
  with 1 show "\<exists>r. get_record q k = Some r \<and> rec_core r2 = rec_core r \<and> rec_attempts r \<le> rec_attempts r2"
    by (intro exI [of _ r]) auto
qed

section \<open>Enqueueing and recovery\<close>

lemma rec_ok_create [simp]: "gc_command_id c \<noteq> [] \<Longrightarrow> rec_ok (create_record digest c p ttl tries now md)"
proof -
  assume "gc_command_id c \<noteq> []"
  moreover have "dedupe_key_for_command digest c \<noteq> []" by (auto simp: dedupe_key_for_command_def Let_def)
  moreover have "rec_command (create_record digest c p ttl tries now md) = c" by (simp add: create_record_def Let_def)
  ultimately show ?thesis by (simp add: rec_ok_def)
qed

lemma enqueue_record_cases:
  assumes "fst (enqueue_record x now r db) = db'"
  obtains (refused) res where "enqueue_record x now r db = (db', res)" "\<not> er_accepted res" "cs_commands db' = cs_commands db"
      "cs_dedupe db' = cs_dedupe db"
    | (accepted) "get_row db (rec_command_id r) = None"
      "\<forall>d. retained_dedupe db (rec_dedupe_key r) now = Some d \<longrightarrow> dk_command_id d = rec_command_id r"
      "db' = append_event (rec_command_id r) ''enqueue'' [] (status_value (rec_status r)) ''command enqueued''
         (record_to_dict r) (rec_created_at r) now (upsert_record now r db)"
      "enqueue_record x now r db = (db', \<lparr>er_accepted = True, er_record = Some r, er_reason = [], er_duplicate_of = []\<rparr>)"
proof (cases "er_accepted (snd (enqueue_record x now r db))")
  case True
  with assms show thesis
    by (intro accepted) (auto simp: enqueue_record_def Let_def upsert_record_def split: if_splits option.splits)
next
  case False
  with assms show thesis
    by (intro refused [of "snd (enqueue_record x now r db)"])
      (auto simp: enqueue_record_def Let_def duplicate_event_def insert_event_def append_event_def split: if_splits option.splits)
qed

lemma get_record_restore:
  "rec_command_id r \<noteq> [] \<Longrightarrow> get_record (restore q r) k = (if k = rec_command_id r then Some r else get_record q k)"
  by (auto simp: restore_def cq.lookup_store)

lemma mem_ok_restore: "mem_ok q \<Longrightarrow> rec_ok r \<Longrightarrow> mem_ok (restore q r)"
  by (auto simp: mem_ok_def rec_ok_def inv_ok_restore get_record_restore split: if_splits)

lemma mem_ok_empty: "mem_ok empty_queue"
  using inv_ok_reachable [OF queue_reachable.start] by (simp add: mem_ok_def empty_queue_def get_record_def)

lemma recovered_rows:
  assumes "rows_ok db" "r \<in> set (load_recoverable_records x now db)"
  obtains w where "get_row db (rec_command_id r) = Some w" "r = row_to_record x now w" "cr_status w = ''QUEUED''"
    "outlives (cr_expires_at w) now" "rec_ok r" "rec_attempts r = cr_attempts w" "rec_max_attempts r = cr_max_attempts w"
    "rec_dedupe_key r = cr_dedupe_key w" "rec_command_type r = cr_command_type w"
proof -
  from assms(2) obtain w where w: "w \<in> snd ` set (cs_commands db)" "r = row_to_record x now w" "cr_status w = ''QUEUED''"
    "outlives (cr_expires_at w) now" by (auto simp: load_recoverable_records_def)
  from w(1) obtain k where k: "(k, w) \<in> set (cs_commands db)" by auto
  have "distinct (map fst (cs_commands db))" using assms(1) by (simp add: rows_ok_def)
  with k have g: "get_row db k = Some w" unfolding get_row_def by (rule lookup_mem [THEN iffD1, rotated])
  note ok = row_to_record_ok [OF rows_okD [OF assms(1) g], of x now]
  show thesis
    by (rule that [of w]) (simp_all only: w(3,4) g ok w(2) [symmetric] ok [folded w(2)])
qed

lemma fold_restore:
  assumes "\<forall>r\<in>set rs. rec_ok r" "mem_ok q"
  shows "mem_ok (fold (\<lambda>r q. restore q r) rs q)"
    "get_record (fold (\<lambda>r q. restore q r) rs q) k = Some r \<Longrightarrow> get_record q k = Some r \<or> (r \<in> set rs \<and> rec_command_id r = k)"
  using assms
proof (induction rs arbitrary: q)
  case (Cons a rs)
  {
    case 1
    with Cons.IH(1) [of "restore q a"] show ?case by (simp add: mem_ok_restore)
  next
    case 2
    with Cons.IH(2) [of "restore q a"] have "get_record (restore q a) k = Some r \<or> (r \<in> set rs \<and> rec_command_id r = k)"
      by (simp add: mem_ok_restore)
    with 2 show ?case by (auto simp: get_record_restore rec_ok_def split: if_splits)
  }
qed simp_all

lemma pg_simps [simp]:
  "pg_queue (set_queue q s) = q" "pg_db (set_queue q s) = pg_db s" "pg_queue (set_pending n s) = pg_queue s"
  "pg_db (set_pending n s) = pg_db s" "pg_queue (s\<lparr>pg_db := db\<rparr>) = pg_queue s"
  "pg_queue (s\<lparr>pg_recovered_queued_count := m\<rparr>) = pg_queue s"
  by (simp_all add: pg_queue_def set_queue_def set_pending_def)

lemma start_gateway_parts:
  "pg_db (start_gateway x now b fresh db) = fst (expire_old_records b now db)"
  "pg_queue (start_gateway x now b fresh db) =
     fold (\<lambda>r q. restore q r) (load_recoverable_records x now (fst (expire_old_records b now db))) empty_queue"
  by (simp_all add: start_gateway_def recover_from_store_def Let_def)

section \<open>Handing out commands\<close>

lemma selected_record:
  assumes "mem_ok q" "(k, r) \<in> set (snd (dispatch_records q limit now))"
  shows "get_record (fst (dispatch_records q limit now)) k = Some r" "rec_ok r" "rec_command_id r = k"
proof -
  have ok: "queue_ok q" "mem_ok (fst (dispatch_records q limit now))"
    using assms(1) mem_step_ok [OF mem_step_dispatch] inv_ok_dispatch by (auto simp: mem_ok_def inv_ok_def)
  have k: "k \<in> fst ` set (snd (dispatch_records q limit now))" using assms(2) by force
  with get_record_dispatch [OF ok(1), of limit now k] obtain r0 where
    r0: "get_record (swept q now) k = Some r0" "get_record (fst (dispatch_records q limit now)) k = Some (mark_dispatched (whole_second now) r0)"
    by (auto simp: Let_def)
  from assms(2) obtain r1 where r1: "(k, r1) \<in> set (dispatch_candidates (swept q now))" "r = mark_dispatched (whole_second now) r1"
    unfolding dispatch_records_eq swept_def [symmetric] by (fastforce dest: in_set_takeD)
  have "get_record (swept q now) k = Some r1"
    using dispatch_candidates_set [of "swept q now" k r1] r1(1) queue_ok_expire_old [OF ok(1)] by (simp add: swept_def)
  with r0 r1 show r: "get_record (fst (dispatch_records q limit now)) k = Some r" by simp
  with ok(2) show "rec_ok r" "rec_command_id r = k" by (auto simp: mem_ok_def dest: inv_okD)
qed

lemma handed_ids:
  assumes "mem_ok q"
  shows "map gc_command_id (snd (dispatch q limit now)) = map fst (snd (dispatch_records q limit now))"
  using selected_record [OF assms, of _ _ limit now]
  by (auto simp: dispatch_def case_prod_beta rec_ok_def intro!: map_cong)

definition mem_cover :: "int \<Rightarrow> string \<Rightarrow> command_queue \<Rightarrow> bool" where
  "mem_cover d k q \<longleftrightarrow> (\<forall>r. get_record q k = Some r \<longrightarrow> d \<le> rec_attempts r \<and> rec_max_attempts r = 1)"

definition row_cover :: "int \<Rightarrow> string \<Rightarrow> command_store \<Rightarrow> bool" where
  "row_cover d k db \<longleftrightarrow> (\<forall>w. get_row db k = Some w \<longrightarrow> d \<le> cr_attempts w \<and> cr_max_attempts w = 1)"

lemma mem_cover_step: "mem_step q q' \<Longrightarrow> mem_cover d k q \<Longrightarrow> mem_cover d k q'"
  unfolding mem_step_def mem_cover_def rec_core_def by fastforce

lemma row_cover_step: "rows_step db db' \<Longrightarrow> row_cover d k db \<Longrightarrow> row_cover d k db'"
  unfolding rows_step_def row_cover_def row_core_def by fastforce

lemma row_cover_upsert:
  "row_cover d k db \<Longrightarrow> (rec_command_id r = k \<Longrightarrow> d \<le> rec_attempts r \<and> rec_max_attempts r = 1) \<Longrightarrow> row_cover d k (upsert_record now r db)"
  by (auto simp: row_cover_def upsert_record_row row_of_record_def)

lemma row_cover_misc [simp]: "row_cover d k (append_event a b c e f p t now db) = row_cover d k db"
  "row_cover d k (db\<lparr>cs_dedupe := ds\<rparr>) = row_cover d k db"
  by (simp_all add: row_cover_def)

text \<open>Writing the dispatched commands back.\<close>

definition backed :: "command_queue \<Rightarrow> gateway_command \<Rightarrow> bool" where
  "backed q c \<longleftrightarrow> (\<exists>r. get_record q (gc_command_id c) = Some r \<and> rec_ok r \<and> rec_command_id r = gc_command_id c)"

lemma fold_store_dispatched:
  assumes "\<forall>c\<in>set cs. backed q c" "rows_ok db"
  shows "rows_ok (fold (store_dispatched now q) cs db) \<and>
    (if k \<in> gc_command_id ` set cs
     then \<exists>w r. get_row (fold (store_dispatched now q) cs db) k = Some w \<and> get_record q k = Some r \<and>
            cr_attempts w = rec_attempts r \<and> cr_max_attempts w = rec_max_attempts r
     else get_row (fold (store_dispatched now q) cs db) k = get_row db k)"
  using assms
proof (induction cs rule: rev_induct)
  case (snoc c cs)
  let ?db = "fold (store_dispatched now q) cs db"
  from snoc.prems(1) have "backed q c" by simp
  then obtain r0 where r0: "get_record q (gc_command_id c) = Some r0" "rec_ok r0" "rec_command_id r0 = gc_command_id c"
    by (auto simp: backed_def)
  have db: "store_dispatched now q c ?db = append_event (rec_command_id r0) ''dispatch'' ''QUEUED'' ''DISPATCHED''
      ''dispatched to gateway polling response'' (record_to_dict r0) (rec_dispatched_at r0) now (upsert_record now r0 ?db)"
    by (simp add: store_dispatched_def r0)
  have IH: "rows_ok ?db" and rows: "if k \<in> gc_command_id ` set cs
     then \<exists>w r. get_row ?db k = Some w \<and> get_record q k = Some r \<and> cr_attempts w = rec_attempts r \<and> cr_max_attempts w = rec_max_attempts r
     else get_row ?db k = get_row db k"
    using snoc.IH snoc.prems by auto
  show ?case
  proof (cases "k = gc_command_id c")
    case True
    with IH r0 show ?thesis by (simp add: db upsert_record_row row_of_record_def)
  next
    case False
    with IH r0 rows show ?thesis by (auto simp: db upsert_record_row split: if_splits)
  qed
qed simp

lemma handed_backed:
  assumes "mem_ok q"
  shows "\<forall>c\<in>set (snd (dispatch q limit now)). backed (fst (dispatch q limit now)) c"
  using selected_record [OF assms, of _ _ limit now]
  by (auto simp: dispatch_def case_prod_beta backed_def rec_ok_def)

lemma dispatch_stored_cover:
  assumes "system_ok s" "mem_cover d k (pg_queue s)" "row_cover d k (pg_db s)" "0 \<le> d"
    and run: "dispatch_stored s limit now = (s', cs)"
  shows "system_ok s'" "mem_cover (d + int (count_list (map gc_command_id cs) k)) k (pg_queue s')"
    "row_cover (d + int (count_list (map gc_command_id cs) k)) k (pg_db s')"
    "0 < count_list (map gc_command_id cs) k \<Longrightarrow> d + int (count_list (map gc_command_id cs) k) = 1"
proof -
  let ?q = "fst (dispatch (pg_queue s) limit now)" and ?db = "fst (expire_old_records True now (pg_db s))"
  have mem: "mem_ok (pg_queue s)" "queue_ok (pg_queue s)" and rows: "rows_ok (pg_db s)"
    using assms(1) by (auto simp: system_ok_def mem_ok_def inv_ok_def)
  have cs: "cs = snd (dispatch (pg_queue s) limit now)" and q: "pg_queue s' = ?q" and db: "pg_db s' = fold (store_dispatched now ?q) cs ?db"
    using run by (auto simp: dispatch_stored_def Let_def case_prod_beta)
  have ids: "map gc_command_id cs = map fst (snd (dispatch_records (pg_queue s) limit now))" unfolding cs by (rule handed_ids [OF mem(1)])
  have count: "count_list (map gc_command_id cs) k = (if k \<in> gc_command_id ` set cs then 1 else 0)"
    using count_list_distinct [OF distinct_dispatched [OF mem(2), of limit now], of k] unfolding ids [symmetric] by simp
  have stored: "rows_ok (pg_db s') \<and>
    (if k \<in> gc_command_id ` set cs
     then \<exists>w r. get_row (pg_db s') k = Some w \<and> get_record ?q k = Some r \<and>
            cr_attempts w = rec_attempts r \<and> cr_max_attempts w = rec_max_attempts r
     else get_row (pg_db s') k = get_row ?db k)"
    unfolding db by (rule fold_store_dispatched) (use rows in \<open>simp_all add: cs handed_backed [OF mem(1)] del: fst_dispatch\<close>)
  have step: "mem_step (pg_queue s) ?q" using mem_step_dispatch [OF mem(2)] by simp
  have mem': "mem_ok ?q" by (rule mem_step_ok [OF step _ mem(1)]) (use mem(1) in \<open>simp add: mem_ok_def inv_ok_dispatch\<close>)
  with stored show "system_ok s'" by (simp add: system_ok_def q)
  have cover: "mem_cover d k ?q" "row_cover d k ?db"
    using mem_cover_step [OF step assms(2)] row_cover_step [OF expire_rows_step assms(3)] by auto
  have one: "get_record ?q k = Some r \<Longrightarrow> rec_attempts r = 1 \<and> rec_max_attempts r = 1 \<and> d = 0" if "k \<in> gc_command_id ` set cs" for r
  proof -
    assume r: "get_record ?q k = Some r"
    have "k \<in> fst ` set (snd (dispatch_records (pg_queue s) limit now))"
      using that ids by (metis list.set_map)
    with get_record_dispatch [OF mem(2), of limit now k] r obtain r1 where
      r1: "get_record (swept (pg_queue s) now) k = Some r1" "rec_attempts r1 < rec_max_attempts r1" "r = mark_dispatched (whole_second now) r1"
      by (auto simp: Let_def)
    have "mem_cover d k (swept (pg_queue s) now)"
      unfolding swept_def by (rule mem_cover_step [OF mem_step_expire assms(2)])
    with r1 assms(4) show "rec_attempts r = 1 \<and> rec_max_attempts r = 1 \<and> d = 0" by (auto simp: mem_cover_def)
  qed
  show "mem_cover (d + int (count_list (map gc_command_id cs) k)) k (pg_queue s')"
    "row_cover (d + int (count_list (map gc_command_id cs) k)) k (pg_db s')"
    "0 < count_list (map gc_command_id cs) k \<Longrightarrow> d + int (count_list (map gc_command_id cs) k) = 1"
    using cover one stored unfolding count q by (auto simp: mem_cover_def row_cover_def split: if_splits)
qed

section \<open>Every operation keeps what it must\<close>

lemma mem_ok_steps:
  assumes "mem_ok q"
  shows "mem_ok (fst (expire_old q now))" "mem_ok (fst (ack q k st p err now))"
    "mem_ok (fst (fail_command q k err retryable now))" "mem_ok (fst (cancel q k now))"
  by (rule mem_step_ok [OF mem_step_expire _ assms] mem_step_ok [OF mem_step_ack _ assms]
      mem_step_ok [OF mem_step_fail _ assms] mem_step_ok [OF mem_step_cancel _ assms],
      use assms in \<open>simp add: mem_ok_def inv_ok_expire_old inv_ok_ack inv_ok_fail inv_ok_cancel\<close>)+

lemma list_loop_records:
  "r \<in> set (list_loop q target limit b ks acc) \<Longrightarrow> r \<in> set acc \<or> (\<exists>k. get_record q k = Some r)"
proof (induction ks arbitrary: acc)
  case (Cons k ks)
  show ?case
  proof (cases "get_record q k")
    case None
    with Cons show ?thesis by simp
  next
    case (Some r')
    from Cons.IH [of acc] Cons.IH [of "acc @ [r']"] Cons.prems Some show ?thesis by (auto split: if_splits)
  qed
qed simp

lemma list_records_records: "r \<in> set (list_records q target limit b) \<Longrightarrow> \<exists>k. get_record q k = Some r"
  using list_loop_records by (fastforce simp: list_records_def)

text \<open>
  What an assertion about the records in memory and an assertion about the tables must promise for every operation
  of the persistent gateway to keep them, at the times of the operations.
\<close>

locale stored_contract =
  fixes M :: "command_record \<Rightarrow> bool" and D :: "command_store \<Rightarrow> bool" and T :: "time \<Rightarrow> bool"
  assumes M_step: "M r \<Longrightarrow> rec_core r' = rec_core r \<Longrightarrow> rec_attempts r \<le> rec_attempts r' \<Longrightarrow> M r'"
    and D_update: "D db \<Longrightarrow> T now \<Longrightarrow> D (fst (update_record_status k st p err ty msg now db))"
    and D_upsert: "D db \<Longrightarrow> T now \<Longrightarrow> rec_ok r \<Longrightarrow> M r \<Longrightarrow> D (upsert_record now r db)"
    and D_event: "D db \<Longrightarrow> D (append_event a b c e f pl t now db)"
    and D_prune: "D db \<Longrightarrow> T now \<Longrightarrow> D (fst (prune_finished n now db))" "D db \<Longrightarrow> T now \<Longrightarrow> D (fst (prune_dedupe_keys now db))"
    and M_recover: "rows_ok db \<Longrightarrow> D db \<Longrightarrow> T now \<Longrightarrow> r \<in> set (load_recoverable_records x now db) \<Longrightarrow> M r"
begin

definition mem_safe :: "command_queue \<Rightarrow> bool" where
  "mem_safe q \<longleftrightarrow> mem_ok q \<and> (\<forall>k r. get_record q k = Some r \<longrightarrow> M r)"

definition safe :: "persistent_gateway \<Rightarrow> bool" where
  "safe s \<longleftrightarrow> mem_safe (pg_queue s) \<and> rows_ok (pg_db s) \<and> D (pg_db s)"

lemma mem_safe_step:
  assumes "mem_step q q'" "mem_ok q'" "mem_safe q"
  shows "mem_safe q'"
  unfolding mem_safe_def
proof (intro conjI allI impI)
  fix k r' assume "get_record q' k = Some r'"
  with assms(1) obtain r where "get_record q k = Some r" "rec_core r' = rec_core r" "rec_attempts r \<le> rec_attempts r'"
    by (auto simp: mem_step_def)
  with assms(3) show "M r'" using M_step [of r r'] by (auto simp: mem_safe_def)
qed (rule assms(2))

lemma mem_safe_steps:
  assumes "mem_safe q"
  shows "mem_safe (fst (expire_old q now))" "mem_safe (fst (ack q k st p err now))"
    "mem_safe (fst (fail_command q k err retryable now))" "mem_safe (fst (cancel q k now))"
  by (rule mem_safe_step [OF mem_step_expire _ assms] mem_safe_step [OF mem_step_ack _ assms]
      mem_safe_step [OF mem_step_fail _ assms] mem_safe_step [OF mem_step_cancel _ assms],
      use assms in \<open>simp add: mem_safe_def mem_ok_steps\<close>)+

lemma D_expire: "D db \<Longrightarrow> T now \<Longrightarrow> D (fst (expire_old_records b now db))"
  unfolding expire_old_records_def Let_def fst_conv by (rule fold_keeps) (simp_all add: D_update)

lemma write_back:
  assumes "mem_safe q" "get_record q j = Some r" "rows_ok db" "D db" "T now"
  shows "rows_ok (upsert_record now r db)" "D (upsert_record now r db)"
  using assms by (auto simp: mem_safe_def mem_ok_def intro: D_upsert)

lemma write_back_expired:
  assumes "mem_safe q" "T now" "\<forall>r\<in>set rs. \<exists>j. get_record q j = Some r" "rows_ok db" "D db"
  shows "rows_ok (fold (\<lambda>r db. if rec_status r = EXPIRED then upsert_record now r db else db) rs db) \<and>
    D (fold (\<lambda>r db. if rec_status r = EXPIRED then upsert_record now r db else db) rs db)"
  using assms(3-5)
proof (induction rs arbitrary: db)
  case (Cons r rs)
  then obtain j where "get_record q j = Some r" by auto
  from write_back [OF assms(1) this Cons.prems(2,3) assms(2)] Cons show ?case by simp
qed simp

lemma enqueue_safe:
  assumes "safe s" "T now" "gc_command_id c \<noteq> [] \<Longrightarrow> M (create_record (cx_digest x) c p ttl tries now md)"
  shows "safe (fst (enqueue_stored x s c p ttl tries md now))"
proof (cases "gc_command_id c = []")
  case True
  with assms(1) show ?thesis by (simp add: enqueue_stored_def)
next
  case False
  define r where "r = create_record (cx_digest x) c p ttl tries now md"
  have r: "rec_ok r" "M r" using False assms(3) by (simp_all add: r_def)
  have s: "mem_safe (pg_queue s)" "rows_ok (pg_db s)" "D (pg_db s)" using assms(1) by (auto simp: safe_def)
  obtain db' where db': "fst (enqueue_record x now r (pg_db s)) = db'" by simp
  then show ?thesis
  proof (cases rule: enqueue_record_cases)
    case (refused res)
    then have "get_row db' = get_row (pg_db s)" by (simp add: get_row_def fun_eq_iff)
    moreover have "D db'"
      using s(3) refused db' unfolding enqueue_record_def duplicate_event_def Let_def
      by (auto intro!: D_event split: if_splits option.splits)
    ultimately show ?thesis
      using refused s False
      by (auto simp: enqueue_stored_def Let_def r_def [symmetric] safe_def rows_ok_def split: option.split)
  next
    case accepted
    have "mem_safe (restore (pg_queue s) r)"
      using s(1) r by (auto simp: mem_safe_def mem_ok_restore get_record_restore rec_ok_def split: if_splits)
    moreover have "rows_ok db'" "D db'"
      using s(2,3) r assms(2) unfolding accepted(3) by (auto intro!: D_event D_upsert)
    ultimately show ?thesis
      using accepted(4) False by (simp add: enqueue_stored_def Let_def r_def [symmetric] safe_def)
  qed
qed

lemma dispatch_safe:
  assumes "safe s" "T now"
  shows "safe (fst (dispatch_stored s limit now))"
proof -
  let ?q = "fst (dispatch (pg_queue s) limit now)"
  have s: "mem_safe (pg_queue s)" "mem_ok (pg_queue s)" "queue_ok (pg_queue s)" "rows_ok (pg_db s)" "D (pg_db s)"
    using assms(1) by (auto simp: safe_def mem_safe_def mem_ok_def inv_ok_def)
  have step: "mem_step (pg_queue s) ?q" using mem_step_dispatch [OF s(3)] by simp
  have "mem_ok ?q" by (rule mem_step_ok [OF step _ s(2)]) (use s(2) in \<open>simp add: mem_ok_def inv_ok_dispatch\<close>)
  then have q: "mem_safe ?q" by (rule mem_safe_step [OF step _ s(1)])
  have "rows_ok (store_dispatched now ?q c db) \<and> D (store_dispatched now ?q c db)" if "rows_ok db \<and> D db" for c db
  proof (cases "get_record ?q (gc_command_id c)")
    case (Some r)
    from write_back [OF q Some _ _ assms(2), of db] that Some show ?thesis
      by (simp add: store_dispatched_def D_event)
  qed (use that in \<open>simp add: store_dispatched_def\<close>)
  moreover have "rows_ok (fst (expire_old_records True now (pg_db s))) \<and> D (fst (expire_old_records True now (pg_db s)))"
    using s D_expire assms(2) by simp
  ultimately have "rows_ok (fold (store_dispatched now ?q) cs (fst (expire_old_records True now (pg_db s)))) \<and>
      D (fold (store_dispatched now ?q) cs (fst (expire_old_records True now (pg_db s))))" for cs
    by (rule fold_keeps [where P = "\<lambda>db. rows_ok db \<and> D db"])
  with q show ?thesis by (simp add: dispatch_stored_def Let_def case_prod_beta safe_def)
qed

lemma ack_safe: "safe s \<Longrightarrow> T now \<Longrightarrow> safe (fst (ack_stored s j st p err now))"
  by (auto simp: ack_stored_def Let_def case_prod_beta safe_def mem_safe_steps D_update split: option.split)

lemma fail_safe:
  assumes "safe s" "T now"
  shows "safe (fst (fail_stored s j err retryable now))"
proof -
  let ?q = "fst (fail_command (pg_queue s) j err retryable now)"
  have q: "mem_safe ?q" and db: "rows_ok (pg_db s)" "D (pg_db s)"
    using assms by (auto simp: safe_def mem_safe_steps)
  show ?thesis
    using q db by (auto simp: fail_stored_def Let_def case_prod_beta safe_def
        intro!: D_event D_update [OF _ assms(2)] write_back [OF q _ _ _ assms(2)] split: option.split if_splits)
qed

lemma cancel_safe:
  assumes "safe s" "T now"
  shows "safe (fst (cancel_stored x s j now))"
proof -
  let ?q = "fst (cancel (pg_queue s) j now)"
  have q: "mem_safe ?q" and db: "rows_ok (pg_db s)" "D (pg_db s)"
    using assms by (auto simp: safe_def mem_safe_steps)
  show ?thesis
    using q db by (auto simp: cancel_stored_def Let_def case_prod_beta safe_def
        intro!: D_event D_update [OF _ assms(2)] write_back [OF q _ _ _ assms(2)] split: option.split if_splits)
qed

lemma expire_safe:
  assumes "safe s" "T now"
  shows "safe (fst (expire_stored s now))"
proof -
  let ?q = "fst (expire_old (pg_queue s) now)" and ?db = "fst (expire_old_records True now (pg_db s))"
  have q: "mem_safe ?q" and db: "rows_ok ?db" "D ?db"
    using assms D_expire by (auto simp: safe_def mem_safe_steps)
  from write_back_expired [OF q assms(2) _ db, of "list_records ?q None 10000 True"] list_records_records q
  show ?thesis by (auto simp: expire_stored_def Let_def case_prod_beta safe_def)
qed

lemma prune_safe: "safe s \<Longrightarrow> T now \<Longrightarrow> safe (fst (prune_stored s n now))"
  using D_prune by (simp add: prune_stored_def Let_def case_prod_beta safe_def)

lemma restart_safe:
  assumes "rows_ok db" "D db" "T now"
  shows "safe (start_gateway x now b fresh db)"
proof -
  let ?db = "fst (expire_old_records b now db)" and ?s = "start_gateway x now b fresh db"
  have db: "rows_ok ?db" "D ?db" using assms D_expire by auto
  let ?rs = "load_recoverable_records x now ?db"
  have rs: "\<forall>r\<in>set ?rs. rec_ok r" using recovered_rows [OF db(1)] by metis
  have "M r" if "get_record (pg_queue ?s) k = Some r" for k r
  proof -
    from that have "get_record empty_queue k = Some r \<or> (r \<in> set ?rs \<and> rec_command_id r = k)"
      using fold_restore(2) [OF rs mem_ok_empty] by (simp add: start_gateway_parts)
    then have "r \<in> set ?rs" by (auto simp: empty_queue_def get_record_def)
    with M_recover [OF db assms(3)] show "M r" by blast
  qed
  moreover have "mem_ok (pg_queue ?s)" unfolding start_gateway_parts by (rule fold_restore(1) [OF rs mem_ok_empty])
  ultimately show ?thesis using db by (simp add: safe_def mem_safe_def start_gateway_parts)
qed

lemmas stored_safe = dispatch_safe ack_safe fail_safe cancel_safe expire_safe prune_safe

end

text \<open>The first instance: how often a command has been dispatched.\<close>

definition cover :: "int \<Rightarrow> string \<Rightarrow> persistent_gateway \<Rightarrow> bool" where
  "cover d k s \<longleftrightarrow> system_ok s \<and> mem_cover d k (pg_queue s) \<and> row_cover d k (pg_db s)"

definition rec_cover :: "int \<Rightarrow> string \<Rightarrow> command_record \<Rightarrow> bool" where
  "rec_cover d k r \<longleftrightarrow> (rec_command_id r = k \<longrightarrow> d \<le> rec_attempts r \<and> rec_max_attempts r = 1)"

interpretation cv: stored_contract "rec_cover d k" "row_cover d k" "\<lambda>now. True" for d k
proof unfold_locales
  fix r x now db assume "rows_ok db" "row_cover d k db" "r \<in> set (load_recoverable_records x now db)"
  then show "rec_cover d k r"
    by (elim recovered_rows) (auto simp: rec_cover_def row_cover_def)
qed (auto simp: rec_cover_def rec_core_def intro: row_cover_upsert row_cover_step [OF update_status_step]
    row_cover_step [OF prune_rows_step(1)] row_cover_step [OF prune_rows_step(2)])

lemma cover_safe: "cover d k s \<longleftrightarrow> cv.safe d k s"
proof -
  have "mem_ok q \<Longrightarrow> mem_cover d k q \<longleftrightarrow> (\<forall>j r. get_record q j = Some r \<longrightarrow> rec_cover d k r)" for q
    unfolding mem_cover_def rec_cover_def mem_ok_def by (auto dest: inv_okD)
  then show ?thesis by (auto simp: cover_def cv.safe_def cv.mem_safe_def system_ok_def)
qed

section \<open>At most once, over restarts\<close>

fun enqueues :: "string \<Rightarrow> stored_op \<Rightarrow> bool" where
  "enqueues k (StoredEnqueue c p ttl tries md now) = (gc_command_id c = k)"
| "enqueues k _ = False"

fun as_order :: "stored_op \<Rightarrow> bool" where
  "as_order (StoredEnqueue c p ttl tries md now) = (gc_type c \<in> set ORDER_COMMAND_TYPES \<and> tries = None)"
| "as_order _ = True"

lemma cover_mono: "cover d k s \<Longrightarrow> d' \<le> d \<Longrightarrow> cover d' k s"
  unfolding cover_def mem_cover_def row_cover_def by force

lemma stored_step_cover:
  assumes "cover d k s" "0 \<le> d" "enqueues k op \<Longrightarrow> d = 0 \<and> as_order op"
  defines "n \<equiv> int (count_list (map gc_command_id (handed_out s op)) k)"
  shows "cover (d + n) k (stored_step x s op) \<and> (0 < n \<longrightarrow> d + n = 1)"
proof (cases op)
  case (StoredEnqueue c p ttl tries md now)
  have "rec_cover d k (create_record (cx_digest x) c p ttl tries now md)"
    using assms(3) max_attempts_default_order by (auto simp: StoredEnqueue rec_cover_def)
  with StoredEnqueue assms(1) show ?thesis by (simp add: n_def cover_safe cv.enqueue_safe)
next
  case (StoredDispatch limit now)
  obtain s' cs where run: "dispatch_stored s limit now = (s', cs)" by force
  from assms(1) have "system_ok s" "mem_cover d k (pg_queue s)" "row_cover d k (pg_db s)" by (simp_all add: cover_def)
  from dispatch_stored_cover [OF this assms(2) run] show ?thesis
    by (simp add: n_def StoredDispatch run cover_def)
next
  case (Restart fresh b now)
  with assms(1) show ?thesis
    using cv.restart_safe [of "pg_db s" d k] by (simp add: n_def cover_safe cv.safe_def)
qed (use assms(1) in \<open>simp_all add: n_def cover_safe cv.stored_safe\<close>)

lemma count_append: "count_list (xs @ ys) k = count_list xs k + count_list ys k"
  by (induction xs) auto

lemma quiet_run_cover:
  fixes x :: codec
  assumes "cover d k s" "0 \<le> d" "\<forall>op\<in>set ops. \<not> enqueues k op"
  defines "n \<equiv> int (count_list (map gc_command_id (stored_trace x s ops)) k)"
  shows "cover (d + n) k (run_stored x s ops) \<and> (0 < n \<longrightarrow> d + n = 1)"
  using assms(1-3) unfolding n_def
proof (induction ops arbitrary: s d)
  case (Cons op ops)
  let ?m = "int (count_list (map gc_command_id (handed_out s op)) k)"
  have step: "cover (d + ?m) k (stored_step x s op) \<and> (0 < ?m \<longrightarrow> d + ?m = 1)"
    by (rule stored_step_cover) (use Cons.prems in auto)
  have "0 \<le> d + ?m" "\<forall>op\<in>set ops. \<not> enqueues k op" using Cons.prems by auto
  from Cons.IH [OF conjunct1 [OF step] this] conjunct2 [OF step] Cons.prems(2) show ?case
    by (auto simp: run_stored_def count_append add.assoc)
qed (simp add: run_stored_def)

lemma stored_trace_append: "stored_trace x s (xs @ ys) = stored_trace x s xs @ stored_trace x (run_stored x s xs) ys"
  by (induction xs arbitrary: s) (simp_all add: run_stored_def)

lemma start_cover: "cover d k (start_gateway x now b fresh (open_store n m))"
  unfolding cover_safe by (rule cv.restart_safe) (simp_all add: rows_ok_def row_cover_def open_store_def get_row_def)

text \<open>C17: An order command that is enqueued with the default number of attempts is handed to the gateway at
  most once: for every sequence of operations that starts from empty tables and enqueues the
  command's id at most once, through any number of restarts (each of which loses the memory and recovers the queue from
  the tables), acknowledgements, retryable failures, expiries and prunings.\<close>
theorem dispatched_once_across_restarts:
  assumes "length (filter (enqueues k) ops) \<le> 1" "\<forall>op\<in>set ops. enqueues k op \<longrightarrow> as_order op"
  shows "count_list (map gc_command_id (stored_trace x (start_gateway x now b fresh (open_store n m)) ops)) k \<le> 1"
proof -
  let ?s = "start_gateway x now b fresh (open_store n m)"
  have start: "cover 2 k ?s" by (rule start_cover)
  show ?thesis
  proof (cases "\<exists>op\<in>set ops. enqueues k op")
    case False
    then have "\<forall>op\<in>set ops. \<not> enqueues k op" by blast
    from quiet_run_cover [OF start _ this, of x] show ?thesis by simp
  next
    case True
    then obtain pre op post where ops: "ops = pre @ op # post" "enqueues k op" "\<forall>op\<in>set pre. \<not> enqueues k op"
      by (auto dest!: split_list_first_prop)
    with assms(1) have post: "\<forall>op\<in>set post. \<not> enqueues k op" by (auto simp: filter_empty_conv)
    let ?s1 = "run_stored x ?s pre"
    have pre: "cover (2 + int (count_list (map gc_command_id (stored_trace x ?s pre)) k)) k ?s1"
      "count_list (map gc_command_id (stored_trace x ?s pre)) k = 0"
      using quiet_run_cover [OF start _ ops(3), of x] by auto
    from pre(1) have "cover 0 k ?s1" by (rule cover_mono) simp
    from stored_step_cover [OF this, of op x] ops(2) assms(2) have s2: "cover 0 k (stored_step x ?s1 op)"
      and out: "handed_out ?s1 op = []" by (cases op, auto simp: ops(1))+
    have "count_list (map gc_command_id (stored_trace x (stored_step x ?s1 op) post)) k \<le> 1"
      using quiet_run_cover [OF s2 _ post, of x] by simp linarith
    with pre(2) out show ?thesis by (simp add: ops(1) stored_trace_append count_append)
  qed
qed

definition sample_codec :: codec where
  "sample_codec = \<lparr>cx_digest = no_digest, cx_loads = (\<lambda>t. None), cx_fresh = ''f''\<rparr>"

definition sample_store :: gateway_store where
  "sample_store = new_store 15 200 50"

lemma dispatched_once_across_restarts_witness:
  "count_list (map gc_command_id (stored_trace sample_codec (start_gateway sample_codec 0 True sample_store (open_store 60 60))
     [StoredEnqueue sample_order None None None [] 0, StoredDispatch 10 0, StoredFail ''c1'' ''x'' True 0, Restart sample_store True 0,
      StoredDispatch 10 0, StoredPrune 0 0, StoredExpire 0])) ''c1'' \<le> 1"
  by (rule dispatched_once_across_restarts) (simp_all add: ORDER_COMMAND_TYPES_def sample_order_def)

section \<open>A duplicate key outlives its command\<close>

fun op_time :: "stored_op \<Rightarrow> time" where
  "op_time (StoredEnqueue c p ttl tries md now) = now"
| "op_time (StoredDispatch limit now) = now"
| "op_time (StoredAck k st payload err now) = now"
| "op_time (StoredFail k err retryable now) = now"
| "op_time (StoredCancel k now) = now"
| "op_time (StoredExpire now) = now"
| "op_time (StoredPrune n now) = now"
| "op_time (Restart fresh b now) = now"

fun key_is_order :: "codec \<Rightarrow> string \<Rightarrow> stored_op \<Rightarrow> bool" where
  "key_is_order x K (StoredEnqueue c p ttl tries md now) =
     (dedupe_key_for_command (cx_digest x) c = K \<longrightarrow> gc_type c \<in> set ORDER_COMMAND_TYPES)"
| "key_is_order x K _ = True"

definition keyed :: "string \<Rightarrow> string \<Rightarrow> command_record \<Rightarrow> bool" where
  "keyed K j r \<longleftrightarrow> rec_command_id r \<noteq> j \<and> (rec_dedupe_key r = K \<longrightarrow> rec_command_type r \<in> set ORDER_COMMAND_TYPES)"

definition window_end :: "int \<Rightarrow> time \<Rightarrow> time" where
  "window_end R t = whole_second t + max 1 R * second"

definition key_held :: "string \<Rightarrow> string \<Rightarrow> time \<Rightarrow> command_store \<Rightarrow> bool" where
  "key_held K j e db \<longleftrightarrow> (\<exists>d. map_of (cs_dedupe db) K = Some d \<and> At e \<le> dk_expires_at d \<and> dk_command_id d \<noteq> j)"

definition key_rows :: "string \<Rightarrow> string \<Rightarrow> int \<Rightarrow> time \<Rightarrow> bool \<Rightarrow> command_store \<Rightarrow> bool" where
  "key_rows K j R t held db \<longleftrightarrow> cs_dedupe_retention_sec db = R \<and>
     (\<forall>k w. get_row db k = Some w \<longrightarrow> k \<noteq> j \<and> (cr_dedupe_key w = K \<longrightarrow> cr_command_type w \<in> set ORDER_COMMAND_TYPES)) \<and>
     (held \<longrightarrow> key_held K j (window_end R t) db)"

definition in_window :: "int \<Rightarrow> time \<Rightarrow> bool \<Rightarrow> time \<Rightarrow> bool" where
  "in_window R t held now \<longleftrightarrow> (held \<longrightarrow> whole_second t \<le> whole_second now \<and> whole_second now < window_end R t)"

lemma key_rows_step:
  assumes "rows_step db db'" "key_rows K j R t held db" "cs_dedupe_retention_sec db' = R"
    "held \<Longrightarrow> key_held K j (window_end R t) db \<Longrightarrow> key_held K j (window_end R t) db'"
  shows "key_rows K j R t held db'"
  unfolding key_rows_def
proof (intro conjI allI impI)
  fix k w' assume "get_row db' k = Some w'"
  with assms(1) obtain w where "get_row db k = Some w" "row_core w' = row_core w" by (auto simp: rows_step_def)
  with assms(2) show "k \<noteq> j" "cr_dedupe_key w' = K \<Longrightarrow> cr_command_type w' \<in> set ORDER_COMMAND_TYPES"
    by (auto simp: key_rows_def row_core_def)
qed (use assms in \<open>auto simp: key_rows_def\<close>)

lemma update_status_keys:
  "cs_dedupe_retention_sec (fst (update_record_status k st p err ty msg now db)) = cs_dedupe_retention_sec db"
  "key_held K j e db \<Longrightarrow> key_held K j e (fst (update_record_status k st p err ty msg now db))"
proof -
  show "cs_dedupe_retention_sec (fst (update_record_status k st p err ty msg now db)) = cs_dedupe_retention_sec db"
    by (simp add: update_record_status_def Let_def insert_event_def put_row_def split: option.split)
  assume "key_held K j e db"
  then obtain d where d: "map_of (cs_dedupe db) K = Some d" "At e \<le> dk_expires_at d" "dk_command_id d \<noteq> j"
    by (auto simp: key_held_def)
  have *: "map_of (map (\<lambda>(k, d). (k, g d)) ds) K = map_option g (map_of ds K)" for g :: "dedupe_row \<Rightarrow> dedupe_row" and ds
    by (induction ds) auto
  show "key_held K j e (fst (update_record_status k st p err ty msg now db))"
  proof (cases "get_row db k")
    case (Some w)
    let ?d = "if dk_command_id d = k then d\<lparr>dk_status := cr_status (updated_row st p err now w), dk_updated_at := utc_timestamp now\<rparr> else d"
    have "map_of (cs_dedupe (fst (update_record_status k st p err ty msg now db))) K = Some ?d"
      using Some d(1) by (simp add: update_record_status_def Let_def insert_event_def put_row_def *)
    moreover have "At e \<le> dk_expires_at ?d" "dk_command_id ?d \<noteq> j" using d(2,3) by auto
    ultimately show ?thesis unfolding key_held_def by blast
  qed (use d in \<open>simp add: update_record_status_def Let_def insert_event_def key_held_def\<close>)
qed

lemma upsert_keys:
  "cs_dedupe_retention_sec (upsert_record now r db) = cs_dedupe_retention_sec db"
  "cs_dedupe (upsert_record now r db) = cs_dedupe (upsert_dedupe now None r db)"
  by (simp_all add: upsert_record_def upsert_row_def upsert_dedupe_def put_row_def Let_def)

lemma upsert_key_held:
  assumes "rec_command_type r \<in> set ORDER_COMMAND_TYPES" "rec_dedupe_key r = K" "K \<noteq> []" "rec_command_id r \<noteq> j"
    "cs_dedupe_retention_sec db = R" "whole_second t \<le> whole_second now"
  shows "key_held K j (window_end R t) (upsert_record now r db)"
  using assms by (auto simp: key_held_def upsert_keys upsert_dedupe_def Let_def dict_simps dedupe_expires_at_def window_end_def)

lemma key_rows_upsert:
  assumes "key_rows K j R t held db" "in_window R t held now" "rec_ok r" "keyed K j r"
  shows "key_rows K j R t held (upsert_record now r db)"
  unfolding key_rows_def
proof (intro conjI allI impI)
  show "key_held K j (window_end R t) (upsert_record now r db)" if held
  proof (cases "rec_dedupe_key r = K")
    case True
    with assms that show ?thesis
      by (intro upsert_key_held) (auto simp: keyed_def key_rows_def in_window_def rec_ok_def)
  next
    case False
    with assms that show ?thesis by (auto simp: key_rows_def key_held_def upsert_keys upsert_dedupe_def Let_def dict_simps)
  qed
  fix k w assume "get_row (upsert_record now r db) k = Some w"
  with assms show "k \<noteq> j" "cr_dedupe_key w = K \<Longrightarrow> cr_command_type w \<in> set ORDER_COMMAND_TYPES"
    by (auto simp: upsert_record_row keyed_def key_rows_def row_of_record_def split: if_splits)
qed (use assms in \<open>simp add: key_rows_def upsert_keys\<close>)

lemma prune_keys:
  "cs_dedupe (fst (prune_finished n now db)) = cs_dedupe db"
  "cs_dedupe_retention_sec (fst (prune_finished n now db)) = cs_dedupe_retention_sec db"
  "cs_dedupe_retention_sec (fst (prune_dedupe_keys now db)) = cs_dedupe_retention_sec db"
proof -
  have "cs_dedupe (fst (prune_finished n now db)) = cs_dedupe db \<and>
    cs_dedupe_retention_sec (fst (prune_finished n now db)) = cs_dedupe_retention_sec db"
    unfolding prune_finished_def Let_def fst_conv by (rule fold_keeps) simp_all
  then show "cs_dedupe (fst (prune_finished n now db)) = cs_dedupe db"
    "cs_dedupe_retention_sec (fst (prune_finished n now db)) = cs_dedupe_retention_sec db" by simp_all
qed (simp add: prune_dedupe_keys_def)

lemma prune_dedupe_held:
  assumes "key_held K j e db" "whole_second now < e"
  shows "key_held K j e (fst (prune_dedupe_keys now db))"
proof -
  from assms(1) obtain d where d: "map_of (cs_dedupe db) K = Some d" "At e \<le> dk_expires_at d" "dk_command_id d \<noteq> j"
    by (auto simp: key_held_def)
  have "At (whole_second now) < At e" using assms(2) by simp
  with d(2) have "outlives (dk_expires_at d) now" unfolding outlives_def by (metis less_le_trans)
  then have "map_of (filter (\<lambda>(k, d). outlives (dk_expires_at d) now) ds) K = Some d" if "map_of ds K = Some d" for ds
    using that by (induction ds) (auto split: if_splits)
  with d show ?thesis by (auto simp: key_held_def prune_dedupe_keys_def)
qed

interpretation rt: stored_contract "keyed K j" "key_rows K j R t held" "in_window R t held" for K j R t held
proof unfold_locales
  fix r x now db assume "rows_ok db" "key_rows K j R t held db" "r \<in> set (load_recoverable_records x now db)"
  then show "keyed K j r"
    by (elim recovered_rows) (auto simp: keyed_def key_rows_def)
next
  fix db now k st p err ty msg assume rows: "key_rows K j R t held db"
  then have "cs_dedupe_retention_sec (fst (update_record_status k st p err ty msg now db)) = R"
    by (simp add: update_status_keys key_rows_def)
  then show "key_rows K j R t held (fst (update_record_status k st p err ty msg now db))"
    by (rule key_rows_step [OF update_status_step rows _ update_status_keys(2)])
next
  fix db n now assume rows: "key_rows K j R t held db" and now: "in_window R t held now"
  show "key_rows K j R t held (fst (prune_finished n now db))"
    by (rule key_rows_step [OF prune_rows_step(1) rows]) (use rows in \<open>simp_all add: prune_keys key_held_def key_rows_def\<close>)
  show "key_rows K j R t held (fst (prune_dedupe_keys now db))"
    by (rule key_rows_step [OF prune_rows_step(2) rows])
      (use rows now in \<open>simp_all add: prune_keys key_rows_def in_window_def prune_dedupe_held\<close>)
next
  fix db now r assume "key_rows K j R t held db" "in_window R t held now" "rec_ok r" "keyed K j r"
  then show "key_rows K j R t held (upsert_record now r db)" by (rule key_rows_upsert)
next
  fix db a b c e f pl t' now assume "key_rows K j R t held db"
  then show "key_rows K j R t held (append_event a b c e f pl t' now db)"
    by (simp add: key_rows_def key_held_def append_event_def insert_event_def get_row_def)
qed (auto simp: keyed_def rec_core_def)

lemma keyed_step:
  assumes "rt.safe K j R t held s" "in_window R t held (op_time op)" "\<not> enqueues j op" "key_is_order x K op"
  shows "rt.safe K j R t held (stored_step x s op)"
proof (cases op)
  case (StoredEnqueue c p ttl tries md now)
  with assms show ?thesis by (auto intro!: rt.enqueue_safe simp: keyed_def)
next
  case (Restart fresh b now)
  have "rows_ok (pg_db s)" "key_rows K j R t held (pg_db s)" using assms(1) by (simp_all add: rt.safe_def)
  then have "rt.safe K j R t held (start_gateway x now b fresh (pg_db s))"
    by (rule rt.restart_safe) (use assms(2) Restart in simp)
  with Restart show ?thesis by simp
qed (use assms in \<open>simp_all add: rt.stored_safe\<close>)

lemma keyed_run:
  assumes "rt.safe K j R t held s" "\<forall>op\<in>set ops. in_window R t held (op_time op) \<and> \<not> enqueues j op \<and> key_is_order x K op"
  shows "rt.safe K j R t held (run_stored x s ops)"
  using assms by (induction ops arbitrary: s) (simp_all add: run_stored_def keyed_step)

lemma keyed_start: "rt.safe K j R t False (start_gateway x now b fresh (open_store R m))"
  by (rule rt.restart_safe) (simp_all add: rows_ok_def key_rows_def open_store_def get_row_def in_window_def)

lemma accepted_holds_key:
  assumes safe: "rt.safe K j R t False s" and run: "enqueue_stored x s c p ttl tries md t = (s', res)"
    and ok: "er_accepted res" and c: "gc_type c \<in> set ORDER_COMMAND_TYPES" "dedupe_key_for_command (cx_digest x) c = K" "gc_command_id c \<noteq> j"
  shows "rt.safe K j R t True s'"
proof -
  define r where "r = create_record (cx_digest x) c p ttl tries t md"
  have id: "gc_command_id c \<noteq> []" using run ok by (auto simp: enqueue_stored_def)
  have r: "rec_ok r" "keyed K j r" "rec_command_type r \<in> set ORDER_COMMAND_TYPES" "rec_dedupe_key r = K" "rec_command_id r \<noteq> j"
    using id c by (auto simp: r_def keyed_def)
  have R: "cs_dedupe_retention_sec (pg_db s) = R" using safe by (simp add: rt.safe_def key_rows_def)
  obtain db' where db': "fst (enqueue_record x t r (pg_db s)) = db'" by simp
  have s': "rt.safe K j R t False s'"
    using rt.enqueue_safe [OF safe, where now = t and x = x and c = c and p = p and ttl = ttl and tries = tries and md = md] r(2) run
    by (simp add: r_def in_window_def)
  from db' show ?thesis
  proof (cases rule: enqueue_record_cases)
    case (refused res')
    with run ok id show ?thesis by (auto simp: enqueue_stored_def Let_def r_def [symmetric] split: option.splits)
  next
    case accepted
    have "pg_db s' = db'" using run accepted(4) id by (auto simp: enqueue_stored_def Let_def r_def [symmetric] set_pending_def set_queue_def)
    moreover have "key_held K j (window_end R t) (upsert_record t r (pg_db s))"
      using r R by (intro upsert_key_held) (auto simp: rec_ok_def)
    ultimately have "key_held K j (window_end R t) (pg_db s')"
      by (simp add: accepted(3) key_held_def append_event_def insert_event_def)
    with s' show ?thesis by (simp add: rt.safe_def key_rows_def)
  qed
qed

lemma held_key_refuses:
  assumes safe: "rt.safe (dedupe_key_for_command (cx_digest x) c) (gc_command_id c) R t True s" and now: "in_window R t True now"
    and id: "gc_command_id c \<noteq> []"
  shows "\<not> er_accepted (snd (enqueue_stored x s c p ttl tries md now)) \<and>
    er_reason (snd (enqueue_stored x s c p ttl tries md now)) = ''DUPLICATE_COMMAND''"
proof -
  let ?K = "dedupe_key_for_command (cx_digest x) c"
  obtain d where d: "map_of (cs_dedupe (pg_db s)) ?K = Some d" "At (window_end R t) \<le> dk_expires_at d" "dk_command_id d \<noteq> gc_command_id c"
    using safe by (auto simp: rt.safe_def key_rows_def key_held_def)
  have "get_row (pg_db s) (gc_command_id c) = None"
    using safe by (cases "get_row (pg_db s) (gc_command_id c)") (auto simp: rt.safe_def key_rows_def)
  moreover have "At (whole_second now) < At (window_end R t)" using now by (simp add: in_window_def)
  then have "outlives (dk_expires_at d) now" using d(2) unfolding outlives_def by (metis less_le_trans)
  moreover have "?K \<noteq> []" by (auto simp: dedupe_key_for_command_def Let_def)
  ultimately show ?thesis
    using d id by (simp add: enqueue_stored_def enqueue_record_def Let_def case_prod_beta retained_dedupe_def)
qed

text \<open>C18: An order command keeps others with its duplicate key out for the retention time of the
  store: once an order command has been accepted at time t, every enqueue of a new command with the same key
  before t plus the retention time (at least a second) is refused as DUPLICATE_COMMAND,
  whatever happens in between: restarts, acknowledgements, expiry and pruning of the
  first command, as long as the key is only used for order commands.\<close>
theorem duplicate_key_outlives_command:
  assumes "enqueue_stored x (run_stored x (start_gateway x now0 b fresh (open_store R m)) before) c p ttl tries md t = (s, res)"
    and "er_accepted res" "gc_type c \<in> set ORDER_COMMAND_TYPES"
    and "dedupe_key_for_command (cx_digest x) c' = dedupe_key_for_command (cx_digest x) c"
    and "gc_command_id c' \<noteq> []" "gc_command_id c' \<noteq> gc_command_id c"
    and "\<forall>op\<in>set (before @ after). \<not> enqueues (gc_command_id c') op \<and>
          key_is_order x (dedupe_key_for_command (cx_digest x) c) op"
    and "\<forall>op\<in>set after. whole_second t \<le> whole_second (op_time op) \<and> op_time op < whole_second t + max 1 R * second"
    and "whole_second t \<le> whole_second now" "now < whole_second t + max 1 R * second"
  shows "\<not> er_accepted (snd (enqueue_stored x (run_stored x s after) c' p' ttl' tries' md' now)) \<and>
    er_reason (snd (enqueue_stored x (run_stored x s after) c' p' ttl' tries' md' now)) = ''DUPLICATE_COMMAND''"
proof -
  let ?K = "dedupe_key_for_command (cx_digest x) c" and ?j = "gc_command_id c'"
  have le: "whole_second a \<le> a" for a by (simp add: whole_second_def)
  have window: "in_window R t True a" if "whole_second t \<le> whole_second a" "a < whole_second t + max 1 R * second" for a
    using that le [of a] by (simp add: in_window_def window_end_def)
  have "rt.safe ?K ?j R t False (run_stored x (start_gateway x now0 b fresh (open_store R m)) before)"
    by (rule keyed_run [OF keyed_start]) (use assms(7) in \<open>auto simp: in_window_def\<close>)
  from accepted_holds_key [OF this assms(1-3)] assms(6) have "rt.safe ?K ?j R t True s" by simp
  then have "rt.safe ?K ?j R t True (run_stored x s after)"
    by (rule keyed_run) (use assms(7,8) window in auto)
  with window [OF assms(9,10)] assms(4,5) show ?thesis by (intro held_key_refuses) simp_all
qed

lemma start_accepts:
  "gc_command_id c \<noteq> [] \<Longrightarrow> er_accepted (snd (enqueue_stored x (start_gateway x now0 b fresh (open_store R m)) c p ttl tries md t))"
  by (simp add: enqueue_stored_def enqueue_record_def Let_def case_prod_beta start_gateway_parts open_store_def get_row_def
      expire_old_records_def retained_dedupe_def)

lemma duplicate_key_outlives_command_witness:
  "let s = fst (enqueue_stored sample_codec (run_stored sample_codec (start_gateway sample_codec 0 True sample_store (open_store 60 60)) []) sample_order None None None [] 0);
       after = [StoredDispatch 10 0, StoredAck ''c1'' ''ACKED'' None [] 1000000, Restart sample_store True 2000000, StoredPrune 0 3000000];
       res = snd (enqueue_stored sample_codec (run_stored sample_codec s after) (sample_order\<lparr>gc_command_id := ''c2''\<rparr>) None None None [] 4000000)
   in \<not> er_accepted res \<and> er_reason res = ''DUPLICATE_COMMAND''"
proof -
  let ?e = "enqueue_stored sample_codec (run_stored sample_codec (start_gateway sample_codec 0 True sample_store (open_store 60 60)) []) sample_order None None None [] 0"
  have "er_accepted (snd ?e)" using start_accepts [of sample_order] by (simp add: run_stored_def sample_order_def)
  then show ?thesis
    unfolding Let_def
    by (intro duplicate_key_outlives_command [where c = sample_order and t = 0, OF prod.collapse [symmetric]])
      (simp_all add: sample_order_def ORDER_COMMAND_TYPES_def dedupe_key_for_command_def Let_def whole_second_def)
qed

section \<open>What a restart recovers\<close>

lemma row_round_trip:
  assumes "faithful_record r"
  shows "row_to_record x now (row_of_record now' r) = r"
proof -
  have raw: "raw_command_of (cx_loads x) (row_dict (row_of_record now' r)) = gateway_command_to_dict (rec_command r)"
    by (rule raw_command_of_row) (simp_all add: row_of_record_def)
  have "gateway_command_from_dict (cx_fresh x) now (gateway_command_to_dict (rec_command r)) = rec_command r"
    using assms by (simp add: faithful_record_def gateway_command_round_trip)
  then show ?thesis
    using assms by (simp add: row_to_record_def record_from_dict_def raw Let_def row_dict_fields)
      (simp add: row_of_record_def row_dict_def dget_def text_or_def py_or_def faithful_record_def safe_int_def str_or_def stamp_or_def)
qed

interpretation sys: stored_contract "\<lambda>r. True" "\<lambda>db. True" "\<lambda>now. True"
  by unfold_locales simp_all

lemma system_step: "sys.safe s \<Longrightarrow> sys.safe (stored_step x s op)"
proof (cases op)
  case (Restart fresh b now)
  assume "sys.safe s"
  then show ?thesis using sys.restart_safe [of "pg_db s"] by (simp add: Restart sys.safe_def)
qed (simp_all add: sys.stored_safe sys.enqueue_safe)

lemma system_run: "sys.safe s \<Longrightarrow> sys.safe (run_stored x s ops)"
  by (induction ops arbitrary: s) (simp_all add: run_stored_def system_step)

lemma system_start: "sys.safe (start_gateway x now b fresh (open_store n m))"
  by (rule sys.restart_safe) (simp_all add: rows_ok_def open_store_def get_row_def)

text \<open>In every state that the persistent gateway reaches from empty tables, through restarts included, every row
  of the command table is well-formed: its number of dispatches is between zero and its bound, which is at least one, its
  duplicate key is not empty, and its columns agree with the command stored in it.\<close>
lemma stored_rows_well_formed:
  assumes "get_row (pg_db (run_stored x (start_gateway x now b fresh (open_store n m)) ops)) k = Some w"
  shows "cr_command_id w = k \<and> k \<noteq> [] \<and> cr_dedupe_key w \<noteq> [] \<and> 0 \<le> cr_attempts w \<and> cr_attempts w \<le> cr_max_attempts w \<and>
    1 \<le> cr_max_attempts w \<and>
    (\<exists>c. cr_command w = gateway_command_to_dict c \<and> gc_command_id c = k \<and> cr_command_type w = gc_type c \<and> cr_payload w = gc_payload c)"
proof -
  have "rows_ok (pg_db (run_stored x (start_gateway x now b fresh (open_store n m)) ops))"
    using system_run [OF system_start] by (simp add: sys.safe_def)
  from rows_okD [OF this assms] show ?thesis by (auto simp: row_ok_def)
qed

lemma fold_update_other:
  "k \<notin> set ks \<Longrightarrow> get_row (fold (\<lambda>k db. fst (update_record_status k st p err ty msg now db)) ks db) k = get_row db k"
  by (induction ks arbitrary: db) (simp_all add: update_status_row)

lemma expire_keeps_row:
  assumes "rows_ok db" "get_row db k = Some w" "\<not> row_expires b now w"
  shows "get_row (fst (expire_old_records b now db)) k = Some w"
proof -
  have "distinct (map fst (cs_commands db))" using assms(1) by (simp add: rows_ok_def)
  then have "w' = w" if "(k, w') \<in> set (cs_commands db)" for w'
    using lookup_mem [THEN iffD2, of "cs_commands db" k w'] that assms(2) by (simp add: get_row_def)
  with assms(3) have "k \<notin> set (map fst (filter (\<lambda>(k, w). row_expires b now w) (cs_commands db)))" by auto
  then show ?thesis unfolding expire_old_records_def Let_def fst_conv
    by (subst fold_update_other) (simp_all add: assms(2))
qed

lemma fold_restore_finds:
  assumes "\<forall>r\<in>set rs. rec_ok r" "r \<in> set rs" "\<forall>r'\<in>set rs. rec_command_id r' = rec_command_id r \<longrightarrow> r' = r"
  shows "get_record (fold (\<lambda>r q. restore q r) rs q) (rec_command_id r) = Some r"
  using assms
proof (induction rs rule: rev_induct)
  case (snoc a rs)
  then show ?case
    by (cases "rec_command_id a = rec_command_id r") (auto simp: get_record_restore rec_ok_def)
qed simp

lemma accepted_row:
  assumes "enqueue_stored x s0 c p ttl tries md t = (s, res)" "er_accepted res"
  shows "get_row (pg_db s) (gc_command_id c) = Some (row_of_record t (create_record (cx_digest x) c p ttl tries t md))"
proof -
  define r where "r = create_record (cx_digest x) c p ttl tries t md"
  have id: "gc_command_id c \<noteq> []" using assms by (auto simp: enqueue_stored_def)
  obtain db' where "fst (enqueue_record x t r (pg_db s0)) = db'" by simp
  then show ?thesis
  proof (cases rule: enqueue_record_cases)
    case (refused res')
    with assms id show ?thesis by (auto simp: enqueue_stored_def Let_def r_def [symmetric] split: option.splits)
  next
    case accepted
    have "pg_db s = db'" using assms(1) accepted(4) id by (auto simp: enqueue_stored_def Let_def r_def [symmetric] set_pending_def set_queue_def)
    with accepted(1) show ?thesis by (simp add: accepted(3) upsert_record_row row_of_record_def r_def)
  qed
qed

text \<open>C19: A queued command survives a restart unchanged: if a complete command is accepted and the gateway
  restarts before the command expires, then the queue recovered from the tables holds under the
  command's id exactly the record that was accepted (status, attempts, expiry, duplicate key and metadata included).\<close>
theorem restart_restores_queued:
  assumes "enqueue_stored x (run_stored x (start_gateway x now0 b0 fresh0 (open_store n m)) ops) c p ttl tries md t = (s, res)"
    and "er_accepted res" "faithful_record (create_record (cx_digest x) c p ttl tries t md)"
    and "rec_expires_at (create_record (cx_digest x) c p ttl tries t md) = Blank \<or>
         At (whole_second now) < rec_expires_at (create_record (cx_digest x) c p ttl tries t md)"
  shows "get_record (pg_queue (start_gateway x now b fresh (pg_db s))) (gc_command_id c) =
    Some (create_record (cx_digest x) c p ttl tries t md)"
proof -
  define r where "r = create_record (cx_digest x) c p ttl tries t md"
  let ?s = "run_stored x (start_gateway x now0 b0 fresh0 (open_store n m)) ops"
  have id: "gc_command_id c \<noteq> []" using assms(1,2) by (auto simp: enqueue_stored_def)
  then have r: "rec_ok r" "rec_command_id r = gc_command_id c" by (simp_all add: r_def)
  have ok: "sys.safe ?s" by (rule system_run [OF system_start])
  then have rows: "rows_ok (pg_db s)"
    using sys.enqueue_safe [OF ok, where x = x and c = c and p = p and ttl = ttl and tries = tries and md = md and now = t] assms(1)
    by (simp add: sys.safe_def)
  have row: "get_row (pg_db s) (gc_command_id c) = Some (row_of_record t r)" unfolding r_def by (rule accepted_row [OF assms(1,2)])
  let ?db = "fst (expire_old_records b now (pg_db s))"
  have live: "outlives (cr_expires_at (row_of_record t r)) now" using assms(4) by (simp add: outlives_def row_of_record_def r_def)
  then have "\<not> row_expires b now (row_of_record t r)" by (auto simp: row_expires_def outlives_def)
  from expire_keeps_row [OF rows row this] have g: "get_row ?db (gc_command_id c) = Some (row_of_record t r)" .
  have rows': "rows_ok ?db" using rows by simp
  let ?rs = "load_recoverable_records x now ?db"
  have same: "row_to_record x now (row_of_record t r) = r" using assms(3) by (simp add: row_round_trip r_def)
  have "row_of_record t r \<in> snd ` set (cs_commands ?db)"
    using g map_of_SomeD [of "cs_commands ?db"] unfolding get_row_def by force
  moreover have "cr_status (row_of_record t r) = ''QUEUED''" by (simp add: row_of_record_def r_def)
  ultimately have r_in: "r \<in> set ?rs" using live same by (force simp: load_recoverable_records_def)
  have all: "rec_ok r' \<and> (rec_command_id r' = gc_command_id c \<longrightarrow> r' = r)" if r': "r' \<in> set ?rs" for r'
  proof -
    obtain w where w: "get_row ?db (rec_command_id r') = Some w" "r' = row_to_record x now w" "rec_ok r'"
      by (rule recovered_rows [OF rows' r']) (rule that)
    show ?thesis
    proof (intro conjI impI)
      assume "rec_command_id r' = gc_command_id c"
      with w(1) g have "w = row_of_record t r" by simp
      then show "r' = r" by (simp only: w(2) same)
    qed (rule w(3))
  qed
  have "get_record (fold (\<lambda>r q. restore q r) ?rs empty_queue) (rec_command_id r) = Some r"
    by (rule fold_restore_finds [OF _ r_in]) (use all in \<open>simp_all add: r(2)\<close>)
  then show ?thesis by (simp add: start_gateway_parts r(2) r_def [symmetric])
qed

lemma restart_restores_queued_witness:
  "let s = fst (enqueue_stored sample_codec (run_stored sample_codec (start_gateway sample_codec 0 True sample_store (open_store 60 60)) []) sample_command None (Some 30) None [] 0)
   in get_record (pg_queue (start_gateway sample_codec 5000000 True sample_store (pg_db s))) ''cmd-1'' =
     Some (create_record (cx_digest sample_codec) sample_command None (Some 30) None 0 [])"
proof -
  let ?e = "enqueue_stored sample_codec (run_stored sample_codec (start_gateway sample_codec 0 True sample_store (open_store 60 60)) []) sample_command None (Some 30) None [] 0"
  have id: "gc_command_id sample_command = ''cmd-1''" by (simp add: sample_command_def)
  have "er_accepted (snd ?e)" using start_accepts [of sample_command] by (simp add: run_stored_def id)
  moreover have "faithful_record (create_record (cx_digest sample_codec) sample_command None (Some 30) None 0 [])"
    by (simp add: faithful_record_def create_record_def sample_command_def Let_def dedupe_key_for_command_def)
  moreover have "At (whole_second 5000000) < rec_expires_at (create_record (cx_digest sample_codec) sample_command None (Some 30) None 0 [])"
    by (simp add: create_record_def Let_def sample_command_def whole_second_def)
  ultimately show ?thesis
    unfolding Let_def id [symmetric] by (intro restart_restores_queued [OF prod.collapse [symmetric]] disjI2) simp_all
qed

end
