(* ===== verification/Order_Models.thy ===== *)
theory Order_Models
  imports Command_Codec Complex_Main
begin

text \<open>
  Data of the managed orders (\<open>trading/strategy/order_models.py\<close>): the enums, the configuration,
  intents, orders and decisions. Identifiers of rows are integers, 0 standing for \<open>None\<close> (the code
  only tests their truth). Sides stay texts, because they are also read from broker payloads.
  Percentages and intervals, floats in the code, are exact rationals.
\<close>

section \<open>Enums\<close>

definition BUY :: string where "BUY = ''BUY''"
definition SELL :: string where "SELL = ''SELL''"
definition CANCEL_BUY :: string where "CANCEL_BUY = ''CANCEL_BUY''"
definition CANCEL_SELL :: string where "CANCEL_SELL = ''CANCEL_SELL''"

lemmas side_names = BUY_def SELL_def CANCEL_BUY_def CANCEL_SELL_def

datatype intent_source = REBOOT_ENTRY_ENGINE | REBOOT_EXIT_ENGINE | MANUAL_OPERATOR | TEST_ONLY

datatype intent_status =
    CREATED | INTENT_CREATED | RISK_APPROVED | RISK_REJECTED | LOCAL_ORDER_CREATED
  | COMMAND_BLOCKED_OBSERVE_ONLY | COMMAND_QUEUED | COMMAND_ACKED | COMMAND_REJECTED
  | PARTIALLY_FILLED | FILLED | CANCEL_REQUESTED | CANCELLED | EXPIRED | FAILED

datatype order_status =
    INTENT_CREATED | RISK_APPROVED | RISK_REJECTED | LOCAL_ORDER_CREATED
  | COMMAND_BLOCKED_OBSERVE_ONLY | PENDING_LOCAL | QUEUED_TO_GATEWAY | ACKED_BY_GATEWAY
  | REJECTED_BY_GATEWAY | PARTIALLY_FILLED | FILLED | CANCEL_PENDING | CANCELLED | EXPIRED
  | RECONCILE_REQUIRED

fun intent_status_value :: "intent_status \<Rightarrow> string" where
  "intent_status_value CREATED = ''CREATED''"
| "intent_status_value intent_status.INTENT_CREATED = ''INTENT_CREATED''"
| "intent_status_value intent_status.RISK_APPROVED = ''RISK_APPROVED''"
| "intent_status_value intent_status.RISK_REJECTED = ''RISK_REJECTED''"
| "intent_status_value intent_status.LOCAL_ORDER_CREATED = ''LOCAL_ORDER_CREATED''"
| "intent_status_value intent_status.COMMAND_BLOCKED_OBSERVE_ONLY = ''COMMAND_BLOCKED_OBSERVE_ONLY''"
| "intent_status_value COMMAND_QUEUED = ''COMMAND_QUEUED''"
| "intent_status_value COMMAND_ACKED = ''COMMAND_ACKED''"
| "intent_status_value COMMAND_REJECTED = ''COMMAND_REJECTED''"
| "intent_status_value intent_status.PARTIALLY_FILLED = ''PARTIALLY_FILLED''"
| "intent_status_value intent_status.FILLED = ''FILLED''"
| "intent_status_value CANCEL_REQUESTED = ''CANCEL_REQUESTED''"
| "intent_status_value intent_status.CANCELLED = ''CANCELLED''"
| "intent_status_value intent_status.EXPIRED = ''EXPIRED''"
| "intent_status_value intent_status.FAILED = ''FAILED''"

fun order_status_value :: "order_status \<Rightarrow> string" where
  "order_status_value INTENT_CREATED = ''INTENT_CREATED''"
| "order_status_value RISK_APPROVED = ''RISK_APPROVED''"
| "order_status_value RISK_REJECTED = ''RISK_REJECTED''"
| "order_status_value LOCAL_ORDER_CREATED = ''LOCAL_ORDER_CREATED''"
| "order_status_value COMMAND_BLOCKED_OBSERVE_ONLY = ''COMMAND_BLOCKED_OBSERVE_ONLY''"
| "order_status_value PENDING_LOCAL = ''PENDING_LOCAL''"
| "order_status_value QUEUED_TO_GATEWAY = ''QUEUED_TO_GATEWAY''"
| "order_status_value ACKED_BY_GATEWAY = ''ACKED_BY_GATEWAY''"
| "order_status_value REJECTED_BY_GATEWAY = ''REJECTED_BY_GATEWAY''"
| "order_status_value PARTIALLY_FILLED = ''PARTIALLY_FILLED''"
| "order_status_value FILLED = ''FILLED''"
| "order_status_value CANCEL_PENDING = ''CANCEL_PENDING''"
| "order_status_value CANCELLED = ''CANCELLED''"
| "order_status_value EXPIRED = ''EXPIRED''"
| "order_status_value RECONCILE_REQUIRED = ''RECONCILE_REQUIRED''"

datatype risk_result = PASS | REJECT | WAIT | KILL_SWITCH

datatype kill_state = NORMAL_TRADING | STOP_NEW_BUY | REDUCE_ONLY | KILL_SWITCH_ACTIVE

text \<open>The mode texts \<open>OBSERVE\<close>, \<open>DRY_RUN\<close> and \<open>LIVE_SIM\<close>.\<close>

datatype manager_mode = OBSERVE | DRY_RUN | LIVE_SIM

section \<open>Configuration\<close>

record order_config =
  cfg_enabled :: bool
  cfg_intent_enabled :: bool
  cfg_intent_shadow_mode :: bool
  cfg_create_local_order :: bool
  cfg_enqueue_gateway_command :: bool
  cfg_send_order_allowed :: bool
  cfg_mode :: manager_mode
  cfg_allow_live_sim_orders :: bool
  cfg_require_simulation_broker :: bool
  cfg_block_real_broker :: bool
  cfg_account_whitelist :: "string list"
  cfg_max_order_quantity :: int
  cfg_max_order_amount :: int
  cfg_max_daily_buy_orders :: int
  cfg_max_daily_sell_orders :: int
  cfg_max_daily_orders_per_code :: int
  cfg_max_open_positions :: int
  cfg_max_theme_exposure_count :: int
  cfg_cancel_unfilled_after_sec :: int
  cfg_order_hoga :: string
  cfg_use_limit_price :: bool
  cfg_allow_market_order :: bool
  cfg_daily_loss_limit_pct :: rat
  cfg_daily_loss_limit_krw :: int
  cfg_consecutive_loss_limit :: int
  cfg_kill_switch_enabled :: bool
  cfg_observe_only :: bool
  cfg_decision_stale_after_sec :: int
  cfg_quote_stale_after_sec :: int
  cfg_max_spread_ticks :: int
  cfg_stale_tick_sec :: int
  cfg_ack_timeout_sec :: int
  cfg_reconcile_required_blocks_buy :: bool
  cfg_block_pyramiding :: bool
  cfg_market_side_enabled :: bool
  cfg_market_side_observe_only :: bool
  cfg_market_side_enforce_buy_limits :: bool
  cfg_market_side_budget_max_age_sec :: int
  cfg_command_ttl_sec :: int
  cfg_command_max_attempts :: int
  cfg_cycle_bucket_sec :: int
  cfg_run_interval_sec :: rat

definition default_config :: order_config where
  "default_config =
     \<lparr>cfg_enabled = False, cfg_intent_enabled = False, cfg_intent_shadow_mode = True,
      cfg_create_local_order = False, cfg_enqueue_gateway_command = False,
      cfg_send_order_allowed = False, cfg_mode = OBSERVE, cfg_allow_live_sim_orders = False,
      cfg_require_simulation_broker = True, cfg_block_real_broker = True,
      cfg_account_whitelist = [], cfg_max_order_quantity = 1, cfg_max_order_amount = 100000,
      cfg_max_daily_buy_orders = 3, cfg_max_daily_sell_orders = 10,
      cfg_max_daily_orders_per_code = 1, cfg_max_open_positions = 3,
      cfg_max_theme_exposure_count = 2, cfg_cancel_unfilled_after_sec = 45,
      cfg_order_hoga = ''00'', cfg_use_limit_price = True, cfg_allow_market_order = False,
      cfg_daily_loss_limit_pct = - 2, cfg_daily_loss_limit_krw = 50000,
      cfg_consecutive_loss_limit = 2, cfg_kill_switch_enabled = True, cfg_observe_only = True,
      cfg_decision_stale_after_sec = 180, cfg_quote_stale_after_sec = 45,
      cfg_max_spread_ticks = 5, cfg_stale_tick_sec = 10, cfg_ack_timeout_sec = 30,
      cfg_reconcile_required_blocks_buy = True, cfg_block_pyramiding = True,
      cfg_market_side_enabled = False, cfg_market_side_observe_only = True,
      cfg_market_side_enforce_buy_limits = False, cfg_market_side_budget_max_age_sec = 60,
      cfg_command_ttl_sec = 30, cfg_command_max_attempts = 1, cfg_cycle_bucket_sec = 30,
      cfg_run_interval_sec = 1\<rparr>"

section \<open>Intents, orders and decisions\<close>

record risk_decision =
  rd_decision :: risk_result
  rd_side :: string
  rd_code :: string
  rd_idempotency_key :: string
  rd_reason_codes :: "string list"
  rd_operator_message :: string

definition approved :: "risk_decision \<Rightarrow> bool" where
  "approved d \<longleftrightarrow> rd_decision d = PASS"

record order_intent =
  mi_id :: int
  mi_trade_date :: string
  mi_source :: intent_source
  mi_side :: string
  mi_code :: string
  mi_quantity :: int
  mi_price :: int
  mi_idempotency_key :: string
  mi_created_at :: stamp
  mi_account :: string
  mi_name :: string
  mi_hoga :: string
  mi_status :: intent_status
  mi_candidate_id :: int
  mi_position_id :: string
  mi_decision_id :: int
  mi_theme_id :: string
  mi_theme_name :: string
  mi_reason :: string
  mi_details :: pydict

record managed_order =
  mo_id :: int
  mo_intent_id :: int
  mo_trade_date :: string
  mo_side :: string
  mo_code :: string
  mo_quantity :: int
  mo_price :: int
  mo_idempotency_key :: string
  mo_created_at :: stamp
  mo_account :: string
  mo_hoga :: string
  mo_status :: order_status
  mo_source :: intent_source
  mo_candidate_id :: int
  mo_position_id :: string
  mo_command_id :: string
  mo_order_no :: string
  mo_original_order_no :: string
  mo_filled_quantity :: int
  mo_remaining_quantity :: int
  mo_avg_fill_price :: int
  mo_sent_at :: stamp
  mo_acked_at :: stamp
  mo_updated_at :: stamp
  mo_cancel_after_sec :: int
  mo_details :: pydict

text \<open>
  \<open>avg_fill_price\<close> is a float field that the code only ever fills from integer prices.
\<close>

record cancel_decision =
  cd_should_cancel :: bool
  cd_order_id :: int
  cd_code :: string
  cd_order_no :: string
  cd_remaining_quantity :: int
  cd_idempotency_key :: string
  cd_reason_codes :: "string list"
  cd_age :: "time option"

record execution_result =
  xr_matched :: bool
  xr_order_id :: int
  xr_status :: order_status
  xr_filled_quantity :: int
  xr_remaining_quantity :: int
  xr_reason_codes :: "string list"

text \<open>The texts of a decision, and its dictionary (without the diagnostic details).\<close>

fun risk_result_value :: "risk_result \<Rightarrow> string" where
  "risk_result_value PASS = ''PASS''"
| "risk_result_value REJECT = ''REJECT''"
| "risk_result_value WAIT = ''WAIT''"
| "risk_result_value KILL_SWITCH = ''KILL_SWITCH''"

definition risk_to_dict :: "risk_decision \<Rightarrow> pydict" where
  "risk_to_dict d =
     [(''decision'', PStr (risk_result_value (rd_decision d))), (''side'', PStr (rd_side d)),
      (''code'', PStr (rd_code d)), (''idempotency_key'', PStr (rd_idempotency_key d)),
      (''reason_codes'', PList (map PStr (rd_reason_codes d))),
      (''operator_message_ko'', PStr (rd_operator_message d))]"

text \<open>\<open>{**d, k: v}\<close>.\<close>

definition dset :: "string \<Rightarrow> pyval \<Rightarrow> pydict \<Rightarrow> pydict" where
  "dset k v d = AList.update k v d"

definition dmerge :: "pydict \<Rightarrow> pydict \<Rightarrow> pydict" where
  "dmerge d e = fold (\<lambda>(k, v). AList.update k v) e d"

lemma dget_dset: "dget (dset k v d) k' = (if k' = k then v else dget d k')"
  by (simp add: dget_def dset_def lookup_update)

lemma truthy_dset [simp]: "dset k v d \<noteq> []"
  by (simp add: dset_def update_nonempty)

end
