(* ===== verification/Row_Table.thy ===== *)
theory Row_Table
  imports Prelude
begin

text \<open>
  The shape that the order tables of \<open>storage/db.py\<close> share: rows in the order of their
  autoincremented id, a unique key, an UPDATE by id, an INSERT that on a conflict of the key
  updates the row that is there, and queries that read the newest row or a page from the newest.
  The interface \<open>row_schema\<close> says what a table's column functions have to keep; every table of the
  development interprets it, and the laws of saving and reading are proved here once.
\<close>

record 'r table =
  t_next :: int
  t_rows :: "'r list"

definition empty_table :: "'r table" where
  "empty_table = \<lparr>t_next = 1, t_rows = []\<rparr>"

text \<open>\<open>SELECT ... WHERE id = ?\<close>, and \<open>... ORDER BY id DESC LIMIT 1\<close>, and a page of \<open>... ORDER BY id DESC\<close>.\<close>

definition row_by_id :: "('r \<Rightarrow> int) \<Rightarrow> int \<Rightarrow> 'r table \<Rightarrow> 'r option" where
  "row_by_id idf k t = find (\<lambda>r. idf r = k) (t_rows t)"

definition newest :: "('r \<Rightarrow> bool) \<Rightarrow> 'r table \<Rightarrow> 'r option" where
  "newest P t = find P (rev (t_rows t))"

definition page :: "('r \<Rightarrow> bool) \<Rightarrow> nat \<Rightarrow> nat \<Rightarrow> 'r table \<Rightarrow> 'r list" where
  "page P limit offset t = take limit (drop offset (filter P (rev (t_rows t))))"

definition update_rows :: "('r \<Rightarrow> bool) \<Rightarrow> ('r \<Rightarrow> 'r) \<Rightarrow> 'r table \<Rightarrow> 'r table" where
  "update_rows P f t = t\<lparr>t_rows := map (\<lambda>r. if P r then f r else r) (t_rows t)\<rparr>"

definition insert_row :: "(int \<Rightarrow> 'r) \<Rightarrow> 'r table \<Rightarrow> 'r table" where
  "insert_row mk t = \<lparr>t_next = t_next t + 1, t_rows = t_rows t @ [mk (t_next t)]\<rparr>"

text \<open>
  Saving a payload: with an id, UPDATE the row of that id; without, INSERT or update on conflict.
\<close>

definition save_row ::
  "('r \<Rightarrow> int) \<Rightarrow> ('r \<Rightarrow> string) \<Rightarrow> ('p \<Rightarrow> 'r \<Rightarrow> 'r) \<Rightarrow> ('p \<Rightarrow> 'r \<Rightarrow> 'r) \<Rightarrow> ('p \<Rightarrow> int \<Rightarrow> 'r) \<Rightarrow>
   ('p \<Rightarrow> string) \<Rightarrow> ('p \<Rightarrow> int) \<Rightarrow> 'p \<Rightarrow> 'r table \<Rightarrow> 'r table" where
  "save_row idf keyf overwrite conflict mk pkey pid p t =
     (if pid p \<noteq> 0 then update_rows (\<lambda>r. idf r = pid p) (overwrite p) t
      else if \<exists>r\<in>set (t_rows t). keyf r = pkey p then update_rows (\<lambda>r. keyf r = pkey p) (conflict p) t
      else insert_row (mk p) t)"

section \<open>Well-formed tables\<close>

definition table_ok :: "('r \<Rightarrow> int) \<Rightarrow> ('r \<Rightarrow> string) \<Rightarrow> 'r table \<Rightarrow> bool" where
  "table_ok idf keyf t \<longleftrightarrow>
     sorted_wrt (<) (map idf (t_rows t)) \<and> (\<forall>r\<in>set (t_rows t). 1 \<le> idf r \<and> idf r < t_next t) \<and>
     distinct (map keyf (t_rows t)) \<and> 1 \<le> t_next t"

lemma table_ok_empty [simp]: "table_ok idf keyf empty_table"
  by (simp add: table_ok_def empty_table_def)

lemma table_ok_ids:
  "table_ok idf keyf t \<longleftrightarrow>
     sorted_wrt (<) (map idf (t_rows t)) \<and> (\<forall>i\<in>set (map idf (t_rows t)). 1 \<le> i \<and> i < t_next t) \<and>
     distinct (map keyf (t_rows t)) \<and> 1 \<le> t_next t"
  by (simp add: table_ok_def)

lemma table_ok_distinct: "table_ok idf keyf t \<Longrightarrow> distinct (map idf (t_rows t))"
  by (auto simp: table_ok_def strict_sorted_iff)

lemma find_unique:
  "distinct (map f xs) \<Longrightarrow> x \<in> set xs \<Longrightarrow> f x = k \<Longrightarrow> find (\<lambda>y. f y = k) xs = Some x"
  by (induction xs) (auto simp: image_iff)

lemma findSomeD: "find P xs = Some x \<Longrightarrow> x \<in> set xs \<and> P x"
  by (induction xs) (auto split: if_splits)

lemma find_append: "find P (xs @ ys) = (case find P xs of None \<Rightarrow> find P ys | Some x \<Rightarrow> Some x)"
  by (induction xs) auto

lemma row_by_id_iff:
  "table_ok idf keyf t \<Longrightarrow> row_by_id idf k t = Some r \<longleftrightarrow> r \<in> set (t_rows t) \<and> idf r = k"
  using find_unique [OF table_ok_distinct, of idf keyf t r k]
  by (auto simp: row_by_id_def dest: findSomeD)

lemma find_map_if:
  "(\<And>r. Q (f r) \<longleftrightarrow> Q r) \<Longrightarrow>
   find Q (map (\<lambda>r. if P r then f r else r) xs) = map_option (\<lambda>r. if P r then f r else r) (find Q xs)"
  by (induction xs) auto

lemma row_by_id_update:
  "(\<And>r. idf (f r) = idf r) \<Longrightarrow>
   row_by_id idf k (update_rows P f t) = map_option (\<lambda>r. if P r then f r else r) (row_by_id idf k t)"
  by (simp add: row_by_id_def update_rows_def find_map_if)

lemma row_by_id_some_id: "row_by_id idf k t = Some r \<Longrightarrow> idf r = k"
  by (auto simp: row_by_id_def dest: findSomeD)

lemma map_update_rows: "(\<And>r. g (f r) = g r) \<Longrightarrow> map g (t_rows (update_rows P f t)) = map g (t_rows t)"
  by (auto simp: update_rows_def)

lemma update_rows_all:
  assumes "\<And>r. r \<in> set (t_rows t) \<Longrightarrow> Q (if P r then f r else r)"
  shows "\<forall>r\<in>set (t_rows (update_rows P f t)). Q r"
proof
  fix r assume "r \<in> set (t_rows (update_rows P f t))"
  then obtain r' where "r' \<in> set (t_rows t)" "r = (if P r' then f r' else r')"
    by (auto simp: update_rows_def)
  with assms show "Q r" by blast
qed

lemma next_update_rows [simp]: "t_next (update_rows P f t) = t_next t"
  by (simp add: update_rows_def)

lemma newest_Some: "newest P t = Some r \<Longrightarrow> r \<in> set (t_rows t) \<and> P r"
  by (auto simp: newest_def dest: findSomeD)

lemma newest_None: "newest P t = None \<longleftrightarrow> (\<forall>r\<in>set (t_rows t). \<not> P r)"
  by (auto simp: newest_def find_None_iff)

text \<open>The newest row that satisfies a predicate has the largest id among those that do.\<close>

lemma newest_max_id:
  assumes "table_ok idf keyf t" "newest P t = Some r" "r' \<in> set (t_rows t)" "P r'"
  shows "idf r' \<le> idf r"
proof -
  have s: "sorted_wrt (<) (map idf (t_rows t))" using assms(1) by (simp add: table_ok_def)
  have "sorted_wrt (<) (map idf xs) \<Longrightarrow> find P (rev xs) = Some r \<Longrightarrow> r' \<in> set xs \<Longrightarrow> P r' \<Longrightarrow> idf r' \<le> idf r" for xs
  proof (induction xs rule: rev_induct)
    case (snoc x xs)
    show ?case
    proof (cases "P x")
      case True
      with snoc.prems show ?thesis by (auto simp: sorted_wrt_append)
    next
      case False
      with snoc.prems snoc.IH show ?thesis by (auto simp: sorted_wrt_append)
    qed
  qed simp
  from this [of "t_rows t"] s assms(2-4) show ?thesis by (simp add: newest_def)
qed

lemma page_mem: "r \<in> set (page P limit offset t) \<Longrightarrow> r \<in> set (t_rows t) \<and> P r"
  unfolding page_def by (auto dest!: in_set_takeD in_set_dropD)

section \<open>The interface of a table\<close>

locale row_schema =
  fixes idf :: "'r \<Rightarrow> int" and keyf :: "'r \<Rightarrow> string"
    and overwrite :: "'p \<Rightarrow> 'r \<Rightarrow> 'r" and conflict :: "'p \<Rightarrow> 'r \<Rightarrow> 'r" and mk :: "'p \<Rightarrow> int \<Rightarrow> 'r"
    and pkey :: "'p \<Rightarrow> string" and pid :: "'p \<Rightarrow> int"
  assumes id_overwrite: "idf (overwrite p r) = idf r"
    and key_overwrite: "keyf (overwrite p r) = keyf r"
    and id_conflict: "idf (conflict p r) = idf r"
    and key_conflict: "keyf (conflict p r) = keyf r"
    and id_mk: "idf (mk p n) = n"
    and key_mk: "keyf (mk p n) = pkey p"
begin

lemmas columns = id_overwrite key_overwrite id_conflict key_conflict id_mk key_mk

lemma update_ok:
  assumes "table_ok idf keyf t" "\<And>r. idf (f r) = idf r" "\<And>r. keyf (f r) = keyf r"
  shows "table_ok idf keyf (update_rows P f t)"
  using assms(1) unfolding table_ok_ids map_update_rows [of idf f, OF assms(2)] map_update_rows [of keyf f, OF assms(3)]
  by simp

lemma insert_ok:
  assumes "table_ok idf keyf t" "\<forall>r\<in>set (t_rows t). keyf r \<noteq> pkey p"
  shows "table_ok idf keyf (insert_row (mk p) t)"
  using assms by (fastforce simp: table_ok_def insert_row_def columns sorted_wrt_append)

lemma save_ok: "table_ok idf keyf t \<Longrightarrow> table_ok idf keyf (save_row idf keyf overwrite conflict mk pkey pid p t)"
  by (auto simp: save_row_def columns intro: update_ok insert_ok)

text \<open>Saving with the id of a row overwrites that row and no other.\<close>

lemma save_by_id:
  "pid p \<noteq> 0 \<Longrightarrow>
   row_by_id idf k (save_row idf keyf overwrite conflict mk pkey pid p t) =
     map_option (\<lambda>r. if k = pid p then overwrite p r else r) (row_by_id idf k t)"
  using row_by_id_some_id [of idf k t]
  by (cases "row_by_id idf k t") (auto simp: save_row_def row_by_id_update columns)

text \<open>Saving a new key appends a row; saving a key that is there adds none.\<close>

lemma save_new:
  "pid p = 0 \<Longrightarrow> \<forall>r\<in>set (t_rows t). keyf r \<noteq> pkey p \<Longrightarrow>
   t_rows (save_row idf keyf overwrite conflict mk pkey pid p t) = t_rows t @ [mk p (t_next t)]"
  by (auto simp: save_row_def insert_row_def)

lemma save_length:
  "length (t_rows (save_row idf keyf overwrite conflict mk pkey pid p t)) =
     length (t_rows t) + (if pid p = 0 \<and> (\<forall>r\<in>set (t_rows t). keyf r \<noteq> pkey p) then 1 else 0)"
  by (auto simp: save_row_def insert_row_def update_rows_def)

lemma save_keys:
  "keyf ` set (t_rows (save_row idf keyf overwrite conflict mk pkey pid p t)) =
     keyf ` set (t_rows t) \<union> (if pid p = 0 then {pkey p} else {})"
proof -
  have "keyf ` set (t_rows (update_rows P f t)) = keyf ` set (t_rows t)" if "\<And>r. keyf (f r) = keyf r" for P f
    using map_update_rows [of keyf f P t] that by (metis list.set_map)
  then show ?thesis
    by (auto simp: save_row_def insert_row_def columns intro: rev_image_eqI)
qed

end

section \<open>Tables whose rows carry the payload that was saved\<close>

text \<open>
  A row remembers the payload it was saved from; a read returns the payload, with the row's id
  filled in when the payload has none. A row is consistent when its key and id are the payload's.
\<close>

definition row_consistent ::
  "('r \<Rightarrow> int) \<Rightarrow> ('r \<Rightarrow> string) \<Rightarrow> ('p \<Rightarrow> string) \<Rightarrow> ('p \<Rightarrow> int) \<Rightarrow> ('r \<Rightarrow> 'p) \<Rightarrow> 'r \<Rightarrow> bool" where
  "row_consistent idf keyf pkey pid payload r \<longleftrightarrow>
     keyf r = pkey (payload r) \<and> pid (payload r) \<in> {0, idf r}"

definition rows_ok ::
  "('r \<Rightarrow> int) \<Rightarrow> ('r \<Rightarrow> string) \<Rightarrow> ('p \<Rightarrow> string) \<Rightarrow> ('p \<Rightarrow> int) \<Rightarrow> ('r \<Rightarrow> 'p) \<Rightarrow> 'r table \<Rightarrow> bool" where
  "rows_ok idf keyf pkey pid payload t \<longleftrightarrow> table_ok idf keyf t \<and>
     (\<forall>r\<in>set (t_rows t). row_consistent idf keyf pkey pid payload r)"

lemma rows_ok_empty [simp]: "rows_ok idf keyf pkey pid payload empty_table"
  by (simp add: rows_ok_def) (simp add: empty_table_def)

lemma row_by_key: "rows_ok idf keyf pkey pid payload t \<Longrightarrow>
    find (\<lambda>r. keyf r = k) (rev (t_rows t)) = Some r \<longleftrightarrow> r \<in> set (t_rows t) \<and> keyf r = k"
  using find_unique [of keyf "rev (t_rows t)" r k]
  by (auto simp: rows_ok_def table_ok_def rev_map [symmetric] dest: findSomeD)

locale payload_schema = row_schema idf keyf overwrite conflict mk pkey pid
  for idf :: "'r \<Rightarrow> int" and keyf :: "'r \<Rightarrow> string"
    and overwrite :: "'p \<Rightarrow> 'r \<Rightarrow> 'r" and conflict :: "'p \<Rightarrow> 'r \<Rightarrow> 'r" and mk :: "'p \<Rightarrow> int \<Rightarrow> 'r"
    and pkey :: "'p \<Rightarrow> string" and pid :: "'p \<Rightarrow> int" +
  fixes payload :: "'r \<Rightarrow> 'p" and set_pid :: "int \<Rightarrow> 'p \<Rightarrow> 'p" and read_row :: "'r \<Rightarrow> 'p"
  assumes payload_overwrite: "payload (overwrite p r) = p"
    and payload_conflict: "payload (conflict p r) = p"
    and payload_mk: "payload (mk p n) = p"
    and pid_set: "pid (set_pid n p) = n"
    and pkey_set: "pkey (set_pid n p) = pkey p"
    and read_row: "read_row r = (if pid (payload r) = 0 then set_pid (idf r) (payload r) else payload r)"
begin

lemmas payloads = payload_overwrite payload_conflict payload_mk

lemma read_pid: "row_consistent idf keyf pkey pid payload r \<Longrightarrow> pid (read_row r) = idf r"
  by (auto simp: row_consistent_def read_row pid_set)

lemma read_key: "row_consistent idf keyf pkey pid payload r \<Longrightarrow> pkey (read_row r) = keyf r"
  by (auto simp: row_consistent_def read_row pkey_set)

lemma read_overwrite: "pid p = idf r \<Longrightarrow> idf r \<noteq> 0 \<Longrightarrow> read_row (overwrite p r) = p"
  by (simp add: read_row payloads)

lemma get_row:
  "rows_ok idf keyf pkey pid payload t \<Longrightarrow>
   map_option read_row (row_by_id idf k t) = Some x \<longleftrightarrow> (\<exists>r\<in>set (t_rows t). idf r = k \<and> x = read_row r)"
  by (auto simp: rows_ok_def row_by_id_iff)

lemma get_row_id:
  assumes "rows_ok idf keyf pkey pid payload t" "map_option read_row (row_by_id idf k t) = Some x"
  shows "pid x = k \<and> 1 \<le> k"
  using assms(2) unfolding get_row [OF assms(1)]
  using assms(1) by (auto simp: rows_ok_def table_ok_def read_pid)

text \<open>Saving an update of a stored payload replaces that payload and nothing else.\<close>

lemma save_update:
  assumes ok: "rows_ok idf keyf pkey pid payload t"
    and x: "map_option read_row (row_by_id idf k t) = Some x"
    and y: "pid y = pid x" "pkey y = pkey x"
  defines "t' \<equiv> save_row idf keyf overwrite conflict mk pkey pid y t"
  shows "map_option read_row (row_by_id idf j t') = (if j = k then Some y else map_option read_row (row_by_id idf j t))"
    and "rows_ok idf keyf pkey pid payload t'"
    and "t' = update_rows (\<lambda>r. idf r = k) (overwrite y) t"
proof -
  have k: "pid y = k" "k \<noteq> 0" using get_row_id [OF ok x] y by auto
  then show t': "t' = update_rows (\<lambda>r. idf r = k) (overwrite y) t" by (simp add: t'_def save_row_def)
  obtain r where r: "row_by_id idf k t = Some r" "x = read_row r" using x by auto
  show "map_option read_row (row_by_id idf j t') = (if j = k then Some y else map_option read_row (row_by_id idf j t))"
  proof (cases "j = k")
    case True
    with r k row_by_id_some_id [OF r(1)] show ?thesis
      by (simp add: t' row_by_id_update columns read_overwrite)
  next
    case False
    then show ?thesis using row_by_id_some_id [of idf j t]
      by (cases "row_by_id idf j t") (auto simp: t' row_by_id_update columns)
  qed
  have "row_consistent idf keyf pkey pid payload (if idf r' = k then overwrite y r' else r')"
    if "r' \<in> set (t_rows t)" for r'
  proof -
    have c: "row_consistent idf keyf pkey pid payload r'" using ok that by (simp add: rows_ok_def)
    show ?thesis
    proof (cases "idf r' = k")
      case True
      then have "r' = r" using ok that r(1) row_by_id_iff [of idf keyf t k]
        by (metis option.inject rows_ok_def)
      then have "keyf r' = pkey y" using y(2) r(2) read_key [OF c] by simp
      with True k show ?thesis by (simp add: row_consistent_def columns payloads)
    qed (simp add: c)
  qed
  then have "\<forall>r\<in>set (t_rows t'). row_consistent idf keyf pkey pid payload r"
    unfolding t' by (rule update_rows_all)
  then show "rows_ok idf keyf pkey pid payload t'"
    using ok by (simp add: rows_ok_def t' update_ok columns)
qed

text \<open>Saving a payload with a new key stores it under the next id.\<close>

lemma save_fresh:
  assumes ok: "rows_ok idf keyf pkey pid payload t"
    and p: "pid p = 0" "\<forall>r\<in>set (t_rows t). keyf r \<noteq> pkey p"
  defines "t' \<equiv> save_row idf keyf overwrite conflict mk pkey pid p t" and "n \<equiv> t_next t"
  shows "map_option read_row (row_by_id idf j t') =
      (if j = n then Some (set_pid n p) else map_option read_row (row_by_id idf j t))"
    and "row_by_id idf n t = None" and "1 \<le> n"
    and "rows_ok idf keyf pkey pid payload t'"
    and "t' = insert_row (mk p) t"
    and "find (\<lambda>r. keyf r = pkey p) (rev (t_rows t')) = Some (mk p n)"
    and "read_row (mk p n) = set_pid n p"
proof -
  show t': "t' = insert_row (mk p) t" using p by (auto simp: t'_def save_row_def)
  have tok: "table_ok idf keyf t" using ok by (simp add: rows_ok_def)
  then have ids: "\<forall>r\<in>set (t_rows t). 1 \<le> idf r \<and> idf r < n" and n: "1 \<le> n"
    by (auto simp: table_ok_def n_def)
  then show none: "row_by_id idf n t = None" and "1 \<le> n" by (auto simp: row_by_id_def find_None_iff)
  show read: "read_row (mk p n) = set_pid n p" using p(1) by (simp add: read_row payloads columns)
  have "row_by_id idf j t' = (case row_by_id idf j t of Some r \<Rightarrow> Some r | None \<Rightarrow> if j = n then Some (mk p n) else None)"
    by (auto simp: t' insert_row_def row_by_id_def n_def find_append columns split: option.split)
  with none read show "map_option read_row (row_by_id idf j t') =
      (if j = n then Some (set_pid n p) else map_option read_row (row_by_id idf j t))"
    by (auto split: option.split)
  have "row_consistent idf keyf pkey pid payload (mk p n)"
    using p(1) by (simp add: row_consistent_def columns payloads)
  then show "rows_ok idf keyf pkey pid payload t'"
    using ok insert_ok [OF tok p(2)] by (simp add: rows_ok_def t') (simp add: insert_row_def n_def)
  show "find (\<lambda>r. keyf r = pkey p) (rev (t_rows t')) = Some (mk p n)"
    by (simp add: t' insert_row_def n_def columns)
qed

text \<open>Saving a payload without an id under a known key replaces the payload of that key.\<close>

lemma save_again:
  assumes ok: "rows_ok idf keyf pkey pid payload t"
    and p: "pid p = 0" "r \<in> set (t_rows t)" "keyf r = pkey p"
  defines "t' \<equiv> save_row idf keyf overwrite conflict mk pkey pid p t"
  shows "map_option read_row (row_by_id idf j t') =
      (if j = idf r then Some (set_pid (idf r) p) else map_option read_row (row_by_id idf j t))"
    and "rows_ok idf keyf pkey pid payload t'"
    and "find (\<lambda>r. keyf r = pkey p) (rev (t_rows t')) = Some (conflict p r)"
    and "read_row (conflict p r) = set_pid (idf r) p"
    and "t' = update_rows (\<lambda>r. keyf r = pkey p) (conflict p) t"
proof -
  show t': "t' = update_rows (\<lambda>r. keyf r = pkey p) (conflict p) t" using p by (auto simp: t'_def save_row_def)
  have tok: "table_ok idf keyf t" using ok by (simp add: rows_ok_def)
  show read: "read_row (conflict p r) = set_pid (idf r) p" using p(1) by (simp add: read_row payloads columns)
  have by_key: "keyf r' = pkey p \<longleftrightarrow> r' = r" if "r' \<in> set (t_rows t)" for r'
    using tok that p(2,3) by (auto simp: table_ok_def distinct_map inj_on_def)
  have by_id: "idf r' = idf r \<longleftrightarrow> r' = r" if "r' \<in> set (t_rows t)" for r'
    using table_ok_distinct [OF tok] that p(2) by (auto simp: distinct_map inj_on_def)
  show "map_option read_row (row_by_id idf j t') =
      (if j = idf r then Some (set_pid (idf r) p) else map_option read_row (row_by_id idf j t))"
  proof (cases "row_by_id idf j t")
    case None
    then have "j \<noteq> idf r" using p(2) row_by_id_iff [OF tok, of "idf r" r] by auto
    with None show ?thesis by (simp add: t' row_by_id_update columns)
  next
    case (Some r')
    then have m: "r' \<in> set (t_rows t)" "idf r' = j" using row_by_id_iff [OF tok] by auto
    with Some by_key [OF m(1)] by_id [OF m(1)] read show ?thesis
      by (auto simp: t' row_by_id_update columns)
  qed
  have "row_consistent idf keyf pkey pid payload (if keyf r' = pkey p then conflict p r' else r')"
    if "r' \<in> set (t_rows t)" for r'
  proof -
    have "row_consistent idf keyf pkey pid payload r'" using that ok by (simp add: rows_ok_def)
    then show ?thesis using p(1) by (simp add: row_consistent_def columns payloads)
  qed
  then have "\<forall>r\<in>set (t_rows t'). row_consistent idf keyf pkey pid payload r"
    unfolding t' by (rule update_rows_all)
  then show ok': "rows_ok idf keyf pkey pid payload t'"
    using ok by (simp add: rows_ok_def t' update_ok columns)
  have "conflict p r \<in> set (t_rows t')" using p by (auto simp: t' update_rows_def)
  then show "find (\<lambda>r. keyf r = pkey p) (rev (t_rows t')) = Some (conflict p r)"
    using row_by_key [OF ok'] p(3) by (simp add: columns)
qed

text \<open>A payload that a query finds is stored under its own id.\<close>

lemma newest_stored:
  assumes "rows_ok idf keyf pkey pid payload t" "map_option read_row (newest P t) = Some x"
  obtains r where "newest P t = Some r" "P r" "x = read_row r" "r \<in> set (t_rows t)"
    "map_option read_row (row_by_id idf (pid x) t) = Some x"
proof -
  obtain r where r: "newest P t = Some r" "x = read_row r" using assms(2) by auto
  from newest_Some [OF r(1)] have m: "r \<in> set (t_rows t)" "P r" by simp_all
  with assms(1) have "row_consistent idf keyf pkey pid payload r" by (simp add: rows_ok_def)
  then have "pid x = idf r" using r(2) by (simp add: read_pid)
  then have "map_option read_row (row_by_id idf (pid x) t) = Some x"
    unfolding get_row [OF assms(1)] using m(1) r(2) by auto
  then show thesis by (rule that [OF r(1) m(2) r(2) m(1)])
qed

end

end
