(* ===== verification/Order_Store.thy ===== *)
theory Order_Store
  imports Order_Models Row_Table
begin

text \<open>
  The tables of the managed orders in \<open>storage/db.py\<close>: intents, orders, their events, risk
  decisions, kill switch states, LIVE_SIM positions and portfolio risk snapshots, with the queries
  that the order components run on them.

  A row of an order or an intent has the columns that queries select on, and the payload that was
  saved (\<open>payload_json\<close>): a read returns the payload, and the columns only fill keys that the
  payload lacks. Every payload the program saves has all keys except \<open>id\<close>, so the row's id is the
  only key that is filled. Positions have no payload; their columns are what a read returns.
  JSON encoding of nested values is the identity here.
\<close>

section \<open>Column values\<close>

text \<open>\<open>_clean_stock_code\<close>: the leading \<open>A\<close> of a seven-character code goes, then everything but digits.\<close>

definition zfill :: "nat \<Rightarrow> string \<Rightarrow> string" where
  "zfill n s = replicate (n - length s) (CHR ''0'') @ s"

definition clean_stock_code :: "string \<Rightarrow> string" where
  "clean_stock_code value =
     (let text = upper (strip value);
          text' = (if text \<noteq> [] \<and> hd text = CHR ''A'' \<and> length text = 7 then tl text else text);
          digits = filter is_digit text'
      in if digits \<noteq> [] then zfill 6 digits else [])"

definition code_column :: "string \<Rightarrow> string" where
  "code_column code = str_or (clean_stock_code code) code"

definition mask_account :: "string \<Rightarrow> string" where
  "mask_account account =
     (if account = [] then []
      else if CHR ''*'' \<in> set account then account
      else if length account \<le> 4 then replicate (length account) (CHR ''*'')
      else take 2 account @ replicate (max 2 (length account - 4)) (CHR ''*'') @
           drop (length account - 2) account)"

text \<open>Masking hides every character but the first and last two, and masking twice changes nothing.\<close>

lemma mask_account_masked: "account \<noteq> [] \<Longrightarrow> CHR ''*'' \<in> set (mask_account account)"
  by (auto simp: mask_account_def)

lemma mask_account_idem: "mask_account (mask_account account) = mask_account account"
  using mask_account_masked [of account] by (simp add: mask_account_def [of "mask_account account"])
    (simp add: mask_account_def)

section \<open>Tables\<close>

record intent_row =
  ir_id :: int
  ir_idempotency_key :: string
  ir_trade_date :: string
  ir_code :: string
  ir_account_masked :: string
  ir_status :: intent_status
  ir_payload :: order_intent

record order_row =
  row_id :: int
  row_idempotency_key :: string
  row_intent_id :: int
  row_created_at :: stamp
  row_trade_date :: string
  row_side :: string
  row_code :: string
  row_account_masked :: string
  row_status :: order_status
  row_command_id :: string
  row_order_no :: string
  row_payload :: managed_order

text \<open>What the payload of an event carries.\<close>

datatype event_payload =
    ReasonPayload string
  | RiskPayload risk_decision "string list"
  | OrderPayload managed_order
  | CommandPayload gateway_command enqueue_result
  | CancelPayload cancel_decision gateway_command
  | DictPayload pydict
  | TimeoutPayload int

record order_event =
  oe_order_id :: int
  oe_intent_id :: int
  oe_event_type :: string
  oe_status_from :: string
  oe_status_to :: string
  oe_message :: string
  oe_payload :: event_payload

record risk_row =
  rr_intent_id :: int
  rr_trade_date :: string
  rr_created_at :: stamp
  rr_decision :: risk_decision

record kill_row =
  kr_trade_date :: string
  kr_state :: kill_state
  kr_reason_codes :: "string list"
  kr_manual_active :: bool
  kr_consecutive_loss_count :: int
  kr_daily_realized_pnl_pct :: rat
  kr_daily_realized_pnl_krw :: rat
  kr_updated_at :: stamp

record position_row =
  pr_id :: int
  pr_position_id :: string
  pr_candidate_instance_id :: string
  pr_code :: string
  pr_name :: string
  pr_account_masked :: string
  pr_opened_at :: stamp
  pr_closed_at :: stamp
  pr_entry_qty :: int
  pr_entry_avg_price :: int
  pr_current_qty :: int
  pr_realized_qty :: int
  pr_status :: string
  pr_theme_id :: string
  pr_theme_name :: string
  pr_last_order_id :: int
  pr_updated_at :: stamp

record side_budget =
  sb_budget_action :: string
  sb_reserved_exposure_krw :: int
  sb_effective_exposure_limit_krw :: int
  sb_available_position_slots :: int
  sb_max_open_positions :: int
  sb_pending_buy_exposure_krw :: int

record portfolio_row =
  pf_trade_date :: string
  pf_calculated_at :: stamp
  pf_stop_new_entry_recommended :: bool
  pf_kill_switch_recommended :: bool
  pf_daily_realized_pnl_pct :: rat
  pf_details_daily_realized_pnl_krw :: rat
  pf_details_daily_realized_pnl :: rat
  pf_market_side_budgets :: "(string \<times> side_budget) list"
  pf_details_market_side_budgets :: "(string \<times> side_budget) list"
  pf_gross_exposure_limit_krw :: int
  pf_gross_reserved_exposure_krw :: int
  pf_total_exposure :: int

record order_db =
  db_intents :: "intent_row table"
  db_orders :: "order_row table"
  db_events :: "order_event list"
  db_risk_decisions :: "risk_row list"
  db_kill_states :: "kill_row list"
  db_positions :: "position_row table"
  db_portfolio :: "portfolio_row list"

definition empty_db :: order_db where
  "empty_db = \<lparr>db_intents = empty_table, db_orders = empty_table, db_events = [], db_risk_decisions = [],
     db_kill_states = [], db_positions = empty_table, db_portfolio = []\<rparr>"

section \<open>Intents\<close>

definition read_intent :: "intent_row \<Rightarrow> order_intent" where
  "read_intent r = (let p = ir_payload r in if mi_id p = 0 then p\<lparr>mi_id := ir_id r\<rparr> else p)"

definition intent_overwrite :: "order_intent \<Rightarrow> intent_row \<Rightarrow> intent_row" where
  "intent_overwrite p r = r\<lparr>ir_code := code_column (mi_code p), ir_account_masked := mask_account (mi_account p),
     ir_status := mi_status p, ir_payload := p\<rparr>"

definition intent_conflict :: "order_intent \<Rightarrow> intent_row \<Rightarrow> intent_row" where
  "intent_conflict p r = r\<lparr>ir_status := mi_status p, ir_payload := p\<rparr>"

definition intent_insert :: "order_intent \<Rightarrow> int \<Rightarrow> intent_row" where
  "intent_insert p n = \<lparr>ir_id = n, ir_idempotency_key = mi_idempotency_key p, ir_trade_date = mi_trade_date p,
     ir_code = code_column (mi_code p), ir_account_masked = mask_account (mi_account p),
     ir_status = mi_status p, ir_payload = p\<rparr>"

definition find_intent_by_idempotency :: "order_db \<Rightarrow> string \<Rightarrow> order_intent option" where
  "find_intent_by_idempotency db key =
     map_option read_intent (find (\<lambda>r. ir_idempotency_key r = key) (t_rows (db_intents db)))"

definition get_managed_order_intent :: "order_db \<Rightarrow> int \<Rightarrow> order_intent option" where
  "get_managed_order_intent db intent_id = map_option read_intent (row_by_id ir_id intent_id (db_intents db))"

definition save_managed_order_intent :: "order_intent \<Rightarrow> order_db \<Rightarrow> order_db \<times> order_intent" where
  "save_managed_order_intent p db =
     (let db' = db\<lparr>db_intents := save_row ir_id ir_idempotency_key intent_overwrite intent_conflict intent_insert
                      mi_idempotency_key mi_id p (db_intents db)\<rparr>;
          by_id = (if mi_id p \<noteq> 0 then get_managed_order_intent db' (mi_id p) else None);
          found = (case by_id of Some x \<Rightarrow> Some x
                   | None \<Rightarrow> find_intent_by_idempotency db' (mi_idempotency_key p))
      in (db', case found of Some x \<Rightarrow> x | None \<Rightarrow> p))"

definition list_managed_order_intents ::
  "order_db \<Rightarrow> string \<Rightarrow> intent_status option \<Rightarrow> string \<Rightarrow> nat \<Rightarrow> nat \<Rightarrow> order_intent list" where
  "list_managed_order_intents db trade_date status code limit offset =
     map read_intent (page (\<lambda>r. (trade_date \<noteq> [] \<longrightarrow> ir_trade_date r = trade_date) \<and>
        (case status of None \<Rightarrow> True | Some st \<Rightarrow> ir_status r = st) \<and>
        (code \<noteq> [] \<longrightarrow> ir_code r = code_column code)) limit offset (db_intents db))"

section \<open>Orders\<close>

definition read_order :: "order_row \<Rightarrow> managed_order" where
  "read_order r = (let p = row_payload r in if mo_id p = 0 then p\<lparr>mo_id := row_id r\<rparr> else p)"

definition order_overwrite :: "managed_order \<Rightarrow> order_row \<Rightarrow> order_row" where
  "order_overwrite p r = r\<lparr>row_intent_id := mo_intent_id p, row_trade_date := mo_trade_date p,
     row_side := upper (mo_side p), row_code := code_column (mo_code p),
     row_account_masked := mask_account (mo_account p), row_status := mo_status p,
     row_command_id := mo_command_id p, row_order_no := mo_order_no p, row_payload := p\<rparr>"

definition order_conflict :: "managed_order \<Rightarrow> order_row \<Rightarrow> order_row" where
  "order_conflict p r = r\<lparr>row_status := mo_status p, row_command_id := mo_command_id p,
     row_order_no := mo_order_no p, row_payload := p\<rparr>"

definition order_insert :: "managed_order \<Rightarrow> int \<Rightarrow> order_row" where
  "order_insert p n = \<lparr>row_id = n, row_idempotency_key = mo_idempotency_key p, row_intent_id = mo_intent_id p,
     row_created_at = mo_created_at p, row_trade_date = mo_trade_date p, row_side = upper (mo_side p),
     row_code = code_column (mo_code p), row_account_masked = mask_account (mo_account p),
     row_status = mo_status p, row_command_id = mo_command_id p, row_order_no = mo_order_no p,
     row_payload = p\<rparr>"

definition get_managed_order :: "order_db \<Rightarrow> int \<Rightarrow> managed_order option" where
  "get_managed_order db order_id = map_option read_order (row_by_id row_id order_id (db_orders db))"

definition find_order_by_key :: "order_db \<Rightarrow> string \<Rightarrow> managed_order option" where
  "find_order_by_key db key = map_option read_order (newest (\<lambda>r. row_idempotency_key r = key) (db_orders db))"

definition save_managed_order :: "managed_order \<Rightarrow> order_db \<Rightarrow> order_db \<times> managed_order" where
  "save_managed_order p db =
     (let db' = db\<lparr>db_orders := save_row row_id row_idempotency_key order_overwrite order_conflict order_insert
                      mo_idempotency_key mo_id p (db_orders db)\<rparr>;
          by_id = (if mo_id p \<noteq> 0 then get_managed_order db' (mo_id p) else None);
          found = (case by_id of Some x \<Rightarrow> Some x | None \<Rightarrow> find_order_by_key db' (mo_idempotency_key p))
      in (db', case found of Some x \<Rightarrow> x | None \<Rightarrow> p))"

definition find_managed_order_by_command_id :: "order_db \<Rightarrow> string \<Rightarrow> managed_order option" where
  "find_managed_order_by_command_id db command_id =
     map_option read_order (newest (\<lambda>r. row_command_id r = command_id) (db_orders db))"

definition find_managed_order_by_order_no :: "order_db \<Rightarrow> string \<Rightarrow> managed_order option" where
  "find_managed_order_by_order_no db order_no =
     map_option read_order (newest (\<lambda>r. row_order_no r = order_no) (db_orders db))"

definition find_managed_order_by_intent_id :: "order_db \<Rightarrow> int \<Rightarrow> managed_order option" where
  "find_managed_order_by_intent_id db intent_id =
     map_option read_order (newest (\<lambda>r. row_intent_id r = intent_id) (db_orders db))"

definition active_statuses :: "order_status list" where
  "active_statuses = [PENDING_LOCAL, QUEUED_TO_GATEWAY, ACKED_BY_GATEWAY, order_status.PARTIALLY_FILLED, CANCEL_PENDING]"

definition find_active_managed_order_by_code :: "order_db \<Rightarrow> string \<Rightarrow> managed_order option" where
  "find_active_managed_order_by_code db code =
     map_option read_order
       (newest (\<lambda>r. row_code r = code_column code \<and> row_status r \<in> set active_statuses) (db_orders db))"

definition execution_statuses :: "order_status list" where
  "execution_statuses = [ACKED_BY_GATEWAY, order_status.PARTIALLY_FILLED, QUEUED_TO_GATEWAY]"

definition find_managed_order_for_execution ::
  "order_db \<Rightarrow> string \<Rightarrow> string \<Rightarrow> string \<Rightarrow> managed_order option" where
  "find_managed_order_for_execution db code side idempotency_key =
     (case (if idempotency_key \<noteq> [] then find_order_by_key db idempotency_key else None) of
        Some x \<Rightarrow> Some x
      | None \<Rightarrow>
          map_option read_order
            (newest (\<lambda>r. row_code r = code_column code \<and> (side \<noteq> [] \<longrightarrow> row_side r = upper side) \<and>
               row_status r \<in> set execution_statuses) (db_orders db)))"

definition list_managed_orders ::
  "order_db \<Rightarrow> string \<Rightarrow> order_status list \<Rightarrow> string \<Rightarrow> string \<Rightarrow> nat \<Rightarrow> nat \<Rightarrow> managed_order list" where
  "list_managed_orders db trade_date statuses code side limit offset =
     map read_order (page (\<lambda>r. (trade_date \<noteq> [] \<longrightarrow> row_trade_date r = trade_date) \<and>
        (statuses \<noteq> [] \<longrightarrow> row_status r \<in> set statuses) \<and>
        (code \<noteq> [] \<longrightarrow> row_code r = code_column code) \<and>
        (side \<noteq> [] \<longrightarrow> row_side r = upper side)) limit offset (db_orders db))"

section \<open>Events, decisions, kill switch states\<close>

definition append_managed_order_event :: "order_event \<Rightarrow> order_db \<Rightarrow> order_db" where
  "append_managed_order_event e db = db\<lparr>db_events := db_events db @ [e]\<rparr>"

definition list_managed_order_events :: "order_db \<Rightarrow> int option \<Rightarrow> int option \<Rightarrow> nat \<Rightarrow> order_event list" where
  "list_managed_order_events db order_id intent_id limit =
     take limit (filter (\<lambda>e. (case order_id of None \<Rightarrow> True | Some k \<Rightarrow> oe_order_id e = k) \<and>
       (case intent_id of None \<Rightarrow> True | Some k \<Rightarrow> oe_intent_id e = k)) (rev (db_events db)))"

definition save_order_risk_decision :: "risk_row \<Rightarrow> order_db \<Rightarrow> order_db" where
  "save_order_risk_decision r db = db\<lparr>db_risk_decisions := db_risk_decisions db @ [r]\<rparr>"

definition save_order_kill_switch_state :: "kill_row \<Rightarrow> order_db \<Rightarrow> order_db" where
  "save_order_kill_switch_state r db = db\<lparr>db_kill_states := db_kill_states db @ [r]\<rparr>"

definition latest_order_kill_switch_state :: "order_db \<Rightarrow> string \<Rightarrow> kill_row option" where
  "latest_order_kill_switch_state db trade_date =
     find (\<lambda>r. trade_date \<noteq> [] \<longrightarrow> kr_trade_date r = trade_date) (rev (db_kill_states db))"

text \<open>\<open>ORDER BY calculated_at DESC, id DESC LIMIT 1\<close>.\<close>

definition latest_portfolio_risk_snapshot :: "order_db \<Rightarrow> string \<Rightarrow> portfolio_row option" where
  "latest_portfolio_risk_snapshot db trade_date =
     (case sort_key pf_calculated_at (filter (\<lambda>r. trade_date \<noteq> [] \<longrightarrow> pf_trade_date r = trade_date) (db_portfolio db)) of
        [] \<Rightarrow> None
      | r # rs \<Rightarrow> Some (last (r # rs)))"

section \<open>Positions\<close>

definition position_conflict :: "position_row \<Rightarrow> position_row \<Rightarrow> position_row" where
  "position_conflict p r = r\<lparr>pr_closed_at := pr_closed_at p, pr_entry_qty := pr_entry_qty p,
     pr_entry_avg_price := pr_entry_avg_price p, pr_current_qty := pr_current_qty p,
     pr_realized_qty := pr_realized_qty p, pr_status := pr_status p, pr_theme_id := pr_theme_id p,
     pr_theme_name := pr_theme_name p, pr_last_order_id := pr_last_order_id p,
     pr_updated_at := pr_updated_at p\<rparr>"

definition position_insert :: "position_row \<Rightarrow> int \<Rightarrow> position_row" where
  "position_insert p n = p\<lparr>pr_id := n, pr_account_masked := mask_account (pr_account_masked p)\<rparr>"

definition save_live_sim_position :: "position_row \<Rightarrow> order_db \<Rightarrow> order_db" where
  "save_live_sim_position p db =
     db\<lparr>db_positions := save_row pr_id pr_position_id (\<lambda>p r. r) position_conflict position_insert
          pr_position_id (\<lambda>p. 0) p (db_positions db)\<rparr>"

definition get_live_sim_position :: "order_db \<Rightarrow> string \<Rightarrow> position_row option" where
  "get_live_sim_position db position_id =
     find (\<lambda>r. pr_position_id r = position_id) (t_rows (db_positions db))"

definition list_live_sim_positions :: "order_db \<Rightarrow> string \<Rightarrow> string \<Rightarrow> nat \<Rightarrow> nat \<Rightarrow> position_row list" where
  "list_live_sim_positions db status code limit offset =
     page (\<lambda>r. (status \<noteq> [] \<longrightarrow> pr_status r = status) \<and> (code \<noteq> [] \<longrightarrow> pr_code r = code))
       (if limit = 0 then 100 else limit) offset (db_positions db)"

section \<open>Summary\<close>

record order_summary =
  os_today_buy_order_count :: int
  os_today_sell_order_count :: int
  os_open_order_count :: int
  os_pending_cancel_count :: int
  os_rejected_order_count :: int
  os_last_order_at :: stamp
  os_last_reject_reason :: string
  os_risk_state :: string

definition rejected_order :: "managed_order \<Rightarrow> bool" where
  "rejected_order x \<longleftrightarrow> mo_status x \<in> {REJECTED_BY_GATEWAY, RECONCILE_REQUIRED}"

definition count_int :: "('a \<Rightarrow> bool) \<Rightarrow> 'a list \<Rightarrow> int" where
  "count_int P xs = int (length (filter P xs))"

definition reject_reason :: "managed_order \<Rightarrow> string" where
  "reject_reason x =
     (case dget (dict_or (mo_details x) ''risk'') ''reason_codes'' of
        PList (v # vs) \<Rightarrow> py_str v
      | _ \<Rightarrow> text_or (mo_details x) ''last_error'' [])"

definition managed_order_summary :: "order_db \<Rightarrow> string \<Rightarrow> order_summary" where
  "managed_order_summary db trade_date =
     (let orders = map read_order (filter (\<lambda>r. trade_date \<noteq> [] \<longrightarrow> row_trade_date r = trade_date) (t_rows (db_orders db)));
          rejected = filter rejected_order orders
      in \<lparr>os_today_buy_order_count = count_int (\<lambda>x. upper (mo_side x) = BUY) orders,
          os_today_sell_order_count = count_int (\<lambda>x. upper (mo_side x) = SELL) orders,
          os_open_order_count = count_int (\<lambda>x. mo_status x \<in> {QUEUED_TO_GATEWAY, ACKED_BY_GATEWAY, order_status.PARTIALLY_FILLED}) orders,
          os_pending_cancel_count = count_int (\<lambda>x. mo_status x = CANCEL_PENDING) orders,
          os_rejected_order_count = int (length rejected),
          os_last_order_at = (case orders of [] \<Rightarrow> Blank | _ \<Rightarrow> Max (set (map mo_created_at orders))),
          os_last_reject_reason = (case rejected of [] \<Rightarrow> [] | x # _ \<Rightarrow> reject_reason x),
          os_risk_state = (if rejected = [] then ''READY'' else ''BLOCKING'')\<rparr>)"

section \<open>The tables as maps\<close>

interpretation intents: payload_schema ir_id ir_idempotency_key intent_overwrite intent_conflict intent_insert
    mi_idempotency_key mi_id ir_payload "\<lambda>n p. p\<lparr>mi_id := n\<rparr>" read_intent
  by unfold_locales (simp_all add: intent_overwrite_def intent_conflict_def intent_insert_def read_intent_def Let_def)

interpretation orders: payload_schema row_id row_idempotency_key order_overwrite order_conflict order_insert
    mo_idempotency_key mo_id row_payload "\<lambda>n p. p\<lparr>mo_id := n\<rparr>" read_order
  by unfold_locales (simp_all add: order_overwrite_def order_conflict_def order_insert_def read_order_def Let_def)

interpretation positions: row_schema pr_id pr_position_id "\<lambda>p r. r" position_conflict position_insert
    pr_position_id "\<lambda>p. 0"
  by unfold_locales (simp_all add: position_conflict_def position_insert_def)

text \<open>The columns that queries select on agree with the payload of the row.\<close>

definition order_columns_ok :: "order_row \<Rightarrow> bool" where
  "order_columns_ok r \<longleftrightarrow> row_status r = mo_status (row_payload r) \<and>
     row_command_id r = mo_command_id (row_payload r) \<and> row_order_no r = mo_order_no (row_payload r)"

definition db_ok :: "order_db \<Rightarrow> bool" where
  "db_ok db \<longleftrightarrow>
     rows_ok row_id row_idempotency_key mo_idempotency_key mo_id row_payload (db_orders db) \<and>
     (\<forall>r\<in>set (t_rows (db_orders db)). order_columns_ok r) \<and>
     rows_ok ir_id ir_idempotency_key mi_idempotency_key mi_id ir_payload (db_intents db) \<and>
     table_ok pr_id pr_position_id (db_positions db)"

lemma db_ok_empty [simp]: "db_ok empty_db"
  by (simp add: db_ok_def empty_db_def) (simp add: empty_table_def)

lemma db_ok_frame [simp]:
  "db_ok (append_managed_order_event e db) = db_ok db"
  "db_ok (save_order_risk_decision rr db) = db_ok db"
  "db_ok (save_order_kill_switch_state kr db) = db_ok db"
  by (simp_all add: db_ok_def append_managed_order_event_def save_order_risk_decision_def
      save_order_kill_switch_state_def)

lemma db_ok_position [simp]: "db_ok db \<Longrightarrow> db_ok (save_live_sim_position p db)"
  by (simp add: db_ok_def save_live_sim_position_def positions.save_ok)

lemmas store_defs = append_managed_order_event_def save_order_risk_decision_def
  save_order_kill_switch_state_def save_live_sim_position_def

text \<open>Each table changes only by its own operation.\<close>

lemma get_order_frame [simp]:
  "get_managed_order (append_managed_order_event e db) = get_managed_order db"
  "get_managed_order (save_order_risk_decision rr db) = get_managed_order db"
  "get_managed_order (save_order_kill_switch_state kr db) = get_managed_order db"
  "get_managed_order (save_live_sim_position p db) = get_managed_order db"
  "get_managed_order (fst (save_managed_order_intent q db)) = get_managed_order db"
  by (simp_all add: fun_eq_iff get_managed_order_def store_defs save_managed_order_intent_def Let_def)

lemma get_intent_frame [simp]:
  "get_managed_order_intent (append_managed_order_event e db) = get_managed_order_intent db"
  "get_managed_order_intent (save_order_risk_decision rr db) = get_managed_order_intent db"
  "get_managed_order_intent (save_order_kill_switch_state kr db) = get_managed_order_intent db"
  "get_managed_order_intent (save_live_sim_position pr db) = get_managed_order_intent db"
  "get_managed_order_intent (fst (save_managed_order p db)) = get_managed_order_intent db"
  by (simp_all add: fun_eq_iff get_managed_order_intent_def store_defs save_managed_order_def Let_def)

lemma get_order_id: "db_ok db \<Longrightarrow> get_managed_order db k = Some x \<Longrightarrow> mo_id x = k \<and> 1 \<le> k"
  by (auto simp: get_managed_order_def db_ok_def dest: orders.get_row_id)

lemma get_intent_id: "db_ok db \<Longrightarrow> get_managed_order_intent db k = Some x \<Longrightarrow> mi_id x = k \<and> 1 \<le> k"
  by (auto simp: get_managed_order_intent_def db_ok_def dest: intents.get_row_id)

lemma get_order_none: "db_ok db \<Longrightarrow> get_managed_order db 0 = None"
  using get_order_id [of db 0] by (cases "get_managed_order db 0") force+

text \<open>An update that keeps the id and the idempotency key.\<close>

definition same_order :: "managed_order \<Rightarrow> managed_order \<Rightarrow> bool" where
  "same_order x y \<longleftrightarrow> mo_id y = mo_id x \<and> mo_idempotency_key y = mo_idempotency_key x"

definition same_intent :: "order_intent \<Rightarrow> order_intent \<Rightarrow> bool" where
  "same_intent x y \<longleftrightarrow> mi_id y = mi_id x \<and> mi_idempotency_key y = mi_idempotency_key x"

lemma save_order_tables [simp]:
  "db_intents (fst (save_managed_order p db)) = db_intents db"
  "db_positions (fst (save_managed_order p db)) = db_positions db"
  "db_kill_states (fst (save_managed_order p db)) = db_kill_states db"
  "db_events (fst (save_managed_order p db)) = db_events db"
  "db_portfolio (fst (save_managed_order p db)) = db_portfolio db"
  by (simp_all add: save_managed_order_def Let_def)

lemma save_intent_tables [simp]:
  "db_orders (fst (save_managed_order_intent p db)) = db_orders db"
  "db_positions (fst (save_managed_order_intent p db)) = db_positions db"
  "db_kill_states (fst (save_managed_order_intent p db)) = db_kill_states db"
  "db_events (fst (save_managed_order_intent p db)) = db_events db"
  "db_portfolio (fst (save_managed_order_intent p db)) = db_portfolio db"
  by (simp_all add: save_managed_order_intent_def Let_def)

lemma orders_after_save:
  "db_orders (fst (save_managed_order p db)) =
     save_row row_id row_idempotency_key order_overwrite order_conflict order_insert
       mo_idempotency_key mo_id p (db_orders db)"
  by (simp add: save_managed_order_def Let_def)

lemma intents_after_save:
  "db_intents (fst (save_managed_order_intent p db)) =
     save_row ir_id ir_idempotency_key intent_overwrite intent_conflict intent_insert
       mi_idempotency_key mi_id p (db_intents db)"
  by (simp add: save_managed_order_intent_def Let_def)

lemma columns_update:
  assumes "\<forall>r\<in>set (t_rows t). order_columns_ok r" "\<And>r. order_columns_ok (f r)"
  shows "\<forall>r\<in>set (t_rows (update_rows P f t)). order_columns_ok r"
  using assms by (intro update_rows_all) simp

lemma columns_written [simp]:
  "order_columns_ok (order_overwrite p r)" "order_columns_ok (order_conflict p r)" "order_columns_ok (order_insert p n)"
  by (simp_all add: order_columns_ok_def order_overwrite_def order_conflict_def order_insert_def)

lemma save_order_columns:
  assumes "\<forall>r\<in>set (t_rows (db_orders db)). order_columns_ok r"
  shows "\<forall>r\<in>set (t_rows (db_orders (fst (save_managed_order p db)))). order_columns_ok r"
  using columns_update [OF assms, of "order_overwrite p"] columns_update [OF assms, of "order_conflict p"] assms
  by (simp add: orders_after_save save_row_def) (simp add: insert_row_def)

lemma save_order_update:
  assumes "db_ok db" "get_managed_order db k = Some x" "same_order x y"
  shows "snd (save_managed_order y db) = y"
    and "get_managed_order (fst (save_managed_order y db)) = (get_managed_order db)(k \<mapsto> y)"
    and "db_ok (fst (save_managed_order y db))"
    and "length (t_rows (db_orders (fst (save_managed_order y db)))) = length (t_rows (db_orders db))"
proof -
  have x: "map_option read_order (row_by_id row_id k (db_orders db)) = Some x"
    and ok: "rows_ok row_id row_idempotency_key mo_idempotency_key mo_id row_payload (db_orders db)"
    and y: "mo_id y = mo_id x" "mo_idempotency_key y = mo_idempotency_key x"
    using assms by (auto simp: get_managed_order_def db_ok_def same_order_def)
  note upd = orders.save_update [OF ok x y]
  show get: "get_managed_order (fst (save_managed_order y db)) = (get_managed_order db)(k \<mapsto> y)"
    by (simp add: fun_eq_iff get_managed_order_def orders_after_save upd(1))
  have "mo_id y = k" "k \<noteq> 0" using get_order_id [OF assms(1,2)] y by auto
  with get show "snd (save_managed_order y db) = y"
    by (simp add: save_managed_order_def Let_def)
  show "db_ok (fst (save_managed_order y db))"
    using assms(1) save_order_columns [of db y] upd(2) by (simp add: db_ok_def orders_after_save)
  show "length (t_rows (db_orders (fst (save_managed_order y db)))) = length (t_rows (db_orders db))"
    using \<open>mo_id y = k\<close> \<open>k \<noteq> 0\<close> by (simp add: orders_after_save orders.save_length)
qed

lemma save_intent_update:
  assumes "db_ok db" "get_managed_order_intent db k = Some x" "same_intent x y"
  shows "snd (save_managed_order_intent y db) = y"
    and "get_managed_order_intent (fst (save_managed_order_intent y db)) = (get_managed_order_intent db)(k \<mapsto> y)"
    and "db_ok (fst (save_managed_order_intent y db))"
proof -
  have x: "map_option read_intent (row_by_id ir_id k (db_intents db)) = Some x"
    and ok: "rows_ok ir_id ir_idempotency_key mi_idempotency_key mi_id ir_payload (db_intents db)"
    and y: "mi_id y = mi_id x" "mi_idempotency_key y = mi_idempotency_key x"
    using assms by (auto simp: get_managed_order_intent_def db_ok_def same_intent_def)
  note upd = intents.save_update [OF ok x y]
  show get: "get_managed_order_intent (fst (save_managed_order_intent y db)) = (get_managed_order_intent db)(k \<mapsto> y)"
    by (simp add: fun_eq_iff get_managed_order_intent_def intents_after_save upd(1))
  have "mi_id y = k" "k \<noteq> 0" using get_intent_id [OF assms(1,2)] y by auto
  with get show "snd (save_managed_order_intent y db) = y"
    by (simp add: save_managed_order_intent_def Let_def)
  show "db_ok (fst (save_managed_order_intent y db))"
    using assms(1) upd(2) by (simp add: db_ok_def intents_after_save)
qed

text \<open>The query by idempotency key finds exactly the row of that key.\<close>

lemma find_order_key:
  assumes "db_ok db"
  shows "find_order_by_key db key = Some x \<longleftrightarrow>
     (\<exists>r\<in>set (t_rows (db_orders db)). row_idempotency_key r = key \<and> x = read_order r)"
proof -
  have "rows_ok row_id row_idempotency_key mo_idempotency_key mo_id row_payload (db_orders db)"
    using assms by (simp add: db_ok_def)
  from row_by_key [OF this] show ?thesis
    by (auto simp: find_order_by_key_def newest_def)
qed

lemma find_intent_none:
  "find_intent_by_idempotency db key = None \<longleftrightarrow> (\<forall>r\<in>set (t_rows (db_intents db)). ir_idempotency_key r \<noteq> key)"
  by (auto simp: find_intent_by_idempotency_def find_None_iff)

lemma save_order_new:
  assumes "db_ok db" "mo_id p = 0" "find_order_by_key db (mo_idempotency_key p) = None"
  defines "n \<equiv> t_next (db_orders db)"
  shows "snd (save_managed_order p db) = p\<lparr>mo_id := n\<rparr>"
    and "get_managed_order (fst (save_managed_order p db)) = (get_managed_order db)(n \<mapsto> p\<lparr>mo_id := n\<rparr>)"
    and "get_managed_order db n = None" and "1 \<le> n"
    and "db_ok (fst (save_managed_order p db))"
proof -
  have new: "\<forall>r\<in>set (t_rows (db_orders db)). row_idempotency_key r \<noteq> mo_idempotency_key p"
    using assms(3) find_order_key [OF assms(1), of "mo_idempotency_key p"] by fastforce
  have ok: "rows_ok row_id row_idempotency_key mo_idempotency_key mo_id row_payload (db_orders db)"
    using assms(1) by (simp add: db_ok_def)
  note f = orders.save_fresh [OF ok assms(2) new, folded n_def orders_after_save]
  show "get_managed_order (fst (save_managed_order p db)) = (get_managed_order db)(n \<mapsto> p\<lparr>mo_id := n\<rparr>)"
    by (simp add: fun_eq_iff get_managed_order_def f(1))
  show "get_managed_order db n = None" using f(2) by (simp add: get_managed_order_def)
  show "1 \<le> n" by (rule f(3))
  show "db_ok (fst (save_managed_order p db))"
    using assms(1) save_order_columns [of db p] f(4) by (simp add: db_ok_def)
  have "find_order_by_key (fst (save_managed_order p db)) (mo_idempotency_key p) = Some (p\<lparr>mo_id := n\<rparr>)"
    using f(6,7) by (simp add: find_order_by_key_def newest_def)
  then show "snd (save_managed_order p db) = p\<lparr>mo_id := n\<rparr>"
    using assms(2) by (simp add: save_managed_order_def Let_def)
qed

lemma save_intent_new:
  assumes "db_ok db" "mi_id p = 0" "find_intent_by_idempotency db (mi_idempotency_key p) = None"
  defines "n \<equiv> t_next (db_intents db)"
  shows "snd (save_managed_order_intent p db) = p\<lparr>mi_id := n\<rparr>"
    and "get_managed_order_intent (fst (save_managed_order_intent p db)) =
           (get_managed_order_intent db)(n \<mapsto> p\<lparr>mi_id := n\<rparr>)"
    and "1 \<le> n"
    and "db_ok (fst (save_managed_order_intent p db))"
proof -
  have new: "\<forall>r\<in>set (t_rows (db_intents db)). ir_idempotency_key r \<noteq> mi_idempotency_key p"
    using assms(3) by (simp add: find_intent_none)
  have ok: "rows_ok ir_id ir_idempotency_key mi_idempotency_key mi_id ir_payload (db_intents db)"
    using assms(1) by (simp add: db_ok_def)
  note f = intents.save_fresh [OF ok assms(2) new, folded n_def intents_after_save]
  show "get_managed_order_intent (fst (save_managed_order_intent p db)) =
      (get_managed_order_intent db)(n \<mapsto> p\<lparr>mi_id := n\<rparr>)"
    by (simp add: fun_eq_iff get_managed_order_intent_def f(1))
  show "1 \<le> n" by (rule f(3))
  show "db_ok (fst (save_managed_order_intent p db))" using assms(1) f(4) by (simp add: db_ok_def)
  have "t_rows (db_intents (fst (save_managed_order_intent p db))) = t_rows (db_intents db) @ [intent_insert p n]"
    by (simp add: f(5) insert_row_def n_def)
  then have "find_intent_by_idempotency (fst (save_managed_order_intent p db)) (mi_idempotency_key p) = Some (p\<lparr>mi_id := n\<rparr>)"
    using new f(7) by (simp add: find_intent_by_idempotency_def find_append find_None_iff [THEN iffD2]
        intents.key_mk split: option.split)
  then show "snd (save_managed_order_intent p db) = p\<lparr>mi_id := n\<rparr>"
    using assms(2) by (simp add: save_managed_order_intent_def Let_def)
qed

lemma save_order_again:
  assumes "db_ok db" "mo_id p = 0" "find_order_by_key db (mo_idempotency_key p) = Some x"
  shows "snd (save_managed_order p db) = p\<lparr>mo_id := mo_id x\<rparr>"
    and "get_managed_order (fst (save_managed_order p db)) = (get_managed_order db)(mo_id x \<mapsto> p\<lparr>mo_id := mo_id x\<rparr>)"
    and "db_ok (fst (save_managed_order p db))"
    and "length (t_rows (db_orders (fst (save_managed_order p db)))) = length (t_rows (db_orders db))"
proof -
  have ok: "rows_ok row_id row_idempotency_key mo_idempotency_key mo_id row_payload (db_orders db)"
    using assms(1) by (simp add: db_ok_def)
  obtain r where r: "r \<in> set (t_rows (db_orders db))" "row_idempotency_key r = mo_idempotency_key p" "x = read_order r"
    using assms(3) find_order_key [OF assms(1)] by blast
  have x: "mo_id x = row_id r" using ok r by (simp add: rows_ok_def orders.read_pid)
  note a = orders.save_again [OF ok assms(2) r(1,2), folded orders_after_save]
  show "get_managed_order (fst (save_managed_order p db)) = (get_managed_order db)(mo_id x \<mapsto> p\<lparr>mo_id := mo_id x\<rparr>)"
    by (simp add: fun_eq_iff get_managed_order_def a(1) x)
  show "db_ok (fst (save_managed_order p db))"
    using assms(1) save_order_columns [of db p] a(2) by (simp add: db_ok_def)
  show "length (t_rows (db_orders (fst (save_managed_order p db)))) = length (t_rows (db_orders db))"
    by (simp add: a(5) update_rows_def)
  have "find_order_by_key (fst (save_managed_order p db)) (mo_idempotency_key p) = Some (p\<lparr>mo_id := mo_id x\<rparr>)"
    using a(3,4) x by (simp add: find_order_by_key_def newest_def)
  then show "snd (save_managed_order p db) = p\<lparr>mo_id := mo_id x\<rparr>"
    using assms(2) by (simp add: save_managed_order_def Let_def)
qed

text \<open>The queries return stored orders, and those by command or order number the newest match.\<close>

lemma newest_order:
  assumes "db_ok db" "map_option read_order (newest P (db_orders db)) = Some x"
  shows "get_managed_order db (mo_id x) = Some x \<and> (\<exists>r. P r \<and> order_columns_ok r \<and> x = read_order r)"
proof -
  have "rows_ok row_id row_idempotency_key mo_idempotency_key mo_id row_payload (db_orders db)"
    using assms(1) by (simp add: db_ok_def)
  from orders.newest_stored [OF this assms(2)] obtain r where r: "P r" "x = read_order r"
      "r \<in> set (t_rows (db_orders db))" "map_option read_order (row_by_id row_id (mo_id x) (db_orders db)) = Some x"
    by blast
  with assms(1) have "order_columns_ok r" by (simp add: db_ok_def)
  with r show ?thesis by (auto simp: get_managed_order_def)
qed

lemma read_order_fields [simp]:
  "mo_status (read_order r) = mo_status (row_payload r)" "mo_command_id (read_order r) = mo_command_id (row_payload r)"
  "mo_order_no (read_order r) = mo_order_no (row_payload r)"
  "mo_idempotency_key (read_order r) = mo_idempotency_key (row_payload r)"
  by (auto simp: read_order_def Let_def)

lemma find_order_stored:
  assumes "db_ok db"
  shows "find_managed_order_by_command_id db c = Some x \<Longrightarrow> get_managed_order db (mo_id x) = Some x \<and> mo_command_id x = c"
    and "find_managed_order_by_order_no db n = Some x \<Longrightarrow> get_managed_order db (mo_id x) = Some x \<and> mo_order_no x = n"
    and "find_order_by_key db k = Some x \<Longrightarrow> get_managed_order db (mo_id x) = Some x"
    and "find_active_managed_order_by_code db co = Some x \<Longrightarrow>
           get_managed_order db (mo_id x) = Some x \<and> mo_status x \<in> set active_statuses"
  using assms
  by (auto simp: find_managed_order_by_command_id_def find_managed_order_by_order_no_def find_order_by_key_def
      find_active_managed_order_by_code_def order_columns_ok_def dest!: newest_order)

lemma find_execution_stored:
  assumes "db_ok db" "find_managed_order_for_execution db code side key = Some x"
  shows "get_managed_order db (mo_id x) = Some x \<and> (key = [] \<longrightarrow> mo_status x \<in> set execution_statuses)"
proof (cases "if key \<noteq> [] then find_order_by_key db key else None")
  case None
  with assms(2) have "map_option read_order
      (newest (\<lambda>r. row_code r = code_column code \<and> (side \<noteq> [] \<longrightarrow> row_side r = upper side) \<and>
         row_status r \<in> set execution_statuses) (db_orders db)) = Some x"
    by (simp add: find_managed_order_for_execution_def)
  from newest_order [OF assms(1) this] show ?thesis by (auto simp: order_columns_ok_def)
next
  case (Some y)
  with assms(2) have "y = x" "key \<noteq> []" "find_order_by_key db key = Some x"
    by (auto simp: find_managed_order_for_execution_def split: if_splits)
  with find_order_stored(3) [OF assms(1)] show ?thesis by blast
qed

lemma get_order_row:
  "db_ok db \<Longrightarrow> get_managed_order db k = Some x \<longleftrightarrow>
     (\<exists>r\<in>set (t_rows (db_orders db)). row_id r = k \<and> x = read_order r)"
  unfolding get_managed_order_def db_ok_def using orders.get_row by blast

lemma find_order_get:
  "db_ok db \<Longrightarrow> find_order_by_key db key = Some x \<longleftrightarrow>
     get_managed_order db (mo_id x) = Some x \<and> mo_idempotency_key x = key"
  by (auto simp: find_order_key get_order_row db_ok_def rows_ok_def row_consistent_def orders.read_pid)

definition storable_order :: "order_db \<Rightarrow> managed_order \<Rightarrow> bool" where
  "storable_order db p \<longleftrightarrow> mo_id p = 0 \<or>
     (\<exists>x. get_managed_order db (mo_id p) = Some x \<and> mo_idempotency_key x = mo_idempotency_key p)"

lemma save_order_cases:
  assumes "db_ok db" "storable_order db p"
  obtains k where "1 \<le> k" "snd (save_managed_order p db) = p\<lparr>mo_id := k\<rparr>"
    "get_managed_order (fst (save_managed_order p db)) = (get_managed_order db)(k \<mapsto> p\<lparr>mo_id := k\<rparr>)"
    "db_ok (fst (save_managed_order p db))" "mo_id p \<noteq> 0 \<Longrightarrow> k = mo_id p"
    "get_managed_order db k = None \<or> (\<exists>x. get_managed_order db k = Some x \<and> mo_idempotency_key x = mo_idempotency_key p)"
proof (cases "mo_id p = 0")
  case False
  then obtain x where x: "get_managed_order db (mo_id p) = Some x" "mo_idempotency_key x = mo_idempotency_key p"
    using assms(2) by (auto simp: storable_order_def)
  have "same_order x p" using get_order_id [OF assms(1) x(1)] x(2) by (simp add: same_order_def)
  note u = save_order_update [OF assms(1) x(1) this]
  show ?thesis
    using u x get_order_id [OF assms(1) x(1)] by (intro that [of "mo_id p"]) auto
next
  case True
  show ?thesis
  proof (cases "find_order_by_key db (mo_idempotency_key p)")
    case None
    note n = save_order_new [OF assms(1) True None]
    show ?thesis using True n by (intro that [of "t_next (db_orders db)"]) auto
  next
    case (Some x)
    note a = save_order_again [OF assms(1) True Some]
    have "get_managed_order db (mo_id x) = Some x" "mo_idempotency_key x = mo_idempotency_key p"
      using Some unfolding find_order_get [OF assms(1)] by simp_all
    moreover from get_order_id [OF assms(1) this(1)] have "1 \<le> mo_id x" by simp
    ultimately show ?thesis using a True by (intro that [of "mo_id x"]) auto
  qed
qed

lemma save_order_ok: "db_ok db \<Longrightarrow> storable_order db p \<Longrightarrow> db_ok (fst (save_managed_order p db))"
  by (rule save_order_cases)

text \<open>C5: The order table is a map from ids to orders with an index by idempotency key. Saving an order,
  new or read before, binds exactly one id, fills that id into what it returns, leaves every other
  order alone, and afterwards the key finds the saved order while every other key finds what it
  found before.\<close>
theorem order_table_refines_map:
  assumes "db_ok db" "storable_order db p"
    and "db' = fst (save_managed_order p db)" "r = snd (save_managed_order p db)"
  shows "r = p\<lparr>mo_id := mo_id r\<rparr> \<and> 1 \<le> mo_id r \<and> (mo_id p \<noteq> 0 \<longrightarrow> mo_id r = mo_id p) \<and>
     get_managed_order db' = (get_managed_order db)(mo_id r \<mapsto> r) \<and>
     find_order_by_key db' = (find_order_by_key db)(mo_idempotency_key p \<mapsto> r) \<and> db_ok db'"
proof -
  obtain k where k: "1 \<le> k" "r = p\<lparr>mo_id := k\<rparr>" "get_managed_order db' = (get_managed_order db)(k \<mapsto> p\<lparr>mo_id := k\<rparr>)"
    "db_ok db'" "mo_id p \<noteq> 0 \<Longrightarrow> k = mo_id p"
    "get_managed_order db k = None \<or> (\<exists>x. get_managed_order db k = Some x \<and> mo_idempotency_key x = mo_idempotency_key p)"
    using save_order_cases [OF assms(1,2)] assms(3,4) by metis
  have "find_order_by_key db' key = (if key = mo_idempotency_key p then Some r else find_order_by_key db key)" for key
  proof (cases "key = mo_idempotency_key p")
    case True
    have "find_order_by_key db' (mo_idempotency_key p) = Some r"
      unfolding find_order_get [OF k(4)] using k(2,3) by simp
    with True show ?thesis by simp
  next
    case False
    have "find_order_by_key db' key = Some x \<longleftrightarrow> find_order_by_key db key = Some x" for x
    proof (cases "mo_id x = k")
      case True
      define q where "q = p\<lparr>mo_id := k\<rparr>"
      have "mo_idempotency_key q \<noteq> key" using False by (simp add: q_def)
      then have "\<not> (((get_managed_order db)(k \<mapsto> q)) (mo_id x) = Some x \<and> mo_idempotency_key x = key)"
        using True by auto
      moreover have "\<not> (get_managed_order db (mo_id x) = Some x \<and> mo_idempotency_key x = key)"
        using True False k(6) by auto
      ultimately show ?thesis
        unfolding find_order_get [OF k(4)] find_order_get [OF assms(1)] k(3) q_def by blast
    next
      case neq: False
      then show ?thesis unfolding find_order_get [OF k(4)] find_order_get [OF assms(1)] k(3) by simp
    qed
    with False show ?thesis by (metis not_None_eq)
  qed
  then have "find_order_by_key db' = (find_order_by_key db)(mo_idempotency_key p \<mapsto> r)" by (simp add: fun_eq_iff)
  with k show ?thesis by auto
qed

text \<open>A saved position is found under its id; the columns of an existing one are updated.\<close>

lemma position_after_save:
  "get_live_sim_position (save_live_sim_position p db) k =
     (if k = pr_position_id p then
        Some (case get_live_sim_position db k of
                Some r \<Rightarrow> position_conflict p r
              | None \<Rightarrow> position_insert p (t_next (db_positions db)))
      else get_live_sim_position db k)"
proof (cases "get_live_sim_position db (pr_position_id p)")
  case None
  then have "\<forall>r\<in>set (t_rows (db_positions db)). pr_position_id r \<noteq> pr_position_id p"
    by (auto simp: get_live_sim_position_def find_None_iff)
  then have "t_rows (db_positions (save_live_sim_position p db)) =
      t_rows (db_positions db) @ [position_insert p (t_next (db_positions db))]"
    by (auto simp: save_live_sim_position_def save_row_def insert_row_def)
  with None show ?thesis
    by (auto simp: get_live_sim_position_def find_append positions.key_mk split: option.splits)
next
  case (Some r)
  then have "r \<in> set (t_rows (db_positions db))" "pr_position_id r = pr_position_id p"
    by (auto simp: get_live_sim_position_def dest: findSomeD)
  then have rows: "db_positions (save_live_sim_position p db) =
      update_rows (\<lambda>r. pr_position_id r = pr_position_id p) (position_conflict p) (db_positions db)"
    by (auto simp: save_live_sim_position_def save_row_def)
  have "get_live_sim_position (save_live_sim_position p db) k =
      map_option (\<lambda>r. if pr_position_id r = pr_position_id p then position_conflict p r else r) (get_live_sim_position db k)"
    by (simp add: get_live_sim_position_def rows update_rows_def find_map_if positions.key_conflict)
  with Some show ?thesis
    by (cases "get_live_sim_position db k") (auto simp: get_live_sim_position_def dest: findSomeD)
qed

definition sample_order_row :: managed_order where
  "sample_order_row = \<lparr>mo_id = 0, mo_intent_id = 1, mo_trade_date = ''2024-03-04'', mo_side = BUY, mo_code = ''005930'',
     mo_quantity = 10, mo_price = 70000, mo_idempotency_key = ''k1'', mo_created_at = At 0, mo_account = ''81001122'',
     mo_hoga = ''00'', mo_status = PENDING_LOCAL, mo_source = REBOOT_ENTRY_ENGINE, mo_candidate_id = 4,
     mo_position_id = [], mo_command_id = [], mo_order_no = [], mo_original_order_no = [],
     mo_filled_quantity = 0, mo_remaining_quantity = 10, mo_avg_fill_price = 0, mo_sent_at = Blank,
     mo_acked_at = Blank, mo_updated_at = Blank, mo_cancel_after_sec = 45, mo_details = []\<rparr>"

definition sample_db :: order_db where
  "sample_db = fst (save_managed_order sample_order_row empty_db)"

lemma sample_db_ok: "db_ok sample_db"
  using save_order_cases [OF db_ok_empty, of sample_order_row]
  by (metis sample_db_def storable_order_def sample_order_row_def managed_order.select_convs(1))

lemma sample_db_get: "get_managed_order sample_db 1 = Some (sample_order_row\<lparr>mo_id := 1\<rparr>)"
  by code_simp

theorem order_table_refines_map_witness:
  "find_order_by_key (fst (save_managed_order (sample_order_row\<lparr>mo_id := 1, mo_status := QUEUED_TO_GATEWAY\<rparr>) sample_db)) ''k1''
     = Some (sample_order_row\<lparr>mo_id := 1, mo_status := QUEUED_TO_GATEWAY\<rparr>) \<and>
   find_order_by_key (fst (save_managed_order (sample_order_row\<lparr>mo_id := 1, mo_status := QUEUED_TO_GATEWAY\<rparr>) sample_db)) ''k2'' = None"
proof -
  let ?p = "sample_order_row\<lparr>mo_id := 1, mo_status := QUEUED_TO_GATEWAY\<rparr>"
  have "storable_order sample_db ?p" using sample_db_get by (simp add: storable_order_def)
  from order_table_refines_map [OF sample_db_ok this refl refl]
  have "find_order_by_key (fst (save_managed_order ?p sample_db))
      = (find_order_by_key sample_db)(mo_idempotency_key ?p \<mapsto> snd (save_managed_order ?p sample_db))" by blast
  moreover have "mo_idempotency_key ?p = ''k1''" "snd (save_managed_order ?p sample_db) = ?p"
    "find_order_by_key sample_db ''k2'' = None" by code_simp+
  ultimately show ?thesis by simp
qed

end
