(* ===== verification/Kill_Switch.thy ===== *)
theory Kill_Switch
  imports Order_Store
begin

text \<open>
  The kill switch of the order manager (\<open>trading/strategy/kill_switch.py\<close>): every evaluation reads
  the latest state and the latest portfolio risk snapshot of the trade date and appends a new state.
\<close>

definition latest_state :: "order_db \<Rightarrow> string \<Rightarrow> kill_row" where
  "latest_state db trade_date =
     (case latest_order_kill_switch_state db trade_date of
        Some r \<Rightarrow> r
      | None \<Rightarrow> \<lparr>kr_trade_date = trade_date, kr_state = NORMAL_TRADING, kr_reason_codes = [], kr_manual_active = False,
                kr_consecutive_loss_count = 0, kr_daily_realized_pnl_pct = 0, kr_daily_realized_pnl_krw = 0,
                kr_updated_at = Blank\<rparr>)"

text \<open>The fields of the portfolio snapshot, zero or false when there is none.\<close>

definition daily_pct :: "portfolio_row option \<Rightarrow> rat" where
  "daily_pct p = (case p of None \<Rightarrow> 0 | Some r \<Rightarrow> pf_daily_realized_pnl_pct r)"

definition details_krw :: "portfolio_row option \<Rightarrow> rat" where
  "details_krw p = (case p of None \<Rightarrow> 0 | Some r \<Rightarrow> pf_details_daily_realized_pnl_krw r)"

definition daily_krw :: "portfolio_row option \<Rightarrow> rat" where
  "daily_krw p = (case p of None \<Rightarrow> 0
     | Some r \<Rightarrow> if pf_details_daily_realized_pnl_krw r \<noteq> 0 then pf_details_daily_realized_pnl_krw r
                else pf_details_daily_realized_pnl r)"

definition kill_recommended :: "portfolio_row option \<Rightarrow> bool" where
  "kill_recommended p = (case p of None \<Rightarrow> False | Some r \<Rightarrow> pf_kill_switch_recommended r)"

definition stop_recommended :: "portfolio_row option \<Rightarrow> bool" where
  "stop_recommended p = (case p of None \<Rightarrow> False | Some r \<Rightarrow> pf_stop_new_entry_recommended r)"

text \<open>The branches of \<open>evaluate\<close>, each a step on the state and the reasons collected so far.\<close>

definition portfolio_step :: "portfolio_row option \<Rightarrow> kill_state \<times> string list \<Rightarrow> kill_state \<times> string list" where
  "portfolio_step p sr =
     (if kill_recommended p then (KILL_SWITCH_ACTIVE, snd sr @ [''POSITION_RISK_KILL_SWITCH_RECOMMENDED''])
      else if stop_recommended p then (STOP_NEW_BUY, snd sr @ [''POSITION_RISK_STOP_NEW_ENTRY''])
      else sr)"

definition pct_step :: "order_config \<Rightarrow> portfolio_row option \<Rightarrow> kill_state \<times> string list \<Rightarrow> kill_state \<times> string list" where
  "pct_step cfg p sr =
     (if daily_pct p \<le> cfg_daily_loss_limit_pct cfg then (KILL_SWITCH_ACTIVE, snd sr @ [''DAILY_LOSS_LIMIT_PCT'']) else sr)"

definition krw_step :: "order_config \<Rightarrow> portfolio_row option \<Rightarrow> kill_state \<times> string list \<Rightarrow> kill_state \<times> string list" where
  "krw_step cfg p sr =
     (if daily_krw p \<le> - \<bar>of_int (cfg_daily_loss_limit_krw cfg)\<bar>
      then (KILL_SWITCH_ACTIVE, snd sr @ [''DAILY_LOSS_LIMIT_KRW'']) else sr)"

definition losses_step :: "order_config \<Rightarrow> kill_row \<Rightarrow> kill_state \<times> string list \<Rightarrow> kill_state \<times> string list" where
  "losses_step cfg previous sr =
     (if cfg_consecutive_loss_limit cfg \<le> kr_consecutive_loss_count previous
      then (REDUCE_ONLY, snd sr @ [''CONSECUTIVE_LOSS_LIMIT'']) else sr)"

definition next_state :: "order_config \<Rightarrow> kill_row \<Rightarrow> portfolio_row option \<Rightarrow> kill_state \<times> string list" where
  "next_state cfg previous p =
     (if \<not> cfg_kill_switch_enabled cfg then (NORMAL_TRADING, [''KILL_SWITCH_DISABLED''])
      else if kr_manual_active previous \<or> kr_state previous = KILL_SWITCH_ACTIVE \<and> kr_manual_active previous then
        (KILL_SWITCH_ACTIVE, [''MANUAL_KILL_SWITCH_ACTIVE''])
      else losses_step cfg previous (krw_step cfg p (pct_step cfg p (portfolio_step p (NORMAL_TRADING, [])))))"

definition evaluate_kill_switch :: "order_config \<Rightarrow> order_db \<Rightarrow> string \<Rightarrow> time \<Rightarrow> order_db \<times> kill_row" where
  "evaluate_kill_switch cfg db trade_date now =
     (let previous = latest_state db trade_date;
          p = latest_portfolio_risk_snapshot db trade_date;
          (state, reasons) = next_state cfg previous p;
          row = \<lparr>kr_trade_date = trade_date, kr_state = state, kr_reason_codes = uniq_nonempty reasons,
                 kr_manual_active = kr_manual_active previous,
                 kr_consecutive_loss_count = kr_consecutive_loss_count previous,
                 kr_daily_realized_pnl_pct = daily_pct p, kr_daily_realized_pnl_krw = details_krw p,
                 kr_updated_at = At now\<rparr>
      in (save_order_kill_switch_state row db, row))"

section \<open>What the evaluations do\<close>

lemma latest_after_save:
  "latest_order_kill_switch_state (save_order_kill_switch_state r db) d =
     (if d = [] \<or> kr_trade_date r = d then Some r else latest_order_kill_switch_state db d)"
  by (simp add: latest_order_kill_switch_state_def save_order_kill_switch_state_def)

lemma latest_state_after_save [simp]:
  "kr_trade_date r = d \<Longrightarrow> latest_state (save_order_kill_switch_state r db) d = r"
  by (simp add: latest_state_def latest_after_save)

lemma portfolio_after_save [simp]:
  "latest_portfolio_risk_snapshot (save_order_kill_switch_state r db) d = latest_portfolio_risk_snapshot db d"
  by (simp add: latest_portfolio_risk_snapshot_def save_order_kill_switch_state_def)

lemma evaluate_row_date [simp]: "kr_trade_date (snd (evaluate_kill_switch cfg db d now)) = d"
  by (simp add: evaluate_kill_switch_def Let_def case_prod_beta)

lemma evaluate_saves: "fst (evaluate_kill_switch cfg db d now) = save_order_kill_switch_state (snd (evaluate_kill_switch cfg db d now)) db"
  by (simp add: evaluate_kill_switch_def Let_def case_prod_beta)

lemma latest_after_evaluate: "latest_state (fst (evaluate_kill_switch cfg db d now)) d = snd (evaluate_kill_switch cfg db d now)"
  unfolding evaluate_saves by (simp del: evaluate_row_date add: evaluate_row_date [simplified])

lemma evaluate_manual: "kr_manual_active (snd (evaluate_kill_switch cfg db d now)) = kr_manual_active (latest_state db d)"
  by (simp add: evaluate_kill_switch_def Let_def case_prod_beta)

text \<open>The condition on the day's result under which the code means to stop everything.\<close>

definition loss_limit_hit :: "order_config \<Rightarrow> portfolio_row option \<Rightarrow> bool" where
  "loss_limit_hit cfg p \<longleftrightarrow> kill_recommended p \<or> daily_pct p \<le> cfg_daily_loss_limit_pct cfg \<or>
     daily_krw p \<le> - \<bar>of_int (cfg_daily_loss_limit_krw cfg)\<bar>"

text \<open>The state that an evaluation without a manual stop records: a run of consecutive losses wins
  over everything else and records REDUCE_ONLY even when a daily loss limit is broken or the kill
  switch is recommended; otherwise a broken limit or the recommendation stops trading, and only
  then does the recommendation to stop new entries count.\<close>
lemma kill_switch_state_table:
  assumes "cfg_kill_switch_enabled cfg" "\<not> kr_manual_active (latest_state db d)"
    and "p = latest_portfolio_risk_snapshot db d"
  shows "kr_state (snd (evaluate_kill_switch cfg db d now)) =
     (if cfg_consecutive_loss_limit cfg \<le> kr_consecutive_loss_count (latest_state db d) then REDUCE_ONLY
      else if loss_limit_hit cfg p then KILL_SWITCH_ACTIVE
      else if stop_recommended p then STOP_NEW_BUY
      else NORMAL_TRADING)"
  using assms
  by (simp add: evaluate_kill_switch_def Let_def case_prod_beta next_state_def losses_step_def krw_step_def
      pct_step_def portfolio_step_def loss_limit_hit_def)

text \<open>A day with a broken limit, and one more loss than the limit of consecutive losses.\<close>

definition bad_day :: portfolio_row where
  "bad_day = \<lparr>pf_trade_date = ''2024-03-04'', pf_calculated_at = At 0, pf_stop_new_entry_recommended = False,
     pf_kill_switch_recommended = True, pf_daily_realized_pnl_pct = - 3, pf_details_daily_realized_pnl_krw = - 90000,
     pf_details_daily_realized_pnl = 0, pf_market_side_budgets = [], pf_details_market_side_budgets = [],
     pf_gross_exposure_limit_krw = 0, pf_gross_reserved_exposure_krw = 0, pf_total_exposure = 0\<rparr>"

definition losing_state :: kill_row where
  "losing_state = \<lparr>kr_trade_date = ''2024-03-04'', kr_state = KILL_SWITCH_ACTIVE, kr_reason_codes = [],
     kr_manual_active = False, kr_consecutive_loss_count = 2, kr_daily_realized_pnl_pct = 0,
     kr_daily_realized_pnl_krw = 0, kr_updated_at = Blank\<rparr>"

definition bad_db :: order_db where
  "bad_db = empty_db\<lparr>db_kill_states := [losing_state], db_portfolio := [bad_day]\<rparr>"

text \<open>C6: A manual stop survives evaluation: whatever the portfolio and however often the switch is
  evaluated, with the kill switch enabled every evaluation of the date records KILL_SWITCH_ACTIVE,
  with the manual flag kept.\<close>
theorem manual_stop_is_sticky:
  assumes "\<forall>(cfg, now) \<in> set runs. cfg_kill_switch_enabled cfg" "runs \<noteq> []"
    and "kr_manual_active (latest_state db d)"
    and "db' = fold (\<lambda>(cfg, now) db. fst (evaluate_kill_switch cfg db d now)) runs db"
  shows "kr_state (latest_state db' d) = KILL_SWITCH_ACTIVE \<and> kr_manual_active (latest_state db' d)"
proof -
  have one: "kr_state (latest_state (fst (evaluate_kill_switch cfg db d now)) d) = KILL_SWITCH_ACTIVE \<and>
      kr_manual_active (latest_state (fst (evaluate_kill_switch cfg db d now)) d)"
    if "cfg_kill_switch_enabled cfg" "kr_manual_active (latest_state db d)" for cfg now db
    using that by (simp add: latest_after_evaluate evaluate_manual)
      (simp add: evaluate_kill_switch_def Let_def case_prod_beta next_state_def)
  have "kr_state (latest_state (fold (\<lambda>(cfg, now) db. fst (evaluate_kill_switch cfg db d now)) runs db) d) = KILL_SWITCH_ACTIVE \<and>
      kr_manual_active (latest_state (fold (\<lambda>(cfg, now) db. fst (evaluate_kill_switch cfg db d now)) runs db) d)"
    using assms(1-3)
  proof (induction runs arbitrary: db)
    case (Cons run runs)
    obtain cfg now where run: "run = (cfg, now)" by (cases run)
    with Cons.prems have en: "cfg_kill_switch_enabled cfg" by auto
    note o = one [OF en Cons.prems(3), of now]
    show ?case
    proof (cases "runs = []")
      case True
      with o run show ?thesis by simp
    next
      case False
      with Cons.IH [of "fst (evaluate_kill_switch cfg db d now)"] Cons.prems(1) o run show ?thesis by auto
    qed
  qed simp
  with assms(4) show ?thesis by simp
qed

definition manual_db :: order_db where
  "manual_db = empty_db\<lparr>db_kill_states := [losing_state\<lparr>kr_manual_active := True\<rparr>]\<rparr>"

theorem manual_stop_is_sticky_witness:
  "kr_state (latest_state (fold (\<lambda>(cfg, now) db. fst (evaluate_kill_switch cfg db ''2024-03-04'' now))
     [(default_config, 1), (default_config, 2)] manual_db) ''2024-03-04'') = KILL_SWITCH_ACTIVE"
proof -
  have "kr_manual_active (latest_state manual_db ''2024-03-04'')"
    by (simp add: latest_state_def latest_order_kill_switch_state_def manual_db_def losing_state_def)
  from manual_stop_is_sticky [OF _ _ this refl, of "[(default_config, 1), (default_config, 2)]"]
  show ?thesis by (simp add: default_config_def)
qed

end
