(* ===== verification/Order_Risk.thy ===== *)
theory Order_Risk
  imports Kill_Switch Gateway_State
begin

text \<open>
  The risk guard in front of every managed order (\<open>trading/strategy/order_risk.py\<close>). The checks are
  the lists of reason codes that the code collects, in its order; the decision depends on the
  collected reasons only. The intent is the payload \<open>{**intent.to_dict(), 'intent_id': ...}\<close> that the
  order manager passes, so the top-level keys that the code also looks up but an intent does not
  have (\<open>market_status\<close>, \<open>market_action\<close>, \<open>market_side\<close>, \<open>calculated_at\<close>) are absent. The
  conversions of values from \<open>details\<close> may raise. The diagnostic dictionary of the decision is not
  modelled.
\<close>

section \<open>The broker environment\<close>

datatype broker_env = REAL | SIMULATION | UNKNOWN

fun env_text :: "broker_env \<Rightarrow> string" where
  "env_text REAL = ''REAL''"
| "env_text SIMULATION = ''SIMULATION''"
| "env_text UNKNOWN = ''UNKNOWN''"

definition SIMULATION_ENV_VALUES :: "string list" where
  "SIMULATION_ENV_VALUES = [''SIM'', ''SIMULATION'', ''MOCK'', ''PAPER'', ''DEMO'', ''LIVE_SIM'', ''1'']"

definition REAL_ENV_VALUES :: "string list" where
  "REAL_ENV_VALUES = [''REAL'', ''PROD'', ''PRODUCTION'', ''LIVE'', ''LIVE_REAL'', ''REAL_BROKER'', ''0'']"

text \<open>
  The raw values in the code's order. Of the snapshot's own keys only \<open>mode\<close> exists, and the
  \<open>broker_env\<close> that \<open>_broker_snapshot\<close> adds (\<open>env\<close>, empty when it was not added).
\<close>

definition env_raw_values :: "string \<Rightarrow> gateway_status \<Rightarrow> pyval list" where
  "env_raw_values env st =
     (let heartbeat = gs_last_heartbeat_payload st in
      [PStr env, PStr (gs_mode st), dget heartbeat ''broker_env'', dget heartbeat ''account_mode'',
       dget heartbeat ''server_mode'', dget heartbeat ''server_gubun'', dget heartbeat ''mode''])"

definition env_normalized :: "pyval list \<Rightarrow> string list" where
  "env_normalized vs =
     map upper (filter (\<lambda>s. s \<noteq> []) (map (\<lambda>v. strip (py_str (py_or v (PStr [])))) vs))"

definition broker_environment_state :: "string \<Rightarrow> gateway_status \<Rightarrow> broker_env" where
  "broker_environment_state env st =
     (let normalized = env_normalized (env_raw_values env st) in
      if \<exists>s\<in>set normalized. s \<in> set REAL_ENV_VALUES then REAL
      else if \<exists>s\<in>set normalized. s \<in> set SIMULATION_ENV_VALUES then SIMULATION
      else UNKNOWN)"

lemma env_normalized_Cons:
  "env_normalized (v # vs) = (let s = strip (py_str (py_or v (PStr []))) in (if s \<noteq> [] then [upper s] else []) @ env_normalized vs)"
  by (simp add: env_normalized_def Let_def)

text \<open>Adding the state to the snapshot, as \<open>_broker_snapshot\<close> does, does not change the state.\<close>

lemma env_text_normal: "env_normalized (PStr (env_text e) # vs) = env_text e # env_normalized vs"
  by (cases e) (simp_all add: env_normalized_Cons py_or_def Let_def strip_def is_space_def upper_def upper_char_def)

lemma env_blank: "env_normalized (PStr [] # vs) = env_normalized vs"
  by (simp add: env_normalized_Cons py_or_def Let_def strip_def)

lemma broker_environment_idem:
  "broker_environment_state (env_text (broker_environment_state [] st)) st = broker_environment_state [] st"
proof -
  obtain vs where vs: "\<And>env. env_raw_values env st = PStr env # vs"
    by (simp add: env_raw_values_def Let_def)
  show ?thesis
    by (auto simp: broker_environment_state_def Let_def vs env_text_normal env_blank REAL_ENV_VALUES_def
        SIMULATION_ENV_VALUES_def)
qed

section \<open>Broker guard\<close>

text \<open>A reason under a condition.\<close>

definition reason_if :: "bool \<Rightarrow> string \<Rightarrow> string list" where
  "reason_if b r = (if b then [r] else [])"

lemma reason_if_Nil [simp]: "reason_if b r = [] \<longleftrightarrow> \<not> b"
  by (simp add: reason_if_def)

lemma set_reason_if [simp]: "set (reason_if b r) = (if b then {r} else {})"
  by (simp add: reason_if_def)

definition broker_guard :: "order_config \<Rightarrow> gateway_status \<Rightarrow> string list" where
  "broker_guard cfg st =
     (let account = gs_account st;
          whitelist = cfg_account_whitelist cfg;
          env_state = broker_environment_state (env_text (broker_environment_state [] st)) st
      in reason_if (\<not> gs_kiwoom_logged_in st) ''BROKER_NOT_LOGGED_IN'' @
         reason_if (\<not> gs_orderable st) ''BROKER_NOT_ORDERABLE'' @
         reason_if (account = []) ''ACCOUNT_NOT_CONFIGURED'' @
         reason_if (whitelist \<noteq> [] \<and> account \<notin> set whitelist) ''ACCOUNT_NOT_WHITELISTED'' @
         reason_if (\<not> gs_heartbeat_ok st) ''GATEWAY_HEARTBEAT_STALE'' @
         reason_if (cfg_block_real_broker cfg \<and> env_state = REAL) ''REAL_BROKER_BLOCKED'' @
         reason_if (cfg_require_simulation_broker cfg \<and> env_state = UNKNOWN) ''BROKER_ENV_UNKNOWN'' @
         reason_if (cfg_require_simulation_broker cfg \<and> env_state = REAL) ''REAL_BROKER_BLOCKED'' @
         reason_if (1000 \<le> gs_pending_command_count st) ''COMMAND_QUEUE_UNHEALTHY'')"

section \<open>Market side budget\<close>

definition normalized_side :: "pyval \<Rightarrow> string" where
  "normalized_side value =
     (let text = upper (strip (py_str (py_or value (PStr [])))) in
      if text \<in> {''KOSPI'', ''STK'', ''001'', ''0'', ''KRX''} then ''KOSPI''
      else if text \<in> {''KOSDAQ'', ''KSQ'', ''101'', ''10'', ''KQ''} then ''KOSDAQ''
      else ''UNKNOWN'')"

definition resolve_market_side :: "pydict \<Rightarrow> string" where
  "resolve_market_side details =
     (let market = dict_or (dict_or details ''strategy_context_v3'') ''market'';
          sides = map normalized_side [dget market ''market_side'', dget details ''market_side'', dget details ''market'']
      in case find (\<lambda>s. s \<in> {''KOSPI'', ''KOSDAQ''}) sides of Some s \<Rightarrow> s | None \<Rightarrow> ''UNKNOWN'')"

definition no_budget :: side_budget where
  "no_budget = \<lparr>sb_budget_action = [], sb_reserved_exposure_krw = 0, sb_effective_exposure_limit_krw = 0,
     sb_available_position_slots = 0, sb_max_open_positions = 0, sb_pending_buy_exposure_krw = 0\<rparr>"

definition older_than :: "time option \<Rightarrow> int \<Rightarrow> bool" where
  "older_than age sec = (case age of None \<Rightarrow> False | Some a \<Rightarrow> sec * second < a)"

definition market_side_budget_reasons ::
  "order_config \<Rightarrow> order_db \<Rightarrow> order_intent \<Rightarrow> time \<Rightarrow> py_error + string list" where
  "market_side_budget_reasons cfg db intent now =
     (if \<not> cfg_market_side_enabled cfg then Inr []
      else
        let side = resolve_market_side (mi_details intent) in
        if side \<notin> {''KOSPI'', ''KOSDAQ''} then Inr [''MARKET_SIDE_UNKNOWN_BUY_BLOCK'']
        else case latest_portfolio_risk_snapshot db (mi_trade_date intent) of
               None \<Rightarrow> Inr [''MARKET_SIDE_BUDGET_DATA_WAIT'']
             | Some p \<Rightarrow>
                 let age = age_of (pf_calculated_at p) now;
                     budgets = (if pf_market_side_budgets p \<noteq> [] then pf_market_side_budgets p
                                else pf_details_market_side_budgets p);
                     found = map_of budgets side;
                     budget = (case found of Some b \<Rightarrow> b | None \<Rightarrow> no_budget);
                     action = upper (sb_budget_action budget)
                 in bindE (if mi_price intent \<noteq> 0 then Inr (mi_price intent)
                           else int_or0 (mi_details intent) ''current_price'') (\<lambda>price.
                      let order_amount = max 0 price * max 0 (mi_quantity intent);
                          projected_side = sb_reserved_exposure_krw budget + order_amount;
                          side_limit = sb_effective_exposure_limit_krw budget;
                          gross_limit = pf_gross_exposure_limit_krw p;
                          gross_reserved = (if pf_gross_reserved_exposure_krw p \<noteq> 0
                                            then pf_gross_reserved_exposure_krw p else pf_total_exposure p);
                          projected_gross = gross_reserved + order_amount
                      in Inr (uniq_nonempty (
                           reason_if (age = None \<or> older_than age (cfg_market_side_budget_max_age_sec cfg))
                             ''MARKET_SIDE_BUDGET_DATA_WAIT'' @
                           reason_if (found = None) ''MARKET_SIDE_BUDGET_DATA_WAIT'' @
                           reason_if (action \<in> {''STOP_NEW_ENTRY'', ''MARKET_CLOSED''}) ''MARKET_SIDE_STOP_NEW_ENTRY'' @
                           reason_if (action = ''DATA_WAIT'') ''MARKET_SIDE_BUDGET_DATA_WAIT'' @
                           reason_if (0 < side_limit \<and> side_limit < projected_side) ''MARKET_SIDE_EXPOSURE_LIMIT'' @
                           reason_if (0 < gross_limit \<and> gross_limit < projected_gross) ''PORTFOLIO_GROSS_EXPOSURE_LIMIT'' @
                           reason_if (0 < sb_max_open_positions budget \<and> sb_available_position_slots budget \<le> 0)
                             ''MARKET_SIDE_POSITION_LIMIT''))))"

section \<open>Limits on buying\<close>

definition daily_code_order_count :: "order_db \<Rightarrow> string \<Rightarrow> string \<Rightarrow> int" where
  "daily_code_order_count db trade_date code =
     count_int (\<lambda>x. upper (mo_side x) \<in> {BUY, SELL}) (list_managed_orders db trade_date [] code [] 500 0)"

definition open_position_count :: "order_db \<Rightarrow> int" where
  "open_position_count db = int (length (list_live_sim_positions db ''OPEN'' [] 1000 0))"

definition has_open_position :: "order_db \<Rightarrow> string \<Rightarrow> bool" where
  "has_open_position db code \<longleftrightarrow> list_live_sim_positions db ''OPEN'' code 10 0 \<noteq> []"

definition has_pending_order :: "order_db \<Rightarrow> string \<Rightarrow> bool" where
  "has_pending_order db code \<longleftrightarrow> find_active_managed_order_by_code db code \<noteq> None"

definition has_reconcile_required_order :: "order_db \<Rightarrow> bool" where
  "has_reconcile_required_order db \<longleftrightarrow> list_managed_orders db [] [RECONCILE_REQUIRED] [] [] 1 0 \<noteq> []"

definition theme_exposure_count :: "order_db \<Rightarrow> string \<Rightarrow> int" where
  "theme_exposure_count db theme_id =
     count_int (\<lambda>r. pr_theme_id r = theme_id) (list_live_sim_positions db ''OPEN'' [] 1000 0)"

definition buy_limits :: "order_config \<Rightarrow> order_db \<Rightarrow> order_intent \<Rightarrow> time \<Rightarrow> py_error + string list" where
  "buy_limits cfg db intent now =
     (let trade_date = mi_trade_date intent; code = mi_code intent; theme_id = mi_theme_id intent;
          details = mi_details intent;
          summary = managed_order_summary db trade_date;
          market_status = upper (text_or details ''market_status'' []);
          market_action = upper (text_or details ''market_action'' []);
          portfolio = latest_portfolio_risk_snapshot db trade_date
      in bindE (market_side_budget_reasons cfg db intent now) (\<lambda>market_side_reasons.
         Inr (reason_if (cfg_max_daily_buy_orders cfg \<le> os_today_buy_order_count summary) ''DAILY_BUY_ORDER_LIMIT'' @
           reason_if (cfg_max_daily_orders_per_code cfg \<le> daily_code_order_count db trade_date code) ''DAILY_CODE_ORDER_LIMIT'' @
           reason_if (cfg_max_open_positions cfg \<le> open_position_count db) ''MAX_OPEN_POSITIONS'' @
           reason_if (cfg_block_pyramiding cfg \<and> has_open_position db code) ''DUPLICATE_OPEN_POSITION'' @
           reason_if (has_pending_order db code) ''DUPLICATE_PENDING_ORDER'' @
           reason_if (cfg_reconcile_required_blocks_buy cfg \<and> has_reconcile_required_order db) ''RECONCILE_REQUIRED_BLOCKS_BUY'' @
           reason_if (theme_id \<noteq> [] \<and> cfg_max_theme_exposure_count cfg \<le> theme_exposure_count db theme_id) ''MAX_THEME_EXPOSURE'' @
           reason_if (market_status = ''RISK_OFF'' \<or> market_action = ''BLOCK_NEW_ENTRY'') ''MARKET_RISK_OFF_NEW_BUY_BLOCK'' @
           reason_if (stop_recommended portfolio) ''POSITION_RISK_STOP_NEW_ENTRY'' @
           reason_if (kill_recommended portfolio) ''POSITION_RISK_KILL_SWITCH_RECOMMENDED'' @
           (if cfg_market_side_enforce_buy_limits cfg then market_side_reasons else []))))"

section \<open>Checks on every order\<close>

text \<open>The time stamp of a value that may be missing: \<open>str(a or b or '')\<close>.\<close>

definition first_stamp :: "pydict \<Rightarrow> string list \<Rightarrow> stamp" where
  "first_stamp d ks = foldr (\<lambda>k s. stamp_or (val_stamp (dget d k)) s) ks Blank"

definition common_order_checks :: "order_config \<Rightarrow> order_intent \<Rightarrow> time \<Rightarrow> py_error + string list" where
  "common_order_checks cfg intent now =
     (let quantity = mi_quantity intent; price = mi_price intent; side = upper (mi_side intent);
          details = mi_details intent;
          calculated_at = first_stamp details [''calculated_at''];
          quote_at = first_stamp details [''last_tick_at'', ''tick_timestamp'']
      in bindE (int_or0 details ''spread_ticks'') (\<lambda>spread.
         Inr (reason_if (quantity \<le> 0) ''QUANTITY_INVALID'' @
           reason_if (cfg_max_order_quantity cfg < quantity) ''MAX_ORDER_QUANTITY'' @
           reason_if (price \<le> 0 \<and> cfg_use_limit_price cfg) ''PRICE_INVALID'' @
           reason_if (price \<le> 0 \<and> \<not> cfg_allow_market_order cfg) ''MARKET_ORDER_FORBIDDEN'' @
           reason_if (0 < price \<and> 0 < quantity \<and> cfg_max_order_amount cfg < price * quantity) ''MAX_ORDER_AMOUNT'' @
           reason_if (cfg_max_spread_ticks cfg < spread) ''SPREAD_TOO_WIDE'' @
           reason_if (side = BUY \<and> truthy (dget details ''vi_active'')) ''VI_ACTIVE_BUY_BLOCK'' @
           reason_if (side = BUY \<and> truthy (dget details ''upper_limit_near'')) ''UPPER_LIMIT_NEAR_BUY_BLOCK'' @
           reason_if (0 < cfg_decision_stale_after_sec cfg \<and>
                      older_than (age_of calculated_at now) (cfg_decision_stale_after_sec cfg))
             (if side = BUY then ''STALE_ENTRY_DECISION'' else ''STALE_EXIT_DECISION'') @
           reason_if (0 < cfg_quote_stale_after_sec cfg \<and>
                      older_than (age_of quote_at now) (cfg_quote_stale_after_sec cfg)) ''STALE_QUOTE'' @
           reason_if (0 < cfg_stale_tick_sec cfg \<and>
                      older_than (age_of quote_at now) (cfg_stale_tick_sec cfg)) ''STALE_TICK'')))"

section \<open>The decision\<close>

definition kill_switch_reasons :: "string list" where
  "kill_switch_reasons = [''KILL_SWITCH_BLOCKS_BUY'', ''POSITION_RISK_KILL_SWITCH_RECOMMENDED'']"

definition stale_reasons :: "string list" where
  "stale_reasons = [''STALE_ENTRY_DECISION'', ''STALE_EXIT_DECISION'', ''STALE_QUOTE'', ''STALE_TICK'']"

definition decide :: "string list \<Rightarrow> risk_result" where
  "decide reasons =
     (if \<exists>r\<in>set reasons. r \<in> set kill_switch_reasons then KILL_SWITCH
      else if \<exists>r\<in>set reasons. r \<in> set stale_reasons then WAIT
      else if reasons \<noteq> [] then REJECT
      else PASS)"

fun operator_message :: "risk_result \<Rightarrow> string" where
  "operator_message PASS = ''Order risk passed for LIVE_SIM.''"
| "operator_message WAIT = ''Order waits for fresh data.''"
| "operator_message KILL_SWITCH = ''Kill switch blocks new buy orders.''"
| "operator_message REJECT = ''Order rejected by LIVE_SIM risk guard.''"

definition evaluate_reasons ::
  "order_config \<Rightarrow> order_db \<Rightarrow> gateway_status \<Rightarrow> order_intent \<Rightarrow> time \<Rightarrow> kill_state \<Rightarrow> py_error + string list" where
  "evaluate_reasons cfg db st intent now kill =
     (let side = upper (mi_side intent) in
      bindE (if side = BUY then buy_limits cfg db intent now else Inr []) (\<lambda>limits.
      bindE (common_order_checks cfg intent now) (\<lambda>checks.
        Inr (broker_guard cfg st @
          reason_if (\<not> cfg_enabled cfg) ''ORDER_MANAGER_DISABLED'' @
          reason_if (cfg_mode cfg \<noteq> LIVE_SIM) ''ORDER_MANAGER_NOT_LIVE_SIM_MODE'' @
          reason_if (\<not> cfg_allow_live_sim_orders cfg) ''LIVE_SIM_FLAG_DISABLED'' @
          reason_if (side = BUY \<and> kill \<in> {STOP_NEW_BUY, REDUCE_ONLY, KILL_SWITCH_ACTIVE}) ''KILL_SWITCH_BLOCKS_BUY'' @
          limits @ checks))))"

definition evaluate_risk ::
  "order_config \<Rightarrow> order_db \<Rightarrow> gateway_status \<Rightarrow> order_intent \<Rightarrow> time \<Rightarrow> kill_state \<Rightarrow> py_error + risk_decision" where
  "evaluate_risk cfg db st intent now kill =
     bindE (evaluate_reasons cfg db st intent now kill) (\<lambda>reasons.
     bindE (market_side_budget_reasons cfg db intent now) (\<lambda>_.
       let decision = decide reasons
       in Inr \<lparr>rd_decision = decision, rd_side = upper (mi_side intent), rd_code = mi_code intent,
               rd_idempotency_key = mi_idempotency_key intent, rd_reason_codes = uniq_nonempty reasons,
               rd_operator_message = operator_message decision\<rparr>))"

section \<open>What an approval means\<close>

lemma decide_pass: "decide reasons = PASS \<longleftrightarrow> reasons = []"
  by (auto simp: decide_def)

lemma evaluate_risk_Inr:
  "evaluate_risk cfg db st intent now kill = Inr d \<Longrightarrow>
   \<exists>reasons. evaluate_reasons cfg db st intent now kill = Inr reasons \<and> rd_decision d = decide reasons \<and>
     rd_reason_codes d = uniq_nonempty reasons"
  by (auto simp: evaluate_risk_def bindE_eq_Inr Let_def)

text \<open>The part of the guard that protects every order, buy or sell.\<close>

definition broker_safe :: "order_config \<Rightarrow> gateway_status \<Rightarrow> bool" where
  "broker_safe cfg st \<longleftrightarrow> gs_kiwoom_logged_in st \<and> gs_orderable st \<and> gs_heartbeat_ok st \<and> gs_account st \<noteq> [] \<and>
     (cfg_account_whitelist cfg = [] \<or> gs_account st \<in> set (cfg_account_whitelist cfg)) \<and>
     (cfg_require_simulation_broker cfg \<longrightarrow> broker_environment_state [] st = SIMULATION) \<and>
     (cfg_block_real_broker cfg \<longrightarrow> broker_environment_state [] st \<noteq> REAL) \<and>
     gs_pending_command_count st < 1000 \<and>
     cfg_enabled cfg \<and> cfg_mode cfg = LIVE_SIM \<and> cfg_allow_live_sim_orders cfg"

lemma broker_guard_Nil:
  "broker_guard cfg st = [] \<Longrightarrow> cfg_enabled cfg \<Longrightarrow> cfg_mode cfg = LIVE_SIM \<Longrightarrow> cfg_allow_live_sim_orders cfg \<Longrightarrow>
   broker_safe cfg st"
  unfolding broker_guard_def Let_def broker_environment_idem broker_safe_def
  by (cases "broker_environment_state [] st") auto

definition size_safe :: "order_config \<Rightarrow> order_intent \<Rightarrow> bool" where
  "size_safe cfg intent \<longleftrightarrow> 0 < mi_quantity intent \<and> mi_quantity intent \<le> cfg_max_order_quantity cfg \<and>
     (0 < mi_price intent \<longrightarrow> mi_price intent * mi_quantity intent \<le> cfg_max_order_amount cfg) \<and>
     (mi_price intent \<le> 0 \<longrightarrow> \<not> cfg_use_limit_price cfg \<and> cfg_allow_market_order cfg)"

lemma common_checks_Nil: "common_order_checks cfg intent now = Inr [] \<Longrightarrow> size_safe cfg intent"
proof -
  assume "common_order_checks cfg intent now = Inr []"
  then have "\<not> mi_quantity intent \<le> 0" "\<not> cfg_max_order_quantity cfg < mi_quantity intent"
    "\<not> (mi_price intent \<le> 0 \<and> cfg_use_limit_price cfg)" "\<not> (mi_price intent \<le> 0 \<and> \<not> cfg_allow_market_order cfg)"
    "\<not> (0 < mi_price intent \<and> 0 < mi_quantity intent \<and> cfg_max_order_amount cfg < mi_price intent * mi_quantity intent)"
    unfolding common_order_checks_def Let_def bindE_eq_Inr sum.inject append_is_Nil_conv reason_if_Nil by blast+
  then show ?thesis unfolding size_safe_def by linarith
qed

lemma no_active_order:
  "\<not> has_pending_order db code \<Longrightarrow> r \<in> set (t_rows (db_orders db)) \<Longrightarrow> row_code r = code_column code \<Longrightarrow>
   row_status r \<notin> set active_statuses"
  by (auto simp: has_pending_order_def find_active_managed_order_by_code_def newest_None)

lemma no_open_position:
  assumes "\<not> has_open_position db code" "code \<noteq> []" "r \<in> set (t_rows (db_positions db))" "pr_code r = code"
  shows "pr_status r \<noteq> ''OPEN''"
proof
  assume "pr_status r = ''OPEN''"
  with assms(3,4) have "r \<in> set (filter (\<lambda>r. pr_status r = ''OPEN'' \<and> pr_code r = code) (rev (t_rows (db_positions db))))"
    by simp
  then have "filter (\<lambda>r. pr_status r = ''OPEN'' \<and> pr_code r = code) (rev (t_rows (db_positions db))) \<noteq> []"
    by (metis list.set(1) empty_iff)
  with assms(1,2) show False
    by (simp add: has_open_position_def list_live_sim_positions_def page_def)
qed

text \<open>C7: An approved buy is safe: the broker session is a healthy, whitelisted and, when required,
  simulated one; the kill switch is off; the order respects the size and amount limits; the day's
  buy orders are below the limit; and the code has no active order and, unless pyramiding is
  allowed, no open position.\<close>
theorem approved_buy_is_safe:
  assumes "evaluate_risk cfg db st intent now kill = Inr d" "approved d" "upper (mi_side intent) = BUY"
  shows "broker_safe cfg st \<and> kill = NORMAL_TRADING \<and> size_safe cfg intent \<and>
     os_today_buy_order_count (managed_order_summary db (mi_trade_date intent)) < cfg_max_daily_buy_orders cfg \<and>
     open_position_count db < cfg_max_open_positions cfg \<and>
     (\<forall>r\<in>set (t_rows (db_orders db)). row_code r = code_column (mi_code intent) \<longrightarrow> row_status r \<notin> set active_statuses) \<and>
     (cfg_block_pyramiding cfg \<and> mi_code intent \<noteq> [] \<longrightarrow>
        (\<forall>r\<in>set (t_rows (db_positions db)). pr_code r = mi_code intent \<longrightarrow> pr_status r \<noteq> ''OPEN''))"
proof -
  obtain reasons where r: "evaluate_reasons cfg db st intent now kill = Inr reasons" "rd_decision d = decide reasons"
    using evaluate_risk_Inr [OF assms(1)] by blast
  with assms(2) have nil: "reasons = []" by (simp add: approved_def decide_pass)
  from r(1) nil assms(3) obtain limits where
    limits: "buy_limits cfg db intent now = Inr limits" "limits = []" and
    checks: "common_order_checks cfg intent now = Inr []" and
    guard: "broker_guard cfg st = []" and
    flags: "cfg_enabled cfg" "cfg_mode cfg = LIVE_SIM" "cfg_allow_live_sim_orders cfg" and
    kill: "kill \<notin> {STOP_NEW_BUY, REDUCE_ONLY, KILL_SWITCH_ACTIVE}"
    by (auto simp: evaluate_reasons_def bindE_eq_Inr Let_def)
  have k: "kill = NORMAL_TRADING" using kill by (cases kill) auto
  from limits have lim: "os_today_buy_order_count (managed_order_summary db (mi_trade_date intent)) < cfg_max_daily_buy_orders cfg"
    "open_position_count db < cfg_max_open_positions cfg" "\<not> has_pending_order db (mi_code intent)"
    "cfg_block_pyramiding cfg \<Longrightarrow> \<not> has_open_position db (mi_code intent)"
    by (auto simp: buy_limits_def bindE_eq_Inr Let_def not_le)
  show ?thesis
    using broker_guard_Nil [OF guard flags] common_checks_Nil [OF checks] k lim no_active_order [OF lim(3)]
      no_open_position [of db "mi_code intent"] by blast
qed

definition live_config :: order_config where
  "live_config = default_config\<lparr>cfg_enabled := True, cfg_intent_enabled := True, cfg_create_local_order := True,
     cfg_enqueue_gateway_command := True, cfg_send_order_allowed := True, cfg_mode := LIVE_SIM,
     cfg_allow_live_sim_orders := True, cfg_observe_only := False, cfg_max_order_quantity := 10,
     cfg_max_order_amount := 1000000\<rparr>"

definition healthy_status :: gateway_status where
  "healthy_status = (initial_status 15)\<lparr>gs_connected := True, gs_kiwoom_logged_in := True, gs_orderable := True,
     gs_heartbeat_ok := True, gs_account := ''81001122'',
     gs_last_heartbeat_payload := [(''server_gubun'', PStr ''1'')]\<rparr>"

definition sample_intent :: order_intent where
  "sample_intent = \<lparr>mi_id = 0, mi_trade_date = ''2024-03-04'', mi_source = REBOOT_ENTRY_ENGINE, mi_side = BUY,
     mi_code = ''005930'', mi_quantity = 10, mi_price = 70000, mi_idempotency_key = ''buy:k1'', mi_created_at = At 0,
     mi_account = ''81001122'', mi_name = [], mi_hoga = ''00'', mi_status = CREATED, mi_candidate_id = 4,
     mi_position_id = [], mi_decision_id = 7, mi_theme_id = ''t1'', mi_theme_name = [], mi_reason = [],
     mi_details = [(''calculated_at'', PTime 0), (''spread_ticks'', PInt 1)]\<rparr>"

lemma sample_intent_approved:
  "\<exists>d. evaluate_risk live_config empty_db healthy_status sample_intent 1000000 NORMAL_TRADING = Inr d \<and> approved d"
proof -
  have "(case evaluate_risk live_config empty_db healthy_status sample_intent 1000000 NORMAL_TRADING of
      Inr d \<Rightarrow> approved d | Inl _ \<Rightarrow> False)" by code_simp
  then show ?thesis by (auto split: sum.splits)
qed

theorem approved_buy_is_safe_witness:
  "broker_safe live_config healthy_status \<and> size_safe live_config sample_intent"
proof -
  obtain d where "evaluate_risk live_config empty_db healthy_status sample_intent 1000000 NORMAL_TRADING = Inr d" "approved d"
    using sample_intent_approved by blast
  moreover have "upper (mi_side sample_intent) = BUY" by code_simp
  ultimately show ?thesis using approved_buy_is_safe by blast
qed

text \<open>A sell is judged without looking at the order tables or the kill switch: with the market side
  budget off, the decision for a sell is the same for every content of the database and every state
  of the kill switch. In particular the configured limit of daily sell orders is enforced nowhere.\<close>
lemma sell_ignores_limits_and_kill_switch:
  assumes "upper (mi_side intent) = SELL" "\<not> cfg_market_side_enabled cfg"
  shows "evaluate_risk cfg db st intent now kill = evaluate_risk cfg db' st intent now kill'
     \<and> evaluate_risk (cfg\<lparr>cfg_max_daily_sell_orders := n\<rparr>) db st intent now kill = evaluate_risk cfg db st intent now kill"
proof -
  have "upper (mi_side intent) \<noteq> BUY" using assms(1) by (simp add: side_names)
  with assms(2) show ?thesis
    by (simp add: evaluate_risk_def evaluate_reasons_def market_side_budget_reasons_def
        common_order_checks_def broker_guard_def Let_def)
qed

end
