(* ===== verification/Order_Reconcile.thy ===== *)
theory Order_Reconcile
  imports Order_Store
begin

text \<open>
  Reconciliation of managed orders with what the gateway reports
  (\<open>trading/strategy/order_reconcile.py\<close>): acknowledgements of commands, executions, and the
  LIVE_SIM position that an execution moves. A handler returns the new database and its result, or
  the exception of a failed \<open>int\<close> conversion, which happens before anything is written. The clock
  \<open>now\<close> stands for \<open>_now()\<close>.
\<close>

section \<open>Shared steps\<close>

definition update_intent_status :: "order_db \<Rightarrow> int \<Rightarrow> intent_status \<Rightarrow> pydict \<Rightarrow> order_db" where
  "update_intent_status db intent_id status payload =
     (if intent_id = 0 then db
      else case get_managed_order_intent db intent_id of
             None \<Rightarrow> db
           | Some intent \<Rightarrow>
               fst (save_managed_order_intent
                 (intent\<lparr>mi_status := status, mi_details := dset ''last_update'' (PDict payload) (mi_details intent)\<rparr>) db))"

definition reconcile_event ::
  "order_db \<Rightarrow> int \<Rightarrow> int \<Rightarrow> string \<Rightarrow> string \<Rightarrow> string \<Rightarrow> pydict \<Rightarrow> string \<Rightarrow> order_db" where
  "reconcile_event db order_id intent_id event_type status_from status_to payload message =
     append_managed_order_event
       \<lparr>oe_order_id = order_id, oe_intent_id = intent_id, oe_event_type = event_type, oe_status_from = status_from,
        oe_status_to = status_to, oe_message = message, oe_payload = DictPayload payload\<rparr> db"

section \<open>Acknowledgements\<close>

record ack_result =
  ar_matched :: bool
  ar_reason :: string
  ar_order_id :: int
  ar_status :: "order_status option"
  ar_order_no :: string

text \<open>The status that an acknowledgement asks for, before the current status is looked at.\<close>

definition ack_target :: "string \<Rightarrow> string \<Rightarrow> int \<Rightarrow> order_status \<times> intent_status" where
  "ack_target command_type status result_code =
     (if command_type = ''cancel_order'' \<or> status = ''CANCELLED'' then
        (if result_code = 0 \<and> status \<notin> {''FAILED'', ''REJECTED''}
         then (order_status.CANCELLED, intent_status.CANCELLED) else (RECONCILE_REQUIRED, intent_status.FAILED))
      else if status \<in> {''FAILED'', ''REJECTED''} \<or> result_code \<noteq> 0 then (REJECTED_BY_GATEWAY, COMMAND_REJECTED)
      else (ACKED_BY_GATEWAY, COMMAND_ACKED))"

text \<open>A plain acknowledgement does not take an order back behind a fill or a cancellation.\<close>

definition keep_progress :: "order_status \<Rightarrow> order_status \<times> intent_status \<Rightarrow> order_status \<times> intent_status" where
  "keep_progress current target =
     (if fst target = ACKED_BY_GATEWAY \<and>
         current \<in> {order_status.PARTIALLY_FILLED, order_status.FILLED, order_status.CANCELLED} then
        (current, if current = order_status.FILLED then intent_status.FILLED
                  else if current = order_status.PARTIALLY_FILLED then intent_status.PARTIALLY_FILLED
                  else intent_status.CANCELLED)
      else target)"

definition ack_result_code :: "pydict \<Rightarrow> py_error + int" where
  "ack_result_code order_result =
     (if order_result = [] then Inr 0
      else py_int (py_or (dget_default order_result ''code'' (dget_default order_result ''result_code'' (PInt 0))) (PInt 0)))"

definition handle_command_ack :: "order_db \<Rightarrow> pydict \<Rightarrow> time \<Rightarrow> order_db \<times> (py_error + ack_result)" where
  "handle_command_ack db payload now =
     (let command_id = text_or payload ''command_id'' [];
          command_type = text_or payload ''command_type'' [];
          status = upper (text_or payload ''status'' ''ACKED'')
      in if command_id = [] then
           (db, Inr \<lparr>ar_matched = False, ar_reason = ''COMMAND_ID_MISSING'', ar_order_id = 0, ar_status = None, ar_order_no = []\<rparr>)
         else case find_managed_order_by_command_id db command_id of
           None \<Rightarrow>
             (db, Inr \<lparr>ar_matched = False, ar_reason = ''MANAGED_ORDER_NOT_FOUND'', ar_order_id = 0, ar_status = None, ar_order_no = []\<rparr>)
         | Some order \<Rightarrow>
             let acked = time_or payload ''timestamp'' now;
                 order_result = dict_or payload ''order_result''
             in case ack_result_code order_result of
                  Inl err \<Rightarrow> (db, Inl err)
                | Inr result_code \<Rightarrow>
                    let order_no = py_str (py_or (py_or (dget payload ''order_no'') (dget order_result ''order_no''))
                                                 (PStr (mo_order_no order)));
                        err = py_str (py_or (py_or (py_or (dget payload ''message'') (dget payload ''error''))
                                                   (dget order_result ''message'')) (PStr []));
                        (next_status, intent_status) =
                          keep_progress (mo_status order) (ack_target command_type status result_code);
                        updated = order\<lparr>mo_status := next_status, mo_order_no := order_no, mo_acked_at := acked,
                          mo_updated_at := acked,
                          mo_details := dset ''last_error'' (PStr err)
                                          (dset ''last_command_ack'' (PDict payload) (mo_details order))\<rparr>;
                        db1 = fst (save_managed_order updated db);
                        db2 = update_intent_status db1 (mo_intent_id order) intent_status payload;
                        db3 = reconcile_event db2 (mo_id order) (mo_intent_id order) ''command_ack''
                                (order_status_value (mo_status order)) (order_status_value next_status) payload err
                    in (db3, Inr \<lparr>ar_matched = True, ar_reason = [], ar_order_id = mo_id order,
                                  ar_status = Some next_status, ar_order_no = order_no\<rparr>))"

section \<open>Executions\<close>

definition find_execution_order :: "order_db \<Rightarrow> broker_execution_event \<Rightarrow> managed_order option" where
  "find_execution_order db e =
     (case (if ex_order_no e \<noteq> [] then find_managed_order_by_order_no db (ex_order_no e) else None) of
        Some x \<Rightarrow> Some x
      | None \<Rightarrow>
          (case (if ex_command_id e \<noteq> [] then find_managed_order_by_command_id db (ex_command_id e) else None) of
             Some x \<Rightarrow> Some x
           | None \<Rightarrow> find_managed_order_for_execution db (ex_code e) (upper (ex_side e)) (ex_idempotency_key e)))"

definition or_int :: "int \<Rightarrow> int \<Rightarrow> int" where
  "or_int a b = (if a \<noteq> 0 then a else b)"

definition next_filled :: "managed_order \<Rightarrow> broker_execution_event \<Rightarrow> int" where
  "next_filled order e = max (mo_filled_quantity order) (or_int (ex_filled_quantity e) (ex_quantity e))"

definition next_remaining :: "managed_order \<Rightarrow> broker_execution_event \<Rightarrow> int" where
  "next_remaining order e =
     (let previous_filled = mo_filled_quantity order;
          previous_remaining = or_int (mo_remaining_quantity order) (max 0 (mo_quantity order - previous_filled));
          filled = next_filled order e;
          r0 = ex_remaining_quantity e;
          r1 = (if r0 \<le> 0 then max 0 (mo_quantity order - filled) else r0);
          r2 = (if 0 < previous_filled \<or> mo_status order = order_status.PARTIALLY_FILLED
                then min (max 0 previous_remaining) (max 0 r1) else r1)
      in if 0 < mo_quantity order then min r2 (max 0 (mo_quantity order - filled)) else r2)"

definition apply_fill :: "managed_order \<Rightarrow> broker_execution_event \<Rightarrow> time \<Rightarrow> managed_order" where
  "apply_fill order e now =
     (let remaining = next_remaining order e in
      order\<lparr>mo_status := (if remaining \<le> 0 then order_status.FILLED else order_status.PARTIALLY_FILLED),
            mo_order_no := str_or (ex_order_no e) (mo_order_no order),
            mo_filled_quantity := next_filled order e,
            mo_remaining_quantity := remaining,
            mo_avg_fill_price := or_int (ex_price e) (or_int (mo_avg_fill_price order) (mo_price order)),
            mo_updated_at := stamp_or (ex_timestamp e) (utc_timestamp now),
            mo_details := dset ''last_execution'' (PDict (execution_to_dict e)) (mo_details order)\<rparr>)"

section \<open>The LIVE_SIM position of an execution\<close>

definition execution_position_id :: "managed_order \<Rightarrow> broker_execution_event \<Rightarrow> string" where
  "execution_position_id order e =
     (let given = str_or (mo_position_id order) (text_or (mo_details order) ''position_id'' []) in
      if given \<noteq> [] then given
      else ''REBOOT_LIVE_SIM:'' @ str_or (ex_account e) (mo_account order) @ '':'' @ ex_code e)"

definition sync_live_sim_position :: "managed_order \<Rightarrow> broker_execution_event \<Rightarrow> order_db \<Rightarrow> order_db" where
  "sync_live_sim_position order e db =
     (let side = upper (str_or (mo_side order) (ex_side e));
          details = mo_details order;
          position_id = execution_position_id order e;
          current = get_live_sim_position db position_id;
          current_qty = (case current of Some r \<Rightarrow> pr_current_qty r | None \<Rightarrow> 0);
          current_entry = (case current of Some r \<Rightarrow> pr_entry_qty r | None \<Rightarrow> 0);
          filled_delta = or_int (ex_filled_quantity e) (or_int (ex_quantity e) (mo_filled_quantity order));
          next_qty = (if side = BUY then max current_qty filled_delta else max 0 (current_qty - filled_delta));
          status = (if side = BUY then (if 0 < next_qty then ''OPEN'' else ''CLOSED'')
                    else (if next_qty \<le> 0 then ''CLOSED'' else ''OPEN''));
          entry_qty = (if side = BUY then max current_entry next_qty
                       else or_int current_entry (or_int current_qty filled_delta))
      in save_live_sim_position
           \<lparr>pr_id = 0, pr_position_id = position_id,
            pr_candidate_instance_id = (if mo_candidate_id order = 0 then [] else show_int (mo_candidate_id order)),
            pr_code = str_or (ex_code e) (mo_code order), pr_name = text_or details ''name'' [],
            pr_account_masked = str_or (ex_account e) (mo_account order),
            pr_opened_at = stamp_or (case current of Some r \<Rightarrow> pr_opened_at r | None \<Rightarrow> Blank) (ex_timestamp e),
            pr_closed_at = (if status = ''CLOSED'' then ex_timestamp e else Blank),
            pr_entry_qty = entry_qty, pr_entry_avg_price = or_int (ex_price e) (mo_price order),
            pr_current_qty = next_qty, pr_realized_qty = (if side = BUY then 0 else filled_delta),
            pr_status = status, pr_theme_id = text_or details ''theme_id'' [],
            pr_theme_name = text_or details ''theme_name'' [], pr_last_order_id = mo_id order,
            pr_updated_at = ex_timestamp e\<rparr> db)"

definition handle_execution_event :: "order_db \<Rightarrow> broker_execution_event \<Rightarrow> time \<Rightarrow> order_db \<times> execution_result" where
  "handle_execution_event db e now =
     (case find_execution_order db e of
        None \<Rightarrow>
          (reconcile_event db 0 0 ''execution_unmatched'' [] (order_status_value RECONCILE_REQUIRED)
             (execution_to_dict e) ''execution did not match managed order'',
           \<lparr>xr_matched = False, xr_order_id = 0, xr_status = RECONCILE_REQUIRED, xr_filled_quantity = 0,
            xr_remaining_quantity = 0, xr_reason_codes = [''UNMATCHED_EXECUTION'']\<rparr>)
      | Some order \<Rightarrow>
          let updated = apply_fill order e now;
              db1 = fst (save_managed_order updated db);
              db2 = update_intent_status db1 (mo_intent_id order)
                (if mo_status updated = order_status.FILLED then intent_status.FILLED else intent_status.PARTIALLY_FILLED)
                (execution_to_dict e);
              db3 = reconcile_event db2 (mo_id order) (mo_intent_id order) ''execution_fill''
                (order_status_value (mo_status order)) (order_status_value (mo_status updated)) (execution_to_dict e) [];
              db4 = sync_live_sim_position updated e db3
          in (db4, \<lparr>xr_matched = True, xr_order_id = mo_id order, xr_status = mo_status updated,
                    xr_filled_quantity = mo_filled_quantity updated,
                    xr_remaining_quantity = mo_remaining_quantity updated, xr_reason_codes = []\<rparr>))"

definition handle_execution :: "order_db \<Rightarrow> pydict \<Rightarrow> time \<Rightarrow> order_db \<times> (py_error + execution_result)" where
  "handle_execution db payload now =
     (case execution_from_dict now payload of
        Inl err \<Rightarrow> (db, Inl err)
      | Inr e \<Rightarrow> (let (db', result) = handle_execution_event db e now in (db', Inr result)))"

section \<open>Handlers change one order\<close>

lemma update_intent_ok [simp]: "db_ok db \<Longrightarrow> db_ok (update_intent_status db i st payload)"
  by (auto simp: update_intent_status_def same_intent_def intro!: save_intent_update(3) split: option.split)

lemma update_intent_orders [simp]:
  "get_managed_order (update_intent_status db i st payload) = get_managed_order db"
  "db_orders (update_intent_status db i st payload) = db_orders db"
  "db_positions (update_intent_status db i st payload) = db_positions db"
  by (auto simp: update_intent_status_def split: option.split)

lemma reconcile_event_frame [simp]:
  "db_ok (reconcile_event db a b c d f g h) = db_ok db"
  "get_managed_order (reconcile_event db a b c d f g h) = get_managed_order db"
  "db_positions (reconcile_event db a b c d f g h) = db_positions db"
  by (simp_all add: reconcile_event_def) (simp add: append_managed_order_event_def)

lemma sync_frame [simp]:
  "db_ok db \<Longrightarrow> db_ok (sync_live_sim_position x e db)"
  "get_managed_order (sync_live_sim_position x e db) = get_managed_order db"
  by (simp_all add: sync_live_sim_position_def Let_def)

lemma find_execution_order_stored:
  assumes "db_ok db" "find_execution_order db e = Some x"
  shows "get_managed_order db (mo_id x) = Some x"
  using assms find_order_stored [OF assms(1)] find_execution_stored [OF assms(1)]
  by (auto simp: find_execution_order_def split: option.splits if_splits)

lemma apply_fill_same [simp]: "same_order x (apply_fill x e now)"
  by (simp add: same_order_def apply_fill_def Let_def)

lemma handle_execution_event_effect:
  assumes "db_ok db" "find_execution_order db e = Some x"
  shows "get_managed_order (fst (handle_execution_event db e now)) = (get_managed_order db)(mo_id x \<mapsto> apply_fill x e now)"
    and "db_ok (fst (handle_execution_event db e now))"
  using save_order_update [OF assms(1) find_execution_order_stored [OF assms] apply_fill_same [of x e now]] assms
  by (simp_all add: handle_execution_event_def Let_def)

lemma handle_execution_event_unmatched:
  "find_execution_order db e = None \<Longrightarrow> get_managed_order (fst (handle_execution_event db e now)) = get_managed_order db
     \<and> db_ok (fst (handle_execution_event db e now)) = db_ok db"
  by (simp add: handle_execution_event_def)

lemma apply_fill_quantities:
  "mo_filled_quantity (apply_fill x e now) = next_filled x e"
  "mo_remaining_quantity (apply_fill x e now) = next_remaining x e"
  "mo_status (apply_fill x e now) = (if next_remaining x e \<le> 0 then order_status.FILLED else order_status.PARTIALLY_FILLED)"
  "mo_quantity (apply_fill x e now) = mo_quantity x"
  by (simp_all add: apply_fill_def Let_def)

lemma next_remaining_bounds:
  "0 < mo_quantity x \<Longrightarrow> 0 \<le> next_remaining x e \<and> next_remaining x e \<le> max 0 (mo_quantity x - next_filled x e)"
  by (auto simp: next_remaining_def Let_def)

lemma next_remaining_mono:
  "0 < mo_filled_quantity x \<Longrightarrow> 0 < mo_remaining_quantity x \<Longrightarrow> next_remaining x e \<le> mo_remaining_quantity x"
  by (auto simp: next_remaining_def or_int_def Let_def)

text \<open>C8: An execution updates exactly the order it matches. The filled quantity becomes the larger of
  the known and the reported one, the remaining quantity is never negative, never more than what the
  filled quantity leaves and, after a first fill, never grows; the order is FILLED exactly when
  nothing remains, in particular as soon as the filled quantity reaches the ordered one.\<close>
theorem execution_updates_one_order:
  assumes "db_ok db" "find_execution_order db e = Some x" "0 < mo_quantity x"
    and "db' = fst (handle_execution_event db e now)"
  shows "\<exists>y. get_managed_order db' = (get_managed_order db)(mo_id x \<mapsto> y) \<and> db_ok db' \<and>
     mo_filled_quantity y = max (mo_filled_quantity x) (or_int (ex_filled_quantity e) (ex_quantity e)) \<and>
     0 \<le> mo_remaining_quantity y \<and>
     mo_remaining_quantity y \<le> max 0 (mo_quantity x - mo_filled_quantity y) \<and>
     (0 < mo_filled_quantity x \<and> 0 < mo_remaining_quantity x \<longrightarrow> mo_remaining_quantity y \<le> mo_remaining_quantity x) \<and>
     mo_status y = (if mo_remaining_quantity y = 0 then order_status.FILLED else order_status.PARTIALLY_FILLED) \<and>
     (mo_quantity x \<le> mo_filled_quantity y \<longrightarrow> mo_status y = order_status.FILLED)"
proof -
  let ?y = "apply_fill x e now"
  note b = next_remaining_bounds [OF assms(3), of e]
  have "mo_status ?y = (if mo_remaining_quantity ?y = 0 then order_status.FILLED else order_status.PARTIALLY_FILLED)"
    using b by (simp add: apply_fill_quantities)
  moreover have "mo_quantity x \<le> mo_filled_quantity ?y \<longrightarrow> mo_status ?y = order_status.FILLED"
    using b by (auto simp: apply_fill_quantities)
  moreover have "0 < mo_filled_quantity x \<and> 0 < mo_remaining_quantity x \<longrightarrow> mo_remaining_quantity ?y \<le> mo_remaining_quantity x"
    using next_remaining_mono [of x e] by (simp add: apply_fill_quantities)
  ultimately show ?thesis
    using handle_execution_event_effect [OF assms(1,2), of now] b assms(4)
    by (intro exI [of _ ?y]) (simp add: apply_fill_quantities next_filled_def)
qed

definition acked_db :: order_db where
  "acked_db = fst (save_managed_order (sample_order_row\<lparr>mo_id := 1, mo_status := ACKED_BY_GATEWAY, mo_order_no := ''77'',
     mo_command_id := ''cmd-1''\<rparr>) sample_db)"

definition fill_of :: "int \<Rightarrow> int \<Rightarrow> broker_execution_event" where
  "fill_of filled remaining = sample_execution\<lparr>ex_quantity := 0, ex_filled_quantity := filled, ex_remaining_quantity := remaining\<rparr>"

lemma acked_db_ok: "db_ok acked_db"
proof -
  let ?p = "sample_order_row\<lparr>mo_id := 1, mo_status := ACKED_BY_GATEWAY, mo_order_no := ''77'', mo_command_id := ''cmd-1''\<rparr>"
  have "same_order (sample_order_row\<lparr>mo_id := 1\<rparr>) ?p" by (simp add: same_order_def)
  from save_order_update(3) [OF sample_db_ok sample_db_get this] show ?thesis by (simp add: acked_db_def)
qed

lemma acked_db_finds: "find_execution_order acked_db (fill_of n m) =
    Some (sample_order_row\<lparr>mo_id := 1, mo_status := ACKED_BY_GATEWAY, mo_order_no := ''77'', mo_command_id := ''cmd-1''\<rparr>)"
proof -
  have "find_managed_order_by_order_no acked_db ''77'' =
    Some (sample_order_row\<lparr>mo_id := 1, mo_status := ACKED_BY_GATEWAY, mo_order_no := ''77'', mo_command_id := ''cmd-1''\<rparr>)"
    by code_simp
  then show ?thesis by (simp add: find_execution_order_def fill_of_def sample_execution_def)
qed

theorem execution_updates_one_order_witness:
  "\<exists>y. get_managed_order (fst (handle_execution_event acked_db (fill_of 4 6) 9)) 1 = Some y \<and>
     mo_filled_quantity y = 4 \<and> mo_remaining_quantity y \<le> 6"
proof -
  have q: "0 < mo_quantity (sample_order_row\<lparr>mo_id := 1, mo_status := ACKED_BY_GATEWAY, mo_order_no := ''77'', mo_command_id := ''cmd-1''\<rparr>)"
    by (simp add: sample_order_row_def)
  from execution_updates_one_order [OF acked_db_ok acked_db_finds q refl, of 4 6 9]
  obtain y where "get_managed_order (fst (handle_execution_event acked_db (fill_of 4 6) 9)) 1 = Some y"
    "mo_filled_quantity y = max 0 4" "mo_remaining_quantity y \<le> max 0 (10 - mo_filled_quantity y)"
    by (auto simp: sample_order_row_def fill_of_def or_int_def)
  then show ?thesis by auto
qed

section \<open>Acknowledgements\<close>

lemma handle_command_ack_effect:
  assumes "db_ok db" "c = text_or payload ''command_id'' []" "c \<noteq> []"
    and "find_managed_order_by_command_id db c = Some x"
    and "ack_result_code (dict_or payload ''order_result'') = Inr code"
    and "st = fst (keep_progress (mo_status x)
           (ack_target (text_or payload ''command_type'' []) (upper (text_or payload ''status'' ''ACKED'')) code))"
    and "res = handle_command_ack db payload now"
  shows "db_ok (fst res)"
    and "\<exists>y. get_managed_order (fst res) = (get_managed_order db)(mo_id x \<mapsto> y) \<and> same_order x y \<and> mo_status y = st \<and>
           mo_filled_quantity y = mo_filled_quantity x \<and> mo_remaining_quantity y = mo_remaining_quantity x \<and>
           mo_quantity y = mo_quantity x"
proof -
  have x: "get_managed_order db (mo_id x) = Some x" using find_order_stored(1) [OF assms(1,4)] by simp
  define y where "y = x\<lparr>mo_status := st,
      mo_order_no := py_str (py_or (py_or (dget payload ''order_no'') (dget (dict_or payload ''order_result'') ''order_no''))
                                   (PStr (mo_order_no x))),
      mo_acked_at := time_or payload ''timestamp'' now, mo_updated_at := time_or payload ''timestamp'' now,
      mo_details := dset ''last_error''
        (PStr (py_str (py_or (py_or (py_or (dget payload ''message'') (dget payload ''error''))
           (dget (dict_or payload ''order_result'') ''message'')) (PStr []))))
        (dset ''last_command_ack'' (PDict payload) (mo_details x))\<rparr>"
  have same: "same_order x y" by (simp add: same_order_def y_def)
  note u = save_order_update [OF assms(1) x same]
  have res: "\<exists>i a b c' d f g h. fst res = reconcile_event (update_intent_status (fst (save_managed_order y db)) (mo_intent_id x) i payload) a b c' d f g h"
    using assms(3-6) unfolding assms(7) y_def
    by (simp add: handle_command_ack_def Let_def case_prod_beta assms(2) [symmetric]) blast
  with u show "db_ok (fst res)" by auto
  from res u same show "\<exists>y. get_managed_order (fst res) = (get_managed_order db)(mo_id x \<mapsto> y) \<and> same_order x y \<and> mo_status y = st \<and>
           mo_filled_quantity y = mo_filled_quantity x \<and> mo_remaining_quantity y = mo_remaining_quantity x \<and>
           mo_quantity y = mo_quantity x"
    by (intro exI [of _ y]) (auto simp: y_def)
qed

text \<open>The status that an acknowledgement leaves behind. A plain acknowledgement respects a fill or a
  cancellation that came first; a rejection or a cancel acknowledgement respects nothing: it takes
  even a FILLED order to REJECTED_BY_GATEWAY or CANCELLED, with its filled quantity kept.\<close>
lemma ack_status_rule:
  assumes "db_ok db" "text_or payload ''command_id'' [] \<noteq> []"
    and "find_managed_order_by_command_id db (text_or payload ''command_id'' []) = Some x"
    and "ack_result_code (dict_or payload ''order_result'') = Inr code"
    and "t = fst (ack_target (text_or payload ''command_type'' []) (upper (text_or payload ''status'' ''ACKED'')) code)"
    and "db' = fst (handle_command_ack db payload now)"
  shows "\<exists>y. get_managed_order db' = (get_managed_order db)(mo_id x \<mapsto> y) \<and>
     mo_filled_quantity y = mo_filled_quantity x \<and>
     (t = ACKED_BY_GATEWAY \<and> mo_status x \<in> {order_status.PARTIALLY_FILLED, order_status.FILLED, order_status.CANCELLED}
        \<longrightarrow> mo_status y = mo_status x) \<and>
     (t \<noteq> ACKED_BY_GATEWAY \<longrightarrow> mo_status y = t)"
  using handle_command_ack_effect(2) [OF assms(1) refl assms(2,3,4) refl refl, of now] assms(5,6)
  by (auto simp: keep_progress_def)

definition filled_db :: order_db where
  "filled_db = fst (save_managed_order (sample_order_row\<lparr>mo_id := 1, mo_status := order_status.FILLED, mo_order_no := ''77'',
     mo_command_id := ''cmd-1'', mo_filled_quantity := 10, mo_remaining_quantity := 0\<rparr>) sample_db)"

definition late_reject :: pydict where
  "late_reject = [(''command_id'', PStr ''cmd-1''), (''status'', PStr ''rejected'')]"

section \<open>Runs of reports\<close>

datatype gateway_report = AckReport pydict time | FillReport pydict time

fun apply_report :: "order_db \<Rightarrow> gateway_report \<Rightarrow> order_db" where
  "apply_report db (AckReport payload now) = fst (handle_command_ack db payload now)"
| "apply_report db (FillReport payload now) = fst (handle_execution db payload now)"

definition progressed :: "managed_order \<Rightarrow> managed_order \<Rightarrow> bool" where
  "progressed x y \<longleftrightarrow> same_order x y \<and> mo_quantity y = mo_quantity x \<and> mo_filled_quantity x \<le> mo_filled_quantity y"

lemma progressed_refl [simp]: "progressed x x"
  by (simp add: progressed_def same_order_def)

lemma progressed_trans: "progressed x y \<Longrightarrow> progressed y z \<Longrightarrow> progressed x z"
  by (auto simp: progressed_def same_order_def)

lemma one_order_progress:
  assumes "get_managed_order db' = (get_managed_order db)(mo_id x \<mapsto> y)" "get_managed_order db (mo_id x) = Some x" "progressed x y"
  shows "\<forall>k z. get_managed_order db k = Some z \<longrightarrow> (\<exists>z'. get_managed_order db' k = Some z' \<and> progressed z z')"
  using assms by auto

lemma handle_command_ack_progress:
  assumes "db_ok db"
  shows "db_ok (fst (handle_command_ack db payload now)) \<and>
    (\<forall>k z. get_managed_order db k = Some z \<longrightarrow>
       (\<exists>z'. get_managed_order (fst (handle_command_ack db payload now)) k = Some z' \<and> progressed z z'))"
proof (cases "text_or payload ''command_id'' [] = [] \<or> find_managed_order_by_command_id db (text_or payload ''command_id'' []) = None
    \<or> (\<exists>err. ack_result_code (dict_or payload ''order_result'') = Inl err)")
  case True
  then have "fst (handle_command_ack db payload now) = db"
    by (auto simp: handle_command_ack_def Let_def split: option.split)
  with assms show ?thesis by auto
next
  case False
  then obtain x code where x: "text_or payload ''command_id'' [] \<noteq> []"
      "find_managed_order_by_command_id db (text_or payload ''command_id'' []) = Some x"
      "ack_result_code (dict_or payload ''order_result'') = Inr code"
    by (cases "ack_result_code (dict_or payload ''order_result'')") auto
  note e = handle_command_ack_effect [OF assms refl x refl refl, of now]
  from find_order_stored(1) [OF assms x(2)] have "get_managed_order db (mo_id x) = Some x" by simp
  with e(2) have "\<forall>k z. get_managed_order db k = Some z \<longrightarrow>
      (\<exists>z'. get_managed_order (fst (handle_command_ack db payload now)) k = Some z' \<and> progressed z z')"
    by (auto simp: progressed_def same_order_def)
  with e(1) show ?thesis by blast
qed

lemma handle_execution_progress:
  assumes "db_ok db"
  shows "db_ok (fst (handle_execution db payload now)) \<and>
    (\<forall>k z. get_managed_order db k = Some z \<longrightarrow>
       (\<exists>z'. get_managed_order (fst (handle_execution db payload now)) k = Some z' \<and> progressed z z'))"
proof (cases "execution_from_dict now payload")
  case (Inl err)
  with assms show ?thesis by (auto simp: handle_execution_def)
next
  case (Inr e)
  then have eq: "fst (handle_execution db payload now) = fst (handle_execution_event db e now)"
    by (simp add: handle_execution_def case_prod_beta)
  show ?thesis
  proof (cases "find_execution_order db e")
    case None
    with assms handle_execution_event_unmatched [OF None, of now] show ?thesis unfolding eq by auto
  next
    case (Some x)
    note eff = handle_execution_event_effect [OF assms Some, of now]
    have "progressed x (apply_fill x e now)"
      by (simp add: progressed_def apply_fill_quantities next_filled_def)
    from one_order_progress [OF eff(1) find_execution_order_stored [OF assms Some] this] eff(2)
    show ?thesis unfolding eq by blast
  qed
qed

text \<open>Over any run of acknowledgements and executions, malformed ones included, no order is lost or
  renamed, no ordered quantity changes, and no filled quantity ever decreases.\<close>
lemma fills_never_decrease:
  assumes "db_ok db" "get_managed_order db k = Some x"
  shows "\<exists>y. get_managed_order (foldl apply_report db reports) k = Some y \<and> mo_filled_quantity x \<le> mo_filled_quantity y \<and>
     mo_quantity y = mo_quantity x \<and> mo_idempotency_key y = mo_idempotency_key x \<and>
     db_ok (foldl apply_report db reports)"
proof -
  have "\<exists>y. get_managed_order (foldl apply_report db reports) k = Some y \<and> progressed x y \<and>
      db_ok (foldl apply_report db reports)"
    using assms
  proof (induction reports arbitrary: db x)
    case (Cons report reports)
    have step: "db_ok (apply_report db report) \<and> (\<exists>y. get_managed_order (apply_report db report) k = Some y \<and> progressed x y)"
    proof (cases report)
      case (AckReport payload now)
      with handle_command_ack_progress [OF Cons.prems(1), of payload now] Cons.prems(2) show ?thesis by auto
    next
      case (FillReport payload now)
      with handle_execution_progress [OF Cons.prems(1), of payload now] Cons.prems(2) show ?thesis by auto
    qed
    then obtain y where y: "get_managed_order (apply_report db report) k = Some y" "progressed x y"
      and ok: "db_ok (apply_report db report)" by blast
    from Cons.IH [OF ok y(1)] y(2) show ?case by (auto intro: progressed_trans)
  qed auto
  then show ?thesis by (auto simp: progressed_def same_order_def)
qed

section \<open>Positions count a repeated sell again\<close>

lemma position_after_execution:
  assumes "find_execution_order db e = Some x" "upper (str_or (mo_side x) (ex_side e)) = SELL"
    and "pid = execution_position_id (apply_fill x e now) e" "get_live_sim_position db pid = Some r"
    and "f = or_int (ex_filled_quantity e) (ex_quantity e)" "f \<noteq> 0"
  shows "\<exists>r'. get_live_sim_position (fst (handle_execution_event db e now)) pid = Some r' \<and>
     pr_current_qty r' = max 0 (pr_current_qty r - f)"
proof -
  let ?y = "apply_fill x e now"
  define db3 where "db3 = reconcile_event (update_intent_status (fst (save_managed_order ?y db)) (mo_intent_id x)
      (if mo_status ?y = order_status.FILLED then intent_status.FILLED else intent_status.PARTIALLY_FILLED) (execution_to_dict e))
      (mo_id x) (mo_intent_id x) ''execution_fill'' (order_status_value (mo_status x)) (order_status_value (mo_status ?y))
      (execution_to_dict e) []"
  have "db_positions db3 = db_positions db" by (simp add: db3_def)
  then have cur: "get_live_sim_position db3 pid = Some r" using assms(4) by (simp add: get_live_sim_position_def)
  have side: "mo_side ?y = mo_side x" by (simp add: apply_fill_def Let_def)
  have f: "or_int (ex_filled_quantity e) (or_int (ex_quantity e) (mo_filled_quantity ?y)) = f"
    using assms(5,6) by (auto simp: or_int_def)
  have "fst (handle_execution_event db e now) = sync_live_sim_position ?y e db3"
    using assms(1) by (simp add: handle_execution_event_def Let_def db3_def)
  moreover have "SELL \<noteq> BUY" by (simp add: side_names)
  ultimately show ?thesis
    using assms(2,3) cur side f
    by (simp add: sync_live_sim_position_def Let_def position_after_save position_conflict_def)
qed

text \<open>The remaining quantity that a report leads to, with its intermediate value named.\<close>

definition reported_remaining :: "managed_order \<Rightarrow> broker_execution_event \<Rightarrow> int" where
  "reported_remaining x e =
     (if ex_remaining_quantity e \<le> 0 then max 0 (mo_quantity x - next_filled x e) else ex_remaining_quantity e)"

lemma next_remaining_alt:
  "0 < mo_quantity x \<Longrightarrow>
   next_remaining x e = min
     (if 0 < mo_filled_quantity x \<or> mo_status x = order_status.PARTIALLY_FILLED
      then min (max 0 (or_int (mo_remaining_quantity x) (max 0 (mo_quantity x - mo_filled_quantity x)))) (reported_remaining x e)
      else reported_remaining x e)
     (max 0 (mo_quantity x - next_filled x e))"
  by (simp add: next_remaining_def Let_def reported_remaining_def)

lemma next_remaining_zero:
  assumes "0 < mo_quantity x" "0 \<le> mo_remaining_quantity x" "next_remaining x e = 0"
  shows "mo_quantity x \<le> next_filled x e"
proof (rule ccontr)
  assume "\<not> ?thesis"
  then have lt: "next_filled x e < mo_quantity x" by simp
  moreover have "mo_filled_quantity x \<le> next_filled x e" by (simp add: next_filled_def)
  ultimately have "0 < or_int (mo_remaining_quantity x) (max 0 (mo_quantity x - mo_filled_quantity x))"
    using assms(2) by (auto simp: or_int_def)
  moreover have "0 < reported_remaining x e" using lt by (simp add: reported_remaining_def)
  ultimately have "0 < next_remaining x e" using lt by (simp add: next_remaining_alt [OF assms(1)])
  with assms(3) show False by simp
qed

lemma next_remaining_again:
  assumes "0 < mo_quantity x" "0 \<le> mo_remaining_quantity x"
  shows "next_remaining (apply_fill x e now) e = next_remaining x e"
proof -
  let ?y = "apply_fill x e now"
  have q: "mo_quantity ?y = mo_quantity x" "0 < mo_quantity ?y" using assms(1) by (simp_all add: apply_fill_quantities)
  have F: "next_filled ?y e = next_filled x e" by (simp add: next_filled_def apply_fill_quantities)
  then have R: "reported_remaining ?y e = reported_remaining x e" by (simp add: reported_remaining_def q)
  have b: "0 \<le> next_remaining x e" "next_remaining x e \<le> max 0 (mo_quantity x - next_filled x e)"
    using next_remaining_bounds [OF assms(1), of e] by simp_all
  have le: "next_remaining x e \<le> reported_remaining x e"
    by (auto simp: next_remaining_alt [OF assms(1)] min_le_iff_disj)
  show ?thesis
  proof (cases "next_remaining x e = 0")
    case True
    with next_remaining_zero [OF assms] have "mo_quantity x \<le> next_filled x e" by simp
    then have "next_remaining ?y e = 0"
      using next_remaining_bounds [OF q(2), of e] by (simp add: F q(1))
    with True show ?thesis by simp
  next
    case False
    with b have pos: "0 < next_remaining x e" by simp
    have "mo_status ?y = order_status.PARTIALLY_FILLED" "mo_remaining_quantity ?y = next_remaining x e"
      using pos by (simp_all add: apply_fill_quantities)
    then show ?thesis
      using pos le b by (simp add: next_remaining_alt [OF q(2)] R F q(1) or_int_def)
  qed
qed

text \<open>Redelivery is harmless for the order and harmful for the position. When the same execution of a
  sell is handled twice, the order's filled and remaining quantities after the second time are those
  after the first, but the position is reduced by the reported quantity both times.\<close>
lemma repeated_sell_reduces_position_twice:
  assumes ok: "db_ok db" and x: "find_execution_order db e = Some x"
    and side: "upper (mo_side x) = SELL" "mo_side x \<noteq> []"
    and pos: "mo_position_id x \<noteq> []" "get_live_sim_position db (mo_position_id x) = Some r"
    and f: "f = or_int (ex_filled_quantity e) (ex_quantity e)" "f \<noteq> 0" "0 < mo_quantity x" "0 \<le> mo_remaining_quantity x"
    and db1: "db1 = fst (handle_execution_event db e now)"
    and again: "find_execution_order db1 e = Some (apply_fill x e now)"
    and db2: "db2 = fst (handle_execution_event db1 e now)"
  shows "(\<exists>y1 y2. get_managed_order db1 (mo_id x) = Some y1 \<and> get_managed_order db2 (mo_id x) = Some y2 \<and>
            mo_filled_quantity y2 = mo_filled_quantity y1 \<and> mo_remaining_quantity y2 = mo_remaining_quantity y1) \<and>
     (\<exists>r2. get_live_sim_position db2 (mo_position_id x) = Some r2 \<and>
            pr_current_qty r2 = max 0 (max 0 (pr_current_qty r - f) - f))"
proof
  let ?y = "apply_fill x e now"
  have fields: "mo_side ?y = mo_side x" "mo_position_id ?y = mo_position_id x" "mo_id ?y = mo_id x" "mo_quantity ?y = mo_quantity x"
    by (simp_all add: apply_fill_def Let_def)
  note e1 = handle_execution_event_effect [OF ok x, of now, folded db1]
  note e2 = handle_execution_event_effect [OF e1(2) again, of now, folded db2]
  have filled: "next_filled ?y e = next_filled x e"
    by (simp add: next_filled_def apply_fill_quantities)
  have "next_remaining ?y e = next_remaining x e" by (rule next_remaining_again [OF f(3,4)])
  with e1(1) e2(1) filled fields show "\<exists>y1 y2. get_managed_order db1 (mo_id x) = Some y1 \<and> get_managed_order db2 (mo_id x) = Some y2 \<and>
            mo_filled_quantity y2 = mo_filled_quantity y1 \<and> mo_remaining_quantity y2 = mo_remaining_quantity y1"
    by (auto simp: apply_fill_quantities)
  have pid: "execution_position_id (apply_fill z e now) e = mo_position_id x" if "mo_position_id z = mo_position_id x" for z
    using that pos(1) by (simp add: execution_position_id_def apply_fill_def Let_def str_or_def)
  have s: "upper (str_or (mo_side x) (ex_side e)) = SELL" using side by (simp add: str_or_def)
  obtain r1 where r1: "get_live_sim_position db1 (mo_position_id x) = Some r1" "pr_current_qty r1 = max 0 (pr_current_qty r - f)"
    using position_after_execution [OF x s refl, of now r f] pid [of x] pos(2) f(1,2) db1 by auto
  show "\<exists>r2. get_live_sim_position db2 (mo_position_id x) = Some r2 \<and>
            pr_current_qty r2 = max 0 (max 0 (pr_current_qty r - f) - f)"
    using position_after_execution [OF again _ refl, of now r1 f] pid [OF fields(2)] r1 f(1,2) db2 s fields(1) by auto
qed

definition selling_order :: managed_order where
  "selling_order = sample_order_row\<lparr>mo_side := SELL, mo_position_id := ''pos-1'', mo_status := ACKED_BY_GATEWAY, mo_order_no := ''77''\<rparr>"

definition open_position :: position_row where
  "open_position = \<lparr>pr_id = 0, pr_position_id = ''pos-1'', pr_candidate_instance_id = [], pr_code = ''005930'', pr_name = [],
     pr_account_masked = ''81001122'', pr_opened_at = At 0, pr_closed_at = Blank, pr_entry_qty = 20,
     pr_entry_avg_price = 70000, pr_current_qty = 20, pr_realized_qty = 0, pr_status = ''OPEN'', pr_theme_id = [],
     pr_theme_name = [], pr_last_order_id = 0, pr_updated_at = At 0\<rparr>"

definition selling_db :: order_db where
  "selling_db = save_live_sim_position open_position (fst (save_managed_order selling_order empty_db))"

text \<open>Twenty shares, one sell of four that is reported twice: twelve shares are left on the books.\<close>

end
