(* ===== verification/Unfilled_Cancel.thy ===== *)
theory Unfilled_Cancel
  imports Order_Risk Order_Reconcile
begin

text \<open>
  Cancelling orders that stay unfilled (\<open>trading/strategy/unfilled_cancel.py\<close>). The scheduler
  works on the order tables and on the gateway store, which together with the supply of fresh
  identifiers form the state of the order manager. \<open>fresh n\<close> is the \<open>n\<close>-th value of \<open>uuid4().hex\<close>.
  The snapshot of the gateway is taken at the time of the run.
\<close>

text \<open>
  The order manager also asks the candidate state machine to block candidates; \<open>ms_blocks\<close> is the
  list of those requests (trade date, code, stage, reason). \<open>ms_last_run_at\<close> belongs to its timer.
\<close>

record block_request =
  br_trade_date :: string
  br_code :: string
  br_stage :: string
  br_reason :: string

record manager_state =
  ms_db :: order_db
  ms_gateway :: gateway_store
  ms_ids :: nat
  ms_blocks :: "block_request list"
  ms_last_run_at :: stamp

definition new_message_id :: "(nat \<Rightarrow> string) \<Rightarrow> string \<Rightarrow> nat \<Rightarrow> string" where
  "new_message_id fresh prefix n = prefix @ ''_'' @ fresh n"

definition active_unfilled_orders :: "order_db \<Rightarrow> managed_order list" where
  "active_unfilled_orders db =
     filter (\<lambda>x. 0 < mo_remaining_quantity x)
       (list_managed_orders db [] [ACKED_BY_GATEWAY, order_status.PARTIALLY_FILLED] [] [] 1000 0)"

definition has_pending_cancel :: "order_db \<Rightarrow> int \<Rightarrow> bool" where
  "has_pending_cancel db order_id \<longleftrightarrow> order_id = 0 \<or>
     (case get_managed_order db order_id of Some x \<Rightarrow> mo_status x = CANCEL_PENDING | None \<Rightarrow> False)"

definition cancel_guard_passes :: "order_config \<Rightarrow> gateway_status \<Rightarrow> bool" where
  "cancel_guard_passes cfg st \<longleftrightarrow>
     cfg_enabled cfg \<and> cfg_mode cfg = LIVE_SIM \<and> cfg_allow_live_sim_orders cfg \<and> \<not> cfg_observe_only cfg \<and>
     gs_kiwoom_logged_in st \<and> gs_orderable st \<and> gs_heartbeat_ok st \<and>
     broker_environment_state [] st = SIMULATION"

definition cancel_reasons :: "order_config \<Rightarrow> order_db \<Rightarrow> gateway_status \<Rightarrow> time \<Rightarrow> managed_order \<Rightarrow> string list" where
  "cancel_reasons cfg db st now x =
     (let age = age_of (stamp_or (stamp_or (mo_acked_at x) (mo_sent_at x)) (mo_created_at x)) now in
      reason_if (mo_remaining_quantity x \<le> 0) ''NO_REMAINING_QUANTITY'' @
      reason_if (mo_order_no x = []) ''ORIGINAL_ORDER_NO_MISSING'' @
      reason_if (case age of None \<Rightarrow> True
                 | Some a \<Rightarrow> a < or_int (mo_cancel_after_sec x) (cfg_cancel_unfilled_after_sec cfg) * second)
        ''CANCEL_AGE_NOT_REACHED'' @
      reason_if (has_pending_cancel db (mo_id x)) ''CANCEL_ALREADY_PENDING'' @
      reason_if (\<not> cancel_guard_passes cfg st) ''CANCEL_BROKER_GUARD_BLOCK'')"

definition cancel_key :: "time \<Rightarrow> managed_order \<Rightarrow> string" where
  "cancel_key now x = join (CHR '':'') [''reboot_live_sim_cancel'', str_or (mo_trade_date x) (date_text now),
     (if mo_id x = 0 then ''None'' else show_int (mo_id x)), mo_order_no x]"

definition cancel_decision_for :: "order_config \<Rightarrow> order_db \<Rightarrow> gateway_status \<Rightarrow> time \<Rightarrow> managed_order \<Rightarrow> cancel_decision" where
  "cancel_decision_for cfg db st now x =
     (let reasons = cancel_reasons cfg db st now x in
      \<lparr>cd_should_cancel = (reasons = []), cd_order_id = mo_id x, cd_code = mo_code x, cd_order_no = mo_order_no x,
       cd_remaining_quantity = mo_remaining_quantity x, cd_idempotency_key = cancel_key now x,
       cd_reason_codes = reasons,
       cd_age = age_of (stamp_or (stamp_or (mo_acked_at x) (mo_sent_at x)) (mo_created_at x)) now\<rparr>)"

definition build_decisions :: "order_config \<Rightarrow> order_db \<Rightarrow> gateway_status \<Rightarrow> time \<Rightarrow> cancel_decision list" where
  "build_decisions cfg db st now = map (cancel_decision_for cfg db st now) (active_unfilled_orders db)"

definition cancel_command_for ::
  "order_config \<Rightarrow> managed_order \<Rightarrow> cancel_decision \<Rightarrow> string \<Rightarrow> time \<Rightarrow> gateway_command" where
  "cancel_command_for cfg order d command_id now =
     (let side = (if upper (mo_side order) = BUY then CANCEL_BUY else CANCEL_SELL) in
      \<lparr>gc_type = ''cancel_order'',
       gc_payload =
         [(''account'', PStr (mo_account order)), (''code'', PStr (cd_code d)),
          (''quantity'', PInt (cd_remaining_quantity d)), (''price'', PInt 0), (''side'', PStr side),
          (''order_type'', PInt (if side = CANCEL_BUY then 3 else 4)), (''hoga'', PStr (cfg_order_hoga cfg)),
          (''original_order_no'', PStr (cd_order_no d)), (''tag'', PStr (''REBOOT_CANCEL_'' @ cd_code d)),
          (''strategy'', PStr ''reboot_v2_cancel''), (''order_mode'', PStr ''LIVE_SIM''),
          (''broker_env'', PStr ''SIMULATION''), (''managed_order_id'', PInt (cd_order_id d)),
          (''idempotency_key'', PStr (cd_idempotency_key d))],
       gc_command_id = command_id, gc_request_id = [], gc_timestamp = utc_timestamp now, gc_source = ''core'',
       gc_idempotency_key = cd_idempotency_key d\<rparr>)"

definition set_intent_status :: "order_db \<Rightarrow> int \<Rightarrow> intent_status \<Rightarrow> order_db" where
  "set_intent_status db intent_id status =
     (case get_managed_order_intent db intent_id of
        None \<Rightarrow> db
      | Some intent \<Rightarrow> fst (save_managed_order_intent (intent\<lparr>mi_status := status\<rparr>) db))"

definition queue_cancel ::
  "(string \<Rightarrow> pydict \<Rightarrow> string) \<Rightarrow> (nat \<Rightarrow> string) \<Rightarrow> order_config \<Rightarrow> time \<Rightarrow> manager_state \<Rightarrow> cancel_decision \<Rightarrow> manager_state \<times> bool" where
  "queue_cancel digest fresh cfg now s d =
     (if \<not> cd_should_cancel d \<or> cd_order_id d = 0 then (s, False)
      else case get_managed_order (ms_db s) (cd_order_id d) of
        None \<Rightarrow> (s, False)
      | Some order \<Rightarrow>
          let command = cancel_command_for cfg order d (new_message_id fresh ''cmd_cancel'' (ms_ids s)) now;
              (g, result) = enqueue_command digest (ms_gateway s) command (Some HIGH)
                (Some (cfg_command_ttl_sec cfg)) (Some (cfg_command_max_attempts cfg))
                [(''runtime'', PStr ''REBOOT_LIVE_SIM''), (''managed_order_id'', PInt (cd_order_id d)), (''cancel'', PBool True)] now;
              accepted = er_accepted result;
              status = (if accepted then CANCEL_PENDING else RECONCILE_REQUIRED);
              saved = order\<lparr>mo_status := status,
                mo_command_id := (if accepted then gc_command_id command else mo_command_id order),
                mo_updated_at := At now,
                mo_details := dset ''cancel_enqueue_result'' (PDict (enqueue_result_to_dict result))
                                (dset ''last_cancel_command'' (PDict (gateway_command_to_dict command)) (mo_details order))\<rparr>;
              db1 = fst (save_managed_order saved (ms_db s));
              db2 = set_intent_status db1 (mo_intent_id order) (if accepted then CANCEL_REQUESTED else intent_status.FAILED);
              db3 = append_managed_order_event
                \<lparr>oe_order_id = mo_id order, oe_intent_id = mo_intent_id order,
                 oe_event_type = (if accepted then ''cancel_queued'' else ''cancel_rejected''),
                 oe_status_from = order_status_value (mo_status order), oe_status_to = order_status_value status,
                 oe_message = er_reason result, oe_payload = CancelPayload d command\<rparr> db2
          in (s\<lparr>ms_db := db3, ms_gateway := g, ms_ids := Suc (ms_ids s)\<rparr>, accepted))"

record cancel_summary =
  cs_checked_count :: int
  cs_queued_cancel_count :: int
  cs_skipped_count :: int

fun queue_cancels ::
  "(string \<Rightarrow> pydict \<Rightarrow> string) \<Rightarrow> (nat \<Rightarrow> string) \<Rightarrow> order_config \<Rightarrow> time \<Rightarrow> cancel_decision list \<Rightarrow>
   manager_state \<Rightarrow> int \<Rightarrow> int \<Rightarrow> manager_state \<times> int \<times> int" where
  "queue_cancels digest fresh cfg now [] s queued skipped = (s, queued, skipped)"
| "queue_cancels digest fresh cfg now (d # ds) s queued skipped =
     (if cd_should_cancel d then
        (let (s', accepted) = queue_cancel digest fresh cfg now s d
         in queue_cancels digest fresh cfg now ds s' (if accepted then queued + 1 else queued)
              (if accepted then skipped else skipped + 1))
      else queue_cancels digest fresh cfg now ds s queued (skipped + 1))"

definition run_unfilled_cancel ::
  "(string \<Rightarrow> pydict \<Rightarrow> string) \<Rightarrow> (nat \<Rightarrow> string) \<Rightarrow> order_config \<Rightarrow> time \<Rightarrow> manager_state \<Rightarrow> manager_state \<times> cancel_summary" where
  "run_unfilled_cancel digest fresh cfg now s =
     (let decisions = build_decisions cfg (ms_db s) (snapshot_at (ms_gateway s) now) now;
          (s', queued, skipped) = queue_cancels digest fresh cfg now decisions s 0 0
      in (s', \<lparr>cs_checked_count = int (length decisions), cs_queued_cancel_count = queued, cs_skipped_count = skipped\<rparr>))"

section \<open>Cancel requests leave the working statuses\<close>

definition working :: "managed_order \<Rightarrow> bool" where
  "working x \<longleftrightarrow> mo_status x \<in> {ACKED_BY_GATEWAY, order_status.PARTIALLY_FILLED}"

lemma set_intent_frame [simp]:
  "db_ok db \<Longrightarrow> db_ok (set_intent_status db i st)"
  "get_managed_order (set_intent_status db i st) = get_managed_order db"
  by (auto simp: set_intent_status_def same_intent_def intro!: save_intent_update(3) split: option.split)

lemma queue_cancel_effect:
  assumes "db_ok (ms_db s)" "cd_should_cancel d" "get_managed_order (ms_db s) (cd_order_id d) = Some x"
  shows "\<exists>y. get_managed_order (ms_db (fst (queue_cancel digest fresh cfg now s d))) =
       (get_managed_order (ms_db s))(cd_order_id d \<mapsto> y) \<and>
     mo_status y = (if snd (queue_cancel digest fresh cfg now s d) then CANCEL_PENDING else RECONCILE_REQUIRED) \<and>
     mo_filled_quantity y = mo_filled_quantity x \<and> mo_id y = cd_order_id d"
    and "db_ok (ms_db (fst (queue_cancel digest fresh cfg now s d)))"
proof -
  have id: "mo_id x = cd_order_id d" "cd_order_id d \<noteq> 0" using get_order_id [OF assms(1,3)] by auto
  define command where "command = cancel_command_for cfg x d (new_message_id fresh ''cmd_cancel'' (ms_ids s)) now"
  obtain g result where enq: "enqueue_command digest (ms_gateway s) command (Some HIGH)
      (Some (cfg_command_ttl_sec cfg)) (Some (cfg_command_max_attempts cfg))
      [(''runtime'', PStr ''REBOOT_LIVE_SIM''), (''managed_order_id'', PInt (cd_order_id d)), (''cancel'', PBool True)] now
      = (g, result)" by fastforce
  define y where "y = x\<lparr>mo_status := (if er_accepted result then CANCEL_PENDING else RECONCILE_REQUIRED),
      mo_command_id := (if er_accepted result then gc_command_id command else mo_command_id x), mo_updated_at := At now,
      mo_details := dset ''cancel_enqueue_result'' (PDict (enqueue_result_to_dict result))
         (dset ''last_cancel_command'' (PDict (gateway_command_to_dict command)) (mo_details x))\<rparr>"
  have "same_order x y" by (simp add: same_order_def y_def)
  note u = save_order_update [OF assms(1,3) this]
  have res: "ms_db (fst (queue_cancel digest fresh cfg now s d)) = append_managed_order_event
      \<lparr>oe_order_id = mo_id x, oe_intent_id = mo_intent_id x,
       oe_event_type = (if er_accepted result then ''cancel_queued'' else ''cancel_rejected''),
       oe_status_from = order_status_value (mo_status x), oe_status_to = order_status_value (mo_status y),
       oe_message = er_reason result, oe_payload = CancelPayload d command\<rparr>
      (set_intent_status (fst (save_managed_order y (ms_db s))) (mo_intent_id x)
        (if er_accepted result then CANCEL_REQUESTED else intent_status.FAILED))"
    and acc: "snd (queue_cancel digest fresh cfg now s d) = er_accepted result"
    using assms(2,3) id enq unfolding y_def command_def
    by (simp_all add: queue_cancel_def Let_def case_prod_beta)
  from u(3) show "db_ok (ms_db (fst (queue_cancel digest fresh cfg now s d)))" by (simp add: res)
  from u(2) acc show "\<exists>y. get_managed_order (ms_db (fst (queue_cancel digest fresh cfg now s d))) =
       (get_managed_order (ms_db s))(cd_order_id d \<mapsto> y) \<and>
     mo_status y = (if snd (queue_cancel digest fresh cfg now s d) then CANCEL_PENDING else RECONCILE_REQUIRED) \<and>
     mo_filled_quantity y = mo_filled_quantity x \<and> mo_id y = cd_order_id d"
    by (intro exI [of _ y]) (simp add: res y_def id)
qed

text \<open>What a batch of decisions does to one order.\<close>

definition cancel_outcome :: "bool \<Rightarrow> managed_order \<Rightarrow> managed_order \<Rightarrow> bool" where
  "cancel_outcome asked x y \<longleftrightarrow> mo_id y = mo_id x \<and> mo_filled_quantity y = mo_filled_quantity x \<and>
     (if asked then mo_status y \<in> {CANCEL_PENDING, RECONCILE_REQUIRED} else y = x)"

lemma queue_cancels_effect:
  assumes "db_ok (ms_db s)" "get_managed_order (ms_db s) k = Some x"
    and "\<forall>d\<in>set ds. get_managed_order (ms_db s) (cd_order_id d) \<noteq> None"
  shows "db_ok (ms_db (fst (queue_cancels digest fresh cfg now ds s a b))) \<and>
     (\<exists>y. get_managed_order (ms_db (fst (queue_cancels digest fresh cfg now ds s a b))) k = Some y \<and>
        cancel_outcome (\<exists>d\<in>set ds. cd_should_cancel d \<and> cd_order_id d = k) x y)"
  using assms
proof (induction ds arbitrary: s x a b)
  case Nil
  then show ?case by (auto simp: cancel_outcome_def)
next
  case (Cons d ds)
  show ?case
  proof (cases "cd_should_cancel d")
    case False
    with Cons.IH [OF Cons.prems(1,2)] Cons.prems(3) show ?thesis by simp
  next
    case True
    obtain z where z: "get_managed_order (ms_db s) (cd_order_id d) = Some z" using Cons.prems(3) by auto
    define s' where "s' = fst (queue_cancel digest fresh cfg now s d)"
    note e = queue_cancel_effect [OF Cons.prems(1) True z, of digest fresh cfg now, folded s'_def]
    obtain y where y: "get_managed_order (ms_db s') = (get_managed_order (ms_db s))(cd_order_id d \<mapsto> y)"
      "mo_status y \<in> {CANCEL_PENDING, RECONCILE_REQUIRED}" "mo_filled_quantity y = mo_filled_quantity z" "mo_id y = cd_order_id d"
      using e(1) by auto
    have dom: "\<forall>d\<in>set ds. get_managed_order (ms_db s') (cd_order_id d) \<noteq> None"
      using Cons.prems(3) y(1) by auto
    have res: "fst (queue_cancels digest fresh cfg now (d # ds) s a b) =
        fst (queue_cancels digest fresh cfg now ds s' (if snd (queue_cancel digest fresh cfg now s d) then a + 1 else a)
          (if snd (queue_cancel digest fresh cfg now s d) then b else b + 1))"
      using True by (simp add: case_prod_beta s'_def)
    show ?thesis
    proof (cases "k = cd_order_id d")
      case True
      then have "get_managed_order (ms_db s') k = Some y" using y(1) by simp
      from Cons.IH [OF e(2) this dom] obtain y' where
        "db_ok (ms_db (fst (queue_cancels digest fresh cfg now (d # ds) s a b)))"
        "get_managed_order (ms_db (fst (queue_cancels digest fresh cfg now (d # ds) s a b))) k = Some y'"
        "cancel_outcome (\<exists>d\<in>set ds. cd_should_cancel d \<and> cd_order_id d = k) y y'"
        unfolding res by blast
      moreover have "z = x" using z True Cons.prems(2) by simp
      ultimately show ?thesis
        using True \<open>cd_should_cancel d\<close> y(2,3,4) get_order_id [OF Cons.prems(1) Cons.prems(2)]
        by (auto simp: cancel_outcome_def split: if_splits)
    next
      case False
      then have "get_managed_order (ms_db s') k = Some x" using y(1) Cons.prems(2) by simp
      from Cons.IH [OF e(2) this dom] False show ?thesis unfolding res by auto
    qed
  qed
qed

lemma active_unfilled_stored:
  assumes "db_ok db" "x \<in> set (active_unfilled_orders db)"
  shows "get_managed_order db (mo_id x) = Some x \<and> working x \<and> 0 < mo_remaining_quantity x"
proof -
  obtain r where r: "x = read_order r" "r \<in> set (page (\<lambda>r. row_status r \<in> {ACKED_BY_GATEWAY, order_status.PARTIALLY_FILLED}) 1000 0 (db_orders db))"
    and pos: "0 < mo_remaining_quantity x"
    using assms(2) by (auto simp: active_unfilled_orders_def list_managed_orders_def)
  from page_mem [OF r(2)] have m: "r \<in> set (t_rows (db_orders db))" "row_status r \<in> {ACKED_BY_GATEWAY, order_status.PARTIALLY_FILLED}"
    by simp_all
  then have "working x" using assms(1) r(1) by (auto simp: working_def db_ok_def order_columns_ok_def)
  moreover have "row_id r = mo_id x"
    using m(1) assms(1) r(1) by (auto simp: db_ok_def rows_ok_def orders.read_pid)
  then have "get_managed_order db (mo_id x) = Some x"
    using get_order_row [OF assms(1)] m(1) r(1) by blast
  ultimately show ?thesis using pos by simp
qed

lemma should_cancel_iff:
  "cd_should_cancel (cancel_decision_for cfg db st now x) \<longleftrightarrow>
     0 < mo_remaining_quantity x \<and> mo_order_no x \<noteq> [] \<and> cancel_guard_passes cfg st \<and> \<not> has_pending_cancel db (mo_id x) \<and>
     (\<exists>a. age_of (stamp_or (stamp_or (mo_acked_at x) (mo_sent_at x)) (mo_created_at x)) now = Some a \<and>
          or_int (mo_cancel_after_sec x) (cfg_cancel_unfilled_after_sec cfg) * second \<le> a)"
  by (auto simp: cancel_decision_for_def cancel_reasons_def Let_def split: option.splits)

text \<open>An order that is due: it works, has shares left and a broker number, is old enough, and the session is
  a healthy simulated one.\<close>

definition cancel_due :: "order_config \<Rightarrow> manager_state \<Rightarrow> time \<Rightarrow> managed_order \<Rightarrow> bool" where
  "cancel_due cfg s now x \<longleftrightarrow> working x \<and> 0 < mo_remaining_quantity x \<and> mo_order_no x \<noteq> [] \<and>
     cancel_guard_passes cfg (snapshot_at (ms_gateway s) now) \<and>
     (\<exists>a. age_of (stamp_or (stamp_or (mo_acked_at x) (mo_sent_at x)) (mo_created_at x)) now = Some a \<and>
          or_int (mo_cancel_after_sec x) (cfg_cancel_unfilled_after_sec cfg) * second \<le> a)"

definition cancels_order :: "gateway_command \<Rightarrow> managed_order \<Rightarrow> bool" where
  "cancels_order c x \<longleftrightarrow> gc_type c = ''cancel_order'' \<and>
     dget (gc_payload c) ''managed_order_id'' = PInt (mo_id x) \<and>
     dget (gc_payload c) ''original_order_no'' = PStr (mo_order_no x) \<and>
     dget (gc_payload c) ''code'' = PStr (mo_code x) \<and>
     dget (gc_payload c) ''quantity'' = PInt (mo_remaining_quantity x)"

text \<open>What queueing adds to the queue of the gateway.\<close>

lemma update_absent_key: "k \<notin> fst ` set xs \<Longrightarrow> AList.update k v xs = xs @ [(k, v)]"
  by (induction xs) auto

lemma enqueue_adds:
  "set (q_records q) \<subseteq> set (q_records (fst (enqueue digest q c p ttl tries now md))) \<and>
   (\<forall>r\<in>set (q_records (fst (enqueue digest q c p ttl tries now md))). r \<in> set (q_records q) \<or> rec_command (snd r) = c)"
proof -
  let ?r = "create_record digest c p ttl tries now md"
  have c: "rec_command ?r = c" by (simp add: create_record_def Let_def)
  have "q_records (put_record k r q) = q_records q @ [(k, r)]" if "get_record q k = None" for k r
    using that by (simp add: put_record_def get_record_def update_absent_key map_of_eq_None_iff)
  then have "q_records (fst (enqueue digest q c p ttl tries now md)) \<in> {q_records q, q_records q @ [(rec_command_id ?r, ?r)]}"
    by (simp add: enqueue_def Let_def split: option.split)
  then show ?thesis using c by auto
qed

definition cancels_decided :: "cancel_decision \<Rightarrow> gateway_command \<Rightarrow> bool" where
  "cancels_decided d c \<longleftrightarrow> gc_type c = ''cancel_order'' \<and>
     dget (gc_payload c) ''managed_order_id'' = PInt (cd_order_id d) \<and>
     dget (gc_payload c) ''original_order_no'' = PStr (cd_order_no d) \<and>
     dget (gc_payload c) ''code'' = PStr (cd_code d) \<and>
     dget (gc_payload c) ''quantity'' = PInt (cd_remaining_quantity d)"

lemma cancel_command_decided: "cancels_decided d (cancel_command_for cfg x d i now)"
  by (simp add: cancels_decided_def cancel_command_for_def Let_def dget_def)

abbreviation queued_commands :: "manager_state \<Rightarrow> (string \<times> command_record) set" where
  "queued_commands s \<equiv> set (q_records (g_queue (ms_gateway s)))"

lemma queue_cancel_adds:
  "queued_commands s \<subseteq> queued_commands (fst (queue_cancel digest fresh cfg now s d)) \<and>
   (\<forall>r\<in>queued_commands (fst (queue_cancel digest fresh cfg now s d)). r \<in> queued_commands s \<or> cancels_decided d (rec_command (snd r)))"
proof (cases "get_managed_order (ms_db s) (cd_order_id d)")
  case None
  then show ?thesis by (simp add: queue_cancel_def)
next
  case (Some x)
  let ?c = "cancel_command_for cfg x d (new_message_id fresh ''cmd_cancel'' (ms_ids s)) now"
  let ?md = "[(''runtime'', PStr ''REBOOT_LIVE_SIM''), (''managed_order_id'', PInt (cd_order_id d)), (''cancel'', PBool True)]"
  let ?e = "enqueue digest (g_queue (ms_gateway s)) ?c (Some HIGH) (Some (cfg_command_ttl_sec cfg))
      (Some (cfg_command_max_attempts cfg)) now ?md"
  have "queued_commands (fst (queue_cancel digest fresh cfg now s d)) \<in> {queued_commands s, set (q_records (fst ?e))}"
    by (simp add: queue_cancel_def Some enqueue_command_def refresh_pending_def Let_def case_prod_beta)
  moreover have "queued_commands s \<subseteq> set (q_records (fst ?e))"
    and "\<forall>r\<in>set (q_records (fst ?e)). r \<in> queued_commands s \<or> rec_command (snd r) = ?c"
    using enqueue_adds by blast+
  moreover have "cancels_decided d ?c" by (rule cancel_command_decided)
  ultimately show ?thesis by fastforce
qed

lemma queue_cancels_adds:
  "queued_commands s \<subseteq> queued_commands (fst (queue_cancels digest fresh cfg now ds s a b)) \<and>
   (\<forall>r\<in>queued_commands (fst (queue_cancels digest fresh cfg now ds s a b)). r \<in> queued_commands s \<or>
      (\<exists>d\<in>set ds. cd_should_cancel d \<and> cancels_decided d (rec_command (snd r))))"
proof (induction ds arbitrary: s a b)
  case (Cons d ds)
  let ?s = "fst (queue_cancel digest fresh cfg now s d)"
  show ?case
  proof (cases "cd_should_cancel d")
    case False
    with Cons.IH [of s a "b + 1"] show ?thesis by auto
  next
    case True
    let ?a = "if snd (queue_cancel digest fresh cfg now s d) then a + 1 else a"
    let ?b = "if snd (queue_cancel digest fresh cfg now s d) then b else b + 1"
    have eq: "fst (queue_cancels digest fresh cfg now (d # ds) s a b) = fst (queue_cancels digest fresh cfg now ds ?s ?a ?b)"
      using True by (simp add: case_prod_beta)
    show ?thesis
      unfolding eq using Cons.IH [of ?s ?a ?b] queue_cancel_adds [of s digest fresh cfg now d] True by auto
  qed
qed simp

text \<open>C9: A run of the cancel scheduler adds to the queue of the gateway only cancel commands for orders that are due,
  each with the broker number, the code and the remaining quantity of its order, and removes no command. An
  order that a command was added for has left the working statuses, so the next run does not list it; every
  order is either untouched or was due and has left them, and no fill is lost.\<close>
theorem unfilled_cancel_is_due_and_single:
  assumes ok: "db_ok (ms_db s)" and s': "s' = fst (run_unfilled_cancel digest fresh cfg now s)"
  shows "queued_commands s \<subseteq> queued_commands s' \<and>
    (\<forall>r\<in>queued_commands s' - queued_commands s. \<exists>x y. get_managed_order (ms_db s) (mo_id x) = Some x \<and> cancel_due cfg s now x \<and>
       cancels_order (rec_command (snd r)) x \<and> get_managed_order (ms_db s') (mo_id x) = Some y \<and>
       mo_status y \<in> {CANCEL_PENDING, RECONCILE_REQUIRED}) \<and>
    (\<forall>k x. get_managed_order (ms_db s) k = Some x \<longrightarrow>
       (\<exists>y. get_managed_order (ms_db s') k = Some y \<and> mo_filled_quantity y = mo_filled_quantity x \<and>
          (y = x \<or> cancel_due cfg s now x \<and> mo_status y \<in> {CANCEL_PENDING, RECONCILE_REQUIRED} \<and>
             y \<notin> set (active_unfilled_orders (ms_db s')))))"
proof -
  let ?st = "snapshot_at (ms_gateway s) now"
  let ?ds = "build_decisions cfg (ms_db s) ?st now"
  have run: "s' = fst (queue_cancels digest fresh cfg now ?ds s 0 0)"
    by (simp add: s' run_unfilled_cancel_def Let_def case_prod_beta)
  have stored: "\<forall>d\<in>set ?ds. get_managed_order (ms_db s) (cd_order_id d) \<noteq> None"
    using active_unfilled_stored [OF ok] by (fastforce simp: build_decisions_def cancel_decision_for_def Let_def)
  have asked: "\<exists>x. get_managed_order (ms_db s) (mo_id x) = Some x \<and> cd_order_id d = mo_id x \<and> cancel_due cfg s now x \<and>
      cd_order_no d = mo_order_no x \<and> cd_code d = mo_code x \<and> cd_remaining_quantity d = mo_remaining_quantity x"
    if d: "d \<in> set ?ds" "cd_should_cancel d" for d
  proof -
    obtain x where x: "x \<in> set (active_unfilled_orders (ms_db s))" "d = cancel_decision_for cfg (ms_db s) ?st now x"
      using d(1) by (auto simp: build_decisions_def)
    have "cancel_due cfg s now x"
      using d(2) active_unfilled_stored [OF ok x(1)] unfolding x(2) should_cancel_iff cancel_due_def by blast
    then show ?thesis
      using active_unfilled_stored [OF ok x(1)] by (intro exI [of _ x]) (simp add: x(2) cancel_decision_for_def Let_def)
  qed
  have effect: "\<exists>y. db_ok (ms_db s') \<and> get_managed_order (ms_db s') k = Some y \<and>
      cancel_outcome (\<exists>d\<in>set ?ds. cd_should_cancel d \<and> cd_order_id d = k) x y"
    if "get_managed_order (ms_db s) k = Some x" for k x
    using queue_cancels_effect [OF ok that stored, of digest fresh cfg now 0 0] unfolding run by blast
  note adds = queue_cancels_adds [of s digest fresh cfg now ?ds 0 0, folded run]
  have new: "\<exists>x y. get_managed_order (ms_db s) (mo_id x) = Some x \<and> cancel_due cfg s now x \<and>
       cancels_order (rec_command (snd r)) x \<and> get_managed_order (ms_db s') (mo_id x) = Some y \<and>
       mo_status y \<in> {CANCEL_PENDING, RECONCILE_REQUIRED}" if r: "r \<in> queued_commands s' - queued_commands s" for r
  proof -
    obtain d where d: "d \<in> set ?ds" "cd_should_cancel d" "cancels_decided d (rec_command (snd r))"
      using adds r by blast
    obtain x where x: "get_managed_order (ms_db s) (mo_id x) = Some x" "cd_order_id d = mo_id x" "cancel_due cfg s now x"
      "cancels_order (rec_command (snd r)) x"
      using asked [OF d(1,2)] d(3) by (auto simp: cancels_decided_def cancels_order_def)
    obtain y where "get_managed_order (ms_db s') (mo_id x) = Some y" "mo_status y \<in> {CANCEL_PENDING, RECONCILE_REQUIRED}"
    proof -
      have "\<exists>d\<in>set ?ds. cd_should_cancel d \<and> cd_order_id d = mo_id x" using d(1,2) x(2) by blast
      with effect [OF x(1)] show ?thesis using that by (auto simp: cancel_outcome_def)
    qed
    with x show ?thesis by blast
  qed
  have each: "\<exists>y. get_managed_order (ms_db s') k = Some y \<and> mo_filled_quantity y = mo_filled_quantity x \<and>
      (y = x \<or> cancel_due cfg s now x \<and> mo_status y \<in> {CANCEL_PENDING, RECONCILE_REQUIRED} \<and>
         y \<notin> set (active_unfilled_orders (ms_db s')))" if x: "get_managed_order (ms_db s) k = Some x" for k x
  proof -
    obtain y where y: "db_ok (ms_db s')" "get_managed_order (ms_db s') k = Some y"
      "cancel_outcome (\<exists>d\<in>set ?ds. cd_should_cancel d \<and> cd_order_id d = k) x y"
      using effect [OF x] by blast
    show ?thesis
    proof (cases "\<exists>d\<in>set ?ds. cd_should_cancel d \<and> cd_order_id d = k")
      case False
      with y show ?thesis by (auto simp: cancel_outcome_def)
    next
      case True
      then obtain z where "get_managed_order (ms_db s) (mo_id z) = Some z" "k = mo_id z" "cancel_due cfg s now z"
        using asked by metis
      then have due: "cancel_due cfg s now x" using x by simp
      have st: "mo_status y \<in> {CANCEL_PENDING, RECONCILE_REQUIRED}" "mo_filled_quantity y = mo_filled_quantity x"
        using y(3) True by (auto simp: cancel_outcome_def)
      then have "y \<notin> set (active_unfilled_orders (ms_db s'))"
        using active_unfilled_stored [OF y(1), of y] by (auto simp: working_def)
      with st y(2) due show ?thesis by blast
    qed
  qed
  show ?thesis using adds new each by blast
qed

definition sim_gateway :: gateway_store where
  "sim_gateway = (new_store 15 200 50)\<lparr>g_status := healthy_status\<lparr>gs_last_heartbeat_at := At 100000000\<rparr>\<rparr>"

definition cancel_state :: manager_state where
  "cancel_state = \<lparr>ms_db = acked_db, ms_gateway = sim_gateway, ms_ids = 0, ms_blocks = [], ms_last_run_at = Blank\<rparr>"

theorem unfilled_cancel_is_due_and_single_witness:
  "\<exists>y. get_managed_order (ms_db (fst (run_unfilled_cancel (\<lambda>_ _. []) show_nat live_config 100000000 cancel_state))) 1 = Some y
     \<and> mo_filled_quantity y = 0 \<and>
     cs_queued_cancel_count (snd (run_unfilled_cancel (\<lambda>_ _. []) show_nat live_config 100000000 cancel_state)) = 1"
proof -
  have ok: "db_ok (ms_db cancel_state)" by (simp add: cancel_state_def acked_db_ok)
  have x: "get_managed_order (ms_db cancel_state) 1 =
    Some (sample_order_row\<lparr>mo_id := 1, mo_status := ACKED_BY_GATEWAY, mo_order_no := ''77'', mo_command_id := ''cmd-1''\<rparr>)"
    by code_simp
  have "cs_queued_cancel_count (snd (run_unfilled_cancel (\<lambda>_ _. []) show_nat live_config 100000000 cancel_state)) = 1"
    by code_simp
  moreover note unfilled_cancel_is_due_and_single [OF ok refl, THEN conjunct2, THEN conjunct2, rule_format, OF x,
      of "\<lambda>_ _. []" show_nat live_config 100000000]
  ultimately show ?thesis by (auto simp: sample_order_row_def)
qed

text \<open>A cancel that meets an active command with the same key is not repeated but turns the order into
  one that requires reconciliation. This is what happens when a partial fill arrives while the
  first cancel is still pending: the fill puts the order back to work, and the second cancel has the
  first one's key.\<close>
lemma second_cancel_requires_reconcile:
  assumes "db_ok (ms_db s)" "cd_should_cancel d" "get_managed_order (ms_db s) (cd_order_id d) = Some x"
    and "cd_idempotency_key d \<noteq> []"
    and "has_duplicate (g_queue (ms_gateway s)) (cd_idempotency_key d)"
    and "res = queue_cancel digest fresh cfg now s d"
  shows "\<not> snd res \<and> (\<exists>y. get_managed_order (ms_db (fst res)) (cd_order_id d) = Some y \<and> mo_status y = RECONCILE_REQUIRED) \<and>
     q_records (g_queue (ms_gateway (fst res))) = q_records (g_queue (ms_gateway s))"
proof -
  have id: "cd_order_id d \<noteq> 0" using get_order_id [OF assms(1,3)] by auto
  let ?c = "cancel_command_for cfg x d (new_message_id fresh ''cmd_cancel'' (ms_ids s)) now"
  obtain dup where dup: "active_duplicate (g_queue (ms_gateway s)) (cd_idempotency_key d) = Some dup"
    using assms(5) by (auto simp: has_duplicate_def)
  have key: "gc_idempotency_key ?c = cd_idempotency_key d" "gc_command_id ?c \<noteq> []"
    by (simp_all add: cancel_command_for_def Let_def new_message_id_def)
  have dk: "rec_dedupe_key (create_record digest ?c p t m n md) = cd_idempotency_key d" for p t m n md
    using key(1) assms(4) by (simp add: create_record_def Let_def dedupe_key_for_command_def)
  have rej: "\<not> er_accepted (snd (enqueue digest (g_queue (ms_gateway s)) ?c p t m md n)) \<and>
      q_records (fst (enqueue digest (g_queue (ms_gateway s)) ?c p t m md n)) = q_records (g_queue (ms_gateway s))" for p t m md n
    using key(2) dup dk by (simp add: enqueue_def Let_def)
  have "\<not> snd res \<and> q_records (g_queue (ms_gateway (fst res))) = q_records (g_queue (ms_gateway s))"
    using assms(2,3,6) id rej
    by (simp add: queue_cancel_def Let_def case_prod_beta enqueue_command_def refresh_pending_def)
  with queue_cancel_effect(1) [OF assms(1-3), of digest fresh cfg now] assms(6) show ?thesis by auto
qed

definition cancel_again_decision :: cancel_decision where
  "cancel_again_decision = \<lparr>cd_should_cancel = True, cd_order_id = 1, cd_code = ''005930'', cd_order_no = ''77'',
     cd_remaining_quantity = 6, cd_idempotency_key = ''cancel:k1'', cd_reason_codes = [], cd_age = None\<rparr>"

definition cancel_again_state :: manager_state where
  "cancel_again_state = (fst (queue_cancel (\<lambda>_ _. []) show_nat live_config 100000000 cancel_state cancel_again_decision))
     \<lparr>ms_db := acked_db\<rparr>"

end
