(* ===== verification/Order_Manager.thy ===== *)
theory Order_Manager
  imports Unfilled_Cancel
begin

text \<open>
  The order manager (\<open>trading/strategy/order_manager.py\<close>): from the latest entry and exit decisions
  to intents, through the risk guard, local orders and the command guard to commands in the
  gateway queue; and from gateway events back to orders.

  What the manager reads from other components is the argument \<open>inputs\<close> of a run: the decisions and
  runtime positions as dictionaries, the latest tick of a code, and the candidate of a code. The
  float fields of a tick (execution strength, trade value) are left out of its details. A handler
  that raises returns the state as far as it was changed.
\<close>

section \<open>Inputs\<close>

record tick =
  tk_price :: int
  tk_best_ask :: int
  tk_best_bid :: int
  tk_spread_ticks :: int
  tk_timestamp :: stamp
  tk_metadata :: pydict

record candidate_view =
  cv_state :: string
  cv_fsm :: pydict

record manager_inputs =
  in_entry_decisions :: "pydict list"
  in_exit_decisions :: "pydict list"
  in_positions :: "pydict list"
  in_tick :: "string \<Rightarrow> tick option"
  in_candidate :: "string \<Rightarrow> string \<Rightarrow> candidate_view option"

definition ENTRY_ALLOWED_ROLES :: "string list" where
  "ENTRY_ALLOWED_ROLES = [''LEADER'', ''CO_LEADER'']"

definition ENTRY_ALLOWED_MARKET_ACTIONS :: "string list" where
  "ENTRY_ALLOWED_MARKET_ACTIONS = [''ALLOW_NORMAL'', ''ALLOW_REDUCED'']"

definition ENTRY_ALLOWED_PRICE_LOCATIONS :: "string list" where
  "ENTRY_ALLOWED_PRICE_LOCATIONS = [''GOOD_PULLBACK'', ''PULLBACK_RECLAIM'', ''VWAP_RECLAIM'']"

definition ENTRY_ALLOWED_CANDIDATE_STATES :: "string list" where
  "ENTRY_ALLOWED_CANDIDATE_STATES = [''WATCHING'', ''READY'', ''SETUP_READY'', ''TIMING_READY'']"

definition EXIT_ALLOWED_STATUSES :: "string list" where
  "EXIT_ALLOWED_STATUSES = [''SCALE_OUT'', ''EXIT_NOW'']"

definition EXIT_ALLOWED_POSITION_SOURCES :: "string list" where
  "EXIT_ALLOWED_POSITION_SOURCES = [[], ''LIVE_SIM'', ''LIVE_SIM_OBSERVED'', ''DRY_RUN_TO_LIVE_SIM'', ''VIRTUAL'']"

text \<open>An identifier in a decision: an integer, or absent.\<close>

definition id_of :: "pyval \<Rightarrow> int" where
  "id_of v = (case v of PInt i \<Rightarrow> i | _ \<Rightarrow> 0)"

definition text_list :: "pydict \<Rightarrow> string \<Rightarrow> string list" where
  "text_list d k = (case dget d k of PList vs \<Rightarrow> map py_str vs | _ \<Rightarrow> [])"

section \<open>Which decisions become intents\<close>

definition candidate_allows_entry :: "candidate_view \<Rightarrow> bool" where
  "candidate_allows_entry c \<longleftrightarrow>
     (cv_state c = [] \<or> cv_state c \<in> set ENTRY_ALLOWED_CANDIDATE_STATES) \<and>
     (cv_fsm c = [] \<or>
       text_or (cv_fsm c) ''v2_state'' [] = ''TIMING_READY'' \<and>
       text_or (cv_fsm c) ''blocking_stage'' [] \<in> {[], ''NONE''} \<and>
       upper (text_or (cv_fsm c) ''price_source'' ''REALTIME'') \<noteq> ''TR_BACKFILL'' \<and>
       lower (text_or (cv_fsm c) ''latest_tick_fresh'' []) \<noteq> ''false'')"

definition entry_decision_allowed :: "manager_inputs \<Rightarrow> string \<Rightarrow> pydict \<Rightarrow> bool" where
  "entry_decision_allowed inputs trade_date decision \<longleftrightarrow>
     text_or decision ''entry_status'' [] = ''OBSERVE_READY'' \<and>
     text_or decision ''market_action'' [] \<in> set ENTRY_ALLOWED_MARKET_ACTIONS \<and>
     text_or decision ''stock_role'' [] \<in> set ENTRY_ALLOWED_ROLES \<and>
     text_or decision ''price_location'' [] \<in> set ENTRY_ALLOWED_PRICE_LOCATIONS \<and>
     ''OVERHEATED'' \<notin> set (text_list decision ''reason_codes'') \<and>
     (truthy (dget decision ''candidate_id'') \<longrightarrow>
        (case in_candidate inputs trade_date (text_or decision ''code'' []) of
           None \<Rightarrow> True | Some c \<Rightarrow> candidate_allows_entry c))"

definition position_of :: "(string \<times> pydict) list \<Rightarrow> string \<Rightarrow> pydict" where
  "position_of positions k = (case map_of positions k of Some d \<Rightarrow> d | None \<Rightarrow> [])"

definition exit_decision_allowed :: "(string \<times> pydict) list \<Rightarrow> pydict \<Rightarrow> py_error + bool" where
  "exit_decision_allowed positions decision =
     (if text_or decision ''exit_status'' [] \<notin> set EXIT_ALLOWED_STATUSES then Inr False
      else if \<not> (truthy (dget decision ''dry_run_sell_intent_allowed'') \<or> truthy (dget decision ''live_sim_intent_allowed'') \<or>
                 truthy (dget decision ''live_order_allowed'')) then Inr False
      else
        let position = position_of positions (text_or decision ''position_id'' []);
            source = upper (py_str (py_or (py_or (dget position ''source_type'')
                       (dget (dict_or position ''details'') ''source'')) (PStr [])))
        in if source \<notin> set EXIT_ALLOWED_POSITION_SOURCES then Inr False
           else bindE (py_int (py_or (py_or (py_or (dget position ''remaining_quantity'') (dget position ''current_qty''))
                         (dget decision ''quantity'')) (PInt 0))) (\<lambda>remaining.
                if 0 < remaining then Inr True
                else bindE (int_or0 decision ''quantity'') (\<lambda>q. Inr (0 < q))))"

definition exit_quantity :: "pydict \<Rightarrow> pydict \<Rightarrow> py_error + int" where
  "exit_quantity decision position =
     bindE (py_int (py_or (py_or (dget position ''remaining_quantity'') (dget position ''current_qty'')) (PInt 0))) (\<lambda>remaining.
     bindE (int_or0 decision ''quantity'') (\<lambda>decision_qty.
       Inr (if text_or decision ''exit_status'' [] = ''EXIT_NOW'' \<and> 0 < remaining then remaining
            else if 0 < remaining then min (or_int decision_qty remaining) remaining
            else decision_qty)))"

definition tick_details :: "tick option \<Rightarrow> pydict" where
  "tick_details t =
     (case t of None \<Rightarrow> []
      | Some k \<Rightarrow> dmerge
          [(''current_price'', PInt (tk_price k)), (''best_ask'', PInt (tk_best_ask k)),
           (''best_bid'', PInt (tk_best_bid k)), (''spread_ticks'', PInt (tk_spread_ticks k)),
           (''last_tick_at'', stamp_val (tk_timestamp k))] (tk_metadata k))"

text \<open>The price of an intent: the hint, else the tick's quote on that side, else its price, else the decision's.\<close>

definition price_for :: "string \<Rightarrow> (tick \<Rightarrow> int) \<Rightarrow> tick option \<Rightarrow> pydict \<Rightarrow> py_error + int" where
  "price_for hint quote t decision =
     bindE (int_or0 decision hint) (\<lambda>p0.
       let p1 = (if p0 \<le> 0 then (case t of Some k \<Rightarrow> or_int (quote k) (tk_price k) | None \<Rightarrow> p0) else p0)
       in if p1 \<le> 0 then int_or0 decision ''current_price'' else Inr p1)"

definition cycle_bucket :: "order_config \<Rightarrow> time \<Rightarrow> int" where
  "cycle_bucket cfg now = now div (max 1 (cfg_cycle_bucket_sec cfg) * second)"

definition or_empty :: "pydict \<Rightarrow> string \<Rightarrow> pyval" where
  "or_empty d k = py_or (dget d k) (PStr [])"

definition entry_intent :: "order_config \<Rightarrow> manager_inputs \<Rightarrow> string \<Rightarrow> string \<Rightarrow> time \<Rightarrow> pydict \<Rightarrow> py_error + order_intent" where
  "entry_intent cfg inputs account trade_date now decision =
     (let code = text_or decision ''code'' []; t = in_tick inputs code in
      bindE (py_int (py_or (dget decision ''quantity'') (PInt 1))) (\<lambda>wanted.
      bindE (price_for ''limit_price_hint'' tk_best_ask t decision) (\<lambda>price.
        let decision_id = id_of (dget decision ''id'');
            bucket = or_int decision_id (cycle_bucket cfg now);
            key = join (CHR '':'') [''buy'', trade_date, py_str (or_empty decision ''candidate_id''), code,
                    show_int bucket, show_int (price div 10 * 10)]
        in Inr \<lparr>mi_id = 0, mi_trade_date = trade_date, mi_source = REBOOT_ENTRY_ENGINE, mi_side = BUY, mi_code = code,
                mi_quantity = min (max 1 wanted) (cfg_max_order_quantity cfg), mi_price = price,
                mi_idempotency_key = key, mi_created_at = At now, mi_account = account,
                mi_name = text_or decision ''name'' [], mi_hoga = cfg_order_hoga cfg, mi_status = CREATED,
                mi_candidate_id = id_of (dget decision ''candidate_id''), mi_position_id = [],
                mi_decision_id = decision_id, mi_theme_id = text_or decision ''theme_id'' [],
                mi_theme_name = text_or decision ''theme_name'' [], mi_reason = ''ENTRY_OBSERVE_READY'',
                mi_details = dmerge (dmerge (tick_details t) (dict_or decision ''details''))
                  [(''decision'', PDict decision), (''calculated_at'', or_empty decision ''calculated_at''),
                   (''market_status'', or_empty decision ''market_status''),
                   (''market_action'', or_empty decision ''market_action''),
                   (''stock_role'', or_empty decision ''stock_role''),
                   (''price_location'', or_empty decision ''price_location''),
                   (''theme_id'', or_empty decision ''theme_id''), (''theme_name'', or_empty decision ''theme_name'')]\<rparr>)))"

text \<open>A list of computations that may raise, run in order.\<close>

fun collectE :: "('a \<Rightarrow> py_error + 'b list) \<Rightarrow> 'a list \<Rightarrow> py_error + 'b list" where
  "collectE f [] = Inr []"
| "collectE f (x # xs) = bindE (f x) (\<lambda>ys. bindE (collectE f xs) (\<lambda>zs. Inr (ys @ zs)))"

definition entry_intents :: "order_config \<Rightarrow> manager_inputs \<Rightarrow> string \<Rightarrow> string \<Rightarrow> time \<Rightarrow> py_error + order_intent list" where
  "entry_intents cfg inputs account trade_date now =
     (if \<not> cfg_intent_enabled cfg then Inr []
      else collectE (\<lambda>d. if entry_decision_allowed inputs trade_date d
                         then bindE (entry_intent cfg inputs account trade_date now d) (\<lambda>i. Inr [i]) else Inr [])
             (in_entry_decisions inputs))"

definition live_position_dict :: "position_row \<Rightarrow> pydict" where
  "live_position_dict r =
     [(''position_id'', PStr (pr_position_id r)), (''code'', PStr (pr_code r)),
      (''remaining_quantity'', PInt (pr_current_qty r)), (''current_qty'', PInt (pr_current_qty r)),
      (''source_type'', PStr ''LIVE_SIM''),
      (''details'', PDict [(''theme_id'', PStr (pr_theme_id r)), (''theme_name'', PStr (pr_theme_name r)),
         (''source'', PStr ''reboot_v2_order_manager''), (''last_order_id'', PInt (pr_last_order_id r))])]"

definition latest_positions :: "order_db \<Rightarrow> manager_inputs \<Rightarrow> (string \<times> pydict) list" where
  "latest_positions db inputs =
     foldl (\<lambda>ps r. case map_of ps (pr_position_id r) of
              Some _ \<Rightarrow> ps
            | None \<Rightarrow> ps @ [(pr_position_id r, live_position_dict r)])
       (foldl (\<lambda>ps d. AList.update (text_or d ''position_id'' []) d ps) [] (in_positions inputs))
       (list_live_sim_positions db ''OPEN'' [] 1000 0)"

definition exit_intent ::
  "order_config \<Rightarrow> manager_inputs \<Rightarrow> (string \<times> pydict) list \<Rightarrow> string \<Rightarrow> string \<Rightarrow> time \<Rightarrow> pydict \<Rightarrow> py_error + order_intent list" where
  "exit_intent cfg inputs positions account trade_date now decision =
     bindE (exit_decision_allowed positions decision) (\<lambda>allowed.
       if \<not> allowed then Inr []
       else
         let code = text_or decision ''code'' []; position_id = text_or decision ''position_id'' [];
             position = position_of positions position_id; t = in_tick inputs code;
             pdetails = dict_or position ''details''
         in bindE (exit_quantity decision position) (\<lambda>quantity.
            if quantity \<le> 0 then Inr []
            else bindE (price_for ''price_hint'' tk_best_bid t decision) (\<lambda>price.
              let exit_reason = text_or decision ''exit_reason'' [] in
              Inr [\<lparr>mi_id = 0, mi_trade_date = trade_date, mi_source = REBOOT_EXIT_ENGINE, mi_side = SELL, mi_code = code,
                mi_quantity = quantity, mi_price = price,
                mi_idempotency_key = join (CHR '':'') [''reboot_live_sim_sell'', trade_date, position_id, exit_reason,
                  show_int (cycle_bucket cfg now)],
                mi_created_at = At now, mi_account = account, mi_name = text_or decision ''name'' [],
                mi_hoga = text_or decision ''hoga_hint'' (cfg_order_hoga cfg), mi_status = CREATED,
                mi_candidate_id = id_of (dget decision ''candidate_id''), mi_position_id = position_id,
                mi_decision_id = id_of (dget decision ''id''),
                mi_theme_id = py_str (py_or (py_or (dget position ''theme_id'') (dget pdetails ''theme_id'')) (PStr [])),
                mi_theme_name = py_str (py_or (py_or (dget position ''theme_name'') (dget pdetails ''theme_name'')) (PStr [])),
                mi_reason = exit_reason,
                mi_details = dmerge (dmerge (tick_details t) (dict_or decision ''details''))
                  [(''decision'', PDict decision), (''position'', PDict position),
                   (''calculated_at'', or_empty decision ''calculated_at''),
                   (''exit_status'', or_empty decision ''exit_status''), (''exit_reason'', PStr exit_reason)]\<rparr>])))"

definition exit_intents :: "order_config \<Rightarrow> order_db \<Rightarrow> manager_inputs \<Rightarrow> string \<Rightarrow> string \<Rightarrow> time \<Rightarrow> py_error + order_intent list" where
  "exit_intents cfg db inputs account trade_date now =
     (if \<not> cfg_intent_enabled cfg then Inr []
      else collectE (exit_intent cfg inputs (latest_positions db inputs) account trade_date now) (in_exit_decisions inputs))"

section \<open>One intent\<close>

definition order_of_intent :: "order_config \<Rightarrow> order_intent \<Rightarrow> time \<Rightarrow> managed_order" where
  "order_of_intent cfg intent now =
     \<lparr>mo_id = 0, mo_intent_id = mi_id intent, mo_trade_date = str_or (mi_trade_date intent) (date_text now),
      mo_side = mi_side intent, mo_code = mi_code intent, mo_quantity = mi_quantity intent, mo_price = mi_price intent,
      mo_idempotency_key = mi_idempotency_key intent, mo_created_at = At now, mo_account = mi_account intent,
      mo_hoga = str_or (mi_hoga intent) (cfg_order_hoga cfg), mo_status = PENDING_LOCAL, mo_source = mi_source intent,
      mo_candidate_id = mi_candidate_id intent, mo_position_id = mi_position_id intent, mo_command_id = [],
      mo_order_no = [], mo_original_order_no = [], mo_filled_quantity = 0,
      mo_remaining_quantity = mi_quantity intent, mo_avg_fill_price = 0, mo_sent_at = Blank, mo_acked_at = Blank,
      mo_updated_at = Blank, mo_cancel_after_sec = cfg_cancel_unfilled_after_sec cfg, mo_details = mi_details intent\<rparr>"

definition gateway_command_guard :: "order_config \<Rightarrow> order_db \<Rightarrow> gateway_status \<Rightarrow> managed_order \<Rightarrow> risk_decision \<Rightarrow> string list" where
  "gateway_command_guard cfg db st order risk =
     uniq_nonempty (
       reason_if (\<not> cfg_enqueue_gateway_command cfg) ''GATEWAY_COMMAND_ENQUEUE_DISABLED'' @
       reason_if (cfg_observe_only cfg) ''ORDER_MANAGER_OBSERVE_ONLY'' @
       reason_if (\<not> cfg_send_order_allowed cfg) ''SEND_ORDER_NOT_ALLOWED'' @
       reason_if (cfg_mode cfg \<noteq> LIVE_SIM) ''ORDER_MANAGER_NOT_LIVE_SIM_MODE'' @
       reason_if (\<not> cfg_allow_live_sim_orders cfg) ''LIVE_SIM_FLAG_DISABLED'' @
       reason_if (broker_environment_state [] st \<noteq> SIMULATION) ''SIMULATION_BROKER_REQUIRED'' @
       reason_if (cfg_block_real_broker cfg \<and> broker_environment_state [] st = REAL) ''REAL_BROKER_BLOCKED'' @
       reason_if (\<not> approved risk) ''RISK_NOT_APPROVED'' @
       reason_if (kr_state (latest_state db (mo_trade_date order)) = KILL_SWITCH_ACTIVE) ''KILL_SWITCH_ACTIVE'')"

definition id_val :: "int \<Rightarrow> pyval" where
  "id_val i = (if i = 0 then PNone else PInt i)"

fun source_value :: "intent_source \<Rightarrow> string" where
  "source_value REBOOT_ENTRY_ENGINE = ''REBOOT_ENTRY_ENGINE''"
| "source_value REBOOT_EXIT_ENGINE = ''REBOOT_EXIT_ENGINE''"
| "source_value MANUAL_OPERATOR = ''MANUAL_OPERATOR''"
| "source_value TEST_ONLY = ''TEST_ONLY''"

definition command_for_order :: "order_config \<Rightarrow> managed_order \<Rightarrow> string \<Rightarrow> time \<Rightarrow> gateway_command" where
  "command_for_order cfg order command_id now =
     (let side = upper (mo_side order); code = mo_code order; buy = (side = BUY) in
      \<lparr>gc_type = ''send_order'',
       gc_payload =
         [(''account'', PStr (mo_account order)), (''code'', PStr code), (''quantity'', PInt (mo_quantity order)),
          (''price'', PInt (mo_price order)), (''side'', PStr side), (''order_type'', PInt (if buy then 1 else 2)),
          (''hoga'', PStr (str_or (mo_hoga order) (cfg_order_hoga cfg))),
          (''tag'', PStr ((if buy then ''REBOOT_LIVE_SIM_BUY_'' else ''REBOOT_LIVE_SIM_SELL_'') @ code)),
          (''strategy'', PStr (if buy then ''reboot_v2_entry'' else ''reboot_v2_exit'')),
          (''order_mode'', PStr ''LIVE_SIM''), (''broker_env'', PStr ''SIMULATION''),
          (''managed_order_id'', id_val (mo_id order)), (''managed_intent_id'', PInt (mo_intent_id order)),
          (''candidate_id'', id_val (mo_candidate_id order)), (''position_id'', PStr (mo_position_id order)),
          (''idempotency_key'', PStr (mo_idempotency_key order)),
          (''metadata'', PDict [(''managed_order_id'', id_val (mo_id order)), (''managed_intent_id'', PInt (mo_intent_id order)),
             (''source'', PStr (source_value (mo_source order)))])],
       gc_command_id = command_id, gc_request_id = [], gc_timestamp = utc_timestamp now, gc_source = ''core'',
       gc_idempotency_key = mo_idempotency_key order\<rparr>)"

record intent_result =
  res_created_intent :: int
  res_queued_command :: int
  res_rejected_intent :: int
  res_warnings :: "string list"

definition add_event ::
  "int \<Rightarrow> int \<Rightarrow> string \<Rightarrow> string \<Rightarrow> string \<Rightarrow> event_payload \<Rightarrow> string \<Rightarrow> order_db \<Rightarrow> order_db" where
  "add_event order_id intent_id event_type status_from status_to payload message db =
     append_managed_order_event
       \<lparr>oe_order_id = order_id, oe_intent_id = intent_id, oe_event_type = event_type, oe_status_from = status_from,
        oe_status_to = status_to, oe_message = message, oe_payload = payload\<rparr> db"

definition block_candidate :: "manager_inputs \<Rightarrow> order_intent \<Rightarrow> time \<Rightarrow> string \<Rightarrow> string \<Rightarrow> manager_state \<Rightarrow> manager_state" where
  "block_candidate inputs intent now stage reason s =
     (let trade_date = str_or (mi_trade_date intent) (date_text now) in
      case in_candidate inputs trade_date (mi_code intent) of
        None \<Rightarrow> s
      | Some _ \<Rightarrow> s\<lparr>ms_blocks := ms_blocks s @
          [\<lparr>br_trade_date = trade_date, br_code = mi_code intent, br_stage = stage, br_reason = reason\<rparr>]\<rparr>)"

definition save_intent :: "order_intent \<Rightarrow> manager_state \<Rightarrow> manager_state" where
  "save_intent i s = s\<lparr>ms_db := fst (save_managed_order_intent i (ms_db s))\<rparr>"

definition save_order :: "managed_order \<Rightarrow> manager_state \<Rightarrow> manager_state" where
  "save_order x s = s\<lparr>ms_db := fst (save_managed_order x (ms_db s))\<rparr>"

definition log_event ::
  "int \<Rightarrow> int \<Rightarrow> string \<Rightarrow> string \<Rightarrow> string \<Rightarrow> event_payload \<Rightarrow> string \<Rightarrow> manager_state \<Rightarrow> manager_state" where
  "log_event a b c d e p m s = s\<lparr>ms_db := add_event a b c d e p m (ms_db s)\<rparr>"

text \<open>
  The three ends of an approved intent with a local order: blocked by the command guard, queued,
  or refused by the queue.
\<close>

definition finish_blocked ::
  "manager_inputs \<Rightarrow> time \<Rightarrow> order_intent \<Rightarrow> risk_decision \<Rightarrow> managed_order \<Rightarrow> string list \<Rightarrow> manager_state \<Rightarrow>
   manager_state \<times> intent_result" where
  "finish_blocked inputs now intent risk order reasons s =
     (let s1 = save_order (order\<lparr>mo_status := COMMAND_BLOCKED_OBSERVE_ONLY, mo_updated_at := At now,
            mo_details := dset ''gateway_command_guard_reasons'' (PList (map PStr reasons))
                            (dset ''risk'' (PDict (risk_to_dict risk)) (mo_details order))\<rparr>) s;
          s2 = save_intent (intent\<lparr>mi_status := intent_status.COMMAND_BLOCKED_OBSERVE_ONLY\<rparr>) s1;
          s3 = log_event (mo_id order) (mi_id intent) ''command_blocked_observe_only''
                 (order_status_value LOCAL_ORDER_CREATED) (order_status_value COMMAND_BLOCKED_OBSERVE_ONLY)
                 (RiskPayload risk reasons) (join (CHR '','') reasons) s2;
          s4 = block_candidate inputs intent now ''ORDER'' ''ORDER_MANAGER_OBSERVE_ONLY'' s3
      in (s4, \<lparr>res_created_intent = 1, res_queued_command = 0, res_rejected_intent = 0, res_warnings = reasons\<rparr>))"

definition finish_enqueue ::
  "(string \<Rightarrow> pydict \<Rightarrow> string) \<Rightarrow> (nat \<Rightarrow> string) \<Rightarrow> order_config \<Rightarrow> time \<Rightarrow> order_intent \<Rightarrow> risk_decision \<Rightarrow>
   managed_order \<Rightarrow> manager_state \<Rightarrow> manager_state \<times> intent_result" where
  "finish_enqueue digest fresh cfg now intent risk order s =
     (let command = command_for_order cfg order (new_message_id fresh ''cmd_order'' (ms_ids s)) now;
          (g, result) = enqueue_command digest (ms_gateway s) command (Some HIGH) (Some (cfg_command_ttl_sec cfg))
            (Some (cfg_command_max_attempts cfg))
            [(''runtime'', PStr ''REBOOT_LIVE_SIM''), (''managed_order_id'', id_val (mo_id order)),
             (''managed_intent_id'', id_val (mi_id intent)), (''dedupe_key'', PStr (mi_idempotency_key intent))] now;
          s0 = s\<lparr>ms_gateway := g, ms_ids := Suc (ms_ids s)\<rparr>;
          details = dset ''enqueue_result'' (PDict (enqueue_result_to_dict result))
            (dset ''command'' (PDict (gateway_command_to_dict command))
              (if er_accepted result then dset ''risk'' (PDict (risk_to_dict risk)) (mo_details order) else mo_details order))
      in if er_accepted result then
           (log_event (mo_id order) (mi_id intent) ''command_queued'' (order_status_value PENDING_LOCAL)
              (order_status_value QUEUED_TO_GATEWAY) (CommandPayload command result) []
              (save_intent (intent\<lparr>mi_status := COMMAND_QUEUED\<rparr>)
                (save_order (order\<lparr>mo_status := QUEUED_TO_GATEWAY, mo_command_id := gc_command_id command,
                   mo_sent_at := At now, mo_updated_at := At now, mo_details := details\<rparr>) s0)),
            \<lparr>res_created_intent = 1, res_queued_command = 1, res_rejected_intent = 0, res_warnings = []\<rparr>)
         else
           (log_event (mo_id order) (mi_id intent) ''command_enqueue_rejected'' (order_status_value PENDING_LOCAL)
              (order_status_value REJECTED_BY_GATEWAY) (CommandPayload command result) (er_reason result)
              (save_intent (intent\<lparr>mi_status := COMMAND_REJECTED\<rparr>)
                (save_order (order\<lparr>mo_status := REJECTED_BY_GATEWAY, mo_command_id := gc_command_id command,
                   mo_updated_at := At now, mo_details := details\<rparr>) s0)),
            \<lparr>res_created_intent = 1, res_queued_command = 0, res_rejected_intent = 1,
             res_warnings = [str_or (er_reason result) ''COMMAND_QUEUE_REJECTED'']\<rparr>))"

text \<open>The steps of an intent before that: its risk decision, its rejection or approval, its local order.\<close>

definition record_risk :: "order_intent \<Rightarrow> risk_decision \<Rightarrow> time \<Rightarrow> manager_state \<Rightarrow> manager_state" where
  "record_risk saved risk now s =
     s\<lparr>ms_db := save_order_risk_decision
         \<lparr>rr_intent_id = mi_id saved, rr_trade_date = str_or (mi_trade_date saved) (date_text now),
          rr_created_at = At now, rr_decision = risk\<rparr> (ms_db s)\<rparr>"

definition with_risk :: "intent_status \<Rightarrow> risk_decision \<Rightarrow> order_intent \<Rightarrow> order_intent" where
  "with_risk status risk saved =
     saved\<lparr>mi_status := status, mi_details := dset ''risk'' (PDict (risk_to_dict risk)) (mi_details saved)\<rparr>"

definition reject_intent :: "manager_inputs \<Rightarrow> time \<Rightarrow> order_intent \<Rightarrow> risk_decision \<Rightarrow> manager_state \<Rightarrow> manager_state" where
  "reject_intent inputs now saved risk s =
     block_candidate inputs saved now ''RISK''
       (case rd_reason_codes risk of r # _ \<Rightarrow> r | [] \<Rightarrow> ''ORDER_RISK_REJECTED'')
       (log_event 0 (mi_id saved) ''risk_rejected'' (intent_status_value CREATED)
          (intent_status_value intent_status.RISK_REJECTED) (RiskPayload risk [])
          (join (CHR '','') (rd_reason_codes risk))
          (save_intent (with_risk intent_status.RISK_REJECTED risk saved) s))"

definition create_local_order :: "order_config \<Rightarrow> time \<Rightarrow> order_intent \<Rightarrow> manager_state \<Rightarrow> manager_state \<times> managed_order" where
  "create_local_order cfg now intent s =
     (let (db, order) = save_managed_order (order_of_intent cfg intent now) (ms_db s)
      in (log_event (mo_id order) (mi_id intent) ''local_order_created''
            (order_status_value RISK_APPROVED) (order_status_value LOCAL_ORDER_CREATED) (OrderPayload order) []
            (save_intent (intent\<lparr>mi_status := intent_status.LOCAL_ORDER_CREATED\<rparr>) (s\<lparr>ms_db := db\<rparr>)),
          order))"

definition finish_approved ::
  "(string \<Rightarrow> pydict \<Rightarrow> string) \<Rightarrow> (nat \<Rightarrow> string) \<Rightarrow> order_config \<Rightarrow> manager_inputs \<Rightarrow> time \<Rightarrow> gateway_status \<Rightarrow>
   order_intent \<Rightarrow> risk_decision \<Rightarrow> manager_state \<Rightarrow> manager_state \<times> intent_result" where
  "finish_approved digest fresh cfg inputs now st intent risk s =
     (if \<not> cfg_create_local_order cfg then
        (log_event 0 (mi_id intent) ''local_order_blocked_config''
           (intent_status_value intent_status.RISK_APPROVED) (intent_status_value intent_status.RISK_APPROVED)
           (ReasonPayload ''LOCAL_ORDER_CREATION_DISABLED'') [] s,
         \<lparr>res_created_intent = 1, res_queued_command = 0, res_rejected_intent = 0,
          res_warnings = [''LOCAL_ORDER_CREATION_DISABLED'']\<rparr>)
      else
        let (s', order) = create_local_order cfg now intent s;
            reasons = gateway_command_guard cfg (ms_db s') st order risk
        in if reasons \<noteq> [] then finish_blocked inputs now intent risk order reasons s'
           else finish_enqueue digest fresh cfg now intent risk order s')"

definition process_intent ::
  "(string \<Rightarrow> pydict \<Rightarrow> string) \<Rightarrow> (nat \<Rightarrow> string) \<Rightarrow> order_config \<Rightarrow> manager_inputs \<Rightarrow> time \<Rightarrow> kill_state \<Rightarrow>
   order_intent \<Rightarrow> manager_state \<Rightarrow> manager_state \<times> (py_error + intent_result)" where
  "process_intent digest fresh cfg inputs now kill intent s =
     (if find_intent_by_idempotency (ms_db s) (mi_idempotency_key intent) \<noteq> None then
        (s, Inr \<lparr>res_created_intent = 0, res_queued_command = 0, res_rejected_intent = 0,
                 res_warnings = [''DUPLICATE_INTENT_SKIPPED'']\<rparr>)
      else
        let saved = snd (save_managed_order_intent intent (ms_db s));
            s1 = save_intent intent s;
            st = snapshot_at (ms_gateway s1) now
        in case evaluate_risk cfg (ms_db s1) st intent now kill of
             Inl err \<Rightarrow> (s1, Inl err)
           | Inr risk \<Rightarrow>
               let s2 = record_risk saved risk now s1
               in if \<not> approved risk then
                    (reject_intent inputs now saved risk s2,
                     Inr \<lparr>res_created_intent = 1, res_queued_command = 0, res_rejected_intent = 1,
                          res_warnings = rd_reason_codes risk\<rparr>)
                  else
                    let approved_intent = with_risk intent_status.RISK_APPROVED risk saved
                    in map_prod id Inr (finish_approved digest fresh cfg inputs now st approved_intent risk
                         (save_intent approved_intent s2)))"

section \<open>Reconciliation marks\<close>

text \<open>
  \<open>_record_reconcile_required\<close> appends a kill switch state that has only a state and a reason: the
  columns it leaves out (manual flag, loss count, results) get their defaults.
\<close>

definition reconcile_row :: "string \<Rightarrow> string \<Rightarrow> time \<Rightarrow> kill_row" where
  "reconcile_row trade_date reason now =
     \<lparr>kr_trade_date = trade_date, kr_state = STOP_NEW_BUY, kr_reason_codes = [reason], kr_manual_active = False,
      kr_consecutive_loss_count = 0, kr_daily_realized_pnl_pct = 0, kr_daily_realized_pnl_krw = 0,
      kr_updated_at = utc_timestamp now\<rparr>"

definition record_reconcile_required :: "string \<Rightarrow> string \<Rightarrow> time \<Rightarrow> order_db \<Rightarrow> order_db" where
  "record_reconcile_required reason trade_date now db =
     save_order_kill_switch_state (reconcile_row (str_or trade_date (date_text now)) reason now) db"

text \<open>\<open>_age_sec\<close> of this module: whole seconds, and 0 for a text that does not parse.\<close>

definition ack_age :: "stamp \<Rightarrow> time \<Rightarrow> time" where
  "ack_age t now = (case t of Blank \<Rightarrow> 0 | At u \<Rightarrow> max 0 (whole_second now - whole_second u))"

definition ack_overdue :: "order_config \<Rightarrow> time \<Rightarrow> managed_order \<Rightarrow> bool" where
  "ack_overdue cfg now x \<longleftrightarrow>
     cfg_ack_timeout_sec cfg * second < ack_age (stamp_or (mo_sent_at x) (mo_created_at x)) now"

definition mark_ack_timeout :: "order_config \<Rightarrow> time \<Rightarrow> managed_order \<Rightarrow> order_db \<Rightarrow> order_db" where
  "mark_ack_timeout cfg now x db =
     record_reconcile_required ''ORDER_ACK_TIMEOUT'' (mo_trade_date x) now
       (add_event (mo_id x) (mo_intent_id x) ''ack_timeout_reconcile_required'' (order_status_value (mo_status x))
          (order_status_value RECONCILE_REQUIRED) (TimeoutPayload (cfg_ack_timeout_sec cfg)) []
          (fst (save_managed_order (x\<lparr>mo_status := RECONCILE_REQUIRED, mo_updated_at := At now\<rparr>) db)))"

definition reconcile_open_orders :: "order_config \<Rightarrow> time \<Rightarrow> order_db \<Rightarrow> order_db \<times> int" where
  "reconcile_open_orders cfg now db =
     (let current = whole_second now;
          overdue = filter (ack_overdue cfg current) (list_managed_orders db [] [QUEUED_TO_GATEWAY] [] [] 500 0)
      in (fold (mark_ack_timeout cfg current) overdue db, int (length overdue)))"

section \<open>A run\<close>

record run_totals =
  rt_created :: int
  rt_queued :: int
  rt_rejected :: int
  rt_warnings :: "string list"

definition add_result :: "run_totals \<Rightarrow> intent_result \<Rightarrow> run_totals" where
  "add_result t r = \<lparr>rt_created = rt_created t + res_created_intent r, rt_queued = rt_queued t + res_queued_command r,
     rt_rejected = rt_rejected t + res_rejected_intent r, rt_warnings = rt_warnings t @ res_warnings r\<rparr>"

fun process_intents ::
  "(string \<Rightarrow> pydict \<Rightarrow> string) \<Rightarrow> (nat \<Rightarrow> string) \<Rightarrow> order_config \<Rightarrow> manager_inputs \<Rightarrow> time \<Rightarrow> kill_state \<Rightarrow>
   order_intent list \<Rightarrow> manager_state \<Rightarrow> run_totals \<Rightarrow> manager_state \<times> (py_error + run_totals)" where
  "process_intents digest fresh cfg inputs now kill [] s t = (s, Inr t)"
| "process_intents digest fresh cfg inputs now kill (i # is) s t =
     (let (s', r) = process_intent digest fresh cfg inputs now kill i s
      in case r of Inl err \<Rightarrow> (s', Inl err)
         | Inr x \<Rightarrow> process_intents digest fresh cfg inputs now kill is s' (add_result t x))"

record manager_snapshot =
  sn_status :: string
  sn_live_sim_orders_allowed :: bool
  sn_broker_env :: broker_env
  sn_account_whitelisted :: bool
  sn_risk_state :: string
  sn_kill_switch_state :: kill_state
  sn_open_order_count :: int
  sn_pending_cancel_count :: int
  sn_rejected_order_count :: int
  sn_created_intent_count :: int
  sn_risk_approved_count :: int
  sn_risk_rejected_count :: int
  sn_local_order_created_count :: int
  sn_command_blocked_count :: int
  sn_queued_command_count :: int
  sn_rejected_intent_count :: int
  sn_reconcile_required_count :: int
  sn_stop_new_buy :: bool
  sn_reduce_only :: bool
  sn_warnings :: "string list"

definition manager_snapshot_of ::
  "order_config \<Rightarrow> manager_state \<Rightarrow> time \<Rightarrow> run_totals \<Rightarrow> int \<Rightarrow> int \<Rightarrow> int \<Rightarrow> int \<Rightarrow> string list \<Rightarrow> manager_snapshot" where
  "manager_snapshot_of cfg s now t approved_count local_count blocked_count reconcile_count warnings =
     (let st = snapshot_at (ms_gateway s) now;
          trade_date = date_text now;
          summary = managed_order_summary (ms_db s) trade_date;
          kill = latest_state (ms_db s) trade_date;
          env = broker_environment_state [] st
      in \<lparr>sn_status = (if cfg_enabled cfg \<and> warnings \<noteq> [] then ''WARN''
                      else if \<not> cfg_enabled cfg then ''DISABLED'' else ''READY''),
          sn_live_sim_orders_allowed = (cfg_enabled cfg \<and> cfg_mode cfg = LIVE_SIM \<and> cfg_allow_live_sim_orders cfg \<and>
            \<not> cfg_observe_only cfg \<and> cfg_enqueue_gateway_command cfg \<and> cfg_send_order_allowed cfg \<and> env = SIMULATION),
          sn_broker_env = env,
          sn_account_whitelisted = (gs_account st \<noteq> [] \<and>
            (cfg_account_whitelist cfg = [] \<or> gs_account st \<in> set (cfg_account_whitelist cfg))),
          sn_risk_state = os_risk_state summary, sn_kill_switch_state = kr_state kill,
          sn_open_order_count = os_open_order_count summary,
          sn_pending_cancel_count = os_pending_cancel_count summary,
          sn_rejected_order_count = os_rejected_order_count summary,
          sn_created_intent_count = rt_created t, sn_risk_approved_count = approved_count,
          sn_risk_rejected_count = rt_rejected t, sn_local_order_created_count = local_count,
          sn_command_blocked_count = blocked_count, sn_queued_command_count = rt_queued t,
          sn_rejected_intent_count = rt_rejected t, sn_reconcile_required_count = reconcile_count,
          sn_stop_new_buy = (kr_state kill \<in> {STOP_NEW_BUY, KILL_SWITCH_ACTIVE}),
          sn_reduce_only = (kr_state kill = REDUCE_ONLY), sn_warnings = warnings\<rparr>)"

definition no_totals :: run_totals where
  "no_totals = \<lparr>rt_created = 0, rt_queued = 0, rt_rejected = 0, rt_warnings = []\<rparr>"

definition reconcile_warnings :: "int \<Rightarrow> string list" where
  "reconcile_warnings n = (if n \<noteq> 0 then [''RECONCILE_REQUIRED''] else [])"

text \<open>The part of a run that works on intents: entries, then exits (read after the entries), then cancels.\<close>

definition run_intents ::
  "(string \<Rightarrow> pydict \<Rightarrow> string) \<Rightarrow> (nat \<Rightarrow> string) \<Rightarrow> order_config \<Rightarrow> manager_inputs \<Rightarrow> time \<Rightarrow> kill_state \<Rightarrow>
   manager_state \<Rightarrow> manager_state \<times> (py_error + run_totals)" where
  "run_intents digest fresh cfg inputs now kill s =
     (let trade_date = date_text now; account = gs_account (g_status (ms_gateway s)) in
      case entry_intents cfg inputs account trade_date now of
        Inl err \<Rightarrow> (s, Inl err)
      | Inr entries \<Rightarrow>
          let (s1, r1) = process_intents digest fresh cfg inputs now kill entries s no_totals
          in case r1 of Inl err \<Rightarrow> (s1, Inl err)
             | Inr t1 \<Rightarrow>
                 (case exit_intents cfg (ms_db s1) inputs account trade_date now of
                    Inl err \<Rightarrow> (s1, Inl err)
                  | Inr exits \<Rightarrow>
                      let (s2, r2) = process_intents digest fresh cfg inputs now kill exits s1 t1
                      in case r2 of Inl err \<Rightarrow> (s2, Inl err)
                         | Inr t2 \<Rightarrow>
                             let (s3, cancels) = run_unfilled_cancel digest fresh cfg now s2
                             in (s3, Inr (t2\<lparr>rt_queued := rt_queued t2 + cs_queued_cancel_count cancels\<rparr>))))"

definition run_manager ::
  "(string \<Rightarrow> pydict \<Rightarrow> string) \<Rightarrow> (nat \<Rightarrow> string) \<Rightarrow> order_config \<Rightarrow> manager_inputs \<Rightarrow> time \<Rightarrow> manager_state \<Rightarrow>
   manager_state \<times> (py_error + manager_snapshot)" where
  "run_manager digest fresh cfg inputs now s =
     (let current = whole_second now; trade_date = date_text current in
      if \<not> cfg_enabled cfg then
        (s, Inr (manager_snapshot_of cfg s current no_totals 0 0 0 0 [''ORDER_MANAGER_DISABLED'']))
      else
        let (db1, kill) = evaluate_kill_switch cfg (ms_db s) trade_date current;
            (db2, n) = reconcile_open_orders cfg current db1;
            s1 = s\<lparr>ms_db := db2\<rparr>
        in if \<not> cfg_intent_enabled cfg then
             (s1, Inr (manager_snapshot_of cfg s1 current no_totals 0 0 0 n
                         (uniq_nonempty (''ORDER_INTENT_DISABLED'' # reconcile_warnings n))))
           else
             let (s2, r) = run_intents digest fresh cfg inputs current (kr_state kill) s1
             in case r of Inl err \<Rightarrow> (s2, Inl err)
                | Inr t \<Rightarrow>
                    let intents = list_managed_order_intents (ms_db s2) trade_date None [] 500 0;
                        orders = list_managed_orders (ms_db s2) trade_date [] [] [] 500 0
                    in (s2, Inr (manager_snapshot_of cfg s2 current t
                         (count_int (\<lambda>i. mi_status i \<in> {intent_status.RISK_APPROVED, intent_status.LOCAL_ORDER_CREATED,
                            intent_status.COMMAND_BLOCKED_OBSERVE_ONLY, COMMAND_QUEUED}) intents)
                         (count_int (\<lambda>x. mo_status x \<in> {LOCAL_ORDER_CREATED, COMMAND_BLOCKED_OBSERVE_ONLY, QUEUED_TO_GATEWAY}) orders)
                         (count_int (\<lambda>x. mo_status x = COMMAND_BLOCKED_OBSERVE_ONLY) orders) n
                         (uniq_nonempty (rt_warnings t @ reconcile_warnings n)))))"

text \<open>\<open>run_if_due\<close>: the timer of the manager; between two due times it returns the last summary.\<close>

definition run_due :: "order_config \<Rightarrow> time \<Rightarrow> manager_state \<Rightarrow> bool" where
  "run_due cfg now s \<longleftrightarrow>
     (case ms_last_run_at s of
        Blank \<Rightarrow> True
      | At t \<Rightarrow> \<not> (0 < cfg_run_interval_sec cfg \<and>
                   of_int (whole_second now - t) < cfg_run_interval_sec cfg * of_int second))"

definition run_if_due ::
  "(string \<Rightarrow> pydict \<Rightarrow> string) \<Rightarrow> (nat \<Rightarrow> string) \<Rightarrow> order_config \<Rightarrow> manager_inputs \<Rightarrow> time \<Rightarrow> manager_state \<Rightarrow>
   manager_state \<times> (py_error + manager_snapshot) option" where
  "run_if_due digest fresh cfg inputs now s =
     (if run_due cfg now s then
        map_prod id Some (run_manager digest fresh cfg inputs (whole_second now)
          (s\<lparr>ms_last_run_at := At (whole_second now)\<rparr>))
      else (s, None))"

section \<open>Gateway events\<close>

text \<open>The result dictionaries, with \<open>None\<close> for a missing \<open>matched\<close> and 0 for missing numbers.\<close>

record apply_result =
  am_matched :: "bool option"
  am_status :: string
  am_reason :: string
  am_order_id :: int
  am_filled_quantity :: int
  am_remaining_quantity :: int

definition plain_result :: "bool option \<Rightarrow> string \<Rightarrow> string \<Rightarrow> apply_result" where
  "plain_result matched status reason = \<lparr>am_matched = matched, am_status = status, am_reason = reason,
     am_order_id = 0, am_filled_quantity = 0, am_remaining_quantity = 0\<rparr>"

definition apply_of_ack :: "ack_result \<Rightarrow> apply_result" where
  "apply_of_ack r =
     (plain_result (Some (ar_matched r)) (case ar_status r of Some st \<Rightarrow> order_status_value st | None \<Rightarrow> []) (ar_reason r))
       \<lparr>am_order_id := ar_order_id r\<rparr>"

definition payload_trade_date :: "pydict \<Rightarrow> string" where
  "payload_trade_date payload = text_or payload ''trade_date'' []"

definition apply_order_ack :: "order_db \<Rightarrow> pydict \<Rightarrow> time \<Rightarrow> order_db \<times> (py_error + apply_result)" where
  "apply_order_ack db payload now =
     (let (db', r) = handle_command_ack db payload now
      in case r of Inl err \<Rightarrow> (db', Inl err)
         | Inr x \<Rightarrow>
             ((if ar_matched x then db'
               else record_reconcile_required ''ORDER_ACK_UNMATCHED'' (payload_trade_date payload) now db'),
              Inr (apply_of_ack x)))"

definition apply_order_reject :: "order_db \<Rightarrow> pydict \<Rightarrow> time \<Rightarrow> order_db \<times> (py_error + apply_result)" where
  "apply_order_reject db payload now = apply_order_ack db (dset ''status'' (PStr ''REJECTED'') payload) now"

definition apply_order_fill :: "order_db \<Rightarrow> pydict \<Rightarrow> time \<Rightarrow> order_db \<times> (py_error + apply_result)" where
  "apply_order_fill db payload now =
     (let (db', r) = handle_execution db payload now
      in case r of Inl err \<Rightarrow> (db', Inl err)
         | Inr x \<Rightarrow>
             ((if xr_matched x then db'
               else record_reconcile_required ''FILL_WITHOUT_LOCAL_ORDER'' (payload_trade_date payload) now db'),
              Inr \<lparr>am_matched = Some (xr_matched x), am_status = order_status_value (xr_status x), am_reason = [],
                   am_order_id = xr_order_id x, am_filled_quantity = xr_filled_quantity x,
                   am_remaining_quantity = xr_remaining_quantity x\<rparr>))"

definition apply_balance_snapshot :: "order_db \<Rightarrow> pydict \<Rightarrow> time \<Rightarrow> order_db \<times> apply_result" where
  "apply_balance_snapshot db payload now =
     (if truthy (py_or (dget payload ''mismatch'') (dget payload ''local_position_mismatch'')) then
        (record_reconcile_required ''BALANCE_MISMATCH'' (payload_trade_date payload) now db,
         plain_result (Some False) ''RECONCILE_REQUIRED'' ''BALANCE_MISMATCH'')
      else (db, plain_result (Some True) ''OK'' []))"

definition apply_order_status_snapshot :: "order_db \<Rightarrow> order_db \<times> apply_result" where
  "apply_order_status_snapshot db = (db, plain_result (Some True) ''OBSERVED'' [])"

definition mark_reconcile_required :: "order_db \<Rightarrow> string \<Rightarrow> pydict \<Rightarrow> time \<Rightarrow> order_db \<times> apply_result" where
  "mark_reconcile_required db reason payload now =
     (record_reconcile_required (str_or reason ''RECONCILE_REQUIRED'') (payload_trade_date payload) now db,
      plain_result (Some False) ''RECONCILE_REQUIRED'' (str_or reason ''RECONCILE_REQUIRED''))"

definition payload_order_no :: "pydict \<Rightarrow> string" where
  "payload_order_no payload =
     py_str (py_or (py_or (py_or (dget payload ''order_no'') (dget payload ''broker_order_id''))
       (dget (dict_or payload ''order_result'') ''order_no'')) (PStr []))"

definition with_source :: "string \<Rightarrow> pydict \<Rightarrow> pydict" where
  "with_source source_event_id d =
     (if source_event_id \<noteq> [] \<and> map_of d ''source_event_id'' = None
      then dset ''source_event_id'' (PStr source_event_id) d else d)"

definition apply_canonical_order_event ::
  "order_db \<Rightarrow> string \<Rightarrow> pydict \<Rightarrow> string \<Rightarrow> time \<Rightarrow> order_db \<times> (py_error + apply_result)" where
  "apply_canonical_order_event db event_type payload source_event_id now =
     (let canonical = upper event_type; data = with_source source_event_id payload in
      if canonical = ''IGNORED'' then (db, Inr (plain_result (Some True) ''IGNORED'' ''NON_ORDER_EVENT''))
      else if canonical = ''COMMAND_ACK'' then
        (if text_or data ''command_type'' [] \<in> {''send_order'', ''cancel_order'', ''modify_order''} then
           (record_reconcile_required ''ORDER_SUBMIT_UNKNOWN_NO_ORDER_NO'' (payload_trade_date data) now db,
            Inr (plain_result (Some False) ''RECONCILE_REQUIRED'' ''ORDER_SUBMIT_UNKNOWN_NO_ORDER_NO''))
         else (db, Inr (plain_result (Some True) ''COMMAND_ACK_OBSERVED'' [])))
      else if canonical \<in> {''COMMAND_FAILED'', ''ORDER_REJECTED''} then apply_order_reject db data now
      else if canonical \<in> {''ORDER_ACCEPTED'', ''ORDER_CANCEL_ACCEPTED''} then apply_order_ack db data now
      else if canonical \<in> {''ORDER_PARTIALLY_FILLED'', ''ORDER_FILLED''} then apply_order_fill db data now
      else if canonical = ''ORDER_CANCELLED'' then
        (let data' = dset ''status'' (PStr ''CANCELLED'') data
         in if truthy (dget data' ''command_id'') then apply_order_ack db data' now
            else map_prod id Inr (apply_order_status_snapshot db))
      else if canonical = ''BALANCE_SNAPSHOT'' then map_prod id Inr (apply_balance_snapshot db data now)
      else if canonical = ''POSITION_SNAPSHOT'' then (db, Inr (plain_result None ''SKELETON'' []))
      else if canonical \<in> {''ORDER_STATUS_SNAPSHOT'', ''RECONCILE_SNAPSHOT''} then map_prod id Inr (apply_order_status_snapshot db)
      else (record_reconcile_required ''UNSUPPORTED_ORDER_EVENT'' (payload_trade_date data) now db,
            Inr (plain_result (Some False) ''RECONCILE_REQUIRED'' ''UNSUPPORTED_ORDER_EVENT'')))"

text \<open>The mapping is a dictionary literal, so \<open>int(remaining_quantity or 0)\<close> runs for every event type.\<close>

definition apply_gateway_event :: "order_db \<Rightarrow> gateway_event \<Rightarrow> string \<Rightarrow> time \<Rightarrow> order_db \<times> (py_error + apply_result)" where
  "apply_gateway_event db e source_event_id now =
     (let payload = with_source source_event_id (ge_payload e) in
      case int_or0 payload ''remaining_quantity'' of
        Inl err \<Rightarrow> (db, Inl err)
      | Inr remaining \<Rightarrow>
          let fill = (if remaining \<le> 0 then ''ORDER_FILLED'' else ''ORDER_PARTIALLY_FILLED'');
              mapping = [(''command_ack'', if payload_order_no payload \<noteq> [] then ''ORDER_ACCEPTED'' else ''COMMAND_ACK''),
                (''command_failed'', ''COMMAND_FAILED''), (''command_timeout'', ''COMMAND_FAILED''),
                (''command_expired'', ''COMMAND_FAILED''), (''order_ack'', ''ORDER_ACCEPTED''),
                (''order_reject'', ''ORDER_REJECTED''), (''execution_event'', fill), (''execution'', fill),
                (''fill'', fill), (''order_fill'', fill), (''balance_snapshot'', ''BALANCE_SNAPSHOT''),
                (''position_snapshot'', ''POSITION_SNAPSHOT''), (''order_status_snapshot'', ''ORDER_STATUS_SNAPSHOT'')];
              canonical = (case map_of mapping (ge_type e) of Some c \<Rightarrow> c | None \<Rightarrow> ''IGNORED'')
          in apply_canonical_order_event db canonical payload source_event_id now)"

end
