(* ===== verification/Order_Manager_Props.thy ===== *)
theory Order_Manager_Props
  imports Order_Manager Command_Queue_Props
begin

text \<open>
  What the order manager guarantees: when commands enter the gateway queue, what a queued intent
  leaves behind, that an intent is processed once, and what reconciliation marks do.
\<close>

section \<open>Which commands enter the queue\<close>

definition records :: "manager_state \<Rightarrow> (string \<times> command_record) set" where
  "records s = set (q_records (g_queue (ms_gateway s)))"

text \<open>The broker environment as every snapshot of the gateway shows it.\<close>

definition session_env :: "manager_state \<Rightarrow> broker_env" where
  "session_env s = broker_environment_state [] (g_status (ms_gateway s))"

lemma snapshot_env [simp]: "broker_environment_state env (snapshot_at g now) = broker_environment_state env (g_status g)"
  by (simp add: broker_environment_state_def env_raw_values_def snapshot_at_def Let_def)

lemma refresh_env [simp]: "broker_environment_state env (g_status (refresh_pending g)) = broker_environment_state env (g_status g)"
  by (simp add: broker_environment_state_def env_raw_values_def refresh_pending_def Let_def)

definition may_trade :: "order_config \<Rightarrow> broker_env \<Rightarrow> bool" where
  "may_trade cfg env \<longleftrightarrow> cfg_mode cfg = LIVE_SIM \<and> cfg_allow_live_sim_orders cfg \<and> \<not> cfg_observe_only cfg \<and> env = SIMULATION"

text \<open>A step adds commands only under its guard, and removes and changes none.\<close>

definition guarded_step :: "order_config \<Rightarrow> manager_state \<Rightarrow> manager_state \<Rightarrow> bool" where
  "guarded_step cfg s s' \<longleftrightarrow> session_env s' = session_env s \<and> records s \<subseteq> records s' \<and>
     (\<forall>k r. (k, r) \<in> records s' \<longrightarrow> (k, r) \<in> records s \<or>
        may_trade cfg (session_env s) \<and> rec_status r = QUEUED \<and>
        (rec_command_type r = ''cancel_order'' \<or>
         rec_command_type r = ''send_order'' \<and> cfg_enqueue_gateway_command cfg \<and> cfg_send_order_allowed cfg))"

lemma guarded_refl [simp]: "guarded_step cfg s s"
  by (simp add: guarded_step_def)

lemma guarded_trans: "guarded_step cfg s s' \<Longrightarrow> guarded_step cfg s' s'' \<Longrightarrow> guarded_step cfg s s''"
  unfolding guarded_step_def by (intro conjI) (simp, blast, simp, blast)

lemma guarded_db: "ms_gateway s' = ms_gateway s \<Longrightarrow> guarded_step cfg s s'"
  by (simp add: guarded_step_def records_def session_env_def)

lemma update_new_key: "map_of d k = None \<Longrightarrow> AList.update k v d = d @ [(k, v)]"
  by (induction d) (auto split: if_splits)

lemma enqueue_cases:
  obtains (refused) "\<not> er_accepted (snd (enqueue digest q c p ttl tries now md))"
      "q_records (fst (enqueue digest q c p ttl tries now md)) = q_records q"
  | (accepted) "er_accepted (snd (enqueue digest q c p ttl tries now md))"
      "q_records (fst (enqueue digest q c p ttl tries now md)) =
         q_records q @ [(gc_command_id c, create_record digest c p ttl tries now md)]"
      "get_record q (gc_command_id c) = None"
proof -
  have "\<not> er_accepted (snd (enqueue digest q c p ttl tries now md)) \<and>
        q_records (fst (enqueue digest q c p ttl tries now md)) = q_records q \<or>
      er_accepted (snd (enqueue digest q c p ttl tries now md)) \<and> get_record q (gc_command_id c) = None \<and>
        q_records (fst (enqueue digest q c p ttl tries now md)) =
          q_records q @ [(gc_command_id c, create_record digest c p ttl tries now md)]"
    by (auto simp: enqueue_def Let_def put_record_def update_new_key get_record_def create_record_def split: option.split)
  then show thesis by (elim disjE conjE) (rule that; assumption)+
qed

lemma enqueue_command_gateway [simp]:
  "g_queue (fst (enqueue_command digest g c p ttl tries md now)) = fst (enqueue digest (g_queue g) c p ttl tries now md)"
  "snd (enqueue_command digest g c p ttl tries md now) = snd (enqueue digest (g_queue g) c p ttl tries now md)"
  by (simp_all add: enqueue_command_def case_prod_beta) (simp add: refresh_pending_def)

lemma enqueue_command_env [simp]:
  "broker_environment_state env (g_status (fst (enqueue_command digest g c p ttl tries md now))) =
   broker_environment_state env (g_status g)"
  by (simp add: enqueue_command_def case_prod_beta)

lemma guarded_enqueue:
  assumes "ms_gateway s' = fst (enqueue_command digest (ms_gateway s) c p ttl tries md now)"
    and "may_trade cfg (session_env s)"
    and "gc_type c = ''cancel_order'' \<or> gc_type c = ''send_order'' \<and> cfg_enqueue_gateway_command cfg \<and> cfg_send_order_allowed cfg"
  shows "guarded_step cfg s s'"
  using assms
  by (cases rule: enqueue_cases [of digest "g_queue (ms_gateway s)" c p ttl tries now md])
    (auto simp: guarded_step_def records_def session_env_def)

section \<open>Frames\<close>

lemma manager_frame [simp]:
  "ms_gateway (record_risk i risk now s) = ms_gateway s"
  "ms_db (record_risk i risk now s) = save_order_risk_decision
     \<lparr>rr_intent_id = mi_id i, rr_trade_date = str_or (mi_trade_date i) (date_text now),
      rr_created_at = At now, rr_decision = risk\<rparr> (ms_db s)"
  "ms_gateway (save_intent i s) = ms_gateway s" "ms_gateway (save_order x s) = ms_gateway s"
  "ms_gateway (log_event a b c d e p m s) = ms_gateway s" "ms_gateway (block_candidate inputs i now st r s) = ms_gateway s"
  "ms_db (block_candidate inputs i now st r s) = ms_db s"
  "ms_db (save_intent i s) = fst (save_managed_order_intent i (ms_db s))"
  "ms_db (save_order x s) = fst (save_managed_order x (ms_db s))"
  by (simp_all add: save_intent_def save_order_def log_event_def block_candidate_def record_risk_def Let_def split: option.split)

lemma reject_intent_gateway [simp]: "ms_gateway (reject_intent inputs now i risk s) = ms_gateway s"
  by (simp add: reject_intent_def)

lemma finish_blocked_gateway [simp]:
  "ms_gateway (fst (finish_blocked inputs now i risk x reasons s)) = ms_gateway s"
  by (simp add: finish_blocked_def Let_def)

lemma guard_passes:
  assumes "gateway_command_guard cfg db (snapshot_at g now) x risk = []"
  shows "may_trade cfg (broker_environment_state [] (g_status g)) \<and> cfg_enqueue_gateway_command cfg \<and>
    cfg_send_order_allowed cfg \<and> approved risk"
proof -
  have "uniq_nonempty xs = [] \<longleftrightarrow> set xs \<subseteq> {[]}" for xs
    using set_uniq_nonempty [of xs] by (metis Diff_eq_empty_iff set_empty)
  with assms show ?thesis by (simp add: gateway_command_guard_def may_trade_def split: if_splits)
qed

lemma finish_enqueue_gateway:
  "ms_gateway (fst (finish_enqueue digest fresh cfg now i risk x s)) =
     fst (enqueue_command digest (ms_gateway s)
       (command_for_order cfg x (new_message_id fresh ''cmd_order'' (ms_ids s)) now) (Some HIGH) (Some (cfg_command_ttl_sec cfg))
       (Some (cfg_command_max_attempts cfg))
       [(''runtime'', PStr ''REBOOT_LIVE_SIM''), (''managed_order_id'', id_val (mo_id x)),
        (''managed_intent_id'', id_val (mi_id i)), (''dedupe_key'', PStr (mi_idempotency_key i))] now)"
  by (simp add: finish_enqueue_def Let_def case_prod_beta del: enqueue_command_gateway)

lemma finish_approved_guarded:
  assumes "st = snapshot_at (ms_gateway s) now"
  shows "guarded_step cfg s (fst (finish_approved digest fresh cfg inputs now st i risk s))"
proof (cases "cfg_create_local_order cfg")
  case False
  then show ?thesis by (simp add: finish_approved_def guarded_db)
next
  case True
  obtain s' x where c: "create_local_order cfg now i s = (s', x)" by fastforce
  then have g: "ms_gateway s' = ms_gateway s" by (auto simp: create_local_order_def case_prod_beta)
  show ?thesis
  proof (cases "gateway_command_guard cfg (ms_db s') st x risk = []")
    case False
    with True c g show ?thesis by (simp add: finish_approved_def guarded_db)
  next
    case pass: True
    have "guarded_step cfg s' (fst (finish_enqueue digest fresh cfg now i risk x s'))"
      by (rule guarded_enqueue [OF finish_enqueue_gateway])
        (use guard_passes [OF pass [unfolded assms]] g in \<open>simp_all add: session_env_def command_for_order_def Let_def\<close>)
    from guarded_trans [OF guarded_db [OF g] this] True c pass show ?thesis by (simp add: finish_approved_def)
  qed
qed

lemma process_intent_guarded: "guarded_step cfg s (fst (process_intent digest fresh cfg inputs now kill i s))"
proof (cases "find_intent_by_idempotency (ms_db s) (mi_idempotency_key i)")
  case (Some x)
  then show ?thesis by (simp add: process_intent_def)
next
  case None
  show ?thesis
  proof (cases "evaluate_risk cfg (ms_db (save_intent i s)) (snapshot_at (ms_gateway s) now) i now kill")
    case (Inl err)
    with None show ?thesis by (simp add: process_intent_def Let_def guarded_db)
  next
    case (Inr risk)
    define saved where "saved = snd (save_managed_order_intent i (ms_db s))"
    define a where "a = with_risk intent_status.RISK_APPROVED risk saved"
    define s3 where "s3 = save_intent a (record_risk saved risk now (save_intent i s))"
    have g: "ms_gateway s3 = ms_gateway s" by (simp add: s3_def)
    have "guarded_step cfg s (fst (finish_approved digest fresh cfg inputs now (snapshot_at (ms_gateway s) now) a risk s3))"
      by (rule guarded_trans [OF guarded_db [OF g] finish_approved_guarded]) (simp add: g)
    with None Inr show ?thesis
      by (simp add: process_intent_def Let_def guarded_db a_def s3_def saved_def)
  qed
qed

lemma process_intents_guarded: "guarded_step cfg s (fst (process_intents digest fresh cfg inputs now kill is s t))"
proof (induction "is" arbitrary: s t)
  case (Cons i "is")
  show ?case
    using process_intent_guarded [of cfg s digest fresh inputs now kill i] Cons.IH guarded_trans
    by (fastforce simp: case_prod_beta split: sum.split)
qed simp

lemma queue_cancel_guarded:
  assumes "may_trade cfg (session_env s)"
  shows "guarded_step cfg s (fst (queue_cancel digest fresh cfg now s d))"
proof (cases "\<not> cd_should_cancel d \<or> cd_order_id d = 0 \<or> get_managed_order (ms_db s) (cd_order_id d) = None")
  case True
  then have "fst (queue_cancel digest fresh cfg now s d) = s" by (auto simp: queue_cancel_def)
  then show ?thesis by simp
next
  case False
  then obtain x where x: "get_managed_order (ms_db s) (cd_order_id d) = Some x" "cd_should_cancel d" "cd_order_id d \<noteq> 0" by auto
  define c where "c = cancel_command_for cfg x d (new_message_id fresh ''cmd_cancel'' (ms_ids s)) now"
  have "gc_type c = ''cancel_order''" by (simp add: c_def cancel_command_for_def Let_def)
  moreover have "ms_gateway (fst (queue_cancel digest fresh cfg now s d)) = fst (enqueue_command digest (ms_gateway s) c
      (Some HIGH) (Some (cfg_command_ttl_sec cfg)) (Some (cfg_command_max_attempts cfg))
      [(''runtime'', PStr ''REBOOT_LIVE_SIM''), (''managed_order_id'', PInt (cd_order_id d)), (''cancel'', PBool True)] now)"
    using x by (simp add: queue_cancel_def Let_def case_prod_beta c_def del: enqueue_command_gateway)
  ultimately show ?thesis using guarded_enqueue assms by blast
qed

lemma queue_cancels_guarded:
  assumes "\<forall>d\<in>set ds. cd_should_cancel d \<longrightarrow> may_trade cfg (session_env s)"
  shows "guarded_step cfg s (fst (queue_cancels digest fresh cfg now ds s a b))"
  using assms
proof (induction ds arbitrary: s a b)
  case (Cons d ds)
  show ?case
  proof (cases "cd_should_cancel d")
    case False
    with Cons show ?thesis by simp
  next
    case True
    define s1 where "s1 = fst (queue_cancel digest fresh cfg now s d)"
    have step: "guarded_step cfg s s1" unfolding s1_def using Cons.prems True by (intro queue_cancel_guarded) simp
    then have "session_env s1 = session_env s" by (simp add: guarded_step_def)
    with Cons.prems True have "\<forall>d\<in>set ds. cd_should_cancel d \<longrightarrow> may_trade cfg (session_env s1)" by simp
    from guarded_trans [OF step Cons.IH [OF this]] True show ?thesis by (simp add: case_prod_beta s1_def)
  qed
qed simp

lemma run_unfilled_cancel_guarded: "guarded_step cfg s (fst (run_unfilled_cancel digest fresh cfg now s))"
proof -
  have "\<forall>d\<in>set (build_decisions cfg (ms_db s) (snapshot_at (ms_gateway s) now) now).
      cd_should_cancel d \<longrightarrow> may_trade cfg (session_env s)"
    by (auto simp: build_decisions_def should_cancel_iff cancel_guard_passes_def may_trade_def session_env_def)
  from queue_cancels_guarded [OF this] show ?thesis by (simp add: run_unfilled_cancel_def Let_def case_prod_beta)
qed

lemma run_intents_guarded: "guarded_step cfg s (fst (run_intents digest fresh cfg inputs now kill s))"
proof -
  let ?es = "entry_intents cfg inputs (gs_account (g_status (ms_gateway s))) (date_text now) now"
  show ?thesis
  proof (cases ?es)
    case (Inl err)
    then show ?thesis by (simp add: run_intents_def Let_def)
  next
    case (Inr entries)
    define s1 r1 where "s1 = fst (process_intents digest fresh cfg inputs now kill entries s no_totals)"
      and "r1 = snd (process_intents digest fresh cfg inputs now kill entries s no_totals)"
    have g1: "guarded_step cfg s s1" unfolding s1_def by (rule process_intents_guarded)
    let ?xs = "exit_intents cfg (ms_db s1) inputs (gs_account (g_status (ms_gateway s))) (date_text now) now"
    consider (stop) "fst (run_intents digest fresh cfg inputs now kill s) = s1"
      | (go) t1 exits where "r1 = Inr t1" "?xs = Inr exits"
      using Inr by (cases r1; cases ?xs) (simp_all add: run_intents_def Let_def case_prod_beta s1_def r1_def)
    then show ?thesis
    proof cases
      case stop
      with g1 show ?thesis by simp
    next
      case go
      define s2 r2 where "s2 = fst (process_intents digest fresh cfg inputs now kill exits s1 t1)"
        and "r2 = snd (process_intents digest fresh cfg inputs now kill exits s1 t1)"
      have g2: "guarded_step cfg s s2"
        unfolding s2_def by (rule guarded_trans [OF g1 process_intents_guarded])
      have "fst (run_intents digest fresh cfg inputs now kill s) =
          (case r2 of Inl err \<Rightarrow> s2 | Inr t2 \<Rightarrow> fst (run_unfilled_cancel digest fresh cfg now s2))"
        using Inr go by (simp add: run_intents_def Let_def case_prod_beta s1_def r1_def s2_def r2_def split: sum.split)
      with g2 guarded_trans [OF g2 run_unfilled_cancel_guarded] show ?thesis by (simp split: sum.split)
    qed
  qed
qed

text \<open>C10: A run of the order manager adds commands to the gateway queue only when it is enabled with intents, in
  LIVE_SIM mode, with LIVE_SIM orders allowed, not in observe-only mode and over a simulated broker
  session; an order command needs the two command flags as well. It never removes or changes a
  command that is already there, and everything it adds is queued.\<close>
theorem run_sends_only_when_allowed:
  assumes "s' = fst (run_manager digest fresh cfg inputs now s)"
  shows "records s \<subseteq> records s' \<and>
     (\<forall>(k, r) \<in> records s' - records s.
        cfg_enabled cfg \<and> cfg_intent_enabled cfg \<and> may_trade cfg (session_env s) \<and> rec_status r = QUEUED \<and>
        (rec_command_type r = ''cancel_order'' \<or>
         rec_command_type r = ''send_order'' \<and> cfg_enqueue_gateway_command cfg \<and> cfg_send_order_allowed cfg))"
proof (cases "cfg_enabled cfg \<and> cfg_intent_enabled cfg")
  case False
  then have "ms_gateway s' = ms_gateway s"
    by (auto simp: assms run_manager_def Let_def case_prod_beta)
  then show ?thesis by (simp add: records_def)
next
  case True
  define s1 where "s1 = s\<lparr>ms_db := fst (reconcile_open_orders cfg (whole_second now)
      (fst (evaluate_kill_switch cfg (ms_db s) (date_text (whole_second now)) (whole_second now))))\<rparr>"
  define kill where "kill = kr_state (snd (evaluate_kill_switch cfg (ms_db s) (date_text (whole_second now)) (whole_second now)))"
  have "s' = fst (run_intents digest fresh cfg inputs (whole_second now) kill s1)"
    using True by (simp add: assms run_manager_def Let_def case_prod_beta s1_def kill_def split: sum.split)
  then have "guarded_step cfg s1 s'" by (simp add: run_intents_guarded)
  moreover have "guarded_step cfg s s1" by (rule guarded_db) (simp add: s1_def)
  ultimately have "guarded_step cfg s s'" using guarded_trans by blast
  with True show ?thesis by (auto simp: guarded_step_def)
qed

definition ready_decision :: pydict where
  "ready_decision = [(''id'', PInt 5), (''candidate_id'', PInt 4), (''code'', PStr ''005930''),
     (''entry_status'', PStr ''OBSERVE_READY''), (''market_action'', PStr ''ALLOW_NORMAL''), (''stock_role'', PStr ''LEADER''),
     (''price_location'', PStr ''GOOD_PULLBACK''), (''quantity'', PInt 2), (''limit_price_hint'', PInt 70000)]"

definition one_entry :: manager_inputs where
  "one_entry = \<lparr>in_entry_decisions = [ready_decision], in_exit_decisions = [], in_positions = [],
     in_tick = (\<lambda>_. None), in_candidate = (\<lambda>_ _. None)\<rparr>"

definition idle_state :: manager_state where
  "idle_state = \<lparr>ms_db = empty_db, ms_gateway = sim_gateway, ms_ids = 0, ms_blocks = [], ms_last_run_at = Blank\<rparr>"

theorem run_sends_only_when_allowed_witness:
  "\<exists>(k, r) \<in> records (fst (run_manager (\<lambda>_ _. []) show_nat live_config one_entry 100000000 idle_state)).
     rec_command_type r = ''send_order'' \<and> cfg_send_order_allowed live_config \<and> may_trade live_config (session_env idle_state)"
proof -
  let ?s' = "fst (run_manager (\<lambda>_ _. []) show_nat live_config one_entry 100000000 idle_state)"
  have "map (\<lambda>(k, r). (k, rec_command_type r)) (q_records (g_queue (ms_gateway ?s'))) = [(''cmd_order_0'', ''send_order'')]"
    by code_simp
  then obtain k r where r: "(k, r) \<in> records ?s'" "rec_command_type r = ''send_order''"
    unfolding records_def by (cases "q_records (g_queue (ms_gateway ?s'))") auto
  have "q_records (g_queue (ms_gateway idle_state)) = []" by code_simp
  then have "(k, r) \<in> records ?s' - records idle_state" using r(1) by (simp add: records_def)
  from bspec [OF run_sends_only_when_allowed [of ?s', OF refl, THEN conjunct2] this] r
  show ?thesis by (intro bexI [of _ "(k, r)"]) simp_all
qed

section \<open>An intent is processed once\<close>

definition known_keys :: "manager_state \<Rightarrow> string set" where
  "known_keys s = ir_idempotency_key ` set (t_rows (db_intents (ms_db s)))"

lemma known_iff: "find_intent_by_idempotency (ms_db s) k \<noteq> None \<longleftrightarrow> k \<in> known_keys s"
  by (auto simp: find_intent_by_idempotency_def known_keys_def find_None_iff)

lemma known_save_intent: "known_keys (save_intent i s) = known_keys s \<union> (if mi_id i = 0 then {mi_idempotency_key i} else {})"
  by (simp add: known_keys_def intents_after_save intents.save_keys)

lemma known_db: "db_intents (ms_db s') = db_intents (ms_db s) \<Longrightarrow> known_keys s' = known_keys s"
  by (simp add: known_keys_def)

lemma known_frame [simp]:
  "known_keys (save_order x s) = known_keys s" "known_keys (log_event a b c d e p m s) = known_keys s"
  "known_keys (block_candidate inputs i now st r s) = known_keys s" "known_keys (record_risk i risk now s) = known_keys s"
  "known_keys (s\<lparr>ms_gateway := g, ms_ids := n\<rparr>) = known_keys s"
  by (rule known_db; simp add: log_event_def add_event_def append_managed_order_event_def save_order_risk_decision_def)+

lemma known_save_mono: "k \<in> known_keys s \<Longrightarrow> k \<in> known_keys (save_intent i s)"
  by (simp add: known_save_intent)

lemma known_create: "k \<in> known_keys s \<Longrightarrow> k \<in> known_keys (fst (create_local_order cfg now i s))"
  using known_db [of "s\<lparr>ms_db := fst (save_managed_order (order_of_intent cfg i now) (ms_db s))\<rparr>" s]
  by (simp add: create_local_order_def case_prod_beta known_save_mono)

lemma known_finish:
  "k \<in> known_keys s \<Longrightarrow> k \<in> known_keys (fst (finish_blocked inputs now i risk x reasons s))"
  "k \<in> known_keys s \<Longrightarrow> k \<in> known_keys (fst (finish_enqueue digest fresh cfg now i risk x s))"
  by (simp_all add: finish_blocked_def finish_enqueue_def Let_def case_prod_beta known_save_mono)

lemma known_finish_approved:
  "k \<in> known_keys s \<Longrightarrow> k \<in> known_keys (fst (finish_approved digest fresh cfg inputs now st i risk s))"
  by (simp add: finish_approved_def Let_def case_prod_beta known_finish known_create)

lemma process_intent_knows:
  assumes "mi_id i = 0 \<and> k = mi_idempotency_key i \<or> k \<in> known_keys s"
  shows "k \<in> known_keys (fst (process_intent digest fresh cfg inputs now kill i s))"
proof (cases "find_intent_by_idempotency (ms_db s) (mi_idempotency_key i)")
  case (Some x)
  with assms known_iff [of s "mi_idempotency_key i"] show ?thesis by (auto simp: process_intent_def)
next
  case None
  have k: "k \<in> known_keys (save_intent i s)" using assms by (auto simp: known_save_intent)
  with None show ?thesis
    by (simp add: process_intent_def Let_def known_save_mono known_finish_approved reject_intent_def del: manager_frame split: sum.split)
qed

lemma process_intents_knows:
  assumes "k \<in> known_keys s \<or> (\<exists>i\<in>set is. mi_id i = 0 \<and> mi_idempotency_key i = k)"
    and "process_intents digest fresh cfg inputs now kill is s t = (s', Inr t')"
  shows "k \<in> known_keys s'"
  using assms
proof (induction "is" arbitrary: s t)
  case (Cons i "is")
  obtain s1 r where p: "process_intent digest fresh cfg inputs now kill i s = (s1, r)" by fastforce
  with Cons.prems(2) obtain x where "r = Inr x"
      "process_intents digest fresh cfg inputs now kill is s1 (add_result t x) = (s', Inr t')"
    by (cases r) auto
  moreover have "k \<in> known_keys s1 \<or> (\<exists>j\<in>set is. mi_id j = 0 \<and> mi_idempotency_key j = k)"
    using Cons.prems(1) process_intent_knows [of i k s digest fresh cfg inputs now kill] p by auto
  ultimately show ?case using Cons.IH by blast
qed simp

text \<open>Every intent is acted on at most once: after a batch of new intents has been processed, an intent with
  the idempotency key of any of them (or of one known before) is skipped, whatever the decisions,
  the configuration, the time and the kill switch are then, and nothing changes. This includes the
  intents whose processing was refused.\<close>
lemma intent_processed_once:
  assumes "process_intents digest fresh cfg inputs now kill is s t = (s', Inr t')"
    and "i \<in> set is" "mi_id i = 0" "mi_idempotency_key j = mi_idempotency_key i"
  shows "process_intent digest2 fresh2 cfg2 inputs2 now2 kill2 j s' =
     (s', Inr \<lparr>res_created_intent = 0, res_queued_command = 0, res_rejected_intent = 0,
               res_warnings = [''DUPLICATE_INTENT_SKIPPED'']\<rparr>)"
proof -
  have "mi_idempotency_key j \<in> known_keys s'"
    using process_intents_knows [OF _ assms(1), of "mi_idempotency_key j"] assms(2-4) by auto
  with known_iff [of s' "mi_idempotency_key j"] show ?thesis by (simp add: process_intent_def)
qed

section \<open>What a queued intent leaves behind\<close>

lemma finish_enqueue_effect:
  assumes ok: "db_ok (ms_db s)" and x: "get_managed_order (ms_db s) (mo_id x) = Some x0" "same_order x0 x"
    and i: "get_managed_order_intent (ms_db s) (mi_id i) = Some i0" "same_intent i0 i"
    and res: "finish_enqueue digest fresh cfg now i risk x s = (s', r)" "res_queued_command r = 1"
  shows "db_ok (ms_db s') \<and>
     (\<exists>y c. get_managed_order (ms_db s') (mo_id x) = Some y \<and> mo_status y = QUEUED_TO_GATEWAY \<and> mo_sent_at y = At now \<and>
        mo_idempotency_key y = mo_idempotency_key x \<and> mo_intent_id y = mo_intent_id x \<and>
        mo_quantity y = mo_quantity x \<and> mo_price y = mo_price x \<and> mo_code y = mo_code x \<and> mo_side y = mo_side x \<and>
        get_record (g_queue (ms_gateway s')) (mo_command_id y) = Some c \<and> rec_status c = QUEUED \<and>
        rec_command c = command_for_order cfg x (mo_command_id y) now) \<and>
     get_managed_order_intent (ms_db s') (mi_id i) = Some (i\<lparr>mi_status := COMMAND_QUEUED\<rparr>)"
proof -
  define c where "c = command_for_order cfg x (new_message_id fresh ''cmd_order'' (ms_ids s)) now"
  define md where "md = [(''runtime'', PStr ''REBOOT_LIVE_SIM''), (''managed_order_id'', id_val (mo_id x)),
        (''managed_intent_id'', id_val (mi_id i)), (''dedupe_key'', PStr (mi_idempotency_key i))]"
  define e where "e = enqueue_command digest (ms_gateway s) c (Some HIGH) (Some (cfg_command_ttl_sec cfg))
        (Some (cfg_command_max_attempts cfg)) md now"
  have acc: "er_accepted (snd e)"
    using res by (auto simp: finish_enqueue_def Let_def case_prod_beta e_def c_def md_def split: if_splits)
  define y where "y = x\<lparr>mo_status := QUEUED_TO_GATEWAY, mo_command_id := gc_command_id c, mo_sent_at := At now,
     mo_updated_at := At now, mo_details := dset ''enqueue_result'' (PDict (enqueue_result_to_dict (snd e)))
       (dset ''command'' (PDict (gateway_command_to_dict c)) (dset ''risk'' (PDict (risk_to_dict risk)) (mo_details x)))\<rparr>"
  have same: "same_order x0 y" using x(2) by (simp add: same_order_def y_def)
  note o = save_order_update [OF ok x(1) same]
  have same': "same_intent i0 (i\<lparr>mi_status := COMMAND_QUEUED\<rparr>)" using i(2) by (simp add: same_intent_def)
  have i1: "get_managed_order_intent (fst (save_managed_order y (ms_db s))) (mi_id i) = Some i0" using i(1) by simp
  note n = save_intent_update [OF o(3) i1 same']
  have s': "ms_db s' = append_managed_order_event
      \<lparr>oe_order_id = mo_id x, oe_intent_id = mi_id i, oe_event_type = ''command_queued'',
       oe_status_from = order_status_value PENDING_LOCAL, oe_status_to = order_status_value QUEUED_TO_GATEWAY,
       oe_message = [], oe_payload = CommandPayload c (snd e)\<rparr>
      (fst (save_managed_order_intent (i\<lparr>mi_status := COMMAND_QUEUED\<rparr>) (fst (save_managed_order y (ms_db s)))))"
    "ms_gateway s' = fst e"
    using res(1) acc unfolding e_def md_def c_def y_def
    by (auto simp: finish_enqueue_def Let_def case_prod_beta log_event_def add_event_def save_intent_def save_order_def
        simp del: enqueue_command_gateway)
  have "q_records (g_queue (fst e)) = q_records (g_queue (ms_gateway s)) @
      [(gc_command_id c, create_record digest c (Some HIGH) (Some (cfg_command_ttl_sec cfg)) (Some (cfg_command_max_attempts cfg)) now md)]"
    "get_record (g_queue (ms_gateway s)) (gc_command_id c) = None"
    using acc enqueue_cases [of digest "g_queue (ms_gateway s)" c "Some HIGH" "Some (cfg_command_ttl_sec cfg)"
        "Some (cfg_command_max_attempts cfg)" now md] by (auto simp: e_def)
  then have rec: "get_record (g_queue (fst e)) (gc_command_id c) =
      Some (create_record digest c (Some HIGH) (Some (cfg_command_ttl_sec cfg)) (Some (cfg_command_max_attempts cfg)) now md)"
    by (simp add: get_record_def map_add_def)
  have y: "mo_command_id y = gc_command_id c" "c = command_for_order cfg x (mo_command_id y) now"
    by (simp_all add: y_def c_def command_for_order_def Let_def)
  have cmd: "rec_command (create_record digest c p t m now md) = c" for p t m by (simp add: create_record_def Let_def)
  have "get_managed_order (ms_db s') (mo_id x) = Some y"
    "get_managed_order_intent (ms_db s') (mi_id i) = Some (i\<lparr>mi_status := COMMAND_QUEUED\<rparr>)" "db_ok (ms_db s')"
    using o n by (simp_all add: s')
  moreover have "get_record (g_queue (ms_gateway s')) (mo_command_id y) =
      Some (create_record digest c (Some HIGH) (Some (cfg_command_ttl_sec cfg)) (Some (cfg_command_max_attempts cfg)) now md)"
    using rec y(1) by (simp add: s')
  moreover have "mo_status y = QUEUED_TO_GATEWAY" "mo_sent_at y = At now" "mo_idempotency_key y = mo_idempotency_key x"
    "mo_intent_id y = mo_intent_id x" "mo_quantity y = mo_quantity x" "mo_price y = mo_price x" "mo_code y = mo_code x" "mo_side y = mo_side x"
    by (simp_all add: y_def)
  ultimately show ?thesis using cmd y(2) create_record_simps(2) by blast
qed

lemma create_local_order_effect:
  assumes "db_ok (ms_db s)" "get_managed_order_intent (ms_db s) (mi_id a) = Some a"
  obtains s' k where "create_local_order cfg now a s = (s', (order_of_intent cfg a now)\<lparr>mo_id := k\<rparr>)" "1 \<le> k"
    "db_ok (ms_db s')" "get_managed_order (ms_db s') k = Some ((order_of_intent cfg a now)\<lparr>mo_id := k\<rparr>)"
    "get_managed_order_intent (ms_db s') (mi_id a) = Some (a\<lparr>mi_status := intent_status.LOCAL_ORDER_CREATED\<rparr>)"
proof -
  define p where "p = order_of_intent cfg a now"
  have "storable_order (ms_db s) p" by (simp add: storable_order_def p_def order_of_intent_def)
  from save_order_cases [OF assms(1) this] obtain k where k: "1 \<le> k" "snd (save_managed_order p (ms_db s)) = p\<lparr>mo_id := k\<rparr>"
    "get_managed_order (fst (save_managed_order p (ms_db s))) = (get_managed_order (ms_db s))(k \<mapsto> p\<lparr>mo_id := k\<rparr>)"
    "db_ok (fst (save_managed_order p (ms_db s)))" by blast
  have "same_intent a (a\<lparr>mi_status := intent_status.LOCAL_ORDER_CREATED\<rparr>)" by (simp add: same_intent_def)
  note i = save_intent_update [OF k(4) _ this, of "mi_id a"]
  show thesis
  proof (rule that)
    show "create_local_order cfg now a s = (fst (create_local_order cfg now a s), (order_of_intent cfg a now)\<lparr>mo_id := k\<rparr>)"
      using k(2) by (simp add: create_local_order_def case_prod_beta p_def)
  qed (use k i assms(2) in \<open>simp_all add: create_local_order_def case_prod_beta log_event_def add_event_def p_def\<close>)
qed

text \<open>A queued intent was new, was approved, and ended in \<open>finish_enqueue\<close> on its new local order.\<close>

lemma process_intent_queued:
  assumes "process_intent digest fresh cfg inputs now kill i s = (s', Inr r)" "res_queued_command r = 1"
    and "db_ok (ms_db s)" "mi_id i = 0"
  obtains a risk s4 k where "mi_idempotency_key a = mi_idempotency_key i" "mi_quantity a = mi_quantity i" "mi_price a = mi_price i"
    "mi_code a = mi_code i" "mi_side a = mi_side i" "1 \<le> k" "db_ok (ms_db s4)"
    "get_managed_order (ms_db s4) k = Some ((order_of_intent cfg a now)\<lparr>mo_id := k\<rparr>)"
    "get_managed_order_intent (ms_db s4) (mi_id a) = Some (a\<lparr>mi_status := intent_status.LOCAL_ORDER_CREATED\<rparr>)"
    "finish_enqueue digest fresh cfg now a risk ((order_of_intent cfg a now)\<lparr>mo_id := k\<rparr>) s4 = (s', r)"
proof -
  have new: "find_intent_by_idempotency (ms_db s) (mi_idempotency_key i) = None"
    using assms(1,2) by (cases "find_intent_by_idempotency (ms_db s) (mi_idempotency_key i)") (auto simp: process_intent_def)
  define n where "n = t_next (db_intents (ms_db s))"
  note saved = save_intent_new [OF assms(3,4) new, folded n_def]
  obtain risk where risk: "evaluate_risk cfg (ms_db (save_intent i s)) (snapshot_at (ms_gateway s) now) i now kill = Inr risk" "approved risk"
    using assms(1,2) new by (auto simp: process_intent_def Let_def split: sum.splits if_splits)
  define a where "a = with_risk intent_status.RISK_APPROVED risk (i\<lparr>mi_id := n\<rparr>)"
  define s2 where "s2 = record_risk (i\<lparr>mi_id := n\<rparr>) risk now (save_intent i s)"
  have ok2: "db_ok (ms_db s2)" and i2: "get_managed_order_intent (ms_db s2) n = Some (i\<lparr>mi_id := n\<rparr>)"
    using saved by (simp_all add: s2_def)
  have a: "mi_id a = n" "same_intent (i\<lparr>mi_id := n\<rparr>) a" by (simp_all add: a_def with_risk_def same_intent_def)
  note upd = save_intent_update [OF ok2 i2 a(2)]
  have st: "db_ok (ms_db (save_intent a s2))" "get_managed_order_intent (ms_db (save_intent a s2)) (mi_id a) = Some a"
    using upd a(1) by simp_all
  have fin: "finish_approved digest fresh cfg inputs now (snapshot_at (ms_gateway s) now) a risk (save_intent a s2) = (s', r)"
    using assms(1) new risk saved(1) unfolding s2_def a_def
    by (simp add: process_intent_def Let_def map_prod_def case_prod_beta prod_eq_iff)
  from create_local_order_effect [OF st, of cfg now] obtain s4 k where
    c: "create_local_order cfg now a (save_intent a s2) = (s4, (order_of_intent cfg a now)\<lparr>mo_id := k\<rparr>)" "1 \<le> k"
    "db_ok (ms_db s4)" "get_managed_order (ms_db s4) k = Some ((order_of_intent cfg a now)\<lparr>mo_id := k\<rparr>)"
    "get_managed_order_intent (ms_db s4) (mi_id a) = Some (a\<lparr>mi_status := intent_status.LOCAL_ORDER_CREATED\<rparr>)" by blast
  have "finish_enqueue digest fresh cfg now a risk ((order_of_intent cfg a now)\<lparr>mo_id := k\<rparr>) s4 = (s', r)"
    using fin assms(2) c(1) by (auto simp: finish_approved_def finish_blocked_def Let_def split: if_splits)
  with c show thesis by (intro that [of a k s4 risk]) (simp_all add: a_def with_risk_def)
qed

text \<open>When an intent ends with a queued command, its records agree: a stored order with the intent's key,
  quantity, price, code and side is QUEUED_TO_GATEWAY and names a command; that command is in the
  gateway queue, still queued, is a \<open>send_order\<close> with the order's id and key; and the stored intent
  that the order names is COMMAND_QUEUED.\<close>
lemma queued_intent_leaves_records:
  assumes "db_ok (ms_db s)" "mi_id i = 0" "process_intent digest fresh cfg inputs now kill i s = (s', Inr r)"
    and "res_queued_command r = 1"
  shows "db_ok (ms_db s') \<and> (\<exists>y c j. get_managed_order (ms_db s') (mo_id y) = Some y \<and> mo_status y = QUEUED_TO_GATEWAY \<and>
     mo_idempotency_key y = mi_idempotency_key i \<and> mo_quantity y = mi_quantity i \<and> mo_price y = mi_price i \<and>
     mo_code y = mi_code i \<and> mo_side y = mi_side i \<and>
     get_record (g_queue (ms_gateway s')) (mo_command_id y) = Some c \<and> rec_status c = QUEUED \<and>
     gc_type (rec_command c) = ''send_order'' \<and> gc_idempotency_key (rec_command c) = mi_idempotency_key i \<and>
     dget (gc_payload (rec_command c)) ''managed_order_id'' = PInt (mo_id y) \<and>
     get_managed_order_intent (ms_db s') (mo_intent_id y) = Some j \<and> mi_status j = COMMAND_QUEUED \<and>
     mi_idempotency_key j = mi_idempotency_key i)"
proof -
  obtain a risk s4 k where
    a: "mi_idempotency_key a = mi_idempotency_key i" "mi_quantity a = mi_quantity i" "mi_price a = mi_price i"
      "mi_code a = mi_code i" "mi_side a = mi_side i" and
    c: "1 \<le> k" "db_ok (ms_db s4)" "get_managed_order (ms_db s4) k = Some ((order_of_intent cfg a now)\<lparr>mo_id := k\<rparr>)"
      "get_managed_order_intent (ms_db s4) (mi_id a) = Some (a\<lparr>mi_status := intent_status.LOCAL_ORDER_CREATED\<rparr>)"
      "finish_enqueue digest fresh cfg now a risk ((order_of_intent cfg a now)\<lparr>mo_id := k\<rparr>) s4 = (s', r)"
    using process_intent_queued [OF assms(3,4,1,2)] by metis
  define x where "x = (order_of_intent cfg a now)\<lparr>mo_id := k\<rparr>"
  have x: "mo_id x = k" "mo_idempotency_key x = mi_idempotency_key i" "mo_quantity x = mi_quantity i" "mo_price x = mi_price i"
    "mo_code x = mi_code i" "mo_side x = mi_side i" "mo_intent_id x = mi_id a"
    by (simp_all add: x_def order_of_intent_def a)
  have same: "same_order x x" "same_intent (a\<lparr>mi_status := intent_status.LOCAL_ORDER_CREATED\<rparr>) a"
    by (simp_all add: same_order_def same_intent_def)
  have "get_managed_order (ms_db s4) (mo_id x) = Some x" using c(3) x(1) by (simp add: x_def)
  from finish_enqueue_effect [OF c(2) this same(1) c(4) same(2) c(5) [folded x_def] assms(4)] obtain y d where
    yd: "db_ok (ms_db s')" "get_managed_order (ms_db s') k = Some y" "mo_status y = QUEUED_TO_GATEWAY"
      "mo_idempotency_key y = mo_idempotency_key x" "mo_intent_id y = mi_id a" "mo_quantity y = mo_quantity x"
      "mo_price y = mo_price x" "mo_code y = mo_code x" "mo_side y = mo_side x"
      "get_record (g_queue (ms_gateway s')) (mo_command_id y) = Some d" "rec_status d = QUEUED"
      "rec_command d = command_for_order cfg x (mo_command_id y) now"
      "get_managed_order_intent (ms_db s') (mi_id a) = Some (a\<lparr>mi_status := COMMAND_QUEUED\<rparr>)" unfolding x(1,7) by blast
  have id: "mo_id y = k" using get_order_id [OF yd(1,2)] by simp
  have cmd: "gc_type (rec_command d) = ''send_order''" "gc_idempotency_key (rec_command d) = mi_idempotency_key i"
    "dget (gc_payload (rec_command d)) ''managed_order_id'' = PInt k"
    using c(1) x by (simp_all add: yd(12) command_for_order_def Let_def dget_def id_val_def)
  show ?thesis
    by (intro conjI exI [of _ y] exI [of _ d] exI [of _ "a\<lparr>mi_status := COMMAND_QUEUED\<rparr>"])
      (use yd id cmd a x in simp_all)
qed

section \<open>Reconciliation\<close>

definition timed_out :: "time \<Rightarrow> managed_order \<Rightarrow> managed_order" where
  "timed_out now x = x\<lparr>mo_status := RECONCILE_REQUIRED, mo_updated_at := At now\<rparr>"

lemma record_reconcile_frame [simp]:
  "get_managed_order (record_reconcile_required reason d now db) = get_managed_order db"
  "db_ok (record_reconcile_required reason d now db) = db_ok db"
  by (simp_all add: record_reconcile_required_def)

lemma mark_ack_timeout_effect:
  assumes "db_ok db" "get_managed_order db (mo_id x) = Some x"
  shows "get_managed_order (mark_ack_timeout cfg now x db) = (get_managed_order db)(mo_id x \<mapsto> timed_out now x)"
    and "db_ok (mark_ack_timeout cfg now x db)"
  using save_order_update [OF assms, of "timed_out now x"]
  by (simp_all add: mark_ack_timeout_def add_event_def same_order_def timed_out_def)

lemma mark_ack_timeouts:
  assumes "db_ok db" "distinct (map mo_id xs)" "\<forall>x\<in>set xs. get_managed_order db (mo_id x) = Some x"
  shows "db_ok (fold (mark_ack_timeout cfg now) xs db) \<and>
     get_managed_order (fold (mark_ack_timeout cfg now) xs db) k =
       (if k \<in> mo_id ` set xs then map_option (timed_out now) (get_managed_order db k) else get_managed_order db k)"
  using assms
proof (induction xs arbitrary: db)
  case (Cons x xs)
  note e = mark_ack_timeout_effect [OF Cons.prems(1), of x cfg now]
  have x: "get_managed_order db (mo_id x) = Some x" using Cons.prems(3) by simp
  have "\<forall>z\<in>set xs. get_managed_order (mark_ack_timeout cfg now x db) (mo_id z) = Some z"
    using Cons.prems(2,3) by (auto simp: e(1) [OF x] image_iff)
  from Cons.IH [OF e(2) [OF x] _ this] Cons.prems(2) show ?case
    by (auto simp: e(1) [OF x] x)
qed simp

text \<open>The orders a reconciliation looks at: those waiting for an acknowledgement, when one page holds them.\<close>

definition queued_rows :: "order_db \<Rightarrow> order_row list" where
  "queued_rows db = filter (\<lambda>r. row_status r = QUEUED_TO_GATEWAY) (t_rows (db_orders db))"

lemma queued_listed:
  assumes "db_ok db" "length (queued_rows db) \<le> 500"
  shows "list_managed_orders db [] [QUEUED_TO_GATEWAY] [] [] 500 0 = map read_order (rev (queued_rows db))"
proof -
  have "filter (\<lambda>r. row_status r = QUEUED_TO_GATEWAY) (rev (t_rows (db_orders db))) = rev (queued_rows db)"
    by (simp only: queued_rows_def rev_filter)
  with assms(2) show ?thesis by (simp add: list_managed_orders_def page_def)
qed

lemma queued_stored:
  assumes "db_ok db"
  shows "distinct (map mo_id (map read_order (rev (queued_rows db))))"
    and "x \<in> read_order ` set (queued_rows db) \<longleftrightarrow>
           get_managed_order db (mo_id x) = Some x \<and> mo_status x = QUEUED_TO_GATEWAY"
proof -
  have id: "mo_id (read_order r) = row_id r" "row_status r = mo_status (read_order r)" if "r \<in> set (t_rows (db_orders db))" for r
    using that assms by (auto simp: db_ok_def rows_ok_def orders.read_pid order_columns_ok_def)
  have "map mo_id (map read_order (queued_rows db)) = map row_id (queued_rows db)"
    using id by (simp add: queued_rows_def)
  moreover have "distinct (map row_id (t_rows (db_orders db)))"
    using assms by (auto simp: db_ok_def rows_ok_def dest: table_ok_distinct)
  then have "distinct (map row_id (queued_rows db))" by (simp add: queued_rows_def distinct_map_filter)
  ultimately show "distinct (map mo_id (map read_order (rev (queued_rows db))))"
    by (metis distinct_rev rev_map)
  show "x \<in> read_order ` set (queued_rows db) \<longleftrightarrow>
      get_managed_order db (mo_id x) = Some x \<and> mo_status x = QUEUED_TO_GATEWAY"
    unfolding get_order_row [OF assms] queued_rows_def using id by auto
qed

text \<open>Reconciliation of open orders moves exactly the orders that wait for an acknowledgement longer than the
  timeout (counted in whole seconds from sending) to RECONCILE_REQUIRED, changes nothing else of
  any order, and returns their number, as long as one page of 500 holds the waiting orders.\<close>
lemma reconcile_marks_overdue_orders:
  assumes "db_ok db" "length (queued_rows db) \<le> 500" "reconcile_open_orders cfg now db = (db', n)"
  shows "db_ok db' \<and>
     get_managed_order db' k =
       (case get_managed_order db k of
          None \<Rightarrow> None
        | Some x \<Rightarrow> Some (if mo_status x = QUEUED_TO_GATEWAY \<and> cfg_ack_timeout_sec cfg * second < ack_age (stamp_or (mo_sent_at x) (mo_created_at x)) (whole_second now)
                         then timed_out (whole_second now) x else x)) \<and>
     n = int (card {x. get_managed_order db (mo_id x) = Some x \<and> mo_status x = QUEUED_TO_GATEWAY \<and> cfg_ack_timeout_sec cfg * second < ack_age (stamp_or (mo_sent_at x) (mo_created_at x)) (whole_second now)})"
proof -
  define xs where "xs = filter (ack_overdue cfg (whole_second now)) (map read_order (rev (queued_rows db)))"
  have run: "db' = fold (mark_ack_timeout cfg (whole_second now)) xs db" "n = int (length xs)"
    using assms(3) by (auto simp: reconcile_open_orders_def Let_def queued_listed [OF assms(1,2)] xs_def)
  have mem: "x \<in> set xs \<longleftrightarrow> get_managed_order db (mo_id x) = Some x \<and> mo_status x = QUEUED_TO_GATEWAY \<and> ack_overdue cfg (whole_second now) x" for x
    using queued_stored(2) [OF assms(1), of x] by (auto simp: xs_def)
  have dist: "distinct (map mo_id xs)"
    unfolding xs_def by (rule distinct_map_filter [OF queued_stored(1) [OF assms(1)]])
  have "k \<in> mo_id ` set xs \<longleftrightarrow> (\<exists>x. get_managed_order db k = Some x \<and> x \<in> set xs)"
    using mem get_order_id [OF assms(1)] by (auto simp: image_iff)
  then have k: "k \<in> mo_id ` set xs \<longleftrightarrow> (\<exists>x. get_managed_order db k = Some x \<and> mo_status x = QUEUED_TO_GATEWAY \<and> ack_overdue cfg (whole_second now) x)"
    using mem get_order_id [OF assms(1)] by auto
  have "card (set xs) = length xs" using dist by (simp add: distinct_card distinct_map)
  moreover have "set xs = {x. get_managed_order db (mo_id x) = Some x \<and> mo_status x = QUEUED_TO_GATEWAY \<and> ack_overdue cfg (whole_second now) x}"
    using mem by auto
  ultimately show ?thesis
    using mark_ack_timeouts [OF assms(1) dist, of cfg "whole_second now" k] mem
    unfolding run k by (auto simp: ack_overdue_def split: option.split)
qed

definition waiting_db :: order_db where
  "waiting_db = fst (save_managed_order (sample_order_row\<lparr>mo_id := 1, mo_status := QUEUED_TO_GATEWAY, mo_sent_at := At 0\<rparr>) sample_db)"

lemma waiting_db_ok: "db_ok waiting_db"
  unfolding waiting_db_def
  by (rule save_order_update(3) [OF sample_db_ok sample_db_get]) (simp add: same_order_def sample_order_row_def)

text \<open>A reconciliation mark records STOP_NEW_BUY, and with it forgets a manual stop and the count of
  consecutive losses: on a day without a broken limit or a recommendation, the next evaluation of
  the kill switch records NORMAL_TRADING, although before the mark it would have kept
  KILL_SWITCH_ACTIVE.\<close>
lemma reconcile_mark_forgets_manual_stop:
  assumes "cfg_kill_switch_enabled cfg" "0 < cfg_consecutive_loss_limit cfg" "d \<noteq> []"
    and "\<not> loss_limit_hit cfg (latest_portfolio_risk_snapshot db d)" "\<not> stop_recommended (latest_portfolio_risk_snapshot db d)"
    and "kr_manual_active (latest_state db d)"
    and "marked = record_reconcile_required reason d now db"
  shows "kr_state (latest_state marked d) = STOP_NEW_BUY \<and> \<not> kr_manual_active (latest_state marked d) \<and>
     kr_consecutive_loss_count (latest_state marked d) = 0 \<and>
     kr_state (snd (evaluate_kill_switch cfg db d now2)) = KILL_SWITCH_ACTIVE \<and>
     kr_state (snd (evaluate_kill_switch cfg marked d now2)) = NORMAL_TRADING"
proof -
  have m: "latest_state marked d = reconcile_row d reason now"
    using assms(3) by (simp add: assms(7) record_reconcile_required_def str_or_def reconcile_row_def)
  have p: "latest_portfolio_risk_snapshot marked d = latest_portfolio_risk_snapshot db d"
    by (simp add: assms(7) record_reconcile_required_def)
  have "kr_state (snd (evaluate_kill_switch cfg db d now2)) = KILL_SWITCH_ACTIVE"
    using assms(1,6) by (simp add: evaluate_kill_switch_def Let_def case_prod_beta next_state_def)
  moreover have "kr_state (snd (evaluate_kill_switch cfg marked d now2)) = NORMAL_TRADING"
    using assms(1,2,4,5) unfolding evaluate_kill_switch_def Let_def case_prod_beta m p
    by (simp add: next_state_def reconcile_row_def losses_step_def krw_step_def pct_step_def portfolio_step_def loss_limit_hit_def)
  ultimately show ?thesis unfolding m by (simp add: reconcile_row_def)
qed

section \<open>Gateway events\<close>

definition keeps_orders :: "order_db \<Rightarrow> order_db \<Rightarrow> bool" where
  "keeps_orders db db' \<longleftrightarrow> (db_ok db \<longrightarrow> db_ok db' \<and>
     (\<forall>k x. get_managed_order db k = Some x \<longrightarrow> (\<exists>y. get_managed_order db' k = Some y \<and> progressed x y)))"

lemma keeps_refl [simp]: "keeps_orders db db"
  by (auto simp: keeps_orders_def)

lemma keeps_trans: "keeps_orders db db1 \<Longrightarrow> keeps_orders db1 db2 \<Longrightarrow> keeps_orders db db2"
  unfolding keeps_orders_def by (meson progressed_trans)

lemma keeps_mark [simp]: "keeps_orders db (record_reconcile_required reason d now db')  = keeps_orders db db'"
  by (simp add: keeps_orders_def)

lemma keeps_ack: "keeps_orders db (fst (apply_order_ack db payload now))"
  using handle_command_ack_progress [of db payload now]
  by (auto simp: apply_order_ack_def Let_def case_prod_beta keeps_orders_def split: sum.split)

lemma keeps_fill: "keeps_orders db (fst (apply_order_fill db payload now))"
  using handle_execution_progress [of db payload now]
  by (auto simp: apply_order_fill_def Let_def case_prod_beta keeps_orders_def split: sum.split)

lemma keeps_canonical: "keeps_orders db (fst (apply_canonical_order_event db ty payload src now))"
  by (simp add: apply_canonical_order_event_def Let_def apply_order_reject_def keeps_ack keeps_fill
      apply_balance_snapshot_def apply_order_status_snapshot_def)

lemma keeps_event: "keeps_orders db (fst (apply_gateway_event db e src now))"
  by (auto simp: apply_gateway_event_def Let_def keeps_canonical split: sum.split)

text \<open>C11: The intake of gateway events, of any kind and in any order, malformed and unknown ones included, keeps the
  order table well-formed and loses no order: each keeps its id, key and quantity, and its filled
  quantity never decreases.\<close>
theorem gateway_events_keep_orders:
  assumes "db_ok db" "get_managed_order db k = Some x"
    and "db' = fold (\<lambda>(e, src, now) db. fst (apply_gateway_event db e src now)) events db"
  shows "db_ok db' \<and> (\<exists>y. get_managed_order db' k = Some y \<and> progressed x y)"
proof -
  have "keeps_orders db (fold (\<lambda>(e, src, now) db. fst (apply_gateway_event db e src now)) events db)"
  proof (induction events arbitrary: db)
    case (Cons e es)
    obtain ev src now where "e = (ev, src, now)" by (cases e)
    with keeps_trans [OF keeps_event Cons.IH] show ?case by simp
  qed simp
  with assms show ?thesis by (auto simp: keeps_orders_def)
qed

definition fill_event :: gateway_event where
  "fill_event = \<lparr>ge_type = ''execution_event'', ge_payload = execution_to_dict (fill_of 4 6), ge_event_id = ''e1'',
     ge_request_id = [], ge_timestamp = At 0, ge_source = ''gateway'', ge_command_id = [], ge_idempotency_key = []\<rparr>"

theorem gateway_events_keep_orders_witness:
  "\<exists>y. get_managed_order (fold (\<lambda>(e, src, now) db. fst (apply_gateway_event db e src now))
      [(fill_event, [], 7), (fill_event\<lparr>ge_type := ''unheard_of''\<rparr>, [], 8)] acked_db) 1 = Some y \<and> mo_quantity y = 10"
proof -
  have x: "get_managed_order acked_db 1 =
    Some (sample_order_row\<lparr>mo_id := 1, mo_status := ACKED_BY_GATEWAY, mo_order_no := ''77'', mo_command_id := ''cmd-1''\<rparr>)"
    by code_simp
  from gateway_events_keep_orders [OF acked_db_ok x refl, of "[(fill_event, [], 7), (fill_event\<lparr>ge_type := ''unheard_of''\<rparr>, [], 8)]"]
  obtain y where "get_managed_order (fold (\<lambda>(e, src, now) db. fst (apply_gateway_event db e src now))
      [(fill_event, [], 7), (fill_event\<lparr>ge_type := ''unheard_of''\<rparr>, [], 8)] acked_db) 1 = Some y" "mo_quantity y = 10"
    by (auto simp: progressed_def sample_order_row_def)
  then show ?thesis by blast
qed

end
