(* ===== verification/Live_Sim_Lifecycle.thy ===== *)
theory Live_Sim_Lifecycle
  imports Prelude
begin

text \<open>
  The status machine of LIVE_SIM orders (\<open>trading/live_sim/lifecycle.py\<close>): the statuses, the allowed
  transitions and the check of one recorded transition. The code never refuses a transition; it
  returns a warning. The Korean message of a warning is not modelled.
\<close>

section \<open>Statuses and transitions\<close>

definition LIVE_SIM_ORDER_STATUSES :: "string list" where
  "LIVE_SIM_ORDER_STATUSES =
     [''CREATED'', ''BLOCKED'', ''DUPLICATE'', ''SUBMITTED'', ''UNKNOWN_SUBMIT'', ''ACCEPTED'', ''PARTIAL_FILLED'',
      ''FILLED'', ''CANCEL_REQUESTED'', ''CANCELLED'', ''REJECTED'', ''FAILED'', ''EXPIRED'', ''RECONCILE_REQUIRED'']"

definition LIVE_SIM_TERMINAL_ORDER_STATUSES :: "string list" where
  "LIVE_SIM_TERMINAL_ORDER_STATUSES =
     [''BLOCKED'', ''DUPLICATE'', ''FILLED'', ''CANCELLED'', ''REJECTED'', ''FAILED'', ''EXPIRED'']"

definition LIVE_SIM_NON_TERMINAL_ORDER_STATUSES :: "string list" where
  "LIVE_SIM_NON_TERMINAL_ORDER_STATUSES =
     filter (\<lambda>s. s \<notin> set LIVE_SIM_TERMINAL_ORDER_STATUSES) LIVE_SIM_ORDER_STATUSES"

definition LIVE_SIM_ALLOWED_TRANSITIONS :: "(string \<times> string) list" where
  "LIVE_SIM_ALLOWED_TRANSITIONS =
     [(''CREATED'', ''BLOCKED''), (''CREATED'', ''DUPLICATE''), (''CREATED'', ''SUBMITTED''),
      (''SUBMITTED'', ''UNKNOWN_SUBMIT''), (''SUBMITTED'', ''ACCEPTED''), (''SUBMITTED'', ''REJECTED''),
      (''SUBMITTED'', ''FAILED''), (''SUBMITTED'', ''EXPIRED''),
      (''ACCEPTED'', ''PARTIAL_FILLED''), (''ACCEPTED'', ''FILLED''), (''ACCEPTED'', ''CANCEL_REQUESTED''),
      (''PARTIAL_FILLED'', ''FILLED''), (''PARTIAL_FILLED'', ''CANCEL_REQUESTED''),
      (''UNKNOWN_SUBMIT'', ''ACCEPTED''), (''UNKNOWN_SUBMIT'', ''PARTIAL_FILLED''), (''UNKNOWN_SUBMIT'', ''FILLED''),
      (''UNKNOWN_SUBMIT'', ''RECONCILE_REQUIRED''),
      (''CANCEL_REQUESTED'', ''CANCELLED''), (''CANCEL_REQUESTED'', ''PARTIAL_FILLED''), (''CANCEL_REQUESTED'', ''FILLED''),
      (''CANCEL_REQUESTED'', ''RECONCILE_REQUIRED''),
      (''RECONCILE_REQUIRED'', ''ACCEPTED''), (''RECONCILE_REQUIRED'', ''PARTIAL_FILLED''),
      (''RECONCILE_REQUIRED'', ''FILLED''), (''RECONCILE_REQUIRED'', ''CANCELLED'')]"

definition normalize_live_sim_status :: "pyval \<Rightarrow> string" where
  "normalize_live_sim_status value = upper (strip (py_str (py_or value (PStr []))))"

definition is_live_sim_terminal_status :: "pyval \<Rightarrow> bool" where
  "is_live_sim_terminal_status value \<longleftrightarrow> normalize_live_sim_status value \<in> set LIVE_SIM_TERMINAL_ORDER_STATUSES"

definition is_live_sim_non_terminal_status :: "pyval \<Rightarrow> bool" where
  "is_live_sim_non_terminal_status value \<longleftrightarrow>
     normalize_live_sim_status value \<in> set LIVE_SIM_NON_TERMINAL_ORDER_STATUSES"

record transition_check =
  tc_ok :: bool
  tc_status_from :: string
  tc_status_to :: string
  tc_warning_code :: string

definition transition_ok :: "string \<Rightarrow> string \<Rightarrow> transition_check" where
  "transition_ok a b = \<lparr>tc_ok = True, tc_status_from = a, tc_status_to = b, tc_warning_code = []\<rparr>"

definition transition_warning :: "string \<Rightarrow> string \<Rightarrow> string \<Rightarrow> transition_check" where
  "transition_warning a b code = \<lparr>tc_ok = False, tc_status_from = a, tc_status_to = b, tc_warning_code = code\<rparr>"

definition validate_live_sim_transition :: "pyval \<Rightarrow> pyval \<Rightarrow> transition_check" where
  "validate_live_sim_transition status_from status_to =
     (let a = normalize_live_sim_status status_from; b = normalize_live_sim_status status_to in
      if b = [] then transition_ok a b
      else if a = b \<or> a = [] then transition_ok a b
      else if a \<notin> set LIVE_SIM_ORDER_STATUSES then transition_warning a b ''LIVE_SIM_UNKNOWN_STATUS_FROM''
      else if b \<notin> set LIVE_SIM_ORDER_STATUSES then transition_warning a b ''LIVE_SIM_UNKNOWN_STATUS_TO''
      else if b = ''RECONCILE_REQUIRED'' \<and> a \<notin> set LIVE_SIM_TERMINAL_ORDER_STATUSES then transition_ok a b
      else if (a, b) \<in> set LIVE_SIM_ALLOWED_TRANSITIONS then transition_ok a b
      else transition_warning a b ''LIVE_SIM_INVALID_STATUS_TRANSITION'')"

definition transition_warning_codes :: "pydict list \<Rightarrow> (transition_check \<times> pydict) list" where
  "transition_warning_codes events =
     filter (\<lambda>(r, e). \<not> tc_ok r)
       (map (\<lambda>e. (validate_live_sim_transition (dget e ''status_from'') (dget e ''status_to''), e)) events)"

section \<open>The status machine\<close>

text \<open>The transitions between known statuses that pass the check, as a step relation.\<close>

inductive status_step :: "string \<Rightarrow> string \<Rightarrow> bool" where
  allowed: "(a, b) \<in> set LIVE_SIM_ALLOWED_TRANSITIONS \<Longrightarrow> status_step a b"
| reconcile: "a \<in> set LIVE_SIM_NON_TERMINAL_ORDER_STATUSES \<Longrightarrow> a \<noteq> ''RECONCILE_REQUIRED'' \<Longrightarrow>
    status_step a ''RECONCILE_REQUIRED''"

inductive_cases status_stepE: "status_step a b"

lemmas status_tables = LIVE_SIM_ORDER_STATUSES_def LIVE_SIM_TERMINAL_ORDER_STATUSES_def
  LIVE_SIM_NON_TERMINAL_ORDER_STATUSES_def LIVE_SIM_ALLOWED_TRANSITIONS_def

lemma allowed_from_non_terminal:
  "\<forall>(a, b) \<in> set LIVE_SIM_ALLOWED_TRANSITIONS. a \<in> set LIVE_SIM_NON_TERMINAL_ORDER_STATUSES \<and>
     b \<in> set LIVE_SIM_ORDER_STATUSES \<and> a \<noteq> b"
  by code_simp

lemma status_step_known:
  "status_step a b \<Longrightarrow> a \<in> set LIVE_SIM_NON_TERMINAL_ORDER_STATUSES \<and> b \<in> set LIVE_SIM_ORDER_STATUSES \<and> a \<noteq> b"
  using allowed_from_non_terminal by (erule_tac status_stepE) (auto simp: status_tables)

lemma non_terminal_iff:
  "a \<in> set LIVE_SIM_NON_TERMINAL_ORDER_STATUSES \<longleftrightarrow>
     a \<in> set LIVE_SIM_ORDER_STATUSES \<and> a \<notin> set LIVE_SIM_TERMINAL_ORDER_STATUSES"
  by (auto simp: LIVE_SIM_NON_TERMINAL_ORDER_STATUSES_def)

lemma known_nonempty: "[] \<notin> set LIVE_SIM_ORDER_STATUSES"
  by (simp add: LIVE_SIM_ORDER_STATUSES_def)

lemma validate_iff_step:
  assumes "normalize_live_sim_status u = a" "normalize_live_sim_status v = b" "a \<noteq> []" "b \<noteq> []" "a \<noteq> b"
  shows "tc_ok (validate_live_sim_transition u v) \<longleftrightarrow> status_step a b"
proof
  assume "tc_ok (validate_live_sim_transition u v)"
  then have "a \<in> set LIVE_SIM_ORDER_STATUSES" "b \<in> set LIVE_SIM_ORDER_STATUSES"
    "b = ''RECONCILE_REQUIRED'' \<and> a \<notin> set LIVE_SIM_TERMINAL_ORDER_STATUSES \<or> (a, b) \<in> set LIVE_SIM_ALLOWED_TRANSITIONS"
    using assms by (auto simp: validate_live_sim_transition_def Let_def transition_warning_def split: if_splits)
  then show "status_step a b" using assms(5) by (auto simp: non_terminal_iff intro: status_step.intros)
next
  assume s: "status_step a b"
  note known = status_step_known [OF s]
  from s have "b = ''RECONCILE_REQUIRED'' \<and> a \<notin> set LIVE_SIM_TERMINAL_ORDER_STATUSES \<or> (a, b) \<in> set LIVE_SIM_ALLOWED_TRANSITIONS"
    by (rule status_stepE) (auto simp: non_terminal_iff)
  with known assms show "tc_ok (validate_live_sim_transition u v)"
    by (auto simp: validate_live_sim_transition_def Let_def transition_ok_def non_terminal_iff)
qed

text \<open>A sequence of statuses that an order can be recorded in, one after the other, without a warning.\<close>

fun clean_path :: "string \<Rightarrow> string list \<Rightarrow> bool" where
  "clean_path a [] \<longleftrightarrow> True"
| "clean_path a (b # bs) \<longleftrightarrow> tc_ok (validate_live_sim_transition (PStr a) (PStr b)) \<and> clean_path b bs"

definition way_to_filled :: "string \<Rightarrow> string list" where
  "way_to_filled a =
     (if a = ''CREATED'' then [''SUBMITTED'', ''ACCEPTED'', ''FILLED'']
      else if a = ''SUBMITTED'' then [''ACCEPTED'', ''FILLED'']
      else [''FILLED''])"

lemma way_to_filled_clean:
  "list_all (\<lambda>a. clean_path a (way_to_filled a)) LIVE_SIM_NON_TERMINAL_ORDER_STATUSES"
  by code_simp

text \<open>C12: A LIVE_SIM order can always finish: from every status that is not terminal at most three changes, none of
  which the check warns about, lead to FILLED; and from a terminal status the check passes exactly the
  events that keep the status or name none.\<close>
theorem live_sim_orders_can_finish:
  "(is_live_sim_non_terminal_status v \<longrightarrow>
      (\<exists>bs. bs \<noteq> [] \<and> length bs \<le> 3 \<and> set bs \<subseteq> set LIVE_SIM_ORDER_STATUSES \<and>
         clean_path (normalize_live_sim_status v) bs \<and> last bs = ''FILLED'')) \<and>
   (is_live_sim_terminal_status v \<longrightarrow>
      (tc_ok (validate_live_sim_transition v w) \<longleftrightarrow>
         normalize_live_sim_status w \<in> {[], normalize_live_sim_status v}))"
proof (intro conjI impI)
  let ?a = "normalize_live_sim_status v"
  assume "is_live_sim_non_terminal_status v"
  then have "clean_path ?a (way_to_filled ?a)"
    using way_to_filled_clean by (simp add: is_live_sim_non_terminal_status_def list_all_iff)
  then show "\<exists>bs. bs \<noteq> [] \<and> length bs \<le> 3 \<and> set bs \<subseteq> set LIVE_SIM_ORDER_STATUSES \<and> clean_path ?a bs \<and> last bs = ''FILLED''"
    by (intro exI [of _ "way_to_filled ?a"]) (auto simp: way_to_filled_def LIVE_SIM_ORDER_STATUSES_def)
next
  assume t: "is_live_sim_terminal_status v"
  then have ended: "normalize_live_sim_status v \<in> set LIVE_SIM_TERMINAL_ORDER_STATUSES" by (simp add: is_live_sim_terminal_status_def)
  then have "normalize_live_sim_status v \<noteq> []" by (auto simp: LIVE_SIM_TERMINAL_ORDER_STATUSES_def)
  moreover have "\<not> status_step (normalize_live_sim_status v) b" for b
    using status_step_known ended non_terminal_iff by blast
  ultimately show "tc_ok (validate_live_sim_transition v w) \<longleftrightarrow> normalize_live_sim_status w \<in> {[], normalize_live_sim_status v}"
    using validate_iff_step [OF refl refl, of v w]
    by (auto simp: validate_live_sim_transition_def Let_def transition_ok_def)
qed

theorem live_sim_orders_can_finish_witness:
  "(\<exists>bs. length bs \<le> 3 \<and> clean_path ''SUBMITTED'' bs \<and> last bs = ''FILLED'') \<and>
   \<not> tc_ok (validate_live_sim_transition (PStr ''FILLED'') (PStr ''accepted ''))"
proof -
  have n: "is_live_sim_non_terminal_status (PStr '' submitted'')" "normalize_live_sim_status (PStr '' submitted'') = ''SUBMITTED''"
    by code_simp+
  have t: "is_live_sim_terminal_status (PStr ''FILLED'')" "normalize_live_sim_status (PStr ''accepted '') = ''ACCEPTED''"
    "normalize_live_sim_status (PStr ''FILLED'') = ''FILLED''" by code_simp+
  from live_sim_orders_can_finish [of "PStr '' submitted''" "PNone"] n
    live_sim_orders_can_finish [of "PStr ''FILLED''" "PStr ''accepted ''"] t
  show ?thesis by auto
qed

section \<open>A log without warnings\<close>

text \<open>
  The status an order has after a log of events, when each event continues from the status before
  it; an event without a new status keeps it.
\<close>

fun log_status :: "string \<Rightarrow> pydict list \<Rightarrow> string option" where
  "log_status s [] = Some s"
| "log_status s (e # es) =
     (if normalize_live_sim_status (dget e ''status_from'') \<noteq> s then None
      else let b = normalize_live_sim_status (dget e ''status_to'') in log_status (if b = [] then s else b) es)"

lemma warnings_Nil:
  "transition_warning_codes events = [] \<longleftrightarrow>
     (\<forall>e\<in>set events. tc_ok (validate_live_sim_transition (dget e ''status_from'') (dget e ''status_to'')))"
  by (auto simp: transition_warning_codes_def filter_empty_conv)

text \<open>A log of events that continue each other and raises no warning is a path of the status machine: the
  order ends in a status that the machine reaches from where it began, and an order that began in a
  terminal status is still in it.\<close>
lemma clean_log_follows_machine:
  assumes "transition_warning_codes events = []" "log_status s events = Some t" "s \<in> set LIVE_SIM_ORDER_STATUSES"
  shows "status_step\<^sup>*\<^sup>* s t \<and> t \<in> set LIVE_SIM_ORDER_STATUSES \<and> (s \<in> set LIVE_SIM_TERMINAL_ORDER_STATUSES \<longrightarrow> t = s)"
proof -
  have "status_step\<^sup>*\<^sup>* s t \<and> t \<in> set LIVE_SIM_ORDER_STATUSES"
    using assms
  proof (induction events arbitrary: s)
    case (Cons e es)
    define b where "b = normalize_live_sim_status (dget e ''status_to'')"
    have from_s: "normalize_live_sim_status (dget e ''status_from'') = s" "log_status (if b = [] then s else b) es = Some t"
      using Cons.prems(2) by (auto simp: b_def Let_def split: if_splits)
    have ok: "tc_ok (validate_live_sim_transition (dget e ''status_from'') (dget e ''status_to''))" "transition_warning_codes es = []"
      using Cons.prems(1) by (auto simp: warnings_Nil)
    show ?case
    proof (cases "b = [] \<or> b = s")
      case True
      with Cons.IH [OF ok(2) _ Cons.prems(3)] from_s(2) show ?thesis by auto
    next
      case False
      have "s \<noteq> []" using Cons.prems(3) known_nonempty by blast
      with validate_iff_step [OF from_s(1) b_def [symmetric]] ok(1) False have "status_step s b" by blast
      moreover from status_step_known [OF this] Cons.IH [OF ok(2), of b] from_s(2) False
      have "status_step\<^sup>*\<^sup>* b t \<and> t \<in> set LIVE_SIM_ORDER_STATUSES" by auto
      ultimately show ?thesis by (meson converse_rtranclp_into_rtranclp)
    qed
  qed simp
  moreover have "t = s" if "s \<in> set LIVE_SIM_TERMINAL_ORDER_STATUSES" "status_step\<^sup>*\<^sup>* s t"
    using that(2) status_step_known that(1) by (cases rule: converse_rtranclpE) (auto simp: non_terminal_iff)
  ultimately show ?thesis by blast
qed

definition fill_log :: "pydict list" where
  "fill_log = [[(''status_from'', PStr ''CREATED''), (''status_to'', PStr ''submitted'')],
     [(''status_from'', PStr ''SUBMITTED''), (''status_to'', PStr ''ACCEPTED'')],
     [(''status_from'', PStr ''ACCEPTED''), (''status_to'', PNone)],
     [(''status_from'', PStr ''ACCEPTED''), (''status_to'', PStr ''FILLED'')]]"

end
