(* ===== verification/Trading_Rules.thy ===== *)
theory Trading_Rules
  imports Prelude Complex_Main
begin

text \<open>
  The price and quantity rules of the manual trading engine (\<open>trading/rules.py\<close>). Prices and quantities
  are integers; weights and rates, floats in the code, are exact rationals here.
\<close>

section \<open>Price ticks\<close>

definition tick_size :: "int \<Rightarrow> int" where
  "tick_size price =
     (let p = \<bar>price\<bar> in
      if p < 2000 then 1
      else if p < 5000 then 5
      else if p < 20000 then 10
      else if p < 50000 then 50
      else if p < 200000 then 100
      else if p < 500000 then 500
      else 1000)"

lemma tick_size_pos [simp]: "0 < tick_size p"
  by (simp add: tick_size_def Let_def)

text \<open>The loop of \<open>ticks_between\<close>: it gives up after a million ticks.\<close>

function tick_loop :: "int \<Rightarrow> int \<Rightarrow> int \<Rightarrow> py_error + int" where
  "tick_loop cursor high ticks =
     (if cursor < high then
        (if 1000000 < ticks + 1 then Inl ValueError else tick_loop (cursor + tick_size cursor) high (ticks + 1))
      else Inr ticks)"
  by pat_completeness auto

termination
proof (relation "measure (\<lambda>(cursor, high, ticks). nat (high - cursor))")
  fix cursor high ticks :: int
  assume "cursor < high"
  then show "((cursor + tick_size cursor, high, ticks + 1), cursor, high, ticks)
      \<in> measure (\<lambda>(cursor, high, ticks). nat (high - cursor))"
    using tick_size_pos [of cursor] by simp
qed simp

declare tick_loop.simps [simp del]

definition ticks_between :: "int \<Rightarrow> int \<Rightarrow> py_error + int" where
  "ticks_between price_a price_b =
     (let low = min \<bar>price_a\<bar> \<bar>price_b\<bar>; high = max \<bar>price_a\<bar> \<bar>price_b\<bar> in
      if low = high then Inr 0 else tick_loop low high 0)"

definition is_within_ticks :: "int \<Rightarrow> int \<Rightarrow> int \<Rightarrow> py_error + bool" where
  "is_within_ticks current_price target_price threshold_ticks =
     (if current_price \<le> 0 \<or> target_price \<le> 0 then Inr False
      else bindE (ticks_between current_price target_price) (\<lambda>n. Inr (n \<le> max 0 threshold_ticks)))"

section \<open>Quantities, weights, exits\<close>

definition calculate_order_quantity :: "int \<Rightarrow> rat \<Rightarrow> int \<Rightarrow> int" where
  "calculate_order_quantity budget weight_percent target_price =
     (if budget \<le> 0 \<or> target_price \<le> 0 \<or> weight_percent \<le> 0 then 0
      else \<lfloor>of_int budget * (weight_percent / 100) / of_int target_price\<rfloor>)"

definition validate_weights :: "rat list \<Rightarrow> bool" where
  "validate_weights weights \<longleftrightarrow>
     \<not> (\<exists>w\<in>set weights. w < 0) \<and> \<not> sum_list weights \<le> 0 \<and> \<not> 100 < sum_list weights"

definition calculate_take_profit_quantity :: "int \<Rightarrow> rat \<Rightarrow> int" where
  "calculate_take_profit_quantity holding_quantity sell_percent =
     (if holding_quantity \<le> 0 \<or> sell_percent \<le> 0 then 0
      else max 1 (min holding_quantity \<lfloor>of_int holding_quantity * (sell_percent / 100)\<rfloor>))"

definition reached_take_profit :: "int \<Rightarrow> rat \<Rightarrow> rat \<Rightarrow> bool" where
  "reached_take_profit current_price average_price take_profit_rate \<longleftrightarrow>
     0 < current_price \<and> 0 < average_price \<and>
     take_profit_rate \<le> (of_int current_price - average_price) / average_price * 100"

definition reached_stop_loss :: "int \<Rightarrow> int \<Rightarrow> bool" where
  "reached_stop_loss current_price stop_loss_price \<longleftrightarrow>
     0 < current_price \<and> 0 < stop_loss_price \<and> current_price \<le> stop_loss_price"

section \<open>The loop counts steps on the price grid\<close>

text \<open>The price after \<open>n\<close> ticks up, and the number of ticks it takes to reach a price.\<close>

fun grid_price :: "nat \<Rightarrow> int \<Rightarrow> int" where
  "grid_price 0 p = p"
| "grid_price (Suc n) p = grid_price n (p + tick_size p)"

definition grid_distance :: "int \<Rightarrow> int \<Rightarrow> nat" where
  "grid_distance low high = (LEAST n. high \<le> grid_price n low)"

lemma grid_price_grows: "p + int n \<le> grid_price n p"
proof (induction n arbitrary: p)
  case (Suc n)
  have "1 \<le> tick_size p" using tick_size_pos [of p] by linarith
  with Suc [of "p + tick_size p"] show ?case by simp
qed simp

lemma grid_reaches: "\<exists>n. high \<le> grid_price n low"
proof
  show "high \<le> grid_price (nat (high - low)) low" using grid_price_grows [of low "nat (high - low)"] by linarith
qed

lemma grid_distance_0: "high \<le> low \<Longrightarrow> grid_distance low high = 0"
  unfolding grid_distance_def by (rule Least_eq_0) simp

lemma grid_distance_Suc: "low < high \<Longrightarrow> grid_distance low high = Suc (grid_distance (low + tick_size low) high)"
proof -
  assume "low < high"
  then have zero: "\<not> high \<le> grid_price 0 low" by simp
  obtain n where n: "high \<le> grid_price n low" using grid_reaches by blast
  have "(LEAST n. high \<le> grid_price n low) = Suc (LEAST m. high \<le> grid_price (Suc m) low)"
    by (rule Least_Suc [OF n zero])
  then show ?thesis by (simp add: grid_distance_def)
qed

lemma tick_loop_counts:
  "0 \<le> ticks \<Longrightarrow> ticks \<le> 1000000 \<Longrightarrow>
   tick_loop cursor high ticks =
     (if ticks + int (grid_distance cursor high) \<le> 1000000 then Inr (ticks + int (grid_distance cursor high)) else Inl ValueError)"
proof (induction cursor high ticks rule: tick_loop.induct)
  case (1 cursor high ticks)
  show ?case
  proof (cases "cursor < high")
    case False
    with 1 show ?thesis by (simp add: tick_loop.simps [of cursor] grid_distance_0)
  next
    case True
    show ?thesis
    proof (cases "1000000 < ticks + 1")
      case gt: True
      with True show ?thesis by (simp add: tick_loop.simps [of cursor] grid_distance_Suc)
    next
      case False
      with "1.IH" [OF True False] "1.prems" True show ?thesis
        by (simp add: tick_loop.simps [of cursor] grid_distance_Suc add.assoc)
    qed
  qed
qed

text \<open>C13: The loop of \<open>ticks_between\<close> always ends, and it counts the price grid: the result is the least
  number of ticks up from the lower of the two prices that reaches the higher one, whatever their
  order and sign, and the ValueError is raised exactly when that number is above a million.\<close>
theorem ticks_between_is_grid_distance:
  "ticks_between a b =
     (let n = grid_distance (min \<bar>a\<bar> \<bar>b\<bar>) (max \<bar>a\<bar> \<bar>b\<bar>) in if n \<le> 1000000 then Inr (int n) else Inl ValueError) \<and>
   ticks_between a b = ticks_between b a"
proof -
  have "ticks_between a b =
     (let n = grid_distance (min \<bar>a\<bar> \<bar>b\<bar>) (max \<bar>a\<bar> \<bar>b\<bar>) in if n \<le> 1000000 then Inr (int n) else Inl ValueError)" for a b
    by (simp add: ticks_between_def Let_def tick_loop_counts grid_distance_0)
  then show ?thesis by (simp add: min.commute max.commute)
qed

section \<open>Costs\<close>

lemma order_quantity_cost:
  "0 \<le> budget \<Longrightarrow> 0 \<le> w \<Longrightarrow>
   0 \<le> calculate_order_quantity budget w p * p \<and>
   of_int (calculate_order_quantity budget w p * p) \<le> (of_int budget * (w / 100) :: rat)"
proof (cases "budget \<le> 0 \<or> p \<le> 0 \<or> w \<le> 0")
  case False
  let ?x = "of_int budget * (w / 100) / of_int p :: rat"
  have "of_int \<lfloor>?x\<rfloor> * of_int p \<le> ?x * of_int p" using False by (intro mult_right_mono) auto
  also have "\<dots> = of_int budget * (w / 100)" using False by simp
  finally have "of_int (\<lfloor>?x\<rfloor> * p) \<le> (of_int budget * (w / 100) :: rat)" by simp
  moreover have "0 \<le> \<lfloor>?x\<rfloor>" using False by simp
  ultimately show ?thesis using False by (simp add: calculate_order_quantity_def)
qed (auto simp: calculate_order_quantity_def)

lemma take_profit_within_holding:
  "0 < holding \<Longrightarrow> 0 < percent \<Longrightarrow> 1 \<le> calculate_take_profit_quantity holding percent \<and>
   calculate_take_profit_quantity holding percent \<le> holding"
  by (auto simp: calculate_take_profit_quantity_def)

end
