(* ===== verification/Legacy_Engine.thy ===== *)
theory Legacy_Engine
  imports Trading_Rules Broker_Models "HOL-Library.AList"
begin

text \<open>
  The manual trading engine (\<open>trading/engine.py\<close>, \<open>trading/models.py\<close>): watch items with three buy legs,
  driven by prices, order results and executions. What the engine does to the outside (the
  database, the broker client, the alert handlers) is the list \<open>eng_actions\<close>; log texts and the
  callbacks of the user interface are left out. The client (\<open>kiwoom/client.py\<close>) emits the result of an
  order inside \<open>send_order\<close>, so the engine handles it before the call returns; the return code of the
  broker's SendOrder and its message are the parameter \<open>broker\<close>, which may depend on what was done before.
\<close>

section \<open>Items and legs\<close>

datatype leg_status = WAITING | WATCHING | ORDER_SENT | UNFILLED | PARTIALLY_FILLED | FILLED

record buy_leg =
  leg_index :: int
  leg_target_price :: int
  leg_weight_percent :: rat
  leg_status :: leg_status
  leg_order_no :: string
  leg_ordered_quantity :: int
  leg_filled_quantity :: int

record watch_item =
  wi_code :: string
  wi_name :: string
  wi_budget :: int
  wi_stop_loss_price :: int
  wi_tick_threshold :: int
  wi_take_profit_rate :: rat
  wi_take_profit_sell_percent :: rat
  wi_auto_buy_enabled :: bool
  wi_auto_sell_enabled :: bool
  wi_take_profit_done :: bool
  wi_current_price :: int
  wi_average_price :: rat
  wi_holding_quantity :: int
  wi_legs :: "buy_leg list"

definition item_leg :: "watch_item \<Rightarrow> int \<Rightarrow> py_error + buy_leg" where
  "item_leg item index =
     (case find (\<lambda>l. leg_index l = index) (wi_legs item) of Some l \<Rightarrow> Inr l | None \<Rightarrow> Inl KeyError)"

text \<open>The first leg with an index, changed in place.\<close>

fun update_leg :: "int \<Rightarrow> (buy_leg \<Rightarrow> buy_leg) \<Rightarrow> buy_leg list \<Rightarrow> buy_leg list" where
  "update_leg k f [] = []"
| "update_leg k f (l # ls) = (if leg_index l = k then f l # ls else l # update_leg k f ls)"

definition set_leg :: "int \<Rightarrow> (buy_leg \<Rightarrow> buy_leg) \<Rightarrow> watch_item \<Rightarrow> watch_item" where
  "set_leg k f item = item\<lparr>wi_legs := update_leg k f (wi_legs item)\<rparr>"

section \<open>The engine\<close>

datatype engine_action =
    SaveItem watch_item
  | DeleteItem string
  | SaveOrderResult broker_order_result
  | SaveExecution broker_execution_event
  | SendOrder broker_order_request
  | RegisterRealtime "string list"
  | Alert string

record engine =
  eng_account :: string
  eng_ordering_enabled :: bool
  eng_legacy_live_allowed :: bool
  eng_legacy_live_blocked_count :: int
  eng_items :: "(string \<times> watch_item) list"
  eng_stop_loss_alerted_codes :: "string list"
  eng_actions :: "engine_action list"

definition act :: "engine_action \<Rightarrow> engine \<Rightarrow> engine" where
  "act a e = e\<lparr>eng_actions := eng_actions e @ [a]\<rparr>"

definition put_item :: "watch_item \<Rightarrow> engine \<Rightarrow> engine" where
  "put_item item e = e\<lparr>eng_items := AList.update (wi_code item) item (eng_items e)\<rparr>"

definition set_account :: "string \<Rightarrow> engine \<Rightarrow> engine" where
  "set_account account e = e\<lparr>eng_account := account\<rparr>"

definition set_ordering_enabled :: "bool \<Rightarrow> engine \<Rightarrow> engine" where
  "set_ordering_enabled enabled e = e\<lparr>eng_ordering_enabled := enabled\<rparr>"

text \<open>\<open>_legacy_order_blocked\<close>: counts what it blocks.\<close>

definition legacy_order_blocked :: "engine \<Rightarrow> engine \<times> bool" where
  "legacy_order_blocked e =
     (if eng_legacy_live_allowed e then (e, False)
      else (e\<lparr>eng_legacy_live_blocked_count := eng_legacy_live_blocked_count e + 1\<rparr>, True))"

datatype item_error =
    CodeRequired | StopLossRequired | BudgetRequired | WeightsInvalid
  | TargetRequired int | QuantityBelowOne int

fun validate_legs :: "int \<Rightarrow> buy_leg list \<Rightarrow> item_error option" where
  "validate_legs budget [] = None"
| "validate_legs budget (l # ls) =
     (if 0 < leg_weight_percent l \<and> leg_target_price l \<le> 0 then Some (TargetRequired (leg_index l))
      else if 0 < leg_weight_percent l \<and>
              calculate_order_quantity budget (leg_weight_percent l) (leg_target_price l) \<le> 0
        then Some (QuantityBelowOne (leg_index l))
      else validate_legs budget ls)"

definition validate_item :: "watch_item \<Rightarrow> item_error option" where
  "validate_item item =
     (if wi_code item = [] then Some CodeRequired
      else if wi_auto_buy_enabled item \<and> wi_stop_loss_price item = 0 then Some StopLossRequired
      else if wi_budget item \<le> 0 then Some BudgetRequired
      else if \<not> validate_weights (map leg_weight_percent (wi_legs item)) then Some WeightsInvalid
      else validate_legs (wi_budget item) (wi_legs item))"

definition register_realtime :: "engine \<Rightarrow> engine" where
  "register_realtime e =
     (if eng_items e = [] then e else act (RegisterRealtime (map fst (eng_items e))) e)"

definition add_or_update_item :: "watch_item \<Rightarrow> engine \<Rightarrow> engine \<times> item_error option" where
  "add_or_update_item item e =
     (case validate_item item of
        Some err \<Rightarrow> (e, Some err)
      | None \<Rightarrow> (register_realtime (act (SaveItem item) (put_item item e)), None))"

definition remove_item :: "string \<Rightarrow> engine \<Rightarrow> engine" where
  "remove_item code e =
     register_realtime (act (DeleteItem code) (e\<lparr>eng_items := AList.delete code (eng_items e)\<rparr>))"

section \<open>Orders and their results\<close>

definition leg_tag :: "string \<Rightarrow> int \<Rightarrow> string \<Rightarrow> string" where
  "leg_tag prefix index code = prefix @ show_int index @ ''_'' @ code"

text \<open>The leg that a tag names: \<open>int(tag[3])\<close> reads one character.\<close>

definition leg_from_tag :: "watch_item \<Rightarrow> string \<Rightarrow> int option" where
  "leg_from_tag item tag =
     (if take 3 tag = ''BUY'' \<and> 3 < length tag \<and> is_digit (tag ! 3) then
        (let index = int (digit_value (tag ! 3)) in
         case item_leg item index of Inr l \<Rightarrow> Some index | Inl err \<Rightarrow> None)
      else None)"

text \<open>What \<open>on_order_result\<close> does to the item of the order, and the actions it takes.\<close>

definition answer_item :: "broker_order_result \<Rightarrow> watch_item \<Rightarrow> watch_item" where
  "answer_item result item =
     (let request = res_request result; status = (if res_ok result then UNFILLED else WAITING) in
      if or_side request = ''buy'' then
        (case leg_from_tag item (or_tag request) of
           Some k \<Rightarrow> set_leg k (\<lambda>l. l\<lparr>leg_status := status\<rparr>) item
         | None \<Rightarrow> item)
      else item)"

definition answer_actions :: "broker_order_result \<Rightarrow> watch_item \<Rightarrow> engine \<Rightarrow> engine" where
  "answer_actions result item e =
     act (SaveItem (answer_item result item)) (if res_ok result then act (SaveOrderResult result) e else e)"

definition on_order_result :: "engine \<Rightarrow> broker_order_result \<Rightarrow> engine" where
  "on_order_result e result =
     (let code = or_code (res_request result) in
      case map_of (eng_items e) code of
        None \<Rightarrow> e
      | Some item \<Rightarrow>
          let e1 = answer_actions result item e
          in e1\<lparr>eng_items := AList.update code (answer_item result item) (eng_items e1)\<rparr>)"

text \<open>
  \<open>send_order\<close> of the client. The item that its result changes is the object that the caller holds, since
  items are filed under their codes.
\<close>

type_synonym broker = "nat \<Rightarrow> broker_order_request \<Rightarrow> int \<times> string"

definition client_result :: "broker \<Rightarrow> engine \<Rightarrow> broker_order_request \<Rightarrow> broker_order_result" where
  "client_result broker e request =
     (let (code, message) = broker (length (eng_actions e)) request in
      \<lparr>res_ok = (code = 0), res_code = code, res_message = message, res_request = request, res_order_no = [],
       res_command_id = [], res_idempotency_key = [], res_raw = []\<rparr>)"

definition send_order :: "broker \<Rightarrow> broker_order_request \<Rightarrow> watch_item \<Rightarrow> engine \<Rightarrow> engine \<times> watch_item \<times> bool" where
  "send_order broker request item e =
     (let result = client_result broker e request
      in (answer_actions result item (act (SendOrder request) e), answer_item result item, res_ok result))"

definition order_request :: "string \<Rightarrow> string \<Rightarrow> int \<Rightarrow> int \<Rightarrow> string \<Rightarrow> string \<Rightarrow> int \<Rightarrow> string \<Rightarrow> broker_order_request" where
  "order_request account code quantity price side tag order_type original_order_no =
     \<lparr>or_account = account, or_code = code, or_quantity = quantity, or_price = price, or_side = side, or_tag = tag,
      or_order_type = order_type, or_hoga = ''00'', or_original_order_no = original_order_no, or_command_id = [],
      or_idempotency_key = [], or_metadata = []\<rparr>"

section \<open>Cancelling and modifying a leg's order\<close>

datatype leg_refusal =
    NoItem | NoAccount | NoOrderNo | NothingUnfilled | LegacyBlocked | ClientRefused

text \<open>The checks that both share; \<open>Inr\<close> the item, the leg and the unfilled quantity.\<close>

definition leg_order_checks :: "engine \<Rightarrow> string \<Rightarrow> int \<Rightarrow> py_error + (leg_refusal + watch_item \<times> buy_leg \<times> int)" where
  "leg_order_checks e code index =
     (case map_of (eng_items e) code of
        None \<Rightarrow> Inr (Inl NoItem)
      | Some item \<Rightarrow>
          if eng_account e = [] then Inr (Inl NoAccount)
          else bindE (item_leg item index) (\<lambda>leg.
            let remaining = max 0 (leg_ordered_quantity leg - leg_filled_quantity leg) in
            if leg_order_no leg = [] then Inr (Inl NoOrderNo)
            else if remaining \<le> 0 then Inr (Inl NothingUnfilled)
            else Inr (Inr (item, leg, remaining))))"

definition cancel_leg_order :: "broker \<Rightarrow> string \<Rightarrow> int \<Rightarrow> engine \<Rightarrow> engine \<times> (py_error + leg_refusal option)" where
  "cancel_leg_order broker code index e =
     (case leg_order_checks e code index of
        Inl err \<Rightarrow> (e, Inl err)
      | Inr (Inl refusal) \<Rightarrow> (e, Inr (Some refusal))
      | Inr (Inr (item, leg, remaining)) \<Rightarrow>
          (let (e1, blocked) = legacy_order_blocked e in
           if blocked then (e1, Inr (Some LegacyBlocked))
           else
             let request = order_request (eng_account e1) (wi_code item) remaining 0 ''cancel_buy''
                   (leg_tag ''CANCEL'' (leg_index leg) (wi_code item)) 3 (leg_order_no leg);
                 (e2, _, ok) = send_order broker request item e1
             in (e2, Inr (if ok then None else Some ClientRefused))))"

definition modify_leg_order ::
    "broker \<Rightarrow> string \<Rightarrow> int \<Rightarrow> int \<Rightarrow> engine \<Rightarrow> engine \<times> (py_error + leg_refusal option)" where
  "modify_leg_order broker code index new_price e =
     (case leg_order_checks e code index of
        Inl err \<Rightarrow> (e, Inl err)
      | Inr (Inl refusal) \<Rightarrow> (e, Inr (Some refusal))
      | Inr (Inr (item, leg, remaining)) \<Rightarrow>
          (let (e1, blocked) = legacy_order_blocked e in
           if blocked then (e1, Inr (Some LegacyBlocked))
           else
             let request = order_request (eng_account e1) (wi_code item) remaining new_price ''modify_buy''
                   (leg_tag ''MODBUY'' (leg_index leg) (wi_code item)) 5 (leg_order_no leg);
                 (e2, _, ok) = send_order broker request item e1;
                 item' = set_leg index (\<lambda>l. l\<lparr>leg_target_price := new_price\<rparr>) item
             in if ok then (act (SaveItem item') (e2\<lparr>eng_items := AList.update code item' (eng_items e2)\<rparr>), Inr None)
                else (e2, Inr (Some ClientRefused))))"

section \<open>Prices\<close>

definition buy_request :: "engine \<Rightarrow> watch_item \<Rightarrow> buy_leg \<Rightarrow> int \<Rightarrow> broker_order_request" where
  "buy_request e item leg quantity =
     order_request (eng_account e) (wi_code item) quantity (leg_target_price leg) ''buy''
       (leg_tag ''BUY'' (leg_index leg) (wi_code item)) 1 []"

definition skipped_leg :: "buy_leg \<Rightarrow> bool" where
  "skipped_leg l \<longleftrightarrow> leg_status l \<in> {ORDER_SENT, UNFILLED, PARTIALLY_FILLED, FILLED} \<or>
     leg_weight_percent l \<le> 0 \<or> leg_target_price l \<le> 0"

definition put_leg :: "nat \<Rightarrow> buy_leg \<Rightarrow> watch_item \<Rightarrow> watch_item" where
  "put_leg i l item = item\<lparr>wi_legs := (wi_legs item)[i := l]\<rparr>"

text \<open>
  The loop of \<open>_handle_buy_triggers\<close>, with \<open>k\<close> legs to go. A leg is marked as sent and saved before the order goes
  out, and the result of the order changes the item before the next leg is looked at. A ValueError of
  \<open>is_within_ticks\<close> ends it.
\<close>

fun buy_loop :: "broker \<Rightarrow> nat \<Rightarrow> engine \<Rightarrow> watch_item \<Rightarrow> engine \<times> watch_item \<times> py_error option" where
  "buy_loop broker 0 e item = (e, item, None)"
| "buy_loop broker (Suc k) e item =
     (let i = length (wi_legs item) - Suc k; leg = wi_legs item ! i in
      if skipped_leg leg then buy_loop broker k e item
      else
        let leg1 = leg\<lparr>leg_status := WATCHING\<rparr>; item1 = put_leg i leg1 item in
        case is_within_ticks (wi_current_price item) (leg_target_price leg) (wi_tick_threshold item) of
          Inl err \<Rightarrow> (e, item1, Some err)
        | Inr near \<Rightarrow>
            if \<not> near then buy_loop broker k e item1
            else
              let quantity = calculate_order_quantity (wi_budget item) (leg_weight_percent leg) (leg_target_price leg);
                  (e1, blocked) = legacy_order_blocked e
              in if blocked then buy_loop broker k e1 item1
                 else
                   let leg2 = leg1\<lparr>leg_status := ORDER_SENT, leg_ordered_quantity := quantity\<rparr>;
                       item2 = put_leg i leg2 item1;
                       (e2, item3, _) = send_order broker (buy_request e1 item2 leg2 quantity) item2 (act (SaveItem item2) e1)
                   in buy_loop broker k e2 item3)"

definition handle_buy_triggers :: "broker \<Rightarrow> engine \<Rightarrow> watch_item \<Rightarrow> engine \<times> watch_item \<times> py_error option" where
  "handle_buy_triggers broker e item =
     (if \<not> eng_ordering_enabled e \<or> \<not> wi_auto_buy_enabled item then (e, item, None)
      else if eng_account e = [] then (e, item, None)
      else if validate_item item \<noteq> None then (e, item, None)
      else buy_loop broker (length (wi_legs item)) e item)"

definition sell_request :: "engine \<Rightarrow> watch_item \<Rightarrow> int \<Rightarrow> broker_order_request" where
  "sell_request e item quantity =
     order_request (eng_account e) (wi_code item) quantity (wi_current_price item) ''sell'' (''TP_'' @ wi_code item) 2 []"

definition handle_take_profit :: "broker \<Rightarrow> engine \<Rightarrow> watch_item \<Rightarrow> engine \<times> watch_item" where
  "handle_take_profit broker e item =
     (if \<not> eng_ordering_enabled e \<or> \<not> wi_auto_sell_enabled item \<or> wi_take_profit_done item then (e, item)
      else if eng_account e = [] \<or> wi_holding_quantity item \<le> 0 then (e, item)
      else if \<not> reached_take_profit (wi_current_price item) (wi_average_price item) (wi_take_profit_rate item) then (e, item)
      else
        let quantity = calculate_take_profit_quantity (wi_holding_quantity item) (wi_take_profit_sell_percent item) in
        if quantity \<le> 0 then (e, item)
        else
          let (e1, blocked) = legacy_order_blocked e in
          if blocked then (e1, item)
          else
            let item' = item\<lparr>wi_take_profit_done := True\<rparr>;
                (e2, item'', _) = send_order broker (sell_request e1 item' quantity) item' (act (SaveItem item') e1)
            in (e2, item''))"

definition handle_stop_loss :: "engine \<Rightarrow> watch_item \<Rightarrow> engine" where
  "handle_stop_loss e item =
     (if reached_stop_loss (wi_current_price item) (wi_stop_loss_price item) then
        (if wi_code item \<in> set (eng_stop_loss_alerted_codes e) then e
         else act (Alert (wi_code item))
                (e\<lparr>eng_stop_loss_alerted_codes := eng_stop_loss_alerted_codes e @ [wi_code item]\<rparr>))
      else e\<lparr>eng_stop_loss_alerted_codes := removeAll (wi_code item) (eng_stop_loss_alerted_codes e)\<rparr>)"

definition on_price :: "broker \<Rightarrow> engine \<Rightarrow> string \<Rightarrow> int \<Rightarrow> engine \<times> py_error option" where
  "on_price broker e code price =
     (case map_of (eng_items e) code of
        None \<Rightarrow> (e, None)
      | Some item0 \<Rightarrow>
          let item = item0\<lparr>wi_current_price := \<bar>price\<bar>\<rparr>;
              (e1, item1, err) = handle_buy_triggers broker (handle_stop_loss e item) item
          in case err of
               Some x \<Rightarrow> (e1\<lparr>eng_items := AList.update code item1 (eng_items e1)\<rparr>, Some x)
             | None \<Rightarrow>
                 let (e2, item2) = handle_take_profit broker e1 item1
                 in (e2\<lparr>eng_items := AList.update code item2 (eng_items e2)\<rparr>, None))"

section \<open>Executions\<close>

definition working_leg :: "buy_leg \<Rightarrow> bool" where
  "working_leg l \<longleftrightarrow> leg_status l \<in> {ORDER_SENT, UNFILLED, PARTIALLY_FILLED}"

text \<open>The change of the leg that an execution belongs to, found by tag, by order number, by status.\<close>

fun update_first :: "(buy_leg \<Rightarrow> bool) \<Rightarrow> (buy_leg \<Rightarrow> buy_leg) \<Rightarrow> buy_leg list \<Rightarrow> buy_leg list" where
  "update_first P f [] = []"
| "update_first P f (l # ls) = (if P l then f l # ls else l # update_first P f ls)"

definition update_event_leg :: "broker_execution_event \<Rightarrow> (buy_leg \<Rightarrow> buy_leg) \<Rightarrow> watch_item \<Rightarrow> watch_item" where
  "update_event_leg event f item =
     (case leg_from_tag item (ex_tag event) of
        Some k \<Rightarrow> set_leg k f item
      | None \<Rightarrow>
          if ex_order_no event \<noteq> [] \<and> (\<exists>l\<in>set (wi_legs item). leg_order_no l = ex_order_no event)
          then item\<lparr>wi_legs := update_first (\<lambda>l. leg_order_no l = ex_order_no event) f (wi_legs item)\<rparr>
          else item\<lparr>wi_legs := update_first working_leg f (wi_legs item)\<rparr>)"

definition note_order_no :: "broker_execution_event \<Rightarrow> buy_leg \<Rightarrow> buy_leg" where
  "note_order_no event l =
     l\<lparr>leg_order_no := ex_order_no event,
       leg_status := (if 0 < ex_remaining_quantity event \<and> leg_status l = ORDER_SENT then UNFILLED else leg_status l)\<rparr>"

definition fill_leg :: "broker_execution_event \<Rightarrow> buy_leg \<Rightarrow> buy_leg" where
  "fill_leg event l =
     l\<lparr>leg_filled_quantity := leg_filled_quantity l + ex_filled_quantity event,
       leg_order_no := ex_order_no event,
       leg_status := (if ex_remaining_quantity event = 0 then FILLED else PARTIALLY_FILLED)\<rparr>"

definition on_execution :: "engine \<Rightarrow> broker_execution_event \<Rightarrow> engine \<times> py_error option" where
  "on_execution e event =
     (let e1 = act (SaveExecution event) e; code = ex_code event; filled = ex_filled_quantity event;
          store = (\<lambda>item e. e\<lparr>eng_items := AList.update code item (eng_items e)\<rparr>)
      in case map_of (eng_items e) code of
           None \<Rightarrow> (e1, None)
         | Some item \<Rightarrow>
             let item1 = (if ex_side event = ''buy'' \<and> ex_order_no event \<noteq> []
                          then update_event_leg event (note_order_no event) item else item)
             in if filled \<le> 0 then (act (SaveItem item1) (store item1 e1), None)
                else if ex_side event = ''buy'' then
                  let holding = wi_holding_quantity item1 + filled;
                      cost = wi_average_price item1 * of_int (wi_holding_quantity item1) + of_int (ex_price event * filled)
                  in if holding = 0 then (store (item1\<lparr>wi_holding_quantity := holding\<rparr>) e1, Some ZeroDivisionError)
                     else
                       let item2 = update_event_leg event (fill_leg event)
                             (item1\<lparr>wi_holding_quantity := holding, wi_average_price := cost / of_int holding\<rparr>)
                       in (act (SaveItem item2) (store item2 e1), None)
                else if ex_side event = ''sell'' then
                  let holding = max 0 (wi_holding_quantity item1 - filled);
                      item2 = item1\<lparr>wi_holding_quantity := holding,
                        wi_average_price := (if holding = 0 then 0 else wi_average_price item1)\<rparr>
                  in (act (SaveItem item2) (store item2 e1), None)
                else (act (SaveItem item1) (store item1 e1), None))"

section \<open>What a run of prices can spend\<close>

text \<open>The cost of the buy orders of a code that are sent, and of those that the broker accepts.\<close>

definition request_cost :: "string \<Rightarrow> broker_order_request \<Rightarrow> int" where
  "request_cost c r = (if or_side r = ''buy'' \<and> or_code r = c then or_quantity r * or_price r else 0)"

definition sent_cost :: "string \<Rightarrow> engine \<Rightarrow> int" where
  "sent_cost c e = sum_list (map (\<lambda>a. case a of SendOrder r \<Rightarrow> request_cost c r | _ \<Rightarrow> 0) (eng_actions e))"

definition accepted_cost :: "string \<Rightarrow> engine \<Rightarrow> int" where
  "accepted_cost c e =
     sum_list (map (\<lambda>a. case a of SaveOrderResult r \<Rightarrow> if res_ok r then request_cost c (res_request r) else 0 | _ \<Rightarrow> 0) (eng_actions e))"

text \<open>What the legs that may still be ordered would cost.\<close>

definition leg_cost :: "int \<Rightarrow> buy_leg \<Rightarrow> int" where
  "leg_cost budget l = (if skipped_leg l then 0
     else calculate_order_quantity budget (leg_weight_percent l) (leg_target_price l) * leg_target_price l)"

definition open_cost :: "int \<Rightarrow> buy_leg list \<Rightarrow> int" where
  "open_cost budget ls = sum_list (map (leg_cost budget) ls)"

lemma open_cost_simps [simp]:
  "open_cost b [] = 0" "open_cost b (l # ls) = leg_cost b l + open_cost b ls" "open_cost b (xs @ ys) = open_cost b xs + open_cost b ys"
  by (simp_all add: open_cost_def)

lemma open_cost_put:
  "i < length ls \<Longrightarrow> open_cost b (ls[i := l]) = open_cost b ls - leg_cost b (ls ! i) + leg_cost b l"
proof (induction ls arbitrary: i)
  case (Cons x ls)
  then show ?case by (cases i) simp_all
qed simp

text \<open>What prices do not change in an item.\<close>

definition leg_shape :: "buy_leg \<Rightarrow> int \<times> int \<times> rat" where
  "leg_shape l = (leg_index l, leg_target_price l, leg_weight_percent l)"

definition item_shape :: "watch_item \<Rightarrow> string \<times> int \<times> int \<times> bool \<times> (int \<times> int \<times> rat) list" where
  "item_shape i = (wi_code i, wi_budget i, wi_stop_loss_price i, wi_auto_buy_enabled i, map leg_shape (wi_legs i))"

lemma validate_legs_shape: "map leg_shape ls = map leg_shape ls' \<Longrightarrow> validate_legs b ls = validate_legs b ls'"
proof (induction ls arbitrary: ls')
  case (Cons l ls)
  then show ?case by (cases ls') (auto simp: leg_shape_def)
qed simp

lemma validate_item_shape: "item_shape i = item_shape j \<Longrightarrow> validate_item i = validate_item j"
proof -
  assume eq: "item_shape i = item_shape j"
  then have ls: "map leg_shape (wi_legs i) = map leg_shape (wi_legs j)" by (simp add: item_shape_def)
  from arg_cong [OF this, of "map (\<lambda>(k, t, w). w)"]
  have "map leg_weight_percent (wi_legs i) = map leg_weight_percent (wi_legs j)" by (simp add: o_def leg_shape_def)
  with eq validate_legs_shape [OF ls] show ?thesis by (simp add: validate_item_def item_shape_def)
qed

definition may_order :: "engine \<Rightarrow> bool" where
  "may_order e \<longleftrightarrow> eng_ordering_enabled e \<and> eng_legacy_live_allowed e \<and> eng_account e \<noteq> []"

definition same_session :: "engine \<Rightarrow> engine \<Rightarrow> bool" where
  "same_session e e' \<longleftrightarrow> eng_account e' = eng_account e \<and> eng_ordering_enabled e' = eng_ordering_enabled e \<and>
     eng_legacy_live_allowed e' = eng_legacy_live_allowed e \<and> eng_items e' = eng_items e"

lemma same_session_trans: "same_session e e1 \<Longrightarrow> same_session e1 e2 \<Longrightarrow> same_session e e2"
  by (simp add: same_session_def)

text \<open>Legs whose tags name them: distinct indices of one digit, as the three legs of an item have.\<close>

definition plain_legs :: "watch_item \<Rightarrow> bool" where
  "plain_legs item \<longleftrightarrow> distinct (map leg_index (wi_legs item)) \<and> (\<forall>l\<in>set (wi_legs item). 0 \<le> leg_index l \<and> leg_index l \<le> 9)"

lemma plain_legs_shape: "item_shape i = item_shape j \<Longrightarrow> plain_legs i = plain_legs j"
proof -
  assume "item_shape i = item_shape j"
  then have "map leg_shape (wi_legs i) = map leg_shape (wi_legs j)" by (simp add: item_shape_def)
  from arg_cong [OF this, of "map fst"] have eq: "map leg_index (wi_legs i) = map leg_index (wi_legs j)"
    by (simp add: o_def leg_shape_def)
  have "plain_legs x \<longleftrightarrow> distinct (map leg_index (wi_legs x)) \<and> (\<forall>k\<in>set (map leg_index (wi_legs x)). 0 \<le> k \<and> k \<le> 9)" for x
    by (simp add: plain_legs_def)
  from this [of i] this [of j] show ?thesis unfolding eq by (rule trans [OF _ sym])
qed

lemma find_index: "l \<in> set ls \<Longrightarrow> \<exists>x. find (\<lambda>x. leg_index x = leg_index l) ls = Some x"
  by (induction ls) auto

lemma tag_names_leg:
  assumes "l \<in> set (wi_legs item)" "0 \<le> leg_index l" "leg_index l \<le> 9"
  shows "leg_from_tag item (leg_tag ''BUY'' (leg_index l) code) = Some (leg_index l)"
proof -
  have "show_int (leg_index l) = [digit_char (nat (leg_index l))]"
    using assms(2,3) by (simp add: show_int_def show_nat.simps [of "nat (leg_index l)"])
  moreover have "int (nat (leg_index l) mod 10) = leg_index l" using assms(2,3) by simp
  moreover obtain x where "find (\<lambda>x. leg_index x = leg_index l) (wi_legs item) = Some x"
    using find_index [OF assms(1)] by blast
  ultimately show ?thesis by (simp add: leg_from_tag_def leg_tag_def item_leg_def Let_def)
qed

lemma update_leg_put:
  "distinct (map leg_index ls) \<Longrightarrow> i < length ls \<Longrightarrow> update_leg (leg_index (ls ! i)) f ls = ls[i := f (ls ! i)]"
proof (induction ls arbitrary: i)
  case (Cons l ls)
  show ?case
  proof (cases i)
    case (Suc j)
    with Cons.prems have "leg_index l \<noteq> leg_index (ls ! j)" by (auto simp: image_iff dest: nth_mem)
    with Suc Cons show ?thesis by simp
  qed simp
qed simp

lemma act_fields [simp]:
  "eng_items (act a e) = eng_items e" "eng_account (act a e) = eng_account e"
  "eng_ordering_enabled (act a e) = eng_ordering_enabled e" "eng_legacy_live_allowed (act a e) = eng_legacy_live_allowed e"
  by (simp_all add: act_def)

lemma act_costs [simp]:
  "sent_cost c (act a e) = sent_cost c e + (case a of SendOrder r \<Rightarrow> request_cost c r | _ \<Rightarrow> 0)"
  "accepted_cost c (act a e) = accepted_cost c e +
     (case a of SaveOrderResult r \<Rightarrow> if res_ok r then request_cost c (res_request r) else 0 | _ \<Rightarrow> 0)"
  by (simp_all add: act_def sent_cost_def accepted_cost_def)

lemma update_leg_shape: "(\<And>l. leg_shape (f l) = leg_shape l) \<Longrightarrow> map leg_shape (update_leg k f ls) = map leg_shape ls"
  by (induction ls) simp_all

lemma answer_item_shape [simp]: "item_shape (answer_item result item) = item_shape item"
proof -
  have "map leg_shape (update_leg k (\<lambda>l. l\<lparr>leg_status := st\<rparr>) ls) = map leg_shape ls" for k st ls
    by (rule update_leg_shape) (simp add: leg_shape_def)
  then show ?thesis by (simp add: answer_item_def Let_def item_shape_def set_leg_def split: option.split)
qed

text \<open>What sending an order does: the session and the shape of the item stay, and the order counts as sent and, when
  the broker took it, as accepted.\<close>

lemma send_order_frame:
  assumes "send_order broker request item e = (e', item', ok)"
  shows "same_session e e'" "item_shape item' = item_shape item" "item' = answer_item (client_result broker e request) item"
    "accepted_cost c e' = accepted_cost c e + (if ok then request_cost c request else 0)"
    "sent_cost c e' = sent_cost c e + request_cost c request"
  using assms by (auto simp: send_order_def answer_actions_def same_session_def Let_def client_result_def split: prod.splits)

lemma blocked_simps:
  "legacy_order_blocked e = (e1, b) \<Longrightarrow> same_session e e1 \<and> accepted_cost c e1 = accepted_cost c e \<and>
     sent_cost c e1 = sent_cost c e \<and> b = (\<not> eng_legacy_live_allowed e)"
  by (auto simp: legacy_order_blocked_def same_session_def accepted_cost_def sent_cost_def split: if_splits)

lemma put_leg_simps [simp]:
  "leg_shape l = leg_shape (wi_legs item ! i) \<Longrightarrow> i < length (wi_legs item) \<Longrightarrow> item_shape (put_leg i l item) = item_shape item"
  "wi_legs (put_leg i l item) = (wi_legs item)[i := l]" "wi_budget (put_leg i l item) = wi_budget item"
  "wi_code (put_leg i l item) = wi_code item"
proof -
  assume *: "leg_shape l = leg_shape (wi_legs item ! i)" "i < length (wi_legs item)"
  have "map leg_shape ((wi_legs item)[i := l]) = (map leg_shape (wi_legs item))[i := leg_shape l]" by (rule map_update)
  also have "\<dots> = map leg_shape (wi_legs item)" using * by (simp add: list_update_same_conv)
  finally show "item_shape (put_leg i l item) = item_shape item" by (simp add: put_leg_def item_shape_def)
qed (simp_all add: put_leg_def)

text \<open>A buy order for a leg marked as sent: an accepted one leaves it closed, a refused one opens it again.\<close>

lemma answered_leg:
  assumes "plain_legs item" "i < length (wi_legs item)" "leg = wi_legs item ! i"
    and "send_order broker (buy_request e0 item0 leg quantity) item e = (e', item', ok)"
  shows "wi_legs item' = (wi_legs item)[i := leg\<lparr>leg_status := (if ok then UNFILLED else WAITING)\<rparr>]"
proof -
  have mem: "leg \<in> set (wi_legs item)" "0 \<le> leg_index leg" "leg_index leg \<le> 9"
    using assms(1-3) by (auto simp: plain_legs_def)
  have "distinct (map leg_index (wi_legs item))" using assms(1) by (simp add: plain_legs_def)
  from update_leg_put [OF this assms(2)] tag_names_leg [OF mem] show ?thesis
    using assms(3,4)
    by (auto simp: send_order_def answer_item_def client_result_def buy_request_def order_request_def set_leg_def Let_def
      split: prod.splits)
qed

text \<open>
  The loop keeps the session, the shape of the item and the costs of other codes; it sends nothing without the
  legacy switch; and when the tags name the legs, cost moves from the open legs to the accepted orders.
\<close>

definition spends :: "engine \<Rightarrow> watch_item \<Rightarrow> engine \<times> watch_item \<times> py_error option \<Rightarrow> bool" where
  "spends e item res \<longleftrightarrow>
     (case res of (e', item', err) \<Rightarrow>
        same_session e e' \<and> item_shape item' = item_shape item \<and>
        (plain_legs item \<longrightarrow> accepted_cost (wi_code item) e' + open_cost (wi_budget item) (wi_legs item') =
           accepted_cost (wi_code item) e + open_cost (wi_budget item) (wi_legs item)) \<and>
        (\<forall>c. c \<noteq> wi_code item \<longrightarrow> accepted_cost c e' = accepted_cost c e \<and> sent_cost c e' = sent_cost c e) \<and>
        (\<not> eng_legacy_live_allowed e \<longrightarrow> sent_cost (wi_code item) e' = sent_cost (wi_code item) e \<and>
           accepted_cost (wi_code item) e' = accepted_cost (wi_code item) e))"

lemma spends_refl: "item_shape item' = item_shape item \<Longrightarrow> same_session e e' \<Longrightarrow>
    (\<And>c. accepted_cost c e' = accepted_cost c e) \<Longrightarrow> (\<And>c. sent_cost c e' = sent_cost c e) \<Longrightarrow>
    open_cost (wi_budget item) (wi_legs item') = open_cost (wi_budget item) (wi_legs item) \<Longrightarrow> spends e item (e', item', err)"
  by (simp add: spends_def)

lemma spends_trans:
  assumes "spends e item (e1, item1, err1)" "spends e1 item1 res"
  shows "spends e item res"
proof -
  obtain e2 item2 err where res: "res = (e2, item2, err)" by (cases res)
  have shape: "item_shape item1 = item_shape item" using assms(1) by (simp add: spends_def)
  then have "wi_code item1 = wi_code item" "wi_budget item1 = wi_budget item" "plain_legs item1 = plain_legs item"
    using plain_legs_shape [OF shape] by (simp_all add: item_shape_def)
  with assms show ?thesis by (auto simp: res spends_def same_session_def)
qed

lemma buy_loop_spends:
  "k \<le> length (wi_legs item) \<Longrightarrow> spends e item (buy_loop broker k e item)"
proof (induction k arbitrary: e item)
  case 0
  then show ?case by (simp add: spends_refl same_session_def)
next
  case (Suc k)
  define i where "i = length (wi_legs item) - Suc k"
  define leg where "leg = wi_legs item ! i"
  define leg1 where "leg1 = leg\<lparr>leg_status := WATCHING\<rparr>"
  define item1 where "item1 = put_leg i leg1 item"
  have i: "i < length (wi_legs item)" using Suc.prems by (simp add: i_def)
  have len: "k \<le> length (wi_legs item')" if "item_shape item' = item_shape item" for item'
  proof -
    from that have "length (map leg_shape (wi_legs item')) = length (map leg_shape (wi_legs item))"
      by (simp only: item_shape_def prod.inject)
    with Suc.prems show ?thesis by simp
  qed
  show ?case
  proof (cases "skipped_leg leg")
    case True
    with Suc.IH [OF len [OF refl], of e] show ?thesis by (simp add: i_def leg_def Let_def)
  next
    case unsent: False
    have c1: "leg_cost b leg1 = leg_cost b leg" "leg_shape leg1 = leg_shape leg" for b
      using unsent by (auto simp: leg_cost_def skipped_leg_def leg_shape_def leg1_def)
    have shape1: "item_shape item1 = item_shape item" using i c1(2) by (simp add: item1_def leg_def)
    have cost1: "open_cost b (wi_legs item1) = open_cost b (wi_legs item)" for b
      using i c1(1) by (simp add: item1_def open_cost_put leg_def [symmetric])
    have step1: "spends e item (e1, item1, err)" if "same_session e e1" "\<And>c. accepted_cost c e1 = accepted_cost c e"
      "\<And>c. sent_cost c e1 = sent_cost c e" for e1 err
      using that shape1 cost1 by (intro spends_refl) simp_all
    show ?thesis
    proof (cases "is_within_ticks (wi_current_price item) (leg_target_price leg) (wi_tick_threshold item)")
      case (Inl err)
      with unsent step1 [of e] show ?thesis
        by (simp add: Let_def i_def [symmetric] leg_def [symmetric] leg1_def [symmetric] item1_def [symmetric] same_session_def)
    next
      case (Inr near)
      obtain e1 b where b: "legacy_order_blocked e = (e1, b)" by fastforce
      note bl = blocked_simps [OF b]
      have rest1: "spends e item (buy_loop broker k e1 item1)"
        using spends_trans [OF step1 [of e1] Suc.IH [OF len [OF shape1]]] bl by blast
      have rest0: "spends e item (buy_loop broker k e item1)"
        using spends_trans [OF step1 [of e] Suc.IH [OF len [OF shape1]]] by (simp add: same_session_def)
      define q where "q = calculate_order_quantity (wi_budget item) (leg_weight_percent leg) (leg_target_price leg)"
      define leg2 where "leg2 = leg1\<lparr>leg_status := ORDER_SENT, leg_ordered_quantity := q\<rparr>"
      define item2 where "item2 = put_leg i leg2 item1"
      obtain e3 item3 ok where send: "send_order broker (buy_request e1 item2 leg2 q) item2 (act (SaveItem item2) e1) = (e3, item3, ok)"
        by (cases "send_order broker (buy_request e1 item2 leg2 q) item2 (act (SaveItem item2) e1)")
      note fr = send_order_frame [OF send]
      have i1: "i < length (wi_legs item1)" using i by (simp add: item1_def)
      have leg2: "wi_legs item2 ! i = leg2" "leg_shape leg2 = leg_shape leg" using i1 c1 by (simp_all add: item2_def leg2_def leg_shape_def)
      have shape2: "item_shape item2 = item_shape item"
        using i1 i leg2(2) c1(2) shape1 by (simp add: item2_def) (simp add: item1_def)
      have shape3: "item_shape item3 = item_shape item" using fr(2) shape2 by simp
      have req: "request_cost c (buy_request e1 item2 leg2 q) = (if c = wi_code item then leg_cost (wi_budget item) leg else 0)" for c
        using unsent shape2
        by (auto simp: request_cost_def buy_request_def order_request_def leg_cost_def q_def leg2_def leg1_def item_shape_def)
      have own: "open_cost (wi_budget item) (wi_legs item3) + (if ok then leg_cost (wi_budget item) leg else 0) =
          open_cost (wi_budget item) (wi_legs item)" if "plain_legs item"
      proof -
        have "plain_legs item2" using that plain_legs_shape [OF shape2] by simp
        from answered_leg [OF this _ leg2(1) [symmetric] send] i1
        have "wi_legs item3 = (wi_legs item)[i := leg2\<lparr>leg_status := (if ok then UNFILLED else WAITING)\<rparr>]"
          by (simp add: item2_def item1_def)
        moreover have "leg_cost (wi_budget item) (leg2\<lparr>leg_status := UNFILLED\<rparr>) = 0"
          "leg_cost (wi_budget item) (leg2\<lparr>leg_status := WAITING\<rparr>) = leg_cost (wi_budget item) leg"
          using unsent by (auto simp: leg_cost_def skipped_leg_def leg2_def leg1_def)
        ultimately show ?thesis using i by (simp add: open_cost_put leg_def [symmetric])
      qed
      have "spends e item (e3, item3, None)" if "\<not> b"
        using that bl fr(1) shape3 own req fr(4,5)
        by (auto simp: spends_def same_session_def)
      from spends_trans [OF this Suc.IH [OF len [OF shape3]]]
      have rest2: "spends e item (buy_loop broker k e3 item3)" if "\<not> b" using that by blast
      show ?thesis using unsent Inr b rest0 rest1 rest2 send
        by (simp add: Let_def i_def [symmetric] leg_def [symmetric] leg1_def [symmetric] item1_def [symmetric]
          q_def [symmetric] leg2_def [symmetric] item2_def [symmetric])
    qed
  qed
qed

lemma handle_buy_spends: "spends e item (handle_buy_triggers broker e item)"
    "\<not> (validate_item item = None \<and> may_order e) \<Longrightarrow>
       sent_cost c (fst (handle_buy_triggers broker e item)) = sent_cost c e \<and>
       accepted_cost c (fst (handle_buy_triggers broker e item)) = accepted_cost c e"
proof -
  have loop: "spends e item (buy_loop broker (length (wi_legs item)) e item)" by (rule buy_loop_spends) simp
  have stay: "spends e item (e, item, None)" by (simp add: spends_refl same_session_def)
  show "spends e item (handle_buy_triggers broker e item)"
    using loop stay by (simp add: handle_buy_triggers_def)
  assume off: "\<not> (validate_item item = None \<and> may_order e)"
  show "sent_cost c (fst (handle_buy_triggers broker e item)) = sent_cost c e \<and>
       accepted_cost c (fst (handle_buy_triggers broker e item)) = accepted_cost c e"
    using loop off by (cases "c = wi_code item")
      (auto simp: handle_buy_triggers_def may_order_def spends_def split: prod.splits)
qed

lemma take_profit_frame:
  assumes "handle_take_profit broker e item = (e', item')"
  shows "same_session e e' \<and> accepted_cost c e' = accepted_cost c e \<and> sent_cost c e' = sent_cost c e \<and>
    item_shape item' = item_shape item \<and> wi_legs item' = wi_legs item"
proof -
  have sell: "request_cost c (sell_request e0 i q) = 0" for e0 i q
    by (simp add: request_cost_def sell_request_def order_request_def)
  have keep: "wi_legs (answer_item (client_result broker e0 (sell_request e1 i q)) i) = wi_legs i" for e0 e1 i q
    by (simp add: answer_item_def client_result_def sell_request_def order_request_def Let_def case_prod_beta)
  show ?thesis
  proof (cases "e' = e \<and> item' = item")
    case True
    then show ?thesis by (simp add: same_session_def)
  next
    case False
    obtain e1 b where b: "legacy_order_blocked e = (e1, b)" by fastforce
    let ?i = "item\<lparr>wi_take_profit_done := True\<rparr>"
    let ?q = "calculate_take_profit_quantity (wi_holding_quantity item) (wi_take_profit_sell_percent item)"
    obtain e2 i2 ok where send: "send_order broker (sell_request e1 ?i ?q) ?i (act (SaveItem ?i) e1) = (e2, i2, ok)"
      by (cases "send_order broker (sell_request e1 ?i ?q) ?i (act (SaveItem ?i) e1)")
    have "(e', item') = (e1, item) \<or> (e', item') = (e2, i2)"
      using assms False b send by (auto simp: handle_take_profit_def Let_def split: if_splits)
    then show ?thesis
      using blocked_simps [OF b, of c] send_order_frame(1-3) [OF send] send_order_frame(4,5) [OF send, of c] sell keep
      by (auto simp: same_session_def item_shape_def)
  qed
qed

lemma stop_loss_frame:
  "same_session e (handle_stop_loss e item) \<and> accepted_cost c (handle_stop_loss e item) = accepted_cost c e \<and>
   sent_cost c (handle_stop_loss e item) = sent_cost c e"
  by (auto simp: handle_stop_loss_def same_session_def act_def accepted_cost_def sent_cost_def)

text \<open>Items are filed under their codes.\<close>

definition engine_ok :: "engine \<Rightarrow> bool" where
  "engine_ok e \<longleftrightarrow> (\<forall>k i. map_of (eng_items e) k = Some i \<longrightarrow> wi_code i = k)"

definition spent :: "string \<Rightarrow> engine \<Rightarrow> watch_item \<Rightarrow> engine \<Rightarrow> watch_item \<Rightarrow> bool" where
  "spent c e item e' item' \<longleftrightarrow> map_of (eng_items e') c = Some item' \<and> item_shape item' = item_shape item \<and>
     engine_ok e' \<and> may_order e' = may_order e \<and>
     (plain_legs item \<longrightarrow> accepted_cost c e' + open_cost (wi_budget item) (wi_legs item') =
        accepted_cost c e + open_cost (wi_budget item) (wi_legs item)) \<and>
     (\<not> (validate_item item = None \<and> may_order e) \<longrightarrow> sent_cost c e' = sent_cost c e \<and> accepted_cost c e' = accepted_cost c e)"

lemma on_price_spends:
  assumes "engine_ok e" "map_of (eng_items e) c = Some item"
  shows "\<exists>item'. spent c e item (fst (on_price broker e code price)) item'"
proof (cases "map_of (eng_items e) code")
  case None
  with assms show ?thesis by (auto simp: on_price_def spent_def)
next
  case (Some item0)
  define i where "i = item0\<lparr>wi_current_price := \<bar>price\<bar>\<rparr>"
  define s where "s = handle_stop_loss e i"
  note s = stop_loss_frame [of e i, folded s_def]
  obtain e1 i1 err where h: "handle_buy_triggers broker s i = (e1, i1, err)" by (cases "handle_buy_triggers broker s i")
  note b = handle_buy_spends(1) [where e = s and item = i and broker = broker, unfolded h spends_def prod.case]
  note off = handle_buy_spends(2) [where e = s and item = i and broker = broker, unfolded h fst_conv]
  obtain e2 i2 where t: "handle_take_profit broker e1 i1 = (e2, i2)" by fastforce
  note tp = take_profit_frame [OF t]
  have i: "wi_code i = code" "item_shape i = item_shape item0" "wi_legs i = wi_legs item0" "wi_budget i = wi_budget item0"
    using assms(1) Some by (auto simp: engine_ok_def i_def item_shape_def)
  have same: "validate_item i = validate_item item0" "plain_legs i = plain_legs item0"
    by (rule validate_item_shape [OF i(2)], rule plain_legs_shape [OF i(2)])
  have may: "may_order s = may_order e" using s by (simp add: may_order_def same_session_def)
  define r where "r = (case err of None \<Rightarrow> (e2, i2) | Some x \<Rightarrow> (e1, i1))"
  obtain e' i' where r: "r = (e', i')" by (cases r)
  have e': "fst (on_price broker e code price) = e'\<lparr>eng_items := AList.update code i' (eng_items e')\<rparr>"
    using Some h t r by (auto simp: on_price_def i_def [symmetric] s_def [symmetric] r_def Let_def split: option.splits)
  have r': "same_session e1 e'" "\<And>c. accepted_cost c e' = accepted_cost c e1" "\<And>c. sent_cost c e' = sent_cost c e1"
    "item_shape i' = item_shape i1" "wi_legs i' = wi_legs i1"
    using tp r by (auto simp: r_def same_session_def split: option.splits)
  have sess: "same_session e e'" using s b r'(1) by (simp add: same_session_def)
  have shape: "item_shape i' = item_shape item0" using b r'(4) i(2) by simp
  have other: "accepted_cost c e' = accepted_cost c e \<and> sent_cost c e' = sent_cost c e" if "c \<noteq> code" for c
    using that b s i r' by auto
  have own: "plain_legs item0 \<longrightarrow> accepted_cost code e' + open_cost (wi_budget item0) (wi_legs i') =
      accepted_cost code e + open_cost (wi_budget item0) (wi_legs item0)"
    using b s i r' same by auto
  have idle: "\<not> (validate_item item0 = None \<and> may_order e) \<longrightarrow>
      sent_cost code e' = sent_cost code e \<and> accepted_cost code e' = accepted_cost code e"
    using off s r' same may by auto
  have "wi_code i' = code" using shape i by (simp add: item_shape_def)
  then have ok: "engine_ok (e'\<lparr>eng_items := AList.update code i' (eng_items e')\<rparr>)"
    using assms(1) sess by (simp add: engine_ok_def same_session_def lookup_update)
  have upd: "accepted_cost c (e'\<lparr>eng_items := x\<rparr>) = accepted_cost c e'" "sent_cost c (e'\<lparr>eng_items := x\<rparr>) = sent_cost c e'"
    "may_order (e'\<lparr>eng_items := x\<rparr>) = may_order e" for c x
    using sess by (simp_all add: accepted_cost_def sent_cost_def may_order_def same_session_def)
  show ?thesis
  proof (cases "c = code")
    case True
    with assms(2) Some have "item = item0" by simp
    with own idle shape ok True show ?thesis unfolding e' spent_def upd by (intro exI [of _ i']) (simp add: lookup_update)
  next
    case False
    with other [OF False] ok assms(2) sess show ?thesis
      unfolding e' spent_def upd by (intro exI [of _ item]) (simp add: lookup_update same_session_def)
  qed
qed

lemma spent_trans:
  assumes "spent c e item e' i1" "spent c e' i1 e'' i2"
  shows "spent c e item e'' i2"
proof -
  have s: "item_shape i1 = item_shape item" "may_order e' = may_order e" using assms(1) by (simp_all add: spent_def)
  have v: "validate_item i1 = validate_item item" "plain_legs i1 = plain_legs item"
    by (rule validate_item_shape [OF s(1)], rule plain_legs_shape [OF s(1)])
  have w: "wi_budget i1 = wi_budget item" using s(1) by (simp add: item_shape_def)
  show ?thesis using assms unfolding spent_def by (simp add: s v w)
qed

lemma on_prices_spend:
  assumes "engine_ok e" "map_of (eng_items e) c = Some item"
  shows "\<exists>item'. spent c e item (fold (\<lambda>(code, price) e. fst (on_price broker e code price)) prices e) item'"
  using assms
proof (induction prices arbitrary: e item)
  case Nil
  then show ?case by (auto simp: spent_def)
next
  case (Cons p ps)
  obtain code price where p: "p = (code, price)" by (cases p)
  from on_price_spends [OF Cons.prems] obtain i1 where s1: "spent c e item (fst (on_price broker e code price)) i1" by blast
  then have "engine_ok (fst (on_price broker e code price))" "map_of (eng_items (fst (on_price broker e code price))) c = Some i1"
    by (simp_all add: spent_def)
  from Cons.IH [OF this] obtain i2 where s2: "spent c (fst (on_price broker e code price)) i1
      (fold (\<lambda>(code, price) e. fst (on_price broker e code price)) ps (fst (on_price broker e code price))) i2" by blast
  have "spent c e item (fold (\<lambda>(code, price) e. fst (on_price broker e code price)) ps (fst (on_price broker e code price))) i2"
    by (rule spent_trans [OF s1 s2])
  then show ?case unfolding p by (intro exI [of _ i2]) simp
qed

lemma open_cost_bounds:
  assumes "validate_item item = None"
  shows "0 \<le> open_cost (wi_budget item) ls" and "open_cost (wi_budget item) (wi_legs item) \<le> wi_budget item"
proof -
  have b: "0 < wi_budget item" and w: "\<forall>w\<in>set (map leg_weight_percent (wi_legs item)). 0 \<le> w"
    "sum_list (map leg_weight_percent (wi_legs item)) \<le> 100"
    using assms by (auto simp: validate_item_def validate_weights_def not_less split: if_splits)
  have one: "0 \<le> leg_cost (wi_budget item) l" for l
  proof (cases "skipped_leg l")
    case False
    then have "0 \<le> leg_weight_percent l" by (auto simp: skipped_leg_def)
    with order_quantity_cost [of "wi_budget item" "leg_weight_percent l" "leg_target_price l"] b False show ?thesis
      by (simp add: leg_cost_def)
  qed (simp add: leg_cost_def)
  show "0 \<le> open_cost (wi_budget item) ls" by (induction ls) (simp_all add: one)
  have "of_int (open_cost (wi_budget item) ls) \<le> (of_int (wi_budget item) * (sum_list (map leg_weight_percent ls) / 100) :: rat)"
    if "\<forall>l\<in>set ls. 0 \<le> leg_weight_percent l" for ls
    using that
  proof (induction ls)
    case (Cons l ls)
    have "of_int (leg_cost (wi_budget item) l) \<le> (of_int (wi_budget item) * (leg_weight_percent l / 100) :: rat)"
      using order_quantity_cost [of "wi_budget item" "leg_weight_percent l" "leg_target_price l"] b Cons.prems
      by (auto simp: leg_cost_def)
    with Cons show ?case by (simp add: add_divide_distrib distrib_left)
  qed simp
  from this [of "wi_legs item"] w have "of_int (open_cost (wi_budget item) (wi_legs item)) \<le>
      (of_int (wi_budget item) * (sum_list (map leg_weight_percent (wi_legs item)) / 100) :: rat)" by simp
  also have "\<dots> \<le> of_int (wi_budget item) * 1" using w(2) b by (intro mult_left_mono) auto
  finally show "open_cost (wi_budget item) (wi_legs item) \<le> wi_budget item" by simp
qed


definition sample_leg :: "int \<Rightarrow> int \<Rightarrow> rat \<Rightarrow> buy_leg" where
  "sample_leg k target weight = \<lparr>leg_index = k, leg_target_price = target, leg_weight_percent = weight, leg_status = WAITING,
     leg_order_no = [], leg_ordered_quantity = 0, leg_filled_quantity = 0\<rparr>"

definition sample_item :: watch_item where
  "sample_item = \<lparr>wi_code = ''005930'', wi_name = [], wi_budget = 1000000, wi_stop_loss_price = 40000,
     wi_tick_threshold = 1, wi_take_profit_rate = 5, wi_take_profit_sell_percent = 70, wi_auto_buy_enabled = True,
     wi_auto_sell_enabled = True, wi_take_profit_done = False, wi_current_price = 0, wi_average_price = 0,
     wi_holding_quantity = 0, wi_legs = [sample_leg 1 50000 40, sample_leg 2 48000 30, sample_leg 3 46000 30]\<rparr>"

definition sample_engine :: engine where
  "sample_engine = \<lparr>eng_account = ''8100'', eng_ordering_enabled = True, eng_legacy_live_allowed = True,
     eng_legacy_live_blocked_count = 0, eng_items = [(''005930'', sample_item)], eng_stop_loss_alerted_codes = [],
     eng_actions = []\<rparr>"

text \<open>A broker that refuses the first order it gets and takes the others: the refused leg is ordered again.\<close>

definition refusing_broker :: broker where
  "refusing_broker n request = (if n \<le> 1 then (- 308, ''busy'') else (0, []))"


end
