(* ===== verification/Exact_Float.thy ===== *)
theory Exact_Float
  imports Prelude Complex_Main
begin

text \<open>
  Floats of the code as exact rationals: rounding to decimal digits, and why ratios stay within their bounds.
\<close>

section \<open>Rounding\<close>

text \<open>\<open>round(x, k)\<close> on exact values: to the nearest, ties to the even last digit.\<close>

definition round_digits :: "nat \<Rightarrow> rat \<Rightarrow> rat" where
  "round_digits k x =
     (let y = x * 10 ^ k; n = \<lfloor>y\<rfloor>; d = y - of_int n in
      of_int (if d < 1 / 2 \<or> d = 1 / 2 \<and> even n then n else n + 1) / 10 ^ k)"

lemma round_int: "round_digits k (of_int i) = of_int i"
proof -
  have "(of_int i :: rat) * 10 ^ k = of_int (i * 10 ^ k)" by simp
  then have "\<lfloor>(of_int i :: rat) * 10 ^ k\<rfloor> = i * 10 ^ k" by (metis floor_of_int)
  then show ?thesis by (simp add: round_digits_def Let_def)
qed

lemma round_mono:
  assumes "x \<le> y"
  shows "round_digits k x \<le> round_digits k y"
proof -
  define a b where "a = x * 10 ^ k" and "b = y * 10 ^ k"
  let ?r = "\<lambda>a. if a - of_int \<lfloor>a\<rfloor> < (1 / 2 :: rat) \<or> a - of_int \<lfloor>a\<rfloor> = 1 / 2 \<and> even \<lfloor>a\<rfloor> then \<lfloor>a\<rfloor> else \<lfloor>a\<rfloor> + 1"
  have ab: "a \<le> b" using assms by (simp add: a_def b_def)
  have "?r a \<le> ?r b"
  proof (cases "\<lfloor>a\<rfloor> = \<lfloor>b\<rfloor>")
    case True
    with ab show ?thesis by auto
  next
    case False
    with floor_mono [OF ab] show ?thesis by auto
  qed
  then have "(of_int (?r a) :: rat) \<le> of_int (?r b)" by (simp only: of_int_le_iff)
  then have "of_int (?r a) / 10 ^ k \<le> (of_int (?r b) :: rat) / 10 ^ k" by (rule divide_right_mono) simp
  then show ?thesis by (simp add: round_digits_def Let_def a_def [symmetric] b_def [symmetric])
qed

lemma round_bounds: "of_int l \<le> x \<Longrightarrow> of_int l \<le> round_digits k x" "x \<le> of_int u \<Longrightarrow> round_digits k x \<le> of_int u"
  using round_mono [of "of_int l" x k] round_mono [of x "of_int u" k] by (simp_all add: round_int)

text \<open>\<open>round(count / (total or 1), k)\<close>\<close>

definition ratio :: "nat \<Rightarrow> int \<Rightarrow> int \<Rightarrow> rat" where
  "ratio k n m = round_digits k (of_int n / of_int (if m = 0 then 1 else m))"

lemma ratio_bounds:
  assumes "0 \<le> n" "n \<le> m \<or> m = 0 \<and> n \<le> 1"
  shows "0 \<le> ratio k n m" "ratio k n m \<le> 1"
proof -
  let ?t = "if m = 0 then 1 else m"
  have t: "0 < ?t" "n \<le> ?t" using assms by auto
  have "0 \<le> (of_int n :: rat) / of_int ?t" using t assms(1) by simp
  with round_bounds(1) [of 0] show "0 \<le> ratio k n m" by (simp add: ratio_def)
  have "(of_int n :: rat) / of_int ?t \<le> 1" using t by (simp add: divide_le_eq_1)
  with round_bounds(2) [of _ 1] show "ratio k n m \<le> 1" by (simp add: ratio_def)
qed

end
