(* ===== verification/Theme_Signals.thy ===== *)
theory Theme_Signals
  imports Exact_Float
begin

text \<open>
  The live signals of single stocks (\<open>trading/theme_engine/signals.py\<close> and \<open>normalize_stock_code\<close> of
  \<open>trading/theme_engine/normalizer.py\<close>): how a signal is normalised, how its freshness follows its age, and how
  the signals of several sources are merged per stock. Rates and turnovers, floats in the code, are exact rationals.
\<close>

section \<open>Stock codes\<close>

text \<open>\<open>str.isdigit\<close> also accepts superscript digits, \<open>\d\<close> of a pattern does not.\<close>

definition isdigit_char :: "char \<Rightarrow> bool" where
  "isdigit_char c \<longleftrightarrow> is_digit c \<or> (of_char c :: nat) \<in> {178, 179, 185}"

definition isdigit :: "string \<Rightarrow> bool" where
  "isdigit s \<longleftrightarrow> s \<noteq> [] \<and> list_all isdigit_char s"

text \<open>\<open>re.fullmatch(r"\d+\.0+", s)\<close>\<close>

definition integral_decimal :: "string \<Rightarrow> bool" where
  "integral_decimal s \<longleftrightarrow>
     (let whole = takeWhile is_digit s; rest = dropWhile is_digit s in
      whole \<noteq> [] \<and> (case rest of [] \<Rightarrow> False | c # zeros \<Rightarrow> c = CHR ''.'' \<and> zeros \<noteq> [] \<and> list_all (\<lambda>z. z = CHR ''0'') zeros))"

definition zfill6 :: "string \<Rightarrow> string" where
  "zfill6 s = replicate (6 - length s) (CHR ''0'') @ s"

definition drop_market_prefix :: "string \<Rightarrow> string" where
  "drop_market_prefix value = (case value of
     c # cs \<Rightarrow> if c = CHR ''A'' \<and> isdigit cs then cs else value
   | [] \<Rightarrow> value)"

definition normalize_stock_code :: "string \<Rightarrow> string" where
  "normalize_stock_code code =
     (let value = drop_market_prefix (filter (\<lambda>c. c \<noteq> CHR '','') (upper (strip code)));
          value = (if integral_decimal value then takeWhile (\<lambda>c. c \<noteq> CHR ''.'') value else value)
      in if isdigit value \<and> length value \<le> 6 then zfill6 value else [])"

text \<open>\<open>normalize_code\<close> of \<open>trading/strategy/candidates.py\<close>.\<close>

definition normalize_code :: "string \<Rightarrow> string" where
  "normalize_code code = drop_market_prefix (upper (strip code))"

section \<open>Signals\<close>

record live_seed_signal =
  sg_code :: string
  sg_name :: string
  sg_source_types :: "string list"
  sg_seed_rank :: int
  sg_change_rate_pct :: rat
  sg_turnover_krw :: rat
  sg_turnover_speed :: rat
  sg_execution_strength :: rat
  sg_realtime_valid :: bool
  sg_tr_backfill_valid :: bool
  sg_data_quality_status :: string
  sg_reason_codes :: "string list"
  sg_observed_at :: stamp
  sg_last_seen_at :: stamp
  sg_tick_at :: stamp
  sg_tick_age_sec :: rat
  sg_freshness_status :: string
  sg_source_confirmation_count :: int
  sg_active :: bool
  sg_expiry_at :: stamp
  sg_market :: string
  sg_momentum_1m :: rat
  sg_momentum_3m :: rat
  sg_momentum_5m :: rat
  sg_vi_active :: bool
  sg_upper_limit_near :: bool
  sg_overheated :: bool
  sg_metadata :: "pydict option"

definition default_signal :: "string \<Rightarrow> live_seed_signal" where
  "default_signal code = \<lparr>sg_code = code, sg_name = [], sg_source_types = [], sg_seed_rank = 0, sg_change_rate_pct = 0,
     sg_turnover_krw = 0, sg_turnover_speed = 0, sg_execution_strength = 0, sg_realtime_valid = False,
     sg_tr_backfill_valid = False, sg_data_quality_status = ''DATA_WAIT'', sg_reason_codes = [], sg_observed_at = Blank,
     sg_last_seen_at = Blank, sg_tick_at = Blank, sg_tick_age_sec = 0, sg_freshness_status = [],
     sg_source_confirmation_count = 0, sg_active = True, sg_expiry_at = Blank, sg_market = [], sg_momentum_1m = 0,
     sg_momentum_3m = 0, sg_momentum_5m = 0, sg_vi_active = False, sg_upper_limit_near = False, sg_overheated = False,
     sg_metadata = None\<rparr>"

definition normalize_market :: "string \<Rightarrow> string" where
  "normalize_market value =
     (let raw = upper (strip value) in
      if raw \<in> {''KOSPI'', ''KS'', ''P''} then ''KOSPI''
      else if raw \<in> {''KOSDAQ'', ''KQ'', ''Q''} then ''KOSDAQ''
      else raw)"

definition normalized :: "live_seed_signal \<Rightarrow> live_seed_signal" where
  "normalized s =
     (let source_types = dedupe (sg_source_types s);
          quality = (if sg_data_quality_status s = [] \<or> sg_data_quality_status s = ''DATA_WAIT'' then
                       (if sg_realtime_valid s then ''REALTIME_VALID''
                        else if sg_tr_backfill_valid s then ''TR_BACKFILL_ONLY'' else ''DATA_WAIT'')
                     else sg_data_quality_status s);
          freshness = (if sg_freshness_status s = [] then
                         (if sg_realtime_valid s then ''FRESH''
                          else if sg_tr_backfill_valid s then ''TR_BACKFILL_ONLY'' else ''MISSING'')
                       else sg_freshness_status s)
      in s\<lparr>sg_code := normalize_stock_code (sg_code s), sg_source_types := source_types,
           sg_reason_codes := dedupe (sg_reason_codes s), sg_data_quality_status := quality,
           sg_freshness_status := freshness,
           sg_source_confirmation_count :=
             (if sg_source_confirmation_count s \<noteq> 0 then sg_source_confirmation_count s else int (length source_types)),
           sg_market := normalize_market (sg_market s),
           sg_metadata := Some (case sg_metadata s of Some d \<Rightarrow> d | None \<Rightarrow> [])\<rparr>)"

definition tradable_realtime :: "live_seed_signal \<Rightarrow> bool" where
  "tradable_realtime s \<longleftrightarrow>
     (let signal = normalized s in
      if sg_freshness_status signal \<in> {''STALE'', ''TR_BACKFILL_ONLY'', ''MISSING''} then False
      else sg_realtime_valid signal \<and> sg_active signal \<and> \<not> sg_vi_active signal \<and> \<not> sg_upper_limit_near signal \<and>
           \<not> sg_overheated signal)"

section \<open>Freshness\<close>

definition age_sec :: "stamp \<Rightarrow> time \<Rightarrow> rat" where
  "age_sec tick_at now = (case tick_at of Blank \<Rightarrow> 0 | At t \<Rightarrow> max 0 (of_int (now - t) / 1000000))"

definition freshness_of :: "live_seed_signal \<Rightarrow> time \<Rightarrow> int \<Rightarrow> rat \<Rightarrow> string \<times> rat" where
  "freshness_of n now max_tick_age_sec stale_multiplier =
     (let tick_at = stamp_or (stamp_or (sg_tick_at n) (sg_last_seen_at n)) (sg_observed_at n) in
      if tick_at = Blank \<and> sg_realtime_valid n then (''FRESH'', 0)
      else if tick_at = Blank then (if sg_tr_backfill_valid n then ''TR_BACKFILL_ONLY'' else ''MISSING'', 0)
      else let age = age_sec tick_at now in
        (if sg_tr_backfill_valid n \<and> \<not> sg_realtime_valid n then ''TR_BACKFILL_ONLY''
         else if age \<le> of_int max_tick_age_sec then ''FRESH''
         else if age \<le> of_int max_tick_age_sec * max 1 stale_multiplier then ''DEGRADED''
         else ''STALE'', age))"

definition apply_signal_freshness :: "live_seed_signal \<Rightarrow> time \<Rightarrow> int \<Rightarrow> rat \<Rightarrow> live_seed_signal" where
  "apply_signal_freshness s now max_tick_age_sec stale_multiplier =
     (let n = normalized s; (freshness, age) = freshness_of n now max_tick_age_sec stale_multiplier in
      n\<lparr>sg_tick_age_sec := round_digits 3 age, sg_freshness_status := freshness,
        sg_data_quality_status := (if freshness = ''STALE'' then ''SIGNAL_STALE'' else sg_data_quality_status n),
        sg_reason_codes := dedupe (sg_reason_codes n @
          (if freshness = ''STALE'' then [''SIGNAL_STALE'']
           else if freshness = ''DEGRADED'' then [''SIGNAL_DEGRADED'']
           else if freshness = ''TR_BACKFILL_ONLY'' then [''TR_BACKFILL_ONLY''] else []))\<rparr>)"

section \<open>Merging\<close>

definition positive_rank :: "int \<Rightarrow> int" where
  "positive_rank n = (if 0 < n then n else 9999)"

definition signal_time :: "live_seed_signal \<Rightarrow> stamp" where
  "signal_time s = stamp_or (stamp_or (sg_tick_at s) (sg_last_seen_at s)) (sg_observed_at s)"

definition payload_priority :: "live_seed_signal \<Rightarrow> int" where
  "payload_priority s =
     (let sources = set (sg_source_types s) in
      if sg_realtime_valid s \<or> ''realtime_tick'' \<in> sources then 4
      else if ''opt10032'' \<in> sources \<or> ''hydration'' \<in> sources then 3
      else if ''holding'' \<in> sources \<or> ''pending_order'' \<in> sources then 2
      else 1)"

definition best_payload_signal :: "live_seed_signal \<Rightarrow> live_seed_signal \<Rightarrow> live_seed_signal" where
  "best_payload_signal previous current =
     (if payload_priority previous < payload_priority current then current
      else if payload_priority current < payload_priority previous then previous
      else if signal_time current \<noteq> Blank \<and> (signal_time previous = Blank \<or> signal_time previous < signal_time current)
      then current else previous)"

definition merge_signal :: "live_seed_signal \<Rightarrow> live_seed_signal \<Rightarrow> live_seed_signal" where
  "merge_signal previous current =
     (best_payload_signal previous current)
       \<lparr>sg_source_types := dedupe (sg_source_types previous @ sg_source_types current),
        sg_seed_rank := min (positive_rank (sg_seed_rank previous)) (positive_rank (sg_seed_rank current)),
        sg_source_confirmation_count := int (length (dedupe (sg_source_types previous @ sg_source_types current))),
        sg_reason_codes := dedupe (sg_reason_codes previous @ sg_reason_codes current)\<rparr>"

definition merge_step :: "live_seed_signal \<Rightarrow> (string \<times> live_seed_signal) list \<Rightarrow> (string \<times> live_seed_signal) list" where
  "merge_step signal by_code =
     (let n = normalized signal in
      if sg_code n = [] then by_code
      else AList.update (sg_code n)
        (case map_of by_code (sg_code n) of Some previous \<Rightarrow> merge_signal previous n | None \<Rightarrow> n) by_code)"

definition merge_seed_signals :: "live_seed_signal list \<Rightarrow> live_seed_signal list" where
  "merge_seed_signals signals =
     descending (\<lambda>s. (sg_turnover_krw s, - sg_seed_rank s)) (map snd (fold merge_step signals []))"

section \<open>Normalisation is stable\<close>

lemma upper_char_simps [simp]: "upper_char (upper_char c) = upper_char c" "is_space (upper_char c) = is_space c"
proof -
  have "(of_char (upper_char c) :: nat) = (let n = of_char c in if 97 \<le> n \<and> n \<le> 122 then n - 32 else n)"
    by (auto simp: upper_char_def Let_def intro!: mod_less)
  then show "upper_char (upper_char c) = upper_char c" "is_space (upper_char c) = is_space c"
    unfolding is_space_def by (auto simp: upper_char_def [of "upper_char c"] Let_def)
qed

lemma upper_strip: "strip (upper (strip s)) = upper (strip s)" "upper (upper s) = upper s"
proof -
  show "strip (upper (strip s)) = upper (strip s)"
  proof (cases "strip s = []")
    case False
    then have "\<not> is_space (hd (strip s)) \<and> \<not> is_space (last (strip s))" using strip_ends [of s] by blast
    with False show ?thesis by (intro strip_no_edge) (simp add: upper_def hd_map last_map)
  next
    case True
    show ?thesis unfolding True by (simp add: upper_def strip_def)
  qed
  show "upper (upper s) = upper s" by (simp add: upper_def)
qed

lemma normalize_market_idem [simp]: "normalize_market (normalize_market v) = normalize_market v"
proof -
  let ?r = "upper (strip v)"
  have "normalize_market ''KOSPI'' = ''KOSPI''" "normalize_market ''KOSDAQ'' = ''KOSDAQ''" by code_simp+
  moreover have "normalize_market ?r = normalize_market v" unfolding normalize_market_def upper_strip ..
  ultimately show ?thesis by (simp add: normalize_market_def [of v] Let_def)
qed

definition digits6 :: "string \<Rightarrow> bool" where
  "digits6 s \<longleftrightarrow> length s = 6 \<and> list_all isdigit_char s"

lemma zfill6_digits: "isdigit s \<Longrightarrow> length s \<le> 6 \<Longrightarrow> digits6 (zfill6 s)"
  by (auto simp: digits6_def zfill6_def isdigit_def isdigit_char_def is_digit_def list_all_iff)

lemma normalize_stock_code_cases: "normalize_stock_code code = [] \<or> digits6 (normalize_stock_code code)"
  unfolding normalize_stock_code_def Let_def by (simp add: zfill6_digits)

lemma isdigit_char_props:
  assumes "isdigit_char c"
  shows "\<not> is_space c" "upper_char c = c" "c \<noteq> CHR '',''" "c \<noteq> CHR ''A''" "c \<noteq> CHR ''.''"
  using assms by (auto simp: isdigit_char_def is_digit_def is_space_def upper_char_def Let_def)

lemma normalize_digits6:
  assumes "digits6 s"
  shows "normalize_stock_code s = s"
proof -
  obtain c cs where s: "s = c # cs" using assms by (cases s) (auto simp: digits6_def)
  have all: "\<forall>c\<in>set s. isdigit_char c" using assms by (simp add: digits6_def list_all_iff)
  have "strip s = s" using all s isdigit_char_props(1) by (intro strip_no_edge) (auto simp: s)
  moreover have "upper s = s" using all isdigit_char_props(2) by (simp add: upper_def map_idI)
  moreover have "filter (\<lambda>c. c \<noteq> CHR '','') s = s" using all isdigit_char_props(3) by (intro filter_True) auto
  moreover have "drop_market_prefix s = s" using all isdigit_char_props(4) by (simp add: drop_market_prefix_def s)
  moreover have "\<not> integral_decimal s"
  proof (cases "dropWhile is_digit s")
    case (Cons d ds)
    then have "d \<in> set s" using set_dropWhileD [of d is_digit s] by simp
    with all isdigit_char_props(5) Cons show ?thesis by (auto simp: integral_decimal_def Let_def)
  next
    case Nil
    show ?thesis unfolding integral_decimal_def Let_def Nil by simp
  qed
  moreover have "isdigit s" "zfill6 s = s" "length s \<le> 6" using assms s by (auto simp: digits6_def isdigit_def zfill6_def)
  ultimately show ?thesis by (simp add: normalize_stock_code_def)
qed

lemma normalize_stock_code_idem [simp]: "normalize_stock_code (normalize_stock_code c) = normalize_stock_code c"
proof (cases "normalize_stock_code c = []")
  case True
  have "normalize_stock_code [] = []" by code_simp
  with True show ?thesis by simp
next
  case False
  with normalize_stock_code_cases [of c] show ?thesis by (simp add: normalize_digits6)
qed

lemma normalized_idem [simp]: "normalized (normalized s) = normalized s"
  by (simp add: normalized_def Let_def)

section \<open>Freshness only degrades\<close>

lemma age_mono: "now \<le> now' \<Longrightarrow> age_sec t now \<le> age_sec t now'"
  by (auto simp: age_sec_def max_def divide_right_mono split: stamp.split)

text \<open>As time passes a signal goes from FRESH over DEGRADED to STALE and never back.\<close>

lemma freshness_degrades:
  assumes "now \<le> now'"
  shows "fst (freshness_of n now a m) = ''STALE'' \<longrightarrow> fst (freshness_of n now' a m) = ''STALE''"
    "fst (freshness_of n now' a m) = ''FRESH'' \<longrightarrow> fst (freshness_of n now a m) = ''FRESH''"
  using age_mono [OF assms, of "stamp_or (stamp_or (sg_tick_at n) (sg_last_seen_at n)) (sg_observed_at n)"]
  by (auto simp: freshness_of_def Let_def split: if_splits)

lemma stale_not_tradable: "sg_freshness_status s \<in> {''STALE'', ''TR_BACKFILL_ONLY'', ''MISSING''} \<Longrightarrow> \<not> tradable_realtime s"
  by (auto simp: tradable_realtime_def normalized_def Let_def)

lemma tradableD:
  "tradable_realtime s \<Longrightarrow> sg_realtime_valid s \<and> sg_active s \<and> \<not> sg_vi_active s \<and> \<not> sg_upper_limit_near s \<and> \<not> sg_overheated s"
  by (auto simp: tradable_realtime_def normalized_def Let_def split: if_splits)

section \<open>Merging keeps the best source\<close>

text \<open>What a merge takes from one of the two signals as a whole.\<close>

definition payload_of :: "live_seed_signal \<Rightarrow> live_seed_signal" where
  "payload_of s = s\<lparr>sg_source_types := [], sg_seed_rank := 0, sg_source_confirmation_count := 0, sg_reason_codes := []\<rparr>"

definition clean :: "live_seed_signal \<Rightarrow> bool" where
  "clean s \<longleftrightarrow> dedupe (sg_source_types s) = sg_source_types s \<and> dedupe (sg_reason_codes s) = sg_reason_codes s"

lemma clean_sources:
  assumes "clean s"
  shows "strip ` set (sg_source_types s) - {[]} = set (sg_source_types s)"
    and "strip ` set (sg_reason_codes s) - {[]} = set (sg_reason_codes s)"
  using assms set_dedupe unfolding clean_def by metis+

lemma merge_signal_sources:
  assumes "clean p" "clean c"
  shows "set (sg_source_types (merge_signal p c)) = set (sg_source_types p) \<union> set (sg_source_types c)"
  using clean_sources(1) [OF assms(1)] clean_sources(1) [OF assms(2)] by (auto simp: merge_signal_def image_Un)

lemma merge_signal_reasons:
  assumes "clean p" "clean c"
  shows "set (sg_reason_codes (merge_signal p c)) = set (sg_reason_codes p) \<union> set (sg_reason_codes c)"
  using clean_sources(2) [OF assms(1)] clean_sources(2) [OF assms(2)] by (auto simp: merge_signal_def image_Un)

lemma merge_signal_simps [simp]:
  "clean (merge_signal p c)" "sg_code (merge_signal p c) = sg_code (best_payload_signal p c)"
  "sg_realtime_valid (merge_signal p c) = sg_realtime_valid (best_payload_signal p c)"
  "payload_of (merge_signal p c) = payload_of (best_payload_signal p c)"
  by (simp_all add: merge_signal_def clean_def payload_of_def)

lemma best_cases: "best_payload_signal p c = p \<and> payload_priority c \<le> payload_priority p \<or>
    best_payload_signal p c = c \<and> payload_priority p \<le> payload_priority c"
  by (auto simp: best_payload_signal_def)

definition prio :: "bool \<Rightarrow> bool \<Rightarrow> bool \<Rightarrow> int" where
  "prio r q h = max (if r then 4 else 1) (max (if q then 3 else 1) (if h then 2 else 1))"

lemma payload_priority_prio:
  "payload_priority s = prio (sg_realtime_valid s \<or> ''realtime_tick'' \<in> set (sg_source_types s))
     (''opt10032'' \<in> set (sg_source_types s) \<or> ''hydration'' \<in> set (sg_source_types s))
     (''holding'' \<in> set (sg_source_types s) \<or> ''pending_order'' \<in> set (sg_source_types s))"
  by (simp add: payload_priority_def prio_def Let_def)

lemma prio_max: "prio (r \<or> r') (q \<or> q') (h \<or> h') = max (prio r q h) (prio r' q' h')"
  by (cases r; cases r'; cases q; cases q'; cases h; cases h'; simp add: prio_def)

lemma realtime_priority:
  "sg_realtime_valid s \<or> ''realtime_tick'' \<in> set (sg_source_types s) \<longleftrightarrow> payload_priority s = 4" "payload_priority s \<le> 4"
  by (auto simp: payload_priority_def Let_def)

lemma priority_merge:
  assumes "clean p" "clean c"
  shows "payload_priority (merge_signal p c) = max (payload_priority p) (payload_priority c)"
proof -
  let ?rt = "\<lambda>s. sg_realtime_valid s \<or> ''realtime_tick'' \<in> set (sg_source_types s)"
  have "?rt (merge_signal p c) = (?rt p \<or> ?rt c)"
  proof (cases "best_payload_signal p c = p \<and> payload_priority c \<le> payload_priority p")
    case True
    then have "?rt c \<longrightarrow> ?rt p" using realtime_priority(2) [of p] unfolding realtime_priority(1) by linarith
    with True show ?thesis by (auto simp: merge_signal_sources [OF assms])
  next
    case False
    with best_cases [of p c] have b: "best_payload_signal p c = c" "payload_priority p \<le> payload_priority c" by auto
    then have "?rt p \<longrightarrow> ?rt c" using realtime_priority(2) [of c] unfolding realtime_priority(1) by linarith
    with b show ?thesis by (auto simp: merge_signal_sources [OF assms])
  qed
  then show ?thesis
    unfolding payload_priority_prio merge_signal_sources [OF assms] prio_max [symmetric]
    by (auto intro: arg_cong3 [where f = prio])
qed

lemma clean_normalized [simp]: "clean (normalized s)"
  by (simp add: clean_def normalized_def Let_def)

definition merged_ok :: "live_seed_signal list \<Rightarrow> string \<Rightarrow> live_seed_signal \<Rightarrow> bool" where
  "merged_ok ss c m \<longleftrightarrow> sg_code m = c \<and> c \<noteq> [] \<and> clean m \<and>
     (\<exists>s\<in>set ss. sg_code (normalized s) = c \<and> payload_of m = payload_of (normalized s) \<and>
        payload_priority (normalized s) = payload_priority m) \<and>
     (\<forall>s\<in>set ss. sg_code (normalized s) = c \<longrightarrow> payload_priority (normalized s) \<le> payload_priority m) \<and>
     set (sg_source_types m) = (\<Union>s\<in>{s\<in>set ss. sg_code (normalized s) = c}. set (sg_source_types (normalized s))) \<and>
     set (sg_reason_codes m) = (\<Union>s\<in>{s\<in>set ss. sg_code (normalized s) = c}. set (sg_reason_codes (normalized s)))"

lemma merged_entries:
  "(\<forall>c m. map_of (fold merge_step ss []) c = Some m \<longrightarrow> merged_ok ss c m) \<and>
   (\<forall>c. map_of (fold merge_step ss []) c = None \<longrightarrow> c = [] \<or> (\<forall>s\<in>set ss. sg_code (normalized s) \<noteq> c))"
proof (induction ss rule: rev_induct)
  case (snoc s ss)
  let ?d = "fold merge_step ss []" and ?n = "normalized s"
  show ?case
  proof (cases "sg_code ?n = []")
    case True
    then have d: "fold merge_step (ss @ [s]) [] = ?d" by (simp add: merge_step_def)
    have "merged_ok ss c m \<Longrightarrow> merged_ok (ss @ [s]) c m" for c m
      using True by (auto simp: merged_ok_def)
    moreover have "c = [] \<or> (\<forall>t\<in>set (ss @ [s]). sg_code (normalized t) \<noteq> c)" if "map_of ?d c = None" for c
    proof -
      from snoc that have "c = [] \<or> (\<forall>t\<in>set ss. sg_code (normalized t) \<noteq> c)" by blast
      with True show ?thesis by auto
    qed
    ultimately show ?thesis using snoc unfolding d by blast
  next
    case False
    let ?m = "case map_of ?d (sg_code ?n) of Some p \<Rightarrow> merge_signal p ?n | None \<Rightarrow> ?n"
    have d: "map_of (fold merge_step (ss @ [s]) []) c = (if c = sg_code ?n then Some ?m else map_of ?d c)" for c
      using False by (simp add: merge_step_def Let_def dict_simps)
    have other: "merged_ok ss c m \<Longrightarrow> c \<noteq> sg_code ?n \<Longrightarrow> merged_ok (ss @ [s]) c m" for c m
      by (auto simp: merged_ok_def)
    have same: "merged_ok (ss @ [s]) (sg_code ?n) ?m"
    proof (cases "map_of ?d (sg_code ?n)")
      case None
      with snoc False have "\<forall>t\<in>set ss. sg_code (normalized t) \<noteq> sg_code ?n" by blast
      with None False show ?thesis by (auto simp: merged_ok_def)
    next
      case (Some p)
      with snoc have p: "merged_ok ss (sg_code ?n) p" by blast
      then have cp: "clean p" "sg_code p = sg_code ?n" by (auto simp: merged_ok_def)
      have best: "best_payload_signal p ?n = p \<and> payload_priority ?n \<le> payload_priority p \<or>
          best_payload_signal p ?n = ?n \<and> payload_priority p \<le> payload_priority ?n" by (rule best_cases)
      have "set (sg_source_types (merge_signal p ?n)) =
          (\<Union>t\<in>{t\<in>set (ss @ [s]). sg_code (normalized t) = sg_code ?n}. set (sg_source_types (normalized t)))"
        using p unfolding merge_signal_sources [OF cp(1) clean_normalized] by (auto simp: merged_ok_def)
      moreover have "set (sg_reason_codes (merge_signal p ?n)) =
          (\<Union>t\<in>{t\<in>set (ss @ [s]). sg_code (normalized t) = sg_code ?n}. set (sg_reason_codes (normalized t)))"
        using p unfolding merge_signal_reasons [OF cp(1) clean_normalized] by (auto simp: merged_ok_def)
      moreover have "sg_code (merge_signal p ?n) = sg_code ?n" using best cp(2) by auto
      moreover have "\<exists>t\<in>set (ss @ [s]). sg_code (normalized t) = sg_code ?n \<and>
          payload_of (merge_signal p ?n) = payload_of (normalized t) \<and>
          payload_priority (normalized t) = payload_priority (merge_signal p ?n)"
        using best p unfolding priority_merge [OF cp(1) clean_normalized] by (auto simp: merged_ok_def)
      moreover have "\<forall>t\<in>set (ss @ [s]). sg_code (normalized t) = sg_code ?n \<longrightarrow>
          payload_priority (normalized t) \<le> payload_priority (merge_signal p ?n)"
        using p unfolding priority_merge [OF cp(1) clean_normalized] by (auto simp: merged_ok_def)
      ultimately show ?thesis using Some False by (simp add: merged_ok_def)
    qed
    from snoc same other False show ?thesis unfolding d by auto
  qed
qed simp

lemma distinct_merged: "distinct (map fst (fold merge_step ss []))"
  by (induction ss rule: rev_induct) (simp_all add: merge_step_def Let_def distinct_keys_update)

text \<open>C20: Merging the signals of several sources yields exactly one signal per valid stock code; its
  price and flow data come as a whole from one of the inputs with the highest source priority (realtime over queries over
  holdings), no input with that code has a higher one, and its source types and its reason codes are the union of those of
  all inputs with the code.\<close>
theorem merge_keeps_best_source:
  "distinct (map sg_code (merge_seed_signals ss)) \<and>
   set (map sg_code (merge_seed_signals ss)) = (\<lambda>s. sg_code (normalized s)) ` set ss - {[]} \<and>
   (\<forall>m\<in>set (merge_seed_signals ss).
      (\<exists>s\<in>set ss. sg_code (normalized s) = sg_code m \<and> payload_of m = payload_of (normalized s) \<and>
         payload_priority (normalized s) = payload_priority m) \<and>
      (\<forall>s\<in>set ss. sg_code (normalized s) = sg_code m \<longrightarrow> payload_priority (normalized s) \<le> payload_priority m) \<and>
      set (sg_source_types m) = (\<Union>s\<in>{s\<in>set ss. sg_code (normalized s) = sg_code m}. set (sg_source_types (normalized s))) \<and>
      set (sg_reason_codes m) = (\<Union>s\<in>{s\<in>set ss. sg_code (normalized s) = sg_code m}. set (sg_reason_codes (normalized s))))"
proof -
  let ?d = "fold merge_step ss []"
  have ok: "(c, m) \<in> set ?d \<Longrightarrow> merged_ok ss c m" for c m
    using merged_entries [of ss] lookup_mem [OF distinct_merged] by blast
  then have codes: "map sg_code (map snd ?d) = map fst ?d" by (auto simp: merged_ok_def)
  have "set (map fst ?d) = (\<lambda>s. sg_code (normalized s)) ` set ss - {[]}"
  proof (intro equalityI subsetI)
    fix c assume "c \<in> set (map fst ?d)"
    then obtain m where "(c, m) \<in> set ?d" by auto
    from ok [OF this] show "c \<in> (\<lambda>s. sg_code (normalized s)) ` set ss - {[]}" unfolding merged_ok_def by force
  next
    fix c assume "c \<in> (\<lambda>s. sg_code (normalized s)) ` set ss - {[]}"
    then have "map_of ?d c \<noteq> None" using merged_entries [of ss] by blast
    then show "c \<in> set (map fst ?d)" by (simp add: map_of_eq_None_iff)
  qed
  moreover have "set (map sg_code (merge_seed_signals ss)) = set (map fst ?d)"
    unfolding codes [symmetric] by (simp add: merge_seed_signals_def image_image)
  moreover have "distinct (map sg_code (merge_seed_signals ss))"
    unfolding merge_seed_signals_def distinct_map_descending codes by (rule distinct_merged)
  moreover have "merged_ok ss (sg_code m) m" if "m \<in> set (merge_seed_signals ss)" for m
  proof -
    from that obtain c where "(c, m) \<in> set ?d" by (auto simp: merge_seed_signals_def)
    then have "merged_ok ss c m" by (rule ok)
    then show ?thesis by (simp add: merged_ok_def)
  qed
  ultimately show ?thesis by (simp add: merged_ok_def)
qed

lemma merge_keeps_best_source_witness:
  "let ss = [(default_signal ''A005930'')\<lparr>sg_source_types := [''holding''], sg_turnover_krw := 9\<rparr>,
             (default_signal ''005930'')\<lparr>sg_source_types := [''realtime_tick''], sg_realtime_valid := True, sg_turnover_krw := 5\<rparr>]
   in distinct (map sg_code (merge_seed_signals ss)) \<and> map sg_turnover_krw (merge_seed_signals ss) = [5]"
  unfolding Let_def by (intro conjI conjunct1 [OF merge_keeps_best_source]) code_simp

end
