(* ===== verification/Theme_State.thy ===== *)
theory Theme_State
  imports Prelude Complex_Main
begin

text \<open>
  The state machine of the theme engine (\<open>trading/theme_engine/state_machine.py\<close>): one cycle maps the
  cohort of each theme to a snapshot, from the snapshot of the cycle before. Scores and ratios,
  floats in the code, are exact rationals; the cohort (\<open>trading/theme_engine/cohort.py\<close>) has every field
  but the signals that it was built from.
\<close>

section \<open>States, configuration, data\<close>

datatype theme_core_state =
    UNIVERSE_EMPTY | SEED_WAIT | DATA_WAIT | WATCH_THEME | EMERGING_THEME | LEADER_ONLY_THEME
  | SPREADING_THEME | LEADING_THEME | FADING_THEME | WEAK_THEME

fun theme_state_value :: "theme_core_state \<Rightarrow> string" where
  "theme_state_value UNIVERSE_EMPTY = ''UNIVERSE_EMPTY''"
| "theme_state_value SEED_WAIT = ''SEED_WAIT''"
| "theme_state_value DATA_WAIT = ''DATA_WAIT''"
| "theme_state_value WATCH_THEME = ''WATCH_THEME''"
| "theme_state_value EMERGING_THEME = ''EMERGING_THEME''"
| "theme_state_value LEADER_ONLY_THEME = ''LEADER_ONLY_THEME''"
| "theme_state_value SPREADING_THEME = ''SPREADING_THEME''"
| "theme_state_value LEADING_THEME = ''LEADING_THEME''"
| "theme_state_value FADING_THEME = ''FADING_THEME''"
| "theme_state_value WEAK_THEME = ''WEAK_THEME''"

definition ACTIVE_STATES :: "theme_core_state set" where
  "ACTIVE_STATES = {LEADING_THEME, SPREADING_THEME, LEADER_ONLY_THEME}"

definition RECOVERY_STATES :: "theme_core_state set" where
  "RECOVERY_STATES = {LEADING_THEME, SPREADING_THEME, LEADER_ONLY_THEME, EMERGING_THEME}"

definition DWELL_PROTECTED_STATES :: "theme_core_state set" where
  "DWELL_PROTECTED_STATES = {LEADING_THEME, SPREADING_THEME, LEADER_ONLY_THEME, FADING_THEME}"

record theme_state_config =
  tsc_min_leading_persistence_cycles :: int
  tsc_min_leading_persistence_sec :: int
  tsc_min_leader_stability_cycles :: int
  tsc_min_leader_stability_sec :: int
  tsc_state_min_dwell_sec :: int
  tsc_fading_min_hold_sec :: int
  tsc_recovery_confirm_cycles :: int
  tsc_recovery_confirm_sec :: int
  tsc_signal_stale_grace_sec :: int
  tsc_leading_score_threshold :: rat
  tsc_spreading_score_threshold :: rat
  tsc_emerging_score_threshold :: rat
  tsc_fading_score_delta :: rat

definition default_theme_config :: theme_state_config where
  "default_theme_config = \<lparr>tsc_min_leading_persistence_cycles = 3, tsc_min_leading_persistence_sec = 30,
     tsc_min_leader_stability_cycles = 2, tsc_min_leader_stability_sec = 20, tsc_state_min_dwell_sec = 15,
     tsc_fading_min_hold_sec = 30, tsc_recovery_confirm_cycles = 3, tsc_recovery_confirm_sec = 30,
     tsc_signal_stale_grace_sec = 20, tsc_leading_score_threshold = 70, tsc_spreading_score_threshold = 50,
     tsc_emerging_score_threshold = 35, tsc_fading_score_delta = - 15\<rparr>"

text \<open>The environment is a function from names to the texts of the variables that are set.\<close>

definition env_int :: "(string \<Rightarrow> string option) \<Rightarrow> string \<Rightarrow> int \<Rightarrow> int" where
  "env_int env name dflt =
     (case env name of None \<Rightarrow> dflt | Some s \<Rightarrow> (case read_int s of Some i \<Rightarrow> i | None \<Rightarrow> dflt))"

definition theme_config_from_env :: "(string \<Rightarrow> string option) \<Rightarrow> theme_state_config" where
  "theme_config_from_env env = default_theme_config\<lparr>
     tsc_min_leading_persistence_cycles := max 1 (env_int env ''TRADING_THEME_MIN_LEADING_PERSISTENCE_CYCLES'' 3),
     tsc_min_leading_persistence_sec := max 0 (env_int env ''TRADING_THEME_MIN_LEADING_PERSISTENCE_SEC'' 30),
     tsc_min_leader_stability_cycles := max 1 (env_int env ''TRADING_THEME_MIN_LEADER_STABILITY_CYCLES'' 2),
     tsc_min_leader_stability_sec := max 0 (env_int env ''TRADING_THEME_MIN_LEADER_STABILITY_SEC'' 20),
     tsc_state_min_dwell_sec := max 0 (env_int env ''TRADING_THEME_STATE_MIN_DWELL_SEC'' 15),
     tsc_fading_min_hold_sec := max 0 (env_int env ''TRADING_THEME_FADING_MIN_HOLD_SEC'' 30),
     tsc_recovery_confirm_cycles := max 1 (env_int env ''TRADING_THEME_RECOVERY_CONFIRM_CYCLES'' 3),
     tsc_recovery_confirm_sec := max 0 (env_int env ''TRADING_THEME_RECOVERY_CONFIRM_SEC'' 30),
     tsc_signal_stale_grace_sec := max 0 (env_int env ''TRADING_THEME_SIGNAL_STALE_GRACE_SEC'' 20)\<rparr>"

record theme_cohort =
  co_theme_id :: string
  co_theme_name :: string
  co_member_count :: int
  co_seed_member_count :: int
  co_realtime_valid_count :: int
  co_strong_count :: int
  co_leader_count :: int
  co_alive_ratio :: rat
  co_strong_ratio :: rat
  co_leader_ratio :: rat
  co_theme_turnover_krw :: rat
  co_weighted_return_pct :: rat
  co_breadth_ratio :: rat
  co_leader_concentration :: rat
  co_leader_symbol :: string
  co_co_leader_symbols :: "string list"
  co_coverage_ratio :: rat
  co_universe_member_count :: int
  co_tradable_member_count :: int
  co_observed_member_count :: int
  co_target_sample_count :: int
  co_fresh_sample_count :: int
  co_full_universe_coverage_ratio :: rat
  co_planned_sample_coverage_ratio :: rat
  co_breadth_trust_level :: string
  co_signal_latest_at :: stamp
  co_signal_age_sec :: rat
  co_cumulative_strength_score :: rat
  co_recent_flow_score :: rat
  co_rotation_score :: rat
  co_signal_persistence_count :: int
  co_cohesion_passed :: bool
  co_leader_only_candidate :: bool
  co_data_quality_reason :: string
  co_reason_codes :: "string list"

text \<open>\<open>ts_previous_state\<close> is \<open>None\<close> for the empty text.\<close>

record theme_snapshot =
  ts_theme_id :: string
  ts_theme_name :: string
  ts_theme_state :: theme_core_state
  ts_previous_state :: "theme_core_state option"
  ts_transition :: string
  ts_persistence_count :: int
  ts_theme_score :: rat
  ts_theme_score_delta :: rat
  ts_leader_symbol :: string
  ts_previous_leader_symbol :: string
  ts_co_leader_symbols :: "string list"
  ts_leader_changed :: bool
  ts_leader_stability_count :: int
  ts_data_quality_reason :: string
  ts_reason_codes :: "string list"
  ts_state_entered_at :: stamp
  ts_state_age_sec :: int
  ts_state_cycle_count :: int
  ts_strong_since :: stamp
  ts_spreading_since :: stamp
  ts_leading_since :: stamp
  ts_fading_since :: stamp
  ts_recovery_pending_since :: stamp
  ts_recovery_cycle_count :: int
  ts_temporal_persistence_sec :: int
  ts_leader_stability_sec :: int
  ts_last_strong_at :: stamp
  ts_last_fresh_signal_at :: stamp
  ts_cohort :: "theme_cohort option"

record theme_timing =
  tm_strong_since :: stamp
  tm_spreading_since :: stamp
  tm_leading_since :: stamp
  tm_fading_since :: stamp
  tm_recovery_pending_since :: stamp
  tm_recovery_cycle_count :: int
  tm_temporal_persistence_sec :: int
  tm_temporal_persistence_cycles :: int
  tm_leader_stability_count :: int
  tm_leader_stability_sec :: int
  tm_last_strong_at :: stamp
  tm_last_fresh_signal_at :: stamp

section \<open>Score, freshness, fading\<close>

definition elapsed_sec :: "stamp \<Rightarrow> time \<Rightarrow> int" where
  "elapsed_sec s now = (case s of Blank \<Rightarrow> 0 | At t \<Rightarrow> max 0 ((now - t) div second))"

definition theme_score :: "theme_cohort \<Rightarrow> rat" where
  "theme_score c =
     max 0 (min 100
       (25 * min 1 (co_theme_turnover_krw c / 20000000000) + 25 * min 1 (co_strong_ratio c * 2) +
        20 * min 1 (of_int (co_leader_count c) / 3) + 15 * min 1 (max 0 (co_weighted_return_pct c + 1) / 8) +
        15 * min 1 (co_coverage_ratio c)))"

text \<open>\<open>round(x, 4)\<close> on exact values: to the nearest, ties to the even last digit.\<close>

definition round4 :: "rat \<Rightarrow> rat" where
  "round4 x =
     (let y = x * 10000; n = \<lfloor>y\<rfloor>; d = y - of_int n in
      of_int (if d < 1 / 2 \<or> d = 1 / 2 \<and> even n then n else n + 1) / 10000)"

definition stale_blocked :: "theme_cohort \<Rightarrow> bool" where
  "stale_blocked c \<longleftrightarrow> co_data_quality_reason c \<in> {''TR_BACKFILL_ONLY'', ''CANDLE_WARMUP''} \<or>
     ''SIGNAL_STALE'' \<in> set (co_reason_codes c)"

definition stale_grace_active :: "theme_snapshot option \<Rightarrow> theme_cohort \<Rightarrow> theme_state_config \<Rightarrow> time \<Rightarrow> bool" where
  "stale_grace_active previous c cfg now =
     (case previous of
        None \<Rightarrow> False
      | Some p \<Rightarrow>
          (if ts_theme_state p \<notin> ACTIVE_STATES \<or> \<not> stale_blocked c then False
           else let last_fresh = stamp_or (ts_last_fresh_signal_at p) (ts_last_strong_at p) in
             last_fresh \<noteq> Blank \<and> elapsed_sec last_fresh now \<le> tsc_signal_stale_grace_sec cfg))"

definition is_fading :: "theme_snapshot \<Rightarrow> theme_cohort \<Rightarrow> rat \<Rightarrow> theme_state_config \<Rightarrow> bool" where
  "is_fading p c score cfg \<longleftrightarrow>
     score - ts_theme_score p \<le> tsc_fading_score_delta cfg \<or>
     co_leader_count c < (if ts_leader_symbol p \<noteq> [] then 1 else 0) \<or>
     co_weighted_return_pct c \<le> 0"

definition raw_state :: "theme_state_config \<Rightarrow> theme_cohort \<Rightarrow> rat \<Rightarrow> theme_core_state \<times> string list" where
  "raw_state cfg c score =
     (if co_member_count c \<le> 0 \<and> co_theme_id c = [] then (UNIVERSE_EMPTY, [''UNMAPPED_SEED''])
      else if co_member_count c \<le> 0 then (UNIVERSE_EMPTY, [''THEME_MEMBERSHIP_MISSING''])
      else if co_seed_member_count c \<le> 0 then (SEED_WAIT, [''SEED_WAIT''])
      else if co_data_quality_reason c \<in> {''REALTIME_COVERAGE_LOW'', ''TR_BACKFILL_ONLY'', ''CANDLE_WARMUP''} then
        (DATA_WAIT, [co_data_quality_reason c])
      else if co_leader_only_candidate c then (LEADER_ONLY_THEME, [''LEADER_ONLY_COHORT''])
      else if co_cohesion_passed c \<and> tsc_leading_score_threshold cfg \<le> score then
        (SPREADING_THEME, [''LEADING_REQUIRES_PERSISTENCE'', ''LEADING_REQUIRES_TIME_HYSTERESIS''])
      else if co_cohesion_passed c \<and> tsc_spreading_score_threshold cfg \<le> score then (SPREADING_THEME, [])
      else if 0 < co_strong_count c \<and> tsc_emerging_score_threshold cfg \<le> score then (EMERGING_THEME, [])
      else if 0 < co_seed_member_count c then (WATCH_THEME, [])
      else (WEAK_THEME, []))"

section \<open>Timing\<close>

text \<open>A field of the previous snapshot, with the value used when there is none.\<close>

definition prev_or :: "theme_snapshot option \<Rightarrow> (theme_snapshot \<Rightarrow> 'a) \<Rightarrow> 'a \<Rightarrow> 'a" where
  "prev_or previous f x = (case previous of None \<Rightarrow> x | Some p \<Rightarrow> f p)"

text \<open>\<open>p.since if p is not None and active and p.since else now if active else ""\<close>\<close>

definition since :: "theme_snapshot option \<Rightarrow> (theme_snapshot \<Rightarrow> stamp) \<Rightarrow> bool \<Rightarrow> time \<Rightarrow> stamp" where
  "since previous f active now = (if active then stamp_or (prev_or previous f Blank) (At now) else Blank)"

definition timing :: "theme_snapshot option \<Rightarrow> theme_cohort \<Rightarrow> theme_core_state \<Rightarrow> time \<Rightarrow> theme_timing" where
  "timing previous c raw now =
     (let strong_active = 0 < co_strong_count c \<and> raw \<notin> {DATA_WAIT, SEED_WAIT, WEAK_THEME};
          spreading_active = (raw = SPREADING_THEME);
          leader_before = prev_or previous ts_leader_symbol [];
          same_leader = (leader_before \<noteq> [] \<and>
            (leader_before = co_leader_symbol c \<or> raw = SPREADING_THEME \<and> stale_blocked c \<and> co_leader_symbol c = []));
          elapsed_since_last = prev_or previous
            (\<lambda>p. elapsed_sec (stamp_or (ts_last_fresh_signal_at p) (ts_last_strong_at p)) now) 0;
          persistence_cycles = prev_or previous
            (\<lambda>p. if spreading_active \<and> ts_theme_state p \<in> {SPREADING_THEME, LEADING_THEME}
                 then ts_persistence_count p + 1 else 1) 1;
          strong_since = since previous ts_strong_since strong_active now;
          spreading_since = since previous ts_spreading_since spreading_active now;
          fresh_signal = (0 < co_realtime_valid_count c \<and> raw \<noteq> DATA_WAIT \<and> \<not> stale_blocked c)
      in \<lparr>tm_strong_since = strong_since, tm_spreading_since = spreading_since,
          tm_leading_since = since previous ts_leading_since spreading_active now,
          tm_fading_since = prev_or previous ts_fading_since Blank,
          tm_recovery_pending_since = Blank, tm_recovery_cycle_count = 0,
          tm_temporal_persistence_sec = elapsed_sec (stamp_or spreading_since strong_since) now,
          tm_temporal_persistence_cycles = persistence_cycles,
          tm_leader_stability_count =
            (if same_leader then prev_or previous ts_leader_stability_count 0 + 1
             else if co_leader_symbol c \<noteq> [] then 1 else 0),
          tm_leader_stability_sec =
            (if same_leader then prev_or previous ts_leader_stability_sec 0 + elapsed_since_last else 0),
          tm_last_strong_at = (if strong_active then At now else prev_or previous ts_last_strong_at Blank),
          tm_last_fresh_signal_at = (if fresh_signal then At now else prev_or previous ts_last_fresh_signal_at Blank)\<rparr>)"

definition leading_confirmed :: "theme_timing \<Rightarrow> theme_state_config \<Rightarrow> bool" where
  "leading_confirmed tm cfg \<longleftrightarrow>
     tsc_min_leading_persistence_cycles cfg \<le> tm_temporal_persistence_cycles tm \<and>
     tsc_min_leading_persistence_sec cfg \<le> tm_temporal_persistence_sec tm \<and>
     tsc_min_leader_stability_cycles cfg \<le> tm_leader_stability_count tm \<and>
     tsc_min_leader_stability_sec cfg \<le> tm_leader_stability_sec tm"

section \<open>One theme, one cycle\<close>

text \<open>The steps below return the state they decide with the reasons they append.\<close>

definition fading_or_grace ::
  "theme_state_config \<Rightarrow> theme_snapshot option \<Rightarrow> theme_cohort \<Rightarrow> rat \<Rightarrow> time \<Rightarrow> theme_core_state option \<times> string list" where
  "fading_or_grace cfg previous c score now =
     (case previous of
        None \<Rightarrow> (None, [])
      | Some p \<Rightarrow>
          (if ts_theme_state p \<in> ACTIVE_STATES \<and> is_fading p c score cfg then
             (if stale_grace_active previous c cfg now then (None, [''FADING_SUPPRESSED_BY_STALE_GRACE''])
              else (Some FADING_THEME, [theme_state_value (ts_theme_state p) @ ''_TO_FADING'']))
           else (None, [])))"

definition candidate_state ::
  "theme_state_config \<Rightarrow> theme_snapshot option \<Rightarrow> theme_cohort \<Rightarrow> theme_core_state \<Rightarrow> rat \<Rightarrow> theme_timing \<Rightarrow> time \<Rightarrow>
   theme_core_state \<times> string list" where
  "candidate_state cfg previous c raw score tm now =
     (case fading_or_grace cfg previous c score now of
        (Some st, reasons) \<Rightarrow> (st, reasons)
      | (None, reasons) \<Rightarrow>
          (if raw = SPREADING_THEME \<and> tsc_leading_score_threshold cfg \<le> score then
             (if leading_confirmed tm cfg \<and> (\<not> stale_blocked c \<or> stale_grace_active previous c cfg now)
              then (LEADING_THEME, reasons @ [''LEADING_PERSISTENCE_CONFIRMED''])
              else (SPREADING_THEME, reasons @ [''LEADING_TIME_HYSTERESIS_WAIT'']))
           else (raw, reasons)))"

text \<open>The tail of \<open>_apply_dwell_and_recovery\<close>, after the confirmation of a recovery. The code looks at
  \<open>candidate_state\<close> for \<open>FADING\<close> a second time at its end, where it cannot be reached.\<close>

definition apply_hold_and_dwell ::
  "theme_state_config \<Rightarrow> theme_snapshot \<Rightarrow> theme_core_state \<Rightarrow> theme_timing \<Rightarrow> time \<Rightarrow>
   theme_core_state \<times> theme_timing \<times> string list" where
  "apply_hold_and_dwell cfg p candidate tm now =
     (if candidate = FADING_THEME then
        (candidate, tm\<lparr>tm_fading_since := stamp_or (ts_fading_since p) (At now)\<rparr>, [])
      else if ts_theme_state p = FADING_THEME \<and>
              elapsed_sec (stamp_or (ts_fading_since p) (ts_state_entered_at p)) now < tsc_fading_min_hold_sec cfg then
        (FADING_THEME,
         tm\<lparr>tm_fading_since := stamp_or (stamp_or (ts_fading_since p) (ts_state_entered_at p)) (At now)\<rparr>,
         [''FADING_MIN_HOLD_ACTIVE''])
      else if ts_theme_state p \<noteq> candidate \<and> ts_theme_state p \<in> DWELL_PROTECTED_STATES \<and>
              elapsed_sec (ts_state_entered_at p) now < tsc_state_min_dwell_sec cfg then
        (ts_theme_state p,
         (if ts_theme_state p = FADING_THEME
          then tm\<lparr>tm_fading_since := stamp_or (ts_fading_since p) (ts_state_entered_at p)\<rparr> else tm),
         [''STATE_MIN_DWELL_ACTIVE''])
      else (candidate, tm, []))"

definition apply_dwell_and_recovery ::
  "theme_state_config \<Rightarrow> theme_snapshot option \<Rightarrow> theme_core_state \<Rightarrow> theme_timing \<Rightarrow> time \<Rightarrow>
   theme_core_state \<times> theme_timing \<times> string list" where
  "apply_dwell_and_recovery cfg previous candidate tm now =
     (case previous of
        None \<Rightarrow>
          (candidate, if candidate = FADING_THEME then tm\<lparr>tm_fading_since := At now\<rparr> else tm, [])
      | Some p \<Rightarrow>
          (if ts_theme_state p = FADING_THEME \<and> candidate \<in> RECOVERY_STATES then
             (let recovery_since = stamp_or (ts_recovery_pending_since p) (At now);
                  recovery_cycles = (if ts_recovery_pending_since p \<noteq> Blank then ts_recovery_cycle_count p + 1 else 1)
              in if elapsed_sec recovery_since now < tsc_recovery_confirm_sec cfg \<or>
                    recovery_cycles < tsc_recovery_confirm_cycles cfg
                 then (FADING_THEME,
                       tm\<lparr>tm_recovery_pending_since := recovery_since, tm_recovery_cycle_count := recovery_cycles\<rparr>,
                       [''FADING_RECOVERY_REQUIRES_CONFIRMATION''])
                 else (case apply_hold_and_dwell cfg p candidate
                              (tm\<lparr>tm_recovery_pending_since := Blank, tm_recovery_cycle_count := 0\<rparr>) now of
                         (st, tm', reasons) \<Rightarrow> (st, tm', ''FADING_RECOVERY_CONFIRMED'' # reasons)))
           else apply_hold_and_dwell cfg p candidate tm now))"

definition transition_text :: "theme_core_state option \<Rightarrow> theme_core_state \<Rightarrow> string" where
  "transition_text previous st =
     (case previous of None \<Rightarrow> ''NONE'' | Some p \<Rightarrow> theme_state_value p) @ ''->'' @ theme_state_value st"

text \<open>\<open>_apply_one\<close> up to the decision: the final state, the timing, the reasons and the score it is recorded with.\<close>

definition carried_by_grace :: "theme_state_config \<Rightarrow> theme_snapshot option \<Rightarrow> theme_cohort \<Rightarrow> time \<Rightarrow> bool" where
  "carried_by_grace cfg previous c now \<longleftrightarrow> stale_grace_active previous c cfg now \<and>
     prev_or previous (\<lambda>p. ts_theme_state p \<in> {SPREADING_THEME, LEADING_THEME}) False"

definition state_score :: "theme_state_config \<Rightarrow> theme_snapshot option \<Rightarrow> theme_cohort \<Rightarrow> time \<Rightarrow> rat" where
  "state_score cfg previous c now =
     (if carried_by_grace cfg previous c now then max (theme_score c) (prev_or previous ts_theme_score 0) else theme_score c)"

definition state_raw :: "theme_state_config \<Rightarrow> theme_snapshot option \<Rightarrow> theme_cohort \<Rightarrow> time \<Rightarrow> theme_core_state" where
  "state_raw cfg previous c now =
     (if carried_by_grace cfg previous c now then SPREADING_THEME else fst (raw_state cfg c (theme_score c)))"

definition decide ::
  "theme_state_config \<Rightarrow> theme_snapshot option \<Rightarrow> theme_cohort \<Rightarrow> time \<Rightarrow> theme_core_state \<times> theme_timing \<times> string list" where
  "decide cfg previous c now =
     (let raw = state_raw cfg previous c now;
          reasons0 = snd (raw_state cfg c (theme_score c)) @
            (if stale_grace_active previous c cfg now then [''SIGNAL_STALE_GRACE_ACTIVE''] else []);
          tm0 = timing previous c raw now;
          (candidate, reasons1) = candidate_state cfg previous c raw (state_score cfg previous c now) tm0 now;
          (final, tm, reasons2) = apply_dwell_and_recovery cfg previous candidate tm0 now
      in (final, tm, reasons0 @ reasons1 @ reasons2))"

definition apply_one :: "theme_state_config \<Rightarrow> theme_snapshot option \<Rightarrow> theme_cohort \<Rightarrow> time \<Rightarrow> theme_snapshot" where
  "apply_one cfg previous c now =
     (let grace = stale_grace_active previous c cfg now;
          score = state_score cfg previous c now;
          (final, tm, reasons) = decide cfg previous c now;
          same_state = prev_or previous (\<lambda>p. ts_theme_state p = final) False;
          entered_at = (if same_state then stamp_or (prev_or previous ts_state_entered_at Blank) (At now) else At now);
          cycle_count = (if same_state then prev_or previous ts_state_cycle_count 0 + 1 else 1);
          leader = (if co_leader_symbol c \<noteq> [] then co_leader_symbol c
                    else if grace then prev_or previous ts_leader_symbol [] else []);
          leader_before = prev_or previous ts_leader_symbol []
      in \<lparr>ts_theme_id = co_theme_id c, ts_theme_name = co_theme_name c, ts_theme_state = final,
          ts_previous_state = map_option ts_theme_state previous,
          ts_transition = transition_text (map_option ts_theme_state previous) final,
          ts_persistence_count = cycle_count, ts_theme_score = round4 score,
          ts_theme_score_delta = prev_or previous (\<lambda>p. round4 (score - ts_theme_score p)) 0,
          ts_leader_symbol = leader, ts_previous_leader_symbol = leader_before,
          ts_co_leader_symbols =
            (if co_co_leader_symbols c \<noteq> [] then co_co_leader_symbols c
             else if grace then prev_or previous ts_co_leader_symbols [] else []),
          ts_leader_changed = (leader_before \<noteq> [] \<and> leader_before \<noteq> leader),
          ts_leader_stability_count = tm_leader_stability_count tm,
          ts_data_quality_reason = co_data_quality_reason c,
          ts_reason_codes = uniq (co_reason_codes c @ reasons),
          ts_state_entered_at = entered_at, ts_state_age_sec = elapsed_sec entered_at now,
          ts_state_cycle_count = cycle_count,
          ts_strong_since = tm_strong_since tm, ts_spreading_since = tm_spreading_since tm,
          ts_leading_since = tm_leading_since tm,
          ts_fading_since = (if final = FADING_THEME then tm_fading_since tm else Blank),
          ts_recovery_pending_since = tm_recovery_pending_since tm,
          ts_recovery_cycle_count = tm_recovery_cycle_count tm,
          ts_temporal_persistence_sec = tm_temporal_persistence_sec tm,
          ts_leader_stability_sec = tm_leader_stability_sec tm,
          ts_last_strong_at = tm_last_strong_at tm, ts_last_fresh_signal_at = tm_last_fresh_signal_at tm,
          ts_cohort = Some c\<rparr>)"

section \<open>The machine\<close>

record theme_machine =
  tsm_config :: theme_state_config
  tsm_previous :: "(string \<times> theme_snapshot) list"

text \<open>\<open>{item.theme_id: item for item in items if item.theme_id}\<close>\<close>

definition by_theme :: "theme_snapshot list \<Rightarrow> (string \<times> theme_snapshot) list" where
  "by_theme items = fold (\<lambda>i d. AList.update (ts_theme_id i) i d) (filter (\<lambda>i. ts_theme_id i \<noteq> []) items) []"

definition theme_machine_restore :: "theme_machine \<Rightarrow> theme_snapshot list \<Rightarrow> theme_machine" where
  "theme_machine_restore m items = m\<lparr>tsm_previous := by_theme items\<rparr>"

definition theme_machine_apply :: "theme_machine \<Rightarrow> theme_cohort list \<Rightarrow> time \<Rightarrow> theme_machine \<times> theme_snapshot list" where
  "theme_machine_apply m cohorts now =
     (let current = map (\<lambda>c. apply_one (tsm_config m) (map_of (tsm_previous m) (co_theme_id c)) c (whole_second now)) cohorts
      in (m\<lparr>tsm_previous := by_theme current\<rparr>, current))"

section \<open>What one cycle does\<close>

lemma apply_hold_and_dwell_cases:
  assumes "apply_hold_and_dwell cfg p candidate tm now = (st, tm', reasons)"
  shows "st \<in> {candidate, FADING_THEME, ts_theme_state p}"
    and "tm_recovery_cycle_count tm' = tm_recovery_cycle_count tm"
    and "st = candidate \<or> st = ts_theme_state p"
  using assms by (auto simp: apply_hold_and_dwell_def split: if_splits)

lemma hold_keeps_since:
  assumes "apply_hold_and_dwell cfg p candidate tm now = (FADING_THEME, tm', reasons)"
    and "ts_theme_state p = FADING_THEME" "ts_fading_since p = At t"
  shows "tm_fading_since tm' = At t"
  using assms by (auto simp: apply_hold_and_dwell_def stamp_or_def split: if_splits)

lemma hold_left:
  assumes "apply_hold_and_dwell cfg p candidate tm now = (st, tm', reasons)"
    and "ts_theme_state p = FADING_THEME" "st \<noteq> FADING_THEME"
  shows "st = candidate" "tsc_fading_min_hold_sec cfg \<le> elapsed_sec (stamp_or (ts_fading_since p) (ts_state_entered_at p)) now"
    "tsc_state_min_dwell_sec cfg \<le> elapsed_sec (ts_state_entered_at p) now"
  using assms by (auto simp: apply_hold_and_dwell_def DWELL_PROTECTED_STATES_def not_less split: if_splits)

text \<open>The snapshot of a cycle repeats what was decided, and the decision starts from a fresh timing.\<close>

lemma apply_one_decides:
  assumes "decide cfg previous c now = (final, tm, reasons)"
  shows "ts_theme_state (apply_one cfg previous c now) = final"
    "ts_fading_since (apply_one cfg previous c now) = (if final = FADING_THEME then tm_fading_since tm else Blank)"
    "ts_recovery_cycle_count (apply_one cfg previous c now) = tm_recovery_cycle_count tm"
    "ts_recovery_pending_since (apply_one cfg previous c now) = tm_recovery_pending_since tm"
    "ts_theme_id (apply_one cfg previous c now) = co_theme_id c"
    "ts_persistence_count (apply_one cfg previous c now) =
       (if prev_or previous (\<lambda>p. ts_theme_state p = final) False then prev_or previous ts_state_cycle_count 0 + 1 else 1)"
    "ts_state_entered_at (apply_one cfg previous c now) =
       (if prev_or previous (\<lambda>p. ts_theme_state p = final) False then stamp_or (prev_or previous ts_state_entered_at Blank) (At now) else At now)"
  using assms by (simp_all add: apply_one_def Let_def)

lemma decide_parts:
  assumes "decide cfg previous c now = (final, tm, reasons)"
  obtains candidate reasons1 reasons2 where
    "candidate_state cfg previous c (state_raw cfg previous c now) (state_score cfg previous c now)
       (timing previous c (state_raw cfg previous c now) now) now = (candidate, reasons1)"
    "apply_dwell_and_recovery cfg previous candidate (timing previous c (state_raw cfg previous c now) now) now = (final, tm, reasons2)"
  using assms by (auto simp: decide_def Let_def split: prod.splits)

lemma timing_fresh [simp]:
  "tm_fading_since (timing previous c raw now) = prev_or previous ts_fading_since Blank"
  "tm_recovery_cycle_count (timing previous c raw now) = 0"
  "tm_recovery_pending_since (timing previous c raw now) = Blank"
  by (simp_all add: timing_def Let_def)

subsection \<open>Fading\<close>

lemma fading_stays:
  assumes "ts_theme_state p = FADING_THEME" "ts_fading_since p = At t"
    and "ts_theme_state (apply_one cfg (Some p) c now) = FADING_THEME"
  shows "ts_fading_since (apply_one cfg (Some p) c now) = At t"
proof -
  obtain final tm reasons where d: "decide cfg (Some p) c now = (final, tm, reasons)" by (metis prod_cases3)
  from decide_parts [OF d] obtain candidate reasons2 where
    a: "apply_dwell_and_recovery cfg (Some p) candidate (timing (Some p) c (state_raw cfg (Some p) c now) now) now = (final, tm, reasons2)"
    by metis
  have "final = FADING_THEME" using assms(3) apply_one_decides(1) [OF d] by simp
  with a assms have "tm_fading_since tm = At t"
    by (auto simp: apply_dwell_and_recovery_def Let_def prev_or_def split: if_splits prod.splits dest: hold_keeps_since)
  then show "ts_fading_since (apply_one cfg (Some p) c now) = At t"
    using apply_one_decides(1,2) [OF d] assms(3) by simp
qed

text \<open>A cohort confirms the recovery of a fading theme when its own state is one that a theme recovers to.\<close>

definition recovering :: "theme_state_config \<Rightarrow> theme_cohort \<Rightarrow> bool" where
  "recovering cfg c \<longleftrightarrow> fst (raw_state cfg c (theme_score c)) \<in> {SPREADING_THEME, LEADER_ONLY_THEME, EMERGING_THEME}"

lemma candidate_recovering:
  assumes "ts_theme_state p = FADING_THEME" "candidate \<in> RECOVERY_STATES"
    and "candidate_state cfg (Some p) c (state_raw cfg (Some p) c now) score tm now = (candidate, reasons)"
  shows "recovering cfg c"
proof -
  have raw: "state_raw cfg (Some p) c now = fst (raw_state cfg c (theme_score c))"
    using assms(1) by (simp add: state_raw_def carried_by_grace_def prev_or_def)
  have "fst (raw_state cfg c (theme_score c)) \<noteq> LEADING_THEME" by (simp add: raw_state_def)
  then show ?thesis
    using assms by (auto simp: recovering_def raw candidate_state_def fading_or_grace_def ACTIVE_STATES_def RECOVERY_STATES_def
      split: if_splits)
qed

lemma fading_counts:
  assumes "ts_theme_state p = FADING_THEME" "s = apply_one cfg (Some p) c now" "ts_theme_state s = FADING_THEME"
  shows "ts_recovery_pending_since s = Blank \<and> ts_recovery_cycle_count s = 0 \<or>
    recovering cfg c \<and> ts_recovery_pending_since s = stamp_or (ts_recovery_pending_since p) (At now) \<and>
    ts_recovery_cycle_count s = (if ts_recovery_pending_since p \<noteq> Blank then ts_recovery_cycle_count p + 1 else 1)"
proof -
  obtain final tm reasons where d: "decide cfg (Some p) c now = (final, tm, reasons)" by (metis prod_cases3)
  from decide_parts [OF d] obtain candidate reasons1 reasons2 where
    cand: "candidate_state cfg (Some p) c (state_raw cfg (Some p) c now) (state_score cfg (Some p) c now)
       (timing (Some p) c (state_raw cfg (Some p) c now) now) now = (candidate, reasons1)" and
    a: "apply_dwell_and_recovery cfg (Some p) candidate (timing (Some p) c (state_raw cfg (Some p) c now) now) now = (final, tm, reasons2)"
    by metis
  have keep: "tm_recovery_pending_since tm' = tm_recovery_pending_since tm0"
    if "apply_hold_and_dwell cfg p candidate tm0 now = (st, tm', reasons)" for tm0 st tm' reasons
    using that by (auto simp: apply_hold_and_dwell_def split: if_splits)
  have "candidate \<in> RECOVERY_STATES \<Longrightarrow> recovering cfg c"
    using candidate_recovering [OF assms(1) _ cand] by blast
  with a assms(1) have "tm_recovery_pending_since tm = Blank \<and> tm_recovery_cycle_count tm = 0 \<or>
      recovering cfg c \<and> tm_recovery_pending_since tm = stamp_or (ts_recovery_pending_since p) (At now) \<and>
      tm_recovery_cycle_count tm = (if ts_recovery_pending_since p \<noteq> Blank then ts_recovery_cycle_count p + 1 else 1)"
    by (auto simp: apply_dwell_and_recovery_def Let_def split: if_splits prod.splits
        dest: keep apply_hold_and_dwell_cases(2))
  then show ?thesis using apply_one_decides(3,4) [OF d] assms(2) by simp
qed

lemma fading_left:
  assumes "ts_theme_state p = FADING_THEME" "ts_theme_state (apply_one cfg (Some p) c now) \<noteq> FADING_THEME"
  shows "tsc_fading_min_hold_sec cfg \<le> elapsed_sec (stamp_or (ts_fading_since p) (ts_state_entered_at p)) now"
    and "ts_theme_state (apply_one cfg (Some p) c now) \<in> RECOVERY_STATES \<Longrightarrow>
      tsc_recovery_confirm_cycles cfg \<le> (if ts_recovery_pending_since p \<noteq> Blank then ts_recovery_cycle_count p + 1 else 1) \<and>
      tsc_recovery_confirm_sec cfg \<le> elapsed_sec (stamp_or (ts_recovery_pending_since p) (At now)) now \<and> recovering cfg c"
proof -
  obtain final tm reasons where d: "decide cfg (Some p) c now = (final, tm, reasons)" by (metis prod_cases3)
  from decide_parts [OF d] obtain candidate reasons1 reasons2 where
    cand: "candidate_state cfg (Some p) c (state_raw cfg (Some p) c now) (state_score cfg (Some p) c now)
       (timing (Some p) c (state_raw cfg (Some p) c now) now) now = (candidate, reasons1)" and
    a: "apply_dwell_and_recovery cfg (Some p) candidate (timing (Some p) c (state_raw cfg (Some p) c now) now) now = (final, tm, reasons2)"
    by metis
  have f: "final \<noteq> FADING_THEME" using assms(2) apply_one_decides(1) [OF d] by simp
  show "tsc_fading_min_hold_sec cfg \<le> elapsed_sec (stamp_or (ts_fading_since p) (ts_state_entered_at p)) now"
    using a f assms(1) by (auto simp: apply_dwell_and_recovery_def Let_def split: if_splits prod.splits dest: hold_left(2))
  assume "ts_theme_state (apply_one cfg (Some p) c now) \<in> RECOVERY_STATES"
  then have rec: "final \<in> RECOVERY_STATES" using apply_one_decides(1) [OF d] by simp
  then have "candidate \<in> RECOVERY_STATES"
    using a f assms(1) by (auto simp: apply_dwell_and_recovery_def Let_def split: if_splits prod.splits dest: hold_left(1))
  with candidate_recovering [OF assms(1) _ cand] have "recovering cfg c" by blast
  with a f assms(1) rec show "tsc_recovery_confirm_cycles cfg \<le> (if ts_recovery_pending_since p \<noteq> Blank then ts_recovery_cycle_count p + 1 else 1) \<and>
      tsc_recovery_confirm_sec cfg \<le> elapsed_sec (stamp_or (ts_recovery_pending_since p) (At now)) now \<and> recovering cfg c"
    by (auto simp: apply_dwell_and_recovery_def Let_def not_less split: if_splits prod.splits dest: hold_left(1))
qed

lemma fading_entered:
  assumes "prev_or previous ts_theme_state WEAK_THEME \<noteq> FADING_THEME" "prev_or previous ts_fading_since Blank = Blank"
    and "ts_theme_state (apply_one cfg previous c now) = FADING_THEME"
  shows "ts_fading_since (apply_one cfg previous c now) = At now" "ts_recovery_cycle_count (apply_one cfg previous c now) = 0"
    "ts_recovery_pending_since (apply_one cfg previous c now) = Blank"
proof -
  obtain final tm reasons where d: "decide cfg previous c now = (final, tm, reasons)" by (metis prod_cases3)
  from decide_parts [OF d] obtain candidate reasons2 where
    a: "apply_dwell_and_recovery cfg previous candidate (timing previous c (state_raw cfg previous c now) now) now = (final, tm, reasons2)"
    by metis
  have "final = FADING_THEME" using assms(3) apply_one_decides(1) [OF d] by simp
  with a assms(1,2) have "tm_fading_since tm = At now \<and> tm_recovery_cycle_count tm = 0 \<and> tm_recovery_pending_since tm = Blank"
    by (cases previous)
      (auto simp: apply_dwell_and_recovery_def apply_hold_and_dwell_def Let_def prev_or_def stamp_or_def split: if_splits)
  then show "ts_fading_since (apply_one cfg previous c now) = At now" "ts_recovery_cycle_count (apply_one cfg previous c now) = 0"
    "ts_recovery_pending_since (apply_one cfg previous c now) = Blank"
    using apply_one_decides(1-4) [OF d] assms(3) by simp_all
qed

lemma not_fading_no_since: "ts_theme_state (apply_one cfg previous c now) \<noteq> FADING_THEME \<Longrightarrow> ts_fading_since (apply_one cfg previous c now) = Blank"
  using apply_one_decides(1,2) by (metis prod_cases3)

subsection \<open>Cycles of the machine\<close>

type_synonym cycle = "theme_cohort list \<times> time"

text \<open>A cycle confirms the recovery of a theme when one of its cohorts for the theme does.\<close>

definition confirming :: "theme_state_config \<Rightarrow> string \<Rightarrow> cycle \<Rightarrow> bool" where
  "confirming cfg k = (\<lambda>(cohorts, now). list_ex (\<lambda>c. co_theme_id c = k \<and> recovering cfg c) cohorts)"

definition run_cycles :: "theme_machine \<Rightarrow> cycle list \<Rightarrow> theme_machine" where
  "run_cycles m cycles = fold (\<lambda>(cohorts, now) m. fst (theme_machine_apply m cohorts now)) cycles m"

definition fresh_machine :: "theme_state_config \<Rightarrow> theme_machine" where
  "fresh_machine cfg = \<lparr>tsm_config = cfg, tsm_previous = []\<rparr>"

definition theme_of :: "theme_machine \<Rightarrow> string \<Rightarrow> theme_core_state option" where
  "theme_of m k = map_option ts_theme_state (map_of (tsm_previous m) k)"

lemma run_cycles_snoc: "run_cycles m (cycles @ [(cohorts, now)]) = fst (theme_machine_apply (run_cycles m cycles) cohorts now)"
  by (simp add: run_cycles_def)

lemma run_cycles_config [simp]: "tsm_config (run_cycles m cycles) = tsm_config m"
  by (induction cycles rule: rev_induct) (auto simp: run_cycles_snoc theme_machine_apply_def Let_def, simp add: run_cycles_def)

lemma by_theme_lookup: "map_of (by_theme items) k = Some s \<Longrightarrow> s \<in> set items \<and> ts_theme_id s = k"
proof -
  have "map_of (fold (\<lambda>i d. AList.update (ts_theme_id i) i d) xs d) k = Some s \<Longrightarrow>
      s \<in> set xs \<and> ts_theme_id s = k \<or> map_of d k = Some s" for xs d
    by (induction xs arbitrary: d) (fastforce simp: dict_simps split: if_splits)+
  from this [of "filter (\<lambda>i. ts_theme_id i \<noteq> []) items" "[]"] show "map_of (by_theme items) k = Some s \<Longrightarrow> ?thesis"
    by (auto simp: by_theme_def)
qed

lemma apply_lookup:
  assumes "map_of (tsm_previous (fst (theme_machine_apply m cohorts now))) k = Some s"
  obtains c where "s = apply_one (tsm_config m) (map_of (tsm_previous m) k) c (whole_second now)"
    "c \<in> set cohorts" "co_theme_id c = k"
proof -
  from assms have "s \<in> set (snd (theme_machine_apply m cohorts now)) \<and> ts_theme_id s = k"
    using by_theme_lookup by (fastforce simp: theme_machine_apply_def Let_def)
  then obtain c where "s = apply_one (tsm_config m) (map_of (tsm_previous m) (co_theme_id c)) c (whole_second now)"
    and "ts_theme_id s = k" "c \<in> set cohorts" by (auto simp: theme_machine_apply_def Let_def)
  moreover from this have "co_theme_id c = k" using apply_one_decides(5) by (metis prod_cases3)
  ultimately show thesis using that [of c] by simp
qed

lemma run_single_theme:
  assumes "co_theme_id c \<noteq> []"
  shows "map_of (tsm_previous (run_cycles m (cycles @ [([c], now)]))) (co_theme_id c) =
     Some (apply_one (tsm_config m) (map_of (tsm_previous (run_cycles m cycles)) (co_theme_id c)) c (whole_second now))"
proof -
  have "ts_theme_id (apply_one cfg p c t) = co_theme_id c" for cfg p t using apply_one_decides(5) by (metis prod_cases3)
  with assms show ?thesis by (simp add: run_cycles_snoc theme_machine_apply_def by_theme_def)
qed

lemma since_only_fading:
  "map_of (tsm_previous (run_cycles (fresh_machine cfg) cycles)) k = Some s \<Longrightarrow> ts_theme_state s \<noteq> FADING_THEME \<Longrightarrow>
   ts_fading_since s = Blank"
proof (induction cycles rule: rev_induct)
  case (snoc x xs)
  obtain cohorts now where x: "x = (cohorts, now)" by (cases x)
  with snoc.prems apply_lookup show ?case by (metis run_cycles_snoc not_fading_no_since)
qed (simp add: run_cycles_def fresh_machine_def)

text \<open>The cycles after the first \<open>n\<close> are an unbroken row of confirming ones, which starts at \<open>u\<close>. While a theme
  stays in \<open>FADING\<close>, its start is remembered, and the recovery that is pending counts such a row.\<close>

definition confirming_row :: "theme_state_config \<Rightarrow> string \<Rightarrow> cycle list \<Rightarrow> nat \<Rightarrow> time \<Rightarrow> bool" where
  "confirming_row cfg k cycles n u \<longleftrightarrow>
     n < length cycles \<and> u = whole_second (snd (cycles ! n)) \<and> list_all (confirming cfg k) (drop n cycles)"

lemma confirming_row_snoc:
  assumes "confirming_row cfg k cycles n u" "confirming cfg k x"
  shows "confirming_row cfg k (cycles @ [x]) n u"
  using assms by (simp add: confirming_row_def nth_append)

lemma confirming_row_new: "confirming cfg k (cs, t) \<Longrightarrow> confirming_row cfg k (cycles @ [(cs, t)]) (length cycles) (whole_second t)"
  by (simp add: confirming_row_def)

definition recovery_counted :: "theme_state_config \<Rightarrow> string \<Rightarrow> cycle list \<Rightarrow> theme_snapshot \<Rightarrow> bool" where
  "recovery_counted cfg k cycles s \<longleftrightarrow>
     (case ts_recovery_pending_since s of Blank \<Rightarrow> ts_recovery_cycle_count s = 0
      | At u \<Rightarrow> (\<exists>n. confirming_row cfg k cycles n u \<and> ts_recovery_cycle_count s = int (length cycles - n)))"

lemma recovery_counted_snoc:
  assumes "ts_theme_state p = FADING_THEME" "recovery_counted cfg k mid p"
    and "s = apply_one cfg (Some p) c (whole_second t)" "ts_theme_state s = FADING_THEME" "c \<in> set cs" "co_theme_id c = k"
  shows "recovery_counted cfg k (mid @ [(cs, t)]) s"
proof (cases "ts_recovery_pending_since s = Blank \<and> ts_recovery_cycle_count s = 0")
  case False
  with fading_counts [OF assms(1,3,4)] have rec: "recovering cfg c"
    and pend: "ts_recovery_pending_since s = stamp_or (ts_recovery_pending_since p) (At (whole_second t))"
    and count: "ts_recovery_cycle_count s = (if ts_recovery_pending_since p \<noteq> Blank then ts_recovery_cycle_count p + 1 else 1)"
    by blast+
  have conf: "confirming cfg k (cs, t)" using rec assms(5,6) by (auto simp: confirming_def list_ex_iff)
  show ?thesis
  proof (cases "ts_recovery_pending_since p")
    case Blank
    with pend count confirming_row_new [OF conf, of mid] show ?thesis by (auto simp: recovery_counted_def stamp_or_def)
  next
    case (At u)
    with assms(2) obtain n where n: "confirming_row cfg k mid n u" "ts_recovery_cycle_count p = int (length mid - n)"
      by (auto simp: recovery_counted_def)
    then have "ts_recovery_cycle_count s = int (length (mid @ [(cs, t)]) - n)"
      using count At by (simp add: confirming_row_def of_nat_diff)
    with pend At confirming_row_snoc [OF n(1) conf] show ?thesis by (auto simp: recovery_counted_def stamp_or_def)
  qed
qed (simp add: recovery_counted_def)

lemma fading_run:
  assumes "theme_of (run_cycles (fresh_machine cfg) before) k \<noteq> Some FADING_THEME"
    and "\<forall>n\<le>length mid. theme_of (run_cycles (fresh_machine cfg) (before @ [(cs0, t0)] @ take n mid)) k = Some FADING_THEME"
  shows "\<exists>s. map_of (tsm_previous (run_cycles (fresh_machine cfg) (before @ [(cs0, t0)] @ mid))) k = Some s \<and>
     ts_theme_state s = FADING_THEME \<and> ts_fading_since s = At (whole_second t0) \<and>
     recovery_counted cfg k mid s"
  using assms(2)
proof (induction mid rule: rev_induct)
  case Nil
  let ?m = "run_cycles (fresh_machine cfg) before"
  from Nil obtain s where s: "map_of (tsm_previous (fst (theme_machine_apply ?m cs0 t0))) k = Some s" "ts_theme_state s = FADING_THEME"
    by (auto simp: theme_of_def run_cycles_snoc)
  obtain c where c: "s = apply_one (tsm_config ?m) (map_of (tsm_previous ?m) k) c (whole_second t0)"
    by (rule apply_lookup [OF s(1)])
  have "prev_or (map_of (tsm_previous ?m) k) ts_theme_state WEAK_THEME \<noteq> FADING_THEME"
    using assms(1) by (auto simp: theme_of_def prev_or_def split: option.split)
  moreover have "prev_or (map_of (tsm_previous ?m) k) ts_fading_since Blank = Blank"
    using assms(1) since_only_fading by (auto simp: theme_of_def prev_or_def split: option.split)
  ultimately have "ts_fading_since s = At (whole_second t0)" "ts_recovery_cycle_count s = 0" "ts_recovery_pending_since s = Blank"
    using fading_entered s(2) unfolding c by blast+
  with s show ?case by (simp add: run_cycles_snoc recovery_counted_def)
next
  case (snoc x mid)
  obtain cs t where x: "x = (cs, t)" by (cases x)
  let ?m = "run_cycles (fresh_machine cfg) (before @ [(cs0, t0)] @ mid)"
  have "\<forall>n\<le>length mid. theme_of (run_cycles (fresh_machine cfg) (before @ [(cs0, t0)] @ take n mid)) k = Some FADING_THEME"
  proof (intro allI impI)
    fix n assume "n \<le> length mid"
    with snoc.prems [rule_format, of n]
    show "theme_of (run_cycles (fresh_machine cfg) (before @ [(cs0, t0)] @ take n mid)) k = Some FADING_THEME" by simp
  qed
  from snoc.IH [OF this] obtain p where p: "map_of (tsm_previous ?m) k = Some p" "ts_theme_state p = FADING_THEME"
    "ts_fading_since p = At (whole_second t0)" "recovery_counted cfg k mid p" by blast
  have r: "run_cycles (fresh_machine cfg) (before @ [(cs0, t0)] @ mid @ [x]) = fst (theme_machine_apply ?m cs t)"
    using run_cycles_snoc [of "fresh_machine cfg" "before @ [(cs0, t0)] @ mid" cs t] by (simp add: x)
  have "theme_of (fst (theme_machine_apply ?m cs t)) k = Some FADING_THEME"
    using snoc.prems [rule_format, of "length (mid @ [x])"] unfolding r [symmetric] by simp
  then obtain s where
    s: "map_of (tsm_previous (fst (theme_machine_apply ?m cs t))) k = Some s" "ts_theme_state s = FADING_THEME"
    by (auto simp: theme_of_def)
  obtain c where "s = apply_one (tsm_config ?m) (Some p) c (whole_second t)" and own: "c \<in> set cs" "co_theme_id c = k"
    using apply_lookup [OF s(1)] p(1) by metis
  then have c: "s = apply_one cfg (Some p) c (whole_second t)" by (simp add: fresh_machine_def)
  note since = fading_stays [OF p(2,3) s(2) [unfolded c]]
  have "recovery_counted cfg k (mid @ [x]) s" unfolding x by (rule recovery_counted_snoc [OF p(2,4) c s(2) own])
  with s since show ?case unfolding r by (auto simp: c)
qed

lemma recovered_after_row:
  assumes "recovery_counted cfg k mid p" "c \<in> set cs" "co_theme_id c = k"
    and "tsc_recovery_confirm_cycles cfg \<le> (if ts_recovery_pending_since p \<noteq> Blank then ts_recovery_cycle_count p + 1 else 1) \<and>
      tsc_recovery_confirm_sec cfg \<le> elapsed_sec (stamp_or (ts_recovery_pending_since p) (At (whole_second t))) (whole_second t) \<and>
      recovering cfg c"
  shows "\<exists>n u. confirming_row cfg k (mid @ [(cs, t)]) n u \<and>
      tsc_recovery_confirm_cycles cfg \<le> int (length (mid @ [(cs, t)]) - n) \<and>
      tsc_recovery_confirm_sec cfg \<le> elapsed_sec (At u) (whole_second t)"
proof -
  have conf: "confirming cfg k (cs, t)" using assms(2,3,4) by (auto simp: confirming_def list_ex_iff)
  show ?thesis
  proof (cases "ts_recovery_pending_since p")
    case Blank
    with assms(4) confirming_row_new [OF conf, of mid] show ?thesis by (fastforce simp: stamp_or_def)
  next
    case (At u)
    with assms(1) obtain n where n: "confirming_row cfg k mid n u" "ts_recovery_cycle_count p = int (length mid - n)"
      by (auto simp: recovery_counted_def)
    have "tsc_recovery_confirm_cycles cfg \<le> int (length (mid @ [(cs, t)]) - n)"
      using assms(4) At n by (simp add: confirming_row_def of_nat_diff)
    with assms(4) At confirming_row_snoc [OF n(1) conf] show ?thesis by (auto simp: stamp_or_def)
  qed
qed

text \<open>C15: A theme that starts to fade is held: as long as it is seen in every cycle, it leaves \<open>FADING\<close> only
  when the minimum hold time has passed since the cycle in which it started to fade, and it comes
  back to a leading, spreading, leader-only or emerging state only at the end of an unbroken row of
  confirming cycles (cycles with a cohort of the theme whose own raw state is spreading, leader-only or
  emerging), the last one included, which has at least the configured number of cycles and has lasted
  at least the configured time; a cycle that does not confirm starts the count anew.\<close>
theorem fading_is_held:
  assumes "theme_of (run_cycles (fresh_machine cfg) before) k \<noteq> Some FADING_THEME"
    and "\<forall>n\<le>length mid. theme_of (run_cycles (fresh_machine cfg) (before @ [(cs0, t0)] @ take n mid)) k = Some FADING_THEME"
    and "theme_of (run_cycles (fresh_machine cfg) (before @ [(cs0, t0)] @ mid @ [(cs, t)])) k = Some st" "st \<noteq> FADING_THEME"
  shows "tsc_fading_min_hold_sec cfg \<le> elapsed_sec (At (whole_second t0)) (whole_second t) \<and>
     (st \<in> {LEADING_THEME, SPREADING_THEME, LEADER_ONLY_THEME, EMERGING_THEME} \<longrightarrow>
        (\<exists>n u. confirming_row cfg k (mid @ [(cs, t)]) n u \<and>
           tsc_recovery_confirm_cycles cfg \<le> int (length (mid @ [(cs, t)]) - n) \<and>
           tsc_recovery_confirm_sec cfg \<le> elapsed_sec (At u) (whole_second t)))"
proof -
  let ?m = "run_cycles (fresh_machine cfg) (before @ [(cs0, t0)] @ mid)"
  from fading_run [OF assms(1,2)] obtain p where p: "map_of (tsm_previous ?m) k = Some p" "ts_theme_state p = FADING_THEME"
    "ts_fading_since p = At (whole_second t0)" "recovery_counted cfg k mid p" by blast
  have r: "run_cycles (fresh_machine cfg) (before @ [(cs0, t0)] @ mid @ [(cs, t)]) = fst (theme_machine_apply ?m cs t)"
    using run_cycles_snoc [of "fresh_machine cfg" "before @ [(cs0, t0)] @ mid" cs t] by simp
  have "theme_of (fst (theme_machine_apply ?m cs t)) k = Some st" using assms(3) unfolding r .
  then obtain s where s: "map_of (tsm_previous (fst (theme_machine_apply ?m cs t))) k = Some s" "ts_theme_state s = st"
    by (auto simp: theme_of_def)
  obtain c where "s = apply_one (tsm_config ?m) (Some p) c (whole_second t)" and own: "c \<in> set cs" "co_theme_id c = k"
    using apply_lookup [OF s(1)] p(1) by metis
  then have c: "s = apply_one cfg (Some p) c (whole_second t)" by (simp add: fresh_machine_def)
  have "ts_theme_state (apply_one cfg (Some p) c (whole_second t)) \<noteq> FADING_THEME" using s(2) assms(4) c by simp
  note left = fading_left [OF p(2) this]
  have "\<exists>n u. confirming_row cfg k (mid @ [(cs, t)]) n u \<and>
      tsc_recovery_confirm_cycles cfg \<le> int (length (mid @ [(cs, t)]) - n) \<and>
      tsc_recovery_confirm_sec cfg \<le> elapsed_sec (At u) (whole_second t)"
    if "st \<in> RECOVERY_STATES"
    using recovered_after_row [OF p(4) own] left(2) that s(2) unfolding c by blast
  then show ?thesis using left(1) p(3) by (simp add: stamp_or_def RECOVERY_STATES_def)
qed

definition sample_cohort :: "rat \<Rightarrow> theme_cohort" where
  "sample_cohort return_pct = \<lparr>co_theme_id = ''chips'', co_theme_name = ''chips'', co_member_count = 5,
     co_seed_member_count = 3, co_realtime_valid_count = 3, co_strong_count = 3, co_leader_count = 3,
     co_alive_ratio = 0, co_strong_ratio = 1, co_leader_ratio = 0, co_theme_turnover_krw = 0,
     co_weighted_return_pct = return_pct, co_breadth_ratio = 0, co_leader_concentration = 0,
     co_leader_symbol = ''005930'', co_co_leader_symbols = [], co_coverage_ratio = 1,
     co_universe_member_count = 0, co_tradable_member_count = 0, co_observed_member_count = 0,
     co_target_sample_count = 0, co_fresh_sample_count = 0, co_full_universe_coverage_ratio = 0,
     co_planned_sample_coverage_ratio = 0, co_breadth_trust_level = ''LOW'', co_signal_latest_at = Blank,
     co_signal_age_sec = 0, co_cumulative_strength_score = 0, co_recent_flow_score = 0, co_rotation_score = 0,
     co_signal_persistence_count = 0, co_cohesion_passed = True, co_leader_only_candidate = False,
     co_data_quality_reason = [], co_reason_codes = []\<rparr>"

abbreviation sample_cycle :: "int \<Rightarrow> rat \<Rightarrow> cycle" where
  "sample_cycle sec return_pct \<equiv> ([sample_cohort return_pct], sec * second)"

theorem fading_is_held_witness:
  "tsc_fading_min_hold_sec default_theme_config \<le> elapsed_sec (At (20 * second)) (60 * second) \<and>
   confirming_row (default_theme_config\<lparr>tsc_recovery_confirm_cycles := 1, tsc_recovery_confirm_sec := 0\<rparr>) ''chips''
     [sample_cycle 60 7] 0 (60 * second)"
proof -
  let ?cfg = "default_theme_config\<lparr>tsc_recovery_confirm_cycles := 1, tsc_recovery_confirm_sec := 0\<rparr>"
  let ?run = "run_cycles (fresh_machine ?cfg)"
  define c0 c1 c2 :: cycle where c: "c0 = sample_cycle 0 7" "c1 = sample_cycle 20 (- 1)" "c2 = sample_cycle 60 7"
  define s0 where "s0 = apply_one ?cfg None (sample_cohort 7) 0"
  define s1 where "s1 = apply_one ?cfg (Some s0) (sample_cohort (- 1)) (20 * second)"
  have m: "map_of (tsm_previous (?run [])) ''chips'' = None" by (simp add: run_cycles_def fresh_machine_def)
  have m0: "map_of (tsm_previous (?run [c0])) ''chips'' = Some s0"
    using run_single_theme [where m = "fresh_machine ?cfg" and cycles = "[]" and c = "sample_cohort 7" and now = 0] m
    by (simp add: c s0_def sample_cohort_def fresh_machine_def whole_second_def)
  have m1: "map_of (tsm_previous (?run [c0, c1])) ''chips'' = Some s1"
    using run_single_theme [where m = "fresh_machine ?cfg" and cycles = "[c0]" and c = "sample_cohort (- 1)" and now = "20 * second"] m0
    by (simp add: c s1_def sample_cohort_def fresh_machine_def whole_second_def)
  have m2: "map_of (tsm_previous (?run [c0, c1, c2])) ''chips'' =
      Some (apply_one ?cfg (Some s1) (sample_cohort 7) (60 * second))"
    using run_single_theme [where m = "fresh_machine ?cfg" and cycles = "[c0, c1]" and c = "sample_cohort 7" and now = "60 * second"] m1
    by (simp add: c sample_cohort_def fresh_machine_def whole_second_def)
  have "ts_theme_state s0 = SPREADING_THEME" unfolding s0_def by code_simp
  then have a: "theme_of (?run [c0]) ''chips'' \<noteq> Some FADING_THEME" by (simp add: theme_of_def m0)
  have "ts_theme_state s1 = FADING_THEME" unfolding s1_def s0_def by code_simp
  then have b: "\<forall>n\<le>length []. theme_of (?run ([c0] @ [c1] @ take n [])) ''chips'' = Some FADING_THEME"
    by (simp add: theme_of_def m1)
  have "ts_theme_state (apply_one ?cfg (Some s1) (sample_cohort 7) (60 * second)) = SPREADING_THEME"
    unfolding s1_def s0_def by code_simp
  then have held: "theme_of (?run ([c0] @ [c1] @ [] @ [c2])) ''chips'' = Some SPREADING_THEME"
    by (simp add: theme_of_def m2)
  from fading_is_held [OF a [unfolded c] b [unfolded c] held [unfolded c]] show ?thesis
    by (auto simp: whole_second_def confirming_row_def)
qed

subsection \<open>Leading\<close>

lemma leading_needs_confirmation:
  assumes "apply_dwell_and_recovery cfg (Some p) candidate tm0 now = (LEADING_THEME, tm, reasons)"
    and "candidate \<noteq> LEADING_THEME"
  shows "ts_theme_state p = LEADING_THEME" "elapsed_sec (ts_state_entered_at p) now < tsc_state_min_dwell_sec cfg"
  using assms by (auto simp: apply_dwell_and_recovery_def apply_hold_and_dwell_def Let_def split: if_splits prod.splits)

lemma candidate_leading_confirmed:
  assumes "candidate_state cfg previous c raw score tm now = (LEADING_THEME, reasons)" "raw \<noteq> LEADING_THEME"
  shows "leading_confirmed tm cfg"
  using assms by (auto simp: candidate_state_def fading_or_grace_def split: if_splits option.splits)

lemma state_raw_not_leading: "state_raw cfg previous c now \<noteq> LEADING_THEME"
  by (simp add: state_raw_def raw_state_def)

text \<open>A promotion to \<open>LEADING\<close> does not survive its own bookkeeping when cycles are at least the minimum
  dwell time apart: the promotion restarts the count of persistent cycles at one, so in the next cycle
  the count is two, less than a configured minimum of three or more, and the theme is not \<open>LEADING\<close>
  whatever its cohort is.\<close>
lemma promotion_restarts_persistence:
  assumes "s1 = apply_one cfg previous c1 t1" "ts_theme_state s1 = LEADING_THEME"
    and "map_option ts_theme_state previous \<noteq> Some LEADING_THEME"
    and "3 \<le> tsc_min_leading_persistence_cycles cfg" "tsc_state_min_dwell_sec cfg \<le> (t2 - t1) div second"
  shows "ts_theme_state (apply_one cfg (Some s1) c2 t2) \<noteq> LEADING_THEME"
proof
  assume lead: "ts_theme_state (apply_one cfg (Some s1) c2 t2) = LEADING_THEME"
  obtain st1 tm1 r1 where d1: "decide cfg previous c1 t1 = (st1, tm1, r1)" by (metis prod_cases3)
  have "prev_or previous (\<lambda>p. ts_theme_state p = st1) False = False"
    using assms(1,2,3) apply_one_decides(1) [OF d1] by (cases previous) (auto simp: prev_or_def)
  then have one: "ts_persistence_count s1 = 1" "ts_state_entered_at s1 = At t1"
    using apply_one_decides(6,7) [OF d1] assms(1) by simp_all
  obtain st2 tm2 r2 where d2: "decide cfg (Some s1) c2 t2 = (st2, tm2, r2)" by (metis prod_cases3)
  with lead have st2: "st2 = LEADING_THEME" using apply_one_decides(1) [OF d2] by simp
  from decide_parts [OF d2] obtain candidate reasons1 reasons2 where
    cand: "candidate_state cfg (Some s1) c2 (state_raw cfg (Some s1) c2 t2) (state_score cfg (Some s1) c2 t2)
       (timing (Some s1) c2 (state_raw cfg (Some s1) c2 t2) t2) t2 = (candidate, reasons1)"
    and fin: "apply_dwell_and_recovery cfg (Some s1) candidate (timing (Some s1) c2 (state_raw cfg (Some s1) c2 t2) t2) t2 = (LEADING_THEME, tm2, reasons2)"
    unfolding st2 by metis
  have "candidate \<noteq> LEADING_THEME"
  proof
    assume "candidate = LEADING_THEME"
    with cand have "leading_confirmed (timing (Some s1) c2 (state_raw cfg (Some s1) c2 t2) t2) cfg"
      using candidate_leading_confirmed state_raw_not_leading by blast
    then show False using one assms(4) by (auto simp: leading_confirmed_def timing_def prev_or_def Let_def split: if_splits)
  qed
  from leading_needs_confirmation(2) [OF fin this] one assms(5) show False by (simp add: elapsed_sec_def)
qed

definition spreading_snapshot :: theme_snapshot where
  "spreading_snapshot = \<lparr>ts_theme_id = ''chips'', ts_theme_name = ''chips'', ts_theme_state = SPREADING_THEME,
     ts_previous_state = Some SPREADING_THEME, ts_transition = ''SPREADING_THEME->SPREADING_THEME'', ts_persistence_count = 2,
     ts_theme_score = 75, ts_theme_score_delta = 0, ts_leader_symbol = ''005930'', ts_previous_leader_symbol = ''005930'',
     ts_co_leader_symbols = [], ts_leader_changed = False, ts_leader_stability_count = 2, ts_data_quality_reason = [],
     ts_reason_codes = [], ts_state_entered_at = At 0, ts_state_age_sec = 16, ts_state_cycle_count = 2, ts_strong_since = At 0,
     ts_spreading_since = At 0, ts_leading_since = At 0, ts_fading_since = Blank, ts_recovery_pending_since = Blank,
     ts_recovery_cycle_count = 0, ts_temporal_persistence_sec = 16, ts_leader_stability_sec = 16,
     ts_last_strong_at = At (16 * second), ts_last_fresh_signal_at = At (16 * second), ts_cohort = None\<rparr>"

definition promoted :: theme_snapshot where
  "promoted = apply_one default_theme_config (Some spreading_snapshot) (sample_cohort 7) (32 * second)"

end
