(* ===== verification/Theme_Cohort.thy ===== *)
theory Theme_Cohort
  imports Theme_Signals Theme_State
begin

text \<open>
  The cohort of a theme (\<open>trading/theme_engine/cohort.py\<close>): the counts and ratios that one cycle computes from the
  live signals of the theme's members, which the state machine of \<open>Theme_State\<close> reads. The square sq
  that weighs returns is a parameter (\<open>math.sqrt\<close>, whose results are not rational).
\<close>

record theme_membership =
  tm_theme_id :: string
  tm_stock_code :: string
  tm_stock_name :: string
  tm_membership_score :: rat
  tm_relation_type :: string
  tm_source_count :: int
  tm_active :: bool
  tm_trade_eligible :: bool
  tm_updated_at :: stamp

record theme_cohort_config =
  tcc_alive_threshold_pct :: rat
  tcc_strong_threshold_pct :: rat
  tcc_leader_threshold_pct :: rat
  tcc_min_realtime_valid_ratio :: rat
  tcc_small_theme_member_count :: int
  tcc_min_strong_count :: int
  tcc_min_strong_count_small_theme :: int

definition default_cohort_config :: theme_cohort_config where
  "default_cohort_config = \<lparr>tcc_alive_threshold_pct = - 1, tcc_strong_threshold_pct = 3, tcc_leader_threshold_pct = 5,
     tcc_min_realtime_valid_ratio = 35 / 100, tcc_small_theme_member_count = 4, tcc_min_strong_count = 3,
     tcc_min_strong_count_small_theme = 2\<rparr>"

text \<open>The snapshot that the state machine reads, together with the signals it was built from.\<close>

record theme_cohort_signals = theme_cohort +
  co_signals :: "live_seed_signal list"

definition cohesion_passed :: "int \<Rightarrow> int \<Rightarrow> theme_cohort_config \<Rightarrow> bool" where
  "cohesion_passed member_count strong_count cfg \<longleftrightarrow>
     (if member_count \<le> tcc_small_theme_member_count cfg then tcc_min_strong_count_small_theme cfg \<le> strong_count
      else tcc_min_strong_count cfg \<le> strong_count)"

definition breadth_trust_level :: "rat \<Rightarrow> rat \<Rightarrow> int \<Rightarrow> string" where
  "breadth_trust_level full_coverage planned_coverage seed_count =
     (if seed_count \<le> 0 then ''NO_SAMPLE''
      else if 8 / 10 \<le> planned_coverage \<and> 35 / 100 \<le> full_coverage then ''FULL''
      else if 5 / 10 \<le> planned_coverage then ''SAMPLED''
      else ''LOW_TRUST'')"

definition weighted_return :: "(rat \<Rightarrow> rat) \<Rightarrow> live_seed_signal list \<Rightarrow> rat" where
  "weighted_return sq signals =
     (let weight = (\<lambda>s. sq (max 0 (sg_turnover_krw s) + 1));
          numerator = sum_list (map (\<lambda>s. sg_change_rate_pct s * weight s) signals);
          denominator = sum_list (map weight signals)
      in if 0 < denominator then numerator / denominator else 0)"

text \<open>\<open>max(xs, key=f, default=None)\<close>: the first of the greatest.\<close>

definition first_max :: "('a \<Rightarrow> 'b :: linorder) \<Rightarrow> 'a list \<Rightarrow> 'a option" where
  "first_max f xs = (case descending f xs of [] \<Rightarrow> None | x # _ \<Rightarrow> Some x)"

definition count_of :: "'a list \<Rightarrow> int" where
  "count_of xs = int (length xs)"

definition max_of :: "'b :: linorder \<Rightarrow> 'b list \<Rightarrow> 'b" where
  "max_of dflt xs = (case xs of [] \<Rightarrow> dflt | x # xs \<Rightarrow> fold max xs x)"

definition member_signals ::
  "(string \<times> live_seed_signal) list \<Rightarrow> theme_membership list \<Rightarrow> live_seed_signal list" where
  "member_signals signal_by_code active_members =
     concat (map (\<lambda>m. case map_of signal_by_code (normalize_stock_code (tm_stock_code m)) of
                        Some s \<Rightarrow> [s] | None \<Rightarrow> []) active_members)"

definition wait_reason :: "theme_cohort_config \<Rightarrow> int \<Rightarrow> int \<Rightarrow> int \<Rightarrow> bool \<Rightarrow> string" where
  "wait_reason cfg member_count seed_count realtime_count any_backfill =
     (if member_count \<le> 0 then ''THEME_MEMBERSHIP_MISSING''
      else if seed_count \<le> 0 then ''NO_THEME_SIGNALS''
      else if realtime_count = 0 \<and> any_backfill then ''TR_BACKFILL_ONLY''
      else if of_int realtime_count / of_int member_count < tcc_min_realtime_valid_ratio cfg then ''REALTIME_COVERAGE_LOW''
      else [])"

definition build_theme ::
  "(rat \<Rightarrow> rat) \<Rightarrow> theme_cohort_config \<Rightarrow> string \<Rightarrow> string \<Rightarrow> theme_membership list \<Rightarrow> (string \<times> live_seed_signal) list \<Rightarrow>
   theme_cohort_signals" where
  "build_theme sq cfg theme_id theme_name memberships signal_by_code =
     (let active_members = filter tm_active memberships;
          signals = member_signals signal_by_code active_members;
          member_count = count_of active_members;
          seed_count = count_of signals;
          realtime_valid = filter sg_realtime_valid signals;
          tradable = filter tradable_realtime signals;
          fresh = filter (\<lambda>s. tradable_realtime s \<and> sg_freshness_status s \<in> {[], ''FRESH'', ''DEGRADED''}) signals;
          alive = filter (\<lambda>s. tcc_alive_threshold_pct cfg \<le> sg_change_rate_pct s) tradable;
          strong = filter (\<lambda>s. tcc_strong_threshold_pct cfg \<le> sg_change_rate_pct s) tradable;
          leaders = filter (\<lambda>s. tcc_leader_threshold_pct cfg \<le> sg_change_rate_pct s) tradable;
          denominator = (if member_count = 0 then 1 else member_count);
          target_sample_count =
            (if max seed_count (min member_count seed_count) \<noteq> 0 then max seed_count (min member_count seed_count)
             else member_count);
          full_coverage = of_int seed_count / of_int denominator;
          planned_coverage = of_int (count_of fresh) / of_int (if target_sample_count = 0 then 1 else target_sample_count);
          turnover = sum_list (map (\<lambda>s. max 0 (sg_turnover_krw s)) signals);
          leader = first_max (\<lambda>s. sg_turnover_krw s + sg_change_rate_pct s * 100000000) tradable;
          co_leaders = take 2 (map sg_code (filter (\<lambda>s. case leader of None \<Rightarrow> True | Some l \<Rightarrow> sg_code s \<noteq> sg_code l)
            (descending (\<lambda>s. (sg_turnover_krw s, sg_change_rate_pct s)) leaders)));
          cohesion = cohesion_passed member_count (count_of strong) cfg;
          reason = wait_reason cfg member_count seed_count (count_of realtime_valid) (list_ex sg_tr_backfill_valid signals);
          reasons = (if reason = [] then [] else [reason]) @
            (if list_ex (\<lambda>s. sg_freshness_status s = ''STALE'') signals then [''SIGNAL_STALE''] else []) @
            (if count_of leaders = 1 \<and> \<not> cohesion then [''SINGLE_LEADER_ONLY_CANDIDATE''] else [])
      in \<lparr>co_theme_id = theme_id, co_theme_name = str_or theme_name theme_id, co_member_count = member_count,
          co_seed_member_count = seed_count, co_realtime_valid_count = count_of realtime_valid,
          co_strong_count = count_of strong, co_leader_count = count_of leaders,
          co_alive_ratio = ratio 4 (count_of alive) member_count,
          co_strong_ratio = ratio 4 (count_of strong) member_count,
          co_leader_ratio = ratio 4 (count_of leaders) member_count,
          co_theme_turnover_krw = round_digits 4 turnover,
          co_weighted_return_pct = round_digits 4 (weighted_return sq signals),
          co_breadth_ratio = ratio 4 (count_of (filter (\<lambda>s. 0 < sg_change_rate_pct s) tradable)) member_count,
          co_leader_concentration =
            round_digits 4 (if 0 < turnover then max_of 0 (map sg_turnover_krw signals) / turnover else 0),
          co_leader_symbol = (case leader of Some l \<Rightarrow> sg_code l | None \<Rightarrow> []),
          co_co_leader_symbols = co_leaders, co_coverage_ratio = ratio 4 seed_count member_count,
          co_universe_member_count = member_count, co_tradable_member_count = count_of tradable,
          co_observed_member_count = seed_count, co_target_sample_count = target_sample_count,
          co_fresh_sample_count = count_of fresh, co_full_universe_coverage_ratio = round_digits 4 full_coverage,
          co_planned_sample_coverage_ratio = round_digits 4 planned_coverage,
          co_breadth_trust_level = breadth_trust_level full_coverage planned_coverage seed_count,
          co_signal_latest_at = max_of Blank
            (map (\<lambda>s. stamp_or (stamp_or (sg_last_seen_at s) (sg_tick_at s)) (sg_observed_at s)) signals),
          co_signal_age_sec = max_of 0 (map sg_tick_age_sec signals),
          co_cumulative_strength_score = round_digits 4
            (min 100 (of_int (count_of strong) * 18 + of_int (count_of leaders) * 12 + max 0 (weighted_return sq signals) * 4)),
          co_recent_flow_score = 0, co_rotation_score = 0,
          co_signal_persistence_count = max_of 0 (map (\<lambda>s. int (length (sg_source_types s))) signals),
          co_cohesion_passed = cohesion, co_leader_only_candidate = (1 \<le> count_of leaders \<and> \<not> cohesion),
          co_data_quality_reason = reason, co_reason_codes = uniq reasons, co_signals = signals\<rparr>)"

definition unmapped_snapshot :: "live_seed_signal list \<Rightarrow> theme_cohort_signals" where
  "unmapped_snapshot signals =
     \<lparr>co_theme_id = [], co_theme_name = ''UNMAPPED_SEED'', co_member_count = 0, co_seed_member_count = count_of signals,
      co_realtime_valid_count = count_of (filter sg_realtime_valid signals), co_strong_count = 0, co_leader_count = 0,
      co_alive_ratio = 0, co_strong_ratio = 0, co_leader_ratio = 0,
      co_theme_turnover_krw = sum_list (map (\<lambda>s. max 0 (sg_turnover_krw s)) signals), co_weighted_return_pct = 0,
      co_breadth_ratio = 0, co_leader_concentration = 0, co_leader_symbol = [], co_co_leader_symbols = [],
      co_coverage_ratio = 0, co_universe_member_count = 0, co_tradable_member_count = 0,
      co_observed_member_count = count_of signals, co_target_sample_count = count_of signals,
      co_fresh_sample_count = count_of (filter tradable_realtime signals), co_full_universe_coverage_ratio = 0,
      co_planned_sample_coverage_ratio = 0, co_breadth_trust_level = ''UNMAPPED'', co_signal_latest_at = Blank,
      co_signal_age_sec = 0, co_cumulative_strength_score = 0, co_recent_flow_score = 0, co_rotation_score = 0,
      co_signal_persistence_count = 0, co_cohesion_passed = False, co_leader_only_candidate = False,
      co_data_quality_reason = ''UNMAPPED_SEED'', co_reason_codes = [''UNMAPPED_SEED''], co_signals = signals\<rparr>"

definition build_cohorts ::
  "(rat \<Rightarrow> rat) \<Rightarrow> theme_cohort_config \<Rightarrow> (string \<times> string \<times> theme_membership list) list \<Rightarrow> live_seed_signal list \<Rightarrow>
   theme_cohort_signals list" where
  "build_cohorts sq cfg theme_inputs seed_signals =
     (let signal_by_code = dict_of sg_code (filter (\<lambda>s. sg_code s \<noteq> []) (map normalized seed_signals));
          snapshots = map (\<lambda>(theme_id, theme_name, ms). build_theme sq cfg theme_id theme_name ms signal_by_code) theme_inputs;
          mapped = concat (map (\<lambda>(_, _, ms). map (\<lambda>m. normalize_stock_code (tm_stock_code m)) ms) theme_inputs);
          unmapped = map snd (filter (\<lambda>(code, s). code \<notin> set mapped) signal_by_code)
      in descending (\<lambda>c. (co_cohesion_passed c, co_theme_turnover_krw c, co_strong_count c))
           (snapshots @ (if unmapped = [] then [] else [unmapped_snapshot unmapped])))"

section \<open>Bounds\<close>

lemma count_of_filter: "0 \<le> count_of (filter P xs)" "count_of (filter P xs) \<le> count_of xs"
  by (simp_all add: count_of_def)

lemma count_of_filter_mono: "(\<And>x. x \<in> set xs \<Longrightarrow> P x \<Longrightarrow> Q x) \<Longrightarrow> count_of (filter P xs) \<le> count_of (filter Q xs)"
  by (induction xs) (auto simp: count_of_def)

lemma member_signals_count: "count_of (member_signals d ms) \<le> count_of ms" "0 \<le> count_of (member_signals d ms)"
  by (induction ms) (auto simp: member_signals_def count_of_def split: option.split)

lemma fold_max: "fold max xs (x :: 'a :: linorder) = Max (set (x # xs))"
  by (simp add: Max.set_eq_fold [symmetric])

lemma fold_max_mem: "fold max xs (x :: 'a :: linorder) \<in> set (x # xs)"
  unfolding fold_max by (rule Max_in) simp_all

lemma fold_max_ge: "y \<in> set (x # xs) \<Longrightarrow> (y :: 'a :: linorder) \<le> fold max xs x"
  unfolding fold_max by (rule Max_ge) simp_all

lemma concentration_bounds:
  assumes "0 < sum_list (map (\<lambda>s. max 0 (f s)) xs)"
  shows "0 \<le> max_of 0 (map f xs) / sum_list (map (\<lambda>s. max 0 (f s)) xs)"
    "max_of 0 (map f xs) / sum_list (map (\<lambda>s. max 0 (f s)) xs) \<le> (1 :: rat)"
proof -
  obtain x ys where xs: "xs = x # ys" using assms by (cases xs) auto
  have "max_of 0 (map f xs) \<in> set (map f xs)" using fold_max_mem [of "map f ys" "f x"] by (simp add: max_of_def xs)
  then obtain y where y: "y \<in> set xs" "max_of 0 (map f xs) = f y" by auto
  have "max 0 (f y) \<le> sum_list (map (\<lambda>s. max 0 (f s)) xs)"
    by (rule member_le_sum_list) (use y in auto)
  then have "f y \<le> sum_list (map (\<lambda>s. max 0 (f s)) xs)" by simp
  with assms show "max_of 0 (map f xs) / sum_list (map (\<lambda>s. max 0 (f s)) xs) \<le> 1" by (simp add: y(2))
  have ge: "f z \<le> fold max (map f ys) (f x)" if "z \<in> set xs" for z
    using fold_max_ge [of "f z" "f x" "map f ys"] that by (auto simp: xs)
  have "\<exists>z\<in>set xs. 0 < f z"
  proof (rule ccontr)
    assume "\<not> ?thesis"
    then have "map (\<lambda>s. max 0 (f s)) xs = map (\<lambda>s. 0) xs" by (auto simp: max_def)
    with assms show False by simp
  qed
  then have "0 \<le> max_of 0 (map f xs)" using ge by (force simp: max_of_def xs)
  with assms show "0 \<le> max_of 0 (map f xs) / sum_list (map (\<lambda>s. max 0 (f s)) xs)" by simp
qed

lemma coverage_bounds:
  assumes "0 \<le> n" "n \<le> m"
  shows "0 \<le> round_digits k (of_int n / of_int (if m = 0 then 1 else m))" "round_digits k (of_int n / of_int (if m = 0 then 1 else m)) \<le> 1"
  using ratio_bounds [of n m k] assms by (simp_all add: ratio_def)

text \<open>C21: The counts of a cohort are nested (leaders among the strong, among the tradable, among the realtime
  signals, among all signals, at most one per active member) and every ratio it reports, the leader
  concentration included, lies between zero and one, and its strength score between zero and a hundred, whatever
  the signals and memberships are, when the threshold of a strong stock is not above the one of a leader (their
  defaults are 3 and 5).\<close>
theorem cohort_bounds:
  assumes "tcc_strong_threshold_pct cfg \<le> tcc_leader_threshold_pct cfg"
    and c: "c = build_theme sq cfg theme_id theme_name memberships signal_by_code"
  shows "0 \<le> co_leader_count c \<and> co_leader_count c \<le> co_strong_count c \<and> co_strong_count c \<le> co_tradable_member_count c \<and>
    co_tradable_member_count c \<le> co_realtime_valid_count c \<and> co_realtime_valid_count c \<le> co_seed_member_count c \<and>
    co_seed_member_count c \<le> co_member_count c \<and>
    {co_alive_ratio c, co_strong_ratio c, co_leader_ratio c, co_breadth_ratio c, co_coverage_ratio c,
      co_full_universe_coverage_ratio c, co_planned_sample_coverage_ratio c, co_leader_concentration c} \<subseteq> {0..1} \<and>
    0 \<le> co_cumulative_strength_score c \<and> co_cumulative_strength_score c \<le> 100"
proof -
  define signals where "signals = member_signals signal_by_code (filter tm_active memberships)"
  let ?n = "count_of (filter tm_active memberships)" and ?tr = "filter tradable_realtime signals"
  have seed: "0 \<le> count_of signals" "count_of signals \<le> ?n" by (simp_all add: signals_def member_signals_count)
  have tr: "count_of ?tr \<le> count_of (filter sg_realtime_valid signals)"
    by (rule count_of_filter_mono) (auto dest: tradableD)
  have nested: "0 \<le> count_of (filter P ?tr) \<and> count_of (filter P ?tr) \<le> ?n" for P
    using count_of_filter(1) [of P ?tr] count_of_filter(2) [of P ?tr] count_of_filter(2) [of tradable_realtime signals] seed by linarith
  have lead: "count_of (filter (\<lambda>s. tcc_leader_threshold_pct cfg \<le> sg_change_rate_pct s) ?tr) \<le>
      count_of (filter (\<lambda>s. tcc_strong_threshold_pct cfg \<le> sg_change_rate_pct s) ?tr)"
    by (rule count_of_filter_mono) (use assms(1) in auto)
  let ?fresh = "filter (\<lambda>s. tradable_realtime s \<and> sg_freshness_status s \<in> {[], ''FRESH'', ''DEGRADED''}) signals"
  let ?target = "if max (count_of signals) (min ?n (count_of signals)) \<noteq> 0 then max (count_of signals) (min ?n (count_of signals)) else ?n"
  have fresh: "0 \<le> count_of ?fresh" "count_of ?fresh \<le> ?target"
    using count_of_filter [where P = "\<lambda>s. tradable_realtime s \<and> sg_freshness_status s \<in> {[], ''FRESH'', ''DEGRADED''}" and xs = signals] seed by auto
  note c = c build_theme_def Let_def signals_def [symmetric]
  have "0 \<le> co_leader_count c \<and> co_leader_count c \<le> co_strong_count c \<and> co_strong_count c \<le> co_tradable_member_count c \<and>
    co_tradable_member_count c \<le> co_realtime_valid_count c \<and> co_realtime_valid_count c \<le> co_seed_member_count c \<and>
    co_seed_member_count c \<le> co_member_count c"
    using lead tr seed count_of_filter(2) [of sg_realtime_valid signals]
      count_of_filter(1) [of "\<lambda>s. tcc_leader_threshold_pct cfg \<le> sg_change_rate_pct s" ?tr]
      count_of_filter(2) [of "\<lambda>s. tcc_strong_threshold_pct cfg \<le> sg_change_rate_pct s" ?tr]
    unfolding c theme_cohort.select_convs by simp
  moreover have "{co_alive_ratio c, co_strong_ratio c, co_leader_ratio c, co_breadth_ratio c, co_coverage_ratio c} \<subseteq> {0..1}"
  proof -
    have in_range: "ratio 4 (count_of (filter P ?tr)) ?n \<in> {0..1}" for P using ratio_bounds [of _ ?n 4] nested [of P] by simp
    have "co_alive_ratio c \<in> {0..1}" "co_strong_ratio c \<in> {0..1}" "co_leader_ratio c \<in> {0..1}" "co_breadth_ratio c \<in> {0..1}"
      unfolding c theme_cohort.select_convs by (rule in_range)+
    moreover have "co_coverage_ratio c \<in> {0..1}"
      unfolding c theme_cohort.select_convs using ratio_bounds [of _ ?n 4] seed by simp
    ultimately show ?thesis by simp
  qed
  moreover have "{co_full_universe_coverage_ratio c, co_planned_sample_coverage_ratio c} \<subseteq> {0..1}"
  proof -
    have "co_full_universe_coverage_ratio c = round_digits 4 (of_int (count_of signals) / of_int (if ?n = 0 then 1 else ?n))"
      "co_planned_sample_coverage_ratio c = round_digits 4 (of_int (count_of ?fresh) / of_int (if ?target = 0 then 1 else ?target))"
      by (simp_all only: c theme_cohort.select_convs)
    with coverage_bounds [OF seed, of 4] coverage_bounds [OF fresh, of 4] show ?thesis by (simp only: insert_subset) simp
  qed
  moreover have "co_leader_concentration c \<in> {0..1}"
    unfolding c theme_cohort.select_convs
    using concentration_bounds [of sg_turnover_krw signals] round_bounds(1) [of 0 _ 4] round_bounds(2) [of _ 1 4] round_int [of 4 0]
    by simp
  moreover have "0 \<le> co_cumulative_strength_score c \<and> co_cumulative_strength_score c \<le> 100"
  proof -
    obtain x where "co_cumulative_strength_score c = round_digits 4 (min 100 x)" "0 \<le> x"
    proof
      show "co_cumulative_strength_score c = round_digits 4 (min 100
          (of_int (count_of (filter (\<lambda>s. tcc_strong_threshold_pct cfg \<le> sg_change_rate_pct s) ?tr)) * 18 +
           of_int (count_of (filter (\<lambda>s. tcc_leader_threshold_pct cfg \<le> sg_change_rate_pct s) ?tr)) * 12 +
           max 0 (weighted_return sq signals) * 4))"
        by (simp only: c theme_cohort.select_convs)
    qed (simp add: count_of_filter(1))
    then show ?thesis
      using round_bounds(1) [of 0 "min 100 x" 4] round_bounds(2) [of "min 100 x" 100 4] by simp
  qed
  ultimately show ?thesis by simp
qed

definition sample_members :: "theme_membership list" where
  "sample_members = map (\<lambda>code. \<lparr>tm_theme_id = ''t'', tm_stock_code = code, tm_stock_name = [], tm_membership_score = 1,
     tm_relation_type = ''unknown'', tm_source_count = 1, tm_active = True, tm_trade_eligible = True, tm_updated_at = Blank\<rparr>)
     [''005930'', ''000660'', ''035720'']"

definition sample_signals :: "live_seed_signal list" where
  "sample_signals =
     [(default_signal ''005930'')\<lparr>sg_realtime_valid := True, sg_change_rate_pct := 6, sg_turnover_krw := 900, sg_freshness_status := ''FRESH''\<rparr>,
      (default_signal ''000660'')\<lparr>sg_realtime_valid := True, sg_change_rate_pct := 4, sg_turnover_krw := 100, sg_freshness_status := ''FRESH''\<rparr>,
      (default_signal ''035720'')\<lparr>sg_realtime_valid := True, sg_change_rate_pct := 7, sg_overheated := True, sg_freshness_status := ''FRESH''\<rparr>]"

lemma sample_member_signals: "member_signals (dict_of sg_code sample_signals) (filter tm_active sample_members) = sample_signals"
proof -
  have "normalize_stock_code ''005930'' = ''005930''" "normalize_stock_code ''000660'' = ''000660''"
    "normalize_stock_code ''035720'' = ''035720''" by code_simp+
  then show ?thesis
    by (simp add: sample_members_def sample_signals_def default_signal_def member_signals_def dict_of_def)
qed

lemma sample_tradable: "filter tradable_realtime sample_signals = take 2 sample_signals"
  by (simp add: sample_signals_def default_signal_def tradable_realtime_def normalized_def Let_def)

lemma cohort_bounds_witness:
  "let c = build_theme (\<lambda>x. x) default_cohort_config ''t'' [] sample_members (dict_of sg_code sample_signals)
   in co_leader_count c = 1 \<and> co_strong_count c = 2 \<and> co_seed_member_count c = 3 \<and> co_leader_concentration c \<in> {0..1}"
proof -
  let ?c = "build_theme (\<lambda>x. x) default_cohort_config ''t'' [] sample_members (dict_of sg_code sample_signals)"
  have "tcc_strong_threshold_pct default_cohort_config \<le> tcc_leader_threshold_pct default_cohort_config"
    by (simp add: default_cohort_config_def)
  from cohort_bounds [OF this refl [of ?c]] have "co_leader_concentration ?c \<in> {0..1}" by blast
  moreover have "co_leader_count ?c = 1 \<and> co_strong_count ?c = 2 \<and> co_seed_member_count ?c = 3"
    unfolding build_theme_def Let_def theme_cohort.select_convs sample_member_signals sample_tradable
    by (simp add: sample_signals_def default_signal_def default_cohort_config_def count_of_def)
  ultimately show ?thesis by (simp add: Let_def)
qed

end
