(* ===== verification/Theme_Expansion.thy ===== *)
theory Theme_Expansion
  imports Theme_Cohort
begin

text \<open>
  The roles of the stocks of a theme (\<open>trading/theme_engine/roles.py\<close>) and the choice of the stocks that get a focused
  realtime subscription (\<open>trading/theme_engine/expansion.py\<close>).
\<close>

section \<open>Roles\<close>

datatype raw_stock_role = LEADER | CO_LEADER | FOLLOWER | LATE_LAGGARD | OVERHEATED | WEAK_MEMBER

datatype trade_stock_role =
    LEADER_CONFIRMED | CO_LEADER_CONFIRMED | LEADER_CANDIDATE_DATA_WAIT | FOLLOWER_ALLOWED
  | FOLLOWER_BLOCKED_LEADER_ONLY | LATE_LAGGARD_BLOCKED | OVERHEATED_BLOCKED | WEAK_MEMBER_BLOCKED

record stock_role_decision =
  srd_code :: string
  srd_name :: string
  srd_theme_id :: string
  srd_theme_name :: string
  srd_raw_role :: raw_stock_role
  srd_trade_role :: trade_stock_role
  srd_role_score :: rat
  srd_source_rank :: int
  srd_reason_codes :: "string list"
  srd_signal :: "live_seed_signal option"
  srd_theme_state :: "theme_snapshot option"

definition role_score :: "live_seed_signal \<Rightarrow> rat" where
  "role_score s =
     min 40 (sg_turnover_krw s / 500000000) + min 20 (sg_turnover_speed s / 100000000) +
     min 20 (max 0 (sg_change_rate_pct s) * 2) + min 20 (max 0 (sg_execution_strength s - 80) / 5)"

definition raw_role :: "live_seed_signal \<Rightarrow> string \<Rightarrow> string set \<Rightarrow> rat \<Rightarrow> int \<Rightarrow> raw_stock_role" where
  "raw_role s leader_code co_leaders top_return rank =
     (if sg_vi_active s \<or> sg_upper_limit_near s \<or> sg_overheated s then OVERHEATED
      else if sg_code s = leader_code then LEADER
      else if sg_code s \<in> co_leaders \<or> rank \<le> 3 \<and> 5 \<le> sg_change_rate_pct s then CO_LEADER
      else if sg_realtime_valid s \<and> 5 \<le> top_return \<and> sg_change_rate_pct s < 3 \<and> 4 \<le> top_return - sg_change_rate_pct s
        then LATE_LAGGARD
      else if 3 \<le> sg_change_rate_pct s \<and> sg_realtime_valid s then FOLLOWER
      else WEAK_MEMBER)"

definition trade_role :: "raw_stock_role \<Rightarrow> theme_core_state \<Rightarrow> string \<Rightarrow> trade_stock_role \<times> string list" where
  "trade_role raw state market_phase =
     (if raw = OVERHEATED then (OVERHEATED_BLOCKED, [''OVERHEATED_BLOCKED''])
      else if raw = LATE_LAGGARD then (LATE_LAGGARD_BLOCKED, [''LATE_LAGGARD_BLOCKED''])
      else if raw = WEAK_MEMBER then (WEAK_MEMBER_BLOCKED, [''WEAK_MEMBER_BLOCKED''])
      else if state = DATA_WAIT then (LEADER_CANDIDATE_DATA_WAIT, [''THEME_DATA_WAIT''])
      else if raw = LEADER then
        (if state \<in> {SPREADING_THEME, LEADING_THEME, LEADER_ONLY_THEME} then (LEADER_CONFIRMED, [''LEADER_CONFIRMED''])
         else (LEADER_CANDIDATE_DATA_WAIT, [''LEADER_WAIT_THEME_CONFIRMATION'']))
      else if raw = CO_LEADER then
        (if state \<in> {SPREADING_THEME, LEADING_THEME, LEADER_ONLY_THEME} then (CO_LEADER_CONFIRMED, [''CO_LEADER_CONFIRMED''])
         else (LEADER_CANDIDATE_DATA_WAIT, [''CO_LEADER_WAIT_THEME_CONFIRMATION'']))
      else if raw = FOLLOWER then
        (if state = LEADER_ONLY_THEME then (FOLLOWER_BLOCKED_LEADER_ONLY, [''LEADER_ONLY_THEME_FOLLOWER_BLOCKED''])
         else if state \<in> {SPREADING_THEME, LEADING_THEME} \<and> upper market_phase = ''EXPANSION'' then
           (FOLLOWER_ALLOWED, [''FOLLOWER_ALLOWED_EXPANSION''])
         else (WEAK_MEMBER_BLOCKED, [''FOLLOWER_NOT_ALLOWED'']))
      else (WEAK_MEMBER_BLOCKED, [''ROLE_NOT_ALLOWED'']))"

definition market_phase_for_signal :: "live_seed_signal \<Rightarrow> string \<Rightarrow> (string \<times> string) list \<Rightarrow> string" where
  "market_phase_for_signal s dflt by_side =
     (let side = upper (sg_market s); get = (\<lambda>k. case map_of by_side k of Some v \<Rightarrow> v | None \<Rightarrow> []) in
      if by_side = [] then upper (str_or dflt ''SELECTIVE'')
      else if map_of by_side side \<noteq> None then upper (str_or (str_or (get side) dflt) ''SELECTIVE'')
      else upper (str_or (str_or (str_or (get ''UNKNOWN'') (get ''GLOBAL'')) dflt) ''SELECTIVE''))"

definition role_decision ::
  "theme_snapshot \<Rightarrow> string \<Rightarrow> rat \<Rightarrow> string \<Rightarrow> (string \<times> string) list \<Rightarrow> int \<Rightarrow> live_seed_signal \<Rightarrow> stock_role_decision" where
  "role_decision st leader_code top_return market_phase by_side i s =
     (let raw = raw_role s leader_code (set (ts_co_leader_symbols st)) top_return i;
          (role, reasons) = trade_role raw (ts_theme_state st) (market_phase_for_signal s market_phase by_side)
      in \<lparr>srd_code = sg_code s, srd_name = sg_name s, srd_theme_id = ts_theme_id st, srd_theme_name = ts_theme_name st,
          srd_raw_role = raw, srd_trade_role = role, srd_role_score = round_digits 4 (role_score s), srd_source_rank = i,
          srd_reason_codes = uniq (sg_reason_codes s @ reasons), srd_signal = Some s, srd_theme_state = Some st\<rparr>)"

text \<open>The signals are the ones passed in, or those of the theme's cohort.\<close>

definition classify :: "theme_snapshot \<Rightarrow> live_seed_signal list \<Rightarrow> string \<Rightarrow> (string \<times> string) list \<Rightarrow> stock_role_decision list" where
  "classify st signals market_phase by_side =
     (let ranked = descending role_score signals;
          leader_code = str_or (ts_leader_symbol st) (case ranked of s # _ \<Rightarrow> sg_code s | [] \<Rightarrow> []);
          top_return = max_of 0 (map sg_change_rate_pct ranked)
      in map (\<lambda>(i, s). role_decision st leader_code top_return market_phase by_side i s)
           (zip (map int [1..<Suc (length ranked)]) ranked))"

section \<open>The expansion plan\<close>

record expansion_config =
  ec_max_per_theme :: int
  ec_max_total :: int
  ec_source :: string
  ec_subscription_ttl_sec :: int
  ec_minimum_hold_sec :: int

definition default_expansion_config :: expansion_config where
  "default_expansion_config = \<lparr>ec_max_per_theme = 6, ec_max_total = 30, ec_source = ''reboot_v2_theme_expansion'',
     ec_subscription_ttl_sec = 90, ec_minimum_hold_sec = 30\<rparr>"

record expansion_target =
  et_code :: string
  et_name :: string
  et_theme_id :: string
  et_theme_name :: string
  et_priority :: int
  et_source :: string
  et_trade_role :: trade_stock_role
  et_raw_role :: raw_stock_role
  et_protected :: bool
  et_subscription_ttl_sec :: int
  et_minimum_hold_sec :: int
  et_selected_at :: stamp
  et_reason_codes :: "string list"

record expansion_plan =
  ep_targets :: "expansion_target list"
  ep_excluded :: "expansion_target list"
  ep_focused_expansion_count :: int
  ep_source :: string
  ep_reason_codes :: "string list"

definition plan_priority :: "stock_role_decision \<Rightarrow> int \<times> rat" where
  "plan_priority d =
     ((case srd_trade_role d of LEADER_CONFIRMED \<Rightarrow> 1 | CO_LEADER_CONFIRMED \<Rightarrow> 2 | FOLLOWER_ALLOWED \<Rightarrow> 3 | _ \<Rightarrow> 9) +
      (if srd_raw_role d \<in> {LEADER, CO_LEADER} then 0 else 1), - srd_role_score d)"

definition target_of :: "expansion_config \<Rightarrow> stock_role_decision \<Rightarrow> expansion_target" where
  "target_of cfg d =
     \<lparr>et_code = srd_code d, et_name = srd_name d, et_theme_id = srd_theme_id d, et_theme_name = srd_theme_name d,
      et_priority = fst (plan_priority d), et_source = ec_source cfg, et_trade_role = srd_trade_role d,
      et_raw_role = srd_raw_role d, et_protected = False,
      et_subscription_ttl_sec = max 1 (ec_subscription_ttl_sec cfg), et_minimum_hold_sec = max 0 (ec_minimum_hold_sec cfg),
      et_selected_at = Blank, et_reason_codes = srd_reason_codes d\<rparr>"

definition with_reason :: "expansion_target \<Rightarrow> string \<Rightarrow> expansion_target" where
  "with_reason t reason = t\<lparr>et_reason_codes := uniq (et_reason_codes t @ [reason])\<rparr>"

definition market_is_kosdaq_risk :: "stock_role_decision \<Rightarrow> string \<Rightarrow> bool" where
  "market_is_kosdaq_risk d kosdaq_risk_state \<longleftrightarrow>
     upper kosdaq_risk_state \<in> {''WEAK'', ''RISK_OFF''} \<and>
     (case srd_signal d of Some s \<Rightarrow> upper (sg_market s) = ''KOSDAQ'' | None \<Rightarrow> False)"

definition eligible_states :: "theme_core_state set" where
  "eligible_states = {EMERGING_THEME, SPREADING_THEME, LEADING_THEME, LEADER_ONLY_THEME}"

definition blocked_roles :: "trade_stock_role set" where
  "blocked_roles = {OVERHEATED_BLOCKED, LATE_LAGGARD_BLOCKED, WEAK_MEMBER_BLOCKED, FOLLOWER_BLOCKED_LEADER_ONLY}"

text \<open>Why a decision is left out, given what was selected before it.\<close>

definition exclusion ::
  "expansion_config \<Rightarrow> (string \<times> theme_snapshot) list \<Rightarrow> string \<Rightarrow> expansion_target list \<Rightarrow> (string \<times> int) list \<Rightarrow>
   stock_role_decision \<Rightarrow> string option" where
  "exclusion cfg states kosdaq selected counts d =
     (if (case map_of states (srd_theme_id d) of None \<Rightarrow> True | Some st \<Rightarrow> ts_theme_state st \<notin> eligible_states)
      then Some ''THEME_NOT_EXPANSION_ELIGIBLE''
      else if market_is_kosdaq_risk d kosdaq then Some ''KOSDAQ_RISK_EXPANSION_REDUCED''
      else if srd_trade_role d \<in> blocked_roles then Some ''TRADE_ROLE_BLOCKED''
      else if ec_max_per_theme cfg \<le> (case map_of counts (srd_theme_id d) of Some n \<Rightarrow> n | None \<Rightarrow> 0)
      then Some ''THEME_EXPANSION_LIMIT''
      else if ec_max_total cfg \<le> int (length selected) then Some ''TOTAL_EXPANSION_LIMIT''
      else None)"

fun plan_loop ::
  "expansion_config \<Rightarrow> (string \<times> theme_snapshot) list \<Rightarrow> string \<Rightarrow> stock_role_decision list \<Rightarrow> expansion_target list \<Rightarrow>
   expansion_target list \<Rightarrow> (string \<times> int) list \<Rightarrow> string list \<Rightarrow> expansion_target list \<times> expansion_target list \<times> string list" where
  "plan_loop cfg states kosdaq [] selected excluded counts reasons = (selected, excluded, reasons)"
| "plan_loop cfg states kosdaq (d # ds) selected excluded counts reasons =
     (case exclusion cfg states kosdaq selected counts d of
        Some reason \<Rightarrow>
          plan_loop cfg states kosdaq ds selected (excluded @ [with_reason (target_of cfg d) reason]) counts
            (if reason = ''KOSDAQ_RISK_EXPANSION_REDUCED'' then reasons @ [reason] else reasons)
      | None \<Rightarrow>
          plan_loop cfg states kosdaq ds (selected @ [target_of cfg d]) excluded
            (AList.update (srd_theme_id d) ((case map_of counts (srd_theme_id d) of Some n \<Rightarrow> n | None \<Rightarrow> 0) + 1) counts) reasons)"

definition plan_expansion ::
  "expansion_config \<Rightarrow> theme_snapshot list \<Rightarrow> stock_role_decision list \<Rightarrow> string \<Rightarrow> expansion_plan" where
  "plan_expansion cfg theme_states role_decisions kosdaq =
     (let (selected, excluded, reasons) =
            plan_loop cfg (dict_of ts_theme_id theme_states) kosdaq (sort_key plan_priority role_decisions) [] [] [] []
      in \<lparr>ep_targets = selected, ep_excluded = excluded, ep_focused_expansion_count = int (length selected),
          ep_source = ec_source cfg, ep_reason_codes = uniq reasons\<rparr>)"

section \<open>The plan keeps its limits\<close>

definition theme_count :: "string \<Rightarrow> expansion_target list \<Rightarrow> int" where
  "theme_count theme ts = int (length (filter (\<lambda>t. et_theme_id t = theme) ts))"

text \<open>A decision that nothing but a limit can keep out.\<close>

definition expandable :: "(string \<times> theme_snapshot) list \<Rightarrow> string \<Rightarrow> stock_role_decision \<Rightarrow> bool" where
  "expandable states kosdaq d \<longleftrightarrow>
     (\<exists>st. map_of states (srd_theme_id d) = Some st \<and> ts_theme_state st \<in> eligible_states) \<and>
     \<not> market_is_kosdaq_risk d kosdaq \<and> srd_trade_role d \<notin> blocked_roles"

lemma exclusion_None:
  "exclusion cfg states kosdaq selected counts d = None \<longleftrightarrow> expandable states kosdaq d \<and>
     (case map_of counts (srd_theme_id d) of Some n \<Rightarrow> n | None \<Rightarrow> 0) < ec_max_per_theme cfg \<and>
     int (length selected) < ec_max_total cfg"
  by (auto simp: exclusion_def expandable_def split: option.split)

lemma target_of_simps [simp]:
  "et_code (target_of cfg d) = srd_code d" "et_theme_id (target_of cfg d) = srd_theme_id d"
  "et_trade_role (target_of cfg d) = srd_trade_role d" "et_code (with_reason t r) = et_code t"
  by (simp_all add: target_of_def with_reason_def)

definition plan_ok ::
  "expansion_config \<Rightarrow> (string \<times> theme_snapshot) list \<Rightarrow> string \<Rightarrow> stock_role_decision list \<Rightarrow> expansion_target list \<Rightarrow>
   expansion_target list \<Rightarrow> bool" where
  "plan_ok cfg states kosdaq ds selected excluded \<longleftrightarrow>
     int (length selected) \<le> max 0 (ec_max_total cfg) \<and>
     (\<forall>theme. theme_count theme selected \<le> max 0 (ec_max_per_theme cfg)) \<and>
     (\<forall>t\<in>set selected. \<exists>d\<in>set ds. t = target_of cfg d \<and> expandable states kosdaq d) \<and>
     mset (map et_code selected) + mset (map et_code excluded) = mset (map srd_code ds)"

lemma plan_loop_ok:
  assumes "plan_ok cfg states kosdaq done selected excluded"
    "\<forall>theme. (case map_of counts theme of Some n \<Rightarrow> n | None \<Rightarrow> 0) = theme_count theme selected"
    "plan_loop cfg states kosdaq ds selected excluded counts reasons = (selected', excluded', reasons')"
  shows "plan_ok cfg states kosdaq (done @ ds) selected' excluded'"
  using assms
proof (induction ds arbitrary: \<open>done\<close> selected excluded counts reasons)
  case (Cons d ds)
  show ?case
  proof (cases "exclusion cfg states kosdaq selected counts d")
    case None
    then have d: "expandable states kosdaq d" "theme_count (srd_theme_id d) selected < ec_max_per_theme cfg"
      "int (length selected) < ec_max_total cfg" using Cons.prems(2) by (simp_all add: exclusion_None)
    let ?counts = "AList.update (srd_theme_id d) ((case map_of counts (srd_theme_id d) of Some n \<Rightarrow> n | None \<Rightarrow> 0) + 1) counts"
    have ok: "plan_ok cfg states kosdaq (done @ [d]) (selected @ [target_of cfg d]) excluded"
      using Cons.prems(1) d by (auto simp: plan_ok_def theme_count_def)
    have "\<forall>theme. (case map_of ?counts theme of Some n \<Rightarrow> n | None \<Rightarrow> 0) = theme_count theme (selected @ [target_of cfg d])"
      using Cons.prems(2) by (simp add: dict_simps theme_count_def)
    from Cons.IH [OF ok this] Cons.prems(3) None show ?thesis by simp
  next
    case (Some reason)
    have "plan_ok cfg states kosdaq (done @ [d]) selected (excluded @ [with_reason (target_of cfg d) reason])"
      using Cons.prems(1) by (auto simp: plan_ok_def)
    from Cons.IH [OF this Cons.prems(2)] Cons.prems(3) Some show ?thesis by simp
  qed
qed simp

lemma plan_expansion_ok:
  "plan_ok cfg (dict_of ts_theme_id theme_states) kosdaq (sort_key plan_priority ds)
     (ep_targets (plan_expansion cfg theme_states ds kosdaq)) (ep_excluded (plan_expansion cfg theme_states ds kosdaq))"
proof -
  obtain sel ex rs where run:
    "plan_loop cfg (dict_of ts_theme_id theme_states) kosdaq (sort_key plan_priority ds) [] [] [] [] = (sel, ex, rs)"
    by (metis prod_cases3)
  have "plan_ok cfg (dict_of ts_theme_id theme_states) kosdaq [] [] []" by (simp add: plan_ok_def theme_count_def)
  from plan_loop_ok [OF this _ run] show ?thesis by (simp add: plan_expansion_def run theme_count_def)
qed

text \<open>C22: The expansion plan accounts for every decision once, selected or excluded, and selects at most
  the configured number of stocks in total and per theme, only from themes in an eligible state and never with one of the four
  blocked roles.\<close>
theorem expansion_plan_within_limits:
  "let p = plan_expansion cfg theme_states ds kosdaq in
   int (length (ep_targets p)) \<le> max 0 (ec_max_total cfg) \<and>
   (\<forall>theme. int (length (filter (\<lambda>t. et_theme_id t = theme) (ep_targets p))) \<le> max 0 (ec_max_per_theme cfg)) \<and>
   (\<forall>t\<in>set (ep_targets p).
      et_trade_role t \<notin> {OVERHEATED_BLOCKED, LATE_LAGGARD_BLOCKED, WEAK_MEMBER_BLOCKED, FOLLOWER_BLOCKED_LEADER_ONLY} \<and>
      (\<exists>st\<in>set theme_states. ts_theme_id st = et_theme_id t \<and>
         ts_theme_state st \<in> {EMERGING_THEME, SPREADING_THEME, LEADING_THEME, LEADER_ONLY_THEME})) \<and>
   mset (map et_code (ep_targets p)) + mset (map et_code (ep_excluded p)) = mset (map srd_code ds)"
proof -
  note ok = plan_expansion_ok [of cfg theme_states kosdaq ds]
  have sel: "et_trade_role t \<notin> blocked_roles \<and>
      (\<exists>st\<in>set theme_states. ts_theme_id st = et_theme_id t \<and> ts_theme_state st \<in> eligible_states)"
    if t: "t \<in> set (ep_targets (plan_expansion cfg theme_states ds kosdaq))" for t
  proof -
    obtain d where d: "t = target_of cfg d" "expandable (dict_of ts_theme_id theme_states) kosdaq d"
      using ok t by (auto simp: plan_ok_def)
    then obtain st where "map_of (dict_of ts_theme_id theme_states) (srd_theme_id d) = Some st" "ts_theme_state st \<in> eligible_states"
      by (auto simp: expandable_def)
    with d lookup_dict_of [of ts_theme_id theme_states "srd_theme_id d" st] show ?thesis by (auto simp: expandable_def)
  qed
  have "mset (map srd_code (sort_key plan_priority ds)) = mset (map srd_code ds)" by (simp add: mset_map)
  with ok sel show ?thesis unfolding Let_def plan_ok_def theme_count_def blocked_roles_def eligible_states_def by metis
qed

definition leading_theme :: "string \<Rightarrow> theme_snapshot" where
  "leading_theme theme = (apply_one default_theme_config None (sample_cohort 7) 0)\<lparr>ts_theme_id := theme, ts_theme_state := LEADING_THEME\<rparr>"

definition sample_decision :: "string \<Rightarrow> trade_stock_role \<Rightarrow> stock_role_decision" where
  "sample_decision code role = \<lparr>srd_code = code, srd_name = [], srd_theme_id = ''t'', srd_theme_name = [], srd_raw_role = LEADER,
     srd_trade_role = role, srd_role_score = 1, srd_source_rank = 1, srd_reason_codes = [], srd_signal = None, srd_theme_state = None\<rparr>"

lemma expansion_plan_within_limits_witness:
  "let p = plan_expansion (default_expansion_config\<lparr>ec_max_per_theme := 1\<rparr>) [leading_theme ''t'']
     [sample_decision ''a'' OVERHEATED_BLOCKED, sample_decision ''b'' FOLLOWER_ALLOWED, sample_decision ''c'' LEADER_CONFIRMED] []
   in length (ep_targets p) = 1 \<and> (\<forall>t\<in>set (ep_targets p). et_trade_role t \<noteq> OVERHEATED_BLOCKED)"
proof -
  let ?p = "plan_expansion (default_expansion_config\<lparr>ec_max_per_theme := 1\<rparr>) [leading_theme ''t'']
     [sample_decision ''a'' OVERHEATED_BLOCKED, sample_decision ''b'' FOLLOWER_ALLOWED, sample_decision ''c'' LEADER_CONFIRMED] []"
  have "length (ep_targets ?p) = 1"
    by (simp add: plan_expansion_def sample_decision_def leading_theme_def dict_of_def exclusion_def eligible_states_def
        market_is_kosdaq_risk_def blocked_roles_def default_expansion_config_def plan_priority_def Let_def)
  with expansion_plan_within_limits [of "default_expansion_config\<lparr>ec_max_per_theme := 1\<rparr>" "[leading_theme ''t'']"
      "[sample_decision ''a'' OVERHEATED_BLOCKED, sample_decision ''b'' FOLLOWER_ALLOWED, sample_decision ''c'' LEADER_CONFIRMED]" "[]"]
  show ?thesis unfolding Let_def by blast
qed

section \<open>From signals to targets\<close>

lemma role_decision_simps:
  "srd_signal (role_decision st l t phase sides i s) = Some s" "srd_code (role_decision st l t phase sides i s) = sg_code s"
  "srd_theme_id (role_decision st l t phase sides i s) = ts_theme_id st"
  "srd_trade_role (role_decision st l t phase sides i s) = fst (trade_role (srd_raw_role (role_decision st l t phase sides i s))
     (ts_theme_state st) (market_phase_for_signal s phase sides))"
  "srd_raw_role (role_decision st l t phase sides i s) = OVERHEATED \<longleftrightarrow> sg_vi_active s \<or> sg_upper_limit_near s \<or> sg_overheated s"
  by (simp_all add: role_decision_def Let_def case_prod_beta raw_role_def)

lemma classify_signal:
  assumes "d \<in> set (classify st signals phase sides)"
  obtains s where "s \<in> set signals" "srd_signal d = Some s" "srd_code d = sg_code s" "srd_theme_id d = ts_theme_id st"
    "srd_trade_role d = fst (trade_role (srd_raw_role d) (ts_theme_state st) (market_phase_for_signal s phase sides))"
    "srd_raw_role d = OVERHEATED \<longleftrightarrow> sg_vi_active s \<or> sg_upper_limit_near s \<or> sg_overheated s"
proof -
  let ?ranked = "descending role_score signals"
  from assms obtain i s l t where mem: "(i, s) \<in> set (zip (map int [1..<Suc (length ?ranked)]) ?ranked)"
    and d: "d = role_decision st l t phase sides i s"
    unfolding classify_def Let_def by auto
  from mem have "s \<in> set signals" using set_zip_rightD by fastforce
  then show thesis by (rule that) (simp_all only: d role_decision_simps)
qed

text \<open>From signals to subscriptions: a stock whose signal shows a volatility interruption, a near price limit
  or overheating is never chosen for a focused subscription, and a follower is chosen only in a spreading or leading theme
  while its market side is in EXPANSION.\<close>
lemma overheated_never_expanded:
  assumes "t \<in> set (ep_targets (plan_expansion cfg theme_states
             (concat (map (\<lambda>(st, signals). classify st signals phase sides) inputs)) kosdaq))"
  shows "\<exists>(st, signals)\<in>set inputs. \<exists>s\<in>set signals. sg_code s = et_code t \<and> ts_theme_id st = et_theme_id t \<and>
    \<not> sg_vi_active s \<and> \<not> sg_upper_limit_near s \<and> \<not> sg_overheated s \<and>
    (et_trade_role t = FOLLOWER_ALLOWED \<longrightarrow> ts_theme_state st \<in> {SPREADING_THEME, LEADING_THEME} \<and>
       upper (market_phase_for_signal s phase sides) = ''EXPANSION'')"
proof -
  let ?ds = "concat (map (\<lambda>(st, signals). classify st signals phase sides) inputs)"
  have "\<forall>t\<in>set (ep_targets (plan_expansion cfg theme_states ?ds kosdaq)). \<exists>d\<in>set (sort_key plan_priority ?ds).
      t = target_of cfg d \<and> expandable (dict_of ts_theme_id theme_states) kosdaq d"
    using plan_expansion_ok [of cfg theme_states kosdaq ?ds] unfolding plan_ok_def by blast
  with assms obtain d where d: "d \<in> set ?ds" "t = target_of cfg d" "expandable (dict_of ts_theme_id theme_states) kosdaq d"
    unfolding set_sort by blast
  from d(1) obtain st signals where in_st: "(st, signals) \<in> set inputs" "d \<in> set (classify st signals phase sides)" by auto
  from in_st(2) obtain s where s: "s \<in> set signals" "srd_code d = sg_code s" "srd_theme_id d = ts_theme_id st"
    "srd_trade_role d = fst (trade_role (srd_raw_role d) (ts_theme_state st) (market_phase_for_signal s phase sides))"
    "srd_raw_role d = OVERHEATED \<longleftrightarrow> sg_vi_active s \<or> sg_upper_limit_near s \<or> sg_overheated s"
    by (rule classify_signal)
  have "srd_trade_role d \<notin> blocked_roles" using d(3) by (simp add: expandable_def)
  then have "srd_raw_role d \<noteq> OVERHEATED" using s(4) by (auto simp: trade_role_def blocked_roles_def)
  moreover have "srd_trade_role d = FOLLOWER_ALLOWED \<longrightarrow> ts_theme_state st \<in> {SPREADING_THEME, LEADING_THEME} \<and>
      upper (market_phase_for_signal s phase sides) = ''EXPANSION''"
    using s(4) by (auto simp: trade_role_def split: if_splits)
  ultimately show ?thesis using s in_st(1) d(2) by (intro bexI [of _ "(st, signals)"]) auto
qed

end
