(* ===== verification/Expansion_Lease.thy ===== *)
theory Expansion_Lease
  imports Theme_Expansion "HOL-Library.List_Lexorder" "HOL-Library.Char_ord"
begin

text \<open>
  The leases of the focused subscriptions (\<open>trading/theme_engine/expansion_lease.py\<close>): a target keeps its lease
  active; without one the lease is held for a minimum time, then pending removal for a cooldown, then expired, and
  its code may be unsubscribed when no lease of the code is alive. The status is the text that the code stores.
\<close>

section \<open>Leases\<close>

record expansion_lease =
  le_code :: string
  le_theme_id :: string
  le_source :: string
  le_subscription_generation :: int
  le_selected_at :: stamp
  le_selected_tick_baseline_at :: stamp
  le_first_active_at :: stamp
  le_first_fresh_tick_at :: stamp
  le_first_post_subscription_tick_at :: stamp
  le_first_tick_source_event_id :: string
  le_minimum_hold_until :: stamp
  le_expires_at :: stamp
  le_last_eligible_at :: stamp
  le_removal_pending_at :: stamp
  le_cooldown_until :: stamp
  le_status :: string
  le_reason_codes :: "string list"
  le_target :: "expansion_target option"

type_synonym leases = "((string \<times> string) \<times> expansion_lease) list"

record lease_snapshot =
  ls_calculated_at :: stamp
  ls_leases :: "expansion_lease list"
  ls_active_lease_count :: int
  ls_holding_count :: int
  ls_protected_count :: int
  ls_pending_removal_count :: int
  ls_expired_count :: int
  ls_churn_count :: int
  ls_first_tick_wait_count :: int
  ls_lease_by_theme :: "(string \<times> int) list"
  ls_top_removal_reasons :: "(string \<times> int) list"

record lease_manager =
  lm_source :: string
  lm_cooldown_sec :: int
  lm_leases :: leases
  lm_last_snapshot :: "lease_snapshot option"

definition new_lease_manager :: "string \<Rightarrow> int \<Rightarrow> lease_manager" where
  "new_lease_manager source cooldown_sec =
     \<lparr>lm_source = source, lm_cooldown_sec = max 0 cooldown_sec, lm_leases = [], lm_last_snapshot = None\<rparr>"

text \<open>\<open>[str(x) for x in list(v or [])]\<close>\<close>

fun text_list :: "pyval \<Rightarrow> py_error + string list" where
  "text_list (PList xs) = Inr (map py_str xs)"
| "text_list (PStr s) = Inr (map (\<lambda>c. [c]) s)"
| "text_list (PTime t) = Inr (map (\<lambda>c. [c]) (iso_text t))"
| "text_list (PDict d) = Inr (map fst d)"
| "text_list v = (if truthy v then Inl TypeError else Inr [])"

definition lease_from_mapping :: "pydict \<Rightarrow> py_error + expansion_lease" where
  "lease_from_mapping raw =
     bindE (py_int (py_or (dget raw ''subscription_generation'') (PInt 1))) (\<lambda>generation.
     bindE (text_list (dget raw ''reason_codes'')) (\<lambda>reasons.
       Inr \<lparr>le_code = normalize_code (py_str (py_or (py_or (dget raw ''code'') (dget raw ''stock_code'')) (PStr []))),
         le_theme_id = text_or raw ''theme_id'' [], le_source = text_or raw ''source'' ''reboot_v2_theme_expansion'',
         le_subscription_generation = generation, le_selected_at = val_stamp (dget raw ''selected_at''),
         le_selected_tick_baseline_at =
           stamp_or (val_stamp (dget raw ''selected_tick_baseline_at'')) (val_stamp (dget raw ''selected_at'')),
         le_first_active_at = val_stamp (dget raw ''first_active_at''),
         le_first_fresh_tick_at = val_stamp (dget raw ''first_fresh_tick_at''),
         le_first_post_subscription_tick_at =
           stamp_or (val_stamp (dget raw ''first_post_subscription_tick_at'')) (val_stamp (dget raw ''first_fresh_tick_at'')),
         le_first_tick_source_event_id = text_or raw ''first_tick_source_event_id'' [],
         le_minimum_hold_until = val_stamp (dget raw ''minimum_hold_until''), le_expires_at = val_stamp (dget raw ''expires_at''),
         le_last_eligible_at = val_stamp (dget raw ''last_eligible_at''),
         le_removal_pending_at = val_stamp (dget raw ''removal_pending_at''),
         le_cooldown_until = val_stamp (dget raw ''cooldown_until''), le_status = text_or raw ''status'' ''ACTIVE'',
         le_reason_codes = filter (\<lambda>s. s \<noteq> []) reasons, le_target = None\<rparr>))"

definition restore_leases :: "lease_manager \<Rightarrow> expansion_lease list \<Rightarrow> lease_manager" where
  "restore_leases m leases = m\<lparr>lm_leases :=
     fold (\<lambda>l d. let code = normalize_code (le_code l) in
            if code = [] then d else AList.update (code, le_theme_id l) (l\<lparr>le_code := code\<rparr>) d) leases []\<rparr>"

definition new_lease :: "expansion_target \<Rightarrow> time \<Rightarrow> expansion_lease" where
  "new_lease t now =
     (let ttl = max 1 (if et_subscription_ttl_sec t = 0 then 90 else et_subscription_ttl_sec t) in
      \<lparr>le_code = normalize_code (et_code t), le_theme_id = et_theme_id t,
       le_source = str_or (et_source t) ''reboot_v2_theme_expansion'', le_subscription_generation = 1,
       le_selected_at = At now, le_selected_tick_baseline_at = At now, le_first_active_at = Blank,
       le_first_fresh_tick_at = Blank, le_first_post_subscription_tick_at = Blank, le_first_tick_source_event_id = [],
       le_minimum_hold_until = At (now + max 0 (et_minimum_hold_sec t) * second), le_expires_at = At (now + ttl * second),
       le_last_eligible_at = At now, le_removal_pending_at = Blank, le_cooldown_until = Blank, le_status = ''ACTIVE'',
       le_reason_codes = dedupe (et_reason_codes t @ [''EXPANSION_LEASE_CREATED'']), le_target = Some t\<rparr>)"

definition refresh_lease :: "expansion_lease \<Rightarrow> expansion_target \<Rightarrow> time \<Rightarrow> expansion_lease" where
  "refresh_lease l t now =
     (let ttl = max 1 (if et_subscription_ttl_sec t = 0 then 90 else et_subscription_ttl_sec t) in
      l\<lparr>le_source := str_or (et_source t) (le_source l),
        le_selected_tick_baseline_at := stamp_or (le_selected_tick_baseline_at l) (le_selected_at l),
        le_last_eligible_at := At now, le_expires_at := At (now + ttl * second), le_cooldown_until := Blank,
        le_status := ''ACTIVE'', le_removal_pending_at := Blank,
        le_reason_codes := dedupe (le_reason_codes l @ et_reason_codes t @ [''EXPANSION_LEASE_REFRESHED'']),
        le_target := Some t\<rparr>)"

section \<open>Fresh ticks\<close>

record tick_event =
  te_tick_at :: stamp
  te_source_event_id :: string

text \<open>A mapping is read with \<open>tick_at\<close> defaulting to now, any other value is the time of the tick itself.\<close>

definition event_of :: "time \<Rightarrow> pyval \<Rightarrow> tick_event" where
  "event_of now v =
     (case v of
        PDict d \<Rightarrow> \<lparr>te_tick_at = val_stamp (dget_default d ''tick_at'' (PTime now)), te_source_event_id = text_or d ''source_event_id'' []\<rparr>
      | _ \<Rightarrow> \<lparr>te_tick_at = val_stamp v, te_source_event_id = []\<rparr>)"

definition fresh_events :: "(string \<times> pyval) list \<Rightarrow> string list \<Rightarrow> time \<Rightarrow> (string \<times> tick_event) list" where
  "fresh_events events codes now =
     (let d = fold (\<lambda>(raw, v) d. if normalize_code raw = [] then d else AList.update (normalize_code raw) (event_of now v) d) events []
      in fold (\<lambda>raw d. if normalize_code raw = [] \<or> map_of d (normalize_code raw) \<noteq> None then d
                       else AList.update (normalize_code raw) \<lparr>te_tick_at = At now, te_source_event_id = []\<rparr> d) codes d)"

text \<open>A tick counts when it is not older than the latest of the times at which the subscription is known to exist.\<close>

definition post_subscription_fresh_tick :: "expansion_lease \<Rightarrow> tick_event \<Rightarrow> bool" where
  "post_subscription_fresh_tick l e \<longleftrightarrow>
     (let baseline = max (le_selected_tick_baseline_at l) (max (le_first_active_at l) (le_selected_at l))
      in te_tick_at e \<noteq> Blank \<and> baseline \<noteq> Blank \<and> baseline \<le> te_tick_at e)"

section \<open>One reconciliation\<close>

definition is_before :: "time \<Rightarrow> stamp \<Rightarrow> bool" where
  "is_before now s \<longleftrightarrow> (case s of Blank \<Rightarrow> False | At t \<Rightarrow> now < t)"

definition add_reason :: "string \<Rightarrow> expansion_lease \<Rightarrow> expansion_lease" where
  "add_reason reason l = l\<lparr>le_reason_codes := dedupe (le_reason_codes l @ [reason])\<rparr>"

text \<open>The lease of a target: created or refreshed, with the first activity and the first fresh tick noted.\<close>

definition targeted_lease ::
  "string set \<Rightarrow> (string \<times> tick_event) list \<Rightarrow> time \<Rightarrow> string \<Rightarrow> expansion_target \<Rightarrow> expansion_lease option \<Rightarrow> expansion_lease" where
  "targeted_lease active events now code t old =
     (let l = (case old of None \<Rightarrow> new_lease t now | Some l \<Rightarrow> refresh_lease l t now);
          l = (if code \<in> active \<and> le_first_active_at l = Blank then l\<lparr>le_first_active_at := At now\<rparr> else l)
      in case map_of events code of
           Some e \<Rightarrow>
             if le_first_fresh_tick_at l = Blank \<and> post_subscription_fresh_tick l e then
               add_reason ''THEME_EXPANSION_TICK_READY''
                 (l\<lparr>le_first_fresh_tick_at := At now, le_first_post_subscription_tick_at := te_tick_at e,
                    le_first_tick_source_event_id := te_source_event_id e\<rparr>)
             else l
         | None \<Rightarrow> l)"

text \<open>The lease without a target, and whether that counts as churn.\<close>

definition untargeted_lease :: "string set \<Rightarrow> int \<Rightarrow> time \<Rightarrow> string \<Rightarrow> expansion_lease \<Rightarrow> expansion_lease \<times> bool" where
  "untargeted_lease protected cooldown_sec now code l =
     (if code \<in> protected then (add_reason ''PROTECTED_SUBSCRIPTION'' (l\<lparr>le_status := ''PROTECTED''\<rparr>), False)
      else if is_before now (le_minimum_hold_until l) then
        (add_reason ''MINIMUM_HOLD_ACTIVE'' (l\<lparr>le_status := ''HOLDING''\<rparr>), False)
      else if le_status l = ''REMOVAL_PENDING'' then
        (if is_before now (le_cooldown_until l) \<and> is_before now (le_expires_at l) then (l, False)
         else (add_reason ''LEASE_COOLDOWN_EXPIRED'' (l\<lparr>le_status := ''EXPIRED''\<rparr>), True))
      else if \<not> is_before now (le_expires_at l) then
        (add_reason ''LEASE_TTL_EXPIRED'' (l\<lparr>le_status := ''EXPIRED'', le_removal_pending_at := At now\<rparr>), True)
      else
        (add_reason ''THEME_NO_LONGER_ELIGIBLE''
           (l\<lparr>le_status := ''REMOVAL_PENDING'', le_removal_pending_at := At now,
              le_cooldown_until := At (now + cooldown_sec * second)\<rparr>), True))"

definition bump :: "string \<Rightarrow> (string \<times> int) list \<Rightarrow> (string \<times> int) list" where
  "bump k d = AList.update k ((case map_of d k of Some n \<Rightarrow> n | None \<Rightarrow> 0) + 1) d"

definition live_status :: "string \<Rightarrow> bool" where
  "live_status s \<longleftrightarrow> s \<in> {''ACTIVE'', ''HOLDING'', ''PROTECTED''}"

definition status_count :: "expansion_lease list \<Rightarrow> (expansion_lease \<Rightarrow> bool) \<Rightarrow> int" where
  "status_count ls P = int (length (filter P ls))"

definition lease_snapshot_of :: "expansion_lease list \<Rightarrow> time \<Rightarrow> int \<Rightarrow> lease_snapshot" where
  "lease_snapshot_of ls calculated_at churn =
     \<lparr>ls_calculated_at = At calculated_at, ls_leases = ls,
      ls_active_lease_count = status_count ls (\<lambda>l. live_status (le_status l)),
      ls_holding_count = status_count ls (\<lambda>l. le_status l = ''HOLDING''),
      ls_protected_count = status_count ls (\<lambda>l. le_status l = ''PROTECTED''),
      ls_pending_removal_count = status_count ls (\<lambda>l. le_status l = ''REMOVAL_PENDING''),
      ls_expired_count = status_count ls (\<lambda>l. le_status l = ''EXPIRED''), ls_churn_count = churn,
      ls_first_tick_wait_count = status_count ls (\<lambda>l. le_status l = ''ACTIVE'' \<and> le_first_fresh_tick_at l = Blank),
      ls_lease_by_theme = fold (\<lambda>l d. if live_status (le_status l) then bump (le_theme_id l) d else d) ls [],
      ls_top_removal_reasons = take 10 (descending snd
        (fold (\<lambda>l d. if le_status l \<in> {''REMOVAL_PENDING'', ''EXPIRED''} then fold bump (le_reason_codes l) d else d) ls []))\<rparr>"

text \<open>Targets by key; a target without a code is ignored.\<close>

definition targets_by_key :: "expansion_target list \<Rightarrow> ((string \<times> string) \<times> expansion_target) list" where
  "targets_by_key targets =
     dict_of (\<lambda>t. (normalize_code (et_code t), et_theme_id t)) (filter (\<lambda>t. normalize_code (et_code t) \<noteq> []) targets)"

definition target_step ::
  "string set \<Rightarrow> (string \<times> tick_event) list \<Rightarrow> time \<Rightarrow> (string \<times> string) \<times> expansion_target \<Rightarrow> leases \<times> int \<Rightarrow> leases \<times> int" where
  "target_step active events now kt s =
     (case (kt, s) of ((key, t), (ls, churn)) \<Rightarrow>
        (AList.update key (targeted_lease active events now (fst key) t (map_of ls key)) ls,
         if map_of ls key = None then churn + 1 else churn))"

definition reconcile_leases ::
  "lease_manager \<Rightarrow> expansion_target list \<Rightarrow> time \<Rightarrow> string list \<Rightarrow> string list \<Rightarrow> (string \<times> pyval) list \<Rightarrow> string list \<Rightarrow>
   lease_manager \<times> lease_snapshot" where
  "reconcile_leases m targets now active_codes fresh_tick_codes fresh_tick_events protected_codes =
     (let current = whole_second now;
          active = set (filter (\<lambda>c. c \<noteq> []) (map normalize_code active_codes));
          protected = set (filter (\<lambda>c. c \<noteq> []) (map normalize_code protected_codes));
          events = fresh_events fresh_tick_events fresh_tick_codes current;
          by_key = targets_by_key targets;
          (ls, churn) = fold (target_step active events current) by_key (lm_leases m, 0);
          aged = map (\<lambda>(key, l). (key, if map_of by_key key \<noteq> None then (l, False)
                    else untargeted_lease protected (lm_cooldown_sec m) current (fst key) l)) ls;
          ls' = map (\<lambda>(key, l, _). (key, l)) aged;
          churn' = churn + int (length (filter (\<lambda>(_, _, changed). changed) aged));
          snapshot = lease_snapshot_of (map snd ls') current churn'
      in (m\<lparr>lm_leases := ls', lm_last_snapshot := Some snapshot\<rparr>, snapshot))"

section \<open>Reading the leases\<close>

definition retained_status :: "string \<Rightarrow> bool" where
  "retained_status s \<longleftrightarrow> s \<in> {''ACTIVE'', ''HOLDING'', ''PROTECTED'', ''REMOVAL_PENDING''}"

definition removable_codes :: "lease_manager \<Rightarrow> string list" where
  "removable_codes m =
     (let ls = map snd (lm_leases m) in
      sort (filter (\<lambda>code. \<forall>l\<in>set ls. le_code l = code \<longrightarrow> \<not> retained_status (le_status l)) (uniq (map le_code ls))))"

definition active_leases :: "lease_manager \<Rightarrow> expansion_lease list" where
  "active_leases m = filter (\<lambda>l. live_status (le_status l)) (map snd (lm_leases m))"

definition retained_leases :: "lease_manager \<Rightarrow> expansion_lease list" where
  "retained_leases m = filter (\<lambda>l. retained_status (le_status l)) (map snd (lm_leases m))"

section \<open>One reconciliation, lease by lease\<close>

declare map_of_eq_Some_iff [simp del] split_paired_All [simp del]

definition lm_ok :: "lease_manager \<Rightarrow> bool" where
  "lm_ok m \<longleftrightarrow> distinct (map fst (lm_leases m)) \<and>
     (\<forall>key l. map_of (lm_leases m) key = Some l \<longrightarrow> le_code l = fst key \<and> le_theme_id l = snd key \<and> fst key \<noteq> [])"

lemma target_step_Pair:
  "target_step active events now (k, t) (ls, churn) =
     (AList.update k (targeted_lease active events now (fst k) t (map_of ls k)) ls, if map_of ls k = None then churn + 1 else churn)"
  by (simp add: target_step_def)

lemma fold_targets:
  assumes "distinct (map fst kts)" "fold (target_step active events now) kts s = s'"
  shows "(\<forall>key. map_of (fst s') key = (case map_of kts key of
      Some t \<Rightarrow> Some (targeted_lease active events now (fst key) t (map_of (fst s) key)) | None \<Rightarrow> map_of (fst s) key)) \<and>
    (distinct (map fst (fst s)) \<longrightarrow> distinct (map fst (fst s')))"
  using assms
proof (induction kts arbitrary: s)
  case (Cons kt kts)
  obtain k t ls churn where kt: "kt = (k, t)" "s = (ls, churn)" by (cases kt; cases s)
  let ?s = "target_step active events now (k, t) (ls, churn)"
  have d: "distinct (map fst kts)" "map_of kts k = None" and run: "fold (target_step active events now) kts ?s = s'"
    using Cons.prems by (simp_all add: kt map_of_eq_None_iff)
  have s: "fst ?s = AList.update k (targeted_lease active events now (fst k) t (map_of ls k)) ls" by (simp add: target_step_Pair)
  from Cons.IH [OF d(1) run] d(2) show ?case
    unfolding s by (simp add: kt dict_simps distinct_keys_update split: option.split)
qed simp

lemma map_of_map_keys: "map_of (map (\<lambda>(k, v). (k, f k v)) d) k = map_option (f k) (map_of d k)"
  by (induction d) auto

lemma keys_map_keys: "map fst (map (\<lambda>(k, v). (k, f k v)) d) = map fst d"
  by (induction d) auto

text \<open>What becomes of the lease under a key.\<close>

lemma reconcile_lookup:
  assumes "reconcile_leases m targets now active_codes fresh_codes fresh protected_codes = (m', snap)"
  shows "map_of (lm_leases m') key =
      (case map_of (targets_by_key targets) key of
         Some t \<Rightarrow> Some (targeted_lease (set (filter (\<lambda>c. c \<noteq> []) (map normalize_code active_codes)))
                      (fresh_events fresh fresh_codes (whole_second now)) (whole_second now) (fst key) t (map_of (lm_leases m) key))
       | None \<Rightarrow> map_option (\<lambda>l. fst (untargeted_lease (set (filter (\<lambda>c. c \<noteq> []) (map normalize_code protected_codes)))
                      (lm_cooldown_sec m) (whole_second now) (fst key) l)) (map_of (lm_leases m) key))"
    "distinct (map fst (lm_leases m)) \<Longrightarrow> distinct (map fst (lm_leases m'))" "lm_cooldown_sec m' = lm_cooldown_sec m"
proof -
  let ?active = "set (filter (\<lambda>c. c \<noteq> []) (map normalize_code active_codes))"
  let ?protected = "set (filter (\<lambda>c. c \<noteq> []) (map normalize_code protected_codes))"
  let ?by = "targets_by_key targets" and ?now = "whole_second now"
  obtain ls churn where run: "fold (target_step ?active (fresh_events fresh fresh_codes ?now) ?now) ?by (lm_leases m, 0) = (ls, churn)"
    by force
  let ?f = "\<lambda>key l. if map_of ?by key \<noteq> None then l else fst (untargeted_lease ?protected (lm_cooldown_sec m) ?now (fst key) l)"
  have m': "lm_leases m' = map (\<lambda>(key, l). (key, ?f key l)) ls" "lm_cooldown_sec m' = lm_cooldown_sec m"
    using assms unfolding reconcile_leases_def Let_def run by (auto simp: comp_def case_prod_beta)
  have d: "distinct (map fst ?by)" by (simp add: targets_by_key_def)
  show "map_of (lm_leases m') key =
      (case map_of ?by key of
         Some t \<Rightarrow> Some (targeted_lease ?active (fresh_events fresh fresh_codes ?now) ?now (fst key) t (map_of (lm_leases m) key))
       | None \<Rightarrow> map_option (\<lambda>l. fst (untargeted_lease ?protected (lm_cooldown_sec m) ?now (fst key) l)) (map_of (lm_leases m) key))"
    unfolding m' map_of_map_keys conjunct1 [OF fold_targets [OF d run], rule_format, unfolded fst_conv] by (simp split: option.split)
  show "lm_cooldown_sec m' = lm_cooldown_sec m" by (rule m'(2))
  assume "distinct (map fst (lm_leases m))"
  with conjunct2 [OF fold_targets [OF d run], unfolded fst_conv] show "distinct (map fst (lm_leases m'))"
    unfolding m' keys_map_keys by blast
qed

lemma add_reason_simps [simp]:
  "le_status (add_reason r l) = le_status l" "le_code (add_reason r l) = le_code l" "le_theme_id (add_reason r l) = le_theme_id l"
  "le_minimum_hold_until (add_reason r l) = le_minimum_hold_until l" "le_expires_at (add_reason r l) = le_expires_at l"
  "le_cooldown_until (add_reason r l) = le_cooldown_until l"
  by (simp_all add: add_reason_def)

lemma targeted_lease_simps:
  "le_status (targeted_lease active events now code t old) = ''ACTIVE''"
  "le_code (targeted_lease active events now code t old) = (case old of None \<Rightarrow> normalize_code (et_code t) | Some l \<Rightarrow> le_code l)"
  "le_theme_id (targeted_lease active events now code t old) = (case old of None \<Rightarrow> et_theme_id t | Some l \<Rightarrow> le_theme_id l)"
  by (auto simp: targeted_lease_def Let_def new_lease_def refresh_lease_def split: option.split)

lemma untargeted_lease_simps [simp]:
  "le_code (fst (untargeted_lease protected c now code l)) = le_code l"
  "le_theme_id (fst (untargeted_lease protected c now code l)) = le_theme_id l"
  "le_minimum_hold_until (fst (untargeted_lease protected c now code l)) = le_minimum_hold_until l"
  by (simp_all add: untargeted_lease_def)

lemma targets_by_key_lookup:
  "map_of (targets_by_key targets) key = Some t \<Longrightarrow>
     t \<in> set targets \<and> key = (normalize_code (et_code t), et_theme_id t) \<and> fst key \<noteq> []"
  unfolding targets_by_key_def by (drule lookup_dict_of) auto

lemma reconcile_ok:
  assumes "lm_ok m" "reconcile_leases m targets now active_codes fresh_codes fresh protected_codes = (m', snap)"
  shows "lm_ok m'"
  unfolding lm_ok_def
proof (intro conjI allI impI)
  show "distinct (map fst (lm_leases m'))" using assms reconcile_lookup(2) by (simp add: lm_ok_def)
  fix key l assume l: "map_of (lm_leases m') key = Some l"
  have "le_code l = fst key \<and> le_theme_id l = snd key \<and> fst key \<noteq> []"
  proof (cases "map_of (targets_by_key targets) key")
    case (Some t)
    have key: "normalize_code (et_code t) = fst key" "et_theme_id t = snd key" "fst key \<noteq> []"
      using targets_by_key_lookup [OF Some] by (cases key; simp)+
    have "le_code l = (case map_of (lm_leases m) key of None \<Rightarrow> fst key | Some z \<Rightarrow> le_code z)"
      "le_theme_id l = (case map_of (lm_leases m) key of None \<Rightarrow> snd key | Some z \<Rightarrow> le_theme_id z)"
      using l Some by (cases "map_of (lm_leases m) key"; auto simp: reconcile_lookup(1) [OF assms(2)] targeted_lease_simps key(1,2))+
    with assms(1) key(3) show ?thesis
      by (cases "map_of (lm_leases m) key") (simp_all add: lm_ok_def)
  next
    case None
    with l obtain z where z: "map_of (lm_leases m) key = Some z" "le_code l = le_code z" "le_theme_id l = le_theme_id z"
      by (auto simp: reconcile_lookup(1) [OF assms(2)])
    with assms(1) show ?thesis unfolding lm_ok_def by metis
  qed
  then show "le_code l = fst key" "le_theme_id l = snd key" "fst key \<noteq> []" by simp_all
qed

inductive lease_reachable :: "lease_manager \<Rightarrow> bool" where
  start: "lease_reachable (new_lease_manager source cooldown_sec)"
| restored: "lease_reachable m \<Longrightarrow> lease_reachable (restore_leases m leases)"
| reconciled: "lease_reachable m \<Longrightarrow>
    lease_reachable (fst (reconcile_leases m targets now active_codes fresh_codes fresh protected_codes))"

definition leases_ok :: "leases \<Rightarrow> bool" where
  "leases_ok ls \<longleftrightarrow> distinct (map fst ls) \<and>
     (\<forall>key l. map_of ls key = Some l \<longrightarrow> le_code l = fst key \<and> le_theme_id l = snd key \<and> fst key \<noteq> [])"

lemma leases_ok_update:
  assumes "leases_ok ls" "le_code l = fst key" "le_theme_id l = snd key" "fst key \<noteq> []"
  shows "leases_ok (AList.update key l ls)"
  using assms unfolding leases_ok_def by (auto simp: dict_simps distinct_keys_update)

lemma restore_ok: "lm_ok (restore_leases m leases)"
proof -
  let ?step = "\<lambda>l d. let code = normalize_code (le_code l) in
            if code = [] then d else AList.update (code, le_theme_id l) (l\<lparr>le_code := code\<rparr>) d"
  have step: "leases_ok (?step l d)" if "leases_ok d" for l d
  proof (cases "normalize_code (le_code l) = []")
    case False
    then have "leases_ok (AList.update (normalize_code (le_code l), le_theme_id l) (l\<lparr>le_code := normalize_code (le_code l)\<rparr>) d)"
      by (intro leases_ok_update [OF that]) simp_all
    with False show ?thesis unfolding Let_def by (simp only: if_False)
  qed (use that in simp)
  have "leases_ok (fold ?step leases d)" if "leases_ok d" for d
    using that
  proof (induction leases arbitrary: d)
    case (Cons l ls)
    show ?case unfolding fold_simps by (rule Cons.IH [OF step [OF Cons.prems]])
  qed simp
  moreover have "leases_ok []" by (simp add: leases_ok_def)
  ultimately have ok: "leases_ok (fold ?step leases [])" by blast
  have eq: "lm_leases (restore_leases m leases) = fold ?step leases []" by (simp add: restore_leases_def)
  from ok show ?thesis unfolding lm_ok_def eq leases_ok_def .
qed

lemma reachable_ok: "lease_reachable m \<Longrightarrow> lm_ok m"
proof (induction rule: lease_reachable.induct)
  case (reconciled m targets now active_codes fresh_codes fresh protected_codes)
  then show ?case using reconcile_ok [OF _ prod.collapse [symmetric]] by blast
next
  case (start source cooldown_sec)
  show ?case by (simp add: lm_ok_def new_lease_manager_def)
qed (rule restore_ok)

lemma removable_iff:
  "c \<in> set (removable_codes m) \<longleftrightarrow> (\<exists>l\<in>snd ` set (lm_leases m). le_code l = c) \<and>
     (\<forall>l\<in>snd ` set (lm_leases m). le_code l = c \<longrightarrow> \<not> retained_status (le_status l))"
  by (auto simp: removable_codes_def Let_def)

lemma retained_not_removable:
  assumes "lm_ok m" "map_of (lm_leases m) key = Some l" "retained_status (le_status l)"
  shows "fst key \<notin> set (removable_codes m)"
proof -
  have "l \<in> snd ` set (lm_leases m)" using assms(2) map_of_SomeD by force
  moreover have "le_code l = fst key" using assms(1,2) by (simp add: lm_ok_def)
  ultimately show ?thesis using assms(3) unfolding removable_iff by blast
qed

section \<open>What leases promise\<close>

text \<open>C23: A subscription is kept for its minimum hold time: after every reconciliation of a reachable
  manager a lease whose hold time has not passed is ACTIVE, HOLDING or PROTECTED, whether or not its stock is still
  a target, and its code is not reported as removable.\<close>
theorem lease_hold_respected:
  assumes "lease_reachable m"
    and run: "reconcile_leases m targets now active_codes fresh_codes fresh protected_codes = (m', snap)"
    and l: "map_of (lm_leases m') key = Some l" "At (whole_second now) < le_minimum_hold_until l"
  shows "le_status l \<in> {''ACTIVE'', ''HOLDING'', ''PROTECTED''} \<and> fst key \<notin> set (removable_codes m')"
proof -
  have ok: "lm_ok m'" using reconcile_ok [OF reachable_ok [OF assms(1)] run] .
  have "le_status l \<in> {''ACTIVE'', ''HOLDING'', ''PROTECTED''}"
  proof (cases "map_of (targets_by_key targets) key")
    case (Some t)
    with l(1) show ?thesis by (auto simp: reconcile_lookup(1) [OF run] targeted_lease_simps)
  next
    case None
    with l show ?thesis by (auto simp: reconcile_lookup(1) [OF run] untargeted_lease_def is_before_def split: stamp.splits if_splits)
  qed
  with retained_not_removable [OF ok l(1)] show ?thesis by (auto simp: retained_status_def)
qed

text \<open>Once its time to live and its hold time are over, a lease without a target and without protection is expired.\<close>

lemma lease_ends:
  assumes run: "reconcile_leases m targets now active_codes fresh_codes fresh protected_codes = (m', snap)"
    and "map_of (targets_by_key targets) key = None" "fst key \<notin> set (map normalize_code protected_codes)"
    and "map_of (lm_leases m) key = Some l" "\<not> is_before (whole_second now) (le_minimum_hold_until l)"
      "\<not> is_before (whole_second now) (le_expires_at l)"
  shows "\<exists>l'. map_of (lm_leases m') key = Some l' \<and> le_status l' = ''EXPIRED''"
  using assms by (auto simp: reconcile_lookup(1) [OF run] untargeted_lease_def)

text \<open>An expired lease comes back: a lease that expired because its removal cooldown ran out, while its
  time to live still lies ahead, is pending removal again after the next reconciliation although its stock is no target
  (so the code that was reported as removable is retained, and subscribed, again).\<close>
lemma expired_lease_revives:
  assumes "lease_reachable m"
    and run: "reconcile_leases m targets now active_codes fresh_codes fresh protected_codes = (m', snap)"
    and no_target: "\<forall>t\<in>set targets. (normalize_code (et_code t), et_theme_id t) \<noteq> key"
    and "fst key \<notin> set (map normalize_code protected_codes)"
    and l: "map_of (lm_leases m) key = Some l" "le_status l = ''EXPIRED''"
      "le_minimum_hold_until l \<le> At (whole_second now)" "At (whole_second now) < le_expires_at l"
  shows "(\<exists>l'. map_of (lm_leases m') key = Some l' \<and> le_status l' = ''REMOVAL_PENDING'') \<and> fst key \<notin> set (removable_codes m')"
proof -
  have "map_of (targets_by_key targets) key = None"
    using no_target targets_by_key_lookup [of targets key] by (cases "map_of (targets_by_key targets) key") auto
  moreover have "\<not> is_before (whole_second now) (le_minimum_hold_until l)" "is_before (whole_second now) (le_expires_at l)"
    using l(3,4) by (auto simp: is_before_def split: stamp.splits)
  ultimately obtain l' where l': "map_of (lm_leases m') key = Some l'" "le_status l' = ''REMOVAL_PENDING''"
    using assms(4) l(1,2) by (auto simp: reconcile_lookup(1) [OF run] untargeted_lease_def)
  with retained_not_removable [OF reconcile_ok [OF reachable_ok [OF assms(1)] run] l'(1)] show ?thesis
    by (auto simp: retained_status_def)
qed

text \<open>A manager with a cooldown of 60 s and one target: subscribed at 0 s, dropped at 10 s, expired at 70 s and
  pending removal once more at 80 s, within its time to live of 90 s.\<close>

definition sample_key :: "string \<times> string" where
  "sample_key = (''000020'', ''t'')"

definition sample_target :: "int \<Rightarrow> expansion_target" where
  "sample_target hold_sec = \<lparr>et_code = ''000020'', et_name = ''B'', et_theme_id = ''t'', et_theme_name = ''T'', et_priority = 1,
     et_source = ''reboot_v2_theme_expansion'', et_trade_role = LEADER_CONFIRMED, et_raw_role = LEADER, et_protected = False,
     et_subscription_ttl_sec = 90, et_minimum_hold_sec = hold_sec, et_selected_at = At 0, et_reason_codes = []\<rparr>"

definition sample_run :: "(int \<times> expansion_target list) list \<Rightarrow> lease_manager" where
  "sample_run steps = fold (\<lambda>(t, targets) m. fst (reconcile_leases m targets (t * second) [] [] [] [])) steps
     (new_lease_manager ''reboot_v2_theme_expansion'' 60)"

lemma sample_reachable: "lease_reachable (sample_run steps)"
proof -
  have "lease_reachable (fold (\<lambda>(t, targets) m. fst (reconcile_leases m targets (t * second) [] [] [] [])) steps m)"
    if "lease_reachable m" for m
    using that by (induction steps arbitrary: m) (auto intro: lease_reachable.reconciled)
  then show ?thesis unfolding sample_run_def by (blast intro: lease_reachable.start)
qed

lemma sample_steps:
  "map_of (lm_leases (sample_run [])) sample_key = None" "lm_cooldown_sec (sample_run []) = 60"
  "lm_cooldown_sec (sample_run (steps @ [(t, targets)])) = lm_cooldown_sec (sample_run steps)"
  "map_of (lm_leases (sample_run (steps @ [(t, [sample_target h])]))) sample_key =
     Some (targeted_lease {} [] (t * second) ''000020'' (sample_target h) (map_of (lm_leases (sample_run steps)) sample_key))"
  "map_of (lm_leases (sample_run (steps @ [(t, [])]))) sample_key =
     map_option (\<lambda>l. fst (untargeted_lease {} (lm_cooldown_sec (sample_run steps)) (t * second) ''000020'' l))
       (map_of (lm_leases (sample_run steps)) sample_key)"
proof -
  have "normalize_code ''000020'' = ''000020''" by code_simp
  then have by_key: "targets_by_key [sample_target h] = [(sample_key, sample_target h)]" "targets_by_key [] = []" for h
    by (simp_all add: targets_by_key_def dict_of_def sample_target_def sample_key_def)
  have whole: "whole_second (t * second) = t * second" for t by (simp add: whole_second_def)
  have events: "fresh_events [] [] now = []" for now by (simp add: fresh_events_def)
  note lookup = reconcile_lookup [OF prod.collapse [symmetric]]
  show "map_of (lm_leases (sample_run [])) sample_key = None" "lm_cooldown_sec (sample_run []) = 60"
    by (simp_all add: sample_run_def new_lease_manager_def)
  show "lm_cooldown_sec (sample_run (steps @ [(t, targets)])) = lm_cooldown_sec (sample_run steps)"
    by (simp add: sample_run_def lookup(3))
  show "map_of (lm_leases (sample_run (steps @ [(t, [sample_target h])]))) sample_key =
     Some (targeted_lease {} [] (t * second) ''000020'' (sample_target h) (map_of (lm_leases (sample_run steps)) sample_key))"
    by (simp add: sample_run_def lookup(1) by_key whole events) (simp add: sample_key_def)
  show "map_of (lm_leases (sample_run (steps @ [(t, [])]))) sample_key =
     map_option (\<lambda>l. fst (untargeted_lease {} (lm_cooldown_sec (sample_run steps)) (t * second) ''000020'' l))
       (map_of (lm_leases (sample_run steps)) sample_key)"
    by (simp add: sample_run_def lookup(1) by_key whole) (simp add: sample_key_def)
qed

lemma sample_next:
  "reconcile_leases (sample_run steps) targets (t * second) [] [] [] [] =
     (sample_run (steps @ [(t, targets)]), snd (reconcile_leases (sample_run steps) targets (t * second) [] [] [] []))"
  by (simp add: sample_run_def)

lemmas sample_simps = sample_steps(1,2) sample_steps(3-5) [of "[]", simplified] sample_steps(3-5) [of "[a]" for a, simplified]
  sample_steps(3-5) [of "[a, b]" for a b, simplified] sample_steps(3-5) [of "[a, b, c]" for a b c, simplified]

lemma sample_held:
  "\<exists>l. map_of (lm_leases (sample_run [(0, [sample_target 30]), (10, [])])) sample_key = Some l \<and>
     At (whole_second (10 * second)) < le_minimum_hold_until l"
  unfolding sample_simps option.map option.case
  by (simp add: targeted_lease_def new_lease_def sample_target_def untargeted_lease_def is_before_def whole_second_def)

theorem lease_hold_respected_witness:
  "(\<exists>l. map_of (lm_leases (sample_run [(0, [sample_target 30]), (10, [])])) sample_key = Some l \<and>
     le_status l \<in> {''ACTIVE'', ''HOLDING'', ''PROTECTED''}) \<and>
   ''000020'' \<notin> set (removable_codes (sample_run [(0, [sample_target 30]), (10, [])]))"
proof -
  obtain l where "map_of (lm_leases (sample_run [(0, [sample_target 30]), (10, [])])) sample_key = Some l"
    "At (whole_second (10 * second)) < le_minimum_hold_until l"
    using sample_held by blast
  from lease_hold_respected [OF sample_reachable sample_next [of "[(0, [sample_target 30])]", simplified] this] this(1)
  show ?thesis by (simp add: sample_key_def)
qed

lemma sample_expired:
  "\<exists>l. map_of (lm_leases (sample_run [(0, [sample_target 0]), (10, []), (70, [])])) sample_key = Some l \<and>
     le_status l = ''EXPIRED'' \<and> le_minimum_hold_until l = At 0 \<and> le_expires_at l = At (90 * second)"
  unfolding sample_simps option.map option.case
  by (simp add: targeted_lease_def new_lease_def sample_target_def untargeted_lease_def is_before_def)

end
