(* ===== verification/Safety_Guard.thy ===== *)
theory Safety_Guard
  imports Command_Queue Broker_Models
begin

text \<open>
  The last check before an order command is queued by hand (\<open>trading/risk/safety_guard.py\<close>): a fixed list
  of named checks over the order request, the configuration and the gateway's status dictionary. The
  first failed check gives the reason of the refusal.
\<close>

section \<open>Checks and their result\<close>

record safety_check =
  sc_name :: string
  sc_ok :: bool
  sc_reason :: string
  sc_details :: pydict

record safety_check_result =
  scr_ok :: bool
  scr_reason :: string
  scr_checks :: "safety_check list"
  scr_details :: pydict

definition safety_check_to_dict :: "safety_check \<Rightarrow> pydict" where
  "safety_check_to_dict c =
     [(''name'', PStr (sc_name c)), (''ok'', PBool (sc_ok c)), (''reason'', PStr (sc_reason c)),
      (''details'', PDict (sc_details c))]"

definition safety_result_to_dict :: "safety_check_result \<Rightarrow> pydict" where
  "safety_result_to_dict r =
     [(''ok'', PBool (scr_ok r)), (''reason'', PStr (scr_reason r)),
      (''checks'', PList (map (\<lambda>c. PDict (safety_check_to_dict c)) (scr_checks r))),
      (''details'', PDict (scr_details r))]"

record order_safety_config =
  osc_mode :: string
  osc_live_order_enabled :: bool
  osc_max_order_amount :: int
  osc_max_daily_orders_per_code :: int
  osc_allow_zero_price :: bool
  osc_limit_sell_amount :: bool

definition default_safety_config :: order_safety_config where
  "default_safety_config = \<lparr>osc_mode = ''OBSERVE'', osc_live_order_enabled = False, osc_max_order_amount = 3000000,
     osc_max_daily_orders_per_code = 5, osc_allow_zero_price = False, osc_limit_sell_amount = True\<rparr>"

text \<open>A check with the default, empty, details.\<close>

definition plain_check :: "string \<Rightarrow> bool \<Rightarrow> string \<Rightarrow> safety_check" where
  "plain_check name ok reason = \<lparr>sc_name = name, sc_ok = ok, sc_reason = reason, sc_details = []\<rparr>"

section \<open>The dedupe key of an order request\<close>

text \<open>
  The command that is built only for its key takes its identifier and its time from \<open>fresh\<close> and \<open>now\<close>;
  \<open>digest\<close> is the digest of the queue for commands of other types.
\<close>

definition copy_key :: "string \<Rightarrow> pydict \<Rightarrow> pydict \<Rightarrow> pydict" where
  "copy_key k metadata payload = (if dget metadata k \<noteq> PNone then AList.update k (dget metadata k) payload else payload)"

definition dedupe_key_for_order_request ::
  "(string \<Rightarrow> pydict \<Rightarrow> string) \<Rightarrow> string \<Rightarrow> time \<Rightarrow> broker_order_request \<Rightarrow> string" where
  "dedupe_key_for_order_request digest fresh now request =
     (let payload = copy_key ''strategy_order_id'' (or_metadata request)
                      (copy_key ''candidate_id'' (or_metadata request) (order_request_to_dict request)) in
      dedupe_key_for_command digest
        \<lparr>gc_type = ''send_order'', gc_payload = payload, gc_command_id = fresh, gc_request_id = [],
         gc_timestamp = utc_timestamp now, gc_source = ''core'', gc_idempotency_key = or_idempotency_key request\<rparr>)"

section \<open>The guard\<close>

definition order_amount :: "broker_order_request \<Rightarrow> int" where
  "order_amount request = or_quantity request * max 0 (or_price request)"

definition safety_checks ::
  "order_safety_config \<Rightarrow> broker_order_request \<Rightarrow> pydict \<Rightarrow> int \<Rightarrow> bool \<Rightarrow> safety_check list" where
  "safety_checks cfg request gateway_status existing duplicate =
     [\<lparr>sc_name = ''mode_live_enabled'', sc_ok = osc_mode cfg = ''LIVE'' \<and> osc_live_order_enabled cfg,
       sc_reason = (if osc_mode cfg = ''LIVE'' \<and> \<not> osc_live_order_enabled cfg
                    then ''LIVE_REQUIRES_TRADING_ALLOW_LIVE'' else []),
       sc_details = [(''mode'', PStr (osc_mode cfg)), (''live_order_enabled'', PBool (osc_live_order_enabled cfg))]\<rparr>,
      plain_check ''account_present'' (or_account request \<noteq> []) ''ACCOUNT_REQUIRED'',
      plain_check ''code_present'' (or_code request \<noteq> []) ''CODE_REQUIRED'',
      plain_check ''side_valid'' (or_side request \<in> {''buy'', ''sell''}) ''SIDE_INVALID'',
      plain_check ''quantity_positive'' (0 < or_quantity request) ''QUANTITY_INVALID'',
      \<lparr>sc_name = ''price_valid'',
       sc_ok = 0 \<le> or_price request \<and> (osc_allow_zero_price cfg \<or> 0 < or_price request),
       sc_reason = ''PRICE_INVALID'', sc_details = [(''allow_zero_price'', PBool (osc_allow_zero_price cfg))]\<rparr>,
      \<lparr>sc_name = ''order_amount_limit'',
       sc_ok = or_side request = ''sell'' \<and> \<not> osc_limit_sell_amount cfg \<or> order_amount request \<le> osc_max_order_amount cfg,
       sc_reason = ''ORDER_AMOUNT_LIMIT'',
       sc_details = [(''amount'', PInt (order_amount request)), (''max_order_amount'', PInt (osc_max_order_amount cfg))]\<rparr>,
      \<lparr>sc_name = ''daily_code_order_limit'', sc_ok = existing < osc_max_daily_orders_per_code cfg,
       sc_reason = ''DAILY_CODE_ORDER_LIMIT'',
       sc_details = [(''existing_order_command_count'', PInt existing),
                     (''max_daily_orders_per_code'', PInt (osc_max_daily_orders_per_code cfg))]\<rparr>,
      plain_check ''dedupe'' (\<not> duplicate) ''DUPLICATE_ORDER_COMMAND'',
      plain_check ''gateway_connected'' (truthy (dget gateway_status ''connected'')) ''GATEWAY_NOT_CONNECTED'',
      plain_check ''gateway_heartbeat'' (truthy (dget gateway_status ''heartbeat_ok'')) ''GATEWAY_HEARTBEAT_STALE'',
      plain_check ''gateway_logged_in'' (truthy (dget gateway_status ''kiwoom_logged_in'')) ''KIWOOM_NOT_LOGGED_IN'',
      plain_check ''gateway_orderable'' (truthy (dget gateway_status ''orderable'')) ''GATEWAY_NOT_ORDERABLE'',
      \<lparr>sc_name = ''gateway_account_match'',
       sc_ok = \<not> truthy (dget gateway_status ''account'') \<or> py_str (dget gateway_status ''account'') = or_account request,
       sc_reason = ''GATEWAY_ACCOUNT_MISMATCH'',
       sc_details = [(''gateway_account'', dget gateway_status ''account''), (''request_account'', PStr (or_account request))]\<rparr>]"

definition validate_order ::
  "(string \<Rightarrow> pydict \<Rightarrow> string) \<Rightarrow> string \<Rightarrow> time \<Rightarrow> order_safety_config \<Rightarrow> broker_order_request \<Rightarrow> pydict \<Rightarrow> int \<Rightarrow> bool \<Rightarrow>
   safety_check_result" where
  "validate_order digest fresh now cfg request gateway_status existing duplicate =
     (let checks = safety_checks cfg request gateway_status existing duplicate;
          failed = filter (\<lambda>c. \<not> sc_ok c) checks in
      \<lparr>scr_ok = (failed = []), scr_reason = (case failed of [] \<Rightarrow> ''OK'' | c # _ \<Rightarrow> sc_reason c), scr_checks = checks,
       scr_details = [(''dedupe_key'', PStr (dedupe_key_for_order_request digest fresh now request)),
                      (''order_amount'', PInt (order_amount request))]\<rparr>)"

section \<open>What the guard decides\<close>

lemma validate_order_ok:
  "scr_ok (validate_order digest fresh now cfg request st existing duplicate) \<longleftrightarrow>
     (\<forall>c\<in>set (safety_checks cfg request st existing duplicate). sc_ok c)"
  by (simp add: validate_order_def Let_def filter_empty_conv)

lemma dget_copy_key: "dget (copy_key k metadata p) k' = (if k' = k \<and> dget metadata k \<noteq> PNone then dget metadata k else dget p k')"
  by (simp add: copy_key_def dget_def dict_simps)

lemma payload_text_copy_key: "k' \<noteq> k \<Longrightarrow> payload_text (copy_key k metadata p) k' = payload_text p k'"
  by (simp add: copy_key_def payload_text_def dget_default_def dict_simps)

text \<open>Without an idempotency key of its own, a request is keyed by its fields and the strategy order, or else
  the candidate, that its metadata names.\<close>

lemma dedupe_of_request:
  assumes "or_idempotency_key request = []"
  shows "dedupe_key_for_order_request digest fresh now request =
    join (CHR '':'') [''order'', or_account request, or_code request, or_side request,
      show_int (or_quantity request), show_int (or_price request), or_tag request,
      py_str (py_or (py_or (dget (or_metadata request) ''strategy_order_id'') (dget (or_metadata request) ''candidate_id'')) (PStr []))]"
proof -
  define payload where "payload = copy_key ''strategy_order_id'' (or_metadata request)
      (copy_key ''candidate_id'' (or_metadata request) (order_request_to_dict request))"
  have other: "payload_text payload k = payload_text (order_request_to_dict request) k"
    if "k \<notin> {''strategy_order_id'', ''candidate_id''}" for k
    using that by (simp add: payload_def payload_text_copy_key)
  have "dget (order_request_to_dict request) ''strategy_order_id'' = PNone" "dget (order_request_to_dict request) ''candidate_id'' = PNone"
    by (simp_all add: order_request_to_dict_def dget_def)
  then have ids: "dget payload ''strategy_order_id'' = dget (or_metadata request) ''strategy_order_id''"
    "dget payload ''candidate_id'' = dget (or_metadata request) ''candidate_id''"
    by (simp_all add: payload_def dget_copy_key)
  have fields: "payload_text (order_request_to_dict request) ''account'' = or_account request"
    "payload_text (order_request_to_dict request) ''code'' = or_code request"
    "payload_text (order_request_to_dict request) ''side'' = or_side request"
    "payload_text (order_request_to_dict request) ''quantity'' = show_int (or_quantity request)"
    "payload_text (order_request_to_dict request) ''price'' = show_int (or_price request)"
    "payload_text (order_request_to_dict request) ''tag'' = or_tag request"
    by (simp_all add: order_request_to_dict_def payload_text_def dget_default_def py_str_def)
  show ?thesis
    unfolding dedupe_key_for_order_request_def dedupe_key_for_command_def Let_def payload_def [symmetric]
    using assms by (simp add: other fields ids)
qed

definition first_reason :: "safety_check list \<Rightarrow> string" where
  "first_reason cs = (case filter (\<lambda>c. \<not> sc_ok c) cs of [] \<Rightarrow> ''OK'' | c # _ \<Rightarrow> sc_reason c)"

lemma first_reason_simps [simp]:
  "first_reason [] = ''OK''" "first_reason (c # cs) = (if \<not> sc_ok c then sc_reason c else first_reason cs)"
  by (simp_all add: first_reason_def)

lemma validate_order_reason:
  "scr_reason (validate_order digest fresh now cfg request st existing duplicate) =
     first_reason (safety_checks cfg request st existing duplicate)"
  by (simp add: validate_order_def first_reason_def Let_def)

lemma first_reason_ok:
  assumes "\<forall>c\<in>set cs. sc_reason c \<noteq> ''OK''"
  shows "first_reason cs = ''OK'' \<longleftrightarrow> (\<forall>c\<in>set cs. sc_ok c)"
  using assms by (induction cs) auto

lemma check_reasons: "\<forall>c\<in>set (safety_checks cfg request st existing duplicate). sc_reason c \<noteq> ''OK''"
  by (simp add: safety_checks_def plain_check_def)

lemma mode_split:
  "(if \<not> (m \<and> e) then (if m \<and> \<not> e then r else []) else x) = (if \<not> m then [] else if \<not> e then r else x)" for r x :: string
  by simp

text \<open>C16: The guard lets an order pass exactly when its reason is \<open>OK\<close>, and the reason is that of the first
  failed check: the mode is live and allowed, the request names an account, a code, a side, a
  positive quantity and a legal price, the amount and the daily count are within their limits, the
  command is no duplicate, and the gateway is connected, alive, logged in, orderable and on the same
  account. Outside live mode the refusal has an empty reason.\<close>
theorem order_guard_decides:
  "scr_ok (validate_order digest fresh now cfg request st existing duplicate) =
     (scr_reason (validate_order digest fresh now cfg request st existing duplicate) = ''OK'') \<and>
   scr_reason (validate_order digest fresh now cfg request st existing duplicate) =
     (if osc_mode cfg \<noteq> ''LIVE'' then []
      else if \<not> osc_live_order_enabled cfg then ''LIVE_REQUIRES_TRADING_ALLOW_LIVE''
      else if or_account request = [] then ''ACCOUNT_REQUIRED''
      else if or_code request = [] then ''CODE_REQUIRED''
      else if or_side request \<noteq> ''buy'' \<and> or_side request \<noteq> ''sell'' then ''SIDE_INVALID''
      else if or_quantity request \<le> 0 then ''QUANTITY_INVALID''
      else if or_price request < 0 \<or> or_price request = 0 \<and> \<not> osc_allow_zero_price cfg then ''PRICE_INVALID''
      else if osc_max_order_amount cfg < or_quantity request * max 0 (or_price request) \<and>
              \<not> (or_side request = ''sell'' \<and> \<not> osc_limit_sell_amount cfg) then ''ORDER_AMOUNT_LIMIT''
      else if osc_max_daily_orders_per_code cfg \<le> existing then ''DAILY_CODE_ORDER_LIMIT''
      else if duplicate then ''DUPLICATE_ORDER_COMMAND''
      else if \<not> truthy (dget st ''connected'') then ''GATEWAY_NOT_CONNECTED''
      else if \<not> truthy (dget st ''heartbeat_ok'') then ''GATEWAY_HEARTBEAT_STALE''
      else if \<not> truthy (dget st ''kiwoom_logged_in'') then ''KIWOOM_NOT_LOGGED_IN''
      else if \<not> truthy (dget st ''orderable'') then ''GATEWAY_NOT_ORDERABLE''
      else if truthy (dget st ''account'') \<and> py_str (dget st ''account'') \<noteq> or_account request then ''GATEWAY_ACCOUNT_MISMATCH''
      else ''OK'')"
  (is "_ \<and> _ = ?table")
proof (intro conjI)
  show "scr_ok (validate_order digest fresh now cfg request st existing duplicate) =
     (scr_reason (validate_order digest fresh now cfg request st existing duplicate) = ''OK'')"
    unfolding validate_order_ok validate_order_reason by (rule first_reason_ok [OF check_reasons, symmetric])
next
  have swap: "P = P' \<Longrightarrow> x = x' \<Longrightarrow> y = y' \<Longrightarrow> (if P then x else y) = (if P' then x' else y')" for P P' and x x' y y' :: string
    by simp
  show "scr_reason (validate_order digest fresh now cfg request st existing duplicate) = ?table"
    unfolding validate_order_reason safety_checks_def plain_check_def first_reason_simps safety_check.select_convs
    by (subst mode_split) (intro swap refl; auto simp: order_amount_def not_le)
qed

end
