(* ===== verification/Candidate_Model.thy ===== *)
theory Candidate_Model
  imports Theme_Signals "HOL-Library.List_Lexorder" "HOL-Library.Char_ord"
begin

text \<open>
  The candidates of a trading day (\<open>trading/strategy/models.py\<close>, \<open>trading/runtime_ports.py\<close>), their states and the
  tables of \<open>storage/db.py\<close> that hold them. The metadata dictionary of a candidate is a record of the entries that
  the modelled code reads and writes, an absent entry being the empty one; the dictionary of the candidate state
  machine is kept as a dictionary.
\<close>

section \<open>States\<close>

datatype candidate_state =
    DETECTED | HYDRATING | WATCHING | WAIT_DATA | READY | ORDER_DECIDED | ORDER_SENT | FILLED | BLOCKED
  | EXPIRED | REMOVED | CANCELLED

primrec candidate_state_text :: "candidate_state \<Rightarrow> string" where
  "candidate_state_text DETECTED = ''DETECTED''"
| "candidate_state_text HYDRATING = ''HYDRATING''"
| "candidate_state_text WATCHING = ''WATCHING''"
| "candidate_state_text WAIT_DATA = ''WAIT_DATA''"
| "candidate_state_text READY = ''READY''"
| "candidate_state_text ORDER_DECIDED = ''ORDER_DECIDED''"
| "candidate_state_text ORDER_SENT = ''ORDER_SENT''"
| "candidate_state_text FILLED = ''FILLED''"
| "candidate_state_text BLOCKED = ''BLOCKED''"
| "candidate_state_text EXPIRED = ''EXPIRED''"
| "candidate_state_text REMOVED = ''REMOVED''"
| "candidate_state_text CANCELLED = ''CANCELLED''"

text \<open>\<open>CandidateRuntimeState\<close>, the states of the second version, and its reading from text.\<close>

datatype runtime_state =
    V2_DISCOVERED | V2_HYDRATING | V2_WATCHING | V2_SETUP_READY | V2_TIMING_READY | V2_ORDER_INTENT_CREATED
  | V2_ORDER_PENDING | V2_POSITION_OPEN | V2_EXIT_PENDING | V2_CLOSED | V2_REMOVED | V2_EXPIRED

primrec runtime_text :: "runtime_state \<Rightarrow> string" where
  "runtime_text V2_DISCOVERED = ''DISCOVERED''"
| "runtime_text V2_HYDRATING = ''HYDRATING''"
| "runtime_text V2_WATCHING = ''WATCHING''"
| "runtime_text V2_SETUP_READY = ''SETUP_READY''"
| "runtime_text V2_TIMING_READY = ''TIMING_READY''"
| "runtime_text V2_ORDER_INTENT_CREATED = ''ORDER_INTENT_CREATED''"
| "runtime_text V2_ORDER_PENDING = ''ORDER_PENDING''"
| "runtime_text V2_POSITION_OPEN = ''POSITION_OPEN''"
| "runtime_text V2_EXIT_PENDING = ''EXIT_PENDING''"
| "runtime_text V2_CLOSED = ''CLOSED''"
| "runtime_text V2_REMOVED = ''REMOVED''"
| "runtime_text V2_EXPIRED = ''EXPIRED''"

definition runtime_states :: "runtime_state list" where
  "runtime_states =
     [V2_DISCOVERED, V2_HYDRATING, V2_WATCHING, V2_SETUP_READY, V2_TIMING_READY, V2_ORDER_INTENT_CREATED,
      V2_ORDER_PENDING, V2_POSITION_OPEN, V2_EXIT_PENDING, V2_CLOSED, V2_REMOVED, V2_EXPIRED]"

definition runtime_of_text :: "string \<Rightarrow> runtime_state option" where
  "runtime_of_text s = find (\<lambda>x. runtime_text x = s) runtime_states"

primrec legacy_to_v2_state :: "candidate_state \<Rightarrow> runtime_state" where
  "legacy_to_v2_state DETECTED = V2_DISCOVERED"
| "legacy_to_v2_state HYDRATING = V2_HYDRATING"
| "legacy_to_v2_state WATCHING = V2_WATCHING"
| "legacy_to_v2_state WAIT_DATA = V2_WATCHING"
| "legacy_to_v2_state READY = V2_TIMING_READY"
| "legacy_to_v2_state ORDER_DECIDED = V2_ORDER_INTENT_CREATED"
| "legacy_to_v2_state ORDER_SENT = V2_ORDER_PENDING"
| "legacy_to_v2_state FILLED = V2_POSITION_OPEN"
| "legacy_to_v2_state BLOCKED = V2_WATCHING"
| "legacy_to_v2_state EXPIRED = V2_EXPIRED"
| "legacy_to_v2_state REMOVED = V2_REMOVED"
| "legacy_to_v2_state CANCELLED = V2_CLOSED"

lemma runtime_of_text_runtime_text [simp]: "runtime_of_text (runtime_text s) = Some s"
  by (cases s) (simp_all add: runtime_of_text_def runtime_states_def)

lemma runtime_text_nonempty [simp]: "runtime_text s \<noteq> []"
  by (cases s) simp_all

lemma runtime_text_inj [simp]: "runtime_text a = runtime_text b \<longleftrightarrow> a = b"
  by (metis option.inject runtime_of_text_runtime_text)

datatype candidate_source =
    SRC_CONDITION | SRC_CONDITION_SEARCH | SRC_OPENING_BURST | SRC_THEME_WATCH | SRC_THEME_BOARD
  | SRC_LEADING_STOCK | SRC_MANUAL_WATCH | SRC_MANUAL_DEBUG

primrec source_text :: "candidate_source \<Rightarrow> string" where
  "source_text SRC_CONDITION = ''condition''"
| "source_text SRC_CONDITION_SEARCH = ''condition_search''"
| "source_text SRC_OPENING_BURST = ''opening_burst''"
| "source_text SRC_THEME_WATCH = ''theme_watch''"
| "source_text SRC_THEME_BOARD = ''theme_board''"
| "source_text SRC_LEADING_STOCK = ''leading_stock''"
| "source_text SRC_MANUAL_WATCH = ''manual_watch''"
| "source_text SRC_MANUAL_DEBUG = ''manual_debug''"

datatype block_type = BLOCK_NONE | BLOCK_TEMPORARY | BLOCK_FINAL

datatype strategy_profile =
    KOSDAQ_THEME_PROFILE | KOSPI_LEADER_PROFILE | SEMICONDUCTOR_SIGNAL_PROFILE | THEME_DISCOVERY_PROFILE

primrec profile_text :: "strategy_profile \<Rightarrow> string" where
  "profile_text KOSDAQ_THEME_PROFILE = ''KOSDAQ_THEME_PROFILE''"
| "profile_text KOSPI_LEADER_PROFILE = ''KOSPI_LEADER_PROFILE''"
| "profile_text SEMICONDUCTOR_SIGNAL_PROFILE = ''SEMICONDUCTOR_SIGNAL_PROFILE''"
| "profile_text THEME_DISCOVERY_PROFILE = ''THEME_DISCOVERY_PROFILE''"

definition profile_of_text :: "string \<Rightarrow> strategy_profile option" where
  "profile_of_text s =
     find (\<lambda>x. profile_text x = s)
       [KOSDAQ_THEME_PROFILE, KOSPI_LEADER_PROFILE, SEMICONDUCTOR_SIGNAL_PROFILE, THEME_DISCOVERY_PROFILE]"

section \<open>Source events\<close>

record candidate_source_event =
  ev_trade_date :: string
  ev_code :: string
  ev_name :: string
  ev_source_type :: string
  ev_source_id :: string
  ev_source_rank :: int
  ev_source_score :: rat
  ev_theme_id :: string
  ev_theme_name :: string
  ev_stock_role :: string
  ev_reason_codes :: "string list"
  ev_event_type :: string
  ev_detected_at :: stamp

text \<open>What the metadata keeps of a source (\<open>_source_event_summary\<close> with the mark of \<open>remove_source\<close>).\<close>

record source_entry =
  se_source_type :: string
  se_source_id :: string
  se_source_rank :: int
  se_source_score :: rat
  se_theme_id :: string
  se_theme_name :: string
  se_stock_role :: string
  se_reason_codes :: "string list"
  se_detected_at :: stamp
  se_active :: bool
  se_removed_at :: stamp

record ingestion_meta =
  ig_source_map :: "(string \<times> source_entry) list"
  ig_active_source_types :: "string list"
  ig_primary_source :: string
  ig_primary_source_id :: string
  ig_primary_theme_id :: string
  ig_theme_name :: string
  ig_stock_role :: string
  ig_score :: rat
  ig_reason_codes :: "string list"
  ig_last_source_event_at :: stamp

text \<open>The result of hydration; the prices are the numbers that \<open>_float\<close> reads, 0 for an absent one.\<close>

record hydration_meta =
  hy_status :: string
  hy_basic_complete :: bool
  hy_parsed_code :: string
  hy_current_price :: rat
  hy_price :: rat
  hy_prev_close :: rat
  hy_change_rate :: rat
  hy_change_rate_pct :: rat

record contract_snapshot =
  cs_code :: string
  cs_trade_date :: string
  cs_durable_state :: candidate_state
  cs_projected_state :: candidate_state
  cs_v2_state :: runtime_state
  cs_blocking_stage :: string
  cs_primary_reason_code :: string
  cs_lifecycle_readiness :: string
  cs_evaluation_eligibility :: string
  cs_evaluation_eligible :: bool
  cs_hydration_complete :: bool
  cs_active_source_exists :: bool
  cs_terminal :: bool
  cs_reconciled :: bool
  cs_reconcile_reason :: string

record condition_meta =
  cm_indices :: "(string \<times> int) list"
  cm_profiles :: "(string \<times> string) list"
  cm_purposes :: "(string \<times> string) list"
  cm_discovery_names :: "string list"
  cm_entry_names :: "string list"
  cm_entry_excluded :: bool
  cm_excluded_reason :: string

record candidate_metadata =
  md_fsm :: pydict
  md_hydration :: "hydration_meta option"
  md_ingestion :: "ingestion_meta option"
  md_contract :: "(contract_snapshot \<times> stamp \<times> string) option"
  md_condition :: condition_meta
  md_primary_source :: string
  md_primary_source_id :: string
  md_primary_theme_id :: string
  md_theme_name :: string
  md_stock_role :: string
  md_source_score :: rat
  md_reason_codes :: "string list"
  md_generation_seq :: "int option"
  md_instance_id :: "string option"
  md_best_theme_id :: string
  md_source_removed_at :: stamp
  md_manual_debug :: bool
  md_entry_timing_source :: string
  md_sub_status :: string
  md_insufficient_reason :: "string list"

definition no_condition :: condition_meta where
  "no_condition = \<lparr>cm_indices = [], cm_profiles = [], cm_purposes = [], cm_discovery_names = [], cm_entry_names = [],
     cm_entry_excluded = False, cm_excluded_reason = []\<rparr>"

definition no_metadata :: candidate_metadata where
  "no_metadata = \<lparr>md_fsm = [], md_hydration = None, md_ingestion = None, md_contract = None, md_condition = no_condition,
     md_primary_source = [], md_primary_source_id = [], md_primary_theme_id = [], md_theme_name = [], md_stock_role = [],
     md_source_score = 0, md_reason_codes = [], md_generation_seq = None, md_instance_id = None, md_best_theme_id = [],
     md_source_removed_at = Blank, md_manual_debug = False, md_entry_timing_source = [], md_sub_status = [],
     md_insufficient_reason = []\<rparr>"

section \<open>Candidates and their tables\<close>

record candidate =
  cd_id :: int
  cd_trade_date :: string
  cd_code :: string
  cd_name :: string
  cd_market :: string
  cd_strategy_profile :: "strategy_profile option"
  cd_sources :: "candidate_source list"
  cd_priority :: int
  cd_theme_ids :: "string list"
  cd_state :: candidate_state
  cd_detected_at :: stamp
  cd_last_seen_at :: stamp
  cd_expires_at :: stamp
  cd_condition_names :: "string list"
  cd_block_type :: block_type
  cd_recheck_after_sec :: int
  cd_can_recover :: bool
  cd_metadata :: candidate_metadata

text \<open>What an event or a transition carries along: a source event, a contract snapshot or a plain dictionary.\<close>

datatype candidate_payload =
    SourcePayload candidate_source_event
  | ContractPayload contract_snapshot
  | DictPayload pydict

record candidate_event =
  ce_candidate_id :: int
  ce_event_type :: string
  ce_from_state :: "candidate_state option"
  ce_to_state :: "candidate_state option"
  ce_source :: "candidate_source option"
  ce_reason :: string
  ce_created_at :: stamp
  ce_payload :: candidate_payload

record candidate_transition =
  ct_trade_date :: string
  ct_candidate_id :: int
  ct_code :: string
  ct_from_state :: string
  ct_to_state :: string
  ct_blocking_stage :: string
  ct_reason_code :: string
  ct_reason_codes :: "string list"
  ct_next_required_action :: string
  ct_source_event_id :: string
  ct_source_event_type :: string
  ct_source_component :: string
  ct_occurred_at :: stamp
  ct_details :: candidate_payload

record source_event_row =
  sr_event :: candidate_source_event
  sr_candidate_id :: "int option"
  sr_status :: string
  sr_reason :: string

text \<open>The table of candidates with its key \<open>UNIQUE(trade_date, code)\<close>, and the logs.\<close>

record candidate_db =
  db_candidates :: "((string \<times> string) \<times> candidate) list"
  db_next_candidate_id :: int
  db_events :: "candidate_event list"
  db_transitions :: "candidate_transition list"
  db_source_events :: "source_event_row list"

definition empty_candidate_db :: candidate_db where
  "empty_candidate_db = \<lparr>db_candidates = [], db_next_candidate_id = 1, db_events = [], db_transitions = [], db_source_events = []\<rparr>"

definition load_candidate :: "string \<Rightarrow> string \<Rightarrow> candidate_db \<Rightarrow> candidate option" where
  "load_candidate trade_date code db = map_of (db_candidates db) (trade_date, code)"

text \<open>The upsert gives a new row the next identifier and keeps that of an old one; the row is read back.\<close>

definition save_candidate :: "candidate \<Rightarrow> candidate_db \<Rightarrow> candidate \<times> candidate_db" where
  "save_candidate c db =
     (case load_candidate (cd_trade_date c) (cd_code c) db of
        Some old \<Rightarrow>
          let saved = c\<lparr>cd_id := cd_id old\<rparr>
          in (saved, db\<lparr>db_candidates := AList.update (cd_trade_date c, cd_code c) saved (db_candidates db)\<rparr>)
      | None \<Rightarrow>
          let saved = c\<lparr>cd_id := db_next_candidate_id db\<rparr>
          in (saved, db\<lparr>db_candidates := AList.update (cd_trade_date c, cd_code c) saved (db_candidates db),
                       db_next_candidate_id := db_next_candidate_id db + 1\<rparr>))"

definition save_candidate_with_events :: "candidate \<Rightarrow> candidate_event list \<Rightarrow> candidate_db \<Rightarrow> candidate \<times> candidate_db" where
  "save_candidate_with_events c events db =
     (let (saved, db) = save_candidate c db
      in (saved, db\<lparr>db_events := db_events db @
            map (\<lambda>e. if ce_candidate_id e = 0 then e\<lparr>ce_candidate_id := cd_id saved\<rparr> else e) events\<rparr>))"

definition save_candidate_event :: "candidate_event \<Rightarrow> candidate_db \<Rightarrow> candidate_db" where
  "save_candidate_event e db = db\<lparr>db_events := db_events db @ [e]\<rparr>"

definition save_candidate_state_transition :: "candidate_transition \<Rightarrow> candidate_db \<Rightarrow> candidate_db" where
  "save_candidate_state_transition t db = db\<lparr>db_transitions := db_transitions db @ [t]\<rparr>"

definition save_source_event_row :: "source_event_row \<Rightarrow> candidate_db \<Rightarrow> candidate_db" where
  "save_source_event_row r db = db\<lparr>db_source_events := db_source_events db @ [r]\<rparr>"

text \<open>\<open>ORDER BY trade_date, code\<close>.\<close>

definition list_candidates :: "string \<Rightarrow> candidate_db \<Rightarrow> candidate list" where
  "list_candidates trade_date db =
     sort_key (\<lambda>c. (cd_trade_date c, cd_code c)) (filter (\<lambda>c. cd_trade_date c = trade_date) (map snd (db_candidates db)))"

section \<open>The table stays well-formed\<close>

declare map_of_eq_Some_iff [simp del] split_paired_All [simp del] split_paired_Ex [simp del]

definition candidate_rows_ok :: "((string \<times> string) \<times> candidate) list \<Rightarrow> int \<Rightarrow> bool" where
  "candidate_rows_ok rows next \<longleftrightarrow> distinct (map fst rows) \<and> 0 < next \<and>
     (\<forall>key c. map_of rows key = Some c \<longrightarrow> key = (cd_trade_date c, cd_code c) \<and> 0 < cd_id c \<and> cd_id c < next)"

definition cdb_ok :: "candidate_db \<Rightarrow> bool" where
  "cdb_ok db \<longleftrightarrow> candidate_rows_ok (db_candidates db) (db_next_candidate_id db)"

lemma cdb_ok_empty [simp]: "cdb_ok empty_candidate_db"
  by (simp add: cdb_ok_def candidate_rows_ok_def empty_candidate_db_def)

lemma cdb_ok_load: "cdb_ok db \<Longrightarrow> load_candidate d k db = Some c \<Longrightarrow> cd_trade_date c = d \<and> cd_code c = k \<and> 0 < cd_id c"
  unfolding cdb_ok_def candidate_rows_ok_def load_candidate_def by blast

lemma save_candidate_result:
  assumes "save_candidate c db = (c', db')"
  shows "c' = c\<lparr>cd_id := cd_id c'\<rparr>" "load_candidate d k db' = (if (d, k) = (cd_trade_date c, cd_code c) then Some c' else load_candidate d k db)"
    "db_events db' = db_events db" "db_transitions db' = db_transitions db" "db_source_events db' = db_source_events db"
    "load_candidate (cd_trade_date c) (cd_code c) db = Some old \<Longrightarrow> cd_id c' = cd_id old"
  using assms by (auto simp: save_candidate_def load_candidate_def Let_def dict_simps split: option.splits)

lemma candidate_rows_ok_update:
  assumes ok: "candidate_rows_ok rows next" and "0 < cd_id c" "cd_id c < next'" "next \<le> next'"
  shows "candidate_rows_ok (AList.update (cd_trade_date c, cd_code c) c rows) next'"
proof -
  have "key = (cd_trade_date z, cd_code z) \<and> 0 < cd_id z \<and> cd_id z < next'"
    if "map_of (AList.update (cd_trade_date c, cd_code c) c rows) key = Some z" for key z
  proof (cases "key = (cd_trade_date c, cd_code c)")
    case True
    with that assms(2,3) show ?thesis by (simp add: dict_simps)
  next
    case False
    with that have "map_of rows key = Some z" by (simp add: dict_simps)
    with ok assms(4) show ?thesis unfolding candidate_rows_ok_def by fastforce
  qed
  moreover have "distinct (map fst (AList.update (cd_trade_date c, cd_code c) c rows))" "0 < next'"
    using ok assms(4) by (simp_all add: candidate_rows_ok_def distinct_keys_update)
  ultimately show ?thesis unfolding candidate_rows_ok_def by blast
qed

lemma save_candidate_ok:
  assumes "cdb_ok db" "save_candidate c db = (c', db')"
  shows "cdb_ok db'"
proof (cases "load_candidate (cd_trade_date c) (cd_code c) db")
  case None
  have "0 < db_next_candidate_id db" using assms(1) by (simp add: cdb_ok_def candidate_rows_ok_def)
  with candidate_rows_ok_update [of _ _ "c\<lparr>cd_id := db_next_candidate_id db\<rparr>" "db_next_candidate_id db + 1"] None assms
  show ?thesis by (auto simp: save_candidate_def Let_def cdb_ok_def)
next
  case (Some old)
  then have "0 < cd_id old" "cd_id old < db_next_candidate_id db"
    using assms(1) unfolding cdb_ok_def candidate_rows_ok_def load_candidate_def by blast+
  with candidate_rows_ok_update [of _ _ "c\<lparr>cd_id := cd_id old\<rparr>"] Some assms show ?thesis
    by (auto simp: save_candidate_def Let_def cdb_ok_def)
qed

lemma save_with_events_result:
  assumes "save_candidate_with_events c es db = (c', db')"
  shows "c' = c\<lparr>cd_id := cd_id c'\<rparr>"
    "load_candidate d k db' = (if (d, k) = (cd_trade_date c, cd_code c) then Some c' else load_candidate d k db)"
    "cdb_ok db \<Longrightarrow> cdb_ok db'" "db_transitions db' = db_transitions db" "db_source_events db' = db_source_events db"
proof -
  obtain db1 where save: "save_candidate c db = (c', db1)" and db': "db_candidates db' = db_candidates db1"
      "db_next_candidate_id db' = db_next_candidate_id db1" "db_transitions db' = db_transitions db1" "db_source_events db' = db_source_events db1"
    using assms by (auto simp: save_candidate_with_events_def split: prod.splits)
  note r = save_candidate_result [OF save]
  show "c' = c\<lparr>cd_id := cd_id c'\<rparr>" "db_transitions db' = db_transitions db" "db_source_events db' = db_source_events db"
    using r(1,4,5) db'(3,4) by simp_all
  show "load_candidate d k db' = (if (d, k) = (cd_trade_date c, cd_code c) then Some c' else load_candidate d k db)"
    using r(2) [of d k] db'(1) by (simp add: load_candidate_def)
  assume "cdb_ok db"
  then show "cdb_ok db'" using save_candidate_ok [OF _ save] db' by (simp add: cdb_ok_def)
qed

lemma log_simps [simp]:
  "load_candidate d k (save_candidate_event e db) = load_candidate d k db"
  "load_candidate d k (save_candidate_state_transition t db) = load_candidate d k db"
  "load_candidate d k (save_source_event_row r db) = load_candidate d k db"
  "cdb_ok (save_candidate_event e db) = cdb_ok db" "cdb_ok (save_candidate_state_transition t db) = cdb_ok db"
  "cdb_ok (save_source_event_row r db) = cdb_ok db"
  by (simp_all add: load_candidate_def cdb_ok_def save_candidate_event_def save_candidate_state_transition_def save_source_event_row_def)

end
