(* ===== verification/Candidate_Contract.thy ===== *)
theory Candidate_Contract
  imports Candidate_Model
begin

text \<open>
  The contract between the state stored with a candidate and the state of the second version
  (\<open>trading/strategy/candidate_state_contract.py\<close>): whether the candidate may be evaluated, the stored state that follows
  from the second version, and the reconciliation that writes it. A database is always at hand.
\<close>

section \<open>The parts of a snapshot\<close>

text \<open>\<open>a or b\<close> on numbers.\<close>

definition rat_or :: "rat \<Rightarrow> rat \<Rightarrow> rat" where
  "rat_or a b = (if a \<noteq> 0 then a else b)"

definition basic_hydration_payload_complete :: "candidate \<Rightarrow> hydration_meta \<Rightarrow> bool" where
  "basic_hydration_payload_complete c h \<longleftrightarrow>
     normalize_code (str_or (cd_code c) (hy_parsed_code h)) \<noteq> [] \<and> 0 < rat_or (hy_current_price h) (hy_price h) \<and>
     (rat_or (hy_change_rate h) (hy_change_rate_pct h) \<noteq> 0 \<or> 0 < hy_prev_close h)"

definition hydration_complete :: "candidate \<Rightarrow> bool" where
  "hydration_complete c \<longleftrightarrow>
     (case md_hydration (cd_metadata c) of
        None \<Rightarrow> cd_state c = WATCHING
      | Some h \<Rightarrow> hy_basic_complete h \<or>
          upper (hy_status h) \<in> {''ACKED'', ''MERGED'', ''OK''} \<and> basic_hydration_payload_complete c h)"

definition active_source_exists :: "candidate \<Rightarrow> bool" where
  "active_source_exists c \<longleftrightarrow>
     (let md = cd_metadata c;
          active_types = (case md_ingestion md of None \<Rightarrow> [] | Some g \<Rightarrow> filter (\<lambda>s. s \<noteq> []) (ig_active_source_types g));
          source_map = (case md_ingestion md of None \<Rightarrow> [] | Some g \<Rightarrow> ig_source_map g)
      in if cd_state c = WATCHING \<and> md_ingestion md = None \<and> cd_sources c = [] then True
         else if active_types \<noteq> [] then True
         else if source_map \<noteq> [] then (\<exists>e\<in>set (map snd source_map). se_active e)
         else if cd_sources c \<noteq> [] then True
         else md_primary_source md \<noteq> [] \<or> (case md_ingestion md of None \<Rightarrow> False | Some g \<Rightarrow> ig_primary_source g \<noteq> []))"

definition contract_v2_state :: "candidate \<Rightarrow> runtime_state" where
  "contract_v2_state c =
     (case runtime_of_text (text_or (md_fsm (cd_metadata c)) ''v2_state'' []) of
        Some s \<Rightarrow>
          if cd_state c \<in> {WAIT_DATA, WATCHING} \<and> s \<in> {V2_DISCOVERED, V2_HYDRATING} then legacy_to_v2_state (cd_state c) else s
      | None \<Rightarrow> legacy_to_v2_state (cd_state c))"

definition fsm_blocking_stage :: "candidate \<Rightarrow> string" where
  "fsm_blocking_stage c = text_or (md_fsm (cd_metadata c)) ''blocking_stage'' ''NONE''"

definition is_terminal :: "candidate \<Rightarrow> bool" where
  "is_terminal c \<longleftrightarrow> cd_state c \<in> {REMOVED, EXPIRED, CANCELLED}"

definition lifecycle_readiness :: "candidate \<Rightarrow> bool \<Rightarrow> bool \<Rightarrow> string" where
  "lifecycle_readiness c hydrated is_term =
     (let status = (case md_hydration (cd_metadata c) of None \<Rightarrow> [] | Some h \<Rightarrow> upper (hy_status h)) in
      if is_term then ''TERMINAL''
      else if status = ''RETRY_WAIT'' then ''HYDRATION_RETRY_WAIT''
      else if status = ''FAILED'' then ''HYDRATION_FAILED''
      else if cd_state c = HYDRATING \<or> status = ''PENDING'' then ''HYDRATING''
      else if hydrated then ''HYDRATION_COMPLETE''
      else ''DISCOVERED'')"

definition evaluable_states :: "runtime_state set" where
  "evaluable_states = {V2_WATCHING, V2_SETUP_READY, V2_TIMING_READY}"

definition eligibility :: "candidate \<Rightarrow> runtime_state \<Rightarrow> bool \<Rightarrow> bool \<Rightarrow> bool \<Rightarrow> string" where
  "eligibility c v2 hydrated active is_term =
     (let readiness = lifecycle_readiness c hydrated is_term in
      if is_term then ''TERMINAL''
      else if readiness = ''HYDRATION_RETRY_WAIT'' then ''HYDRATION_RETRY_WAIT''
      else if readiness = ''HYDRATION_FAILED'' then ''HYDRATION_FAILED''
      else if \<not> active then ''NO_ACTIVE_SOURCE''
      else if \<not> hydrated then ''HYDRATION_INCOMPLETE''
      else if v2 \<notin> evaluable_states then ''V2_STATE_NOT_EVALUABLE''
      else ''ELIGIBLE'')"

definition project_legacy_state :: "candidate \<Rightarrow> candidate_state" where
  "project_legacy_state c =
     (let state = contract_v2_state c; readiness = lifecycle_readiness c (hydration_complete c) False in
      if is_terminal c then cd_state c
      else if state = V2_DISCOVERED then DETECTED
      else if state = V2_HYDRATING then HYDRATING
      else if state \<in> evaluable_states then (if readiness = ''HYDRATION_COMPLETE'' then WATCHING else WAIT_DATA)
      else if state = V2_REMOVED then REMOVED
      else if state = V2_EXPIRED then EXPIRED
      else if state = V2_CLOSED then CANCELLED
      else cd_state c)"

definition contract_snapshot_of :: "candidate \<Rightarrow> contract_snapshot" where
  "contract_snapshot_of c =
     (let v2 = contract_v2_state c; term = is_terminal c; active = active_source_exists c; hydrated = hydration_complete c;
          elig = eligibility c v2 hydrated active term
      in \<lparr>cs_code = normalize_code (cd_code c), cs_trade_date = cd_trade_date c, cs_durable_state = cd_state c,
          cs_projected_state = project_legacy_state c, cs_v2_state = v2, cs_blocking_stage = fsm_blocking_stage c,
          cs_primary_reason_code = text_or (md_fsm (cd_metadata c)) ''primary_reason_code'' [],
          cs_lifecycle_readiness = lifecycle_readiness c hydrated term, cs_evaluation_eligibility = elig,
          cs_evaluation_eligible = (elig = ''ELIGIBLE''), cs_hydration_complete = hydrated, cs_active_source_exists = active,
          cs_terminal = term, cs_reconciled = False, cs_reconcile_reason = []\<rparr>)"

section \<open>Reconciliation\<close>

definition state_change_allowed :: "candidate \<Rightarrow> candidate_state \<Rightarrow> contract_snapshot \<Rightarrow> bool" where
  "state_change_allowed c target snap \<longleftrightarrow>
     \<not> is_terminal c \<and>
     (if target = WATCHING then
        cs_lifecycle_readiness snap = ''HYDRATION_COMPLETE'' \<and> cs_hydration_complete snap \<and> cs_active_source_exists snap
      else target = WAIT_DATA \<and> cd_state c \<in> {DETECTED, HYDRATING, WAIT_DATA})"

definition contract_reason :: "candidate_state \<Rightarrow> candidate_state \<Rightarrow> string" where
  "contract_reason previous target =
     (if previous = WAIT_DATA \<and> target = WATCHING then ''LEGACY_WAIT_DATA_CONTRACT_REPAIR''
      else if target = WATCHING then ''HYDRATION_COMPLETE_EVALUATION_ELIGIBLE''
      else ''CANDIDATE_STATE_CONTRACT_PROJECTED'')"

definition save_reconciliation ::
  "candidate \<Rightarrow> candidate_state \<Rightarrow> candidate_state \<Rightarrow> string \<Rightarrow> stamp \<Rightarrow> contract_snapshot \<Rightarrow> candidate_db \<Rightarrow> candidate \<times> candidate_db" where
  "save_reconciliation c previous target reason occurred snap db =
     (let event_type = (if previous = WAIT_DATA \<and> target = WATCHING then ''candidate_wait_data_recovered''
                        else ''candidate_legacy_state_projected'');
          event = \<lparr>ce_candidate_id = cd_id c, ce_event_type = event_type, ce_from_state = Some previous, ce_to_state = Some target,
            ce_source = None, ce_reason = reason, ce_created_at = occurred, ce_payload = ContractPayload snap\<rparr>;
          (saved, db) = save_candidate_with_events c [event] db;
          c = c\<lparr>cd_id := cd_id saved\<rparr>
      in (c, save_candidate_state_transition
            \<lparr>ct_trade_date = cd_trade_date c, ct_candidate_id = cd_id c, ct_code = cd_code c,
             ct_from_state = candidate_state_text previous, ct_to_state = candidate_state_text target,
             ct_blocking_stage = cs_blocking_stage snap, ct_reason_code = reason, ct_reason_codes = [reason],
             ct_next_required_action = [], ct_source_event_id = [], ct_source_event_type = event_type,
             ct_source_component = ''CandidateStateContractReconciler'', ct_occurred_at = occurred, ct_details = ContractPayload snap\<rparr> db))"

definition reconcile_candidate :: "bool \<Rightarrow> time \<Rightarrow> candidate \<Rightarrow> candidate_db \<Rightarrow> contract_snapshot \<times> candidate \<times> candidate_db" where
  "reconcile_candidate enabled now c db =
     (let snap = contract_snapshot_of c; target = project_legacy_state c in
      if \<not> enabled \<or> cs_terminal snap then (snap, c, db)
      else if cd_state c \<noteq> target \<and> state_change_allowed c target snap then
        let previous = cd_state c; reason = contract_reason previous target; occurred = At (whole_second now);
            md = cd_metadata c;
            c1 = c\<lparr>cd_state := target, cd_metadata := md\<lparr>md_contract := Some (snap, occurred, reason)\<rparr>,
                   cd_last_seen_at := stamp_or (cd_last_seen_at c) occurred\<rparr>;
            (c2, db) = save_reconciliation c1 previous target reason occurred snap db
        in ((contract_snapshot_of c2)\<lparr>cs_reconciled := True, cs_reconcile_reason := reason\<rparr>, c2, db)
      else (snap, c, db))"

text \<open>The summary of a day, the counts of which are a record.\<close>

record contract_summary =
  sm_scanned :: int
  sm_recovered_to_watching :: int
  sm_kept_retry_wait :: int
  sm_kept_failed :: int
  sm_terminal_skipped :: int
  sm_no_active_source :: int
  sm_evaluation_eligible :: int
  sm_hydration_incomplete_wait_data :: int
  sm_changed_codes :: "string list"
  sm_reasons :: "(string \<times> int) list"

definition one_if :: "bool \<Rightarrow> int" where
  "one_if b = (if b then 1 else 0)"

definition contract_step ::
  "bool \<Rightarrow> time \<Rightarrow> candidate \<Rightarrow> contract_summary \<times> candidate_db \<Rightarrow> contract_summary \<times> candidate_db" where
  "contract_step enabled now c s =
     (case s of (sm, db) \<Rightarrow>
        let (snap, c', db) = reconcile_candidate enabled now c db; reason = cs_evaluation_eligibility snap in
        (\<lparr>sm_scanned = sm_scanned sm + 1,
          sm_recovered_to_watching = sm_recovered_to_watching sm + one_if (cd_state c \<noteq> cd_state c' \<and> cd_state c' = WATCHING),
          sm_kept_retry_wait = sm_kept_retry_wait sm + one_if (cs_lifecycle_readiness snap = ''HYDRATION_RETRY_WAIT''),
          sm_kept_failed = sm_kept_failed sm + one_if (cs_lifecycle_readiness snap = ''HYDRATION_FAILED''),
          sm_terminal_skipped = sm_terminal_skipped sm + one_if (cs_terminal snap),
          sm_no_active_source = sm_no_active_source sm + one_if (\<not> cs_active_source_exists snap),
          sm_evaluation_eligible = sm_evaluation_eligible sm + one_if (cs_evaluation_eligible snap),
          sm_hydration_incomplete_wait_data =
            sm_hydration_incomplete_wait_data sm + one_if (cd_state c = WAIT_DATA \<and> \<not> cs_hydration_complete snap),
          sm_changed_codes = sm_changed_codes sm @ (if cd_state c \<noteq> cd_state c' then [cd_code c'] else []),
          sm_reasons = AList.update reason ((case map_of (sm_reasons sm) reason of Some n \<Rightarrow> n | None \<Rightarrow> 0) + 1) (sm_reasons sm)\<rparr>, db))"

definition reconcile_trade_date :: "bool \<Rightarrow> time \<Rightarrow> string \<Rightarrow> int option \<Rightarrow> candidate_db \<Rightarrow> contract_summary \<times> candidate_db" where
  "reconcile_trade_date enabled now trade_date max_count db =
     (let candidates = list_candidates trade_date db;
          candidates = (case max_count of Some n \<Rightarrow> take (nat n) candidates | None \<Rightarrow> candidates);
          (sm, db) = fold (contract_step enabled now) candidates
            (\<lparr>sm_scanned = 0, sm_recovered_to_watching = 0, sm_kept_retry_wait = 0, sm_kept_failed = 0, sm_terminal_skipped = 0,
              sm_no_active_source = 0, sm_evaluation_eligible = 0, sm_hydration_incomplete_wait_data = 0, sm_changed_codes = [],
              sm_reasons = []\<rparr>, db)
      in (sm\<lparr>sm_reasons := take 10 (descending snd (sm_reasons sm))\<rparr>, db))"

section \<open>What a reconciliation changes\<close>

declare map_of_eq_Some_iff [simp del] split_paired_All [simp del] split_paired_Ex [simp del]

definition reconcile_due :: "bool \<Rightarrow> candidate \<Rightarrow> bool" where
  "reconcile_due enabled c \<longleftrightarrow>
     enabled \<and> \<not> is_terminal c \<and> cd_state c \<noteq> project_legacy_state c \<and>
     state_change_allowed c (project_legacy_state c) (contract_snapshot_of c)"

text \<open>Two candidates that differ at most in their state, their contract entry, their identifier and the last sight.\<close>

definition same_candidate :: "candidate \<Rightarrow> candidate \<Rightarrow> bool" where
  "same_candidate c c' \<longleftrightarrow>
     c' = c\<lparr>cd_state := cd_state c', cd_id := cd_id c', cd_last_seen_at := cd_last_seen_at c',
             cd_metadata := (cd_metadata c)\<lparr>md_contract := md_contract (cd_metadata c')\<rparr>\<rparr>"

lemma same_candidate_refl [simp]: "same_candidate c c"
  by (simp add: same_candidate_def)

lemma same_candidateD:
  assumes "same_candidate c c'"
  shows "cd_trade_date c' = cd_trade_date c" "cd_code c' = cd_code c" "cd_sources c' = cd_sources c"
    "md_fsm (cd_metadata c') = md_fsm (cd_metadata c)" "md_hydration (cd_metadata c') = md_hydration (cd_metadata c)"
    "md_ingestion (cd_metadata c') = md_ingestion (cd_metadata c)" "md_primary_source (cd_metadata c') = md_primary_source (cd_metadata c)"
    "md_entry_timing_source (cd_metadata c') = md_entry_timing_source (cd_metadata c)"
  by (subst assms [unfolded same_candidate_def], simp)+

lemma contract_snapshot_simps [simp]:
  "cs_terminal (contract_snapshot_of c) = is_terminal c"
  "cs_evaluation_eligible (contract_snapshot_of c) \<longleftrightarrow>
     eligibility c (contract_v2_state c) (hydration_complete c) (active_source_exists c) (is_terminal c) = ''ELIGIBLE''"
  "cs_hydration_complete (contract_snapshot_of c) = hydration_complete c"
  "cs_active_source_exists (contract_snapshot_of c) = active_source_exists c"
  "cs_lifecycle_readiness (contract_snapshot_of c) = lifecycle_readiness c (hydration_complete c) (is_terminal c)"
  "cs_reconciled (contract_snapshot_of c) = False"
  by (simp_all add: contract_snapshot_of_def Let_def)

lemma reconcile_idle: "\<not> reconcile_due enabled c \<Longrightarrow> reconcile_candidate enabled now c db = (contract_snapshot_of c, c, db)"
  by (auto simp: reconcile_candidate_def reconcile_due_def Let_def)

lemma reconcile_acts:
  assumes due: "reconcile_due enabled c" and run: "reconcile_candidate enabled now c db = (snap, c', db')"
  shows "same_candidate c c'" "cd_state c' = project_legacy_state c" "cs_reconciled snap"
    "cs_evaluation_eligible snap = cs_evaluation_eligible (contract_snapshot_of c')" "cd_block_type c' = cd_block_type c"
    "cdb_ok db \<Longrightarrow> cdb_ok db'" "load_candidate (cd_trade_date c) (cd_code c) db' \<noteq> None"
    "load_candidate d k db' = (if (d, k) = (cd_trade_date c, cd_code c) then load_candidate d k db' else load_candidate d k db)"
proof -
  let ?t = "project_legacy_state c" and ?at = "At (whole_second now)" and ?snap = "contract_snapshot_of c"
  let ?r = "contract_reason (cd_state c) ?t"
  let ?c1 = "c\<lparr>cd_state := ?t, cd_metadata := (cd_metadata c)\<lparr>md_contract := Some (?snap, ?at, ?r)\<rparr>,
                cd_last_seen_at := stamp_or (cd_last_seen_at c) ?at\<rparr>"
  have rec: "save_reconciliation ?c1 (cd_state c) ?t ?r ?at ?snap db = (c', db')" and snap: "cs_reconciled snap"
      "cs_evaluation_eligible snap = cs_evaluation_eligible (contract_snapshot_of c')"
    using due run by (auto simp: reconcile_candidate_def reconcile_due_def Let_def split: prod.splits)
  obtain e saved db1 where save: "save_candidate_with_events ?c1 [e] db = (saved, db1)"
    and c': "c' = ?c1\<lparr>cd_id := cd_id saved\<rparr>" and db': "\<exists>t. db' = save_candidate_state_transition t db1"
    using rec unfolding save_reconciliation_def Let_def by (auto split: prod.splits)
  show "cs_reconciled snap" "cs_evaluation_eligible snap = cs_evaluation_eligible (contract_snapshot_of c')" by (rule snap)+
  show "same_candidate c c'" "cd_state c' = ?t" "cd_block_type c' = cd_block_type c" unfolding c' by (simp_all add: same_candidate_def)
  note r = save_with_events_result [OF save]
  show "cdb_ok db \<Longrightarrow> cdb_ok db'" using r(3) db' by auto
  show "load_candidate (cd_trade_date c) (cd_code c) db' \<noteq> None"
    "load_candidate d k db' = (if (d, k) = (cd_trade_date c, cd_code c) then load_candidate d k db' else load_candidate d k db)"
    using r(2) [of "cd_trade_date c" "cd_code c"] r(2) [of d k] db' by auto
qed

lemma reconcile_same:
  assumes "reconcile_candidate enabled now c db = (snap, c', db')"
  shows "same_candidate c c'" "cdb_ok db \<Longrightarrow> cdb_ok db'"
  using assms reconcile_acts [OF _ assms] by (cases "reconcile_due enabled c"; simp add: reconcile_idle)+

lemma due_target:
  assumes "reconcile_due enabled c"
  shows "project_legacy_state c = WATCHING \<or> project_legacy_state c = WAIT_DATA"
  using assms by (auto simp: reconcile_due_def state_change_allowed_def split: if_splits)

lemma same_hydration:
  assumes "same_candidate c c'" "cd_state c = WATCHING \<longleftrightarrow> cd_state c' = WATCHING"
  shows "hydration_complete c' = hydration_complete c"
  using same_candidateD [OF assms(1)] assms(2)
  by (simp add: hydration_complete_def basic_hydration_payload_complete_def split: option.split)

lemma projected_evaluable:
  assumes "project_legacy_state c = WATCHING \<or> project_legacy_state c = WAIT_DATA" "cd_state c \<noteq> project_legacy_state c"
  shows "contract_v2_state c \<in> evaluable_states" "\<not> is_terminal c"
    "project_legacy_state c = (if lifecycle_readiness c (hydration_complete c) False = ''HYDRATION_COMPLETE'' then WATCHING else WAIT_DATA)"
  using assms unfolding project_legacy_state_def Let_def by (auto split: if_splits)

lemma evaluable_stays:
  assumes "same_candidate c c'" "contract_v2_state c \<in> evaluable_states" "cd_state c' = WATCHING \<or> cd_state c' = WAIT_DATA"
  shows "contract_v2_state c' \<in> evaluable_states"
  using assms(2,3) same_candidateD(4) [OF assms(1)]
  by (auto simp: contract_v2_state_def evaluable_states_def split: option.splits if_splits)

lemma watching_rests:
  assumes "same_candidate c c'" "cd_state c' = WATCHING" "project_legacy_state c = WATCHING" "cd_state c \<noteq> WATCHING"
  shows "project_legacy_state c' = WATCHING"
proof -
  have p: "contract_v2_state c \<in> evaluable_states" "lifecycle_readiness c (hydration_complete c) False = ''HYDRATION_COMPLETE''"
    using projected_evaluable [of c] assms(3,4) by (auto split: if_splits)
  have "contract_v2_state c' \<in> evaluable_states" using evaluable_stays [OF assms(1) p(1)] assms(2) by blast
  moreover have "lifecycle_readiness c' (hydration_complete c') False = ''HYDRATION_COMPLETE''"
    using p(2) same_candidateD [OF assms(1)] assms(2)
    by (auto simp: lifecycle_readiness_def Let_def hydration_complete_def basic_hydration_payload_complete_def split: if_splits option.splits)
  ultimately show ?thesis using assms(2) by (auto simp: project_legacy_state_def Let_def is_terminal_def evaluable_states_def)
qed

lemma wait_data_projects:
  assumes "same_candidate c c'" "cd_state c' = WAIT_DATA" "contract_v2_state c \<in> evaluable_states"
  shows "project_legacy_state c' = WATCHING \<or> project_legacy_state c' = WAIT_DATA"
  using evaluable_stays [OF assms(1,3)] assms(2)
  by (auto simp: project_legacy_state_def Let_def is_terminal_def evaluable_states_def)

lemma due_once:
  assumes "reconcile_due enabled c" "reconcile_candidate enabled now c db = (snap, c', db')" "project_legacy_state c = WATCHING"
  shows "\<not> reconcile_due enabled c'"
  using reconcile_acts(1,2) [OF assms(1,2)] assms watching_rests [of c c'] by (auto simp: reconcile_due_def)

text \<open>C25: Reconciliation settles: after two of them in a row a third one leaves the candidate, its row and the logs
  as they are. (One may not be enough: a hydrating candidate whose hydration is complete goes to WAIT_DATA first.)\<close>
theorem reconciliation_settles:
  assumes run1: "reconcile_candidate enabled t1 c db = (s1, c1, db1)"
    and run2: "reconcile_candidate enabled t2 c1 db1 = (s2, c2, db2)"
    and run3: "reconcile_candidate enabled t3 c2 db2 = (s3, c3, db3)"
  shows "c3 = c2 \<and> db3 = db2 \<and> \<not> cs_reconciled s3"
proof -
  have "\<not> reconcile_due enabled c2"
  proof (cases "reconcile_due enabled c")
    case False
    with reconcile_idle [OF False] run1 have "c1 = c" by simp
    with False reconcile_idle [OF False] run2 show ?thesis by simp
  next
    case True
    note acts = reconcile_acts [OF True run1]
    show ?thesis
    proof (cases "reconcile_due enabled c1")
      case False
      with reconcile_idle [OF False] run2 show ?thesis by simp
    next
      case due1: True
      with due_once [OF True run1] due_target [OF True] have "cd_state c1 = WAIT_DATA" using acts(2) by auto
      moreover have "contract_v2_state c \<in> evaluable_states"
        using projected_evaluable(1) [OF due_target [OF True]] True by (simp add: reconcile_due_def)
      ultimately have "project_legacy_state c1 = WATCHING"
        using wait_data_projects [OF acts(1)] due1 by (auto simp: reconcile_due_def)
      from due_once [OF due1 run2 this] show ?thesis .
    qed
  qed
  with run3 show ?thesis by (auto simp: reconcile_idle)
qed

lemma readiness_complete:
  "lifecycle_readiness c h False = ''HYDRATION_COMPLETE'' \<longleftrightarrow> h \<and> cd_state c \<noteq> HYDRATING \<and>
     (case md_hydration (cd_metadata c) of None \<Rightarrow> True | Some m \<Rightarrow> upper (hy_status m) \<notin> {''RETRY_WAIT'', ''FAILED'', ''PENDING''})"
  by (auto simp: lifecycle_readiness_def Let_def split: option.splits)

text \<open>C26: Reconciliation lifts a block: a candidate that was blocked for good is WATCHING again after the next
  reconciliation when its hydration is complete, it has an active source and its second version is evaluable, and it
  may be evaluated; its block mark stays FINAL.\<close>
theorem blocked_candidate_is_revived:
  assumes "cd_state c = BLOCKED" "cd_block_type c = BLOCK_FINAL" "contract_v2_state c \<in> evaluable_states"
    and ready: "lifecycle_readiness c (hydration_complete c) False = ''HYDRATION_COMPLETE''" and "active_source_exists c"
    and run: "reconcile_candidate True now c db = (snap, c', db')"
  shows "cd_state c' = WATCHING \<and> cs_evaluation_eligible snap \<and> cd_block_type c' = BLOCK_FINAL"
proof -
  have target: "project_legacy_state c = WATCHING"
    using assms(1,3) ready by (auto simp: project_legacy_state_def Let_def is_terminal_def evaluable_states_def)
  have due: "reconcile_due True c"
    using assms(1,5) ready target by (simp add: reconcile_due_def state_change_allowed_def is_terminal_def readiness_complete)
  note acts = reconcile_acts [OF due run, unfolded target] and same = same_candidateD [OF reconcile_acts(1) [OF due run]]
  have "contract_v2_state c' \<in> evaluable_states" using evaluable_stays [OF acts(1) assms(3)] acts(2) by blast
  moreover have "hydration_complete c'" "active_source_exists c'" "\<not> is_terminal c'"
    using ready assms(1,5) same acts(2)
    by (auto simp: readiness_complete hydration_complete_def basic_hydration_payload_complete_def active_source_exists_def
        is_terminal_def Let_def split: option.splits)
  moreover have "lifecycle_readiness c' (hydration_complete c') False = ''HYDRATION_COMPLETE''"
    using ready same acts(2) calculation(2) by (auto simp: readiness_complete split: option.splits)
  ultimately show ?thesis using acts assms(2) by (auto simp: eligibility_def Let_def)
qed

text \<open>A candidate that is hydrated, in a given state.\<close>

definition sample_candidate :: "candidate_state \<Rightarrow> block_type \<Rightarrow> candidate" where
  "sample_candidate st block = \<lparr>cd_id = 1, cd_trade_date = ''2026-06-17'', cd_code = ''005930'', cd_name = [], cd_market = [],
     cd_strategy_profile = None, cd_sources = [SRC_CONDITION_SEARCH], cd_priority = 0, cd_theme_ids = [], cd_state = st,
     cd_detected_at = At 0, cd_last_seen_at = At 0, cd_expires_at = Blank, cd_condition_names = [], cd_block_type = block,
     cd_recheck_after_sec = 0, cd_can_recover = False,
     cd_metadata = no_metadata\<lparr>md_hydration := Some \<lparr>hy_status = ''MERGED'', hy_basic_complete = True, hy_parsed_code = [],
       hy_current_price = 0, hy_price = 0, hy_prev_close = 0, hy_change_rate = 0, hy_change_rate_pct = 0\<rparr>\<rparr>\<rparr>"

lemma reconcile_parts:
  "reconcile_candidate enabled now c db =
     (fst (reconcile_candidate enabled now c db), fst (snd (reconcile_candidate enabled now c db)),
      snd (snd (reconcile_candidate enabled now c db)))"
  by simp

theorem blocked_candidate_is_revived_witness:
  "let r = reconcile_candidate True 0 (sample_candidate BLOCKED BLOCK_FINAL) empty_candidate_db
   in cd_state (fst (snd r)) = WATCHING \<and> cs_evaluation_eligible (fst r) \<and> cd_block_type (fst (snd r)) = BLOCK_FINAL"
proof -
  have "contract_v2_state (sample_candidate BLOCKED BLOCK_FINAL) \<in> evaluable_states"
    by (simp add: sample_candidate_def contract_v2_state_def no_metadata_def text_or_def py_simps runtime_of_text_def runtime_states_def
        evaluable_states_def)
  moreover have "lifecycle_readiness (sample_candidate BLOCKED BLOCK_FINAL) (hydration_complete (sample_candidate BLOCKED BLOCK_FINAL)) False =
      ''HYDRATION_COMPLETE''"
    unfolding readiness_complete by (simp add: sample_candidate_def hydration_complete_def upper_def upper_char_def)
  moreover have "active_source_exists (sample_candidate BLOCKED BLOCK_FINAL)"
    by (simp add: sample_candidate_def active_source_exists_def no_metadata_def)
  ultimately show ?thesis
    unfolding Let_def by (intro blocked_candidate_is_revived [OF _ _ _ _ _ reconcile_parts]) (simp_all add: sample_candidate_def)
qed

theorem reconciliation_settles_witness:
  "let r1 = reconcile_candidate True 0 (sample_candidate HYDRATING BLOCK_NONE) empty_candidate_db;
       r2 = reconcile_candidate True 1 (fst (snd r1)) (snd (snd r1));
       r3 = reconcile_candidate True 2 (fst (snd r2)) (snd (snd r2))
   in snd r3 = snd r2 \<and> \<not> cs_reconciled (fst r3)"
  unfolding Let_def using reconciliation_settles [OF reconcile_parts reconcile_parts reconcile_parts] by (simp add: prod_eq_iff)

end
