(* ===== verification/Candidate_Fsm.thy ===== *)
theory Candidate_Fsm
  imports Candidate_Contract
begin

text \<open>
  The candidate state machine of the second version (\<open>trading/strategy/candidate_fsm.py\<close>) and its use by the
  evaluator of dirty codes (\<open>trading/strategy/dirty_strategy_evaluator.py\<close>). Every operation writes the dictionary
  \<open>candidate_fsm\<close> of the candidate, lets the contract reconcile the stored state, and logs a transition, the last
  of the transitions in the database, which is the value that the code returns (without its random identifier).
\<close>

section \<open>Dictionary of the state machine\<close>

definition NEXT_REQUIRED_ACTION :: "(string \<times> string) list" where
  "NEXT_REQUIRED_ACTION =
     [(''LATEST_TICK_MISSING'', ''WAIT_REALTIME_TICK''), (''LATEST_TICK_STALE'', ''WAIT_FRESH_REALTIME_TICK''),
      (''TR_BACKFILL_PRICE_ONLY'', ''WAIT_REALTIME_TICK''), (''HYDRATION_PENDING'', ''WAIT_TR_BACKFILL''),
      (''THEME_NOT_READY'', ''WAIT_THEME_STRENGTH''), (''MARKET_RISK_OFF'', ''WAIT_MARKET_RECOVERY''),
      (''ROLE_NOT_ALLOWED'', ''WAIT_ROLE_ALLOWED''), (''PRICE_TIMING_NOT_READY'', ''WAIT_PRICE_OR_VWAP_RECOVERY''),
      (''ORDER_RISK_BLOCKED'', ''CHECK_ORDER_RISK''), (''ORDER_RISK_REJECTED'', ''CHECK_ORDER_RISK''),
      (''ORDER_MANAGER_OBSERVE_ONLY'', ''WAIT_ORDER_MANAGER_ENABLEMENT''), (''RECONCILE_REQUIRED'', ''RECONCILE_ORDER_STATE''),
      (''STOP_NEW_BUY'', ''WAIT_RISK_RECOVERY''), (''GATEWAY_UNHEALTHY'', ''CHECK_GATEWAY_HEALTH''),
      (''OBSERVE_READY_ORDER_DISABLED'', ''WAIT_ORDER_MANAGER_PR'')]"

definition next_required_action :: "string \<Rightarrow> string" where
  "next_required_action reason = (case map_of NEXT_REQUIRED_ACTION reason of Some a \<Rightarrow> a | None \<Rightarrow> [])"

text \<open>\<open>[str(x) for x in list(d.get(k) or [])]\<close>; the entry is a list where it is present.\<close>

definition text_items :: "pydict \<Rightarrow> string \<Rightarrow> string list" where
  "text_items d k = (case dget d k of PList xs \<Rightarrow> map py_str xs | _ \<Rightarrow> [])"

text \<open>\<open>d.update(entries)\<close> and the last 20 of a list.\<close>

definition dict_update :: "(string \<times> pyval) list \<Rightarrow> pydict \<Rightarrow> pydict" where
  "dict_update entries d = fold (\<lambda>(k, v). AList.update k v) entries d"

definition last_twenty :: "'a list \<Rightarrow> 'a list" where
  "last_twenty xs = drop (length xs - 20) xs"

text \<open>The details of an operation: the entries that the state machine looks at, and what is logged.\<close>

record fsm_details =
  fd_is_fresh :: "bool option"
  fd_freshness_status :: string
  fd_price_source :: string
  fd_data :: candidate_payload

definition plain_details :: "pydict \<Rightarrow> fsm_details" where
  "plain_details d = \<lparr>fd_is_fresh = None, fd_freshness_status = [], fd_price_source = [], fd_data = DictPayload d\<rparr>"

definition fsm_of :: "candidate \<Rightarrow> pydict" where
  "fsm_of c = md_fsm (cd_metadata c)"

definition fsm_v2_state :: "candidate \<Rightarrow> runtime_state" where
  "fsm_v2_state c =
     (case runtime_of_text (text_or (fsm_of c) ''v2_state'' []) of Some s \<Rightarrow> s | None \<Rightarrow> legacy_to_v2_state (cd_state c))"

definition has_fresh_realtime_tick :: "candidate \<Rightarrow> bool" where
  "has_fresh_realtime_tick c \<longleftrightarrow>
     lower (text_or (fsm_of c) ''latest_tick_fresh'' []) = ''true'' \<or>
     upper (text_or (fsm_of c) ''price_source'' []) = ''REALTIME'' \<and> upper (text_or (fsm_of c) ''freshness_status'' []) = ''FRESH'' \<or>
     upper (md_entry_timing_source (cd_metadata c)) = ''REALTIME_TICK''"

definition fsm_entries :: "pydict \<Rightarrow> runtime_state \<Rightarrow> string \<Rightarrow> string \<Rightarrow> string list \<Rightarrow> string \<Rightarrow> stamp \<Rightarrow> fsm_details \<Rightarrow> pydict" where
  "fsm_entries fsm target reason stage reason_codes source_event_id occurred details =
     (let existing = filter (\<lambda>s. s \<noteq> []) (text_items fsm ''source_event_ids'');
          existing = (if source_event_id \<noteq> [] \<and> source_event_id \<notin> set existing then existing @ [source_event_id] else existing)
      in [(''v2_state'', PStr (runtime_text target)), (''blocking_stage'', PStr stage), (''primary_reason_code'', PStr reason),
          (''reason_codes'', PList (map PStr (dedupe (text_items fsm ''reason_codes'' @ reason_codes)))),
          (''next_required_action'', PStr (next_required_action reason)),
          (''source_event_ids'', PList (map PStr (last_twenty existing))), (''last_transition_at'', stamp_val occurred)] @
         (case fd_is_fresh details of Some b \<Rightarrow> [(''latest_tick_fresh'', PStr (if b then ''true'' else ''false''))] | None \<Rightarrow> []) @
         (if fd_freshness_status details \<noteq> [] then [(''freshness_status'', PStr (fd_freshness_status details))] else []) @
         (if fd_price_source details \<noteq> [] then [(''price_source'', PStr (fd_price_source details))] else []))"

section \<open>Operations\<close>

definition apply_fsm ::
  "bool \<Rightarrow> time \<Rightarrow> runtime_state \<Rightarrow> string \<Rightarrow> string \<Rightarrow> string list \<Rightarrow> string \<Rightarrow> string \<Rightarrow> string \<Rightarrow> fsm_details \<Rightarrow>
   candidate \<Rightarrow> candidate_db \<Rightarrow> candidate \<times> candidate_db" where
  "apply_fsm enabled now target reason stage reason_codes source_event_id source_event_type component details c db =
     (let previous = fsm_v2_state c; occurred = At (whole_second now);
          fsm = dict_update (fsm_entries (fsm_of c) target reason stage reason_codes source_event_id occurred details) (fsm_of c);
          (_, c, db) = reconcile_candidate enabled now (c\<lparr>cd_metadata := (cd_metadata c)\<lparr>md_fsm := fsm\<rparr>\<rparr>) db
      in (c, save_candidate_state_transition
            \<lparr>ct_trade_date = cd_trade_date c, ct_candidate_id = cd_id c, ct_code = cd_code c,
             ct_from_state = runtime_text previous, ct_to_state = runtime_text target, ct_blocking_stage = stage,
             ct_reason_code = reason, ct_reason_codes = reason_codes, ct_next_required_action = next_required_action reason,
             ct_source_event_id = source_event_id, ct_source_event_type = source_event_type, ct_source_component = component,
             ct_occurred_at = occurred, ct_details = fd_data details\<rparr> db))"

definition ready_states :: "runtime_state set" where
  "ready_states = {V2_SETUP_READY, V2_TIMING_READY}"

definition apply_blocking_reason ::
  "bool \<Rightarrow> time \<Rightarrow> string \<Rightarrow> string \<Rightarrow> fsm_details \<Rightarrow> string \<Rightarrow> string \<Rightarrow> string \<Rightarrow> candidate \<Rightarrow> candidate_db \<Rightarrow> candidate \<times> candidate_db" where
  "apply_blocking_reason enabled now stage reason details source_event_id source_event_type component c db =
     (let current = (if cd_state c \<in> {WAIT_DATA, WATCHING} then legacy_to_v2_state (cd_state c) else fsm_v2_state c);
          target = (if current \<in> ready_states \<and> stage = ''DATA'' then V2_WATCHING else current)
      in apply_fsm enabled now target reason stage [reason] source_event_id source_event_type component details c db)"

definition promote ::
  "bool \<Rightarrow> time \<Rightarrow> runtime_state \<Rightarrow> string \<Rightarrow> string \<Rightarrow> string \<Rightarrow> string \<Rightarrow> string \<Rightarrow> fsm_details \<Rightarrow> candidate \<Rightarrow> candidate_db \<Rightarrow>
   candidate \<times> candidate_db" where
  "promote enabled now target reason stage source_event_id source_event_type component details c db =
     (let (target, stage, reason) =
            (if target \<in> ready_states \<and> \<not> has_fresh_realtime_tick c then (V2_WATCHING, ''DATA'', ''LATEST_TICK_MISSING'')
             else (target, stage, reason))
      in apply_fsm enabled now target reason stage [reason] source_event_id source_event_type component details c db)"

definition contract_hydrated_active :: "candidate \<Rightarrow> bool" where
  "contract_hydrated_active c \<longleftrightarrow>
     (let snap = contract_snapshot_of c in cs_hydration_complete snap \<and> cs_active_source_exists snap \<and> \<not> cs_terminal snap)"

definition condition_include_target :: "candidate \<Rightarrow> runtime_state" where
  "condition_include_target c =
     (let current = fsm_v2_state c in
      if current \<in> {V2_WATCHING, V2_SETUP_READY, V2_TIMING_READY} then current
      else if current \<in> {V2_REMOVED, V2_EXPIRED, V2_CLOSED} then
        (if contract_hydrated_active c then V2_WATCHING else V2_DISCOVERED)
      else if cd_state c \<in> {WAIT_DATA, WATCHING} \<and> contract_hydrated_active c then V2_WATCHING
      else V2_DISCOVERED)"

text \<open>The input that holds the candidate, with the identifier of its event and its payload.\<close>

definition on_condition_include :: "bool \<Rightarrow> time \<Rightarrow> string \<Rightarrow> fsm_details \<Rightarrow> candidate \<Rightarrow> candidate_db \<Rightarrow> candidate \<times> candidate_db" where
  "on_condition_include enabled now source_event_id details c db =
     promote enabled now (condition_include_target c) ''CONDITION_INCLUDE'' ''NONE'' source_event_id ''condition_include''
       ''CandidateIngestionService'' details c db"

definition on_condition_remove :: "bool \<Rightarrow> time \<Rightarrow> string \<Rightarrow> fsm_details \<Rightarrow> candidate \<Rightarrow> candidate_db \<Rightarrow> candidate \<times> candidate_db" where
  "on_condition_remove enabled now source_event_id details c db =
     promote enabled now (if cd_state c = REMOVED then V2_REMOVED else fsm_v2_state c) ''CONDITION_REMOVE'' ''NONE'' source_event_id
       ''condition_remove'' ''CandidateIngestionService'' details c db"

definition on_hydration_requested :: "bool \<Rightarrow> time \<Rightarrow> candidate \<Rightarrow> candidate_db \<Rightarrow> candidate \<times> candidate_db" where
  "on_hydration_requested enabled now c db =
     promote enabled now V2_HYDRATING ''HYDRATION_REQUESTED'' ''DATA'' [] ''hydration_request'' ''CandidateHydrator'' (plain_details []) c db"

record hydration_result =
  hr_market_data_merged :: bool
  hr_source_event_id :: string
  hr_details :: fsm_details

definition on_hydration_result :: "bool \<Rightarrow> time \<Rightarrow> hydration_result \<Rightarrow> candidate \<Rightarrow> candidate_db \<Rightarrow> candidate \<times> candidate_db" where
  "on_hydration_result enabled now r c db =
     (if has_fresh_realtime_tick c then
        promote enabled now V2_WATCHING ''REALTIME_TICK_FRESH'' ''NONE'' (hr_source_event_id r) ''hydration_result'' ''CandidateHydrator''
          (hr_details r) c db
      else
        apply_blocking_reason enabled now ''DATA''
          (if hr_market_data_merged r then ''TR_BACKFILL_PRICE_ONLY'' else ''LATEST_TICK_MISSING'') (hr_details r) (hr_source_event_id r)
          ''hydration_result'' ''CandidateHydrator'' c db)"

text \<open>A market data snapshot, of which \<open>None\<close> is the missing one.\<close>

record market_view =
  mv_is_fresh :: bool
  mv_price_source :: string
  mv_freshness_status :: string
  mv_source_event_id :: string
  mv_payload :: pydict

definition market_details :: "market_view option \<Rightarrow> fsm_details" where
  "market_details s =
     (case s of None \<Rightarrow> plain_details []
      | Some v \<Rightarrow> \<lparr>fd_is_fresh = Some (mv_is_fresh v), fd_freshness_status = mv_freshness_status v,
                   fd_price_source = mv_price_source v, fd_data = DictPayload (mv_payload v)\<rparr>)"

definition fresh_realtime :: "market_view option \<Rightarrow> bool" where
  "fresh_realtime s \<longleftrightarrow>
     (case s of None \<Rightarrow> False | Some v \<Rightarrow> mv_is_fresh v \<and> upper (str_or (mv_price_source v) ''REALTIME'') \<noteq> ''TR_BACKFILL'')"

definition tick_reason :: "market_view option \<Rightarrow> string" where
  "tick_reason s =
     (case s of None \<Rightarrow> ''LATEST_TICK_MISSING''
      | Some v \<Rightarrow> if upper (mv_price_source v) = ''TR_BACKFILL'' then ''TR_BACKFILL_PRICE_ONLY'' else ''LATEST_TICK_STALE'')"

definition on_realtime_tick :: "bool \<Rightarrow> time \<Rightarrow> market_view option \<Rightarrow> candidate \<Rightarrow> candidate_db \<Rightarrow> candidate \<times> candidate_db" where
  "on_realtime_tick enabled now s c db =
     (let event_id = (case s of None \<Rightarrow> [] | Some v \<Rightarrow> mv_source_event_id v) in
      if fresh_realtime s then
        promote enabled now V2_WATCHING ''REALTIME_TICK_FRESH'' ''NONE'' event_id ''price_tick'' ''MarketDataService'' (market_details s) c db
      else apply_blocking_reason enabled now ''DATA'' (tick_reason s) (market_details s) event_id ''price_tick'' ''MarketDataService'' c db)"

section \<open>Reading\<close>

record fsm_snapshot =
  fs_candidate_id :: int
  fs_trade_date :: string
  fs_code :: string
  fs_v2_state :: string
  fs_blocking_stage :: string
  fs_primary_reason_code :: string
  fs_reason_codes :: "string list"
  fs_next_required_action :: string
  fs_source_event_ids :: "string list"
  fs_last_transition_at :: stamp

definition transition_snapshot :: "candidate \<Rightarrow> fsm_snapshot" where
  "transition_snapshot c =
     (let d = fsm_of c in
      \<lparr>fs_candidate_id = cd_id c, fs_trade_date = cd_trade_date c, fs_code = cd_code c,
       fs_v2_state = text_or d ''v2_state'' (runtime_text (fsm_v2_state c)), fs_blocking_stage = text_or d ''blocking_stage'' ''NONE'',
       fs_primary_reason_code = text_or d ''primary_reason_code'' [], fs_reason_codes = text_items d ''reason_codes'',
       fs_next_required_action = text_or d ''next_required_action'' [], fs_source_event_ids = text_items d ''source_event_ids'',
       fs_last_transition_at = val_stamp (dget d ''last_transition_at'')\<rparr>)"

definition counts_of :: "('a \<Rightarrow> string) \<Rightarrow> 'a list \<Rightarrow> (string \<times> int) list" where
  "counts_of f xs = fold (\<lambda>x d. AList.update (f x) ((case map_of d (f x) of Some n \<Rightarrow> n | None \<Rightarrow> 0) + 1) d) xs []"

record fsm_summary =
  fm_state_counts :: "(string \<times> int) list"
  fm_blocking_stage_counts :: "(string \<times> int) list"
  fm_top_reason_codes :: "(string \<times> int) list"
  fm_transition_count :: int
  fm_last_transition_at :: stamp

definition candidate_fsm_summary :: "string \<Rightarrow> candidate_db \<Rightarrow> int \<times> stamp" where
  "candidate_fsm_summary trade_date db =
     (let ts = filter (\<lambda>t. ct_trade_date t = trade_date) (db_transitions db)
      in (int (length ts), fold (\<lambda>t s. max s (ct_occurred_at t)) ts Blank))"

definition summary :: "string \<Rightarrow> candidate_db \<Rightarrow> fsm_summary" where
  "summary trade_date db =
     (let snaps = map transition_snapshot (list_candidates trade_date db); (count, last_at) = candidate_fsm_summary trade_date db
      in \<lparr>fm_state_counts = counts_of fs_v2_state snaps, fm_blocking_stage_counts = counts_of fs_blocking_stage snaps,
          fm_top_reason_codes = take 10 (descending snd
            (counts_of fs_primary_reason_code (filter (\<lambda>s. fs_primary_reason_code s \<noteq> []) snaps))),
          fm_transition_count = count, fm_last_transition_at = last_at\<rparr>)"

section \<open>The evaluator of dirty codes\<close>

text \<open>What the evaluator reads of a decision of the entry engine.\<close>

record decision_view =
  dv_trade_date :: string
  dv_code :: string
  dv_data_ready_status :: string
  dv_theme_ready_status :: string
  dv_market_ready_status :: string
  dv_role_ready_status :: string
  dv_price_timing_status :: string
  dv_entry_status :: string
  dv_reason_codes :: "string list"
  dv_payload :: pydict

definition ends_with_ready :: "string \<Rightarrow> bool" where
  "ends_with_ready s \<longleftrightarrow> length s \<ge> 6 \<and> drop (length s - 6) s = ''_READY''"

definition primary_reason :: "decision_view \<Rightarrow> string \<Rightarrow> string" where
  "primary_reason d dflt =
     (case find (\<lambda>s. s \<noteq> [] \<and> \<not> ends_with_ready s) (dv_reason_codes d) of Some s \<Rightarrow> s | None \<Rightarrow> dflt)"

definition fsm_target :: "decision_view \<Rightarrow> market_view option \<Rightarrow> string \<times> string \<times> runtime_state option" where
  "fsm_target d s =
     (if \<not> fresh_realtime s then (''DATA'', ''LATEST_TICK_MISSING'', None)
      else if dv_data_ready_status d \<noteq> ''PASS'' then (''DATA'', primary_reason d ''LATEST_TICK_MISSING'', None)
      else if dv_theme_ready_status d \<noteq> ''PASS'' then (''THEME'', primary_reason d ''THEME_NOT_READY'', None)
      else if dv_market_ready_status d \<noteq> ''PASS'' then (''MARKET'', primary_reason d ''MARKET_RISK_OFF'', None)
      else if dv_role_ready_status d \<noteq> ''PASS'' then (''ROLE'', primary_reason d ''ROLE_NOT_ALLOWED'', None)
      else if dv_price_timing_status d \<noteq> ''PASS'' then (''PRICE'', primary_reason d ''PRICE_TIMING_NOT_READY'', Some V2_SETUP_READY)
      else if dv_entry_status d = ''OBSERVE_READY'' then (''NONE'', ''OBSERVE_READY_ORDER_DISABLED'', Some V2_TIMING_READY)
      else (''PRICE'', primary_reason d ''PRICE_TIMING_NOT_READY'', None))"

definition evaluation_details :: "decision_view \<Rightarrow> string \<Rightarrow> fsm_details" where
  "evaluation_details d dirty_reason =
     plain_details [(''dirty_reason'', PStr dirty_reason), (''entry_decision'', PDict (dv_payload d))]"

definition promote_if_changed ::
  "bool \<Rightarrow> time \<Rightarrow> runtime_state \<Rightarrow> string \<Rightarrow> string \<Rightarrow> decision_view \<Rightarrow> candidate \<Rightarrow> candidate_db \<Rightarrow> candidate \<times> candidate_db" where
  "promote_if_changed enabled now target reason dirty_reason d c db =
     (let snap = transition_snapshot c in
      if fs_v2_state snap = runtime_text target \<and> fs_primary_reason_code snap = reason \<and> fs_blocking_stage snap = ''NONE'' then (c, db)
      else promote enabled now target reason ''NONE'' [] ''dirty_strategy_evaluation'' ''DirtyStrategyEvaluator''
             (evaluation_details d dirty_reason) c db)"

definition block_if_changed ::
  "bool \<Rightarrow> time \<Rightarrow> string \<Rightarrow> string \<Rightarrow> string \<Rightarrow> decision_view \<Rightarrow> candidate \<Rightarrow> candidate_db \<Rightarrow> candidate \<times> candidate_db" where
  "block_if_changed enabled now stage reason dirty_reason d c db =
     (let snap = transition_snapshot c in
      if fs_blocking_stage snap = stage \<and> fs_primary_reason_code snap = reason then (c, db)
      else apply_blocking_reason enabled now stage reason (evaluation_details d dirty_reason) [] ''dirty_strategy_evaluation''
             ''DirtyStrategyEvaluator'' c db)"

definition sync_one ::
  "bool \<Rightarrow> time \<Rightarrow> market_view option \<Rightarrow> string \<Rightarrow> decision_view \<Rightarrow> candidate \<Rightarrow> candidate_db \<Rightarrow> candidate \<times> candidate_db" where
  "sync_one enabled now s dirty_reason d c db =
     (let (c, db) = (if s = None then (c, db) else on_realtime_tick enabled now s c db);
          (stage, reason, target) = fsm_target d s;
          (c, db) = (case target of Some t \<Rightarrow> promote_if_changed enabled now t reason dirty_reason d c db
                     | None \<Rightarrow> block_if_changed enabled now stage reason dirty_reason d c db);
          (_, c, db) = reconcile_candidate enabled now c db
      in save_candidate c db)"

definition sync_candidate_fsm ::
  "bool \<Rightarrow> time \<Rightarrow> (string \<Rightarrow> market_view option) \<Rightarrow> (string \<times> string) list \<Rightarrow> decision_view list \<Rightarrow> candidate_db \<Rightarrow>
   (string \<times> int) list \<times> candidate_db" where
  "sync_candidate_fsm enabled now snapshot_of reason_by_code decisions db =
     fold (\<lambda>d (counts, db).
         case load_candidate (dv_trade_date d) (dv_code d) db of
           None \<Rightarrow> (counts, db)
         | Some c \<Rightarrow>
             let s = snapshot_of (dv_code d); stage = fst (fsm_target d s);
                 reason = (case map_of reason_by_code (dv_code d) of Some r \<Rightarrow> r | None \<Rightarrow> [])
             in (AList.update stage ((case map_of counts stage of Some n \<Rightarrow> n | None \<Rightarrow> 0) + 1) counts,
                 snd (sync_one enabled now s reason d c db)))
       decisions ([], db)"

end
