(* ===== verification/Candidate_Fsm_Facts.thy ===== *)
theory Candidate_Fsm_Facts
  imports Candidate_Fsm
begin

text \<open>What one operation of the candidate state machine leaves in the candidate: the entries of its dictionary and the
  stored state.\<close>

declare map_of_eq_Some_iff [simp del] split_paired_All [simp del] split_paired_Ex [simp del]

section \<open>The dictionary after an operation\<close>

lemma dget_dict_update:
  "dget (dict_update es d) k = (case map_of (rev es) k of Some v \<Rightarrow> v | None \<Rightarrow> dget d k)"
proof (induction es arbitrary: d)
  case (Cons e es)
  show ?case
    using Cons [of "AList.update (fst e) (snd e) d"]
    by (cases e) (auto simp: dict_update_def dget_def dict_simps map_add_def split: option.splits)
qed (simp add: dict_update_def)

lemma dict_update_nonempty: "es \<noteq> [] \<Longrightarrow> dict_update es d \<noteq> []"
proof (induction es arbitrary: d)
  case (Cons e es)
  show ?case
  proof (cases "es = []")
    case True
    then show ?thesis by (cases e; cases d) (auto simp: dict_update_def)
  next
    case False
    from Cons.IH [OF this] show ?thesis by (simp add: dict_update_def)
  qed
qed simp

lemma fsm_entries_lookup:
  fixes target :: runtime_state and fsm :: pydict and reason stage sid :: string and rcs :: "string list"
    and occ :: stamp and det :: fsm_details
  defines "es \<equiv> fsm_entries fsm target reason stage rcs sid occ det"
  shows "dget (dict_update es fsm) ''v2_state'' = PStr (runtime_text target)"
    "dget (dict_update es fsm) ''blocking_stage'' = PStr stage"
    "dget (dict_update es fsm) ''primary_reason_code'' = PStr reason"
    "dget (dict_update es fsm) ''latest_tick_fresh'' =
       (case fd_is_fresh det of Some b \<Rightarrow> PStr (if b then ''true'' else ''false'') | None \<Rightarrow> dget fsm ''latest_tick_fresh'')"
    "dget (dict_update es fsm) ''price_source'' =
       (if fd_price_source det \<noteq> [] then PStr (fd_price_source det) else dget fsm ''price_source'')"
    "dget (dict_update es fsm) ''freshness_status'' =
       (if fd_freshness_status det \<noteq> [] then PStr (fd_freshness_status det) else dget fsm ''freshness_status'')"
    "dict_update es fsm \<noteq> []"
proof -
  show "dict_update es fsm \<noteq> []" unfolding es_def by (rule dict_update_nonempty) (simp add: fsm_entries_def Let_def)
qed (simp_all add: es_def dget_dict_update fsm_entries_def Let_def split: option.split)

lemma apply_fsm_result:
  assumes "apply_fsm enabled now target reason stage rcs sid sty cmp det c db = (c', db')"
  shows "fsm_of c' = dict_update (fsm_entries (fsm_of c) target reason stage rcs sid (At (whole_second now)) det) (fsm_of c)"
    "md_entry_timing_source (cd_metadata c') = md_entry_timing_source (cd_metadata c)"
    "cd_trade_date c' = cd_trade_date c" "cd_code c' = cd_code c" "cdb_ok db \<Longrightarrow> cdb_ok db'"
proof -
  let ?fsm = "dict_update (fsm_entries (fsm_of c) target reason stage rcs sid (At (whole_second now)) det) (fsm_of c)"
  let ?c = "c\<lparr>cd_metadata := (cd_metadata c)\<lparr>md_fsm := ?fsm\<rparr>\<rparr>"
  obtain snap db1 where run: "reconcile_candidate enabled now ?c db = (snap, c', db1)" and db': "\<exists>t. db' = save_candidate_state_transition t db1"
    using assms by (auto simp: apply_fsm_def Let_def split: prod.splits)
  note same = reconcile_same [OF run] and d = same_candidateD [OF reconcile_same(1) [OF run]]
  show "fsm_of c' = ?fsm" "md_entry_timing_source (cd_metadata c') = md_entry_timing_source (cd_metadata c)"
    "cd_trade_date c' = cd_trade_date c" "cd_code c' = cd_code c"
    using d by (simp_all add: fsm_of_def)
  show "cdb_ok db \<Longrightarrow> cdb_ok db'" using same(2) db' by auto
qed

text \<open>Every operation of the state machine is one application with its details.\<close>

lemma operations_apply:
  "\<exists>t r st. promote e now target reason stage sid sty cmp det c db = apply_fsm e now t r st [r] sid sty cmp det c db"
  "\<exists>t. apply_blocking_reason e now stage reason det sid sty cmp c db = apply_fsm e now t reason stage [reason] sid sty cmp det c db"
  by (auto simp: promote_def apply_blocking_reason_def Let_def)

section \<open>Operations that leave the stored state\<close>

lemma watching_stays: "cd_state c = WATCHING \<Longrightarrow> \<not> reconcile_due enabled c"
  using due_target [of enabled c] by (auto simp: reconcile_due_def state_change_allowed_def)

definition fsm_written :: "time \<Rightarrow> runtime_state \<Rightarrow> string \<Rightarrow> string \<Rightarrow> string list \<Rightarrow> string \<Rightarrow> fsm_details \<Rightarrow> candidate \<Rightarrow> candidate" where
  "fsm_written now target reason stage rcs sid det c =
     c\<lparr>cd_metadata := (cd_metadata c)\<lparr>md_fsm :=
       dict_update (fsm_entries (fsm_of c) target reason stage rcs sid (At (whole_second now)) det) (fsm_of c)\<rparr>\<rparr>"

lemma fsm_written_simps [simp]:
  "cd_state (fsm_written now target reason stage rcs sid det c) = cd_state c"
  "cd_trade_date (fsm_written now target reason stage rcs sid det c) = cd_trade_date c"
  "cd_code (fsm_written now target reason stage rcs sid det c) = cd_code c"
  "fsm_of (fsm_written now target reason stage rcs sid det c) =
     dict_update (fsm_entries (fsm_of c) target reason stage rcs sid (At (whole_second now)) det) (fsm_of c)"
  by (simp_all add: fsm_written_def fsm_of_def)

lemma apply_fsm_idle:
  assumes "\<not> reconcile_due enabled (fsm_written now target reason stage rcs sid det c)"
  shows "\<exists>x. apply_fsm enabled now target reason stage rcs sid sty cmp det c db =
      (fsm_written now target reason stage rcs sid det c, save_candidate_state_transition x db) \<and> ct_to_state x = runtime_text target"
  using reconcile_idle [OF assms, unfolded fsm_written_def]
  by (simp add: apply_fsm_def Let_def fsm_written_def) (rule exI, rule conjI, rule refl, simp)

lemma apply_fsm_watching:
  assumes "cd_state c = WATCHING"
  shows "\<exists>x. apply_fsm enabled now target reason stage rcs sid sty cmp det c db =
      (fsm_written now target reason stage rcs sid det c, save_candidate_state_transition x db) \<and> ct_to_state x = runtime_text target"
  using assms by (intro apply_fsm_idle) (simp add: watching_stays)

end
