(* ===== verification/Candidate_Props.thy ===== *)
theory Candidate_Props
  imports Order_Manager Candidate_Fsm_Facts
begin

text \<open>
  What the candidate state machine guarantees to the order manager, which asks \<open>candidate_allows_entry\<close> before it
  turns a decision into an order.
\<close>

declare map_of_eq_Some_iff [simp del] split_paired_All [simp del] split_paired_Ex [simp del]

definition view_of :: "candidate \<Rightarrow> candidate_view" where
  "view_of c = \<lparr>cv_state = candidate_state_text (cd_state c), cv_fsm = fsm_of c\<rparr>"

section \<open>Runs without a tick\<close>

definition quiet :: "fsm_details \<Rightarrow> bool" where
  "quiet det \<longleftrightarrow> fd_is_fresh det = None \<and> fd_freshness_status det = [] \<and> fd_price_source det = []"

text \<open>
  One operation that brings no tick: the details of condition events, hydration results, evaluations, risk checks and
  hydration failures hold none of the entries on freshness.
\<close>

inductive quiet_step :: "bool \<Rightarrow> candidate \<times> candidate_db \<Rightarrow> candidate \<times> candidate_db \<Rightarrow> bool" for enabled where
  included: "quiet det \<Longrightarrow> quiet_step enabled (c, db) (on_condition_include enabled now sid det c db)"
| removed: "quiet det \<Longrightarrow> quiet_step enabled (c, db) (on_condition_remove enabled now sid det c db)"
| hydration_requested: "quiet_step enabled (c, db) (on_hydration_requested enabled now c db)"
| hydrated: "quiet (hr_details r) \<Longrightarrow> quiet_step enabled (c, db) (on_hydration_result enabled now r c db)"
| no_snapshot: "quiet_step enabled (c, db) (on_realtime_tick enabled now None c db)"
| promoted: "quiet det \<Longrightarrow> quiet_step enabled (c, db) (promote enabled now target reason stage sid sty cmp det c db)"
| blocked: "quiet det \<Longrightarrow> quiet_step enabled (c, db) (apply_blocking_reason enabled now stage reason det sid sty cmp c db)"
| reconciled: "quiet_step enabled (c, db) (snd (reconcile_candidate enabled now c db))"
| saved: "quiet_step enabled (c, db) (save_candidate c db)"

definition barred :: "candidate \<Rightarrow> bool" where
  "barred c \<longleftrightarrow> fsm_of c \<noteq> [] \<and>
     (dget (fsm_of c) ''latest_tick_fresh'' = PStr ''false'' \<or>
      (\<exists>s. dget (fsm_of c) ''price_source'' = PStr s \<and> upper s = ''TR_BACKFILL''))"

lemma barred_refused:
  assumes "barred c"
  shows "\<not> candidate_allows_entry (view_of c)"
proof -
  have "lower ''false'' = ''false''" by code_simp
  moreover have "s \<noteq> []" if "upper s = ''TR_BACKFILL''" for s using that by (auto simp: upper_def)
  ultimately show ?thesis
    using assms by (auto simp: barred_def candidate_allows_entry_def view_of_def text_or_def py_or_def)
qed

lemma barred_apply:
  assumes "barred c" "quiet det" "apply_fsm e now t r st rcs sid sty cmp det c db = (c', db')"
  shows "barred c'"
  using assms(1,2) fsm_entries_lookup(4,5,7) [of "fsm_of c" t r st rcs sid "At (whole_second now)" det]
  unfolding barred_def apply_fsm_result(1) [OF assms(3)] by (simp add: quiet_def)

lemma barred_quiet:
  assumes "quiet_step enabled s s'" "barred (fst s)"
  shows "barred (fst s')"
proof -
  have app: "barred (fst (apply_fsm e now t r st rcs sid sty cmp det c db))"
    if "barred c" "quiet det" for e now t r st rcs sid sty cmp det c db
    using barred_apply [OF that prod.collapse [symmetric]] .
  have pr: "barred (fst (promote e now t r st sid sty cmp det c db))"
    and bl: "barred (fst (apply_blocking_reason e now st r det sid sty cmp c db))"
    if "barred c" "quiet det" for e now t r st sid sty cmp det c db
    using operations_apply app [OF that] by metis+
  have plain: "quiet (plain_details d)" for d by (simp add: quiet_def plain_details_def)
  from assms show ?thesis
  proof (cases rule: quiet_step.cases)
    case (reconciled c db now)
    have "fsm_of (fst (snd (reconcile_candidate enabled now c db))) = fsm_of c"
      using same_candidateD(4) [OF reconcile_same(1) [OF reconcile_parts]] by (simp add: fsm_of_def)
    with reconciled assms(2) show ?thesis by (simp add: barred_def)
  next
    case (saved c db)
    have "fsm_of (fst (save_candidate c db)) = fsm_of c"
      by (auto simp: save_candidate_def Let_def fsm_of_def split: option.split)
    with saved assms(2) show ?thesis by (simp add: barred_def)
  qed (use assms(2) pr bl plain in \<open>simp_all add: on_condition_include_def on_condition_remove_def on_hydration_requested_def
      on_hydration_result_def on_realtime_tick_def market_details_def fresh_realtime_def Let_def\<close>)
qed

text \<open>C24: After a tick that is not fresh, or that comes from a backfill, the order manager refuses the candidate until a
  tick arrives: whatever condition events, hydration results, evaluations, blocks, reconciliations and saves follow,
  in any order, the candidate does not allow an entry.\<close>
theorem stale_tick_bars_entry:
  assumes "\<not> fresh_realtime (Some v)"
    and tick: "on_realtime_tick enabled now (Some v) c db = (c1, db1)"
    and run: "(quiet_step enabled)\<^sup>*\<^sup>* (c1, db1) (c2, db2)"
  shows "\<not> candidate_allows_entry (view_of c2)"
proof -
  let ?det = "market_details (Some v)"
  obtain t where "apply_fsm enabled now t (tick_reason (Some v)) ''DATA'' [tick_reason (Some v)] (mv_source_event_id v) ''price_tick''
      ''MarketDataService'' ?det c db = (c1, db1)"
    using tick assms(1) by (auto simp: on_realtime_tick_def apply_blocking_reason_def Let_def)
  note f = apply_fsm_result(1) [OF this]
  have "upper s = ''TR_BACKFILL'' \<Longrightarrow> s \<noteq> []" for s by (auto simp: upper_def)
  moreover have "upper ''REALTIME'' \<noteq> ''TR_BACKFILL''" by code_simp
  ultimately have "barred c1"
    using assms(1) unfolding barred_def f fsm_entries_lookup
    by (auto simp: market_details_def fresh_realtime_def str_or_def fsm_entries_lookup split: if_splits)
  from run have "barred (fst (c2, db2))"
    by (induction rule: rtranclp_induct) (simp_all add: \<open>barred c1\<close> barred_quiet)
  then show ?thesis using barred_refused by simp
qed

section \<open>A passed evaluation opens the entry\<close>

lemma save_candidate_view:
  "view_of (fst (save_candidate c db)) = view_of c" "db_transitions (snd (save_candidate c db)) = db_transitions db"
  by (simp_all add: save_candidate_def Let_def view_of_def fsm_of_def split: option.splits)

text \<open>Evaluation opens the entry: when a watched candidate has a fresh realtime tick and its decision passed every check,
  the order manager allows the entry after the evaluation. Each such evaluation logs two transitions, to WATCHING and
  back to TIMING_READY, even when the candidate was TIMING_READY before.\<close>
lemma passed_evaluation_opens_entry:
  assumes "cd_state c = WATCHING" "mv_is_fresh v" "upper (mv_price_source v) = ''REALTIME''"
    and pass: "dv_data_ready_status d = ''PASS''" "dv_theme_ready_status d = ''PASS''" "dv_market_ready_status d = ''PASS''"
      "dv_role_ready_status d = ''PASS''" "dv_price_timing_status d = ''PASS''" "dv_entry_status d = ''OBSERVE_READY''"
    and run: "sync_one enabled now (Some v) dirty_reason d c db = (c', db')"
  shows "candidate_allows_entry (view_of c') \<and>
    map ct_to_state (db_transitions db') = map ct_to_state (db_transitions db) @ [''WATCHING'', ''TIMING_READY'']"
proof -
  let ?det = "market_details (Some v)"
  let ?c1 = "fsm_written now V2_WATCHING ''REALTIME_TICK_FRESH'' ''NONE'' [''REALTIME_TICK_FRESH''] (mv_source_event_id v) ?det c"
  let ?c2 = "fsm_written now V2_TIMING_READY ''OBSERVE_READY_ORDER_DISABLED'' ''NONE'' [''OBSERVE_READY_ORDER_DISABLED''] []
      (evaluation_details d dirty_reason) ?c1"
  have src: "mv_price_source v \<noteq> []" using assms(3) by (auto simp: upper_def)
  have fresh: "fresh_realtime (Some v)" using assms(2,3) src by (simp add: fresh_realtime_def str_or_def)
  obtain x where tick: "on_realtime_tick enabled now (Some v) c db = (?c1, save_candidate_state_transition x db)"
    and x: "ct_to_state x = ''WATCHING''"
    using apply_fsm_watching [OF assms(1)] fresh by (fastforce simp: on_realtime_tick_def promote_def ready_states_def)
  let ?db1 = "save_candidate_state_transition x db"
  have look: "dget (fsm_of ?c1) ''latest_tick_fresh'' = PStr ''true''" "dget (fsm_of ?c1) ''primary_reason_code'' = PStr ''REALTIME_TICK_FRESH''"
      "dget (fsm_of ?c1) ''price_source'' = PStr (mv_price_source v)"
    using src assms(2) by (simp_all add: fsm_entries_lookup market_details_def)
  have low: "lower ''true'' = ''true''" by code_simp
  have "has_fresh_realtime_tick ?c1" using look(1) low by (simp add: has_fresh_realtime_tick_def text_or_def py_or_def)
  moreover have "fs_primary_reason_code (transition_snapshot ?c1) = ''REALTIME_TICK_FRESH''"
    using look(2) by (simp add: transition_snapshot_def Let_def text_or_def py_or_def)
  ultimately obtain y where prom: "promote_if_changed enabled now V2_TIMING_READY ''OBSERVE_READY_ORDER_DISABLED'' dirty_reason d ?c1 ?db1 =
      (?c2, save_candidate_state_transition y ?db1)" and y: "ct_to_state y = ''TIMING_READY''"
    using apply_fsm_watching [of ?c1] assms(1) by (fastforce simp: promote_if_changed_def promote_def)
  have target: "fsm_target d (Some v) = (''NONE'', ''OBSERVE_READY_ORDER_DISABLED'', Some V2_TIMING_READY)"
    using fresh pass by (simp add: fsm_target_def)
  have "reconcile_candidate enabled now ?c2 db2 = (contract_snapshot_of ?c2, ?c2, db2)" for db2
    using assms(1) by (intro reconcile_idle) (simp add: watching_stays)
  with run have save: "save_candidate ?c2 (save_candidate_state_transition y ?db1) = (c', db')"
    by (simp add: sync_one_def tick target prom)
  have allows: "candidate_allows_entry (view_of ?c2)"
    using assms(1,3) src look(1,3) low
    by (simp add: candidate_allows_entry_def view_of_def ENTRY_ALLOWED_CANDIDATE_STATES_def text_or_def py_or_def fsm_entries_lookup
        evaluation_details_def plain_details_def)
  show ?thesis
    using save_candidate_view [of ?c2 "save_candidate_state_transition y ?db1"] allows x y
    unfolding save fst_conv snd_conv by (simp add: save_candidate_state_transition_def)
qed

definition sample_tick :: "bool \<Rightarrow> market_view" where
  "sample_tick fresh = \<lparr>mv_is_fresh = fresh, mv_price_source = ''REALTIME'', mv_freshness_status = (if fresh then ''FRESH'' else ''STALE''),
     mv_source_event_id = ''evt-1'', mv_payload = []\<rparr>"

definition passed_decision :: decision_view where
  "passed_decision = \<lparr>dv_trade_date = ''2026-06-17'', dv_code = ''005930'', dv_data_ready_status = ''PASS'', dv_theme_ready_status = ''PASS'',
     dv_market_ready_status = ''PASS'', dv_role_ready_status = ''PASS'', dv_price_timing_status = ''PASS'',
     dv_entry_status = ''OBSERVE_READY'', dv_reason_codes = [], dv_payload = []\<rparr>"

theorem stale_tick_bars_entry_witness:
  "let s = on_realtime_tick True 0 (Some (sample_tick False)) (sample_candidate WATCHING BLOCK_NONE) empty_candidate_db;
       s' = on_hydration_requested True 1 (fst s) (snd s)
   in \<not> candidate_allows_entry (view_of (fst s'))"
proof -
  let ?s = "on_realtime_tick True 0 (Some (sample_tick False)) (sample_candidate WATCHING BLOCK_NONE) empty_candidate_db"
  let ?s' = "on_hydration_requested True 1 (fst ?s) (snd ?s)"
  have "(quiet_step True)\<^sup>*\<^sup>* (fst ?s, snd ?s) (fst ?s', snd ?s')"
    using quiet_step.hydration_requested [of True "fst ?s" "snd ?s" 1] by auto
  from stale_tick_bars_entry [OF _ prod.collapse [symmetric] this] show ?thesis
    by (simp add: Let_def fresh_realtime_def sample_tick_def)
qed

end
