(* ===== verification/Candidate_Collector.thy ===== *)
theory Candidate_Collector
  imports Broker_Models Candidate_Model
begin

text \<open>
  The collector of candidates from condition events (\<open>trading/strategy/candidates.py\<close>): the life cycle of a
  candidate's state, and the operations that create, merge, remove, revive, watch and expire candidates. The client's
  name lookup and the session callback are parameters.
\<close>

section \<open>Life cycle\<close>

definition FORBIDDEN_ORDER_STATES :: "candidate_state list" where
  "FORBIDDEN_ORDER_STATES = [ORDER_DECIDED, ORDER_SENT, FILLED, CANCELLED]"

fun lifecycle_allowed :: "candidate_state \<Rightarrow> candidate_state list" where
  "lifecycle_allowed DETECTED = [HYDRATING, WATCHING, WAIT_DATA, BLOCKED, REMOVED, EXPIRED]"
| "lifecycle_allowed HYDRATING = [WATCHING, WAIT_DATA, BLOCKED, REMOVED, EXPIRED]"
| "lifecycle_allowed WATCHING = [DETECTED, HYDRATING, WAIT_DATA, READY, BLOCKED, REMOVED, EXPIRED]"
| "lifecycle_allowed WAIT_DATA = [HYDRATING, WATCHING, BLOCKED, REMOVED, EXPIRED]"
| "lifecycle_allowed READY = [WATCHING, WAIT_DATA, BLOCKED, REMOVED, EXPIRED]"
| "lifecycle_allowed BLOCKED = [HYDRATING, WATCHING, WAIT_DATA, READY, REMOVED, EXPIRED]"
| "lifecycle_allowed REMOVED = [DETECTED]"
| "lifecycle_allowed EXPIRED = [DETECTED]"
| "lifecycle_allowed _ = []"

definition validate_transition :: "candidate_state option \<Rightarrow> candidate_state \<Rightarrow> py_error + unit" where
  "validate_transition from_state to_state =
     (if to_state \<in> set FORBIDDEN_ORDER_STATES then Inl ValueError
      else case from_state of
        None \<Rightarrow> if to_state = DETECTED then Inr () else Inl ValueError
      | Some s \<Rightarrow> if s = to_state \<or> to_state \<in> set (lifecycle_allowed s) then Inr () else Inl ValueError)"

definition transition :: "candidate \<Rightarrow> candidate_state \<Rightarrow> py_error + candidate" where
  "transition c to_state = bindE (validate_transition (Some (cd_state c)) to_state) (\<lambda>_. Inr (c\<lparr>cd_state := to_state\<rparr>))"

section \<open>Conditions of a candidate\<close>

definition is_valid_stock_code :: "string \<Rightarrow> bool" where
  "is_valid_stock_code code \<longleftrightarrow> (let value = normalize_code code in length value = 6 \<and> isdigit value)"

definition add_unique :: "'a list \<Rightarrow> 'a \<Rightarrow> 'a list" where
  "add_unique items v = (if v \<in> set items then items else items @ [v])"

definition merge_condition_metadata :: "broker_condition_event \<Rightarrow> condition_meta \<Rightarrow> condition_meta" where
  "merge_condition_metadata e m =
     (let m = (if ce_strategy_profile e \<noteq> []
               then m\<lparr>cm_profiles := AList.update (ce_condition_name e) (ce_strategy_profile e) (cm_profiles m)\<rparr> else m)
      in if ce_purpose e \<noteq> [] then m\<lparr>cm_purposes := AList.update (ce_condition_name e) (ce_purpose e) (cm_purposes m)\<rparr> else m)"

text \<open>The first known profile that is not the discovery profile, else the first one if it is known.\<close>

definition profile_from_condition_metadata :: "condition_meta \<Rightarrow> strategy_profile option \<Rightarrow> strategy_profile option" where
  "profile_from_condition_metadata m fallback =
     (let raw = filter (\<lambda>s. s \<noteq> []) (map snd (cm_profiles m)) in
      case find (\<lambda>s. s \<noteq> ''THEME_DISCOVERY_PROFILE'' \<and> profile_of_text s \<noteq> None) raw of
        Some s \<Rightarrow> profile_of_text s
      | None \<Rightarrow> (case raw of s # _ \<Rightarrow> (case profile_of_text s of Some p \<Rightarrow> Some p | None \<Rightarrow> fallback) | [] \<Rightarrow> fallback))"

definition is_theme_discovery_condition :: "string \<Rightarrow> string \<Rightarrow> bool" where
  "is_theme_discovery_condition profile purpose \<longleftrightarrow>
     profile = ''THEME_DISCOVERY_PROFILE'' \<or> purpose = ''theme_broad_candidate''"

definition text_at :: "(string \<times> string) list \<Rightarrow> string \<Rightarrow> string" where
  "text_at d k = (case map_of d k of Some v \<Rightarrow> v | None \<Rightarrow> [])"

definition refresh_condition_entry_metadata :: "candidate \<Rightarrow> candidate" where
  "refresh_condition_entry_metadata c =
     (let m = md_condition (cd_metadata c);
          discovery = filter (\<lambda>name. is_theme_discovery_condition (text_at (cm_profiles m) name) (text_at (cm_purposes m) name))
            (uniq (map fst (cm_profiles m) @ map fst (cm_purposes m)));
          entry = filter (\<lambda>name. name \<notin> set discovery) (cd_condition_names c);
          only = SRC_CONDITION \<in> set (cd_sources c) \<and> discovery \<noteq> [] \<and> entry = []
      in c\<lparr>cd_metadata := (cd_metadata c)\<lparr>md_condition := m\<lparr>cm_discovery_names := sort discovery, cm_entry_names := entry,
             cm_entry_excluded := only, cm_excluded_reason := (if only then ''theme_broad_candidate'' else [])\<rparr>\<rparr>\<rparr>)"

definition set_condition :: "candidate \<Rightarrow> condition_meta \<Rightarrow> candidate" where
  "set_condition c m = c\<lparr>cd_metadata := (cd_metadata c)\<lparr>md_condition := m\<rparr>\<rparr>"

definition condition_payload :: "broker_condition_event \<Rightarrow> candidate \<Rightarrow> candidate_payload" where
  "condition_payload e c =
     DictPayload [(''code'', PStr (cd_code c)), (''condition_name'', PStr (ce_condition_name e)),
       (''condition_index'', PInt (ce_condition_index e)), (''strategy_profile'', PStr (ce_strategy_profile e)),
       (''purpose'', PStr (ce_purpose e)), (''source'', PStr ''condition''),
       (''sources'', PList (map (\<lambda>s. PStr (source_text s)) (cd_sources c))),
       (''condition_names'', PList (map PStr (cd_condition_names c)))]"

section \<open>The collector\<close>

record collector_env =
  en_now :: time
  en_trade_date :: string
  en_ttl_minutes :: int
  en_name_of :: "string \<Rightarrow> string"
  en_session :: "(time \<Rightarrow> string + bool) option"

record collector =
  co_warnings :: "string list"
  co_db :: candidate_db

definition expires_from :: "collector_env \<Rightarrow> stamp" where
  "expires_from env = At (whole_second (en_now env + en_ttl_minutes env * 60000000))"

definition now_stamp :: "collector_env \<Rightarrow> stamp" where
  "now_stamp env = At (whole_second (en_now env))"

definition collector_event ::
  "collector_env \<Rightarrow> string \<Rightarrow> candidate \<Rightarrow> candidate_state option \<Rightarrow> candidate_state option \<Rightarrow> candidate_source option \<Rightarrow> string \<Rightarrow>
   candidate_payload \<Rightarrow> candidate_event" where
  "collector_event env event_type c from_state to_state src reason payload =
     \<lparr>ce_candidate_id = cd_id c, ce_event_type = event_type, ce_from_state = from_state, ce_to_state = to_state, ce_source = src,
      ce_reason = reason, ce_created_at = now_stamp env, ce_payload = payload\<rparr>"

text \<open>Saving with events; the row read back is the result.\<close>

definition keep :: "candidate \<Rightarrow> candidate_event list \<Rightarrow> collector \<Rightarrow> candidate \<times> collector" where
  "keep c events s = (let (saved, db) = save_candidate_with_events c events (co_db s) in (saved, s\<lparr>co_db := db\<rparr>))"

definition reject_condition_event :: "collector_env \<Rightarrow> broker_condition_event \<Rightarrow> string \<Rightarrow> string \<Rightarrow> string \<Rightarrow> collector \<Rightarrow> collector" where
  "reject_condition_event env e action warning reason s =
     (let warning = str_or warning (''INVALID_CONDITION_CODE:'' @ ce_condition_name e @ '':'' @ ce_code e);
          payload = DictPayload [(''raw_code'', PStr (ce_code e)), (''normalized_code'', PStr (normalize_code (ce_code e))),
            (''condition_name'', PStr (ce_condition_name e)), (''condition_index'', PInt (ce_condition_index e)),
            (''event_action'', PStr action), (''strategy_profile'', PStr (ce_strategy_profile e)), (''purpose'', PStr (ce_purpose e)),
            (''source'', PStr ''condition''), (''warning'', PStr warning), (''reject_reason'', PStr reason)]
      in s\<lparr>co_warnings := co_warnings s @ [warning],
           co_db := save_candidate_event
             \<lparr>ce_candidate_id = 0, ce_event_type = ''candidate_rejected'', ce_from_state = None, ce_to_state = None,
              ce_source = Some SRC_CONDITION, ce_reason = reason, ce_created_at = now_stamp env, ce_payload = payload\<rparr> (co_db s)\<rparr>)"

definition condition_event_is_allowed :: "collector_env \<Rightarrow> broker_condition_event \<Rightarrow> string \<Rightarrow> collector \<Rightarrow> bool \<times> collector" where
  "condition_event_is_allowed env e action s =
     (case en_session env of
        None \<Rightarrow> (True, s)
      | Some check \<Rightarrow>
          (case check (en_now env) of
             Inl text \<Rightarrow> (True, s\<lparr>co_warnings := co_warnings s @ [''CONDITION_EVENT_SESSION_CHECK_FAILED:'' @ text]\<rparr>)
           | Inr allowed \<Rightarrow>
               if allowed then (True, s)
               else (False, reject_condition_event env e action
                      (''MARKET_SESSION_CLOSED_CONDITION_EVENT:'' @ ce_condition_name e @ '':'' @ normalize_code (ce_code e))
                      ''market session closed'' s)))"

definition new_condition_candidate :: "collector_env \<Rightarrow> broker_condition_event \<Rightarrow> string \<Rightarrow> candidate" where
  "new_condition_candidate env e code =
     (let m = merge_condition_metadata e (no_condition\<lparr>cm_indices := [(ce_condition_name e, ce_condition_index e)]\<rparr>) in
      refresh_condition_entry_metadata
        \<lparr>cd_id = 0, cd_trade_date = en_trade_date env, cd_code = code, cd_name = en_name_of env code, cd_market = [],
         cd_strategy_profile = profile_from_condition_metadata m None, cd_sources = [SRC_CONDITION], cd_priority = 0,
         cd_theme_ids = [], cd_state = DETECTED, cd_detected_at = now_stamp env, cd_last_seen_at = now_stamp env,
         cd_expires_at = expires_from env, cd_condition_names = [ce_condition_name e], cd_block_type = BLOCK_NONE,
         cd_recheck_after_sec = 0, cd_can_recover = False, cd_metadata = no_metadata\<lparr>md_condition := m\<rparr>\<rparr>)"

definition clear_block :: "candidate \<Rightarrow> candidate" where
  "clear_block c = c\<lparr>cd_block_type := BLOCK_NONE, cd_can_recover := False, cd_recheck_after_sec := 0\<rparr>"

definition was_ended :: "candidate \<Rightarrow> bool" where
  "was_ended c \<longleftrightarrow> cd_state c \<in> {REMOVED, EXPIRED}"

text \<open>An old candidate after another include of a condition.\<close>

definition merged_condition_candidate :: "collector_env \<Rightarrow> broker_condition_event \<Rightarrow> candidate \<Rightarrow> candidate" where
  "merged_condition_candidate env e c =
     (let c = c\<lparr>cd_sources := add_unique (cd_sources c) SRC_CONDITION,
               cd_condition_names := add_unique (cd_condition_names c) (ce_condition_name e)\<rparr>;
          m = md_condition (cd_metadata c);
          m = merge_condition_metadata e (m\<lparr>cm_indices := AList.update (ce_condition_name e) (ce_condition_index e) (cm_indices m)\<rparr>);
          c = set_condition c m;
          c = c\<lparr>cd_strategy_profile := profile_from_condition_metadata m (cd_strategy_profile c)\<rparr>
      in (refresh_condition_entry_metadata c)\<lparr>cd_last_seen_at := now_stamp env, cd_expires_at := expires_from env\<rparr>)"

definition handle_condition_include :: "collector_env \<Rightarrow> broker_condition_event \<Rightarrow> collector \<Rightarrow> py_error + candidate option \<times> collector" where
  "handle_condition_include env e s =
     (let code = normalize_code (ce_code e); name = ce_condition_name e in
      if \<not> is_valid_stock_code code then Inr (None, reject_condition_event env e ''include'' [] ''invalid condition code'' s)
      else let (allowed, s) = condition_event_is_allowed env e ''include'' s in
      if \<not> allowed then Inr (None, s)
      else case load_candidate (en_trade_date env) code (co_db s) of
        None \<Rightarrow>
          let c = new_condition_candidate env e code in
          bindE (validate_transition None (cd_state c)) (\<lambda>_.
            let (saved, s) = keep c [collector_event env ''candidate_detected'' c None (Some DETECTED) (Some SRC_CONDITION)
                  ''condition include'' (condition_payload e c)] s
            in Inr (Some saved, s))
      | Some old \<Rightarrow>
          bindE (if was_ended old then bindE (transition old DETECTED) (\<lambda>c. Inr (clear_block c)) else Inr old) (\<lambda>c.
            let old_m = md_condition (cd_metadata old); c = merged_condition_candidate env e c; m = md_condition (cd_metadata c);
                changed = was_ended old \<or> SRC_CONDITION \<notin> set (cd_sources old) \<or> name \<notin> set (cd_condition_names old) \<or>
                  map_of (cm_indices old_m) name \<noteq> Some (ce_condition_index e) \<or>
                  map_of (cm_profiles old_m) name \<noteq> map_of (cm_profiles m) name \<or>
                  map_of (cm_purposes old_m) name \<noteq> map_of (cm_purposes m) name
            in if \<not> changed then let (saved, db) = save_candidate c (co_db s) in Inr (Some saved, s\<lparr>co_db := db\<rparr>)
               else let (saved, s) = keep c [collector_event env (if was_ended old then ''candidate_reactivated'' else ''candidate_merged'')
                       c (Some (cd_state old)) (Some (cd_state c)) (Some SRC_CONDITION) ''condition include'' (condition_payload e c)] s
                    in Inr (Some saved, s)))"

text \<open>A candidate without one of its conditions.\<close>

definition without_condition :: "string \<Rightarrow> candidate \<Rightarrow> candidate" where
  "without_condition name c =
     (let m = md_condition (cd_metadata c);
          m = m\<lparr>cm_indices := AList.delete name (cm_indices m), cm_profiles := AList.delete name (cm_profiles m),
                cm_purposes := AList.delete name (cm_purposes m)\<rparr>;
          c = set_condition (c\<lparr>cd_condition_names := remove1 name (cd_condition_names c)\<rparr>) m
      in refresh_condition_entry_metadata (c\<lparr>cd_strategy_profile := profile_from_condition_metadata m (cd_strategy_profile c)\<rparr>))"

definition drop_condition_source :: "candidate \<Rightarrow> candidate" where
  "drop_condition_source c =
     (if cd_condition_names c = [] then c\<lparr>cd_sources := remove1 SRC_CONDITION (cd_sources c)\<rparr> else c)"

definition handle_condition_remove :: "collector_env \<Rightarrow> broker_condition_event \<Rightarrow> collector \<Rightarrow> py_error + candidate option \<times> collector" where
  "handle_condition_remove env e s =
     (let code = normalize_code (ce_code e) in
      if \<not> is_valid_stock_code code then Inr (None, reject_condition_event env e ''remove'' [] ''invalid condition code'' s)
      else let (allowed, s) = condition_event_is_allowed env e ''remove'' s in
      if \<not> allowed then Inr (None, s)
      else case load_candidate (en_trade_date env) code (co_db s) of
        None \<Rightarrow> Inr (None, s)
      | Some old \<Rightarrow>
          let c = without_condition (ce_condition_name e) old;
              removed = collector_event env ''condition_removed'' c (Some (cd_state old)) (Some (cd_state c)) (Some SRC_CONDITION)
                ''condition remove'' (condition_payload e c);
              c = drop_condition_source c
          in bindE
               (if cd_sources c = [] \<and> cd_state c \<in> {DETECTED, WATCHING, READY, BLOCKED} then
                  bindE (transition c REMOVED) (\<lambda>c. Inr (c, [removed, collector_event env ''candidate_removed'' c (Some (cd_state old))
                    (Some REMOVED) (Some SRC_CONDITION) ''all condition sources removed'' (condition_payload e c)]))
                else Inr (c, [removed])) (\<lambda>(c, events).
             let (saved, s) = keep (c\<lparr>cd_last_seen_at := now_stamp env\<rparr>) events s in Inr (Some saved, s)))"

definition add_manual_debug_candidate :: "collector_env \<Rightarrow> string \<Rightarrow> string \<Rightarrow> collector \<Rightarrow> py_error + candidate \<times> collector" where
  "add_manual_debug_candidate env code name s =
     (let clean = normalize_code code;
          payload = DictPayload [(''code'', PStr clean), (''source'', PStr ''manual_debug'')]
      in case load_candidate (en_trade_date env) clean (co_db s) of
        None \<Rightarrow>
          let c = \<lparr>cd_id = 0, cd_trade_date = en_trade_date env, cd_code = clean, cd_name = name, cd_market = [],
                cd_strategy_profile = None, cd_sources = [SRC_MANUAL_DEBUG], cd_priority = 0, cd_theme_ids = [], cd_state = DETECTED,
                cd_detected_at = now_stamp env, cd_last_seen_at = now_stamp env, cd_expires_at = expires_from env,
                cd_condition_names = [], cd_block_type = BLOCK_NONE, cd_recheck_after_sec = 0, cd_can_recover = False,
                cd_metadata = no_metadata\<lparr>md_manual_debug := True\<rparr>\<rparr>
          in Inr (keep c [collector_event env ''candidate_detected'' c None (Some DETECTED) (Some SRC_MANUAL_DEBUG)
                 ''manual debug candidate'' payload] s)
      | Some old \<Rightarrow>
          bindE (if was_ended old then transition old DETECTED else Inr old) (\<lambda>c.
            let c = c\<lparr>cd_sources := add_unique (cd_sources c) SRC_MANUAL_DEBUG, cd_name := str_or name (cd_name c),
                  cd_metadata := (cd_metadata c)\<lparr>md_manual_debug := True\<rparr>, cd_last_seen_at := now_stamp env,
                  cd_expires_at := expires_from env\<rparr>
            in Inr (keep c [collector_event env (if was_ended old then ''candidate_reactivated'' else ''candidate_merged'') c
                 (Some (cd_state old)) (Some (cd_state c)) (Some SRC_MANUAL_DEBUG) ''manual debug candidate'' payload] s)))"

definition mark_watching :: "collector_env \<Rightarrow> string \<Rightarrow> string option \<Rightarrow> string \<Rightarrow> collector \<Rightarrow> py_error + candidate \<times> collector" where
  "mark_watching env code trade_date reason s =
     (let day = (case trade_date of Some d \<Rightarrow> str_or d (en_trade_date env) | None \<Rightarrow> en_trade_date env) in
      case load_candidate day (normalize_code code) (co_db s) of
        None \<Rightarrow> Inl KeyError
      | Some old \<Rightarrow>
          bindE (transition old WATCHING) (\<lambda>c.
            let c = clear_block c in
            if cd_state old = WATCHING \<and> cd_block_type old = cd_block_type c \<and> cd_can_recover old = cd_can_recover c \<and>
               cd_recheck_after_sec old = cd_recheck_after_sec c
            then Inr (c, s)
            else Inr (keep c [collector_event env ''state_changed'' c (Some (cd_state old)) (Some WATCHING) None
                   (str_or reason ''watching started'') (DictPayload [(''code'', PStr (cd_code c))])] s)))"

section \<open>Expiry\<close>

definition expiry_due :: "time \<Rightarrow> (candidate \<Rightarrow> time \<Rightarrow> bool) option \<Rightarrow> candidate \<Rightarrow> bool" where
  "expiry_due now keep_alive c \<longleftrightarrow>
     \<not> (cd_state c = BLOCKED \<and> cd_block_type c \<noteq> BLOCK_TEMPORARY) \<and>
     cd_state c \<in> {DETECTED, WATCHING, READY, BLOCKED} \<and>
     (case cd_expires_at c of Blank \<Rightarrow> False | At t \<Rightarrow> t \<le> now) \<and>
     (case keep_alive of Some f \<Rightarrow> \<not> f c now | None \<Rightarrow> True)"

definition expire_one ::
  "collector_env \<Rightarrow> time \<Rightarrow> (candidate \<Rightarrow> time \<Rightarrow> bool) option \<Rightarrow> candidate \<Rightarrow> candidate list \<times> collector \<Rightarrow>
   py_error + candidate list \<times> collector" where
  "expire_one env now keep_alive c es =
     (case es of (expired, s) \<Rightarrow>
        if \<not> expiry_due now keep_alive c then Inr (expired, s)
        else bindE (transition c EXPIRED) (\<lambda>c'.
          let (saved, s) = keep c' [collector_event env ''candidate_expired'' c' (Some (cd_state c)) (Some EXPIRED) None
                ''candidate ttl expired'' (DictPayload [(''code'', PStr (cd_code c)), (''expires_at'', stamp_val (cd_expires_at c))])] s
          in Inr (expired @ [saved], s)))"

fun expire_all ::
  "collector_env \<Rightarrow> time \<Rightarrow> (candidate \<Rightarrow> time \<Rightarrow> bool) option \<Rightarrow> candidate list \<Rightarrow> candidate list \<times> collector \<Rightarrow>
   py_error + candidate list \<times> collector" where
  "expire_all env now keep_alive [] es = Inr es"
| "expire_all env now keep_alive (c # cs) es = bindE (expire_one env now keep_alive c es) (expire_all env now keep_alive cs)"

definition expire_stale ::
  "collector_env \<Rightarrow> time option \<Rightarrow> (candidate \<Rightarrow> time \<Rightarrow> bool) option \<Rightarrow> collector \<Rightarrow> py_error + candidate list \<times> collector" where
  "expire_stale env now keep_alive s =
     (let current = (case now of Some t \<Rightarrow> t | None \<Rightarrow> en_now env)
      in expire_all env current keep_alive (list_candidates (en_trade_date env) (co_db s)) ([], s))"

section \<open>Quality of a candidate\<close>

definition candidate_is_discovery_only :: "candidate \<Rightarrow> bool" where
  "candidate_is_discovery_only c \<longleftrightarrow>
     (let m = md_condition (cd_metadata c) in
      if cm_entry_names m \<noteq> [] then False
      else cm_entry_excluded m \<or> ''THEME_DISCOVERY_PROFILE'' \<in> set (map snd (cm_profiles m)) \<or>
           ''theme_broad_candidate'' \<in> set (map snd (cm_purposes m)) \<or> cd_strategy_profile c = Some THEME_DISCOVERY_PROFILE)"

definition candidate_quality_status :: "candidate \<Rightarrow> bool option \<Rightarrow> string" where
  "candidate_quality_status c has_active_theme =
     (if \<not> is_valid_stock_code (cd_code c) then ''invalid_code''
      else if has_active_theme = Some False then ''unmapped''
      else if candidate_is_discovery_only c then ''discovery_only''
      else if md_sub_status (cd_metadata c) = ''DATA_INSUFFICIENT'' \<or>
              ''DATA_INSUFFICIENT'' \<in> set (md_insufficient_reason (cd_metadata c)) then ''data_wait''
      else ''actionable'')"

section \<open>Rows move along the life cycle\<close>

declare map_of_eq_Some_iff [simp del] split_paired_All [simp del] split_paired_Ex [simp del]

text \<open>A change of state is recorded by an event with the state before and the state after.\<close>

definition recorded :: "candidate_event list \<Rightarrow> candidate_state option \<Rightarrow> candidate \<Rightarrow> bool" where
  "recorded events before c \<longleftrightarrow>
     list_ex (\<lambda>e. ce_candidate_id e = cd_id c \<and> ce_from_state e = before \<and> ce_to_state e = Some (cd_state c)) events"

text \<open>What one operation may do to a row: a new row is DETECTED, an old one keeps its identifier and makes at most one
  allowed transition, and both are recorded.\<close>

fun row_moves :: "candidate_event list \<Rightarrow> candidate option \<Rightarrow> candidate option \<Rightarrow> bool" where
  "row_moves events None None = True"
| "row_moves events (Some c) None = False"
| "row_moves events None (Some c') = (cd_state c' = DETECTED \<and> recorded events None c')"
| "row_moves events (Some c) (Some c') =
     (cd_id c' = cd_id c \<and>
      (cd_state c' = cd_state c \<or> cd_state c' \<in> set (lifecycle_allowed (cd_state c)) \<and> recorded events (Some (cd_state c)) c'))"

definition rows_move :: "candidate_db \<Rightarrow> candidate_db \<Rightarrow> bool" where
  "rows_move db db' \<longleftrightarrow> (cdb_ok db \<longrightarrow> cdb_ok db') \<and>
     (\<exists>events. db_events db' = db_events db @ events \<and> (\<forall>d k. row_moves events (load_candidate d k db) (load_candidate d k db')))"

lemma recorded_more: "recorded events before c \<Longrightarrow> recorded (events @ rest) before c"
  by (simp add: recorded_def)

lemma row_moves_refl [simp]: "row_moves events r r"
  by (cases r) simp_all

lemma row_moves_more: "row_moves events r r' \<Longrightarrow> row_moves (events @ rest) r r'"
  by (cases r; cases r') (auto intro: recorded_more)

lemma rows_move_refl [simp]: "rows_move db db"
  by (auto simp: rows_move_def)

text \<open>A candidate about to be written with its events.\<close>

definition told :: "candidate_event list \<Rightarrow> int set \<Rightarrow> candidate_state option \<Rightarrow> candidate_state \<Rightarrow> bool" where
  "told events ids before after \<longleftrightarrow>
     (\<exists>e\<in>set events. ce_candidate_id e \<in> ids \<and> ce_from_state e = before \<and> ce_to_state e = Some after)"

definition continues :: "candidate_db \<Rightarrow> candidate_event list \<Rightarrow> candidate \<Rightarrow> bool" where
  "continues db events c \<longleftrightarrow>
     (case load_candidate (cd_trade_date c) (cd_code c) db of
        Some old \<Rightarrow> cd_state c = cd_state old \<or>
          cd_state c \<in> set (lifecycle_allowed (cd_state old)) \<and> told events {0, cd_id old} (Some (cd_state old)) (cd_state c)
      | None \<Rightarrow> cd_state c = DETECTED \<and> told events {0} None DETECTED)"

lemma told_recorded:
  assumes "told events ids before (cd_state c)" "ids \<subseteq> {0, cd_id c}"
  shows "recorded (map (\<lambda>e. if ce_candidate_id e = 0 then e\<lparr>ce_candidate_id := cd_id c\<rparr> else e) events) before c"
proof -
  from assms obtain e where e: "e \<in> set events" "ce_candidate_id e \<in> {0, cd_id c}" "ce_from_state e = before" "ce_to_state e = Some (cd_state c)"
    by (auto simp: told_def)
  then show ?thesis unfolding recorded_def list_ex_iff set_map by (intro bexI [OF _ imageI [OF e(1)]]) auto
qed

lemma keep_moves:
  assumes "keep c events s = (c', s')" "continues (co_db s) events c"
  shows "rows_move (co_db s) (co_db s')"
proof -
  let ?events = "map (\<lambda>e. if ce_candidate_id e = 0 then e\<lparr>ce_candidate_id := cd_id c'\<rparr> else e) events"
  obtain db1 where save: "save_candidate c (co_db s) = (c', db1)" and db: "co_db s' = db1\<lparr>db_events := db_events db1 @ ?events\<rparr>"
    using assms(1) by (auto simp: keep_def save_candidate_with_events_def split: prod.splits)
  note r = save_candidate_result [OF save]
  have here: "row_moves ?events (load_candidate (cd_trade_date c) (cd_code c) (co_db s)) (Some c')"
  proof (cases "load_candidate (cd_trade_date c) (cd_code c) (co_db s)")
    case None
    with assms(2) r(1) told_recorded [of events "{0}" None c'] show ?thesis
      by (cases c, cases c') (auto simp: continues_def)
  next
    case (Some old)
    have "cd_id c' = cd_id old" using r(6) Some by blast
    moreover have "cd_state c' = cd_state c" by (subst r(1)) simp
    ultimately show ?thesis
      using assms(2) Some told_recorded [of events "{0, cd_id old}" "Some (cd_state old)" c'] by (auto simp: continues_def)
  qed
  have "row_moves ?events (load_candidate d k (co_db s)) (load_candidate d k (co_db s'))" for d k
  proof (cases "(d, k) = (cd_trade_date c, cd_code c)")
    case True
    with here r(2) [of d k] show ?thesis unfolding db by (simp add: load_candidate_def)
  next
    case False
    have "load_candidate d k (co_db s') = load_candidate d k db1" by (simp add: db load_candidate_def)
    also have "\<dots> = load_candidate d k (co_db s)" using r(2) [of d k] False by (simp only: if_False)
    finally show ?thesis by simp
  qed
  moreover have "db_events (co_db s') = db_events (co_db s) @ ?events" using r(3) by (simp add: db)
  moreover have "cdb_ok (co_db s) \<Longrightarrow> cdb_ok (co_db s')" using save_candidate_ok [OF _ save] by (simp add: db cdb_ok_def)
  ultimately show ?thesis unfolding rows_move_def by blast
qed

lemma save_moves:
  assumes "save_candidate c db = (c', db')" "continues db [] c"
  shows "rows_move db db'"
proof -
  have "keep c [] \<lparr>co_warnings = [], co_db = db\<rparr> = (c', \<lparr>co_warnings = [], co_db = db'\<rparr>)"
    using assms(1) by (simp add: keep_def save_candidate_with_events_def)
  from keep_moves [OF this] assms(2) show ?thesis by simp
qed

lemma reject_moves:
  assumes "rows_move db (co_db s)"
  shows "rows_move db (co_db (reject_condition_event env e a w r s))"
proof -
  obtain rest where rest: "db_events (co_db (reject_condition_event env e a w r s)) = db_events (co_db s) @ rest"
    by (simp add: reject_condition_event_def Let_def save_candidate_event_def)
  have same: "cdb_ok (co_db (reject_condition_event env e a w r s)) = cdb_ok (co_db s)"
      "load_candidate d k (co_db (reject_condition_event env e a w r s)) = load_candidate d k (co_db s)" for d k
    by (simp_all add: reject_condition_event_def Let_def)
  from assms obtain events where "db_events (co_db s) = db_events db @ events"
      "\<forall>d k. row_moves events (load_candidate d k db) (load_candidate d k (co_db s))" "cdb_ok db \<longrightarrow> cdb_ok (co_db s)"
    unfolding rows_move_def by blast
  with rest same row_moves_more show ?thesis unfolding rows_move_def by (intro conjI exI [of _ "events @ rest"]) simp_all
qed

lemmas reject_here [simp] = reject_moves [OF rows_move_refl]

lemma session_moves:
  "condition_event_is_allowed env e a s = (b, s') \<Longrightarrow> rows_move db (co_db s) \<Longrightarrow> rows_move db (co_db s')"
  by (auto simp: condition_event_is_allowed_def intro: reject_moves split: option.splits sum.splits if_splits)

lemma same_fields [simp]:
  "cd_state (set_condition c m) = cd_state c" "cd_trade_date (set_condition c m) = cd_trade_date c" "cd_code (set_condition c m) = cd_code c"
  "cd_state (refresh_condition_entry_metadata c) = cd_state c"
  "cd_trade_date (refresh_condition_entry_metadata c) = cd_trade_date c" "cd_code (refresh_condition_entry_metadata c) = cd_code c"
  "cd_state (clear_block c) = cd_state c" "cd_trade_date (clear_block c) = cd_trade_date c" "cd_code (clear_block c) = cd_code c"
  "cd_sources (refresh_condition_entry_metadata c) = cd_sources c" "cd_sources (set_condition c m) = cd_sources c"
  "cd_id (set_condition c m) = cd_id c" "cd_id (refresh_condition_entry_metadata c) = cd_id c" "cd_id (clear_block c) = cd_id c"
  by (simp_all add: set_condition_def refresh_condition_entry_metadata_def clear_block_def Let_def)

lemma drop_fields [simp]:
  "cd_state (drop_condition_source c) = cd_state c" "cd_trade_date (drop_condition_source c) = cd_trade_date c"
  "cd_code (drop_condition_source c) = cd_code c" "cd_id (drop_condition_source c) = cd_id c"
  by (simp_all add: drop_condition_source_def)

lemma without_fields [simp]:
  "cd_state (without_condition name c) = cd_state c" "cd_trade_date (without_condition name c) = cd_trade_date c"
  "cd_code (without_condition name c) = cd_code c" "cd_id (without_condition name c) = cd_id c"
  by (simp_all add: without_condition_def Let_def)

lemma merged_fields [simp]:
  "cd_state (merged_condition_candidate env e c) = cd_state c"
  "cd_trade_date (merged_condition_candidate env e c) = cd_trade_date c" "cd_code (merged_condition_candidate env e c) = cd_code c"
  "cd_id (merged_condition_candidate env e c) = cd_id c"
  by (simp_all add: merged_condition_candidate_def Let_def)

lemma transition_Inr:
  "transition c t = Inr c' \<longleftrightarrow>
     t \<notin> set FORBIDDEN_ORDER_STATES \<and> (cd_state c = t \<or> t \<in> set (lifecycle_allowed (cd_state c))) \<and> c' = c\<lparr>cd_state := t\<rparr>"
  by (auto simp: transition_def validate_transition_def bindE_eq_Inr)

lemma transition_moves:
  "transition c t = Inr c' \<Longrightarrow> c' = c\<lparr>cd_state := t\<rparr> \<and> (t = cd_state c \<or> t \<in> set (lifecycle_allowed (cd_state c)))"
  by (auto simp: transition_Inr)

lemma collector_event_fields [simp]:
  "ce_candidate_id (collector_event env t c b a src r pay) = cd_id c"
  "ce_from_state (collector_event env t c b a src r pay) = b" "ce_to_state (collector_event env t c b a src r pay) = a"
  by (simp_all add: collector_event_def)

text \<open>A rewritten row: same key and identifier, and the last event tells the change.\<close>

lemma continuesI:
  assumes "load_candidate d k db = Some old" "cdb_ok db" "cd_trade_date c = cd_trade_date old" "cd_code c = cd_code old"
    and "cd_state c = cd_state old \<or> cd_state c \<in> set (lifecycle_allowed (cd_state old)) \<and>
      told events {0, cd_id old} (Some (cd_state old)) (cd_state c)"
  shows "continues db events c"
  using assms cdb_ok_load [OF assms(2,1)] by (auto simp: continues_def)

lemma told_here [simp]:
  "told (es @ [collector_event env t c b (Some a) src r pay]) ids b a \<longleftrightarrow> cd_id c \<in> ids \<or> told es ids b a"
  "told [collector_event env t c b (Some a) src r pay] ids b a \<longleftrightarrow> cd_id c \<in> ids"
  "told [e, collector_event env t c b (Some a) src r pay] ids b a \<longleftrightarrow> cd_id c \<in> ids \<or> told [e] ids b a"
  by (auto simp: told_def)

lemma session_db:
  assumes "condition_event_is_allowed env e a s = (True, s')"
  shows "co_db s' = co_db s"
  using assms by (auto simp: condition_event_is_allowed_def split: option.splits sum.splits if_splits)

lemma include_moves:
  assumes ok: "cdb_ok (co_db s)" and run: "handle_condition_include env e s = Inr (r, s')"
  shows "rows_move (co_db s) (co_db s')"
proof (cases "is_valid_stock_code (normalize_code (ce_code e))")
  case False
  with run show ?thesis by (auto simp: handle_condition_include_def)
next
  case True
  obtain b s1 where session: "condition_event_is_allowed env e ''include'' s = (b, s1)" by force
  let ?code = "normalize_code (ce_code e)"
  show ?thesis
  proof (cases b)
    case False
    with True session run session_moves [OF session] show ?thesis by (auto simp: handle_condition_include_def)
  next
    case b: True
    have db: "co_db s1 = co_db s" using session_db session b by simp
    show ?thesis
    proof (cases "load_candidate (en_trade_date env) ?code (co_db s1)")
      case None
      let ?c = "new_condition_candidate env e ?code"
      obtain events c' where keep: "keep ?c events s1 = (c', s')" and told: "told events {0} None DETECTED"
        using True session b None run that
        by (fastforce simp: handle_condition_include_def Let_def bindE_eq_Inr new_condition_candidate_def split: prod.splits)
      have "continues (co_db s1) events ?c"
        using None told by (simp add: continues_def new_condition_candidate_def Let_def)
      from keep_moves [OF keep this] show ?thesis by (simp add: db)
    next
      case (Some old)
      obtain c where c: "(if was_ended old then bindE (transition old DETECTED) (\<lambda>c. Inr (clear_block c)) else Inr old) = Inr c"
        using run True session b Some by (auto simp: handle_condition_include_def Let_def bindE_eq_Inr)
      then have c': "cd_state c = cd_state old \<or> was_ended old \<and> cd_state c \<in> set (lifecycle_allowed (cd_state old))"
          "cd_trade_date c = cd_trade_date old" "cd_code c = cd_code old" "cd_id c = cd_id old"
        by (auto simp: bindE_eq_Inr dest!: transition_moves split: if_splits)
      let ?c = "merged_condition_candidate env e c"
      obtain events r' where wrote: "keep ?c events s1 = (r', s') \<or> \<not> was_ended old \<and> save_candidate ?c (co_db s1) = (r', co_db s')"
        and told: "told events {0, cd_id old} (Some (cd_state old)) (cd_state ?c)"
      proof -
        let ?events = "[collector_event env (if was_ended old then ''candidate_reactivated'' else ''candidate_merged'') ?c
            (Some (cd_state old)) (Some (cd_state ?c)) (Some SRC_CONDITION) ''condition include'' (condition_payload e ?c)]"
        have "\<exists>r'. keep ?c ?events s1 = (r', s') \<or> \<not> was_ended old \<and> save_candidate ?c (co_db s1) = (r', co_db s')"
          using True session b Some run c by (auto simp: handle_condition_include_def Let_def split: prod.splits if_splits)
        moreover have "told ?events {0, cd_id old} (Some (cd_state old)) (cd_state ?c)" using c' by simp
        ultimately show ?thesis using that by blast
      qed
      from wrote have "rows_move (co_db s1) (co_db s')"
      proof (elim disjE conjE)
        assume keep: "keep ?c events s1 = (r', s')"
        have "continues (co_db s1) events ?c" using continuesI [OF Some] ok db c' told by auto
        from keep_moves [OF keep this] show ?thesis .
      next
        assume "\<not> was_ended old" and save: "save_candidate ?c (co_db s1) = (r', co_db s')"
        then have "continues (co_db s1) [] ?c" using continuesI [OF Some] ok db c' by auto
        from save_moves [OF save this] show ?thesis .
      qed
      then show ?thesis by (simp add: db)
    qed
  qed
qed

lemma remove_moves:
  assumes ok: "cdb_ok (co_db s)" and run: "handle_condition_remove env e s = Inr (r, s')"
  shows "rows_move (co_db s) (co_db s')"
proof (cases "is_valid_stock_code (normalize_code (ce_code e))")
  case False
  with run show ?thesis by (auto simp: handle_condition_remove_def)
next
  case True
  obtain b s1 where session: "condition_event_is_allowed env e ''remove'' s = (b, s1)" by force
  let ?code = "normalize_code (ce_code e)"
  show ?thesis
  proof (cases "b \<and> load_candidate (en_trade_date env) ?code (co_db s1) \<noteq> None")
    case False
    with True session run session_moves [OF session] show ?thesis
      by (cases b) (auto simp: handle_condition_remove_def Let_def)
  next
    case b: True
    then obtain old where old: "load_candidate (en_trade_date env) ?code (co_db s1) = Some old" and "b" by blast
    have db: "co_db s1 = co_db s" using session_db session \<open>b\<close> by simp
    let ?d = "drop_condition_source (without_condition (ce_condition_name e) old)"
    obtain c events s2 where keep: "keep (c\<lparr>cd_last_seen_at := now_stamp env\<rparr>) events s1 = (s2, s')"
      and c: "c = ?d \<or> transition ?d REMOVED = Inr c \<and> told events {0, cd_id old} (Some (cd_state old)) REMOVED"
    proof (cases "cd_sources ?d = [] \<and> cd_state ?d \<in> {DETECTED, WATCHING, READY, BLOCKED}")
      case cond: True
      then obtain c where c: "transition ?d REMOVED = Inr c"
        by (auto simp: transition_Inr FORBIDDEN_ORDER_STATES_def)
      then have "cd_id c = cd_id old" by (auto dest: transition_moves)
      with c that cond run True session \<open>b\<close> old show ?thesis
        by (auto simp: handle_condition_remove_def Let_def split: prod.splits)
    next
      case cond: False
      with that run True session \<open>b\<close> old show ?thesis
        by (auto simp: handle_condition_remove_def Let_def split: prod.splits)
    qed
    have "cd_trade_date c = cd_trade_date old \<and> cd_code c = cd_code old \<and> (cd_state c = cd_state old \<or>
        cd_state c \<in> set (lifecycle_allowed (cd_state old)) \<and> told events {0, cd_id old} (Some (cd_state old)) (cd_state c))"
      using c transition_moves [of ?d REMOVED c] by auto
    then have "continues (co_db s1) events (c\<lparr>cd_last_seen_at := now_stamp env\<rparr>)" using continuesI [OF old] ok db by simp
    from keep_moves [OF keep this] show ?thesis by (simp add: db)
  qed
qed

lemma debug_moves:
  assumes ok: "cdb_ok (co_db s)" and run: "add_manual_debug_candidate env code name s = Inr (r, s')"
  shows "rows_move (co_db s) (co_db s')"
proof (cases "load_candidate (en_trade_date env) (normalize_code code) (co_db s)")
  case None
  with run obtain c events where "keep c events s = (r, s')" "continues (co_db s) events c"
    by (auto simp: add_manual_debug_candidate_def Let_def continues_def)
  then show ?thesis by (rule keep_moves)
next
  case (Some old)
  with run obtain c c' events where k: "keep c' events s = (r, s')"
      and c: "(if was_ended old then transition old DETECTED else Inr old) = Inr c"
      and c': "cd_trade_date c' = cd_trade_date c" "cd_code c' = cd_code c" "cd_state c' = cd_state c"
      and told: "told events {cd_id c} (Some (cd_state old)) (cd_state c)"
    by (auto simp: add_manual_debug_candidate_def Let_def bindE_eq_Inr)
  from c have old: "cd_state c = cd_state old \<or> cd_state c \<in> set (lifecycle_allowed (cd_state old))"
      "cd_trade_date c = cd_trade_date old" "cd_code c = cd_code old" "cd_id c = cd_id old"
    by (auto dest!: transition_moves split: if_splits)
  have "told events {0, cd_id old} (Some (cd_state old)) (cd_state c')" using told c'(3) old(4) by (auto simp: told_def)
  then have "continues (co_db s) events c'" using continuesI [OF Some ok] c' old by auto
  from keep_moves [OF k this] show ?thesis .
qed

lemma told_watching: "told [collector_event env t (clear_block c) b (Some a) src r pay] {cd_id c} b a"
  by simp

lemma watching_moves:
  assumes ok: "cdb_ok (co_db s)" and run: "mark_watching env code day reason s = Inr (r, s')"
  shows "rows_move (co_db s) (co_db s')"
proof -
  obtain d old c where old: "load_candidate d (normalize_code code) (co_db s) = Some old" and c: "transition old WATCHING = Inr c"
    and k: "s' = s \<or> (\<exists>events. keep (clear_block c) events s = (r, s') \<and> told events {cd_id c} (Some (cd_state old)) WATCHING)"
    using run by (fastforce simp: mark_watching_def Let_def bindE_eq_Inr told_watching split: option.splits if_splits)
  note c' = transition_moves [OF c]
  from k show ?thesis
  proof (elim disjE exE conjE)
    fix events assume keep: "keep (clear_block c) events s = (r, s')" and "told events {cd_id c} (Some (cd_state old)) WATCHING"
    then have "told events {0, cd_id old} (Some (cd_state old)) (cd_state (clear_block c))" using c' by (auto simp: told_def)
    then have "continues (co_db s) events (clear_block c)" using continuesI [OF old ok] c' by auto
    from keep_moves [OF keep this] show ?thesis .
  qed simp
qed

text \<open>The rows that expiry visits are the rows of the table, each once.\<close>

definition visited :: "candidate_db \<Rightarrow> candidate list \<Rightarrow> bool" where
  "visited db cs \<longleftrightarrow> distinct (map (\<lambda>c. (cd_trade_date c, cd_code c)) cs) \<and>
     (\<forall>c\<in>set cs. load_candidate (cd_trade_date c) (cd_code c) db = Some c)"

lemma expire_all_effect:
  assumes "visited (co_db s) cs" "cdb_ok (co_db s)"
  shows "\<exists>es' s'. expire_all env now keep_alive cs (es, s) = Inr (es', s') \<and> cdb_ok (co_db s') \<and>
    (\<exists>events. db_events (co_db s') = db_events (co_db s) @ events \<and>
       (\<forall>c\<in>set cs. expiry_due now keep_alive c \<longrightarrow> recorded events (Some (cd_state c)) (c\<lparr>cd_state := EXPIRED\<rparr>))) \<and>
    (\<forall>d k. load_candidate d k (co_db s') =
       (case load_candidate d k (co_db s) of
          Some c \<Rightarrow> Some (if c \<in> set cs \<and> expiry_due now keep_alive c then c\<lparr>cd_state := EXPIRED\<rparr> else c) | None \<Rightarrow> None))"
  using assms
proof (induction cs arbitrary: es s)
  case Nil
  then show ?case by (auto split: option.split)
next
  case (Cons c cs)
  have here: "load_candidate (cd_trade_date c) (cd_code c) (co_db s) = Some c" and rest: "visited (co_db s) cs" and new: "c \<notin> set cs"
    using Cons.prems(1) by (auto simp: visited_def)
  show ?case
  proof (cases "expiry_due now keep_alive c")
    case False
    then have one: "expire_one env now keep_alive c (es, s) = Inr (es, s)" by (simp add: expire_one_def)
    from Cons.IH [OF rest Cons.prems(2), of es] obtain es' s' where
      "expire_all env now keep_alive cs (es, s) = Inr (es', s')" "cdb_ok (co_db s')"
      "\<exists>events. db_events (co_db s') = db_events (co_db s) @ events \<and>
       (\<forall>c\<in>set cs. expiry_due now keep_alive c \<longrightarrow> recorded events (Some (cd_state c)) (c\<lparr>cd_state := EXPIRED\<rparr>))"
      "\<forall>d k. load_candidate d k (co_db s') = (case load_candidate d k (co_db s) of
          Some z \<Rightarrow> Some (if z \<in> set cs \<and> expiry_due now keep_alive z then z\<lparr>cd_state := EXPIRED\<rparr> else z) | None \<Rightarrow> None)"
      by blast
    with one False show ?thesis by (intro exI [of _ es'] exI [of _ s']) (auto split: option.split)
  next
    case True
    let ?c = "c\<lparr>cd_state := EXPIRED\<rparr>"
    have tr: "transition c EXPIRED = Inr ?c"
      using True by (auto simp: transition_Inr FORBIDDEN_ORDER_STATES_def expiry_due_def)
    obtain saved s1 where k: "keep ?c [collector_event env ''candidate_expired'' ?c (Some (cd_state c)) (Some EXPIRED) None ''candidate ttl expired''
        (DictPayload [(''code'', PStr (cd_code c)), (''expires_at'', stamp_val (cd_expires_at c))])] s = (saved, s1)" by force
    have one: "expire_one env now keep_alive c (es, s) = Inr (es @ [saved], s1)"
      using True k by (simp add: expire_one_def tr)
    obtain db1 where save: "save_candidate_with_events ?c [collector_event env ''candidate_expired'' ?c (Some (cd_state c)) (Some EXPIRED) None
        ''candidate ttl expired'' (DictPayload [(''code'', PStr (cd_code c)), (''expires_at'', stamp_val (cd_expires_at c))])] (co_db s) = (saved, db1)"
      and s1: "co_db s1 = db1" using k by (auto simp: keep_def split: prod.splits)
    have saved: "saved = ?c"
    proof -
      obtain db0 where "save_candidate ?c (co_db s) = (saved, db0)"
        using save by (auto simp: save_candidate_with_events_def split: prod.splits)
      with here show ?thesis by (auto simp: save_candidate_def Let_def)
    qed
    have loads: "load_candidate d k (co_db s1) = (if (d, k) = (cd_trade_date c, cd_code c) then Some ?c else load_candidate d k (co_db s))" for d k
      using save_with_events_result(2) [OF save, of d k] by (simp add: s1 saved)
    note step = save_with_events_result(3) [OF save, folded s1]
    define first where "first = [(collector_event env ''candidate_expired'' ?c (Some (cd_state c)) (Some EXPIRED) None
        ''candidate ttl expired'' (DictPayload [(''code'', PStr (cd_code c)), (''expires_at'', stamp_val (cd_expires_at c))]))]"
    have "0 < cd_id c" using cdb_ok_load [OF Cons.prems(2) here] by blast
    then have first: "db_events (co_db s1) = db_events (co_db s) @ first" "recorded first (Some (cd_state c)) ?c"
      using save save_candidate_result(3) [where c = ?c and db = "co_db s" and c' = saved]
      by (auto simp: s1 first_def recorded_def collector_event_def save_candidate_with_events_def split: prod.splits)
    have "load_candidate (cd_trade_date z) (cd_code z) (co_db s1) = Some z" if "z \<in> set cs" for z
    proof -
      have "(cd_trade_date z, cd_code z) \<in> (\<lambda>c. (cd_trade_date c, cd_code c)) ` set cs" using that by blast
      moreover have "(cd_trade_date c, cd_code c) \<notin> (\<lambda>c. (cd_trade_date c, cd_code c)) ` set cs"
        using Cons.prems(1) by (simp add: visited_def)
      ultimately have "(cd_trade_date z, cd_code z) \<noteq> (cd_trade_date c, cd_code c)" by metis
      moreover have "load_candidate (cd_trade_date z) (cd_code z) (co_db s) = Some z" using rest that by (simp add: visited_def)
      ultimately show ?thesis using loads [of "cd_trade_date z" "cd_code z"] by (simp only: if_False)
    qed
    with rest have "visited (co_db s1) cs" unfolding visited_def by blast
    moreover have "cdb_ok (co_db s1)" using Cons.prems(2) step by blast
    ultimately obtain es' s' events where
      all: "expire_all env now keep_alive cs (es @ [saved], s1) = Inr (es', s')" and ok: "cdb_ok (co_db s')" and
      events: "db_events (co_db s') = db_events (co_db s1) @ events"
        "\<forall>c\<in>set cs. expiry_due now keep_alive c \<longrightarrow> recorded events (Some (cd_state c)) (c\<lparr>cd_state := EXPIRED\<rparr>)" and
      after: "\<forall>d k. load_candidate d k (co_db s') = (case load_candidate d k (co_db s1) of
          Some z \<Rightarrow> Some (if z \<in> set cs \<and> expiry_due now keep_alive z then z\<lparr>cd_state := EXPIRED\<rparr> else z) | None \<Rightarrow> None)"
      using Cons.IH [of s1 "es @ [saved]"] by blast
    have gone: "\<not> expiry_due now keep_alive ?c" by (simp add: expiry_due_def)
    have "load_candidate d k (co_db s') = (case load_candidate d k (co_db s) of
          Some z \<Rightarrow> Some (if z \<in> set (c # cs) \<and> expiry_due now keep_alive z then z\<lparr>cd_state := EXPIRED\<rparr> else z) | None \<Rightarrow> None)" for d k
    proof (cases "(d, k) = (cd_trade_date c, cd_code c)")
      case True
      then have "load_candidate d k (co_db s) = Some c" using here by simp
      with True after loads [of d k] gone \<open>expiry_due now keep_alive c\<close> show ?thesis by simp
    next
      case False
      then have "load_candidate d k (co_db s) \<noteq> Some c" using cdb_ok_load [OF Cons.prems(2)] by blast
      moreover have "load_candidate d k (co_db s1) = load_candidate d k (co_db s)" using False loads by auto
      ultimately show ?thesis using after by (cases "load_candidate d k (co_db s)") auto
    qed
    moreover have "\<forall>z\<in>set (c # cs). expiry_due now keep_alive z \<longrightarrow>
        recorded (first @ events) (Some (cd_state z)) (z\<lparr>cd_state := EXPIRED\<rparr>)"
      using events(2) recorded_more [OF first(2)] by (auto simp: recorded_def)
    ultimately show ?thesis using one all ok events(1) first(1)
      by (intro exI [of _ es'] exI [of _ s'] conjI exI [of _ "first @ events"]) simp_all
  qed
qed

lemma listed_iff:
  assumes "cdb_ok db"
  shows "c \<in> set (list_candidates d db) \<longleftrightarrow> load_candidate d (cd_code c) db = Some c"
proof -
  have rows: "distinct (map fst (db_candidates db))" "\<And>key z. (key, z) \<in> set (db_candidates db) \<Longrightarrow> key = (cd_trade_date z, cd_code z)"
    using assms map_of_is_SomeI unfolding cdb_ok_def candidate_rows_ok_def by fast+
  have "c \<in> set (list_candidates d db) \<longleftrightarrow> cd_trade_date c = d \<and> (\<exists>key. (key, c) \<in> set (db_candidates db))"
    by (force simp: list_candidates_def)
  also have "\<dots> \<longleftrightarrow> cd_trade_date c = d \<and> ((d, cd_code c), c) \<in> set (db_candidates db)" using rows(2) by blast
  also have "\<dots> \<longleftrightarrow> load_candidate d (cd_code c) db = Some c"
    using rows map_of_is_SomeI map_of_SomeD unfolding load_candidate_def by fast
  finally show ?thesis .
qed

lemma listed_visited:
  assumes "cdb_ok db"
  shows "visited db (list_candidates d db)"
proof -
  have rows: "distinct (map fst (db_candidates db))" "\<And>key z. (key, z) \<in> set (db_candidates db) \<Longrightarrow> key = (cd_trade_date z, cd_code z)"
    using assms map_of_is_SomeI unfolding cdb_ok_def candidate_rows_ok_def by fast+
  have "map (\<lambda>c. (cd_trade_date c, cd_code c)) (map snd (db_candidates db)) = map fst (db_candidates db)"
    using rows(2) by (auto intro!: map_cong)
  with rows(1) have d: "distinct (map (\<lambda>c. (cd_trade_date c, cd_code c)) (filter (\<lambda>c. cd_trade_date c = d) (map snd (db_candidates db))))"
    by (metis distinct_map_filter)
  then have "distinct (map (\<lambda>c. (cd_trade_date c, cd_code c)) (list_candidates d db))"
    by (simp add: list_candidates_def distinct_map)
  moreover have "load_candidate (cd_trade_date c) (cd_code c) db = Some c" if "c \<in> set (list_candidates d db)" for c
  proof -
    have "cd_trade_date c = d" using that by (simp add: list_candidates_def)
    with that listed_iff [OF assms] show ?thesis by simp
  qed
  ultimately show ?thesis by (simp add: visited_def)
qed

lemma expire_stale_effect:
  assumes ok: "cdb_ok (co_db s)"
  shows "\<exists>es s'. expire_stale env now keep_alive s = Inr (es, s') \<and> rows_move (co_db s) (co_db s') \<and>
    (\<forall>d k. load_candidate d k (co_db s') =
       (case load_candidate d k (co_db s) of
          Some c \<Rightarrow> Some (if d = en_trade_date env \<and> expiry_due (case now of Some t \<Rightarrow> t | None \<Rightarrow> en_now env) keep_alive c
                        then c\<lparr>cd_state := EXPIRED\<rparr> else c)
        | None \<Rightarrow> None))"
proof -
  let ?now = "case now of Some t \<Rightarrow> t | None \<Rightarrow> en_now env" and ?cs = "list_candidates (en_trade_date env) (co_db s)"
  obtain es s' events where run: "expire_all env ?now keep_alive ?cs ([], s) = Inr (es, s')" and kept: "cdb_ok (co_db s')"
    and events: "db_events (co_db s') = db_events (co_db s) @ events"
      "\<forall>c\<in>set ?cs. expiry_due ?now keep_alive c \<longrightarrow> recorded events (Some (cd_state c)) (c\<lparr>cd_state := EXPIRED\<rparr>)"
    and load: "\<forall>d k. load_candidate d k (co_db s') = (case load_candidate d k (co_db s) of
          Some c \<Rightarrow> Some (if c \<in> set ?cs \<and> expiry_due ?now keep_alive c then c\<lparr>cd_state := EXPIRED\<rparr> else c) | None \<Rightarrow> None)"
    using expire_all_effect [OF listed_visited [OF ok] ok] by blast
  have listed: "c \<in> set ?cs \<longleftrightarrow> d = en_trade_date env" if "load_candidate d k (co_db s) = Some c" for c d k
    using that cdb_ok_load [OF ok that] listed_iff [OF ok] by (auto simp: list_candidates_def)
  have "load_candidate d k (co_db s') = (case load_candidate d k (co_db s) of
      Some c \<Rightarrow> Some (if d = en_trade_date env \<and> expiry_due ?now keep_alive c then c\<lparr>cd_state := EXPIRED\<rparr> else c) | None \<Rightarrow> None)" for d k
    using load listed [of d k] by (cases "load_candidate d k (co_db s)") auto
  moreover have "row_moves events (load_candidate d k (co_db s)) (load_candidate d k (co_db s'))" for d k
  proof (cases "load_candidate d k (co_db s)")
    case None
    with load show ?thesis by simp
  next
    case (Some c)
    with load have after: "load_candidate d k (co_db s') = Some (if c \<in> set ?cs \<and> expiry_due ?now keep_alive c then c\<lparr>cd_state := EXPIRED\<rparr> else c)"
      by simp
    have "expiry_due ?now keep_alive c \<Longrightarrow> EXPIRED \<in> set (lifecycle_allowed (cd_state c))" by (auto simp: expiry_due_def)
    with events(2) show ?thesis unfolding Some after by auto
  qed
  ultimately show ?thesis using run kept events(1) unfolding rows_move_def expire_stale_def by auto
qed

inductive collector_step :: "collector \<Rightarrow> collector \<Rightarrow> bool" where
  included: "handle_condition_include env e s = Inr (r, s') \<Longrightarrow> collector_step s s'"
| removed: "handle_condition_remove env e s = Inr (r, s') \<Longrightarrow> collector_step s s'"
| debugged: "add_manual_debug_candidate env code name s = Inr (c, s') \<Longrightarrow> collector_step s s'"
| watched: "mark_watching env code day reason s = Inr (c, s') \<Longrightarrow> collector_step s s'"
| expired: "expire_stale env now keep_alive s = Inr (cs, s') \<Longrightarrow> collector_step s s'"
| rejected: "collector_step s (reject_condition_event env e action warning reason s)"

lemma step_moves: "collector_step s s' \<Longrightarrow> cdb_ok (co_db s) \<Longrightarrow> rows_move (co_db s) (co_db s')"
proof (induction rule: collector_step.induct)
  case (expired env now keep_alive s cs s')
  then show ?case using expire_stale_effect [of s env now keep_alive] by auto
qed (auto intro: include_moves remove_moves debug_moves watching_moves)

lemma run_ok: "collector_step\<^sup>*\<^sup>* s s' \<Longrightarrow> cdb_ok (co_db s) \<Longrightarrow> cdb_ok (co_db s')"
proof (induction rule: rtranclp_induct)
  case (step y z)
  then show ?case using step_moves [OF step(2)] by (simp add: rows_move_def)
qed simp

text \<open>C27: Every operation of the collector (a condition event, a debug candidate, a watch mark, an expiry of the whole
  day, a rejection), after any run of such operations, moves each stored candidate by at most one transition that the table of
  \<open>validate_transition\<close> allows and keeps its row and its identifier; a candidate that it creates is DETECTED; and for
  each change it appends an event with the candidate's identifier, the state before and the state after. No transition leads to an
  order state, so none is ever entered.\<close>
theorem collector_follows_lifecycle:
  assumes "cdb_ok (co_db s0)" "collector_step\<^sup>*\<^sup>* s0 s" "collector_step s s'"
  shows "\<exists>events. db_events (co_db s') = db_events (co_db s) @ events \<and>
    (case load_candidate d k (co_db s) of
       Some c \<Rightarrow> \<exists>c'. load_candidate d k (co_db s') = Some c' \<and> cd_id c' = cd_id c \<and>
         (cd_state c' = cd_state c \<or>
          cd_state c' \<in> set (lifecycle_allowed (cd_state c)) - set FORBIDDEN_ORDER_STATES \<and> recorded events (Some (cd_state c)) c')
     | None \<Rightarrow> \<forall>c'. load_candidate d k (co_db s') = Some c' \<longrightarrow> cd_state c' = DETECTED \<and> recorded events None c')"
proof -
  from step_moves [OF assms(3) run_ok [OF assms(2,1)]] obtain events where
    events: "db_events (co_db s') = db_events (co_db s) @ events" "row_moves events (load_candidate d k (co_db s)) (load_candidate d k (co_db s'))"
    unfolding rows_move_def by blast
  have "set (lifecycle_allowed st) \<inter> set FORBIDDEN_ORDER_STATES = {}" for st
    by (cases st) (simp_all add: FORBIDDEN_ORDER_STATES_def)
  then show ?thesis using events
    by (cases "load_candidate d k (co_db s)"; cases "load_candidate d k (co_db s')") (auto intro!: exI [of _ events])
qed

text \<open>C28: Expiry never raises and sets exactly the due candidates of the day to EXPIRED, leaving the rest of each row and
  all other rows as they are: detected, watched, ready and temporarily blocked candidates whose time has come and that nothing keeps alive.
  Candidates that are hydrating or wait for data are never due, however long ago their time came.\<close>
theorem expiry_is_exact:
  assumes "cdb_ok (co_db s)"
  shows "\<exists>es s'. expire_stale env (Some now) keep_alive s = Inr (es, s') \<and>
    (\<forall>d k. load_candidate d k (co_db s') = map_option
       (\<lambda>c. if d = en_trade_date env \<and> cd_state c \<in> {DETECTED, WATCHING, READY, BLOCKED} \<and>
              (cd_state c = BLOCKED \<longrightarrow> cd_block_type c = BLOCK_TEMPORARY) \<and>
              cd_expires_at c \<noteq> Blank \<and> cd_expires_at c \<le> At now \<and>
              (\<forall>f. keep_alive = Some f \<longrightarrow> \<not> f c now)
            then c\<lparr>cd_state := EXPIRED\<rparr> else c) (load_candidate d k (co_db s)))"
proof -
  have due: "expiry_due now keep_alive c \<longleftrightarrow> cd_state c \<in> {DETECTED, WATCHING, READY, BLOCKED} \<and>
      (cd_state c = BLOCKED \<longrightarrow> cd_block_type c = BLOCK_TEMPORARY) \<and> cd_expires_at c \<noteq> Blank \<and> cd_expires_at c \<le> At now \<and>
      (\<forall>f. keep_alive = Some f \<longrightarrow> \<not> f c now)" for c
    by (auto simp: expiry_due_def split: stamp.splits option.splits)
  from expire_stale_effect [OF assms, of env "Some now" keep_alive] obtain es s' where
    run: "expire_stale env (Some now) keep_alive s = Inr (es, s')" and
    load: "\<And>d k. load_candidate d k (co_db s') = (case load_candidate d k (co_db s) of
        Some c \<Rightarrow> Some (if d = en_trade_date env \<and> expiry_due now keep_alive c then c\<lparr>cd_state := EXPIRED\<rparr> else c) | None \<Rightarrow> None)"
    unfolding option.case by blast
  have "load_candidate d k (co_db s') = map_option
      (\<lambda>c. if d = en_trade_date env \<and> expiry_due now keep_alive c then c\<lparr>cd_state := EXPIRED\<rparr> else c) (load_candidate d k (co_db s))" for d k
    unfolding load by (cases "load_candidate d k (co_db s)") simp_all
  with run show ?thesis unfolding due by blast
qed

definition sample_env :: collector_env where
  "sample_env = \<lparr>en_now = 0, en_trade_date = ''2026-06-17'', en_ttl_minutes = 30, en_name_of = (\<lambda>_. []), en_session = None\<rparr>"

definition sample_collector :: collector where
  "sample_collector = \<lparr>co_warnings = [], co_db = empty_candidate_db\<rparr>"

text \<open>A table with one candidate that should end at 60 s.\<close>

definition aging_candidate :: "candidate_state \<Rightarrow> candidate" where
  "aging_candidate st = \<lparr>cd_id = 1, cd_trade_date = ''2026-06-17'', cd_code = ''005930'', cd_name = [], cd_market = [],
     cd_strategy_profile = None, cd_sources = [SRC_CONDITION], cd_priority = 0, cd_theme_ids = [], cd_state = st,
     cd_detected_at = At 0, cd_last_seen_at = At 0, cd_expires_at = At 60000000, cd_condition_names = [], cd_block_type = BLOCK_NONE,
     cd_recheck_after_sec = 0, cd_can_recover = False, cd_metadata = no_metadata\<rparr>"

definition aging_collector :: "candidate_state \<Rightarrow> collector" where
  "aging_collector st = \<lparr>co_warnings = [],
     co_db = empty_candidate_db\<lparr>db_candidates := [((''2026-06-17'', ''005930''), aging_candidate st)], db_next_candidate_id := 2\<rparr>\<rparr>"

lemma aging_ok: "cdb_ok (co_db (aging_collector st))"
  "load_candidate ''2026-06-17'' ''005930'' (co_db (aging_collector st)) = Some (aging_candidate st)"
  by (auto simp: cdb_ok_def candidate_rows_ok_def load_candidate_def aging_collector_def aging_candidate_def split: if_splits)

theorem expiry_is_exact_witness:
  "(\<exists>es s'. expire_stale sample_env (Some 60000000) None (aging_collector WATCHING) = Inr (es, s') \<and>
     map_option cd_state (load_candidate ''2026-06-17'' ''005930'' (co_db s')) = Some EXPIRED) \<and>
   (\<exists>es s'. expire_stale sample_env (Some 60000000) None (aging_collector WAIT_DATA) = Inr (es, s') \<and>
     map_option cd_state (load_candidate ''2026-06-17'' ''005930'' (co_db s')) = Some WAIT_DATA)"
proof -
  have "\<exists>es s'. expire_stale sample_env (Some 60000000) None (aging_collector st) = Inr (es, s') \<and>
     map_option cd_state (load_candidate ''2026-06-17'' ''005930'' (co_db s')) = Some (if st \<in> {DETECTED, WATCHING, READY} then EXPIRED else st)" for st
  proof -
    obtain es s' where run: "expire_stale sample_env (Some 60000000) None (aging_collector st) = Inr (es, s')"
      and load: "load_candidate ''2026-06-17'' ''005930'' (co_db s') = map_option
       (\<lambda>c. if ''2026-06-17'' = en_trade_date sample_env \<and> cd_state c \<in> {DETECTED, WATCHING, READY, BLOCKED} \<and>
              (cd_state c = BLOCKED \<longrightarrow> cd_block_type c = BLOCK_TEMPORARY) \<and>
              cd_expires_at c \<noteq> Blank \<and> cd_expires_at c \<le> At 60000000 \<and> (\<forall>f :: candidate \<Rightarrow> time \<Rightarrow> bool. None = Some f \<longrightarrow> \<not> f c 60000000)
            then c\<lparr>cd_state := EXPIRED\<rparr> else c) (load_candidate ''2026-06-17'' ''005930'' (co_db (aging_collector st)))"
      using expiry_is_exact [OF aging_ok(1) [of st], of sample_env 60000000 None] by blast
    have "map_option cd_state (load_candidate ''2026-06-17'' ''005930'' (co_db s')) =
        Some (if st \<in> {DETECTED, WATCHING, READY} then EXPIRED else st)"
      unfolding load aging_ok(2) by (simp add: aging_candidate_def sample_env_def)
    with run show ?thesis by blast
  qed
  from this [of WATCHING] this [of WAIT_DATA] show ?thesis by simp
qed

theorem collector_follows_lifecycle_witness:
  "\<exists>c s' events. add_manual_debug_candidate sample_env ''005930'' [] sample_collector = Inr (c, s') \<and>
     db_events (co_db s') = events \<and> recorded events None c \<and> cd_state c = DETECTED"
proof -
  have ok: "cdb_ok (co_db sample_collector)" by (simp add: sample_collector_def)
  have none: "load_candidate d k (co_db sample_collector) = None" "db_events (co_db sample_collector) = []" for d k
    by (simp_all add: sample_collector_def empty_candidate_db_def load_candidate_def)
  have code: "normalize_code ''005930'' = ''005930''" by code_simp
  obtain c s' where run: "add_manual_debug_candidate sample_env ''005930'' [] sample_collector = Inr (c, s')"
    and row: "load_candidate ''2026-06-17'' ''005930'' (co_db s') = Some c"
  proof -
    obtain c events where k: "add_manual_debug_candidate sample_env ''005930'' [] sample_collector = Inr (keep c events sample_collector)"
      "cd_trade_date c = ''2026-06-17''" "cd_code c = ''005930''"
      by (simp add: add_manual_debug_candidate_def Let_def none code sample_env_def)
    obtain c' s' where keep: "keep c events sample_collector = (c', s')" by force
    then obtain db where "save_candidate_with_events c events (co_db sample_collector) = (c', db)" "co_db s' = db"
      by (auto simp: keep_def split: prod.splits)
    with save_with_events_result(2) k(2,3) have "load_candidate ''2026-06-17'' ''005930'' (co_db s') = Some c'" by metis
    with k(1) keep that show ?thesis by simp
  qed
  from collector_follows_lifecycle [OF ok rtranclp.rtrancl_refl debugged [OF run], of "''2026-06-17''" "''005930''"] row run
  show ?thesis by (auto simp: none)
qed

end
