(* ===== verification/Candidate_Ingestion.thy ===== *)
theory Candidate_Ingestion
  imports Broker_Models Theme_Cohort Candidate_Fsm_Facts
begin

text \<open>
  The intake of candidate sources (\<open>trading/strategy/candidate_ingestion.py\<close>): events from condition searches, opening
  bursts, manual watches and the theme board create a candidate or merge into it, and take their source away again. The
  theme repository is a parameter. Of the raw payload of an event the entry \<open>event_type\<close> is kept, which decides.
\<close>

section \<open>Source events\<close>

definition SOURCE_PRIORITY :: "(string \<times> int) list" where
  "SOURCE_PRIORITY = [(''opening_burst'', 400), (''condition_search'', 300), (''manual_watch'', 200), (''theme_board'', 100)]"

definition source_priority :: "string \<Rightarrow> int" where
  "source_priority t = (case map_of SOURCE_PRIORITY t of Some n \<Rightarrow> n | None \<Rightarrow> 0)"

definition candidate_source_of :: "string \<Rightarrow> candidate_source option" where
  "candidate_source_of t =
     map_of [(''condition_search'', SRC_CONDITION_SEARCH), (''opening_burst'', SRC_OPENING_BURST),
       (''manual_watch'', SRC_MANUAL_WATCH), (''theme_board'', SRC_THEME_BOARD)] t"

definition normalized_event :: "time \<Rightarrow> candidate_source_event \<Rightarrow> candidate_source_event" where
  "normalized_event now e =
     (let detected = stamp_or (ev_detected_at e) (At (whole_second now)) in
      e\<lparr>ev_trade_date := str_or (ev_trade_date e) (case detected of At t \<Rightarrow> date_text t | Blank \<Rightarrow> date_text now),
        ev_code := normalize_code (ev_code e), ev_source_type := str_or (ev_source_type e) ''condition_search'',
        ev_source_rank := max 0 (ev_source_rank e), ev_source_score := max 0 (ev_source_score e),
        ev_reason_codes := dedupe (ev_reason_codes e), ev_detected_at := detected\<rparr>)"

definition source_event_summary :: "candidate_source_event \<Rightarrow> source_entry" where
  "source_event_summary e =
     \<lparr>se_source_type = ev_source_type e, se_source_id = ev_source_id e, se_source_rank = ev_source_rank e,
      se_source_score = ev_source_score e, se_theme_id = ev_theme_id e, se_theme_name = ev_theme_name e,
      se_stock_role = ev_stock_role e, se_reason_codes = ev_reason_codes e, se_detected_at = ev_detected_at e,
      se_active = True, se_removed_at = Blank\<rparr>"

definition source_key :: "candidate_source_event \<Rightarrow> string" where
  "source_key e = ev_source_type e @ '':'' @ str_or (ev_source_id e) (ev_source_type e)"

definition primary_source :: "source_entry list \<Rightarrow> source_entry option" where
  "primary_source entries =
     first_max (\<lambda>s. (source_priority (se_source_type s), se_source_score s, - se_source_rank s)) (filter se_active entries)"

definition active_types :: "source_entry list \<Rightarrow> string list" where
  "active_types entries = dedupe (map se_source_type (filter se_active entries))"

record ingestion_env =
  ie_now :: time
  ie_contract_enabled :: bool
  ie_ttl_minutes :: int
  ie_enrich :: bool
  ie_memberships :: "string \<Rightarrow> theme_membership list option"
  ie_theme :: "string \<Rightarrow> (string \<times> string) option"

definition ttl_end :: "ingestion_env \<Rightarrow> stamp" where
  "ttl_end env = At (whole_second (ie_now env + max 1 (ie_ttl_minutes env) * 60000000))"

definition new_candidate :: "ingestion_env \<Rightarrow> candidate_source_event \<Rightarrow> candidate" where
  "new_candidate env e =
     \<lparr>cd_id = 0, cd_trade_date = ev_trade_date e, cd_code = ev_code e, cd_name = ev_name e, cd_market = [],
      cd_strategy_profile = None, cd_sources = [], cd_priority = 0, cd_theme_ids = [], cd_state = DETECTED,
      cd_detected_at = ev_detected_at e, cd_last_seen_at = ev_detected_at e, cd_expires_at = ttl_end env, cd_condition_names = [],
      cd_block_type = BLOCK_NONE, cd_recheck_after_sec = 0, cd_can_recover = False, cd_metadata = no_metadata\<rparr>"

definition add_new :: "'a list \<Rightarrow> 'a \<Rightarrow> 'a list" where
  "add_new xs x = (if x \<in> set xs then xs else xs @ [x])"

definition no_ingestion :: ingestion_meta where
  "no_ingestion = \<lparr>ig_source_map = [], ig_active_source_types = [], ig_primary_source = [], ig_primary_source_id = [],
     ig_primary_theme_id = [], ig_theme_name = [], ig_stock_role = [], ig_score = 0, ig_reason_codes = [], ig_last_source_event_at = Blank\<rparr>"

definition ingestion_of :: "candidate \<Rightarrow> ingestion_meta" where
  "ingestion_of c = (case md_ingestion (cd_metadata c) of Some g \<Rightarrow> g | None \<Rightarrow> no_ingestion)"

text \<open>The entry of a field of the primary source, empty without one.\<close>

definition primary_text :: "(source_entry \<Rightarrow> string) \<Rightarrow> source_entry option \<Rightarrow> string" where
  "primary_text f p = (case p of Some s \<Rightarrow> f s | None \<Rightarrow> [])"

definition merged_ingestion :: "candidate_metadata \<Rightarrow> ingestion_meta \<Rightarrow> candidate_source_event \<Rightarrow> ingestion_meta" where
  "merged_ingestion md g e =
     (let source_map = AList.update (source_key e) (source_event_summary e) (ig_source_map g);
          entries = map snd source_map; p = primary_source entries
      in \<lparr>ig_source_map = source_map, ig_active_source_types = active_types entries,
          ig_primary_source = primary_text se_source_type p, ig_primary_source_id = primary_text se_source_id p,
          ig_primary_theme_id = primary_text se_theme_id p, ig_theme_name = primary_text se_theme_name p,
          ig_stock_role = primary_text se_stock_role p, ig_score = (case p of Some s \<Rightarrow> se_source_score s | None \<Rightarrow> 0),
          ig_reason_codes = dedupe (md_reason_codes md @ concat (map se_reason_codes entries)),
          ig_last_source_event_at = ev_detected_at e\<rparr>)"

definition merge_candidate :: "ingestion_env \<Rightarrow> candidate_source_event \<Rightarrow> candidate \<Rightarrow> candidate" where
  "merge_candidate env e c =
     (let md = cd_metadata c; g = merged_ingestion md (ingestion_of c) e;
          md = md\<lparr>md_ingestion := Some g, md_primary_source := ig_primary_source g, md_primary_source_id := ig_primary_source_id g,
             md_primary_theme_id := ig_primary_theme_id g, md_theme_name := ig_theme_name g, md_stock_role := ig_stock_role g,
             md_source_score := ig_score g, md_reason_codes := ig_reason_codes g,
             md_generation_seq := Some (case md_generation_seq md of Some n \<Rightarrow> n | None \<Rightarrow> 1),
             md_instance_id := Some (case md_instance_id md of Some s \<Rightarrow> s | None \<Rightarrow> cd_trade_date c @ '':'' @ cd_code c @ '':1''),
             md_best_theme_id := str_or (ev_theme_id e) (md_best_theme_id md)\<rparr>
      in c\<lparr>cd_name := str_or (ev_name e) (cd_name c),
           cd_sources := (case candidate_source_of (ev_source_type e) of Some s \<Rightarrow> add_new (cd_sources c) s | None \<Rightarrow> cd_sources c),
           cd_theme_ids := (if ev_theme_id e \<noteq> [] then add_new (cd_theme_ids c) (ev_theme_id e) else cd_theme_ids c),
           cd_condition_names := (if ev_source_type e = ''condition_search'' \<and> ev_source_id e \<noteq> []
             then add_new (cd_condition_names c) (ev_source_id e) else cd_condition_names c),
           cd_priority := max (cd_priority c) (source_priority (ev_source_type e) + max 0 (1000 - ev_source_rank e)),
           cd_last_seen_at := ev_detected_at e, cd_detected_at := stamp_or (cd_detected_at c) (ev_detected_at e),
           cd_expires_at := stamp_or (cd_expires_at c) (ttl_end env), cd_metadata := md\<rparr>)"

section \<open>Intake and removal\<close>

record ingestion_result =
  ir_candidate :: "candidate option"
  ir_source_event :: candidate_source_event
  ir_created :: bool
  ir_merged :: bool
  ir_removed :: bool
  ir_ignored :: bool
  ir_reason :: string

definition ignored :: "candidate_source_event \<Rightarrow> string \<Rightarrow> candidate_db \<Rightarrow> ingestion_result \<times> candidate_db" where
  "ignored e reason db =
     (\<lparr>ir_candidate = None, ir_source_event = e, ir_created = False, ir_merged = False, ir_removed = False, ir_ignored = True,
       ir_reason = reason\<rparr>,
      save_source_event_row \<lparr>sr_event = e, sr_candidate_id = None, sr_status = ''IGNORED'', sr_reason = reason\<rparr> db)"

text \<open>The payload handed to the state machine has none of the entries that it reads.\<close>

definition event_details :: "candidate_source_event \<Rightarrow> fsm_details" where
  "event_details e = \<lparr>fd_is_fresh = None, fd_freshness_status = [], fd_price_source = [], fd_data = SourcePayload e\<rparr>"

definition without_source :: "candidate_source_event \<Rightarrow> candidate \<Rightarrow> candidate" where
  "without_source e c =
     (let g = ingestion_of c; key = source_key e;
          source_map = (case map_of (ig_source_map g) key of
              Some entry \<Rightarrow> AList.update key (entry\<lparr>se_active := False, se_removed_at := ev_detected_at e\<rparr>) (ig_source_map g)
            | None \<Rightarrow> ig_source_map g);
          active = filter se_active (map snd source_map);
          g = g\<lparr>ig_source_map := source_map, ig_active_source_types := active_types (map snd source_map)\<rparr>;
          c = c\<lparr>cd_metadata := (cd_metadata c)\<lparr>md_ingestion := Some g, md_source_removed_at := ev_detected_at e\<rparr>\<rparr>
      in c\<lparr>cd_state := (if active = [] \<and> cd_state c \<in> {DETECTED, HYDRATING, WAIT_DATA, WATCHING} then REMOVED else cd_state c),
           cd_last_seen_at := ev_detected_at e\<rparr>)"

definition remove_source :: "ingestion_env \<Rightarrow> candidate_source_event \<Rightarrow> candidate_db \<Rightarrow> ingestion_result \<times> candidate_db" where
  "remove_source env source_event db =
     (let e = normalized_event (ie_now env) source_event in
      case load_candidate (ev_trade_date e) (ev_code e) db of
        None \<Rightarrow> ignored e ''CANDIDATE_NOT_FOUND'' db
      | Some old \<Rightarrow>
          let c = without_source e old;
              (saved, db) = save_candidate_with_events c
                [\<lparr>ce_candidate_id = cd_id c, ce_event_type = ''candidate_source_removed'', ce_from_state = Some (cd_state old),
                  ce_to_state = Some (cd_state c), ce_source = candidate_source_of (ev_source_type e), ce_reason = ''candidate source remove'',
                  ce_created_at = ev_detected_at e, ce_payload = SourcePayload e\<rparr>] db;
              db = save_source_event_row \<lparr>sr_event = e, sr_candidate_id = Some (cd_id saved), sr_status = ''REMOVED'', sr_reason = []\<rparr> db;
              (saved, db) = on_condition_remove (ie_contract_enabled env) (ie_now env) [] (event_details e) saved db;
              (saved, db) = save_candidate saved db
          in (\<lparr>ir_candidate = Some saved, ir_source_event = e, ir_created = False, ir_merged = False, ir_removed = True,
               ir_ignored = False, ir_reason = ''REMOVED''\<rparr>, db))"

definition revived :: "candidate \<Rightarrow> candidate" where
  "revived c =
     (if cd_state c \<in> {REMOVED, EXPIRED}
      then c\<lparr>cd_state := DETECTED, cd_block_type := BLOCK_NONE, cd_can_recover := False, cd_recheck_after_sec := 0\<rparr> else c)"

definition ingest :: "ingestion_env \<Rightarrow> candidate_source_event \<Rightarrow> candidate_db \<Rightarrow> ingestion_result \<times> candidate_db" where
  "ingest env source_event db =
     (let e = normalized_event (ie_now env) source_event in
      if ev_code e = [] then ignored e ''CODE_MISSING'' db
      else if lower (ev_event_type e) = ''remove'' then remove_source env e db
      else
        let existing = load_candidate (ev_trade_date e) (ev_code e) db; created = (existing = None);
            old = (case existing of Some c \<Rightarrow> c | None \<Rightarrow> new_candidate env e);
            c = merge_candidate env e (revived old);
            (saved, db) = save_candidate_with_events c
              [\<lparr>ce_candidate_id = cd_id c, ce_event_type = (if created then ''candidate_detected'' else ''candidate_source_ingested''),
                ce_from_state = (if created then None else Some (cd_state old)), ce_to_state = Some (cd_state c),
                ce_source = candidate_source_of (ev_source_type e), ce_reason = ''candidate source event'',
                ce_created_at = ev_detected_at e, ce_payload = SourcePayload e\<rparr>] db;
            db = save_source_event_row \<lparr>sr_event = e, sr_candidate_id = Some (cd_id saved), sr_status = ''INGESTED'', sr_reason = []\<rparr> db;
            (saved, db) = on_condition_include (ie_contract_enabled env) (ie_now env) [] (event_details e) saved db;
            (saved, db) = save_candidate saved db
        in (\<lparr>ir_candidate = Some saved, ir_source_event = e, ir_created = created, ir_merged = \<not> created, ir_removed = False,
             ir_ignored = False, ir_reason = (if created then ''CREATED'' else ''MERGED'')\<rparr>, db))"

section \<open>Condition events\<close>

text \<open>The two Korean words that also name the levels have characters beyond those of the model's texts.\<close>

definition condition_level :: "string \<Rightarrow> string \<Rightarrow> string" where
  "condition_level condition_name purpose =
     (let text = lower (condition_name @ '' '' @ purpose) in
      if contains ''leader'' text then ''LEADER''
      else if contains ''strong'' text \<or> contains ''_3'' text then ''STRONG'' else ''ALIVE'')"

definition condition_score :: "string \<Rightarrow> rat" where
  "condition_score level =
     (if level = ''LEADER'' then 80 else if level = ''STRONG'' then 55 else if level = ''ALIVE'' then 25 else 0)"

definition source_event_from_condition_event :: "time \<Rightarrow> string \<Rightarrow> broker_condition_event \<Rightarrow> candidate_source_event" where
  "source_event_from_condition_event now trade_date e =
     (let level = condition_level (ce_condition_name e) (ce_purpose e) in
      \<lparr>ev_trade_date = trade_date, ev_code = ce_code e, ev_name = [], ev_source_type = ''condition_search'',
       ev_source_id = ce_condition_name e, ev_source_rank = max 0 (ce_condition_index e), ev_source_score = condition_score level,
       ev_theme_id = [], ev_theme_name = [], ev_stock_role = (if level = ''LEADER'' then ''LEADER'' else []),
       ev_reason_codes = dedupe [''condition_'' @ lower level, ''CONDITION_INCLUDE_BOOSTER_ONLY''],
       ev_event_type = broker_condition_event.ce_event_type e, ev_detected_at = stamp_or (ce_timestamp e) (At (whole_second now))\<rparr>)"

text \<open>\<open>None\<close> as membership list stands for a repository that is missing or fails.\<close>

definition theme_display_name :: "ingestion_env \<Rightarrow> string \<Rightarrow> string" where
  "theme_display_name env theme_id =
     (case ie_theme env theme_id of Some (display, canonical) \<Rightarrow> str_or (str_or display canonical) theme_id | None \<Rightarrow> theme_id)"

definition enrich_source_theme_context :: "ingestion_env \<Rightarrow> candidate_source_event \<Rightarrow> candidate_source_event" where
  "enrich_source_theme_context env e =
     (if \<not> ie_enrich env \<or> ev_theme_id e \<noteq> [] \<or> ev_code e = [] \<or> ev_source_type e \<noteq> ''condition_search'' then e
      else case ie_memberships env (ev_code e) of
        Some (m # _) \<Rightarrow>
          if tm_theme_id m = [] then e
          else e\<lparr>ev_name := str_or (ev_name e) (tm_stock_name m), ev_theme_id := tm_theme_id m,
                 ev_theme_name := theme_display_name env (tm_theme_id m),
                 ev_reason_codes := dedupe (ev_reason_codes e @ [''THEME_CONTEXT_ATTACHED''])\<rparr>
      | _ \<Rightarrow> e)"

definition handle_condition_event ::
  "ingestion_env \<Rightarrow> broker_condition_event \<Rightarrow> string option \<Rightarrow> candidate_db \<Rightarrow> ingestion_result \<times> candidate_db" where
  "handle_condition_event env e trade_date db =
     (let day = (case trade_date of Some d \<Rightarrow> str_or d (date_text (ie_now env)) | None \<Rightarrow> date_text (ie_now env));
          se = enrich_source_theme_context env (source_event_from_condition_event (ie_now env) day e)
      in if broker_condition_event.ce_event_type e = ''remove'' then remove_source env se db else ingest env se db)"

section \<open>What the state machine leaves of a stored candidate\<close>

lemma promote_keeps:
  assumes "promote enabled now target reason stage sid sty cmp det c db = (c', db')"
  shows "cd_trade_date c' = cd_trade_date c \<and> cd_code c' = cd_code c \<and>
    md_ingestion (cd_metadata c') = md_ingestion (cd_metadata c) \<and>
    (cd_state c' = cd_state c \<or> \<not> is_terminal c \<and> (cd_state c' = WATCHING \<or> cd_state c' = WAIT_DATA))"
proof -
  obtain t r st where "apply_fsm enabled now t r st [r] sid sty cmp det c db = (c', db')"
    using operations_apply(1) [of enabled now target reason stage sid sty cmp det c db] assms by auto
  then obtain snap db1 where run: "reconcile_candidate enabled now (fsm_written now t r st [r] sid det c) db = (snap, c', db1)"
    by (auto simp: apply_fsm_def Let_def fsm_written_def split: prod.splits)
  let ?c = "fsm_written now t r st [r] sid det c"
  have fields: "cd_trade_date ?c = cd_trade_date c" "cd_code ?c = cd_code c" "md_ingestion (cd_metadata ?c) = md_ingestion (cd_metadata c)"
    by (simp_all add: fsm_written_def)
  have "cd_state c' = cd_state c \<or> \<not> is_terminal c \<and> (cd_state c' = WATCHING \<or> cd_state c' = WAIT_DATA)"
  proof (cases "reconcile_due enabled ?c")
    case True
    then have "\<not> is_terminal c" by (simp add: reconcile_due_def is_terminal_def)
    with reconcile_acts(2) [OF True run] due_target [OF True] show ?thesis by auto
  next
    case False
    with run reconcile_idle [OF False] have "c' = ?c" by simp
    then show ?thesis by simp
  qed
  with fields same_candidateD [OF reconcile_same(1) [OF run]] show ?thesis by simp
qed

lemma stored_last:
  assumes "save_candidate c db = (c', db')"
  shows "load_candidate (cd_trade_date c) (cd_code c) db' = Some c'" "c' = c\<lparr>cd_id := cd_id c'\<rparr>"
  using save_candidate_result(1,2) [OF assms] by simp_all

lemma id_simps [simp]:
  "contract_v2_state (c\<lparr>cd_id := i\<rparr>) = contract_v2_state c" "fsm_v2_state (c\<lparr>cd_id := i\<rparr>) = fsm_v2_state c"
  "is_terminal (c\<lparr>cd_id := i\<rparr>) = is_terminal c" "active_source_exists (c\<lparr>cd_id := i\<rparr>) = active_source_exists c"
  by (auto simp: contract_v2_state_def fsm_v2_state_def fsm_of_def is_terminal_def active_source_exists_def Let_def split: option.split)

lemma saved_fields:
  "save_candidate c db = (c', db') \<Longrightarrow> cd_state c' = cd_state c \<and> cd_trade_date c' = cd_trade_date c \<and> cd_code c' = cd_code c \<and>
     cd_metadata c' = cd_metadata c"
  "save_candidate_with_events c events db = (c', db') \<Longrightarrow> cd_state c' = cd_state c \<and> cd_trade_date c' = cd_trade_date c \<and>
     cd_code c' = cd_code c \<and> cd_metadata c' = cd_metadata c"
  by (auto simp: save_candidate_with_events_def save_candidate_def Let_def split: option.splits prod.splits)

section \<open>Taking the last source away\<close>

lemma without_last_source:
  assumes "distinct (map fst (ig_source_map (ingestion_of c)))"
    and others: "\<forall>(k, entry)\<in>set (ig_source_map (ingestion_of c)). k \<noteq> source_key e \<longrightarrow> \<not> se_active entry"
  shows "cd_state (without_source e c) = (if cd_state c \<in> {DETECTED, HYDRATING, WAIT_DATA, WATCHING} then REMOVED else cd_state c)"
    and "ig_source_map (ingestion_of c) \<noteq> [] \<Longrightarrow> \<not> active_source_exists (without_source e c)"
proof -
  let ?m = "ig_source_map (ingestion_of c)" and ?k = "source_key e"
  let ?m' = "case map_of ?m ?k of Some x \<Rightarrow> AList.update ?k (x\<lparr>se_active := False, se_removed_at := ev_detected_at e\<rparr>) ?m | None \<Rightarrow> ?m"
  have "\<not> se_active x" if "(k, x) \<in> set ?m'" for k x
  proof (cases "map_of ?m ?k")
    case None
    with that have "(k, x) \<in> set ?m" by simp
    moreover from this None have "k \<noteq> ?k" by (force simp: map_of_eq_None_iff)
    ultimately show ?thesis using others by auto
  next
    case (Some y)
    with that assms(1) have "k = ?k \<and> \<not> se_active x \<or> k \<noteq> ?k \<and> (k, x) \<in> set ?m"
      by (auto simp: set_update_distinct)
    with others show ?thesis by auto
  qed
  then have none: "filter se_active (map snd ?m') = []" by (auto simp: filter_empty_conv)
  then show "cd_state (without_source e c) = (if cd_state c \<in> {DETECTED, HYDRATING, WAIT_DATA, WATCHING} then REMOVED else cd_state c)"
    unfolding without_source_def Let_def by simp
  assume "?m \<noteq> []"
  then have "?m' \<noteq> []" by (cases ?m) (auto split: option.split)
  moreover have "md_ingestion (cd_metadata (without_source e c)) =
      Some ((ingestion_of c)\<lparr>ig_source_map := ?m', ig_active_source_types := active_types (map snd ?m')\<rparr>)"
    by (simp add: without_source_def Let_def)
  moreover have "dedupe ([] :: string list) = []" by code_simp
  ultimately show "\<not> active_source_exists (without_source e c)"
    using none by (auto simp: active_source_exists_def active_types_def filter_empty_conv Let_def)
qed

lemma without_source_fields [simp]:
  "cd_trade_date (without_source e c) = cd_trade_date c" "cd_code (without_source e c) = cd_code c"
  by (simp_all add: without_source_def Let_def)

text \<open>Without an active source the state machine moves no candidate to WATCHING, and to WAIT_DATA only from the early states.\<close>

lemma promote_idle:
  assumes run: "promote enabled now target reason stage sid sty cmp det c db = (c', db')"
    and "\<not> active_source_exists c" "cd_state c \<notin> {DETECTED, HYDRATING, WAIT_DATA, WATCHING}"
  shows "cd_state c' = cd_state c \<and> \<not> active_source_exists c' \<and> cd_trade_date c' = cd_trade_date c \<and> cd_code c' = cd_code c"
proof -
  obtain t r st where t: "apply_fsm enabled now t r st [r] sid sty cmp det c db = (c', db')"
    using operations_apply(1) [of enabled now target reason stage sid sty cmp det c db] run by auto
  let ?w = "fsm_written now t r st [r] sid det c"
  have same: "cd_state ?w = cd_state c" "cd_trade_date ?w = cd_trade_date c" "cd_code ?w = cd_code c"
    "active_source_exists ?w = active_source_exists c"
    by (simp_all add: fsm_written_def active_source_exists_def Let_def)
  have "\<not> reconcile_due enabled ?w"
  proof
    assume due: "reconcile_due enabled ?w"
    from due_target [OF due] due assms(2,3) same show False
      by (auto simp: reconcile_due_def state_change_allowed_def contract_snapshot_of_def Let_def)
  qed
  from apply_fsm_idle [OF this, of sty cmp db] t have "c' = ?w" by auto
  with same assms(2) show ?thesis by simp
qed

text \<open>C29: Taking the last active source of a candidate away bars it from evaluation. A candidate that is detected,
  hydrating, waiting for data or watched is ended by it: the stored candidate is REMOVED in both versions of its state. In any other
  state, ready and blocked included, the stored candidate keeps its state and, when its source map names a source at all, has no
  active source left, so it is not eligible either.\<close>
theorem last_source_removal_ends_candidate:
  assumes ok: "cdb_ok db"
    and old: "load_candidate (ev_trade_date (normalized_event (ie_now env) e)) (ev_code (normalized_event (ie_now env) e)) db = Some c"
    and "distinct (map fst (ig_source_map (ingestion_of c)))"
    and "\<forall>(k, entry)\<in>set (ig_source_map (ingestion_of c)). k \<noteq> source_key (normalized_event (ie_now env) e) \<longrightarrow> \<not> se_active entry"
    and run: "remove_source env e db = (res, db')"
  shows "(cd_state c \<in> {DETECTED, HYDRATING, WAIT_DATA, WATCHING} \<longrightarrow>
      (\<exists>c'. load_candidate (cd_trade_date c) (cd_code c) db' = Some c' \<and> cd_state c' = REMOVED \<and> fsm_v2_state c' = V2_REMOVED \<and>
        \<not> cs_evaluation_eligible (contract_snapshot_of c'))) \<and>
    (cd_state c \<notin> {DETECTED, HYDRATING, WAIT_DATA, WATCHING} \<and> ig_source_map (ingestion_of c) \<noteq> [] \<longrightarrow>
      (\<exists>c'. load_candidate (cd_trade_date c) (cd_code c) db' = Some c' \<and> cd_state c' = cd_state c \<and> \<not> active_source_exists c' \<and>
        \<not> cs_evaluation_eligible (contract_snapshot_of c')))"
proof (intro conjI impI)
  let ?e = "normalized_event (ie_now env) e"
  let ?c = "without_source ?e c"
  note gone = without_last_source [OF assms(3,4)]
  obtain events row saved db1 saved2 db2 saved3 where
    s1: "save_candidate_with_events ?c events db = (saved, db1)" and
    s2: "on_condition_remove (ie_contract_enabled env) (ie_now env) [] (event_details ?e) saved (save_source_event_row row db1) = (saved2, db2)" and
    s3: "save_candidate saved2 db2 = (saved3, db')"
    using run by (auto simp: remove_source_def Let_def old split: prod.splits)
  note fields = saved_fields(2) [OF s1]
  {
    assume "cd_state c \<in> {DETECTED, HYDRATING, WAIT_DATA, WATCHING}"
    then have saved: "cd_state saved = REMOVED" "cd_trade_date saved = cd_trade_date c" "cd_code saved = cd_code c"
      using fields gone(1) by simp_all
    let ?w = "fsm_written (ie_now env) V2_REMOVED ''CONDITION_REMOVE'' ''NONE'' [''CONDITION_REMOVE''] [] (event_details ?e) saved"
    have "\<not> reconcile_due (ie_contract_enabled env) ?w" by (simp add: reconcile_due_def is_terminal_def saved)
    from apply_fsm_idle [OF this, of "''condition_remove''" "''CandidateIngestionService''" "save_source_event_row row db1"] s2
    have saved2: "saved2 = ?w" by (auto simp: on_condition_remove_def promote_def saved ready_states_def)
    have v2: "fsm_v2_state ?w = V2_REMOVED" "is_terminal ?w" "cd_trade_date ?w = cd_trade_date c" "cd_code ?w = cd_code c"
      using saved runtime_of_text_runtime_text [of V2_REMOVED]
      by (simp_all add: fsm_v2_state_def text_or_def fsm_entries_lookup py_or_def is_terminal_def)
    note last = stored_last [OF s3, unfolded saved2]
    have "cd_state saved3 = REMOVED \<and> fsm_v2_state saved3 = V2_REMOVED \<and> \<not> cs_evaluation_eligible (contract_snapshot_of saved3)"
      by (subst (1 2 3) last(2)) (simp add: v2 saved eligibility_def Let_def)
    with last(1) v2(3,4) show "\<exists>c'. load_candidate (cd_trade_date c) (cd_code c) db' = Some c' \<and> cd_state c' = REMOVED \<and>
        fsm_v2_state c' = V2_REMOVED \<and> \<not> cs_evaluation_eligible (contract_snapshot_of c')" by auto
  next
    assume other: "cd_state c \<notin> {DETECTED, HYDRATING, WAIT_DATA, WATCHING} \<and> ig_source_map (ingestion_of c) \<noteq> []"
    then have st: "cd_state saved = cd_state c" using fields gone(1) by simp
    have "active_source_exists saved = active_source_exists ?c"
      by (metis id_simps(4) save_with_events_result(1) [OF s1])
    with other gone(2) have inactive: "\<not> active_source_exists saved" by simp
    from promote_idle [OF s2 [unfolded on_condition_remove_def] inactive] st other fields
    have saved2: "cd_state saved2 = cd_state c" "\<not> active_source_exists saved2" "cd_trade_date saved2 = cd_trade_date c"
      "cd_code saved2 = cd_code c" by simp_all
    note last = stored_last [OF s3]
    have "cd_state saved3 = cd_state c \<and> \<not> active_source_exists saved3"
      by (subst (1 2) last(2)) (simp add: saved2)
    moreover from this have "\<not> cs_evaluation_eligible (contract_snapshot_of saved3)"
      by (simp add: contract_snapshot_of_def eligibility_def Let_def)
    ultimately show "\<exists>c'. load_candidate (cd_trade_date c) (cd_code c) db' = Some c' \<and> cd_state c' = cd_state c \<and>
        \<not> active_source_exists c' \<and> \<not> cs_evaluation_eligible (contract_snapshot_of c')"
      using last(1) saved2(3,4) by auto
  }
qed

section \<open>Intake revives\<close>

lemma merge_fields [simp]:
  "cd_state (merge_candidate env e c) = cd_state c" "cd_trade_date (merge_candidate env e c) = cd_trade_date c"
  "cd_code (merge_candidate env e c) = cd_code c"
  "md_ingestion (cd_metadata (merge_candidate env e c)) = Some (merged_ingestion (cd_metadata c) (ingestion_of c) e)"
  "cd_trade_date (revived c) = cd_trade_date c" "cd_code (revived c) = cd_code c"
  "cd_state (revived c) \<notin> {REMOVED, EXPIRED}"
  by (auto simp: merge_candidate_def Let_def revived_def)

lemma merged_ingestion_active:
  assumes "md_ingestion (cd_metadata c) = Some (merged_ingestion md g e)"
  shows "active_source_exists c" "map_of (ig_source_map (ingestion_of c)) (source_key e) = Some (source_event_summary e)"
proof -
  let ?m = "AList.update (source_key e) (source_event_summary e) (ig_source_map g)"
  have m: "ig_source_map (merged_ingestion md g e) = ?m" by (simp add: merged_ingestion_def Let_def)
  have look: "map_of ?m (source_key e) = Some (source_event_summary e)" by (simp add: dict_simps)
  then have "source_event_summary e \<in> set (map snd ?m)" by (force dest: map_of_SomeD)
  moreover have "se_active (source_event_summary e)" by (simp add: source_event_summary_def)
  ultimately have "?m \<noteq> []" "\<exists>x\<in>set (map snd ?m). se_active x" by (auto simp del: set_map)
  then show "active_source_exists c" using m assms by (auto simp: active_source_exists_def Let_def)
  show "map_of (ig_source_map (ingestion_of c)) (source_key e) = Some (source_event_summary e)"
    using look m assms by (simp add: ingestion_of_def)
qed

text \<open>C30: Taking in a source leaves a stored candidate that holds the source as active and has an active source, and
  that is not ended unless it was cancelled before: removed and expired candidates live again.\<close>
theorem ingest_revives_candidate:
  assumes ok: "cdb_ok db" and "ev_code (normalized_event (ie_now env) e) \<noteq> []" "lower (ev_event_type e) \<noteq> ''remove''"
    and run: "ingest env e db = (res, db')"
  shows "\<exists>c'. load_candidate (ev_trade_date (normalized_event (ie_now env) e)) (ev_code (normalized_event (ie_now env) e)) db' = Some c' \<and>
    map_of (ig_source_map (ingestion_of c')) (source_key (normalized_event (ie_now env) e)) =
      Some (source_event_summary (normalized_event (ie_now env) e)) \<and>
    active_source_exists c' \<and>
    (is_terminal c' \<longrightarrow> (\<exists>c. load_candidate (ev_trade_date (normalized_event (ie_now env) e)) (ev_code (normalized_event (ie_now env) e)) db =
       Some c \<and> cd_state c = CANCELLED))"
proof -
  let ?e = "normalized_event (ie_now env) e"
  have type: "lower (ev_event_type ?e) \<noteq> ''remove''" using assms(3) by (simp add: normalized_event_def Let_def)
  let ?old = "case load_candidate (ev_trade_date ?e) (ev_code ?e) db of Some c \<Rightarrow> c | None \<Rightarrow> new_candidate env ?e"
  let ?c = "merge_candidate env ?e (revived ?old)"
  obtain events row saved db1 saved2 db2 saved3 where
    s1: "save_candidate_with_events ?c events db = (saved, db1)" and
    s2: "on_condition_include (ie_contract_enabled env) (ie_now env) [] (event_details ?e) saved (save_source_event_row row db1) = (saved2, db2)" and
    s3: "save_candidate saved2 db2 = (saved3, db')"
    using run assms(2) type by (auto simp: ingest_def Let_def split: prod.splits)
  have key: "cd_trade_date ?old = ev_trade_date ?e" "cd_code ?old = ev_code ?e"
    using cdb_ok_load [OF ok] by (auto simp: new_candidate_def split: option.split)
  have saved: "cd_state saved = cd_state (revived ?old)" "cd_trade_date saved = ev_trade_date ?e" "cd_code saved = ev_code ?e"
    "md_ingestion (cd_metadata saved) = Some (merged_ingestion (cd_metadata (revived ?old)) (ingestion_of (revived ?old)) ?e)"
    using saved_fields(2) [OF s1] key by simp_all
  note p = promote_keeps [OF s2 [unfolded on_condition_include_def]]
  note last = stored_last [OF s3]
  have row: "md_ingestion (cd_metadata saved3) = Some (merged_ingestion (cd_metadata (revived ?old)) (ingestion_of (revived ?old)) ?e)"
    "cd_state saved3 = cd_state saved2"
    using saved_fields(1) [OF s3] p saved by simp_all
  have "\<exists>c. load_candidate (ev_trade_date ?e) (ev_code ?e) db = Some c \<and> cd_state c = CANCELLED" if "is_terminal saved3"
  proof -
    have "cd_state saved2 = cd_state (revived ?old)" using that p saved(1) row(2) by (auto simp: is_terminal_def)
    with that row(2) have "cd_state (revived ?old) = CANCELLED" using merge_fields(7) [of ?old] by (auto simp: is_terminal_def)
    then have "cd_state ?old = CANCELLED" by (auto simp: revived_def split: if_splits)
    then show ?thesis by (auto simp: new_candidate_def split: option.splits)
  qed
  moreover have "load_candidate (ev_trade_date ?e) (ev_code ?e) db' = Some saved3" using last(1) p saved by simp
  ultimately show ?thesis using merged_ingestion_active [OF row(1)] by blast
qed

definition sample_env :: ingestion_env where
  "sample_env = \<lparr>ie_now = 0, ie_contract_enabled = True, ie_ttl_minutes = 30, ie_enrich = False, ie_memberships = (\<lambda>_. None),
     ie_theme = (\<lambda>_. None)\<rparr>"

definition sample_event :: "string \<Rightarrow> candidate_source_event" where
  "sample_event kind = \<lparr>ev_trade_date = ''2026-06-17'', ev_code = ''005930'', ev_name = [], ev_source_type = ''condition_search'',
     ev_source_id = ''entry'', ev_source_rank = 1, ev_source_score = 25, ev_theme_id = [], ev_theme_name = [], ev_stock_role = [],
     ev_reason_codes = [], ev_event_type = kind, ev_detected_at = At 0\<rparr>"

lemma sample_normalized:
  "ev_trade_date (normalized_event now (sample_event kind)) = ''2026-06-17''" "ev_code (normalized_event now (sample_event kind)) = ''005930''"
proof -
  have "normalize_code ''005930'' = ''005930''" by code_simp
  then show "ev_code (normalized_event now (sample_event kind)) = ''005930''"
    "ev_trade_date (normalized_event now (sample_event kind)) = ''2026-06-17''"
    by (simp_all add: normalized_event_def sample_event_def Let_def str_or_def)
qed

theorem ingest_revives_candidate_witness:
  "\<exists>c. load_candidate ''2026-06-17'' ''005930'' (snd (ingest sample_env (sample_event ''include'') empty_candidate_db)) = Some c \<and>
     active_source_exists c"
proof -
  have "lower ''include'' = ''include''" by code_simp
  then show ?thesis
    using ingest_revives_candidate [of empty_candidate_db sample_env "sample_event ''include''", OF _ _ _ prod.collapse [symmetric]]
    by (auto simp: sample_normalized) (auto simp: sample_event_def)
qed

text \<open>A stored candidate that waits for data and has one source.\<close>

definition one_source_db :: candidate_db where
  "one_source_db = empty_candidate_db\<lparr>db_candidates :=
     [((''2026-06-17'', ''005930''), (sample_candidate WAIT_DATA BLOCK_NONE))], db_next_candidate_id := 2\<rparr>"

theorem last_source_removal_ends_candidate_witness:
  "\<exists>c. load_candidate ''2026-06-17'' ''005930'' (snd (remove_source sample_env (sample_event ''remove'') one_source_db)) = Some c \<and>
     cd_state c = REMOVED \<and> \<not> cs_evaluation_eligible (contract_snapshot_of c)"
proof -
  let ?c = "sample_candidate WAIT_DATA BLOCK_NONE"
  have ok: "cdb_ok one_source_db"
    by (auto simp: cdb_ok_def candidate_rows_ok_def one_source_db_def sample_candidate_def split: if_splits)
  have old: "load_candidate ''2026-06-17'' ''005930'' one_source_db = Some ?c" by (simp add: load_candidate_def one_source_db_def)
  have c: "cd_trade_date ?c = ''2026-06-17''" "cd_code ?c = ''005930''" "cd_state ?c = WAIT_DATA" "ig_source_map (ingestion_of ?c) = []"
    by (simp_all add: sample_candidate_def ingestion_of_def no_metadata_def no_ingestion_def)
  show ?thesis
    using last_source_removal_ends_candidate [OF ok _ _ _ prod.collapse [symmetric], of sample_env "sample_event ''remove''" ?c] old
    by (auto simp: sample_normalized c)
qed

end
