(* ===== verification/Broker_Reconcile.thy ===== *)
theory Broker_Reconcile
  imports Order_Store Gateway_State
begin

text \<open>
  The reconciliation with the broker's own books (\<open>trading/strategy/broker_reconcile.py\<close>), its data
  (\<open>trading/broker/reconcile_tr_models.py\<close>) and its tables in \<open>storage/db.py\<close>: a run asks the gateway for the
  open orders and positions, keeps what comes back per run, compares it with the local projections of
  orders and positions, and says whether the broker's truth is ready. The parser of the captured
  answers and the registry of request specifications (tables of Korean field names) are parameters, as
  are the digest of account numbers and the source of run identifiers.
\<close>

section \<open>Data\<close>

datatype recon_run_status =
    RUN_DISABLED | RUN_WAIT_GATEWAY | RUN_WAIT_ACCOUNT | RUN_WAIT_CREDENTIAL | RUN_QUEUED | RUN_RUNNING
  | RUN_PARTIAL | RUN_COMPLETE | RUN_CLEAN | RUN_DISCREPANCY | RUN_RECONCILE_REQUIRED | RUN_FAILED
  | RUN_STALE | RUN_CANCELLED

datatype recon_source_status =
    SRC_NOT_REQUESTED | SRC_QUEUED | SRC_DISPATCHED | SRC_CAPTURED | SRC_PARSED | SRC_VALID_EMPTY
  | SRC_INVALID | SRC_PARTIAL | SRC_FAILED | SRC_TIMED_OUT

datatype recon_parser_status = PARSER_PASS | PARSER_DEGRADED | PARSER_INVALID | PARSER_VALID_EMPTY

datatype recon_severity =
    SEV_INFO | SEV_WARNING | SEV_STOP_NEW_BUY | SEV_REDUCE_ONLY | SEV_KILL_SWITCH_RECOMMENDED

definition CRITICAL_SEVERITIES :: "recon_severity list" where
  "CRITICAL_SEVERITIES = [SEV_STOP_NEW_BUY, SEV_REDUCE_ONLY, SEV_KILL_SWITCH_RECOMMENDED]"

abbreviation OPEN_ORDERS :: string where "OPEN_ORDERS \<equiv> ''OPEN_ORDERS''"
abbreviation ACCOUNT_POSITIONS :: string where "ACCOUNT_POSITIONS \<equiv> ''ACCOUNT_POSITIONS''"
abbreviation ACCOUNT_CASH :: string where "ACCOUNT_CASH \<equiv> ''ACCOUNT_CASH''"

record open_order_snapshot =
  tro_account_token :: string
  tro_order_no :: string
  tro_original_order_no :: string
  tro_code :: string
  tro_side :: string
  tro_order_quantity :: int
  tro_order_price :: int
  tro_filled_quantity :: int
  tro_remaining_quantity :: int
  tro_order_status :: string
  tro_order_time :: string
  tro_source :: string

record position_snapshot =
  trp_account_token :: string
  trp_code :: string
  trp_quantity :: int
  trp_orderable_quantity :: int
  trp_average_price :: rat
  trp_total_buy_amount :: rat
  trp_current_price :: rat
  trp_evaluation_amount :: rat
  trp_evaluation_pnl :: rat
  trp_profit_rate :: rat
  trp_source :: string

record cash_snapshot =
  trc_account_token :: string
  trc_deposit :: int
  trc_orderable_cash :: int
  trc_withdrawable_cash :: int
  trc_d1_estimated_deposit :: int
  trc_d2_estimated_deposit :: int
  trc_source :: string

record tr_parse_result =
  tpr_run_id :: string
  tpr_logical_source :: string
  tpr_parser_version :: string
  tpr_parser_status :: recon_parser_status
  tpr_tr_code :: string
  tpr_rq_name :: string
  tpr_complete :: bool
  tpr_valid_empty :: bool
  tpr_page_count :: int
  tpr_row_count :: int
  tpr_open_orders :: "open_order_snapshot list"
  tpr_positions :: "position_snapshot list"
  tpr_cash :: "cash_snapshot option"
  tpr_warnings :: "string list"
  tpr_errors :: "string list"
  tpr_raw_checksum :: string

text \<open>\<open>account_token\<close>, with \<open>sha\<close> for the hexadecimal SHA-256 of a text.\<close>

definition account_token :: "(string \<Rightarrow> string) \<Rightarrow> string \<Rightarrow> string" where
  "account_token sha account =
     (let txt = strip account in if txt = [] then [] else ''ACC_TOKEN_'' @ take 12 (sha txt))"

section \<open>The local projections of broker orders and positions\<close>

record broker_order_state =
  bos_id :: int
  bos_account :: string
  bos_order_no :: string
  bos_original_order_no :: string
  bos_command_id :: string
  bos_code :: string
  bos_side :: string
  bos_order_qty :: int
  bos_filled_qty :: int
  bos_remaining_qty :: int
  bos_avg_fill_price :: rat
  bos_broker_status :: string
  bos_last_event_id :: string
  bos_last_event_at :: stamp
  bos_updated_at :: stamp

record broker_position_state =
  bps_id :: int
  bps_account :: string
  bps_code :: string
  bps_quantity :: int
  bps_available_quantity :: int
  bps_avg_price :: rat
  bps_last_snapshot_id :: string
  bps_snapshot_at :: stamp
  bps_updated_at :: stamp

text \<open>The row that an upsert writes: the columns as \<open>params\<close> computes them from the payload.\<close>

definition order_state_params :: "time \<Rightarrow> broker_order_state \<Rightarrow> broker_order_state" where
  "order_state_params now p =
     p\<lparr>bos_code := code_column (bos_code p), bos_side := upper (bos_side p),
       bos_remaining_qty := max 0 (bos_remaining_qty p),
       bos_last_event_at := stamp_or (bos_last_event_at p) (stamp_or (bos_updated_at p) (At (whole_second now))),
       bos_updated_at := stamp_or (bos_updated_at p) (At (whole_second now))\<rparr>"

definition order_state_conflict :: "broker_order_state \<Rightarrow> broker_order_state \<Rightarrow> broker_order_state" where
  "order_state_conflict p r =
     r\<lparr>bos_original_order_no := bos_original_order_no p,
       bos_command_id := str_or (bos_command_id p) (bos_command_id r),
       bos_code := str_or (bos_code p) (bos_code r),
       bos_side := str_or (bos_side p) (bos_side r),
       bos_order_qty := max (bos_order_qty r) (bos_order_qty p),
       bos_filled_qty := max (bos_filled_qty r) (bos_filled_qty p),
       bos_remaining_qty := bos_remaining_qty p,
       bos_avg_fill_price := (if bos_avg_fill_price p > 0 then bos_avg_fill_price p else bos_avg_fill_price r),
       bos_broker_status := str_or (bos_broker_status p) (bos_broker_status r),
       bos_last_event_id := bos_last_event_id p,
       bos_last_event_at := bos_last_event_at p,
       bos_updated_at := bos_updated_at p\<rparr>"

definition position_state_params :: "time \<Rightarrow> broker_position_state \<Rightarrow> broker_position_state" where
  "position_state_params now p =
     p\<lparr>bps_code := code_column (bps_code p),
       bps_updated_at := stamp_or (bps_updated_at p) (At (whole_second now))\<rparr>"

definition position_state_conflict :: "broker_position_state \<Rightarrow> broker_position_state \<Rightarrow> broker_position_state" where
  "position_state_conflict p r =
     r\<lparr>bps_quantity := bps_quantity p, bps_available_quantity := bps_available_quantity p,
       bps_avg_price := bps_avg_price p, bps_last_snapshot_id := bps_last_snapshot_id p,
       bps_snapshot_at := bps_snapshot_at p, bps_updated_at := bps_updated_at p\<rparr>"

section \<open>Runs, results and discrepancies\<close>

record recon_run =
  rr_run_id :: string
  rr_account_token :: string
  rr_broker_env :: string
  rr_trigger :: string
  rr_gateway_session_id :: string
  rr_status :: "recon_run_status option"
  rr_required_sources :: "string list"
  rr_completed_sources :: "string list"
  rr_source_event_watermark :: string
  rr_chejan_watermark :: string
  rr_snapshot_complete :: bool
  rr_broker_truth_ready :: bool
  rr_reconcile_clean :: bool
  rr_discrepancy_count :: int
  rr_critical_discrepancy_count :: int
  rr_warnings :: "string list"
  rr_errors :: "string list"
  rr_started_at :: stamp
  rr_completed_at :: stamp
  rr_created_at :: stamp
  rr_updated_at :: stamp

text \<open>What a dictionary without any key stands for when it is saved.\<close>

definition no_run :: recon_run where
  "no_run = \<lparr>rr_run_id = [], rr_account_token = [], rr_broker_env = [], rr_trigger = [],
     rr_gateway_session_id = [], rr_status = None, rr_required_sources = [], rr_completed_sources = [],
     rr_source_event_watermark = [], rr_chejan_watermark = [], rr_snapshot_complete = False,
     rr_broker_truth_ready = False, rr_reconcile_clean = False, rr_discrepancy_count = 0,
     rr_critical_discrepancy_count = 0, rr_warnings = [], rr_errors = [], rr_started_at = Blank,
     rr_completed_at = Blank, rr_created_at = Blank, rr_updated_at = Blank\<rparr>"

record source_result =
  sr_id :: int
  sr_run_id :: string
  sr_logical_source :: string
  sr_tr_code :: string
  sr_rq_name :: string
  sr_command_id :: string
  sr_status :: recon_source_status
  sr_complete :: bool
  sr_page_count :: int
  sr_row_count :: int
  sr_parser_version :: string
  sr_parser_status :: recon_parser_status
  sr_parser_warnings :: "string list"
  sr_parser_errors :: "string list"
  sr_raw_checksum :: string
  sr_captured_at :: stamp
  sr_parsed_at :: stamp

record open_order_row = open_order_snapshot +
  oor_id :: int
  oor_run_id :: string
  oor_snapshot_at :: stamp

record position_snapshot_row = position_snapshot +
  psr_id :: int
  psr_run_id :: string
  psr_snapshot_at :: stamp

record cash_snapshot_row = cash_snapshot +
  csr_id :: int
  csr_run_id :: string
  csr_snapshot_at :: stamp

text \<open>The two sides of a discrepancy, each an empty dictionary or a row.\<close>

datatype local_side = NoLocal | LocalOrder broker_order_state | LocalPosition broker_position_state
datatype broker_side = NoBroker | BrokerOrder open_order_row | BrokerPosition position_snapshot_row

record discrepancy =
  di_category :: string
  di_severity :: recon_severity
  di_entity_type :: string
  di_entity_key :: string
  di_account_token :: string
  di_code :: string
  di_order_no :: string
  di_local :: local_side
  di_tr_snapshot :: broker_side
  di_reason_codes :: "string list"
  di_first_detected_at :: stamp
  di_last_detected_at :: stamp
  di_status :: string
  di_operator_action_required :: bool

record discrepancy_row = discrepancy +
  dir_id :: int
  dir_run_id :: string

record broker_db =
  bd_orders :: "broker_order_state table"
  bd_positions :: "broker_position_state table"
  bd_runs :: "recon_run list"
  bd_results :: "source_result table"
  bd_open_orders :: "open_order_row table"
  bd_tr_positions :: "position_snapshot_row table"
  bd_cash :: "cash_snapshot_row table"
  bd_discrepancies :: "discrepancy_row table"

definition empty_broker_db :: broker_db where
  "empty_broker_db = \<lparr>bd_orders = empty_table, bd_positions = empty_table, bd_runs = [],
     bd_results = empty_table, bd_open_orders = empty_table, bd_tr_positions = empty_table,
     bd_cash = empty_table, bd_discrepancies = empty_table\<rparr>"

section \<open>The operations of the tables\<close>

text \<open>INSERT with an update on a conflict, INSERT OR REPLACE, and DELETE.\<close>

definition upsert :: "('r \<Rightarrow> bool) \<Rightarrow> ('r \<Rightarrow> 'r) \<Rightarrow> (int \<Rightarrow> 'r) \<Rightarrow> 'r table \<Rightarrow> 'r table" where
  "upsert same conflict mk t =
     (if \<exists>r\<in>set (t_rows t). same r then update_rows same conflict t else insert_row mk t)"

definition delete_rows :: "('r \<Rightarrow> bool) \<Rightarrow> 'r table \<Rightarrow> 'r table" where
  "delete_rows P t = t\<lparr>t_rows := filter (\<lambda>r. \<not> P r) (t_rows t)\<rparr>"

definition replace_row :: "('r \<Rightarrow> bool) \<Rightarrow> (int \<Rightarrow> 'r) \<Rightarrow> 'r table \<Rightarrow> 'r table" where
  "replace_row same mk t = insert_row mk (delete_rows same t)"

definition upsert_broker_order_state :: "time \<Rightarrow> broker_order_state \<Rightarrow> broker_db \<Rightarrow> broker_db" where
  "upsert_broker_order_state now payload db =
     (let p = order_state_params now payload in
      if bos_order_no p = [] then db
      else db\<lparr>bd_orders := upsert (\<lambda>r. bos_account r = bos_account p \<and> bos_order_no r = bos_order_no p)
                (order_state_conflict p) (\<lambda>k. p\<lparr>bos_id := k\<rparr>) (bd_orders db)\<rparr>)"

definition get_broker_order_state :: "string \<Rightarrow> string \<Rightarrow> broker_db \<Rightarrow> broker_order_state option" where
  "get_broker_order_state account order_no db =
     find (\<lambda>r. bos_account r = account \<and> bos_order_no r = order_no) (t_rows (bd_orders db))"

definition upsert_broker_position_state :: "time \<Rightarrow> broker_position_state \<Rightarrow> broker_db \<Rightarrow> broker_db" where
  "upsert_broker_position_state now payload db =
     (let p = position_state_params now payload in
      if bps_account p = [] \<or> bps_code p = [] then db
      else db\<lparr>bd_positions := upsert (\<lambda>r. bps_account r = bps_account p \<and> bps_code r = bps_code p)
                (position_state_conflict p) (\<lambda>k. p\<lparr>bps_id := k\<rparr>) (bd_positions db)\<rparr>)"

definition get_broker_position_state :: "string \<Rightarrow> string \<Rightarrow> broker_db \<Rightarrow> broker_position_state option" where
  "get_broker_position_state account code db =
     find (\<lambda>r. bps_account r = account \<and> bps_code r = code_column code) (t_rows (bd_positions db))"

text \<open>\<open>save_broker_reconcile_run\<close>: instants that the run has keep their value, the others are now.\<close>

definition run_params :: "time \<Rightarrow> recon_run \<Rightarrow> recon_run" where
  "run_params now r =
     (let t = At (whole_second now) in
      r\<lparr>rr_started_at := stamp_or (rr_started_at r) t, rr_created_at := stamp_or (rr_created_at r) t,
        rr_updated_at := stamp_or (rr_updated_at r) t\<rparr>)"

definition run_conflict :: "recon_run \<Rightarrow> recon_run \<Rightarrow> recon_run" where
  "run_conflict p r =
     r\<lparr>rr_status := rr_status p, rr_completed_sources := rr_completed_sources p,
       rr_snapshot_complete := rr_snapshot_complete p, rr_broker_truth_ready := rr_broker_truth_ready p,
       rr_reconcile_clean := rr_reconcile_clean p, rr_discrepancy_count := rr_discrepancy_count p,
       rr_critical_discrepancy_count := rr_critical_discrepancy_count p, rr_warnings := rr_warnings p,
       rr_errors := rr_errors p, rr_completed_at := rr_completed_at p, rr_updated_at := rr_updated_at p\<rparr>"

definition get_broker_reconcile_run :: "string \<Rightarrow> broker_db \<Rightarrow> recon_run option" where
  "get_broker_reconcile_run run_id db = find (\<lambda>r. rr_run_id r = run_id) (bd_runs db)"

definition save_broker_reconcile_run :: "time \<Rightarrow> recon_run \<Rightarrow> broker_db \<Rightarrow> broker_db \<times> recon_run" where
  "save_broker_reconcile_run now run db =
     (let p = run_params now run in
      if rr_run_id p = [] then (db, run)
      else let db' = (if \<exists>r\<in>set (bd_runs db). rr_run_id r = rr_run_id p
                      then db\<lparr>bd_runs := map (\<lambda>r. if rr_run_id r = rr_run_id p then run_conflict p r else r) (bd_runs db)\<rparr>
                      else db\<lparr>bd_runs := bd_runs db @ [p]\<rparr>)
           in (db', case get_broker_reconcile_run (rr_run_id p) db' of Some r \<Rightarrow> r | None \<Rightarrow> run))"

definition list_broker_reconcile_runs :: "int \<Rightarrow> broker_db \<Rightarrow> recon_run list" where
  "list_broker_reconcile_runs limit db =
     take (nat (max 1 (if limit = 0 then 50 else limit)))
       (descending rr_updated_at (descending rr_created_at (bd_runs db)))"

text \<open>\<open>save_broker_reconcile_source_result\<close>, for the dictionary that the orchestrator builds.\<close>

definition result_conflict :: "source_result \<Rightarrow> source_result \<Rightarrow> source_result" where
  "result_conflict p r =
     r\<lparr>sr_status := sr_status p, sr_complete := sr_complete p, sr_page_count := sr_page_count p,
       sr_row_count := sr_row_count p, sr_parser_status := sr_parser_status p,
       sr_parser_warnings := sr_parser_warnings p, sr_parser_errors := sr_parser_errors p,
       sr_raw_checksum := sr_raw_checksum p, sr_captured_at := sr_captured_at p, sr_parsed_at := sr_parsed_at p\<rparr>"

definition save_broker_reconcile_source_result :: "source_result \<Rightarrow> broker_db \<Rightarrow> broker_db" where
  "save_broker_reconcile_source_result p db =
     (if sr_run_id p = [] \<or> sr_logical_source p = [] then db
      else db\<lparr>bd_results := upsert (\<lambda>r. sr_run_id r = sr_run_id p \<and> sr_logical_source r = sr_logical_source p)
                (result_conflict p) (\<lambda>k. p\<lparr>sr_id := k\<rparr>) (bd_results db)\<rparr>)"

definition list_broker_reconcile_source_results :: "string \<Rightarrow> broker_db \<Rightarrow> source_result list" where
  "list_broker_reconcile_source_results run_id db = filter (\<lambda>r. sr_run_id r = run_id) (t_rows (bd_results db))"

definition open_order_insert :: "time \<Rightarrow> string \<Rightarrow> open_order_snapshot \<Rightarrow> int \<Rightarrow> open_order_row" where
  "open_order_insert now run_id s k =
     open_order_snapshot.extend
       (s\<lparr>tro_code := code_column (tro_code s), tro_remaining_quantity := max 0 (tro_remaining_quantity s),
          tro_source := str_or (tro_source s) OPEN_ORDERS\<rparr>)
       (open_order_row.fields k run_id (At (whole_second now)))"

definition position_snapshot_insert :: "time \<Rightarrow> string \<Rightarrow> position_snapshot \<Rightarrow> int \<Rightarrow> position_snapshot_row" where
  "position_snapshot_insert now run_id s k =
     position_snapshot.extend
       (s\<lparr>trp_code := code_column (trp_code s), trp_source := str_or (trp_source s) ACCOUNT_POSITIONS\<rparr>)
       (position_snapshot_row.fields k run_id (At (whole_second now)))"

definition cash_insert :: "time \<Rightarrow> string \<Rightarrow> cash_snapshot \<Rightarrow> int \<Rightarrow> cash_snapshot_row" where
  "cash_insert now run_id s k =
     cash_snapshot.extend (s\<lparr>trc_source := str_or (trc_source s) ACCOUNT_CASH\<rparr>)
       (cash_snapshot_row.fields k run_id (At (whole_second now)))"

definition put_open_order :: "time \<Rightarrow> string \<Rightarrow> open_order_snapshot \<Rightarrow> open_order_row table \<Rightarrow> open_order_row table" where
  "put_open_order now run_id s =
     replace_row (\<lambda>r. oor_run_id r = run_id \<and> tro_account_token r = tro_account_token s \<and> tro_order_no r = tro_order_no s)
       (open_order_insert now run_id s)"

definition put_tr_position :: "time \<Rightarrow> string \<Rightarrow> position_snapshot \<Rightarrow> position_snapshot_row table \<Rightarrow> position_snapshot_row table" where
  "put_tr_position now run_id s =
     replace_row (\<lambda>r. psr_run_id r = run_id \<and> trp_account_token r = trp_account_token s \<and> trp_code r = code_column (trp_code s))
       (position_snapshot_insert now run_id s)"

text \<open>\<open>replace_broker_reconcile_snapshots\<close>: each argument that is given replaces the run's rows of its table.\<close>

definition replace_broker_reconcile_snapshots ::
  "time \<Rightarrow> string \<Rightarrow> open_order_snapshot list option \<Rightarrow> position_snapshot list option \<Rightarrow> cash_snapshot option \<Rightarrow>
   broker_db \<Rightarrow> broker_db" where
  "replace_broker_reconcile_snapshots now run_id open_orders positions cash db =
     (if run_id = [] then db
      else db\<lparr>bd_open_orders := (case open_orders of None \<Rightarrow> bd_open_orders db
                 | Some xs \<Rightarrow> fold (put_open_order now run_id) xs (delete_rows (\<lambda>r. oor_run_id r = run_id) (bd_open_orders db))),
              bd_tr_positions := (case positions of None \<Rightarrow> bd_tr_positions db
                 | Some xs \<Rightarrow> fold (put_tr_position now run_id) xs (delete_rows (\<lambda>r. psr_run_id r = run_id) (bd_tr_positions db))),
              bd_cash := (case cash of None \<Rightarrow> bd_cash db
                 | Some c \<Rightarrow> replace_row (\<lambda>r. csr_run_id r = run_id \<and> trc_account_token r = trc_account_token c)
                               (cash_insert now run_id c) (delete_rows (\<lambda>r. csr_run_id r = run_id) (bd_cash db)))\<rparr>)"

definition list_broker_reconcile_open_orders :: "string \<Rightarrow> broker_db \<Rightarrow> open_order_row list" where
  "list_broker_reconcile_open_orders run_id db = filter (\<lambda>r. oor_run_id r = run_id) (t_rows (bd_open_orders db))"

definition list_broker_reconcile_positions :: "string \<Rightarrow> broker_db \<Rightarrow> position_snapshot_row list" where
  "list_broker_reconcile_positions run_id db = filter (\<lambda>r. psr_run_id r = run_id) (t_rows (bd_tr_positions db))"

definition discrepancy_insert :: "string \<Rightarrow> discrepancy \<Rightarrow> int \<Rightarrow> discrepancy_row" where
  "discrepancy_insert run_id d k =
     discrepancy.extend (d\<lparr>di_code := code_column (di_code d)\<rparr>) (discrepancy_row.fields k run_id)"

definition save_broker_reconcile_discrepancies :: "string \<Rightarrow> discrepancy list \<Rightarrow> broker_db \<Rightarrow> broker_db" where
  "save_broker_reconcile_discrepancies run_id ds db =
     (if run_id = [] then db
      else db\<lparr>bd_discrepancies := fold (\<lambda>d. insert_row (discrepancy_insert run_id d)) ds
                (delete_rows (\<lambda>r. dir_run_id r = run_id) (bd_discrepancies db))\<rparr>)"

definition list_broker_reconcile_discrepancies :: "string \<Rightarrow> int \<Rightarrow> broker_db \<Rightarrow> discrepancy_row list" where
  "list_broker_reconcile_discrepancies run_id limit db =
     page (\<lambda>r. run_id = [] \<or> dir_run_id r = run_id) (nat (max 1 (if limit = 0 then 100 else limit))) 0 (bd_discrepancies db)"

section \<open>The comparison\<close>

definition broker_order_by_order_no :: "string \<Rightarrow> broker_db \<Rightarrow> broker_order_state option" where
  "broker_order_by_order_no order_no db = newest (\<lambda>r. bos_order_no r = order_no) (bd_orders db)"

definition broker_position_by_code :: "string \<Rightarrow> broker_db \<Rightarrow> broker_position_state option" where
  "broker_position_by_code code db = newest (\<lambda>r. bps_code r = code) (bd_positions db)"

definition discrepancy_of ::
  "time \<Rightarrow> string \<Rightarrow> string \<Rightarrow> recon_severity \<Rightarrow> string \<Rightarrow> string \<Rightarrow> local_side \<Rightarrow> broker_side \<Rightarrow> string list \<Rightarrow>
   string \<Rightarrow> string \<Rightarrow> discrepancy" where
  "discrepancy_of now token category severity entity_type entity_key local tr reasons order_no code =
     \<lparr>di_category = category, di_severity = severity, di_entity_type = entity_type, di_entity_key = entity_key,
      di_account_token = token, di_code = code, di_order_no = order_no, di_local = local, di_tr_snapshot = tr,
      di_reason_codes = reasons, di_first_detected_at = utc_timestamp now, di_last_detected_at = utc_timestamp now,
      di_status = ''OPEN'', di_operator_action_required = True\<rparr>"

text \<open>The three loops: local orders, the broker's open orders, the broker's positions.\<close>

definition local_only_orders ::
  "time \<Rightarrow> string \<Rightarrow> (string \<times> open_order_row) list \<Rightarrow> broker_order_state list \<Rightarrow> discrepancy list" where
  "local_only_orders now token tr_orders rows =
     [discrepancy_of now token ''LOCAL_ONLY_PENDING_ORDER'' SEV_STOP_NEW_BUY ''order'' (bos_order_no r)
        (LocalOrder r) NoBroker [''ORDER_NOT_PRESENT_IN_TR_OPEN_ORDERS''] (bos_order_no r) (bos_code r).
      r \<leftarrow> rows, bos_order_no r \<noteq> [] \<and> map_of tr_orders (bos_order_no r) = None \<and> 0 < bos_remaining_qty r]"

definition open_order_check :: "time \<Rightarrow> string \<Rightarrow> broker_db \<Rightarrow> string \<times> open_order_row \<Rightarrow> discrepancy list" where
  "open_order_check now token db e =
     (let (order_no, tr) = e in
      case broker_order_by_order_no order_no db of
        None \<Rightarrow> [discrepancy_of now token ''BROKER_ONLY_OPEN_ORDER'' SEV_STOP_NEW_BUY ''order'' order_no NoLocal
                   (BrokerOrder tr) [''TR_OPEN_ORDER_NOT_LINKED_TO_LOCAL_PROJECTION''] order_no (tro_code tr)]
      | Some r \<Rightarrow>
          if bos_remaining_qty r \<noteq> tro_remaining_quantity tr
          then [discrepancy_of now token ''REMAINING_QUANTITY_MISMATCH'' SEV_STOP_NEW_BUY ''order'' order_no (LocalOrder r)
                  (BrokerOrder tr) [''BROKER_ORDER_REMAINING_DIFFERS_FROM_TR''] order_no (str_or (tro_code tr) (bos_code r))]
          else [])"

definition position_check :: "time \<Rightarrow> string \<Rightarrow> broker_db \<Rightarrow> string \<times> position_snapshot_row \<Rightarrow> discrepancy list" where
  "position_check now token db e =
     (let (code, tr) = e in
      case broker_position_by_code code db of
        None \<Rightarrow>
          if 0 < trp_quantity tr
          then [discrepancy_of now token ''BROKER_ONLY_POSITION'' SEV_REDUCE_ONLY ''position'' code NoLocal
                  (BrokerPosition tr) [''TR_POSITION_NOT_LINKED_TO_LOCAL_PROJECTION''] [] code]
          else []
      | Some r \<Rightarrow>
          if bps_quantity r \<noteq> trp_quantity tr
          then [discrepancy_of now token ''POSITION_QUANTITY_MISMATCH'' SEV_REDUCE_ONLY ''position'' code (LocalPosition r)
                  (BrokerPosition tr) [''BROKER_POSITION_QUANTITY_DIFFERS_FROM_TR''] [] code]
          else [])"

definition tr_order_dict :: "string \<Rightarrow> broker_db \<Rightarrow> (string \<times> open_order_row) list" where
  "tr_order_dict run_id db =
     dict_of tro_order_no (filter (\<lambda>r. tro_order_no r \<noteq> []) (list_broker_reconcile_open_orders run_id db))"

definition tr_position_dict :: "string \<Rightarrow> broker_db \<Rightarrow> (string \<times> position_snapshot_row) list" where
  "tr_position_dict run_id db =
     dict_of trp_code (filter (\<lambda>r. trp_code r \<noteq> []) (list_broker_reconcile_positions run_id db))"

definition compare_snapshots :: "time \<Rightarrow> string \<Rightarrow> string \<Rightarrow> broker_db \<Rightarrow> discrepancy list" where
  "compare_snapshots now run_id token db =
     (let tr_orders = tr_order_dict run_id db; tr_positions = tr_position_dict run_id db
      in local_only_orders now token tr_orders (t_rows (bd_orders db)) @
         concat (map (open_order_check now token db) tr_orders) @
         concat (map (position_check now token db) tr_positions))"

end
