(* ===== verification/Broker_Reconcile_Run.thy ===== *)
theory Broker_Reconcile_Run
  imports Broker_Reconcile
begin

text \<open>
  The orchestrator of reconciliation runs (\<open>BrokerReconcileOrchestrator\<close> in
  \<open>trading/strategy/broker_reconcile.py\<close>): starting a run, sending its requests through the gateway queue,
  taking in the answers, finishing the run, and what the health report says. A step of the
  orchestrator is a call of one of its methods.
\<close>

record recon_config =
  rcf_service_enabled :: bool
  rcf_dispatch_enabled :: bool
  rcf_simulation_only :: bool
  rcf_startup_enabled :: bool
  rcf_reconnect_enabled :: bool
  rcf_periodic_enabled :: bool
  rcf_periodic_interval_sec :: int
  rcf_event_trigger_enabled :: bool
  rcf_event_trigger_debounce_sec :: rat
  rcf_timeout_sec :: int
  rcf_max_pages :: int
  rcf_max_attempts :: int
  rcf_snapshot_stale_sec :: int
  rcf_grace_sec :: int
  rcf_cash_required :: bool
  rcf_fail_closed :: bool
  rcf_auto_heal_enabled :: bool
  rcf_auto_clear_stop_new_buy :: bool
  rcf_actual_fixture_required_for_pass :: bool

definition default_recon_config :: recon_config where
  "default_recon_config = \<lparr>rcf_service_enabled = True, rcf_dispatch_enabled = False, rcf_simulation_only = True,
     rcf_startup_enabled = False, rcf_reconnect_enabled = False, rcf_periodic_enabled = False,
     rcf_periodic_interval_sec = 60, rcf_event_trigger_enabled = True, rcf_event_trigger_debounce_sec = 2,
     rcf_timeout_sec = 30, rcf_max_pages = 20, rcf_max_attempts = 2, rcf_snapshot_stale_sec = 120,
     rcf_grace_sec = 5, rcf_cash_required = False, rcf_fail_closed = True, rcf_auto_heal_enabled = False,
     rcf_auto_clear_stop_new_buy = False, rcf_actual_fixture_required_for_pass = True\<rparr>"

text \<open>What the registry of request specifications holds of a source, as far as a command uses it.\<close>

record tr_spec =
  ts_source_value :: string
  ts_tr_code :: string
  ts_rq_name :: string
  ts_screen_no :: string
  ts_single_fields :: "string list"
  ts_multi_fields :: "string list"
  ts_parser_version :: string

text \<open>
  The surroundings of the orchestrator: the digests, the registry, the parser of captured answers (a
  raised exception is its text), the fresh identifiers of the call, and the clock.
\<close>

record recon_env =
  re_sha :: "string \<Rightarrow> string"
  re_digest :: "string \<Rightarrow> pydict \<Rightarrow> string"
  re_registry :: "string \<Rightarrow> tr_spec option"
  re_parse :: "pydict \<Rightarrow> string + tr_parse_result"
  re_run_id :: string
  re_command_ids :: "nat \<Rightarrow> string"
  re_now :: time

record recon_state =
  rs_db :: broker_db
  rs_gateway :: "gateway_store option"
  rs_current_run_id :: string
  rs_last_error :: string
  rs_last_success_at :: stamp
  rs_last_failure_at :: stamp
  rs_last_trigger :: string

definition recon_now :: "recon_env \<Rightarrow> stamp" where
  "recon_now env = At (whole_second (re_now env))"

section \<open>Starting a run\<close>

text \<open>\<open>build_reconcile_tr_command\<close>; an unknown source raises, with the text of the exception.\<close>

definition build_reconcile_tr_command ::
  "recon_env \<Rightarrow> string \<Rightarrow> string \<Rightarrow> string \<Rightarrow> string \<Rightarrow> int \<Rightarrow> string + gateway_command" where
  "build_reconcile_tr_command env command_id account source run_id max_pages =
     (case re_registry env source of
        None \<Rightarrow> Inl (repr_str (''unknown reconcile source: '' @ source))
      | Some spec \<Rightarrow>
          let token = account_token (re_sha env) account in
          Inr \<lparr>gc_type = ''tr_request'',
               gc_payload =
                 [(''purpose'', PStr ''broker_reconcile''), (''reconcile_run_id'', PStr run_id),
                  (''logical_source'', PStr (ts_source_value spec)), (''account'', PStr account),
                  (''account_token'', PStr token), (''credential_ref'', PStr ''TRADING_KIWOOM_ACCOUNT_PASSWORD''),
                  (''tr_code'', PStr (ts_tr_code spec)), (''rq_name'', PStr (ts_rq_name spec)),
                  (''screen_no'', PStr (ts_screen_no spec)), (''response_mode'', PStr ''capture_v2''),
                  (''single_fields'', PList (map PStr (ts_single_fields spec))),
                  (''multi_fields'', PList (map PStr (ts_multi_fields spec))),
                  (''max_pages'', PInt (max 1 (if max_pages = 0 then 20 else max_pages))),
                  (''spec_version'', PStr (ts_parser_version spec))],
               gc_command_id = command_id, gc_request_id = [], gc_timestamp = utc_timestamp (re_now env),
               gc_source = ''broker_reconcile'',
               gc_idempotency_key = ''reconcile:'' @ token @ '':'' @ run_id @ '':'' @ ts_source_value spec @ '':0''\<rparr>)"

text \<open>One source of \<open>_dispatch_reconcile_commands\<close>: the gateway, the number accepted and the errors so far.\<close>

definition dispatch_source ::
  "recon_env \<Rightarrow> recon_config \<Rightarrow> string \<Rightarrow> string \<Rightarrow> nat \<times> string \<Rightarrow> gateway_store \<times> nat \<times> string list \<Rightarrow>
   gateway_store \<times> nat \<times> string list" where
  "dispatch_source env cfg account run_id e s =
     (let (i, source) = e; (g, enqueued, errors) = s in
      case build_reconcile_tr_command env (re_command_ids env i) account source run_id (rcf_max_pages cfg) of
        Inl err \<Rightarrow> (g, enqueued, errors @ [''RECONCILE_TR_COMMAND_ENQUEUE_FAILED:'' @ source @ '':'' @ err])
      | Inr command \<Rightarrow>
          let (g', result) = enqueue_command (re_digest env) g command (Some NORMAL) (Some (rcf_timeout_sec cfg))
                (Some (rcf_max_attempts cfg))
                [(''command_class'', PStr ''BROKER_RECONCILE''), (''reconcile_run_id'', PStr run_id),
                 (''logical_source'', PStr source)] (re_now env)
          in if er_accepted result then (g', enqueued + 1, errors)
             else (g', enqueued, errors @ [''RECONCILE_TR_COMMAND_REJECTED:'' @ source @ '':'' @ er_reason result]))"

definition dispatch_reconcile_commands ::
  "recon_env \<Rightarrow> recon_config \<Rightarrow> string \<Rightarrow> string \<Rightarrow> string list \<Rightarrow> recon_state \<Rightarrow>
   recon_state \<times> nat \<times> string list \<times> string list" where
  "dispatch_reconcile_commands env cfg account run_id sources s =
     (case rs_gateway s of
        None \<Rightarrow> (s, 0, [], [''GATEWAY_STATE_UNAVAILABLE''])
      | Some g \<Rightarrow>
          let (g', enqueued, errors) = fold (dispatch_source env cfg account run_id) (enumerate 0 sources) (g, 0, []);
              warnings = (if 0 < enqueued \<and> enqueued < length sources then [''RECONCILE_TR_PARTIAL_DISPATCH''] else [])
          in (s\<lparr>rs_gateway := Some g'\<rparr>, enqueued, warnings, errors))"

datatype start_result = NotStarted recon_run_status string | Started recon_run

definition save_run :: "recon_env \<Rightarrow> recon_run \<Rightarrow> recon_state \<Rightarrow> recon_state \<times> recon_run" where
  "save_run env run s = (let (db, saved) = save_broker_reconcile_run (re_now env) run (rs_db s) in (s\<lparr>rs_db := db\<rparr>, saved))"

definition required_sources :: "recon_config \<Rightarrow> string list \<Rightarrow> string list" where
  "required_sources cfg sources =
     (let required = (if sources = [] then [OPEN_ORDERS, ACCOUNT_POSITIONS] else sources) in
      if rcf_cash_required cfg \<and> ACCOUNT_CASH \<notin> set required then required @ [ACCOUNT_CASH] else required)"

definition new_run :: "recon_env \<Rightarrow> recon_config \<Rightarrow> string \<Rightarrow> string \<Rightarrow> string \<Rightarrow> string list \<Rightarrow> recon_run" where
  "new_run env cfg token broker_env trigger required =
     no_run\<lparr>rr_run_id := re_run_id env, rr_account_token := token, rr_broker_env := broker_env, rr_trigger := trigger,
       rr_status := Some (if rcf_dispatch_enabled cfg then RUN_QUEUED else RUN_WAIT_GATEWAY),
       rr_required_sources := required,
       rr_warnings := (if rcf_dispatch_enabled cfg then [] else [''RECONCILE_TR_DISPATCH_DISABLED''])\<rparr>"

definition after_dispatch :: "nat \<Rightarrow> nat \<Rightarrow> string list \<Rightarrow> string list \<Rightarrow> recon_run \<Rightarrow> recon_run" where
  "after_dispatch wanted enqueued warnings errors saved =
     saved\<lparr>rr_status := Some (if enqueued = wanted \<and> rr_errors saved @ errors = [] then RUN_RUNNING else RUN_FAILED),
       rr_warnings := rr_warnings saved @ warnings, rr_errors := rr_errors saved @ errors\<rparr>"

definition start_run ::
  "recon_env \<Rightarrow> recon_config \<Rightarrow> string \<Rightarrow> string \<Rightarrow> string \<Rightarrow> string list \<Rightarrow> recon_state \<Rightarrow> recon_state \<times> start_result" where
  "start_run env cfg account broker_env trigger sources s =
     (if \<not> rcf_service_enabled cfg then (s, NotStarted RUN_DISABLED [])
      else if rcf_simulation_only cfg \<and> upper broker_env = ''REAL''
           then (s, NotStarted RUN_FAILED ''REAL_BROKER_RECONCILE_FORBIDDEN'')
      else let token = account_token (re_sha env) account in
      if token = [] then (s, NotStarted RUN_WAIT_ACCOUNT ''ACCOUNT_REQUIRED'')
      else let required = required_sources cfg sources;
               (s1, saved) = save_run env (new_run env cfg token broker_env trigger required)
                               (s\<lparr>rs_current_run_id := re_run_id env, rs_last_trigger := trigger\<rparr>)
           in if rcf_dispatch_enabled cfg
              then let (s2, enqueued, warnings, errors) = dispatch_reconcile_commands env cfg account (re_run_id env) required s1;
                       (s3, saved') = save_run env (after_dispatch (length required) enqueued warnings errors saved) s2
                   in (s3, Started saved')
              else (s1, Started saved))"

definition request_manual_reconcile ::
  "recon_env \<Rightarrow> recon_config \<Rightarrow> string \<Rightarrow> string \<Rightarrow> string list \<Rightarrow> recon_state \<Rightarrow> recon_state \<times> start_result" where
  "request_manual_reconcile env cfg account broker_env sources s =
     start_run env cfg account broker_env ''MANUAL_PILOT'' sources s"

definition request_startup_reconcile ::
  "recon_env \<Rightarrow> recon_config \<Rightarrow> string \<Rightarrow> string \<Rightarrow> recon_state \<Rightarrow> recon_state \<times> start_result" where
  "request_startup_reconcile env cfg account broker_env s =
     (if \<not> rcf_startup_enabled cfg then (s, NotStarted RUN_DISABLED ''STARTUP_RECONCILE_DISABLED'')
      else start_run env cfg account broker_env ''STARTUP'' [] s)"

definition request_reconnect_reconcile ::
  "recon_env \<Rightarrow> recon_config \<Rightarrow> string \<Rightarrow> string \<Rightarrow> recon_state \<Rightarrow> recon_state \<times> start_result" where
  "request_reconnect_reconcile env cfg account broker_env s =
     (if \<not> rcf_reconnect_enabled cfg then (s, NotStarted RUN_DISABLED ''RECONNECT_RECONCILE_DISABLED'')
      else start_run env cfg account broker_env ''RECONNECT'' [] s)"

definition request_periodic_reconcile ::
  "recon_env \<Rightarrow> recon_config \<Rightarrow> string \<Rightarrow> string \<Rightarrow> recon_state \<Rightarrow> recon_state \<times> start_result" where
  "request_periodic_reconcile env cfg account broker_env s =
     (if \<not> rcf_periodic_enabled cfg then (s, NotStarted RUN_DISABLED ''PERIODIC_RECONCILE_DISABLED'')
      else start_run env cfg account broker_env ''PERIODIC'' [] s)"

section \<open>Taking in answers\<close>

record truth_snapshot =
  bt_run_id :: string
  bt_account_token :: string
  bt_snapshot_complete :: bool
  bt_broker_truth_ready :: bool
  bt_reconcile_clean :: bool
  bt_open_orders :: "open_order_row list"
  bt_positions :: "position_snapshot_row list"
  bt_discrepancies :: "discrepancy list"

definition run_or_empty :: "string \<Rightarrow> broker_db \<Rightarrow> recon_run" where
  "run_or_empty run_id db = (case get_broker_reconcile_run run_id db of Some r \<Rightarrow> r | None \<Rightarrow> no_run)"

definition finished_run :: "recon_env \<Rightarrow> string \<Rightarrow> discrepancy list \<Rightarrow> recon_run \<Rightarrow> recon_run" where
  "finished_run env run_id ds run =
     run\<lparr>rr_run_id := run_id, rr_status := Some (if ds = [] then RUN_CLEAN else RUN_RECONCILE_REQUIRED),
       rr_snapshot_complete := True, rr_broker_truth_ready := (ds = []), rr_reconcile_clean := (ds = []),
       rr_discrepancy_count := int (length ds),
       rr_critical_discrepancy_count := int (length (filter (\<lambda>d. di_severity d \<in> set CRITICAL_SEVERITIES) ds)),
       rr_completed_at := recon_now env\<rparr>"

definition finalize_run :: "recon_env \<Rightarrow> string \<Rightarrow> recon_state \<Rightarrow> recon_state \<times> truth_snapshot" where
  "finalize_run env run_id s =
     (let run = run_or_empty run_id (rs_db s);
          ds = compare_snapshots (re_now env) run_id (rr_account_token run) (rs_db s);
          s1 = s\<lparr>rs_db := save_broker_reconcile_discrepancies run_id ds (rs_db s)\<rparr>;
          s2 = fst (save_run env (finished_run env run_id ds run) s1);
          s3 = (if ds = [] then s2\<lparr>rs_last_success_at := recon_now env\<rparr> else s2\<lparr>rs_last_failure_at := recon_now env\<rparr>)
      in (s3, \<lparr>bt_run_id = run_id, bt_account_token = rr_account_token run, bt_snapshot_complete = True,
               bt_broker_truth_ready = (ds = []), bt_reconcile_clean = (ds = []),
               bt_open_orders = list_broker_reconcile_open_orders run_id (rs_db s3),
               bt_positions = list_broker_reconcile_positions run_id (rs_db s3), bt_discrepancies = ds\<rparr>))"

text \<open>The texts that are not empty and not there yet are appended.\<close>

definition add_texts :: "string list \<Rightarrow> string list \<Rightarrow> string list" where
  "add_texts new old = fold (\<lambda>x xs. if x \<noteq> [] \<and> x \<notin> set xs then xs @ [x] else xs) new old"

definition run_with_result :: "tr_parse_result \<Rightarrow> recon_run \<Rightarrow> recon_run" where
  "run_with_result result run =
     (let completed = (if tpr_complete result \<and> tpr_errors result = [] \<and> tpr_logical_source result \<notin> set (rr_completed_sources run)
                       then rr_completed_sources run @ [tpr_logical_source result] else rr_completed_sources run)
      in run\<lparr>rr_status := Some (if rr_required_sources run \<noteq> [] \<and> set (rr_required_sources run) \<subseteq> set completed
                                then RUN_COMPLETE else RUN_PARTIAL),
             rr_completed_sources := completed,
             rr_warnings := add_texts (tpr_warnings result) (rr_warnings run),
             rr_errors := add_texts (tpr_errors result) (rr_errors run)\<rparr>)"

definition update_run_after_source_result :: "recon_env \<Rightarrow> tr_parse_result \<Rightarrow> recon_state \<Rightarrow> recon_state" where
  "update_run_after_source_result env result s =
     (case get_broker_reconcile_run (tpr_run_id result) (rs_db s) of
        None \<Rightarrow> s
      | Some run \<Rightarrow>
          let run' = run_with_result result run; s1 = fst (save_run env run' s)
          in if rr_status run' = Some RUN_COMPLETE then fst (finalize_run env (tpr_run_id result) s1) else s1)"

definition source_result_of :: "recon_env \<Rightarrow> tr_parse_result \<Rightarrow> string \<Rightarrow> source_result" where
  "source_result_of env result command_id =
     \<lparr>sr_id = 0, sr_run_id = tpr_run_id result, sr_logical_source = tpr_logical_source result,
      sr_tr_code = tpr_tr_code result, sr_rq_name = tpr_rq_name result, sr_command_id = command_id,
      sr_status = (if tpr_valid_empty result then SRC_VALID_EMPTY else if tpr_complete result then SRC_PARSED else SRC_INVALID),
      sr_complete = tpr_complete result, sr_page_count = tpr_page_count result, sr_row_count = tpr_row_count result,
      sr_parser_version = tpr_parser_version result, sr_parser_status = tpr_parser_status result,
      sr_parser_warnings = tpr_warnings result, sr_parser_errors = tpr_errors result,
      sr_raw_checksum = tpr_raw_checksum result, sr_captured_at = recon_now env, sr_parsed_at = recon_now env\<rparr>"

definition store_snapshots :: "recon_env \<Rightarrow> tr_parse_result \<Rightarrow> broker_db \<Rightarrow> broker_db" where
  "store_snapshots env result db =
     (let put = replace_broker_reconcile_snapshots (re_now env) (tpr_run_id result) in
      if tpr_logical_source result = OPEN_ORDERS then put (Some (tpr_open_orders result)) None None db
      else if tpr_logical_source result = ACCOUNT_POSITIONS then put None (Some (tpr_positions result)) None db
      else if tpr_logical_source result = ACCOUNT_CASH \<and> tpr_cash result \<noteq> None then put None None (tpr_cash result) db
      else db)"

definition apply_source_result :: "recon_env \<Rightarrow> tr_parse_result \<Rightarrow> string \<Rightarrow> recon_state \<Rightarrow> recon_state" where
  "apply_source_result env result command_id s =
     update_run_after_source_result env result
       (s\<lparr>rs_db := store_snapshots env result
                      (save_broker_reconcile_source_result (source_result_of env result command_id) (rs_db s))\<rparr>)"

definition broker_reconcile_payload :: "pydict \<Rightarrow> pydict" where
  "broker_reconcile_payload payload =
     (if text_or payload ''purpose'' [] = ''broker_reconcile'' then payload
      else case dget payload ''payload'' of
        PDict nested \<Rightarrow> if text_or nested ''purpose'' [] = ''broker_reconcile'' then nested else payload
      | _ \<Rightarrow> payload)"

datatype event_result = EventIgnored | EventProcessed string string | EventFailed string

definition handle_recon_event :: "recon_env \<Rightarrow> gateway_event \<Rightarrow> recon_state \<Rightarrow> recon_state \<times> event_result" where
  "handle_recon_event env event s =
     (let payload = broker_reconcile_payload (ge_payload event) in
      if text_or payload ''purpose'' [] \<noteq> ''broker_reconcile'' then (s, EventIgnored)
      else case re_parse env payload of
        Inl err \<Rightarrow> (s\<lparr>rs_last_error := err, rs_last_failure_at := recon_now env\<rparr>, EventFailed err)
      | Inr result \<Rightarrow>
          (apply_source_result env result (str_or (ge_command_id event) (text_or payload ''command_id'' [])) s,
           EventProcessed (tpr_run_id result) (tpr_logical_source result)))"

section \<open>Marks and reports\<close>

definition mark_stale :: "recon_env \<Rightarrow> recon_state \<Rightarrow> recon_state" where
  "mark_stale env s =
     (if rs_current_run_id s = [] then s
      else case get_broker_reconcile_run (rs_current_run_id s) (rs_db s) of
        None \<Rightarrow> s
      | Some run \<Rightarrow> fst (save_run env (run\<lparr>rr_status := Some RUN_STALE, rr_broker_truth_ready := False\<rparr>) s))"

definition cancel_pending_run :: "recon_env \<Rightarrow> string \<Rightarrow> recon_state \<Rightarrow> recon_state" where
  "cancel_pending_run env reason s =
     (if rs_current_run_id s = [] then s
      else case get_broker_reconcile_run (rs_current_run_id s) (rs_db s) of
        None \<Rightarrow> s
      | Some run \<Rightarrow> fst (save_run env (run\<lparr>rr_status := Some RUN_CANCELLED, rr_errors := [reason]\<rparr>) s))"

definition latest_complete_snapshot :: "string \<Rightarrow> recon_state \<Rightarrow> recon_run option" where
  "latest_complete_snapshot token s =
     find (\<lambda>r. rr_account_token r = token \<and> rr_snapshot_complete r) (list_broker_reconcile_runs 100 (rs_db s))"

record recon_health =
  rh_enabled :: bool
  rh_dispatch_enabled :: bool
  rh_status :: "recon_run_status option"
  rh_current_run_id :: string
  rh_trigger :: string
  rh_account_masked :: string
  rh_required_sources :: "string list"
  rh_completed_sources :: "string list"
  rh_snapshot_complete :: bool
  rh_broker_truth_ready :: bool
  rh_reconcile_clean :: bool
  rh_discrepancy_count :: nat
  rh_critical_discrepancy_count :: nat
  rh_stop_new_buy :: bool
  rh_reduce_only :: bool
  rh_last_success_at :: stamp
  rh_last_failure_at :: stamp
  rh_last_error :: string
  rh_warnings :: "string list"

text \<open>\<open>health_snapshot\<close>; a status of \<open>None\<close> is the text IDLE of a service that is enabled and has no run.\<close>

definition recon_health_snapshot :: "recon_config \<Rightarrow> recon_state \<Rightarrow> recon_health" where
  "recon_health_snapshot cfg s =
     (let run = (if rs_current_run_id s = [] then no_run else run_or_empty (rs_current_run_id s) (rs_db s));
          ds = (if rs_current_run_id s = [] then []
                else list_broker_reconcile_discrepancies (rs_current_run_id s) 100 (rs_db s))
      in \<lparr>rh_enabled = rcf_service_enabled cfg, rh_dispatch_enabled = rcf_dispatch_enabled cfg,
          rh_status = (case rr_status run of Some st \<Rightarrow> Some st
                       | None \<Rightarrow> if rcf_service_enabled cfg then None else Some RUN_DISABLED),
          rh_current_run_id = rs_current_run_id s, rh_trigger = rs_last_trigger s,
          rh_account_masked = rr_account_token run, rh_required_sources = rr_required_sources run,
          rh_completed_sources = rr_completed_sources run, rh_snapshot_complete = rr_snapshot_complete run,
          rh_broker_truth_ready = rr_broker_truth_ready run, rh_reconcile_clean = rr_reconcile_clean run,
          rh_discrepancy_count = length ds,
          rh_critical_discrepancy_count = length (filter (\<lambda>d. di_severity d \<in> set CRITICAL_SEVERITIES) ds),
          rh_stop_new_buy = (\<exists>d\<in>set ds. di_severity d = SEV_STOP_NEW_BUY),
          rh_reduce_only = (\<exists>d\<in>set ds. di_severity d = SEV_REDUCE_ONLY),
          rh_last_success_at = rs_last_success_at s, rh_last_failure_at = rs_last_failure_at s,
          rh_last_error = rs_last_error s, rh_warnings = rr_warnings run\<rparr>)"

section \<open>Steps of the orchestrator\<close>

datatype recon_call =
    ManualRequest string string "string list"
  | StartupRequest string string
  | ReconnectRequest string string
  | PeriodicRequest string string
  | GatewayEvent gateway_event
  | SourceResult tr_parse_result string
  | MarkStale
  | CancelRun string
  | FinalizeRun string

fun recon_step :: "recon_config \<Rightarrow> recon_state \<Rightarrow> recon_env \<times> recon_call \<Rightarrow> recon_state" where
  "recon_step cfg s (env, ManualRequest account broker_env sources) = fst (request_manual_reconcile env cfg account broker_env sources s)"
| "recon_step cfg s (env, StartupRequest account broker_env) = fst (request_startup_reconcile env cfg account broker_env s)"
| "recon_step cfg s (env, ReconnectRequest account broker_env) = fst (request_reconnect_reconcile env cfg account broker_env s)"
| "recon_step cfg s (env, PeriodicRequest account broker_env) = fst (request_periodic_reconcile env cfg account broker_env s)"
| "recon_step cfg s (env, GatewayEvent event) = fst (handle_recon_event env event s)"
| "recon_step cfg s (env, SourceResult result command_id) = apply_source_result env result command_id s"
| "recon_step cfg s (env, MarkStale) = mark_stale env s"
| "recon_step cfg s (env, CancelRun reason) = cancel_pending_run env reason s"
| "recon_step cfg s (env, FinalizeRun run_id) = fst (finalize_run env run_id s)"

definition recon_run_calls :: "recon_config \<Rightarrow> (recon_env \<times> recon_call) list \<Rightarrow> recon_state \<Rightarrow> recon_state" where
  "recon_run_calls cfg calls s = fold (\<lambda>c s. recon_step cfg s c) calls s"

definition recon_start :: "gateway_store option \<Rightarrow> recon_state" where
  "recon_start g = \<lparr>rs_db = empty_broker_db, rs_gateway = g, rs_current_run_id = [], rs_last_error = [],
     rs_last_success_at = Blank, rs_last_failure_at = Blank, rs_last_trigger = []\<rparr>"

end
