(* ===== verification/Broker_Reconcile_Props.thy ===== *)
theory Broker_Reconcile_Props
  imports Broker_Reconcile_Run
begin

text \<open>
  What the reconciliation promises: a run is clean exactly if the open orders and the holdings that the broker lists
  agree with the local side, the truth of the broker is ready only after every required answer came complete and without error
  unless the run is finished by a direct call, and answers finish a run.
  And what it does not: positions that only the local side holds are never looked at, a direct call of \<open>finalize_run\<close> asks for
  no answers, and a late incomplete answer replaces the rows of a run that was complete.
\<close>

section \<open>Saving and reading runs\<close>

lemma run_params_fields [simp]:
  "rr_run_id (run_params now r) = rr_run_id r" "rr_status (run_params now r) = rr_status r"
  "rr_required_sources (run_params now r) = rr_required_sources r" "rr_account_token (run_params now r) = rr_account_token r"
  "rr_completed_sources (run_params now r) = rr_completed_sources r"
  "rr_snapshot_complete (run_params now r) = rr_snapshot_complete r"
  "rr_broker_truth_ready (run_params now r) = rr_broker_truth_ready r"
  "rr_reconcile_clean (run_params now r) = rr_reconcile_clean r"
  "rr_discrepancy_count (run_params now r) = rr_discrepancy_count r"
  "rr_critical_discrepancy_count (run_params now r) = rr_critical_discrepancy_count r"
  "rr_warnings (run_params now r) = rr_warnings r" "rr_errors (run_params now r) = rr_errors r"
  by (simp_all add: run_params_def Let_def)

lemma run_conflict_fields [simp]:
  "rr_run_id (run_conflict p r) = rr_run_id r" "rr_account_token (run_conflict p r) = rr_account_token r"
  "rr_required_sources (run_conflict p r) = rr_required_sources r" "rr_status (run_conflict p r) = rr_status p"
  "rr_completed_sources (run_conflict p r) = rr_completed_sources p"
  "rr_snapshot_complete (run_conflict p r) = rr_snapshot_complete p"
  "rr_broker_truth_ready (run_conflict p r) = rr_broker_truth_ready p"
  "rr_reconcile_clean (run_conflict p r) = rr_reconcile_clean p"
  "rr_discrepancy_count (run_conflict p r) = rr_discrepancy_count p"
  "rr_critical_discrepancy_count (run_conflict p r) = rr_critical_discrepancy_count p"
  "rr_warnings (run_conflict p r) = rr_warnings p" "rr_errors (run_conflict p r) = rr_errors p"
  "rr_created_at (run_conflict p r) = rr_created_at r" "rr_updated_at (run_conflict p r) = rr_updated_at p"
  by (simp_all add: run_conflict_def)

text \<open>The row of a run after a save.\<close>

definition run_after :: "time \<Rightarrow> recon_run \<Rightarrow> recon_run option \<Rightarrow> recon_run" where
  "run_after now run old = (case old of None \<Rightarrow> run_params now run | Some r \<Rightarrow> run_conflict (run_params now run) r)"

lemma run_after_fields [simp]:
  "rr_status (run_after now run old) = rr_status run" "rr_completed_sources (run_after now run old) = rr_completed_sources run"
  "rr_snapshot_complete (run_after now run old) = rr_snapshot_complete run"
  "rr_broker_truth_ready (run_after now run old) = rr_broker_truth_ready run"
  "rr_reconcile_clean (run_after now run old) = rr_reconcile_clean run"
  "rr_discrepancy_count (run_after now run old) = rr_discrepancy_count run"
  "rr_critical_discrepancy_count (run_after now run old) = rr_critical_discrepancy_count run"
  "rr_errors (run_after now run old) = rr_errors run" "rr_warnings (run_after now run old) = rr_warnings run"
  "rr_required_sources (run_after now run (Some r)) = rr_required_sources r"
  "rr_account_token (run_after now run (Some r)) = rr_account_token r"
  by (simp_all add: run_after_def split: option.splits)

lemma get_run_id: "get_broker_reconcile_run k db = Some r \<Longrightarrow> rr_run_id r = k"
  by (auto simp: get_broker_reconcile_run_def dest: findSomeD)

lemma find_update_same:
  "(\<And>r. f (g r) = f r) \<Longrightarrow>
   find (\<lambda>r. f r = k) (map (\<lambda>r. if f r = i then g r else r) xs) =
   (if k = i then map_option g (find (\<lambda>r. f r = k) xs) else find (\<lambda>r. f r = k) xs)"
  by (induction xs) auto

lemma get_save_run:
  "get_broker_reconcile_run k (fst (save_broker_reconcile_run now run db)) =
   (if rr_run_id run \<noteq> [] \<and> k = rr_run_id run then Some (run_after now run (get_broker_reconcile_run k db))
    else get_broker_reconcile_run k db)"
proof (cases "\<exists>r\<in>set (bd_runs db). rr_run_id r = rr_run_id run")
  case True
  then have "find (\<lambda>r. rr_run_id r = rr_run_id run) (bd_runs db) \<noteq> None" by (auto simp: find_None_iff)
  then show ?thesis
    using True by (auto simp: save_broker_reconcile_run_def Let_def get_broker_reconcile_run_def find_update_same run_after_def)
next
  case False
  then have "find (\<lambda>r. rr_run_id r = rr_run_id run) (bd_runs db) = None" by (auto simp: find_None_iff)
  then show ?thesis
    using False by (auto simp: save_broker_reconcile_run_def Let_def get_broker_reconcile_run_def find_append run_after_def
        split: option.splits)
qed

lemma snd_save_run:
  "snd (save_broker_reconcile_run now run db) =
   (if rr_run_id run = [] then run else run_after now run (get_broker_reconcile_run (rr_run_id run) db))"
proof (cases "rr_run_id run = []")
  case False
  then have "snd (save_broker_reconcile_run now run db) =
      (case get_broker_reconcile_run (rr_run_id run) (fst (save_broker_reconcile_run now run db)) of Some r \<Rightarrow> r | None \<Rightarrow> run)"
    by (simp add: save_broker_reconcile_run_def Let_def)
  with False show ?thesis by (simp add: get_save_run)
qed (simp add: save_broker_reconcile_run_def Let_def)

text \<open>A save of a run leaves every other table alone; the other operations leave the runs alone.\<close>

lemma save_run_tables [simp]:
  "bd_orders (fst (save_broker_reconcile_run now run db)) = bd_orders db"
  "bd_positions (fst (save_broker_reconcile_run now run db)) = bd_positions db"
  "bd_open_orders (fst (save_broker_reconcile_run now run db)) = bd_open_orders db"
  "bd_tr_positions (fst (save_broker_reconcile_run now run db)) = bd_tr_positions db"
  "bd_discrepancies (fst (save_broker_reconcile_run now run db)) = bd_discrepancies db"
  by (simp_all add: save_broker_reconcile_run_def Let_def)

lemma run_frame [simp]:
  "bd_runs (save_broker_reconcile_source_result p db) = bd_runs db"
  "bd_runs (replace_broker_reconcile_snapshots now k a b c db) = bd_runs db"
  "bd_runs (save_broker_reconcile_discrepancies k ds db) = bd_runs db"
  "bd_runs (store_snapshots env res db) = bd_runs db"
  by (simp_all add: save_broker_reconcile_source_result_def replace_broker_reconcile_snapshots_def
      save_broker_reconcile_discrepancies_def store_snapshots_def Let_def)

lemma get_run_frame [simp]:
  "get_broker_reconcile_run k (save_broker_reconcile_source_result p db) = get_broker_reconcile_run k db"
  "get_broker_reconcile_run k (replace_broker_reconcile_snapshots now j a b c db) = get_broker_reconcile_run k db"
  "get_broker_reconcile_run k (save_broker_reconcile_discrepancies j ds db) = get_broker_reconcile_run k db"
  "get_broker_reconcile_run k (store_snapshots env res db) = get_broker_reconcile_run k db"
  by (simp_all add: get_broker_reconcile_run_def)

lemma save_run_state [simp]:
  "rs_db (fst (save_run env run s)) = fst (save_broker_reconcile_run (re_now env) run (rs_db s))"
  "rs_current_run_id (fst (save_run env run s)) = rs_current_run_id s"
  "snd (save_run env run s) = snd (save_broker_reconcile_run (re_now env) run (rs_db s))"
  by (simp_all add: save_run_def case_prod_beta)

section \<open>The comparison\<close>

text \<open>The severity of every discrepancy is critical.\<close>

lemma discrepancies_critical: "d \<in> set (compare_snapshots now k token db) \<Longrightarrow> di_severity d \<in> set CRITICAL_SEVERITIES"
  by (auto simp: compare_snapshots_def local_only_orders_def open_order_check_def position_check_def discrepancy_of_def
      CRITICAL_SEVERITIES_def Let_def split: option.splits if_splits)

lemma local_only_empty:
  "local_only_orders now token trs rows = [] \<longleftrightarrow>
   (\<forall>r\<in>set rows. bos_order_no r \<noteq> [] \<and> 0 < bos_remaining_qty r \<longrightarrow> bos_order_no r \<in> fst ` set trs)"
  by (induction rows) (auto simp: local_only_orders_def map_of_eq_None_iff)

lemma open_check_empty:
  "open_order_check now token db (k, tr) = [] \<longleftrightarrow>
   map_option bos_remaining_qty (broker_order_by_order_no k db) = Some (tro_remaining_quantity tr)"
  by (auto simp: open_order_check_def split: option.splits)

lemma position_check_empty:
  "position_check now token db (k, tr) = [] \<longleftrightarrow>
   (case broker_position_by_code k db of None \<Rightarrow> trp_quantity tr \<le> 0 | Some r \<Rightarrow> bps_quantity r = trp_quantity tr)"
  by (auto simp: position_check_def split: option.splits)

lemma tr_order_keys: "k \<in> fst ` set (tr_order_dict run_id db) \<longleftrightarrow>
    k \<noteq> [] \<and> (\<exists>t\<in>set (list_broker_reconcile_open_orders run_id db). tro_order_no t = k)"
  by (auto simp: tr_order_dict_def keys_dict_of)

section \<open>What each operation does to the runs\<close>

lemma run_with_result_fields [simp]:
  "rr_run_id (run_with_result res r) = rr_run_id r" "rr_required_sources (run_with_result res r) = rr_required_sources r"
  "rr_account_token (run_with_result res r) = rr_account_token r"
  "rr_broker_truth_ready (run_with_result res r) = rr_broker_truth_ready r"
  "rr_snapshot_complete (run_with_result res r) = rr_snapshot_complete r"
  "rr_reconcile_clean (run_with_result res r) = rr_reconcile_clean r"
  "rr_discrepancy_count (run_with_result res r) = rr_discrepancy_count r"
  by (simp_all add: run_with_result_def Let_def)

text \<open>An answer that counts, the sources that are completed after it, and a run that has all it needs.\<close>

definition good_answer :: "tr_parse_result \<Rightarrow> bool" where
  "good_answer res \<longleftrightarrow> tpr_complete res \<and> tpr_errors res = []"

definition has_all :: "recon_run \<Rightarrow> bool" where
  "has_all r \<longleftrightarrow> rr_required_sources r \<noteq> [] \<and> set (rr_required_sources r) \<subseteq> set (rr_completed_sources r)"

lemma completed_after_answer:
  "set (rr_completed_sources (run_with_result res r)) =
   set (rr_completed_sources r) \<union> (if good_answer res then {tpr_logical_source res} else {})"
  by (auto simp: run_with_result_def good_answer_def Let_def)

lemma status_after_answer:
  "rr_status (run_with_result res r) = Some (if has_all (run_with_result res r) then RUN_COMPLETE else RUN_PARTIAL)"
  by (simp add: run_with_result_def has_all_def Let_def)

lemma has_all_kept: "has_all r \<Longrightarrow> has_all (run_with_result res r)"
  by (auto simp: has_all_def completed_after_answer)

text \<open>What finishing writes into the row of a run.\<close>

lemma finished_run_fields [simp]:
  "rr_run_id (finished_run env k ds r) = k" "rr_required_sources (finished_run env k ds r) = rr_required_sources r"
  "rr_completed_sources (finished_run env k ds r) = rr_completed_sources r"
  "rr_status (finished_run env k ds r) = Some (if ds = [] then RUN_CLEAN else RUN_RECONCILE_REQUIRED)"
  "rr_snapshot_complete (finished_run env k ds r)" "rr_broker_truth_ready (finished_run env k ds r) = (ds = [])"
  "rr_reconcile_clean (finished_run env k ds r) = (ds = [])"
  "rr_discrepancy_count (finished_run env k ds r) = int (length ds)"
  by (simp_all add: finished_run_def)

lemma finished_run_count:
  "rr_critical_discrepancy_count (finished_run env k ds r) =
   int (length (filter (\<lambda>d. di_severity d \<in> set CRITICAL_SEVERITIES) ds))"
  by (simp add: finished_run_def)

lemma finished_run_critical:
  "rr_critical_discrepancy_count (finished_run env k (compare_snapshots now j token db) r) =
   int (length (compare_snapshots now j token db))"
proof -
  have "filter (\<lambda>d. di_severity d \<in> set CRITICAL_SEVERITIES) (compare_snapshots now j token db) = compare_snapshots now j token db"
    by (rule filter_True) (simp add: discrepancies_critical)
  then show ?thesis by (simp only: finished_run_count)
qed

lemma finish_marks_db:
  "rs_db (if c then s\<lparr>rs_last_success_at := x\<rparr> else s\<lparr>rs_last_failure_at := y\<rparr>) = rs_db s"
  by simp

lemma finalize_db:
  "rs_db (fst (finalize_run env k s)) =
   fst (save_broker_reconcile_run (re_now env)
      (finished_run env k (compare_snapshots (re_now env) k (rr_account_token (run_or_empty k (rs_db s))) (rs_db s))
         (run_or_empty k (rs_db s)))
      (save_broker_reconcile_discrepancies k
         (compare_snapshots (re_now env) k (rr_account_token (run_or_empty k (rs_db s))) (rs_db s)) (rs_db s)))"
  unfolding finalize_run_def Let_def fst_conv finish_marks_db save_run_state by simp

lemma finalize_get:
  "get_broker_reconcile_run j (rs_db (fst (finalize_run env k s))) =
   (if k \<noteq> [] \<and> j = k
    then Some (run_after (re_now env)
      (finished_run env k (compare_snapshots (re_now env) k (rr_account_token (run_or_empty k (rs_db s))) (rs_db s))
         (run_or_empty k (rs_db s))) (get_broker_reconcile_run k (rs_db s)))
    else get_broker_reconcile_run j (rs_db s))"
  by (simp add: finalize_db get_save_run)

lemma finalize_stored:
  assumes "get_broker_reconcile_run k (rs_db s) = Some r" "k \<noteq> []"
  obtains r' where "get_broker_reconcile_run k (rs_db (fst (finalize_run env k s))) = Some r'"
    "rr_required_sources r' = rr_required_sources r" "rr_completed_sources r' = rr_completed_sources r"
    "rr_snapshot_complete r'" "rr_reconcile_clean r' = rr_broker_truth_ready r'"
    "rr_broker_truth_ready r' = (rr_status r' = Some RUN_CLEAN)" "rr_broker_truth_ready r' = (rr_discrepancy_count r' = 0)"
    "rr_status r' \<in> {Some RUN_CLEAN, Some RUN_RECONCILE_REQUIRED}"
    "rr_broker_truth_ready r' = (compare_snapshots (re_now env) k (rr_account_token r) (rs_db s) = [])"
    "rr_discrepancy_count r' = int (length (compare_snapshots (re_now env) k (rr_account_token r) (rs_db s)))"
    "rr_critical_discrepancy_count r' = rr_discrepancy_count r'"
proof -
  have run: "run_or_empty k (rs_db s) = r" using assms by (simp add: run_or_empty_def)
  let ?ds = "compare_snapshots (re_now env) k (rr_account_token r) (rs_db s)"
  let ?r = "run_after (re_now env) (finished_run env k ?ds r) (Some r)"
  have get: "get_broker_reconcile_run k (rs_db (fst (finalize_run env k s))) = Some ?r"
    using assms run by (simp add: finalize_get)
  show thesis by (rule that [OF get]) (simp_all add: finished_run_critical)
qed

lemma apply_other:
  "j \<noteq> tpr_run_id res \<Longrightarrow> get_broker_reconcile_run j (rs_db (apply_source_result env res c s)) = get_broker_reconcile_run j (rs_db s)"
  by (auto simp: apply_source_result_def update_run_after_source_result_def Let_def get_save_run finalize_get
      dest: get_run_id split: option.splits)

lemma apply_unknown:
  "get_broker_reconcile_run (tpr_run_id res) (rs_db s) = None \<Longrightarrow>
   get_broker_reconcile_run j (rs_db (apply_source_result env res c s)) = get_broker_reconcile_run j (rs_db s)"
  by (simp add: apply_source_result_def update_run_after_source_result_def)

lemma apply_stored:
  assumes "get_broker_reconcile_run (tpr_run_id res) (rs_db s) = Some r" "tpr_run_id res \<noteq> []"
  obtains r' where "get_broker_reconcile_run (tpr_run_id res) (rs_db (apply_source_result env res c s)) = Some r'"
    "rr_required_sources r' = rr_required_sources r"
    "rr_completed_sources r' = rr_completed_sources (run_with_result res r)"
    "\<not> has_all (run_with_result res r) \<Longrightarrow>
       rr_broker_truth_ready r' = rr_broker_truth_ready r \<and> rr_snapshot_complete r' = rr_snapshot_complete r"
    "has_all (run_with_result res r) \<Longrightarrow>
       rr_snapshot_complete r' \<and> rr_status r' \<in> {Some RUN_CLEAN, Some RUN_RECONCILE_REQUIRED} \<and>
       rr_reconcile_clean r' = rr_broker_truth_ready r' \<and> rr_broker_truth_ready r' = (rr_status r' = Some RUN_CLEAN) \<and>
       rr_broker_truth_ready r' = (rr_discrepancy_count r' = 0)"
proof -
  let ?s = "s\<lparr>rs_db := store_snapshots env res (save_broker_reconcile_source_result (source_result_of env res c) (rs_db s))\<rparr>"
  let ?run = "run_with_result res r" let ?s1 = "fst (save_run env ?run ?s)"
  have id: "rr_run_id r = tpr_run_id res" using assms(1) by (rule get_run_id)
  have app: "apply_source_result env res c s =
      (if has_all ?run then fst (finalize_run env (tpr_run_id res) ?s1) else ?s1)"
    using assms by (simp add: apply_source_result_def update_run_after_source_result_def Let_def status_after_answer)
  have s1: "get_broker_reconcile_run (tpr_run_id res) (rs_db ?s1) = Some (run_after (re_now env) ?run (Some r))"
    using assms id by (simp add: get_save_run)
  show thesis
  proof (cases "has_all ?run")
    case True
    obtain r' where "get_broker_reconcile_run (tpr_run_id res) (rs_db (fst (finalize_run env (tpr_run_id res) ?s1))) = Some r'"
      "rr_required_sources r' = rr_required_sources r" "rr_completed_sources r' = rr_completed_sources ?run"
      "rr_snapshot_complete r'" "rr_reconcile_clean r' = rr_broker_truth_ready r'"
      "rr_broker_truth_ready r' = (rr_status r' = Some RUN_CLEAN)" "rr_broker_truth_ready r' = (rr_discrepancy_count r' = 0)"
      "rr_status r' \<in> {Some RUN_CLEAN, Some RUN_RECONCILE_REQUIRED}"
      using finalize_stored [OF s1 assms(2), of env] by (metis run_after_fields)
    with True show thesis using that [of r'] by (simp add: app)
  next
    case False
    then show thesis using that [of "run_after (re_now env) ?run (Some r)"] s1 by (simp add: app)
  qed
qed

section \<open>Runs of the orchestrator\<close>

text \<open>The answer that a call brings, if it brings one.\<close>

fun answer_of :: "recon_env \<times> recon_call \<Rightarrow> tr_parse_result option" where
  "answer_of (env, SourceResult res command_id) = Some res"
| "answer_of (env, GatewayEvent event) =
     (let payload = broker_reconcile_payload (ge_payload event) in
      if text_or payload ''purpose'' [] = ''broker_reconcile''
      then case re_parse env payload of Inr res \<Rightarrow> Some res | Inl e \<Rightarrow> None else None)"
| "answer_of (env, ManualRequest a b c) = None"
| "answer_of (env, StartupRequest a b) = None"
| "answer_of (env, ReconnectRequest a b) = None"
| "answer_of (env, PeriodicRequest a b) = None"
| "answer_of (env, MarkStale) = None"
| "answer_of (env, CancelRun e) = None"
| "answer_of (env, FinalizeRun k) = None"

text \<open>Some call brought a complete answer without errors of this source to this run.\<close>

definition answered :: "(recon_env \<times> recon_call) list \<Rightarrow> string \<Rightarrow> string \<Rightarrow> bool" where
  "answered calls k source \<longleftrightarrow>
     (\<exists>c\<in>set calls. case answer_of c of None \<Rightarrow> False
        | Some res \<Rightarrow> tpr_run_id res = k \<and> tpr_logical_source res = source \<and> good_answer res)"

definition ready_ok :: "recon_run \<Rightarrow> bool" where
  "ready_ok r \<longleftrightarrow> (rr_broker_truth_ready r \<longrightarrow> has_all r \<and> rr_snapshot_complete r \<and> rr_reconcile_clean r \<and>
     rr_discrepancy_count r = 0 \<and> rr_status r \<in> {Some RUN_CLEAN, Some RUN_CANCELLED})"

text \<open>Some call finished this run directly, without an answer.\<close>

definition forced :: "(recon_env \<times> recon_call) list \<Rightarrow> string \<Rightarrow> bool" where
  "forced calls k \<longleftrightarrow> FinalizeRun k \<in> snd ` set calls"

lemma forced_more: "forced calls k \<Longrightarrow> forced (calls @ [c]) k"
  by (simp add: forced_def)

definition run_good :: "(recon_env \<times> recon_call) list \<Rightarrow> string \<Rightarrow> recon_run \<Rightarrow> bool" where
  "run_good calls k r \<longleftrightarrow>
     forced calls k \<or> ready_ok r \<and> (\<forall>source\<in>set (rr_completed_sources r). answered calls k source)"

definition recon_ok :: "(recon_env \<times> recon_call) list \<Rightarrow> broker_db \<Rightarrow> bool" where
  "recon_ok calls db \<longleftrightarrow> (\<forall>k r. get_broker_reconcile_run k db = Some r \<longrightarrow> k \<noteq> [] \<and> run_good calls k r)"

lemma recon_okD: "recon_ok calls db \<Longrightarrow> get_broker_reconcile_run k db = Some r \<Longrightarrow> k \<noteq> [] \<and> run_good calls k r"
  unfolding recon_ok_def by blast

lemma recon_okI: "(\<And>k r. get_broker_reconcile_run k db = Some r \<Longrightarrow> k \<noteq> [] \<and> run_good calls k r) \<Longrightarrow> recon_ok calls db"
  unfolding recon_ok_def by blast

lemma answered_more: "answered calls k source \<Longrightarrow> answered (calls @ [c]) k source"
  unfolding answered_def by auto

lemma recon_ok_more: "recon_ok calls db \<Longrightarrow> recon_ok (calls @ [c]) db"
  unfolding recon_ok_def run_good_def by (metis answered_more forced_more)

lemma recon_ok_frame: "bd_runs db' = bd_runs db \<Longrightarrow> recon_ok calls db \<Longrightarrow> recon_ok calls db'"
  by (simp add: recon_ok_def get_broker_reconcile_run_def)

text \<open>A save keeps the assertion if the row that it writes has it.\<close>

lemma recon_ok_save:
  assumes "recon_ok calls db"
    "run_good calls (rr_run_id run) (run_after now run (get_broker_reconcile_run (rr_run_id run) db))"
  shows "recon_ok calls (fst (save_broker_reconcile_run now run db))"
proof (rule recon_okI)
  fix k r assume "get_broker_reconcile_run k (fst (save_broker_reconcile_run now run db)) = Some r"
  then show "k \<noteq> [] \<and> run_good calls k r"
    using assms recon_okD [OF assms(1), of k r] unfolding get_save_run by (cases "rr_run_id run \<noteq> [] \<and> k = rr_run_id run") auto
qed

text \<open>A row that is not ready and has no completed source is good.\<close>

lemma run_good_fresh:
  "\<not> rr_broker_truth_ready run \<Longrightarrow> rr_completed_sources run = [] \<Longrightarrow> run_good calls k (run_after now run old)"
  by (simp add: run_good_def ready_ok_def)

lemma dispatch_db [simp]: "rs_db (fst (dispatch_reconcile_commands env cfg account k sources s)) = rs_db s"
  by (simp add: dispatch_reconcile_commands_def case_prod_beta Let_def split: option.splits)

lemma start_run_ok:
  assumes "recon_ok calls (rs_db s)" shows "recon_ok calls (rs_db (fst (start_run env cfg account broker_env trigger sources s)))"
proof -
  define run where "run = new_run env cfg (account_token (re_sha env) account) broker_env trigger (required_sources cfg sources)"
  define s0 where "s0 = s\<lparr>rs_current_run_id := re_run_id env, rs_last_trigger := trigger\<rparr>"
  have fresh: "\<not> rr_broker_truth_ready run" "rr_completed_sources run = []" "rr_run_id run = re_run_id env"
    by (simp_all add: run_def new_run_def no_run_def)
  have s1: "recon_ok calls (rs_db (fst (save_run env run s0)))"
    unfolding save_run_state by (rule recon_ok_save) (simp_all add: s0_def assms run_good_fresh fresh)
  let ?saved = "snd (save_run env run s0)"
  have saved: "\<not> rr_broker_truth_ready ?saved" "rr_completed_sources ?saved = []"
    by (simp_all add: snd_save_run fresh)
  have s3: "recon_ok calls (rs_db (fst (save_run env (after_dispatch n m ws es ?saved)
      (fst (dispatch_reconcile_commands env cfg account (re_run_id env) (required_sources cfg sources) (fst (save_run env run s0)))))))"
    for n m ws es
    unfolding save_run_state dispatch_db
    by (rule recon_ok_save [OF s1 [unfolded save_run_state]], rule run_good_fresh)
      (use saved in \<open>simp_all add: after_dispatch_def\<close>)
  show ?thesis
    using assms s1 s3 unfolding start_run_def Let_def case_prod_beta run_def [symmetric] s0_def [symmetric] by simp
qed

lemma apply_ok:
  assumes "recon_ok calls (rs_db s)" "answer_of c = Some res"
  shows "recon_ok (calls @ [c]) (rs_db (apply_source_result env res command_id s))"
proof (rule recon_okI)
  fix k r' assume get: "get_broker_reconcile_run k (rs_db (apply_source_result env res command_id s)) = Some r'"
  note old = recon_okD [OF recon_ok_more [OF assms(1), of c]]
  show "k \<noteq> [] \<and> run_good (calls @ [c]) k r'"
  proof (cases "k = tpr_run_id res \<and> get_broker_reconcile_run k (rs_db s) \<noteq> None")
    case False
    then have "get_broker_reconcile_run k (rs_db s) = Some r'" using get apply_other apply_unknown by metis
    then show ?thesis by (rule old)
  next
    case True
    then obtain r where r: "get_broker_reconcile_run (tpr_run_id res) (rs_db s) = Some r" by auto
    have good: "tpr_run_id res \<noteq> []" "run_good (calls @ [c]) (tpr_run_id res) r" using old [OF r] by auto
    have new: "answered (calls @ [c]) (tpr_run_id res) (tpr_logical_source res)" if "good_answer res"
      using that assms(2) by (auto simp: answered_def)
    obtain x where x: "get_broker_reconcile_run (tpr_run_id res) (rs_db (apply_source_result env res command_id s)) = Some x"
      "rr_required_sources x = rr_required_sources r" "rr_completed_sources x = rr_completed_sources (run_with_result res r)"
      "\<not> has_all (run_with_result res r) \<Longrightarrow>
         rr_broker_truth_ready x = rr_broker_truth_ready r \<and> rr_snapshot_complete x = rr_snapshot_complete r"
      "has_all (run_with_result res r) \<Longrightarrow>
         rr_snapshot_complete x \<and> rr_status x \<in> {Some RUN_CLEAN, Some RUN_RECONCILE_REQUIRED} \<and>
         rr_reconcile_clean x = rr_broker_truth_ready x \<and> rr_broker_truth_ready x = (rr_status x = Some RUN_CLEAN) \<and>
         rr_broker_truth_ready x = (rr_discrepancy_count x = 0)"
      by (rule apply_stored [OF r good(1), of env command_id]) blast
    have x_r: "r' = x" using get True x(1) by simp
    show ?thesis
    proof (cases "forced (calls @ [c]) k")
      case True
      with \<open>k = tpr_run_id res \<and> get_broker_reconcile_run k (rs_db s) \<noteq> None\<close> good(1) show ?thesis by (simp add: run_good_def)
    next
      case unforced: False
    have done_ok: "\<forall>source\<in>set (rr_completed_sources x). answered (calls @ [c]) k source"
      using good(2) new True unforced unfolding x(3) completed_after_answer run_good_def by auto
    have "ready_ok x"
    proof (cases "has_all (run_with_result res r)")
      case True
      then have "has_all x" using x(2,3) by (simp add: has_all_def)
      with x(5) [OF True] show ?thesis by (auto simp: ready_ok_def)
    next
      case False
      then have "\<not> has_all r" using has_all_kept by blast
      then have "\<not> rr_broker_truth_ready x" using good(2) x(4) [OF False] unforced True by (auto simp: run_good_def ready_ok_def)
      then show ?thesis by (simp add: ready_ok_def)
    qed
    then show ?thesis using done_ok good(1) True x_r by (simp add: run_good_def)
    qed
  qed
qed

lemma mark_ok:
  assumes "recon_ok calls (rs_db s)" shows "recon_ok calls (rs_db (mark_stale env s))" "recon_ok calls (rs_db (cancel_pending_run env reason s))"
proof -
  have good: "run_good calls k r" "rr_run_id r = k" if "get_broker_reconcile_run k (rs_db s) = Some r" for k r
    using recon_okD [OF assms that] get_run_id [OF that] by auto
  show "recon_ok calls (rs_db (mark_stale env s))"
  proof (cases "rs_current_run_id s = [] \<or> get_broker_reconcile_run (rs_current_run_id s) (rs_db s) = None")
    case False
    then obtain r where r: "rs_current_run_id s \<noteq> []" "get_broker_reconcile_run (rs_current_run_id s) (rs_db s) = Some r" by auto
    have "recon_ok calls (fst (save_broker_reconcile_run (re_now env) (r\<lparr>rr_status := Some RUN_STALE, rr_broker_truth_ready := False\<rparr>) (rs_db s)))"
      by (rule recon_ok_save [OF assms]) (use good [OF r(2)] r in \<open>auto simp: run_good_def ready_ok_def\<close>)
    with r show ?thesis by (simp add: mark_stale_def)
  qed (use assms in \<open>auto simp: mark_stale_def\<close>)
  show "recon_ok calls (rs_db (cancel_pending_run env reason s))"
  proof (cases "rs_current_run_id s = [] \<or> get_broker_reconcile_run (rs_current_run_id s) (rs_db s) = None")
    case False
    then obtain r where r: "rs_current_run_id s \<noteq> []" "get_broker_reconcile_run (rs_current_run_id s) (rs_db s) = Some r" by auto
    have "recon_ok calls (fst (save_broker_reconcile_run (re_now env) (r\<lparr>rr_status := Some RUN_CANCELLED, rr_errors := [reason]\<rparr>) (rs_db s)))"
      by (rule recon_ok_save [OF assms]) (use good [OF r(2)] r in \<open>auto simp: run_good_def ready_ok_def has_all_def\<close>)
    with r show ?thesis by (simp add: cancel_pending_run_def)
  qed (use assms in \<open>auto simp: cancel_pending_run_def\<close>)
qed

lemma handle_recon_db:
  "recon_ok calls (rs_db s) \<Longrightarrow> recon_ok (calls @ [(env, GatewayEvent event)]) (rs_db (fst (handle_recon_event env event s)))"
  using apply_ok [of calls s "(env, GatewayEvent event)" _ env] recon_ok_more [of calls "rs_db s" "(env, GatewayEvent event)"]
  by (auto simp: handle_recon_event_def Let_def split: sum.splits)

lemma finalize_ok:
  assumes "recon_ok calls (rs_db s)" "c = (env, FinalizeRun k)"
  shows "recon_ok (calls @ [c]) (rs_db (fst (finalize_run env k s)))"
proof (rule recon_okI)
  fix j r assume get: "get_broker_reconcile_run j (rs_db (fst (finalize_run env k s))) = Some r"
  show "j \<noteq> [] \<and> run_good (calls @ [c]) j r"
  proof (cases "k \<noteq> [] \<and> j = k")
    case True
    then show ?thesis by (simp add: run_good_def forced_def assms(2))
  next
    case False
    then have "get_broker_reconcile_run j (rs_db s) = Some r" using get by (simp only: finalize_get if_False)
    then show ?thesis using recon_okD [OF recon_ok_more [OF assms(1), of c]] by blast
  qed
qed

lemma recon_step_ok: "recon_ok calls (rs_db s) \<Longrightarrow> recon_ok (calls @ [c]) (rs_db (recon_step cfg s c))"
proof -
  assume ok: "recon_ok calls (rs_db s)"
  note start = start_run_ok [OF recon_ok_more [OF ok, of c]]
  obtain env op where c: "c = (env, op)" by (cases c)
  show ?thesis
  proof (cases op)
    case (GatewayEvent event)
    then show ?thesis using handle_recon_db [OF ok] c by simp
  next
    case (SourceResult res command_id)
    then show ?thesis using apply_ok [OF ok, of c res env command_id] c by simp
  next
    case MarkStale
    then show ?thesis using mark_ok(1) [OF recon_ok_more [OF ok, of c], of env] c by simp
  next
    case (FinalizeRun k)
    then show ?thesis using finalize_ok [OF ok, of c env k] c by simp
  next
    case (CancelRun reason)
    then show ?thesis using mark_ok(2) [OF recon_ok_more [OF ok, of c], of env reason] c by simp
  qed (use start recon_ok_more [OF ok, of c] c in \<open>simp_all add: request_manual_reconcile_def request_startup_reconcile_def
        request_reconnect_reconcile_def request_periodic_reconcile_def\<close>)
qed

lemma recon_calls_ok: "recon_ok calls (rs_db (recon_run_calls cfg calls (recon_start g)))"
proof (induction calls rule: rev_induct)
  case Nil
  show ?case by (rule recon_okI) (simp add: recon_run_calls_def recon_start_def empty_broker_db_def get_broker_reconcile_run_def)
next
  case (snoc c calls)
  then show ?case using recon_step_ok by (simp add: recon_run_calls_def)
qed

section \<open>Properties\<close>

definition sample_env :: recon_env where
  "sample_env = \<lparr>re_sha = (\<lambda>t. ''0123456789abcdef''), re_digest = (\<lambda>t d. ''digest''), re_registry = (\<lambda>k. None),
     re_parse = (\<lambda>d. Inl ''unreadable''), re_run_id = ''r1'', re_command_ids = (\<lambda>n. ''c1''), re_now = 0\<rparr>"

definition sample_answer :: "string \<Rightarrow> bool \<Rightarrow> tr_parse_result" where
  "sample_answer source whole =
     \<lparr>tpr_run_id = ''r1'', tpr_logical_source = source, tpr_parser_version = ''v1'',
      tpr_parser_status = (if whole then PARSER_VALID_EMPTY else PARSER_INVALID), tpr_tr_code = [], tpr_rq_name = [],
      tpr_complete = whole, tpr_valid_empty = whole, tpr_page_count = 1, tpr_row_count = 0, tpr_open_orders = [],
      tpr_positions = [], tpr_cash = None, tpr_warnings = [],
      tpr_errors = (if whole then [] else [''TR_CAPTURE_INCOMPLETE'']), tpr_raw_checksum = []\<rparr>"

definition sample_run :: "string list \<Rightarrow> recon_run" where
  "sample_run completed = no_run\<lparr>rr_run_id := ''r1'', rr_account_token := ''ACC_TOKEN_1'',
     rr_status := Some RUN_RUNNING, rr_required_sources := [OPEN_ORDERS, ACCOUNT_POSITIONS], rr_completed_sources := completed\<rparr>"

definition sample_recon :: "string list \<Rightarrow> recon_state" where
  "sample_recon completed =
     (recon_start None)\<lparr>rs_db := empty_broker_db\<lparr>bd_runs := [sample_run completed]\<rparr>, rs_current_run_id := ''r1''\<rparr>"

lemma sample_recon_get:
  "get_broker_reconcile_run ''r1'' (rs_db (sample_recon completed)) = Some (sample_run completed)"
  by (simp add: get_broker_reconcile_run_def sample_recon_def sample_run_def)

text \<open>When the comparison finds nothing: orders that only the local side waits for, orders of the broker, positions of the broker.\<close>

definition checks_pass :: "string \<Rightarrow> broker_db \<Rightarrow> bool" where
  "checks_pass k db \<longleftrightarrow>
     (\<forall>r\<in>set (t_rows (bd_orders db)). bos_order_no r \<noteq> [] \<and> 0 < bos_remaining_qty r \<longrightarrow>
        bos_order_no r \<in> tro_order_no ` set (list_broker_reconcile_open_orders k db)) \<and>
     (\<forall>(order_no, tr)\<in>set (tr_order_dict k db).
        map_option bos_remaining_qty (broker_order_by_order_no order_no db) = Some (tro_remaining_quantity tr)) \<and>
     (\<forall>(code, tr)\<in>set (tr_position_dict k db).
        case broker_position_by_code code db of None \<Rightarrow> trp_quantity tr \<le> 0 | Some r \<Rightarrow> bps_quantity r = trp_quantity tr)"

lemma compare_empty: "compare_snapshots now k token db = [] \<longleftrightarrow> checks_pass k db"
proof -
  have "compare_snapshots now k token db = [] \<longleftrightarrow>
      local_only_orders now token (tr_order_dict k db) (t_rows (bd_orders db)) = [] \<and>
      (\<forall>e\<in>set (tr_order_dict k db). open_order_check now token db e = []) \<and>
      (\<forall>e\<in>set (tr_position_dict k db). position_check now token db e = [])"
    by (auto simp: compare_snapshots_def Let_def)
  also have "\<dots> \<longleftrightarrow> checks_pass k db"
    unfolding checks_pass_def local_only_empty tr_order_keys
    by (intro conj_cong ball_cong refl)
      (auto simp: open_check_empty position_check_empty, metis imageI)
  finally show ?thesis .
qed

lemma discrepancies_saved:
  assumes "k \<noteq> []"
  shows "length (filter (\<lambda>d. dir_run_id d = k) (t_rows (bd_discrepancies (save_broker_reconcile_discrepancies k ds db)))) = length ds"
proof -
  have "length (filter (\<lambda>d. dir_run_id d = k) (t_rows (fold (\<lambda>d. insert_row (discrepancy_insert k d)) ds t))) =
      length (filter (\<lambda>d. dir_run_id d = k) (t_rows t)) + length ds" for t
    by (induction ds arbitrary: t)
      (simp_all add: insert_row_def discrepancy_insert_def discrepancy.defs discrepancy_row.defs)
  then show ?thesis using assms by (simp add: save_broker_reconcile_discrepancies_def delete_rows_def)
qed

text \<open>
  The books as quantities: what each side has open under an order number, and what it holds of a stock. A side that does
  not know the order or the stock has none; of several rows the newest one counts.
\<close>

definition open_local :: "broker_db \<Rightarrow> string \<Rightarrow> int" where
  "open_local db order_no = (case broker_order_by_order_no order_no db of Some r \<Rightarrow> bos_remaining_qty r | None \<Rightarrow> 0)"

definition open_broker :: "string \<Rightarrow> broker_db \<Rightarrow> string \<Rightarrow> int" where
  "open_broker k db order_no =
     (case find (\<lambda>r. tro_order_no r = order_no) (rev (list_broker_reconcile_open_orders k db)) of
        Some r \<Rightarrow> tro_remaining_quantity r | None \<Rightarrow> 0)"

definition held_local :: "broker_db \<Rightarrow> string \<Rightarrow> int" where
  "held_local db code = (case broker_position_by_code code db of Some r \<Rightarrow> bps_quantity r | None \<Rightarrow> 0)"

definition held_broker :: "string \<Rightarrow> broker_db \<Rightarrow> string \<Rightarrow> int" where
  "held_broker k db code =
     (case find (\<lambda>r. trp_code r = code) (rev (list_broker_reconcile_positions k db)) of Some r \<Rightarrow> trp_quantity r | None \<Rightarrow> 0)"

text \<open>Rows as they should be: no negative quantity, something open in each order that the broker lists, and each
  order number once in the local table.\<close>

definition rows_sane :: "string \<Rightarrow> broker_db \<Rightarrow> bool" where
  "rows_sane k db \<longleftrightarrow>
     list_all (\<lambda>r. 0 \<le> bos_remaining_qty r) (t_rows (bd_orders db)) \<and> distinct (map bos_order_no (t_rows (bd_orders db))) \<and>
     list_all (\<lambda>r. 0 < tro_remaining_quantity r) (list_broker_reconcile_open_orders k db) \<and>
     list_all (\<lambda>r. 0 \<le> trp_quantity r) (list_broker_reconcile_positions k db)"

lemma dict_of_newest: "k \<noteq> [] \<Longrightarrow> map_of (dict_of f (filter (\<lambda>r. f r \<noteq> []) xs)) k = find (\<lambda>r. f r = k) (rev xs)"
  by (induction xs rule: rev_induct) (auto simp: dict_of_snoc dict_simps, simp add: dict_of_def)

lemma dict_of_entries:
  "(k, r) \<in> set (dict_of f (filter (\<lambda>r. f r \<noteq> []) xs)) \<longleftrightarrow> k \<noteq> [] \<and> find (\<lambda>r. f r = k) (rev xs) = Some r"
proof (cases "k = []")
  case True
  have "k \<in> f ` set (filter (\<lambda>r. f r \<noteq> []) xs)" if "(k, r) \<in> set (dict_of f (filter (\<lambda>r. f r \<noteq> []) xs))"
    using that keys_dict_of [of f "filter (\<lambda>r. f r \<noteq> []) xs"] by (metis image_eqI fst_conv)
  with True show ?thesis by auto
next
  case False
  have "(k, r) \<in> set (dict_of f (filter (\<lambda>r. f r \<noteq> []) xs)) \<longleftrightarrow> map_of (dict_of f (filter (\<lambda>r. f r \<noteq> []) xs)) k = Some r"
    by (metis distinct_dict_of map_of_SomeD map_of_is_SomeI)
  with False show ?thesis by (simp add: dict_of_newest)
qed

lemma open_local_rows:
  assumes "distinct (map bos_order_no (t_rows (bd_orders db)))" "r \<in> set (t_rows (bd_orders db))"
  shows "open_local db (bos_order_no r) = bos_remaining_qty r"
proof -
  have "distinct (map bos_order_no (rev (t_rows (bd_orders db))))" using assms(1) by (simp add: rev_map [symmetric])
  with assms(2) have "find (\<lambda>x. bos_order_no x = bos_order_no r) (rev (t_rows (bd_orders db))) = Some r"
    by (simp add: find_unique)
  then show ?thesis by (simp add: open_local_def broker_order_by_order_no_def newest_def)
qed

text \<open>Over such rows the comparison finds nothing exactly if every order number has the same quantity open on both
  sides and every stock that the broker lists is held equally.\<close>

lemma checks_pass_books:
  assumes sane: "rows_sane k db"
  shows "checks_pass k db \<longleftrightarrow> (\<forall>order_no. order_no \<noteq> [] \<longrightarrow> open_local db order_no = open_broker k db order_no) \<and>
    (\<forall>code\<in>trp_code ` set (list_broker_reconcile_positions k db) - {[]}. held_local db code = held_broker k db code)"
proof -
  let ?orders = "list_broker_reconcile_open_orders k db" and ?positions = "list_broker_reconcile_positions k db"
  have s: "\<And>r. r \<in> set (t_rows (bd_orders db)) \<Longrightarrow> 0 \<le> bos_remaining_qty r" "\<And>r. r \<in> set ?orders \<Longrightarrow> 0 < tro_remaining_quantity r"
    "\<And>r. r \<in> set ?positions \<Longrightarrow> 0 \<le> trp_quantity r" "distinct (map bos_order_no (t_rows (bd_orders db)))"
    using sane by (auto simp: rows_sane_def list_all_iff)
  have dict: "(n, tr) \<in> set (tr_order_dict k db) \<longleftrightarrow> n \<noteq> [] \<and> find (\<lambda>r. tro_order_no r = n) (rev ?orders) = Some tr" for n tr
    unfolding tr_order_dict_def by (rule dict_of_entries)
  have pdict: "(n, tr) \<in> set (tr_position_dict k db) \<longleftrightarrow> n \<noteq> [] \<and> find (\<lambda>r. trp_code r = n) (rev ?positions) = Some tr" for n tr
    unfolding tr_position_dict_def by (rule dict_of_entries)
  have orders: "(\<forall>r\<in>set (t_rows (bd_orders db)). bos_order_no r \<noteq> [] \<and> 0 < bos_remaining_qty r \<longrightarrow> bos_order_no r \<in> tro_order_no ` set ?orders) \<and>
      (\<forall>(n, tr)\<in>set (tr_order_dict k db). map_option bos_remaining_qty (broker_order_by_order_no n db) = Some (tro_remaining_quantity tr))
    \<longleftrightarrow> (\<forall>n. n \<noteq> [] \<longrightarrow> open_local db n = open_broker k db n)" (is "?a \<and> ?b \<longleftrightarrow> ?c")
  proof (intro iffI allI impI conjI)
    fix n :: string assume ab: "?a \<and> ?b" and n: "n \<noteq> []"
    show "open_local db n = open_broker k db n"
    proof (cases "find (\<lambda>r. tro_order_no r = n) (rev ?orders)")
      case (Some tr)
      with dict n have "(n, tr) \<in> set (tr_order_dict k db)" by simp
      with ab have "map_option bos_remaining_qty (broker_order_by_order_no n db) = Some (tro_remaining_quantity tr)" by blast
      with Some show ?thesis by (auto simp: open_local_def open_broker_def)
    next
      case None
      then have no: "n \<notin> tro_order_no ` set ?orders" by (auto simp: find_None_iff)
      show ?thesis
      proof (cases "broker_order_by_order_no n db")
        case local: (Some r)
        then have r: "r \<in> set (t_rows (bd_orders db))" "bos_order_no r = n"
          using newest_Some [OF local [unfolded broker_order_by_order_no_def]] by auto
        with ab no n s(1) [OF r(1)] have "bos_remaining_qty r = 0" by (metis antisym_conv2)
        with local None show ?thesis by (simp add: open_local_def open_broker_def)
      qed (simp add: open_local_def open_broker_def None)
    qed
  next
    assume c: "?c"
    show ?a
    proof (intro ballI impI)
      fix r assume r: "r \<in> set (t_rows (bd_orders db))" "bos_order_no r \<noteq> [] \<and> 0 < bos_remaining_qty r"
      with c open_local_rows [OF s(4) r(1)] have "0 < open_broker k db (bos_order_no r)" by metis
      then obtain tr where "find (\<lambda>t. tro_order_no t = bos_order_no r) (rev ?orders) = Some tr"
        by (auto simp: open_broker_def split: option.splits)
      then show "bos_order_no r \<in> tro_order_no ` set ?orders" by (force dest: findSomeD)
    qed
    have "map_option bos_remaining_qty (broker_order_by_order_no n db) = Some (tro_remaining_quantity tr)"
      if "(n, tr) \<in> set (tr_order_dict k db)" for n tr
    proof -
      from that have n: "n \<noteq> []" and tr: "find (\<lambda>r. tro_order_no r = n) (rev ?orders) = Some tr" using dict by auto
      then have "0 < tro_remaining_quantity tr" using s(2) by (auto dest: findSomeD)
      moreover have "open_local db n = tro_remaining_quantity tr" using c n tr by (simp add: open_broker_def)
      ultimately show ?thesis by (auto simp: open_local_def split: option.splits)
    qed
    then show ?b by blast
  qed
  have held: "(\<forall>(code, tr)\<in>set (tr_position_dict k db).
        case broker_position_by_code code db of None \<Rightarrow> trp_quantity tr \<le> 0 | Some r \<Rightarrow> bps_quantity r = trp_quantity tr)
    \<longleftrightarrow> (\<forall>code\<in>trp_code ` set ?positions - {[]}. held_local db code = held_broker k db code)"
  proof -
    have one: "(case broker_position_by_code code db of None \<Rightarrow> trp_quantity tr \<le> 0 | Some r \<Rightarrow> bps_quantity r = trp_quantity tr)
        \<longleftrightarrow> held_local db code = held_broker k db code"
      if "find (\<lambda>r. trp_code r = code) (rev ?positions) = Some tr" for code tr
      using that s(3) [of tr] by (auto simp: held_local_def held_broker_def dest: findSomeD split: option.split)
    have keys: "code \<in> trp_code ` set ?positions - {[]} \<longleftrightarrow> (\<exists>tr. (code, tr) \<in> set (tr_position_dict k db))" for code
      unfolding pdict by (cases "find (\<lambda>r. trp_code r = code) (rev ?positions)") (auto simp: find_None_iff dest!: findSomeD)
    let ?ok = "\<lambda>code tr. case broker_position_by_code code db of None \<Rightarrow> trp_quantity tr \<le> 0 | Some r \<Rightarrow> bps_quantity r = trp_quantity tr"
    have "(\<forall>(code, tr)\<in>set (tr_position_dict k db). ?ok code tr) \<longleftrightarrow>
        (\<forall>(code, tr)\<in>set (tr_position_dict k db). held_local db code = held_broker k db code)"
    proof (rule ball_cong [OF refl], clarify)
      fix code tr assume "(code, tr) \<in> set (tr_position_dict k db)"
      then show "?ok code tr \<longleftrightarrow> held_local db code = held_broker k db code" using one [of code tr] pdict [of code tr] by blast
    qed
    also have "\<dots> \<longleftrightarrow> (\<forall>code\<in>trp_code ` set ?positions - {[]}. held_local db code = held_broker k db code)"
    proof (intro iffI ballI)
      fix code assume all: "\<forall>(code, tr)\<in>set (tr_position_dict k db). held_local db code = held_broker k db code"
        and "code \<in> trp_code ` set ?positions - {[]}"
      then obtain tr where "(code, tr) \<in> set (tr_position_dict k db)" using keys by blast
      from bspec [OF all this] show "held_local db code = held_broker k db code" by simp
    next
      fix e assume all: "\<forall>code\<in>trp_code ` set ?positions - {[]}. held_local db code = held_broker k db code"
        and e: "e \<in> set (tr_position_dict k db)"
      then have "fst e \<in> trp_code ` set ?positions - {[]}" using keys by (metis prod.collapse)
      from bspec [OF all this] show "case e of (code, tr) \<Rightarrow> held_local db code = held_broker k db code" by (simp add: case_prod_beta)
    qed
    finally show ?thesis .
  qed
  show ?thesis unfolding checks_pass_def orders [symmetric] held [symmetric] by (rule conj_assoc [symmetric])
qed

text \<open>C31: Finishing a stored run marks the broker's truth as ready, and the run as CLEAN, exactly if every order
  number has the same quantity open on both sides and every stock that the broker lists is held equally by the local side;
  otherwise the run asks for reconciliation and counts the rows stored for its discrepancies, all of them critical. Stocks that only the local
  side holds are not compared. The quantities must not be negative, the orders that the broker lists have something open, and no order
  number stands twice in the local table.\<close>
theorem clean_run_means_books_agree:
  assumes "get_broker_reconcile_run k (rs_db s) = Some r" "k \<noteq> []" and sane: "rows_sane k (rs_db s)"
    and agree: "agree \<longleftrightarrow> (\<forall>order_no. order_no \<noteq> [] \<longrightarrow> open_local (rs_db s) order_no = open_broker k (rs_db s) order_no) \<and>
      (\<forall>code\<in>trp_code ` set (list_broker_reconcile_positions k (rs_db s)) - {[]}.
         held_local (rs_db s) code = held_broker k (rs_db s) code)"
  shows "\<exists>r'. get_broker_reconcile_run k (rs_db (fst (finalize_run env k s))) = Some r' \<and>
    rr_broker_truth_ready r' = agree \<and> rr_reconcile_clean r' = agree \<and>
    rr_status r' = Some (if agree then RUN_CLEAN else RUN_RECONCILE_REQUIRED) \<and>
    rr_discrepancy_count r' =
      int (length (filter (\<lambda>d. dir_run_id d = k) (t_rows (bd_discrepancies (rs_db (fst (finalize_run env k s))))))) \<and>
    rr_critical_discrepancy_count r' = rr_discrepancy_count r'"
proof -
  obtain r' where r': "get_broker_reconcile_run k (rs_db (fst (finalize_run env k s))) = Some r'"
    "rr_reconcile_clean r' = rr_broker_truth_ready r'" "rr_broker_truth_ready r' = (rr_status r' = Some RUN_CLEAN)"
    "rr_status r' \<in> {Some RUN_CLEAN, Some RUN_RECONCILE_REQUIRED}"
    "rr_broker_truth_ready r' = (compare_snapshots (re_now env) k (rr_account_token r) (rs_db s) = [])"
    "rr_discrepancy_count r' = int (length (compare_snapshots (re_now env) k (rr_account_token r) (rs_db s)))"
    "rr_critical_discrepancy_count r' = rr_discrepancy_count r'"
    by (rule finalize_stored [OF assms(1,2), of env]) blast
  have "run_or_empty k (rs_db s) = r" using assms(1) by (simp add: run_or_empty_def)
  then have "rr_discrepancy_count r' =
      int (length (filter (\<lambda>d. dir_run_id d = k) (t_rows (bd_discrepancies (rs_db (fst (finalize_run env k s)))))))"
    using r'(6) assms(2) by (simp add: finalize_db discrepancies_saved)
  with r' show ?thesis unfolding compare_empty checks_pass_books [OF sane] agree [symmetric] by auto
qed

theorem clean_run_means_books_agree_witness:
  "\<exists>r'. get_broker_reconcile_run ''r1'' (rs_db (fst (finalize_run sample_env ''r1'' (sample_recon [])))) = Some r' \<and>
     rr_status r' = Some RUN_CLEAN"
proof -
  let ?db = "rs_db (sample_recon [])"
  have empty: "list_broker_reconcile_open_orders ''r1'' ?db = []" "list_broker_reconcile_positions ''r1'' ?db = []" "t_rows (bd_orders ?db) = []"
    by (simp_all add: sample_recon_def recon_start_def empty_broker_db_def empty_table_def list_broker_reconcile_open_orders_def
        list_broker_reconcile_positions_def)
  have "rows_sane ''r1'' ?db" by (simp add: rows_sane_def empty)
  from clean_run_means_books_agree [OF sample_recon_get [of "[]"] _ this refl, of sample_env] show ?thesis
    by (auto simp: empty open_local_def open_broker_def broker_order_by_order_no_def newest_def)
qed

text \<open>C32: In any sequence of calls, with answers in any order, late, repeated or unreadable, and with any runs finished
  directly, the truth of the broker is ready for a run that was not itself finished by a direct call of \<open>finalize_run\<close> only if the
  run has required sources, every one of them was answered completely and without errors by some call, and the last comparison found
  nothing; the run is then CLEAN, or it was CLEAN when it was cancelled.\<close>
theorem broker_truth_needs_all_sources:
  assumes "get_broker_reconcile_run k (rs_db (recon_run_calls cfg calls (recon_start g))) = Some r" "rr_broker_truth_ready r"
    and "\<forall>c\<in>set calls. snd c \<noteq> FinalizeRun k"
  shows "rr_required_sources r \<noteq> [] \<and> (\<forall>source\<in>set (rr_required_sources r). answered calls k source) \<and>
    rr_snapshot_complete r \<and> rr_reconcile_clean r \<and> rr_discrepancy_count r = 0 \<and>
    rr_status r \<in> {Some RUN_CLEAN, Some RUN_CANCELLED}"
proof -
  have "\<not> forced calls k" using assms(3) by (auto simp: forced_def)
  then show ?thesis
    using recon_okD [OF recon_calls_ok assms(1)] assms(2) unfolding run_good_def ready_ok_def has_all_def by auto
qed

text \<open>\<open>finalize_run\<close> itself does not ask for answers: called on a run without any, with no local order waiting, it makes the truth
  of the broker ready.\<close>

lemma direct_finish_needs_no_source:
  assumes "get_broker_reconcile_run k (rs_db s) = Some r" "k \<noteq> []" "rr_completed_sources r = []"
    and "list_broker_reconcile_open_orders k (rs_db s) = []" "list_broker_reconcile_positions k (rs_db s) = []"
    and "\<forall>x\<in>set (t_rows (bd_orders (rs_db s))). bos_remaining_qty x \<le> 0"
  shows "\<exists>r'. get_broker_reconcile_run k (rs_db (fst (finalize_run env k s))) = Some r' \<and> rr_broker_truth_ready r' \<and>
    rr_completed_sources r' = []"
proof -
  have "checks_pass k (rs_db s)"
    using assms(4-6) by (force simp: checks_pass_def tr_order_dict_def tr_position_dict_def dict_of_def)
  then have none: "compare_snapshots now k token (rs_db s) = []" for now token by (simp add: compare_empty)
  obtain r' where "get_broker_reconcile_run k (rs_db (fst (finalize_run env k s))) = Some r'"
    "rr_completed_sources r' = rr_completed_sources r"
    "rr_broker_truth_ready r' = (compare_snapshots (re_now env) k (rr_account_token r) (rs_db s) = [])"
    by (rule finalize_stored [OF assms(1,2), of env]) blast
  with none assms(3) show ?thesis by auto
qed

definition sample_calls :: "(recon_env \<times> recon_call) list" where
  "sample_calls = [(sample_env, ManualRequest ''1234'' ''SIMULATION'' [OPEN_ORDERS]),
     (sample_env, SourceResult (sample_answer OPEN_ORDERS True) ''c1'')]"

lemma sample_calls_run:
  "map_option rr_broker_truth_ready
     (get_broker_reconcile_run ''r1'' (rs_db (recon_run_calls default_recon_config sample_calls (recon_start None)))) = Some True"
  by code_simp

theorem broker_truth_needs_all_sources_witness:
  "\<exists>r. get_broker_reconcile_run ''r1'' (rs_db (recon_run_calls default_recon_config sample_calls (recon_start None))) = Some r \<and>
     rr_broker_truth_ready r \<and> rr_status r \<in> {Some RUN_CLEAN, Some RUN_CANCELLED}"
proof -
  obtain r where r: "get_broker_reconcile_run ''r1'' (rs_db (recon_run_calls default_recon_config sample_calls (recon_start None))) = Some r"
    "rr_broker_truth_ready r" using sample_calls_run by auto
  have "\<forall>c\<in>set sample_calls. snd c \<noteq> FinalizeRun ''r1''" by (simp add: sample_calls_def)
  with r show ?thesis using broker_truth_needs_all_sources [OF r] by auto
qed

text \<open>Answers to one run, applied one after the other.\<close>

definition apply_answers :: "(recon_env \<times> tr_parse_result \<times> string) list \<Rightarrow> recon_state \<Rightarrow> recon_state" where
  "apply_answers answers s = fold (\<lambda>(env, res, command_id). apply_source_result env res command_id) answers s"

lemma apply_answers_run:
  assumes "get_broker_reconcile_run k (rs_db s) = Some r" "k \<noteq> []" "\<forall>(env, res, c)\<in>set answers. tpr_run_id res = k"
  shows "\<exists>r'. get_broker_reconcile_run k (rs_db (apply_answers answers s)) = Some r' \<and>
    rr_required_sources r' = rr_required_sources r \<and>
    set (rr_completed_sources r') = set (rr_completed_sources r) \<union>
      {tpr_logical_source res | env res c. (env, res, c) \<in> set answers \<and> good_answer res} \<and>
    (answers \<noteq> [] \<and> has_all r' \<longrightarrow> rr_snapshot_complete r' \<and> rr_status r' \<in> {Some RUN_CLEAN, Some RUN_RECONCILE_REQUIRED})"
  using assms(3)
proof (induction answers rule: rev_induct)
  case Nil
  then show ?case using assms(1) by (simp add: apply_answers_def)
next
  case (snoc a answers)
  obtain env res c where a: "a = (env, res, c)" by (cases a)
  then have k: "tpr_run_id res = k" using snoc.prems by auto
  obtain r1 where r1: "get_broker_reconcile_run k (rs_db (apply_answers answers s)) = Some r1"
    "rr_required_sources r1 = rr_required_sources r"
    "set (rr_completed_sources r1) = set (rr_completed_sources r) \<union>
      {tpr_logical_source res | env res c. (env, res, c) \<in> set answers \<and> good_answer res}"
    using snoc by auto
  obtain x where x: "get_broker_reconcile_run k (rs_db (apply_source_result env res c (apply_answers answers s))) = Some x"
    "rr_required_sources x = rr_required_sources r1" "rr_completed_sources x = rr_completed_sources (run_with_result res r1)"
    "has_all (run_with_result res r1) \<Longrightarrow>
       rr_snapshot_complete x \<and> rr_status x \<in> {Some RUN_CLEAN, Some RUN_RECONCILE_REQUIRED}"
    using apply_stored [of res "apply_answers answers s" r1 env c] r1(1) assms(2) k by metis
  have app: "apply_answers (answers @ [a]) s = apply_source_result env res c (apply_answers answers s)"
    by (simp add: apply_answers_def a)
  have "set (rr_completed_sources x) = set (rr_completed_sources r) \<union>
      {tpr_logical_source res | env res c. (env, res, c) \<in> set (answers @ [a]) \<and> good_answer res}"
    unfolding x(3) completed_after_answer r1(3) a by auto
  moreover have "has_all x \<longrightarrow> has_all (run_with_result res r1)" using x(2,3) by (simp add: has_all_def)
  ultimately show ?case unfolding app using x r1(2) by auto
qed

text \<open>C33: Once every required source of a stored run has a complete answer without errors, in any order and among
  any other answers to it, the run is finished: its snapshot is complete and it is CLEAN or asks for
  reconciliation.\<close>
theorem answers_finish_run:
  assumes "get_broker_reconcile_run k (rs_db s) = Some r" "k \<noteq> []" "rr_required_sources r \<noteq> []"
    "\<forall>(env, res, c)\<in>set answers. tpr_run_id res = k"
    "\<forall>source\<in>set (rr_required_sources r). \<exists>(env, res, c)\<in>set answers. tpr_logical_source res = source \<and> good_answer res"
  shows "\<exists>r'. get_broker_reconcile_run k (rs_db (apply_answers answers s)) = Some r' \<and> rr_snapshot_complete r' \<and>
    rr_status r' \<in> {Some RUN_CLEAN, Some RUN_RECONCILE_REQUIRED} \<and> rr_required_sources r' = rr_required_sources r"
proof -
  obtain r' where r': "get_broker_reconcile_run k (rs_db (apply_answers answers s)) = Some r'"
    "rr_required_sources r' = rr_required_sources r"
    "set (rr_completed_sources r') = set (rr_completed_sources r) \<union>
      {tpr_logical_source res | env res c. (env, res, c) \<in> set answers \<and> good_answer res}"
    "answers \<noteq> [] \<and> has_all r' \<longrightarrow> rr_snapshot_complete r' \<and> rr_status r' \<in> {Some RUN_CLEAN, Some RUN_RECONCILE_REQUIRED}"
    using apply_answers_run [OF assms(1,2,4)] by blast
  have "answers \<noteq> []" using assms(3,5) by (cases "rr_required_sources r") auto
  moreover have "has_all r'" using assms(3,5) r'(2,3) unfolding has_all_def by fastforce
  ultimately show ?thesis using r' by blast
qed

theorem answers_finish_run_witness:
  "\<exists>r'. get_broker_reconcile_run ''r1'' (rs_db (apply_answers
       [(sample_env, sample_answer ACCOUNT_POSITIONS True, ''c1''), (sample_env, sample_answer OPEN_ORDERS False, ''c2''),
        (sample_env, sample_answer OPEN_ORDERS True, ''c2'')] (sample_recon []))) = Some r' \<and> rr_snapshot_complete r'"
  using answers_finish_run [OF sample_recon_get [of "[]"], of "[(sample_env, sample_answer ACCOUNT_POSITIONS True, ''c1''),
      (sample_env, sample_answer OPEN_ORDERS False, ''c2''), (sample_env, sample_answer OPEN_ORDERS True, ''c2'')]"]
  by (simp add: sample_answer_def sample_run_def good_answer_def) blast

text \<open>Rows that an upsert does not concern.\<close>

lemma newest_upsert_other:
  assumes "\<And>r. P r \<Longrightarrow> \<not> same r" "\<And>r. same r \<Longrightarrow> \<not> P (conflict r)" "\<And>i. \<not> P (mk i)"
  shows "newest P (upsert same conflict mk t) = newest P t"
proof -
  have "find P (rev (map (\<lambda>r. if same r then conflict r else r) xs)) = find P (rev xs)" for xs
    using assms(1,2) by (induction xs) (auto simp: find_append split: option.splits)
  then show ?thesis using assms(3) by (simp add: newest_def upsert_def update_rows_def insert_row_def)
qed

lemma upsert_position_tables [simp]:
  "bd_orders (upsert_broker_position_state now p db) = bd_orders db"
  "list_broker_reconcile_open_orders k (upsert_broker_position_state now p db) = list_broker_reconcile_open_orders k db"
  "list_broker_reconcile_positions k (upsert_broker_position_state now p db) = list_broker_reconcile_positions k db"
  by (simp_all add: upsert_broker_position_state_def list_broker_reconcile_open_orders_def
      list_broker_reconcile_positions_def Let_def)

lemma position_upsert_other:
  "code \<noteq> code_column (bps_code p) \<Longrightarrow>
   broker_position_by_code code (upsert_broker_position_state now p db) = broker_position_by_code code db"
  unfolding upsert_broker_position_state_def broker_position_by_code_def Let_def
  by (auto intro!: newest_upsert_other simp: position_state_params_def position_state_conflict_def)

text \<open>C34: A position that only the local side holds is never a discrepancy: writing any local position of a
  stock that is not among the run's positions of the broker leaves the comparison as it was, so a run
  stays clean however many shares the local side believes to hold.\<close>
theorem local_only_position_is_invisible:
  assumes "code_column (bps_code p) \<notin> trp_code ` set (list_broker_reconcile_positions k db)"
  shows "compare_snapshots now k token (upsert_broker_position_state t p db) = compare_snapshots now k token db"
proof -
  let ?db = "upsert_broker_position_state t p db"
  have dicts: "tr_order_dict k ?db = tr_order_dict k db" "tr_position_dict k ?db = tr_position_dict k db"
    by (simp_all add: tr_order_dict_def tr_position_dict_def)
  have orders: "open_order_check now token ?db = open_order_check now token db"
    by (rule ext) (simp add: open_order_check_def broker_order_by_order_no_def)
  have "position_check now token ?db e = position_check now token db e" if "e \<in> set (tr_position_dict k db)" for e
  proof -
    have "fst e \<in> trp_code ` set (list_broker_reconcile_positions k db)"
      using that keys_dict_of [of trp_code "filter (\<lambda>r. trp_code r \<noteq> []) (list_broker_reconcile_positions k db)"]
      unfolding tr_position_dict_def by force
    then have "fst e \<noteq> code_column (bps_code p)" using assms by metis
    then show ?thesis by (cases e) (simp add: position_check_def position_upsert_other)
  qed
  then have "map (position_check now token ?db) (tr_position_dict k db) = map (position_check now token db) (tr_position_dict k db)"
    by (rule map_cong [OF refl])
  then show ?thesis by (simp only: compare_snapshots_def dicts orders Let_def upsert_position_tables)
qed

definition sample_holding :: broker_position_state where
  "sample_holding = \<lparr>bps_id = 0, bps_account = ''1234'', bps_code = ''005930'', bps_quantity = 10,
     bps_available_quantity = 10, bps_avg_price = 70000, bps_last_snapshot_id = [], bps_snapshot_at = Blank,
     bps_updated_at = Blank\<rparr>"

theorem local_only_position_is_invisible_witness:
  "compare_snapshots 0 ''r1'' ''t'' (upsert_broker_position_state 0 sample_holding empty_broker_db) = [] \<and>
   map_option bps_quantity (get_broker_position_state ''1234'' ''005930'' (upsert_broker_position_state 0 sample_holding empty_broker_db)) = Some 10"
proof
  have "checks_pass ''r1'' empty_broker_db"
    by (simp add: checks_pass_def empty_broker_db_def empty_table_def tr_order_dict_def tr_position_dict_def
        list_broker_reconcile_open_orders_def list_broker_reconcile_positions_def dict_of_def)
  then have none: "compare_snapshots 0 ''r1'' ''t'' empty_broker_db = []" by (simp add: compare_empty)
  have "code_column (bps_code sample_holding) \<notin> trp_code ` set (list_broker_reconcile_positions ''r1'' empty_broker_db)"
    by (simp add: list_broker_reconcile_positions_def empty_broker_db_def empty_table_def)
  from local_only_position_is_invisible [OF this, of 0 "''t''" 0] none
  show "compare_snapshots 0 ''r1'' ''t'' (upsert_broker_position_state 0 sample_holding empty_broker_db) = []" by simp
  show "map_option bps_quantity (get_broker_position_state ''1234'' ''005930'' (upsert_broker_position_state 0 sample_holding empty_broker_db)) = Some 10"
    by code_simp
qed

text \<open>The rows of a run after its table was replaced: those of the answer, by their keys.\<close>

lemma insert_other_images: "insert y (f ` {r\<in>A. P r \<and> f r \<noteq> y}) = insert y (f ` {r\<in>A. P r})"
  by auto

lemma put_keys:
  defines "f \<equiv> (\<lambda>x. (open_order_snapshot.tro_account_token x, tro_order_no x))"
    and "g \<equiv> (\<lambda>x :: open_order_row. (tro_account_token x, tro_order_no x))"
  shows "g ` {r\<in>set (t_rows (fold (put_open_order now k) xs t)). oor_run_id r = k} =
     f ` set xs \<union> g ` {r\<in>set (t_rows t). oor_run_id r = k}"
proof (induction xs arbitrary: t)
  case (Cons x xs)
  let ?new = "open_order_insert now k x (t_next t)"
  have new: "g ?new = f x" "oor_run_id ?new = k"
    by (simp_all add: f_def g_def open_order_insert_def open_order_snapshot.defs open_order_row.defs)
  have "{r\<in>set (t_rows (put_open_order now k x t)). oor_run_id r = k} =
      insert ?new {r\<in>set (t_rows t). oor_run_id r = k \<and> g r \<noteq> g ?new}"
    using new by (auto simp: put_open_order_def replace_row_def insert_row_def delete_rows_def f_def g_def)
  then have "g ` {r\<in>set (t_rows (put_open_order now k x t)). oor_run_id r = k} = insert (f x) (g ` {r\<in>set (t_rows t). oor_run_id r = k})"
    by (simp only: image_insert insert_other_images new)
  with Cons show ?case by simp
qed simp

lemma put_position_keys:
  defines "f \<equiv> (\<lambda>x. (position_snapshot.trp_account_token x, code_column (trp_code x)))"
    and "g \<equiv> (\<lambda>x :: position_snapshot_row. (trp_account_token x, trp_code x))"
  shows "g ` {r\<in>set (t_rows (fold (put_tr_position now k) xs t)). psr_run_id r = k} =
     f ` set xs \<union> g ` {r\<in>set (t_rows t). psr_run_id r = k}"
proof (induction xs arbitrary: t)
  case (Cons x xs)
  let ?new = "position_snapshot_insert now k x (t_next t)"
  have new: "g ?new = f x" "psr_run_id ?new = k"
    by (simp_all add: f_def g_def position_snapshot_insert_def position_snapshot.defs position_snapshot_row.defs)
  have "{r\<in>set (t_rows (put_tr_position now k x t)). psr_run_id r = k} =
      insert ?new {r\<in>set (t_rows t). psr_run_id r = k \<and> g r \<noteq> g ?new}"
    using new by (auto simp: put_tr_position_def replace_row_def insert_row_def delete_rows_def f_def g_def)
  then have "g ` {r\<in>set (t_rows (put_tr_position now k x t)). psr_run_id r = k} = insert (f x) (g ` {r\<in>set (t_rows t). psr_run_id r = k})"
    by (simp only: image_insert insert_other_images new)
  with Cons show ?case by simp
qed simp

lemma finalize_tables:
  "bd_orders (rs_db (fst (finalize_run env k s))) = bd_orders (rs_db s)"
  "bd_positions (rs_db (fst (finalize_run env k s))) = bd_positions (rs_db s)"
  "bd_open_orders (rs_db (fst (finalize_run env k s))) = bd_open_orders (rs_db s)"
  "bd_tr_positions (rs_db (fst (finalize_run env k s))) = bd_tr_positions (rs_db s)"
  by (simp_all add: finalize_db save_broker_reconcile_discrepancies_def)

text \<open>The comparison reads the four tables only.\<close>

lemma compare_tables:
  assumes "bd_orders db' = bd_orders db" "bd_positions db' = bd_positions db" "bd_open_orders db' = bd_open_orders db"
    "bd_tr_positions db' = bd_tr_positions db"
  shows "compare_snapshots now k token db' = compare_snapshots now k token db"
proof -
  have "tr_order_dict k db' = tr_order_dict k db" "tr_position_dict k db' = tr_position_dict k db"
    by (simp_all add: tr_order_dict_def tr_position_dict_def list_broker_reconcile_open_orders_def
        list_broker_reconcile_positions_def assms)
  moreover have "open_order_check now token db' = open_order_check now token db" "position_check now token db' = position_check now token db"
    by (simp_all add: fun_eq_iff open_order_check_def position_check_def broker_order_by_order_no_def broker_position_by_code_def assms)
  ultimately show ?thesis by (simp only: compare_snapshots_def assms Let_def)
qed

lemma replaced_rows:
  fixes s env c
  assumes "tpr_run_id res \<noteq> []"
  defines "db \<equiv> store_snapshots env res (save_broker_reconcile_source_result (source_result_of env res c) (rs_db s))"
  shows "tpr_logical_source res = OPEN_ORDERS \<Longrightarrow>
      (\<lambda>x. (tro_account_token x, tro_order_no x)) ` set (list_broker_reconcile_open_orders (tpr_run_id res) db) =
      (\<lambda>x. (tro_account_token x, tro_order_no x)) ` set (tpr_open_orders res)"
    and "tpr_logical_source res = ACCOUNT_POSITIONS \<Longrightarrow>
      (\<lambda>x. (trp_account_token x, trp_code x)) ` set (list_broker_reconcile_positions (tpr_run_id res) db) =
      (\<lambda>x. (trp_account_token x, code_column (trp_code x))) ` set (tpr_positions res)"
proof -
  show "(\<lambda>x. (tro_account_token x, tro_order_no x)) ` set (list_broker_reconcile_open_orders (tpr_run_id res) db) =
      (\<lambda>x. (tro_account_token x, tro_order_no x)) ` set (tpr_open_orders res)" if "tpr_logical_source res = OPEN_ORDERS"
  proof -
    let ?t = "delete_rows (\<lambda>r. oor_run_id r = tpr_run_id res) (bd_open_orders (save_broker_reconcile_source_result (source_result_of env res c) (rs_db s)))"
    have "set (list_broker_reconcile_open_orders (tpr_run_id res) db) =
        {r\<in>set (t_rows (fold (put_open_order (re_now env) (tpr_run_id res)) (tpr_open_orders res) ?t)). oor_run_id r = tpr_run_id res}"
      using that assms(1) by (auto simp: db_def list_broker_reconcile_open_orders_def store_snapshots_def replace_broker_reconcile_snapshots_def)
    moreover have "{r\<in>set (t_rows ?t). oor_run_id r = tpr_run_id res} = {}" by (auto simp: delete_rows_def)
    ultimately show ?thesis by (simp only: put_keys image_empty Un_empty_right)
  qed
  show "(\<lambda>x. (trp_account_token x, trp_code x)) ` set (list_broker_reconcile_positions (tpr_run_id res) db) =
      (\<lambda>x. (trp_account_token x, code_column (trp_code x))) ` set (tpr_positions res)" if "tpr_logical_source res = ACCOUNT_POSITIONS"
  proof -
    let ?t = "delete_rows (\<lambda>r. psr_run_id r = tpr_run_id res) (bd_tr_positions (save_broker_reconcile_source_result (source_result_of env res c) (rs_db s)))"
    have "set (list_broker_reconcile_positions (tpr_run_id res) db) =
        {r\<in>set (t_rows (fold (put_tr_position (re_now env) (tpr_run_id res)) (tpr_positions res) ?t)). psr_run_id r = tpr_run_id res}"
      using that assms(1) by (auto simp: db_def list_broker_reconcile_positions_def store_snapshots_def replace_broker_reconcile_snapshots_def)
    moreover have "{r\<in>set (t_rows ?t). psr_run_id r = tpr_run_id res} = {}" by (auto simp: delete_rows_def)
    ultimately show ?thesis by (simp only: put_position_keys image_empty Un_empty_right)
  qed
qed

text \<open>C35: An answer that is incomplete or has errors still replaces the rows of a run whose sources were all completed before: if it is
  an answer about the open orders (the positions), the run lists exactly the orders (stocks) of the answer, none if it has none. No source
  becomes incomplete by it, and the run is finished again over the replaced rows: it is CLEAN and its truth ready exactly if the
  comparison of the tables that it leaves finds nothing.\<close>
theorem late_incomplete_answer_empties_books:
  assumes "get_broker_reconcile_run (tpr_run_id res) (rs_db s) = Some r" "tpr_run_id res \<noteq> []" "has_all r" "\<not> good_answer res"
    and db': "db' = rs_db (apply_source_result env res c s)"
  shows "(\<exists>r'. get_broker_reconcile_run (tpr_run_id res) db' = Some r' \<and> rr_completed_sources r' = rr_completed_sources r \<and>
      rr_snapshot_complete r' \<and>
      rr_broker_truth_ready r' = (compare_snapshots (re_now env) (tpr_run_id res) (rr_account_token r) db' = []) \<and>
      rr_status r' = Some (if compare_snapshots (re_now env) (tpr_run_id res) (rr_account_token r) db' = [] then RUN_CLEAN
                           else RUN_RECONCILE_REQUIRED)) \<and>
    (tpr_logical_source res = OPEN_ORDERS \<longrightarrow>
      (\<lambda>x. (tro_account_token x, tro_order_no x)) ` set (list_broker_reconcile_open_orders (tpr_run_id res) db') =
      (\<lambda>x. (tro_account_token x, tro_order_no x)) ` set (tpr_open_orders res)) \<and>
    (tpr_logical_source res = ACCOUNT_POSITIONS \<longrightarrow>
      (\<lambda>x. (trp_account_token x, trp_code x)) ` set (list_broker_reconcile_positions (tpr_run_id res) db') =
      (\<lambda>x. (trp_account_token x, code_column (trp_code x))) ` set (tpr_positions res))"
proof -
  let ?k = "tpr_run_id res" let ?run = "run_with_result res r"
  let ?s = "s\<lparr>rs_db := store_snapshots env res (save_broker_reconcile_source_result (source_result_of env res c) (rs_db s))\<rparr>"
  let ?s1 = "fst (save_run env ?run ?s)"
  have all: "has_all ?run" using assms(3) by (rule has_all_kept)
  have id: "rr_run_id r = ?k" using assms(1) by (rule get_run_id)
  have same: "rr_completed_sources ?run = rr_completed_sources r"
    using assms(4) by (auto simp: run_with_result_def good_answer_def Let_def)
  have app: "apply_source_result env res c s = fst (finalize_run env ?k ?s1)"
    using assms(1) all by (simp add: apply_source_result_def update_run_after_source_result_def Let_def status_after_answer)
  have s1: "get_broker_reconcile_run ?k (rs_db ?s1) = Some (run_after (re_now env) ?run (Some r))"
    using assms(1,2) id by (simp add: get_save_run)
  obtain r' where r': "get_broker_reconcile_run ?k db' = Some r'" "rr_completed_sources r' = rr_completed_sources ?run" "rr_snapshot_complete r'"
    "rr_broker_truth_ready r' = (rr_status r' = Some RUN_CLEAN)" "rr_status r' \<in> {Some RUN_CLEAN, Some RUN_RECONCILE_REQUIRED}"
    "rr_broker_truth_ready r' = (compare_snapshots (re_now env) ?k (rr_account_token r) (rs_db ?s1) = [])"
    by (rule finalize_stored [OF s1 assms(2), of env]) (auto simp: db' app)
  have tables: "bd_orders db' = bd_orders (rs_db ?s1)" "bd_positions db' = bd_positions (rs_db ?s1)"
    "bd_open_orders db' = bd_open_orders (rs_db ?s)" "bd_tr_positions db' = bd_tr_positions (rs_db ?s)"
    by (simp_all add: db' app finalize_tables)
  have "compare_snapshots (re_now env) ?k (rr_account_token r) (rs_db ?s1) = compare_snapshots (re_now env) ?k (rr_account_token r) db'"
    by (rule compare_tables [symmetric]) (simp_all add: tables)
  then have "rr_broker_truth_ready r' = (compare_snapshots (re_now env) ?k (rr_account_token r) db' = [])" using r'(6) by simp
  moreover have "list_broker_reconcile_open_orders ?k db' = list_broker_reconcile_open_orders ?k (rs_db ?s)"
    "list_broker_reconcile_positions ?k db' = list_broker_reconcile_positions ?k (rs_db ?s)"
    by (simp_all only: list_broker_reconcile_open_orders_def list_broker_reconcile_positions_def tables)
  ultimately show ?thesis using r' same replaced_rows [OF assms(2), of env c s] by auto
qed

theorem late_incomplete_answer_empties_books_witness:
  "\<exists>r'. get_broker_reconcile_run ''r1'' (rs_db (apply_source_result sample_env (sample_answer OPEN_ORDERS False) ''c2''
       (sample_recon [OPEN_ORDERS, ACCOUNT_POSITIONS]))) = Some r' \<and> rr_snapshot_complete r'"
proof -
  have "get_broker_reconcile_run (tpr_run_id (sample_answer OPEN_ORDERS False)) (rs_db (sample_recon [OPEN_ORDERS, ACCOUNT_POSITIONS]))
      = Some (sample_run [OPEN_ORDERS, ACCOUNT_POSITIONS])"
    using sample_recon_get by (simp add: sample_answer_def)
  from late_incomplete_answer_empties_books [OF this _ _ _ refl, of sample_env "''c2''"] show ?thesis
    by (auto simp: sample_answer_def has_all_def sample_run_def good_answer_def)
qed

text \<open>
  A run that is read and saved again keeps the instant of its last update, so the newest complete run
  by that instant is the one that was started last.
\<close>

lemma update_instant_frozen:
  assumes "get_broker_reconcile_run k db = Some r" "k \<noteq> []" "rr_updated_at r \<noteq> Blank" "rr_run_id r' = k" "rr_updated_at r' = rr_updated_at r"
  shows "map_option rr_updated_at (get_broker_reconcile_run k (fst (save_broker_reconcile_run now r' db))) = Some (rr_updated_at r)"
  using assms by (simp add: get_save_run run_after_def run_params_def stamp_or_def Let_def)

end
