(* ===== verification/Event_Log.thy ===== *)
theory Event_Log
  imports Broker_Models Order_Store
begin

text \<open>
  The log of gateway events (\<open>storage/event_log.py\<close>): every event that matters to the core is appended
  once per duplicate key and then claimed, processed, put off or given up. A row holds the dictionary that
  the code stores as text; which events cannot be written as text is a parameter, and the stored result texts are left out. Settings hold a positive
  lease, limit and number of attempts, as reading them from the environment makes sure.
\<close>

section \<open>Rows\<close>

datatype event_status = EV_PENDING | EV_PROCESSING | EV_PROCESSED | EV_FAILED | EV_RETRY_WAIT | EV_DEAD_LETTER | EV_IGNORED

record event_log_config =
  elc_enabled :: bool
  elc_price_tick_enabled :: bool
  elc_heartbeat_enabled :: bool
  elc_max_pending_replay :: int
  elc_processing_lease_sec :: int
  elc_max_attempts :: int

definition default_event_log_config :: event_log_config where
  "default_event_log_config = \<lparr>elc_enabled = True, elc_price_tick_enabled = False, elc_heartbeat_enabled = False,
     elc_max_pending_replay = 500, elc_processing_lease_sec = 30, elc_max_attempts = 5\<rparr>"

record log_row =
  lr_id :: int
  lr_event_id :: string
  lr_event_type :: string
  lr_dedupe_key :: string
  lr_source :: string
  lr_command_id :: string
  lr_code :: string
  lr_trade_date :: string
  lr_payload :: pydict
  lr_received_at :: stamp
  lr_processed_at :: stamp
  lr_status :: event_status
  lr_error :: string
  lr_created_at :: stamp
  lr_attempts :: int
  lr_claimed_at :: stamp
  lr_claimed_by :: string
  lr_next_retry_at :: stamp
  lr_handler_name :: string
  lr_handler_version :: string
  lr_last_attempt_at :: stamp
  lr_dead_lettered_at :: stamp

type_synonym event_log = "log_row table"

section \<open>Keys\<close>

text \<open>\<open>_event_code\<close>, \<open>_timestamp_bucket\<close> of a stamp and of a payload value, and \<open>_trade_date\<close> in Korean time.\<close>

definition log_event_code :: "gateway_event \<Rightarrow> string" where
  "log_event_code e =
     (let d = ge_payload e;
          txt = upper (strip (py_str (py_or (py_or (py_or (dget d ''code'') (dget d ''stock_code'')) (dget d ''symbol'')) (PStr []))));
          txt' = (if txt \<noteq> [] \<and> hd txt = CHR ''A'' \<and> length txt = 7 then tl txt else txt);
          digits = filter is_digit txt'
      in if digits \<noteq> [] then zfill 6 digits else txt')"

definition time_bucket :: "stamp \<Rightarrow> string" where
  "time_bucket s = (case s of Blank \<Rightarrow> [] | At t \<Rightarrow> show_int (t div 1000000))"

definition value_bucket :: "pyval \<Rightarrow> string" where
  "value_bucket v = (case v of PTime t \<Rightarrow> show_int (t div 1000000) | _ \<Rightarrow> take 19 (py_str v))"

definition log_trade_date :: "stamp \<Rightarrow> string" where
  "log_trade_date s = (case s of Blank \<Rightarrow> [] | At t \<Rightarrow> date_text (t + 9 * 3600 * 1000000))"

definition first_text :: "pydict \<Rightarrow> string list \<Rightarrow> string" where
  "first_text d ks = py_str (py_or (foldl (\<lambda>v k. py_or v (dget d k)) PNone ks) (PStr []))"

definition dedupe_key_for_gateway_event :: "gateway_event \<Rightarrow> string" where
  "dedupe_key_for_gateway_event e =
     (if ge_event_id e \<noteq> [] then ''event:'' @ ge_event_id e
      else let d = ge_payload e; typ = ge_type e;
               command_id = str_or (ge_command_id e) (first_text d [''command_id''])
           in if typ = ''command_ack'' then
                ''command_ack:'' @ command_id @ '':'' @ first_text d [''status'', ''command_status'']
              else if typ \<in> {''kiwoom_order_chejan'', ''kiwoom_balance_chejan''} \<and> truthy (dget d ''broker_event_key'') then
                ''kiwoom-chejan:'' @ py_str (dget d ''broker_event_key'')
              else if typ \<in> {''order_ack'', ''order_fill'', ''execution'', ''execution_event'', ''fill''} then
                ''order:'' @ first_text d [''account''] @ '':'' @ first_text d [''order_no'', ''original_order_no''] @ '':'' @
                first_text d [''execution_id'', ''fill_id'', ''chejan_id'']
              else if typ \<in> {''condition_event'', ''condition_include'', ''condition_remove''} then
                ''condition:'' @ first_text d [''condition_name''] @ '':'' @ first_text d [''condition_index''] @ '':'' @
                log_event_code e @ '':'' @
                (if ge_timestamp e \<noteq> Blank then time_bucket (ge_timestamp e)
                 else value_bucket (py_or (dget d ''timestamp'') (PStr [])))
              else if typ = ''tr_response'' then
                ''tr:'' @ str_or command_id (str_or (ge_request_id e) (first_text d [''request_id'']))
              else typ @ '':'' @ str_or command_id (str_or (log_event_code e) (time_bucket (ge_timestamp e))))"

definition REPLAYABLE_GATEWAY_EVENT_TYPES :: "string list" where
  "REPLAYABLE_GATEWAY_EVENT_TYPES =
     [''command_ack'', ''command_failed'', ''command_timeout'', ''command_expired'', ''order_ack'', ''order_reject'',
      ''order_fill'', ''execution'', ''execution_event'', ''fill'', ''cancel_ack'', ''order_cancel'', ''order_cancelled'',
      ''order_status_snapshot'', ''balance_snapshot'', ''position_snapshot'', ''kiwoom_order_chejan'',
      ''kiwoom_balance_chejan'', ''kiwoom_special_chejan'']"

section \<open>Appending\<close>

datatype append_result = AppendIgnored string | AppendDuplicate log_row | Appended log_row

definition find_by_dedupe_key :: "event_log \<Rightarrow> string \<Rightarrow> log_row option" where
  "find_by_dedupe_key l key = find (\<lambda>r. lr_dedupe_key r = key) (t_rows l)"

definition get_by_event_id :: "event_log \<Rightarrow> string \<Rightarrow> log_row option" where
  "get_by_event_id l event_id = newest (\<lambda>r. lr_event_id r = event_id) l"

definition get_log_row :: "event_log \<Rightarrow> int \<Rightarrow> log_row option" where
  "get_log_row l k = row_by_id lr_id k l"

definition append_key :: "gateway_event \<Rightarrow> string \<Rightarrow> string" where
  "append_key e dedupe_key =
     (let key = strip (str_or dedupe_key (dedupe_key_for_gateway_event e)) in if key = [] then ge_event_id e else key)"

text \<open>\<open>_event_payload_json\<close>: the dictionary and no error, or, with the text of the exception that writing it raised, a
  short one and the error.\<close>

definition event_payload_json :: "(gateway_event \<Rightarrow> string option) \<Rightarrow> gateway_event \<Rightarrow> pydict \<times> string" where
  "event_payload_json unserializable e =
     (case unserializable e of
        None \<Rightarrow> (gateway_event_to_dict e, [])
      | Some txt \<Rightarrow>
          ([(''event_id'', PStr (ge_event_id e)), (''type'', PStr (ge_type e)), (''source'', PStr (ge_source e)),
            (''command_id'', PStr (ge_command_id e)), (''serialization_error'', PStr txt)],
           ''PAYLOAD_SERIALIZATION_FAILED:'' @ txt))"

definition new_log_row :: "gateway_event \<Rightarrow> pydict \<Rightarrow> string \<Rightarrow> string \<Rightarrow> time \<Rightarrow> int \<Rightarrow> log_row" where
  "new_log_row e payload err key now k =
     (let received = stamp_or (ge_timestamp e) (At (whole_second now)) in
      \<lparr>lr_id = k, lr_event_id = ge_event_id e, lr_event_type = ge_type e, lr_dedupe_key = key, lr_source = ge_source e,
       lr_command_id = ge_command_id e, lr_code = log_event_code e, lr_trade_date = log_trade_date received,
       lr_payload = payload, lr_received_at = received, lr_processed_at = Blank,
       lr_status = (if err = [] then EV_PENDING else EV_FAILED), lr_error = err,
       lr_created_at = At (whole_second now), lr_attempts = 0, lr_claimed_at = Blank, lr_claimed_by = [],
       lr_next_retry_at = Blank, lr_handler_name = [], lr_handler_version = [], lr_last_attempt_at = Blank,
       lr_dead_lettered_at = Blank\<rparr>)"

definition append_gateway_event ::
  "(gateway_event \<Rightarrow> string option) \<Rightarrow> event_log_config \<Rightarrow> gateway_event \<Rightarrow> string \<Rightarrow> time \<Rightarrow> event_log \<Rightarrow>
   event_log \<times> append_result" where
  "append_gateway_event unserializable cfg e dedupe_key now l =
     (if \<not> elc_enabled cfg then (l, AppendIgnored ''EVENT_LOG_DISABLED'')
      else if ge_type e = ''price_tick'' \<and> \<not> elc_price_tick_enabled cfg then (l, AppendIgnored ''PRICE_TICK_LOGGING_DISABLED'')
      else if ge_type e = ''heartbeat'' \<and> \<not> elc_heartbeat_enabled cfg then (l, AppendIgnored ''HEARTBEAT_LOGGING_DISABLED'')
      else let key = append_key e dedupe_key; (payload, err) = event_payload_json unserializable e;
               row = new_log_row e payload err key now in
      case find_by_dedupe_key l key of
        Some r \<Rightarrow> (l, AppendDuplicate r)
      | None \<Rightarrow> (insert_row row l, Appended (row (t_next l))))"

section \<open>Claiming\<close>

definition terminal_event :: "event_status \<Rightarrow> bool" where
  "terminal_event st \<longleftrightarrow> st \<in> {EV_PROCESSED, EV_IGNORED, EV_DEAD_LETTER}"

definition pending_gateway_events :: "event_log_config \<Rightarrow> int \<Rightarrow> string \<Rightarrow> event_log \<Rightarrow> log_row list" where
  "pending_gateway_events cfg limit event_type l =
     take (nat (min (max 0 limit) (elc_max_pending_replay cfg)))
       (sort_key lr_received_at (filter (\<lambda>r. lr_status r = EV_PENDING \<and> (event_type = [] \<or> lr_event_type r = event_type)) (t_rows l)))"

text \<open>A row that may be claimed now: pending, or waiting for a retry that is due.\<close>

definition claimable :: "time \<Rightarrow> log_row \<Rightarrow> bool" where
  "claimable current r \<longleftrightarrow>
     lr_status r = EV_PENDING \<or>
     (lr_status r = EV_RETRY_WAIT \<and> (lr_next_retry_at r = Blank \<or> lr_next_retry_at r \<le> At current))"

definition claim_row :: "time \<Rightarrow> string \<Rightarrow> int \<Rightarrow> log_row \<Rightarrow> log_row" where
  "claim_row current worker_id lease_sec r =
     r\<lparr>lr_status := EV_PROCESSING, lr_attempts := lr_attempts r + 1, lr_claimed_at := At current,
       lr_claimed_by := worker_id, lr_next_retry_at := At (current + max 1 lease_sec * 1000000),
       lr_last_attempt_at := At current\<rparr>"

definition claim_one :: "time \<Rightarrow> string \<Rightarrow> int \<Rightarrow> int \<Rightarrow> event_log \<times> log_row list \<Rightarrow> event_log \<times> log_row list" where
  "claim_one current worker_id lease_sec k s =
     (let (l, claimed) = s in
      case get_log_row l k of
        None \<Rightarrow> (l, claimed)
      | Some r \<Rightarrow>
          if claimable current r
          then (update_rows (\<lambda>r. lr_id r = k) (claim_row current worker_id lease_sec) l,
                claimed @ [claim_row current worker_id lease_sec r])
          else (l, claimed))"

definition claim_pending_events ::
  "event_log_config \<Rightarrow> int \<Rightarrow> string list \<Rightarrow> string \<Rightarrow> int option \<Rightarrow> time \<Rightarrow> event_log \<Rightarrow> event_log \<times> log_row list" where
  "claim_pending_events cfg limit event_types worker_id lease_sec now l =
     (let n = min (max 0 limit) (elc_max_pending_replay cfg);
          current = whole_second now;
          lease = (case lease_sec of Some s \<Rightarrow> if s = 0 then elc_processing_lease_sec cfg else s
                   | None \<Rightarrow> elc_processing_lease_sec cfg);
          rows = filter (\<lambda>r. claimable current r \<and> (event_types = [] \<or> lr_event_type r \<in> set event_types)) (t_rows l)
      in if n \<le> 0 then (l, [])
         else fold (claim_one current worker_id lease) (map lr_id (take (nat n) (sort_key lr_received_at rows))) (l, []))"

text \<open>\<open>claim_event\<close>: a finished row comes back as it is; any other is claimed, whoever holds it.\<close>

definition claim_event ::
  "event_log_config \<Rightarrow> int \<Rightarrow> string \<Rightarrow> int option \<Rightarrow> time \<Rightarrow> event_log \<Rightarrow> event_log \<times> log_row option" where
  "claim_event cfg k worker_id lease_sec now l =
     (case get_log_row l k of
        None \<Rightarrow> (l, None)
      | Some r \<Rightarrow>
          if terminal_event (lr_status r) then (l, Some r)
          else let lease = (case lease_sec of Some s \<Rightarrow> if s = 0 then elc_processing_lease_sec cfg else s
                            | None \<Rightarrow> elc_processing_lease_sec cfg);
                   f = claim_row (whole_second now) worker_id lease
               in (update_rows (\<lambda>r. lr_id r = k) f l, Some (f r)))"

section \<open>Finishing\<close>

definition finish_row :: "event_status \<Rightarrow> stamp \<Rightarrow> string \<Rightarrow> log_row \<Rightarrow> log_row" where
  "finish_row st processed_at err r =
     r\<lparr>lr_status := st, lr_processed_at := processed_at, lr_error := err, lr_claimed_at := Blank, lr_claimed_by := [],
       lr_next_retry_at := (if st \<in> {EV_PROCESSING, EV_RETRY_WAIT} then lr_next_retry_at r else Blank)\<rparr>"

definition mark_processed :: "int \<Rightarrow> time \<Rightarrow> event_log \<Rightarrow> event_log" where
  "mark_processed k now = update_rows (\<lambda>r. lr_id r = k) (finish_row EV_PROCESSED (At (whole_second now)) [])"

definition mark_failed :: "int \<Rightarrow> string \<Rightarrow> event_log \<Rightarrow> event_log" where
  "mark_failed k err = update_rows (\<lambda>r. lr_id r = k) (finish_row EV_FAILED Blank err)"

definition mark_processing_result ::
  "int \<Rightarrow> event_status \<Rightarrow> string \<Rightarrow> string \<Rightarrow> string \<Rightarrow> time \<Rightarrow> event_log \<Rightarrow> event_log" where
  "mark_processing_result k st err handler_name handler_version now =
     update_rows (\<lambda>r. lr_id r = k)
       (\<lambda>r. (finish_row st (if st \<in> {EV_PROCESSED, EV_IGNORED} then At (whole_second now) else Blank)
               (if st \<in> {EV_PROCESSED, EV_IGNORED} then [] else err) r)
             \<lparr>lr_handler_name := handler_name, lr_handler_version := handler_version\<rparr>)"

definition mark_retry_wait :: "int \<Rightarrow> string \<Rightarrow> stamp \<Rightarrow> event_log \<Rightarrow> event_log" where
  "mark_retry_wait k err next_retry_at =
     update_rows (\<lambda>r. lr_id r = k) (\<lambda>r. (finish_row EV_RETRY_WAIT Blank err r)\<lparr>lr_next_retry_at := next_retry_at\<rparr>)"

definition mark_dead_letter :: "int \<Rightarrow> string \<Rightarrow> time \<Rightarrow> event_log \<Rightarrow> event_log" where
  "mark_dead_letter k err now =
     update_rows (\<lambda>r. lr_id r = k)
       (\<lambda>r. (finish_row EV_DEAD_LETTER Blank err r)\<lparr>lr_dead_lettered_at := At (whole_second now)\<rparr>)"

definition mark_ignored :: "int \<Rightarrow> time \<Rightarrow> event_log \<Rightarrow> event_log" where
  "mark_ignored k now = update_rows (\<lambda>r. lr_id r = k) (finish_row EV_IGNORED (At (whole_second now)) [])"

text \<open>\<open>recover_stale_claims\<close>: claims whose lease ran out become pending again.\<close>

definition stale_claim :: "time \<Rightarrow> log_row \<Rightarrow> bool" where
  "stale_claim current r \<longleftrightarrow>
     lr_status r = EV_PROCESSING \<and> lr_next_retry_at r \<noteq> Blank \<and> lr_next_retry_at r \<le> At current"

definition recover_stale_claims :: "time \<Rightarrow> event_log \<Rightarrow> event_log \<times> nat" where
  "recover_stale_claims now l =
     (update_rows (stale_claim (whole_second now))
        (\<lambda>r. r\<lparr>lr_status := EV_PENDING, lr_claimed_at := Blank, lr_claimed_by := [], lr_next_retry_at := Blank\<rparr>) l,
      length (filter (stale_claim (whole_second now)) (t_rows l)))"

section \<open>Reports\<close>

record event_backlog =
  bl_pending :: nat
  bl_processing :: nat
  bl_retry_wait :: nat
  bl_failed :: nat
  bl_dead_letter :: nat
  bl_ignored :: nat
  bl_processed :: nat
  bl_oldest_pending_at :: stamp
  bl_order_lifecycle_ready :: bool

definition count_status :: "event_status \<Rightarrow> log_row list \<Rightarrow> nat" where
  "count_status st rows = length (filter (\<lambda>r. lr_status r = st) rows)"

definition critical_rows :: "event_log \<Rightarrow> log_row list" where
  "critical_rows l = filter (\<lambda>r. lr_event_type r \<in> set REPLAYABLE_GATEWAY_EVENT_TYPES) (t_rows l)"

definition critical_backlog_snapshot :: "event_log \<Rightarrow> event_backlog" where
  "critical_backlog_snapshot l =
     (let rows = critical_rows l;
          waiting = sort_key lr_received_at (filter (\<lambda>r. lr_status r \<in> {EV_PENDING, EV_PROCESSING, EV_RETRY_WAIT}) rows)
      in \<lparr>bl_pending = count_status EV_PENDING rows, bl_processing = count_status EV_PROCESSING rows,
          bl_retry_wait = count_status EV_RETRY_WAIT rows, bl_failed = count_status EV_FAILED rows,
          bl_dead_letter = count_status EV_DEAD_LETTER rows, bl_ignored = count_status EV_IGNORED rows,
          bl_processed = count_status EV_PROCESSED rows,
          bl_oldest_pending_at = (case waiting of [] \<Rightarrow> Blank | r # _ \<Rightarrow> lr_received_at r),
          bl_order_lifecycle_ready = (count_status EV_PENDING rows = 0 \<and> count_status EV_PROCESSING rows = 0 \<and>
            count_status EV_RETRY_WAIT rows = 0 \<and> count_status EV_DEAD_LETTER rows = 0)\<rparr>)"

record event_log_counts =
  ec_pending :: nat
  ec_processed :: nat
  ec_failed :: nat
  ec_processing :: nat
  ec_retry_wait :: nat
  ec_dead_letter :: nat
  ec_ignored :: nat
  ec_total :: nat
  ec_last_received_at :: stamp
  ec_critical_backlog :: event_backlog

definition event_log_snapshot :: "event_log \<Rightarrow> event_log_counts" where
  "event_log_snapshot l =
     (let rows = t_rows l in
      \<lparr>ec_pending = count_status EV_PENDING rows, ec_processed = count_status EV_PROCESSED rows,
       ec_failed = count_status EV_FAILED rows, ec_processing = count_status EV_PROCESSING rows,
       ec_retry_wait = count_status EV_RETRY_WAIT rows, ec_dead_letter = count_status EV_DEAD_LETTER rows,
       ec_ignored = count_status EV_IGNORED rows, ec_total = length rows,
       ec_last_received_at = (case descending lr_received_at rows of [] \<Rightarrow> Blank | r # _ \<Rightarrow> lr_received_at r),
       ec_critical_backlog = critical_backlog_snapshot l\<rparr>)"

end
