(* ===== verification/Event_Consumer.thy ===== *)
theory Event_Consumer
  imports Order_Manager Broker_Reconcile Event_Log Exact_Float
begin

text \<open>
  The consumer of gateway events (\<open>trading_app/gateway_event_consumer.py\<close>): the codec that turns a raw event
  into a canonical order event, the consumer that applies it to the order manager once and keeps a receipt,
  and the dispatcher that takes events from the log, retries them and gives up on them. The checksum
  of a payload and the texts of exceptions are parameters; times of processing are not measured.
\<close>

section \<open>Numbers in payloads\<close>

text \<open>\<open>float(s)\<close> of a text: a decimal literal, or one of the words for infinity and not-a-number.\<close>

datatype read_float = Finite rat | Infinite | NotANumber

definition read_digit_part :: "string \<Rightarrow> nat option" where
  "read_digit_part s = (if s = [] then Some 0 else read_digits False 0 s)"

definition read_exponent :: "string \<Rightarrow> int option" where
  "read_exponent s =
     (case s of [] \<Rightarrow> Some 0
      | _ # [] \<Rightarrow> None
      | _ # c # cs \<Rightarrow>
          if c = CHR ''-'' then map_option (\<lambda>n. - int n) (read_digits False 0 cs)
          else if c = CHR ''+'' then map_option int (read_digits False 0 cs)
          else map_option int (read_digits False 0 (c # cs)))"

definition power_of_ten :: "int \<Rightarrow> rat" where
  "power_of_ten e = (if 0 \<le> e then 10 ^ nat e else 1 / 10 ^ nat (- e))"

definition read_unsigned :: "string \<Rightarrow> rat option" where
  "read_unsigned s =
     (let mantissa = takeWhile (\<lambda>c. c \<noteq> CHR ''e'') s; whole = takeWhile (\<lambda>c. c \<noteq> CHR ''.'') mantissa;
          frac = drop (length whole + 1) mantissa
      in if whole = [] \<and> frac = [] then None
         else case (read_digit_part whole, read_digit_part frac, read_exponent (drop (length mantissa) s)) of
           (Some a, Some b, Some e) \<Rightarrow>
             Some ((of_nat a + of_nat b / 10 ^ length (filter is_digit frac)) * power_of_ten e)
         | _ \<Rightarrow> None)"

definition read_float_text :: "string \<Rightarrow> read_float option" where
  "read_float_text s =
     (let t = lower (strip s);
          neg = (t \<noteq> [] \<and> hd t = CHR ''-'');
          u = (if t \<noteq> [] \<and> hd t \<in> {CHR ''-'', CHR ''+''} then tl t else t)
      in if u \<in> {''inf'', ''infinity''} then Some Infinite
         else if u = ''nan'' then Some NotANumber
         else map_option (\<lambda>q. Finite (if neg then - q else q)) (read_unsigned u))"

text \<open>\<open>int(float(...))\<close> truncates towards zero, refuses not-a-number, and overflows on infinity.\<close>

definition truncate :: "rat \<Rightarrow> int" where
  "truncate q = (if 0 \<le> q then \<lfloor>q\<rfloor> else - \<lfloor>- q\<rfloor>)"

definition int_of_float_text :: "string \<Rightarrow> int \<Rightarrow> py_error + int" where
  "int_of_float_text s dflt =
     (case read_float_text s of Some (Finite q) \<Rightarrow> Inr (truncate q) | Some Infinite \<Rightarrow> Inl OverflowError | _ \<Rightarrow> Inr dflt)"

text \<open>\<open>_safe_int\<close> of the consumer, and of the database, which reads the text of the value without commas.\<close>

definition safe_int :: "pyval \<Rightarrow> py_error + int" where
  "safe_int v =
     (case v of PInt i \<Rightarrow> Inr i | PBool b \<Rightarrow> Inr (if b then 1 else 0) | PStr s \<Rightarrow> int_of_float_text s 0 | _ \<Rightarrow> Inr 0)"

definition db_safe_int :: "pyval \<Rightarrow> py_error + int" where
  "db_safe_int v =
     (case v of PInt i \<Rightarrow> Inr i | PStr s \<Rightarrow> int_of_float_text (filter (\<lambda>c. c \<noteq> CHR '','') (strip s)) 0 | _ \<Rightarrow> Inr 0)"

text \<open>\<open>_float_value\<close>; a price that is infinite or not a number is outside the rationals and read as 0.\<close>

definition db_float_value :: "pyval \<Rightarrow> rat" where
  "db_float_value v =
     (case v of PInt i \<Rightarrow> of_int i
      | PStr s \<Rightarrow> (case read_float_text (filter (\<lambda>c. c \<noteq> CHR '','') (strip s)) of Some (Finite q) \<Rightarrow> q | _ \<Rightarrow> 0)
      | _ \<Rightarrow> 0)"

section \<open>Canonical events\<close>

record consumer_config =
  ecf_core_enabled :: bool
  ecf_order_enabled :: bool
  ecf_replay_enabled :: bool
  ecf_replay_on_startup :: bool
  ecf_replay_interval_sec :: rat
  ecf_replay_batch_size :: int
  ecf_processing_lease_sec :: int
  ecf_max_attempts :: int
  ecf_retry_base_sec :: rat
  ecf_retry_max_sec :: rat
  ecf_fail_closed :: bool
  ecf_dead_letter_blocks_buy :: bool
  ecf_pending_max_age_sec :: int
  ecf_live_queue_max :: int
  ecf_replay_price_tick_enabled :: bool
  ecf_replay_heartbeat_enabled :: bool
  ecf_receipt_enabled :: bool
  ecf_handler_version :: string

definition default_consumer_config :: consumer_config where
  "default_consumer_config = \<lparr>ecf_core_enabled = True, ecf_order_enabled = True, ecf_replay_enabled = True,
     ecf_replay_on_startup = True, ecf_replay_interval_sec = 1, ecf_replay_batch_size = 100,
     ecf_processing_lease_sec = 30, ecf_max_attempts = 5, ecf_retry_base_sec = 1, ecf_retry_max_sec = 30,
     ecf_fail_closed = True, ecf_dead_letter_blocks_buy = True, ecf_pending_max_age_sec = 10,
     ecf_live_queue_max = 1000, ecf_replay_price_tick_enabled = False, ecf_replay_heartbeat_enabled = False,
     ecf_receipt_enabled = True, ecf_handler_version = ''order_lifecycle_v1''\<rparr>"

record canonical_event =
  cv_type :: string
  cv_payload :: pydict
  cv_raw_event_type :: string
  cv_source_event_id :: string
  cv_dedupe_key :: string
  cv_critical :: bool
  cv_ignored :: bool
  cv_ignore_reason :: string

definition FILL_EVENT_TYPES :: "string list" where
  "FILL_EVENT_TYPES = [''order_fill'', ''execution'', ''execution_event'', ''fill'']"

definition ORDER_COMMANDS :: "string list" where
  "ORDER_COMMANDS = [''send_order'', ''cancel_order'', ''modify_order'']"

text \<open>The Korean key that also names an execution has characters beyond those of the model's texts.\<close>

definition payload_execution_id :: "pydict \<Rightarrow> string" where
  "payload_execution_id d = first_text d [''execution_id'', ''fill_id'', ''chejan_id'', ''execution_no'']"

definition payload_remaining :: "pydict \<Rightarrow> py_error + int" where
  "payload_remaining d =
     (if map_of d ''remaining_quantity'' \<noteq> None then map_sum id (max 0) (safe_int (dget d ''remaining_quantity''))
      else if map_of d ''remaining_qty'' \<noteq> None then map_sum id (max 0) (safe_int (dget d ''remaining_qty''))
      else bindE (safe_int (py_or (dget d ''quantity'') (dget d ''order_qty''))) (\<lambda>quantity.
           bindE (safe_int (py_or (dget d ''filled_quantity'') (dget d ''filled_qty''))) (\<lambda>filled.
           Inr (if 0 < quantity then max 0 (quantity - filled) else 0))))"

text \<open>
  \<open>_normalized_payload\<close>: missing fields come from the request inside the result of the order. A list or
  dictionary in one of these fields cannot be looked up in a set, which raises.
\<close>

definition fill_from_request :: "pydict \<Rightarrow> string \<Rightarrow> pydict \<Rightarrow> py_error + pydict" where
  "fill_from_request request k d =
     (case map_of d k of
        None \<Rightarrow> Inr (dset k (dget_default request k (PStr [])) d)
      | Some (PList v) \<Rightarrow> Inl TypeError
      | Some (PDict v) \<Rightarrow> Inl TypeError
      | Some v \<Rightarrow> Inr (if v = PNone \<or> v = PStr [] then dset k (dget_default request k v) d else d))"

fun fill_all :: "pydict \<Rightarrow> string list \<Rightarrow> pydict \<Rightarrow> py_error + pydict" where
  "fill_all request [] d = Inr d"
| "fill_all request (k # ks) d = bindE (fill_from_request request k d) (fill_all request ks)"

definition with_order_fields :: "pydict \<Rightarrow> pydict" where
  "with_order_fields d =
     (let d1 = dset ''order_no'' (PStr (payload_order_no d)) d;
          d2 = dset ''original_order_no'' (PStr (first_text d1 [''original_order_no'', ''orig_order_no''])) d1;
          d3 = dset ''execution_id'' (PStr (payload_execution_id d2)) d2
      in if truthy (dget d3 ''side'') then dset ''side'' (PStr (upper (py_str (dget d3 ''side'')))) d3 else d3)"

definition normalized_payload :: "pydict \<Rightarrow> py_error + pydict" where
  "normalized_payload payload =
     map_sum id with_order_fields (fill_all (dict_or (dict_or payload ''order_result'') ''request'')
       [''account'', ''code'', ''side'', ''quantity'', ''price'', ''idempotency_key''] payload)"

definition canonical_dedupe_key :: "string \<Rightarrow> pydict \<Rightarrow> string \<Rightarrow> gateway_event \<Rightarrow> string" where
  "canonical_dedupe_key typ d source_event_id e =
     (let fill = typ \<in> {''ORDER_PARTIALLY_FILLED'', ''ORDER_FILLED''};
          answer = typ \<in> {''ORDER_ACCEPTED'', ''ORDER_REJECTED'', ''ORDER_CANCEL_ACCEPTED'', ''ORDER_CANCELLED'',
                          ''COMMAND_ACK'', ''COMMAND_FAILED''};
          broker_key = dget d ''broker_event_key'';
          execution_id = payload_execution_id d;
          command_id = str_or (first_text d [''command_id'']) (ge_command_id e)
      in if fill \<and> truthy broker_key then ''kiwoom-fill:'' @ py_str broker_key
         else if fill \<and> execution_id \<noteq> [] then
           ''fill:'' @ first_text d [''account''] @ '':'' @ first_text d [''order_no''] @ '':'' @ execution_id
         else if answer \<and> truthy broker_key then ''kiwoom-order:'' @ py_str broker_key
         else if answer \<and> command_id \<noteq> [] then
           ''order-command:'' @ command_id @ '':'' @ py_str (py_or (dget d ''status'') (PStr typ)) @ '':'' @ first_text d [''order_no'']
         else if source_event_id \<noteq> [] then ''source:'' @ source_event_id
         else dedupe_key_for_gateway_event e)"

definition canonical_of :: "gateway_event \<Rightarrow> string \<Rightarrow> string \<Rightarrow> pydict \<Rightarrow> canonical_event" where
  "canonical_of e source_event_id typ d =
     (let key = canonical_dedupe_key typ d (str_or source_event_id (ge_event_id e)) e in
      \<lparr>cv_type = typ, cv_payload = d, cv_raw_event_type = ge_type e,
       cv_source_event_id = str_or source_event_id (str_or (ge_event_id e) key), cv_dedupe_key = key,
       cv_critical = True, cv_ignored = False, cv_ignore_reason = []\<rparr>)"

definition canonical :: "gateway_event \<Rightarrow> pydict \<Rightarrow> string \<Rightarrow> string \<Rightarrow> py_error + canonical_event" where
  "canonical e payload source_event_id typ = map_sum id (canonical_of e source_event_id typ) (normalized_payload payload)"

definition ignored_event :: "gateway_event \<Rightarrow> pydict \<Rightarrow> string \<Rightarrow> string \<Rightarrow> py_error + canonical_event" where
  "ignored_event e payload source_event_id reason =
     map_sum id (\<lambda>d. \<lparr>cv_type = ''IGNORED'', cv_payload = d, cv_raw_event_type = ge_type e,
            cv_source_event_id = str_or source_event_id (ge_event_id e), cv_dedupe_key = dedupe_key_for_gateway_event e,
            cv_critical = False, cv_ignored = True, cv_ignore_reason = reason\<rparr>) (normalized_payload payload)"

text \<open>The Korean words for refused and for normal are beyond the model's texts.\<close>

definition is_reject_status :: "string \<Rightarrow> bool" where
  "is_reject_status order_status \<longleftrightarrow> contains ''REJECT'' (upper order_status)"

definition is_reject_reason :: "string \<Rightarrow> bool" where
  "is_reject_reason reason_text \<longleftrightarrow>
     (let txt = strip reason_text in
      txt \<noteq> [] \<and> filter (\<lambda>c. c \<noteq> CHR '' '' \<and> c \<noteq> char_of (9 :: nat)) txt \<notin> {''0'', ''00'', ''000'', ''0000''})"

definition fill_event_of :: "gateway_event \<Rightarrow> pydict \<Rightarrow> string \<Rightarrow> int \<Rightarrow> py_error + canonical_event" where
  "fill_event_of e d source_event_id n =
     canonical e d source_event_id (if n \<le> 0 then ''ORDER_FILLED'' else ''ORDER_PARTIALLY_FILLED'')"

definition decode_fill :: "gateway_event \<Rightarrow> pydict \<Rightarrow> string \<Rightarrow> py_error + canonical_event" where
  "decode_fill e d source_event_id = bindE (payload_remaining d) (fill_event_of e d source_event_id)"

definition chejan_event_of :: "gateway_event \<Rightarrow> pydict \<Rightarrow> string \<Rightarrow> int \<Rightarrow> py_error + canonical_event" where
  "chejan_event_of e d source_event_id n =
     (let kind = lower (first_text d [''event_kind'']) in
      if kind = ''order_fill'' \<and> (truthy (dget d ''execution_id'') \<or> 0 < n) then decode_fill e d source_event_id
      else if kind = ''order_rejected'' \<or> is_reject_reason (first_text d [''reject_reason'']) \<or>
              is_reject_status (first_text d [''order_status'']) then
        canonical e (dset ''status'' (PStr ''REJECTED'') d) source_event_id ''ORDER_REJECTED''
      else if kind = ''order_cancelled'' then canonical e d source_event_id ''ORDER_CANCELLED''
      else if kind = ''order_cancel_accepted'' then canonical e d source_event_id ''ORDER_CANCEL_ACCEPTED''
      else if kind = ''order_accepted'' \<and> truthy (dget d ''order_no'') then canonical e d source_event_id ''ORDER_ACCEPTED''
      else canonical e d source_event_id ''ORDER_STATUS_SNAPSHOT'')"

definition decode_kiwoom_order_chejan :: "gateway_event \<Rightarrow> pydict \<Rightarrow> string \<Rightarrow> py_error + canonical_event" where
  "decode_kiwoom_order_chejan e d source_event_id =
     (if upper (first_text d [''parser_status'']) = ''INVALID'' then
        canonical e (dset ''reason'' (PStr ''KIWOOM_CHEJAN_PARSER_INVALID'') (dset ''status'' (PStr ''REJECTED'') d))
          source_event_id ''ORDER_REJECTED''
      else bindE (safe_int (py_or (dget d ''incremental_execution_quantity'') (dget d ''execution_quantity'')))
             (chejan_event_of e d source_event_id))"

definition command_event_of :: "gateway_event \<Rightarrow> pydict \<Rightarrow> string \<Rightarrow> int \<Rightarrow> py_error + canonical_event" where
  "command_event_of e d source_event_id result_code =
     (let command_type = first_text d [''command_type'']; status = upper (first_text d [''status'']);
          order_no = payload_order_no d
      in if ge_type e \<noteq> ''command_ack'' then canonical e d source_event_id ''COMMAND_FAILED''
         else if status \<in> {''FAILED'', ''REJECTED''} \<or> result_code \<noteq> 0 then
           canonical e d source_event_id (if command_type \<in> set ORDER_COMMANDS then ''ORDER_REJECTED'' else ''COMMAND_FAILED'')
         else if command_type = ''cancel_order'' \<and> order_no \<noteq> [] then canonical e d source_event_id ''ORDER_CANCEL_ACCEPTED''
         else if command_type \<in> {''send_order'', ''modify_order''} \<and> order_no \<noteq> [] then
           canonical e d source_event_id ''ORDER_ACCEPTED''
         else canonical e d source_event_id ''COMMAND_ACK'')"

definition decode_command_event :: "gateway_event \<Rightarrow> pydict \<Rightarrow> string \<Rightarrow> py_error + canonical_event" where
  "decode_command_event e d source_event_id =
     bindE (safe_int (py_or (dget d ''result_code'') (dget (dict_or d ''order_result'') ''result_code'')))
       (command_event_of e d source_event_id)"

definition order_event_mapping :: "(string \<times> string) list" where
  "order_event_mapping =
     [(''order_ack'', ''ORDER_ACCEPTED''), (''order_reject'', ''ORDER_REJECTED''), (''cancel_ack'', ''ORDER_CANCEL_ACCEPTED''),
      (''order_cancel'', ''ORDER_CANCELLED''), (''order_cancelled'', ''ORDER_CANCELLED''),
      (''order_status_snapshot'', ''ORDER_STATUS_SNAPSHOT''), (''balance_snapshot'', ''BALANCE_SNAPSHOT''),
      (''position_snapshot'', ''POSITION_SNAPSHOT''), (''reconcile_snapshot'', ''RECONCILE_SNAPSHOT'')]"

definition event_payload :: "gateway_event \<Rightarrow> pydict" where
  "event_payload e =
     (let d = ge_payload e;
          d' = (if ge_command_id e \<noteq> [] \<and> \<not> truthy (dget d ''command_id'') then dset ''command_id'' (PStr (ge_command_id e)) d else d)
      in if map_of d' ''raw_event_type'' = None then dset ''raw_event_type'' (PStr (ge_type e)) d' else d')"

definition decode_event :: "consumer_config \<Rightarrow> gateway_event \<Rightarrow> string \<Rightarrow> py_error + canonical_event" where
  "decode_event cfg e source =
     (let typ = ge_type e; d = event_payload e; source_event_id = str_or source (ge_event_id e) in
      if typ = ''price_tick'' \<and> \<not> ecf_replay_price_tick_enabled cfg then ignored_event e d source_event_id ''PRICE_TICK_REPLAY_DISABLED''
      else if typ = ''heartbeat'' \<and> \<not> ecf_replay_heartbeat_enabled cfg then ignored_event e d source_event_id ''HEARTBEAT_REPLAY_DISABLED''
      else if first_text d [''purpose''] = ''broker_reconcile'' then
        ignored_event e d source_event_id ''BROKER_RECONCILE_EVENT_ROUTED_TO_RECONCILE_CONSUMER''
      else if typ \<in> {''command_ack'', ''command_failed'', ''command_timeout'', ''command_expired''} then
        decode_command_event e d source_event_id
      else if typ = ''kiwoom_order_chejan'' then decode_kiwoom_order_chejan e d source_event_id
      else if typ = ''kiwoom_balance_chejan'' then canonical e d source_event_id ''POSITION_SNAPSHOT''
      else if typ = ''kiwoom_special_chejan'' then ignored_event e d source_event_id ''KIWOOM_SPECIAL_CHEJAN_DIAGNOSTIC_ONLY''
      else if typ \<in> set FILL_EVENT_TYPES then decode_fill e d source_event_id
      else case map_of order_event_mapping typ of
        Some c \<Rightarrow> canonical e d source_event_id c
      | None \<Rightarrow> ignored_event e d source_event_id ''NON_ORDER_EVENT_HANDLED_BY_LEGACY'')"

section \<open>Receipts\<close>

record event_receipt =
  rc_id :: int
  rc_source_event_id :: string
  rc_dedupe_key :: string
  rc_raw_event_type :: string
  rc_canonical_event_type :: string
  rc_account :: string
  rc_command_id :: string
  rc_order_no :: string
  rc_original_order_no :: string
  rc_execution_id :: string
  rc_code :: string
  rc_side :: string
  rc_managed_order_id :: int
  rc_apply_status :: string
  rc_payload_checksum :: string
  rc_applied_at :: stamp
  rc_created_at :: stamp

definition find_receipt :: "event_receipt table \<Rightarrow> string \<Rightarrow> string \<Rightarrow> event_receipt option" where
  "find_receipt t source_event_id dedupe_key =
     (case (if source_event_id \<noteq> [] then find (\<lambda>r. rc_source_event_id r = source_event_id) (t_rows t) else None) of
        Some r \<Rightarrow> Some r
      | None \<Rightarrow> if dedupe_key \<noteq> [] then find (\<lambda>r. rc_dedupe_key r = dedupe_key) (t_rows t) else None)"

text \<open>\<open>save_order_gateway_event_receipt\<close>: the other unique column, the duplicate key, makes the INSERT fail.\<close>

definition save_receipt_row :: "event_receipt \<Rightarrow> event_receipt table \<Rightarrow> event_receipt table \<times> (py_error + event_receipt)" where
  "save_receipt_row p0 t =
     (let p1 = (if rc_source_event_id p0 = [] then p0\<lparr>rc_source_event_id := rc_dedupe_key p0\<rparr> else p0);
          p = (if rc_dedupe_key p1 = [] then p1\<lparr>rc_dedupe_key := rc_source_event_id p1\<rparr> else p1)
      in case find (\<lambda>r. rc_source_event_id r = rc_source_event_id p) (t_rows t) of
           Some r \<Rightarrow>
             (update_rows (\<lambda>r. rc_source_event_id r = rc_source_event_id p) (\<lambda>r. r\<lparr>rc_apply_status := rc_apply_status p\<rparr>) t,
              Inr (r\<lparr>rc_apply_status := rc_apply_status p\<rparr>))
         | None \<Rightarrow>
             if \<exists>r\<in>set (t_rows t). rc_dedupe_key r = rc_dedupe_key p then (t, Inl IntegrityError)
             else (insert_row (\<lambda>k. p\<lparr>rc_id := k\<rparr>) t, Inr (p\<lparr>rc_id := t_next t\<rparr>)))"

section \<open>Applying an event\<close>

record consumer_env =
  cne_now :: time
  cne_checksum :: "pydict \<Rightarrow> string"
  cne_error_text :: "py_error \<Rightarrow> string"
  cne_unserializable :: "gateway_event \<Rightarrow> string option"
  cne_fresh_id :: string
  cne_worker_id :: string

record consumer_metrics =
  cm_live_received :: nat
  cm_processed :: nat
  cm_replayed :: nat
  cm_duplicate :: nat
  cm_ignored :: nat
  cm_retry :: nat
  cm_failed :: nat
  cm_dead_letter :: nat
  cm_unmatched :: nat
  cm_last_success_at :: stamp
  cm_last_error :: string
  cm_last_event_type :: string
  cm_last_event_at :: stamp
  cm_last_processed_at :: stamp
  cm_replay_status :: string

record consumer_state =
  cn_db :: order_db
  cn_broker :: broker_db
  cn_receipts :: "event_receipt table"
  cn_log :: event_log
  cn_dirty :: "string list"
  cn_running :: bool
  cn_metrics :: consumer_metrics

record processing_result =
  ep_status :: string
  ep_source_event_id :: string
  ep_raw_event_type :: string
  ep_canonical_event_type :: string
  ep_dedupe_key :: string
  ep_managed_order_id :: int
  ep_core_event :: string
  ep_retryable :: bool
  ep_reconcile_required :: bool
  ep_stop_new_buy :: bool
  ep_error :: string
  ep_reason :: string

definition no_result :: processing_result where
  "no_result = \<lparr>ep_status = [], ep_source_event_id = [], ep_raw_event_type = [], ep_canonical_event_type = [],
     ep_dedupe_key = [], ep_managed_order_id = 0, ep_core_event = [], ep_retryable = False,
     ep_reconcile_required = False, ep_stop_new_buy = False, ep_error = [], ep_reason = []\<rparr>"

definition result_of_event :: "canonical_event \<Rightarrow> string \<Rightarrow> string \<Rightarrow> processing_result" where
  "result_of_event c status reason =
     no_result\<lparr>ep_status := status, ep_source_event_id := cv_source_event_id c, ep_raw_event_type := cv_raw_event_type c,
       ep_canonical_event_type := cv_type c, ep_dedupe_key := cv_dedupe_key c, ep_reason := reason\<rparr>"

definition result_reconcile_required :: "apply_result \<Rightarrow> bool" where
  "result_reconcile_required r \<longleftrightarrow>
     upper (am_status r) = ''RECONCILE_REQUIRED'' \<or> contains ''RECONCILE_REQUIRED'' (upper (am_reason r)) \<or>
     am_matched r = Some False"

definition core_event_type :: "canonical_event \<Rightarrow> apply_result \<Rightarrow> string" where
  "core_event_type c r =
     (if cv_type c \<in> {''ORDER_PARTIALLY_FILLED'', ''ORDER_FILLED''} then ''ORDER_FILL_APPLIED''
      else if result_reconcile_required r then ''ORDER_RECONCILE_REQUIRED''
      else if cv_type c \<in> {''BALANCE_SNAPSHOT'', ''POSITION_SNAPSHOT''} then ''POSITION_STATE_CHANGED''
      else ''ORDER_STATE_CHANGED'')"

text \<open>The receipt of an applied event.\<close>

definition receipt_of :: "consumer_env \<Rightarrow> canonical_event \<Rightarrow> apply_result \<Rightarrow> event_receipt" where
  "receipt_of env c r =
     (let d = cv_payload c in
      \<lparr>rc_id = 0, rc_source_event_id = cv_source_event_id c, rc_dedupe_key = cv_dedupe_key c,
       rc_raw_event_type = cv_raw_event_type c, rc_canonical_event_type = cv_type c,
       rc_account = first_text d [''account''], rc_command_id = first_text d [''command_id''],
       rc_order_no = first_text d [''order_no''], rc_original_order_no = first_text d [''original_order_no''],
       rc_execution_id = payload_execution_id d, rc_code = code_column (first_text d [''code'']),
       rc_side = upper (first_text d [''side'']), rc_managed_order_id = am_order_id r,
       rc_apply_status = (if result_reconcile_required r then ''RECONCILE_REQUIRED'' else ''APPLIED''),
       rc_payload_checksum = cne_checksum env d, rc_applied_at = At (whole_second (cne_now env)),
       rc_created_at = At (whole_second (cne_now env))\<rparr>)"

text \<open>\<open>_update_projection\<close>: the local rows of the broker's orders and positions.\<close>

definition order_projection :: "consumer_env \<Rightarrow> canonical_event \<Rightarrow> apply_result \<Rightarrow> py_error + broker_order_state" where
  "order_projection env c r =
     (let d = cv_payload c in
      bindE (db_safe_int (py_or (py_or (dget d ''order_qty'') (dget d ''quantity'')) (PInt 0))) (\<lambda>order_qty.
      bindE (db_safe_int (py_or (py_or (dget d ''filled_qty'') (dget d ''filled_quantity'')) (PInt (am_filled_quantity r)))) (\<lambda>filled.
      bindE (db_safe_int (py_or (py_or (dget d ''remaining_qty'') (dget d ''remaining_quantity'')) (PInt (am_remaining_quantity r)))) (\<lambda>remaining.
      Inr \<lparr>bos_id = 0, bos_account = first_text d [''account''], bos_order_no = first_text d [''order_no''],
           bos_original_order_no = first_text d [''original_order_no''], bos_command_id = first_text d [''command_id''],
           bos_code = first_text d [''code''], bos_side = first_text d [''side''], bos_order_qty = order_qty,
           bos_filled_qty = filled, bos_remaining_qty = remaining,
           bos_avg_fill_price = db_float_value (py_or (py_or (dget d ''avg_fill_price'') (dget d ''price'')) (PInt 0)),
           bos_broker_status = cv_type c, bos_last_event_id = cv_source_event_id c,
           bos_last_event_at = time_or d ''timestamp'' (cne_now env), bos_updated_at = Blank\<rparr>))))"

definition position_projection :: "consumer_env \<Rightarrow> canonical_event \<Rightarrow> pydict \<Rightarrow> py_error + broker_position_state" where
  "position_projection env c item =
     (let d = cv_payload c in
      bindE (db_safe_int (py_or (py_or (dget item ''quantity'') (dget item ''qty'')) (PInt 0))) (\<lambda>quantity.
      bindE (db_safe_int (py_or (py_or (dget item ''available_quantity'') (dget item ''available_qty'')) (PInt 0))) (\<lambda>available.
      Inr \<lparr>bps_id = 0, bps_account = py_str (py_or (py_or (dget item ''account'') (dget d ''account'')) (PStr [])),
           bps_code = py_str (py_or (py_or (dget item ''code'') (dget d ''code'')) (PStr [])),
           bps_quantity = quantity, bps_available_quantity = available,
           bps_avg_price = db_float_value (py_or (py_or (dget item ''avg_price'') (dget item ''average_price'')) (PInt 0)),
           bps_last_snapshot_id = cv_source_event_id c,
           bps_snapshot_at = time_or d ''timestamp'' (cne_now env), bps_updated_at = Blank\<rparr>)))"

fun project_positions :: "consumer_env \<Rightarrow> canonical_event \<Rightarrow> pyval list \<Rightarrow> broker_db \<Rightarrow> broker_db \<times> py_error option" where
  "project_positions env c [] b = (b, None)"
| "project_positions env c (PDict item # items) b =
     (case position_projection env c item of
        Inl err \<Rightarrow> (b, Some err)
      | Inr p \<Rightarrow> project_positions env c items (upsert_broker_position_state (cne_now env) p b))"
| "project_positions env c (v # items) b = project_positions env c items b"

definition update_projection :: "consumer_env \<Rightarrow> canonical_event \<Rightarrow> apply_result \<Rightarrow> broker_db \<Rightarrow> broker_db \<times> py_error option" where
  "update_projection env c r b =
     (let d = cv_payload c;
          orders = (if cv_type c \<in> {''ORDER_ACCEPTED'', ''ORDER_PARTIALLY_FILLED'', ''ORDER_FILLED'', ''ORDER_CANCEL_ACCEPTED'',
                          ''ORDER_CANCELLED'', ''ORDER_STATUS_SNAPSHOT''} \<and> first_text d [''order_no''] \<noteq> []
                    then (case order_projection env c r of
                            Inl err \<Rightarrow> (b, Some err)
                          | Inr p \<Rightarrow> (upsert_broker_order_state (cne_now env) p b, None))
                    else (b, None))
      in case orders of
           (b', Some err) \<Rightarrow> (b', Some err)
         | (b', None) \<Rightarrow>
             if cv_type c \<in> {''BALANCE_SNAPSHOT'', ''POSITION_SNAPSHOT''}
             then project_positions env c (case dget d ''positions'' of PList xs \<Rightarrow> xs | _ \<Rightarrow> [PDict d]) b'
             else (b', None))"

definition applied_result :: "canonical_event \<Rightarrow> apply_result \<Rightarrow> event_receipt \<Rightarrow> processing_result" where
  "applied_result c r receipt =
     (result_of_event c (if result_reconcile_required r then ''RECONCILE_REQUIRED'' else ''APPLIED'') (str_or (am_reason r) (am_status r)))
       \<lparr>ep_managed_order_id := rc_managed_order_id receipt, ep_core_event := core_event_type c r,
        ep_reconcile_required := result_reconcile_required r, ep_stop_new_buy := result_reconcile_required r\<rparr>"

text \<open>
  \<open>OrderLifecycleEventConsumer.dispatch\<close> from a decoded event on: each of the three writes is committed by
  itself, so an exception leaves the writes before it in place.
\<close>

definition apply_event :: "consumer_env \<Rightarrow> canonical_event \<Rightarrow> consumer_state \<Rightarrow> consumer_state \<times> (py_error + processing_result)" where
  "apply_event env c s =
     (let (db, r) = apply_canonical_order_event (cn_db s) (cv_type c) (cv_payload c) (cv_source_event_id c) (cne_now env);
          s1 = s\<lparr>cn_db := db\<rparr>
      in case r of Inl err \<Rightarrow> (s1, Inl err)
      | Inr result \<Rightarrow>
          let (b, raised) = update_projection env c result (cn_broker s1); s2 = s1\<lparr>cn_broker := b\<rparr>
          in case raised of Some err \<Rightarrow> (s2, Inl err)
          | None \<Rightarrow>
              let (t, saved) = save_receipt_row (receipt_of env c result) (cn_receipts s2); s3 = s2\<lparr>cn_receipts := t\<rparr>
              in case saved of Inl err \<Rightarrow> (s3, Inl err)
              | Inr receipt \<Rightarrow>
                  (s3\<lparr>cn_dirty := cn_dirty s3 @ [''order_lifecycle:'' @ cv_type c]\<rparr>, Inr (applied_result c result receipt)))"

definition dispatch_canonical ::
  "consumer_env \<Rightarrow> consumer_config \<Rightarrow> canonical_event \<Rightarrow> consumer_state \<Rightarrow> consumer_state \<times> (py_error + processing_result)" where
  "dispatch_canonical env cfg c s =
     (if cv_ignored c then (s, Inr (result_of_event c ''IGNORED'' (cv_ignore_reason c)))
      else if \<not> ecf_order_enabled cfg then (s, Inr (result_of_event c ''IGNORED'' ''ORDER_EVENT_CONSUMER_DISABLED''))
      else case (if ecf_receipt_enabled cfg then find_receipt (cn_receipts s) (cv_source_event_id c) (cv_dedupe_key c) else None) of
        Some receipt \<Rightarrow>
          (s, Inr ((result_of_event c ''DUPLICATE_ALREADY_APPLIED'' ''RECEIPT_EXISTS'')
                     \<lparr>ep_managed_order_id := rc_managed_order_id receipt\<rparr>))
      | None \<Rightarrow> apply_event env c s)"

definition dispatch_event ::
  "consumer_env \<Rightarrow> consumer_config \<Rightarrow> gateway_event \<Rightarrow> string \<Rightarrow> consumer_state \<Rightarrow> consumer_state \<times> (py_error + processing_result)" where
  "dispatch_event env cfg e source_event_id s =
     (case decode_event cfg e source_event_id of
        Inl err \<Rightarrow> (s, Inl err)
      | Inr c \<Rightarrow> dispatch_canonical env cfg c s)"

end
