(* ===== verification/Event_Dispatcher.thy ===== *)
theory Event_Dispatcher
  imports Event_Consumer
begin

text \<open>
  The dispatcher over the event log (\<open>GatewayEventDispatcher\<close> in \<open>trading_app/gateway_event_consumer.py\<close>): live
  events, the replay of what waits in the log, retries with growing delays, dead letters, and the stop
  of new buys when an event is lost.
\<close>

section \<open>Outcomes\<close>

text \<open>\<open>_is_retryable_error\<close>, on the text of the exception.\<close>

definition is_retryable_error :: "string \<Rightarrow> bool" where
  "is_retryable_error txt \<longleftrightarrow>
     (\<exists>token\<in>set [''locked'', ''busy'', ''temporar'', ''timeout'', ''unavailable'']. contains token (lower txt))"

definition fail_closed :: "consumer_env \<Rightarrow> consumer_config \<Rightarrow> string \<Rightarrow> consumer_state \<Rightarrow> consumer_state" where
  "fail_closed env cfg reason s =
     (if ecf_fail_closed cfg
      then s\<lparr>cn_db := save_order_kill_switch_state (reconcile_row (date_text (cne_now env)) reason (cne_now env)) (cn_db s)\<rparr>
      else s)"

definition retry_delay :: "consumer_config \<Rightarrow> int \<Rightarrow> rat" where
  "retry_delay cfg attempts = min (ecf_retry_max_sec cfg) (ecf_retry_base_sec cfg * 2 ^ nat (max 0 (attempts - 1)))"

definition retry_instant :: "consumer_env \<Rightarrow> consumer_config \<Rightarrow> int \<Rightarrow> stamp" where
  "retry_instant env cfg attempts =
     At (whole_second (cne_now env + \<lfloor>round_digits 6 (retry_delay cfg attempts) * 1000000\<rfloor>))"

definition finish_record ::
  "consumer_env \<Rightarrow> consumer_config \<Rightarrow> log_row \<Rightarrow> processing_result \<Rightarrow> consumer_state \<Rightarrow> consumer_state" where
  "finish_record env cfg r result s =
     (let k = lr_id r; err = str_or (ep_error result) (ep_reason result) in
      if ep_status result \<in> {''APPLIED'', ''DUPLICATE_ALREADY_APPLIED'', ''PROCESSED'', ''RECONCILE_REQUIRED''} then
        s\<lparr>cn_log := mark_processing_result k EV_PROCESSED [] ''OrderLifecycleEventConsumer'' (ecf_handler_version cfg) (cne_now env) (cn_log s)\<rparr>
      else if ep_status result = ''IGNORED'' then s\<lparr>cn_log := mark_ignored k (cne_now env) (cn_log s)\<rparr>
      else if \<not> ep_retryable result \<or> ecf_max_attempts cfg \<le> lr_attempts r then
        (let s' = s\<lparr>cn_log := mark_dead_letter k (str_or err ''EVENT_PROCESSING_FAILED'') (cne_now env) (cn_log s)\<rparr>
         in if ecf_dead_letter_blocks_buy cfg then fail_closed env cfg ''ORDER_EVENT_DEAD_LETTER_PRESENT'' s' else s')
      else s\<lparr>cn_log := mark_retry_wait k (str_or err ''EVENT_PROCESSING_RETRY'') (retry_instant env cfg (lr_attempts r)) (cn_log s)\<rparr>)"

definition record_result :: "consumer_env \<Rightarrow> processing_result \<Rightarrow> consumer_metrics \<Rightarrow> consumer_metrics" where
  "record_result env result m =
     (let now = At (whole_second (cne_now env)); m0 = m\<lparr>cm_last_processed_at := now\<rparr>; st = ep_status result;
          m1 = (if st \<in> {''APPLIED'', ''PROCESSED''} then m0\<lparr>cm_processed := cm_processed m0 + 1, cm_last_success_at := now\<rparr>
                else if st = ''DUPLICATE_ALREADY_APPLIED'' then m0\<lparr>cm_duplicate := cm_duplicate m0 + 1\<rparr>
                else if st = ''IGNORED'' then m0\<lparr>cm_ignored := cm_ignored m0 + 1\<rparr>
                else if st = ''RETRY_WAIT'' then m0\<lparr>cm_retry := cm_retry m0 + 1\<rparr>
                else if st = ''DEAD_LETTER'' then m0\<lparr>cm_dead_letter := cm_dead_letter m0 + 1\<rparr>
                else if st = ''FAILED'' then m0\<lparr>cm_failed := cm_failed m0 + 1, cm_last_error := str_or (ep_error result) (ep_reason result)\<rparr>
                else m0)
      in if ep_reconcile_required result then m1\<lparr>cm_unmatched := cm_unmatched m1 + 1\<rparr> else m1)"

section \<open>Records of the log\<close>

text \<open>\<open>_event_from_record\<close>: the stored dictionary is read back; it always has a type.\<close>

definition event_from_record :: "consumer_env \<Rightarrow> log_row \<Rightarrow> gateway_event" where
  "event_from_record env r = gateway_event_from_dict (cne_fresh_id env) (cne_now env) (lr_payload r)"

definition record_source :: "log_row \<Rightarrow> string" where
  "record_source r = str_or (lr_event_id r) (''log:'' @ show_int (lr_id r))"

definition failed_result :: "consumer_env \<Rightarrow> log_row \<Rightarrow> py_error \<Rightarrow> processing_result" where
  "failed_result env r err =
     no_result\<lparr>ep_status := ''FAILED'', ep_source_event_id := lr_event_id r, ep_raw_event_type := lr_event_type r,
       ep_retryable := is_retryable_error (cne_error_text env err), ep_error := cne_error_text env err\<rparr>"

definition consume_event_log_record ::
  "consumer_env \<Rightarrow> consumer_config \<Rightarrow> log_row \<Rightarrow> consumer_state \<Rightarrow> consumer_state \<times> processing_result" where
  "consume_event_log_record env cfg r s =
     (let (s1, outcome) = dispatch_event env cfg (event_from_record env r) (record_source r) s;
          result = (case outcome of Inl err \<Rightarrow> failed_result env r err | Inr x \<Rightarrow> x);
          s2 = finish_record env cfg r result s1
      in (s2\<lparr>cn_metrics := record_result env result (cn_metrics s2)\<rparr>, result))"

section \<open>Live events and replay\<close>

definition IGNORED_REPLAY_TYPES :: "string list" where
  "IGNORED_REPLAY_TYPES = [''price_tick'', ''heartbeat'']"

definition log_status_value :: "event_status \<Rightarrow> string" where
  "log_status_value st =
     (case st of EV_PENDING \<Rightarrow> ''PENDING'' | EV_PROCESSING \<Rightarrow> ''PROCESSING'' | EV_PROCESSED \<Rightarrow> ''PROCESSED''
      | EV_FAILED \<Rightarrow> ''FAILED'' | EV_RETRY_WAIT \<Rightarrow> ''RETRY_WAIT'' | EV_DEAD_LETTER \<Rightarrow> ''DEAD_LETTER'' | EV_IGNORED \<Rightarrow> ''IGNORED'')"

definition log_record_of :: "event_log \<Rightarrow> gateway_event \<Rightarrow> log_row option" where
  "log_record_of l e =
     (case get_by_event_id l (ge_event_id e) of
        Some r \<Rightarrow> Some r | None \<Rightarrow> find_by_dedupe_key l (dedupe_key_for_gateway_event e))"

definition note_live_event :: "consumer_env \<Rightarrow> gateway_event \<Rightarrow> consumer_state \<Rightarrow> consumer_state" where
  "note_live_event env e s =
     s\<lparr>cn_metrics := (cn_metrics s)\<lparr>cm_live_received := cm_live_received (cn_metrics s) + 1, cm_last_event_type := ge_type e,
         cm_last_event_at := stamp_or (ge_timestamp e) (At (whole_second (cne_now env)))\<rparr>\<rparr>"

text \<open>An event that is not in the log is applied without it; an exception then reaches the caller.\<close>

definition consume_unlogged ::
  "consumer_env \<Rightarrow> consumer_config \<Rightarrow> gateway_event \<Rightarrow> consumer_state \<Rightarrow> consumer_state \<times> (py_error + processing_result)" where
  "consume_unlogged env cfg e s =
     (case decode_event cfg e [] of
        Inl err \<Rightarrow> (s, Inl err)
      | Inr c \<Rightarrow>
          let s1 = (if cv_critical c \<and> ecf_fail_closed cfg then fail_closed env cfg ''EVENT_LOG_UNAVAILABLE'' s else s);
              (s2, outcome) = dispatch_event env cfg e (ge_event_id e) s1
          in case outcome of Inl err \<Rightarrow> (s2, Inl err)
             | Inr result \<Rightarrow> (s2\<lparr>cn_metrics := record_result env result (cn_metrics s2)\<rparr>, Inr result))"

definition consume_live_event ::
  "consumer_env \<Rightarrow> consumer_config \<Rightarrow> event_log_config \<Rightarrow> gateway_event \<Rightarrow> consumer_state \<Rightarrow>
   consumer_state \<times> (py_error + processing_result)" where
  "consume_live_event env cfg lcfg e s0 =
     (let s = note_live_event env e s0 in
      if ge_type e \<in> set IGNORED_REPLAY_TYPES then
        (s, Inr (no_result\<lparr>ep_status := ''IGNORED'', ep_raw_event_type := ge_type e,
                   ep_reason := upper (ge_type e) @ ''_REPLAY_DISABLED''\<rparr>))
      else case log_record_of (cn_log s) e of
        None \<Rightarrow> consume_unlogged env cfg e s
      | Some r \<Rightarrow>
          (case claim_event lcfg (lr_id r) (cne_worker_id env) (Some (ecf_processing_lease_sec cfg)) (cne_now env) (cn_log s) of
             (l, None) \<Rightarrow>
               (s\<lparr>cn_log := l\<rparr>, Inr (no_result\<lparr>ep_status := ''RETRY_WAIT'', ep_source_event_id := lr_event_id r,
                  ep_raw_event_type := lr_event_type r, ep_reason := ''EVENT_ALREADY_CLAIMED_OR_TERMINAL''\<rparr>))
           | (l, Some claimed) \<Rightarrow>
               if terminal_event (lr_status claimed) then
                 (s\<lparr>cn_log := l\<rparr>, Inr (no_result\<lparr>ep_status := log_status_value (lr_status claimed),
                    ep_source_event_id := lr_event_id claimed, ep_raw_event_type := lr_event_type claimed,
                    ep_reason := ''EVENT_LOG_ALREADY_TERMINAL''\<rparr>))
               else map_prod id Inr (consume_event_log_record env cfg claimed (s\<lparr>cn_log := l\<rparr>))))"

record replay_counts =
  rp_claimed :: nat
  rp_processed :: nat
  rp_duplicate :: nat
  rp_ignored :: nat
  rp_retry :: nat
  rp_failed :: nat
  rp_dead_letter :: nat
  rp_reconcile_required :: nat

definition count_result :: "processing_result \<Rightarrow> replay_counts \<Rightarrow> replay_counts" where
  "count_result result n =
     (let st = ep_status result;
          n1 = (if st \<in> {''APPLIED'', ''PROCESSED''} then n\<lparr>rp_processed := rp_processed n + 1\<rparr>
                else if st = ''DUPLICATE_ALREADY_APPLIED'' then n\<lparr>rp_duplicate := rp_duplicate n + 1\<rparr>
                else if st = ''IGNORED'' then n\<lparr>rp_ignored := rp_ignored n + 1\<rparr>
                else if st = ''RETRY_WAIT'' then n\<lparr>rp_retry := rp_retry n + 1\<rparr>
                else if st = ''DEAD_LETTER'' then n\<lparr>rp_dead_letter := rp_dead_letter n + 1\<rparr>
                else if st = ''FAILED'' then n\<lparr>rp_failed := rp_failed n + 1\<rparr>
                else n)
      in if ep_reconcile_required result then n1\<lparr>rp_reconcile_required := rp_reconcile_required n1 + 1\<rparr> else n1)"

definition replay_record ::
  "consumer_env \<Rightarrow> consumer_config \<Rightarrow> log_row \<Rightarrow> consumer_state \<times> replay_counts \<Rightarrow> consumer_state \<times> replay_counts" where
  "replay_record env cfg r acc =
     (let (s, n) = acc; (s', result) = consume_event_log_record env cfg r s in (s', count_result result n))"

definition replay_pending ::
  "consumer_env \<Rightarrow> consumer_config \<Rightarrow> event_log_config \<Rightarrow> int option \<Rightarrow> consumer_state \<Rightarrow> consumer_state \<times> replay_counts option" where
  "replay_pending env cfg lcfg limit s =
     (if \<not> ecf_replay_enabled cfg then (s, None)
      else let n = (case limit of Some k \<Rightarrow> if k = 0 then ecf_replay_batch_size cfg else k | None \<Rightarrow> ecf_replay_batch_size cfg);
               (l, claimed) = claim_pending_events lcfg n REPLAYABLE_GATEWAY_EVENT_TYPES (cne_worker_id env)
                 (Some (ecf_processing_lease_sec cfg)) (cne_now env) (cn_log s);
               start = \<lparr>rp_claimed = length claimed, rp_processed = 0, rp_duplicate = 0, rp_ignored = 0, rp_retry = 0,
                        rp_failed = 0, rp_dead_letter = 0, rp_reconcile_required = 0\<rparr>;
               (s', counts) = fold (replay_record env cfg) claimed (s\<lparr>cn_log := l\<rparr>, start)
           in (s'\<lparr>cn_metrics := (cn_metrics s')\<lparr>cm_replay_status := ''OK'',
                    cm_replayed := cm_replayed (cn_metrics s') + length claimed\<rparr>\<rparr>, Some counts))"

definition consumer_recover :: "consumer_env \<Rightarrow> consumer_state \<Rightarrow> consumer_state \<times> nat" where
  "consumer_recover env s = (let (l, n) = recover_stale_claims (cne_now env) (cn_log s) in (s\<lparr>cn_log := l\<rparr>, n))"

definition start_consumer :: "consumer_state \<Rightarrow> consumer_state" where
  "start_consumer s = s\<lparr>cn_running := True\<rparr>"

definition stop_consumer :: "consumer_state \<Rightarrow> consumer_state" where
  "stop_consumer s = s\<lparr>cn_running := False\<rparr>"

section \<open>Health\<close>

record consumer_health =
  ch_status :: string
  ch_consumer_enabled :: bool
  ch_consumer_running :: bool
  ch_order_lifecycle_ready :: bool
  ch_backlog :: event_backlog
  ch_oldest_pending_age :: time
  ch_processed_count :: nat
  ch_metrics :: consumer_metrics
  ch_warnings :: "string list"

definition pending_age :: "stamp \<Rightarrow> time \<Rightarrow> time" where
  "pending_age t now = (case t of Blank \<Rightarrow> 0 | At u \<Rightarrow> max 0 (now - u))"

definition consumer_health_of :: "consumer_config \<Rightarrow> time \<Rightarrow> consumer_state \<Rightarrow> consumer_health" where
  "consumer_health_of cfg now s =
     (let b = critical_backlog_snapshot (cn_log s); age = pending_age (bl_oldest_pending_at b) now;
          warnings = (if 0 < bl_dead_letter b then [''ORDER_EVENT_DEAD_LETTER_PRESENT''] else []) @
                     (if 0 < bl_pending b then [''ORDER_EVENT_REPLAY_PENDING''] else []) @
                     (if ecf_pending_max_age_sec cfg * 1000000 < age then [''ORDER_EVENT_PENDING_AGE_EXCEEDED''] else []);
          ready = (bl_order_lifecycle_ready b \<and> warnings = [])
      in \<lparr>ch_status = (if ready then ''READY'' else ''DEGRADED''), ch_consumer_enabled = ecf_order_enabled cfg,
          ch_consumer_running = cn_running s, ch_order_lifecycle_ready = ready, ch_backlog = b,
          ch_oldest_pending_age = age, ch_processed_count = ec_processed (event_log_snapshot (cn_log s)),
          ch_metrics = cn_metrics s, ch_warnings = warnings\<rparr>)"

section \<open>Steps\<close>

text \<open>
  What happens to the consumer, one call after the other: an event arrives in the log, live, by replay, or a
  lease runs out. The dispatcher holds no lock, and in the application live events and replay run in different threads;
  theory \<open>Event_Workers\<close> lets their claims and finishes overlap.
\<close>

datatype consumer_call =
    AppendEvent gateway_event string
  | LiveEvent gateway_event
  | ReplayPending "int option"
  | RecoverClaims
  | DirectDispatch gateway_event string

fun consumer_step ::
  "consumer_config \<Rightarrow> event_log_config \<Rightarrow> consumer_env \<times> consumer_call \<Rightarrow> consumer_state \<Rightarrow> consumer_state" where
  "consumer_step cfg lcfg (env, AppendEvent e key) s = s\<lparr>cn_log := fst (append_gateway_event (cne_unserializable env) lcfg e key (cne_now env) (cn_log s))\<rparr>"
| "consumer_step cfg lcfg (env, LiveEvent e) s = fst (consume_live_event env cfg lcfg e s)"
| "consumer_step cfg lcfg (env, ReplayPending limit) s = fst (replay_pending env cfg lcfg limit s)"
| "consumer_step cfg lcfg (env, RecoverClaims) s = fst (consumer_recover env s)"
| "consumer_step cfg lcfg (env, DirectDispatch e source) s = fst (dispatch_event env cfg e source s)"

definition consumer_run ::
  "consumer_config \<Rightarrow> event_log_config \<Rightarrow> (consumer_env \<times> consumer_call) list \<Rightarrow> consumer_state \<Rightarrow> consumer_state" where
  "consumer_run cfg lcfg calls s = fold (consumer_step cfg lcfg) calls s"

end
