(* ===== verification/Event_Props.thy ===== *)
theory Event_Props
  imports Event_Dispatcher
begin

text \<open>
  The rows of the log under each operation, and what a replay that runs from its start to its end does to them.
\<close>

section \<open>The log as a table of rows by id\<close>

text \<open>What no operation changes in a row.\<close>

definition same_event :: "log_row \<Rightarrow> log_row \<Rightarrow> bool" where
  "same_event a b \<longleftrightarrow> lr_id a = lr_id b \<and> lr_dedupe_key a = lr_dedupe_key b \<and> lr_event_id a = lr_event_id b \<and>
     lr_event_type a = lr_event_type b \<and> lr_payload a = lr_payload b \<and> lr_received_at a = lr_received_at b"

definition keeps_event :: "(log_row \<Rightarrow> log_row) \<Rightarrow> bool" where
  "keeps_event f \<longleftrightarrow> (\<forall>x. same_event (f x) x)"

lemma keeps_eventD: "keeps_event f \<Longrightarrow> lr_id (f x) = lr_id x \<and> lr_dedupe_key (f x) = lr_dedupe_key x"
  by (simp add: keeps_event_def same_event_def)

lemma get_update_all: "keeps_event f \<Longrightarrow> get_log_row (update_rows P f l) j = map_option (\<lambda>r. if P r then f r else r) (get_log_row l j)"
  unfolding get_log_row_def by (rule row_by_id_update) (simp add: keeps_eventD)

lemma get_log_row_id: "get_log_row l k = Some r \<Longrightarrow> lr_id r = k"
  unfolding get_log_row_def by (rule row_by_id_some_id)

lemma get_log_row_mem: "get_log_row l k = Some r \<Longrightarrow> r \<in> set (t_rows l)"
  by (auto simp: get_log_row_def row_by_id_def dest: findSomeD)

lemma get_update:
  "keeps_event f \<Longrightarrow>
   get_log_row (update_rows (\<lambda>x. lr_id x = k) f l) j = (if j = k then map_option f (get_log_row l k) else get_log_row l j)"
  using get_log_row_id [of l j] by (cases "get_log_row l j") (auto simp: get_update_all)

abbreviation log_table_ok :: "event_log \<Rightarrow> bool" where "log_table_ok \<equiv> table_ok lr_id lr_dedupe_key"

lemma log_table_update: "keeps_event f \<Longrightarrow> log_table_ok l \<Longrightarrow> log_table_ok (update_rows P f l)"
  unfolding table_ok_ids by (simp add: map_update_rows keeps_eventD)

lemma get_member:
  assumes "log_table_ok l" "r \<in> set (t_rows l)" shows "get_log_row l (lr_id r) = Some r"
  using row_by_id_iff [OF assms(1)] assms(2) unfolding get_log_row_def by blast

lemma keeps_claim [simp]: "keeps_event (claim_row t w n)"
  by (simp add: keeps_event_def same_event_def claim_row_def)

lemma keeps_finish [simp]: "keeps_event (finish_row st p e)"
  by (simp add: keeps_event_def same_event_def finish_row_def)

section \<open>Well-formed rows\<close>

text \<open>
  A row of each status: a claim has a lease, a waiting row has a time to try again, a finished row says when
  it was finished, a failed one why.
\<close>

definition row_ok :: "log_row \<Rightarrow> bool" where
  "row_ok r \<longleftrightarrow> 0 \<le> lr_attempts r \<and>
     (case lr_status r of
        EV_PENDING \<Rightarrow> lr_claimed_by r = [] \<and> lr_next_retry_at r = Blank
      | EV_PROCESSING \<Rightarrow> 1 \<le> lr_attempts r \<and> lr_claimed_at r \<noteq> Blank \<and> lr_next_retry_at r \<noteq> Blank
      | EV_RETRY_WAIT \<Rightarrow> 1 \<le> lr_attempts r \<and> lr_next_retry_at r \<noteq> Blank \<and> lr_claimed_by r = []
      | EV_PROCESSED \<Rightarrow> lr_processed_at r \<noteq> Blank \<and> lr_claimed_by r = []
      | EV_IGNORED \<Rightarrow> lr_processed_at r \<noteq> Blank \<and> lr_claimed_by r = []
      | EV_DEAD_LETTER \<Rightarrow> lr_dead_lettered_at r \<noteq> Blank \<and> lr_claimed_by r = []
      | EV_FAILED \<Rightarrow> lr_error r \<noteq> [] \<and> lr_claimed_by r = [])"

definition log_ok :: "event_log \<Rightarrow> bool" where
  "log_ok l \<longleftrightarrow> log_table_ok l \<and> (\<forall>r\<in>set (t_rows l). row_ok r)"

lemma log_ok_get: "log_ok l \<Longrightarrow> get_log_row l k = Some r \<Longrightarrow> row_ok r"
  by (auto simp: log_ok_def dest: get_log_row_mem)

lemma log_ok_update:
  assumes "log_ok l" "keeps_event f" "\<And>r. get_log_row l (lr_id r) = Some r \<Longrightarrow> P r \<Longrightarrow> row_ok r \<Longrightarrow> row_ok (f r)"
  shows "log_ok (update_rows P f l)"
proof -
  have t: "log_table_ok l" and rows: "\<forall>r\<in>set (t_rows l). row_ok r" using assms(1) by (auto simp: log_ok_def)
  have "\<forall>r\<in>set (t_rows (update_rows P f l)). row_ok r"
    by (rule update_rows_all) (use assms(3) rows get_member [OF t] in auto)
  with log_table_update [OF assms(2) t] show ?thesis by (simp add: log_ok_def)
qed

lemma row_ok_claimed: "row_ok r \<Longrightarrow> row_ok (claim_row t w n r)"
  by (simp add: row_ok_def claim_row_def)

section \<open>Appending\<close>

lemma append_log:
  "fst (append_gateway_event u cfg e key now l) = l \<or>
   (\<exists>payload err. fst (append_gateway_event u cfg e key now l) = insert_row (new_log_row e payload err (append_key e key) now) l \<and>
    find_by_dedupe_key l (append_key e key) = None)"
  by (auto simp: append_gateway_event_def Let_def split: option.splits prod.splits)

lemma append_ok:
  assumes "log_ok l" shows "log_ok (fst (append_gateway_event u cfg e key now l))"
proof (cases "fst (append_gateway_event u cfg e key now l) = l")
  case False
  then obtain payload err where
    new: "fst (append_gateway_event u cfg e key now l) = insert_row (new_log_row e payload err (append_key e key) now) l"
    "find_by_dedupe_key l (append_key e key) = None" using append_log by blast
  have "append_key e key \<notin> lr_dedupe_key ` set (t_rows l)"
    using new(2) by (auto simp: find_by_dedupe_key_def find_None_iff)
  then show ?thesis using assms
    by (auto simp: new log_ok_def table_ok_def insert_row_def new_log_row_def row_ok_def Let_def sorted_wrt_append)
qed (use assms in simp)

lemma append_get:
  assumes "get_log_row l k = Some r"
  shows "get_log_row (fst (append_gateway_event u cfg e key now l)) k = Some r"
  using append_log [of u cfg e key now l] assms
  by (auto simp: get_log_row_def row_by_id_def insert_row_def find_append)

lemma append_new:
  assumes "get_log_row l k = None" "get_log_row (fst (append_gateway_event u cfg e key now l)) k = Some r"
  shows "lr_attempts r = 0"
  using append_log [of u cfg e key now l] assms
  by (auto simp: get_log_row_def row_by_id_def insert_row_def find_append new_log_row_def Let_def split: if_splits)

section \<open>Claiming\<close>

lemma claim_one_cases:
  "claim_one t w n k (l, xs) =
   (case get_log_row l k of
      Some r \<Rightarrow> if claimable t r then (update_rows (\<lambda>x. lr_id x = k) (claim_row t w n) l, xs @ [claim_row t w n r]) else (l, xs)
    | None \<Rightarrow> (l, xs))"
  by (simp add: claim_one_def)

text \<open>What claiming a list of distinct ids does to every row.\<close>

definition claimed_of :: "time \<Rightarrow> string \<Rightarrow> int \<Rightarrow> event_log \<Rightarrow> int \<Rightarrow> log_row list" where
  "claimed_of t w n l k = (case get_log_row l k of Some r \<Rightarrow> if claimable t r then [claim_row t w n r] else [] | None \<Rightarrow> [])"

definition row_after_claim :: "time \<Rightarrow> string \<Rightarrow> int \<Rightarrow> log_row \<Rightarrow> log_row" where
  "row_after_claim t w n r = (if claimable t r then claim_row t w n r else r)"

lemma claim_one_get:
  "get_log_row (fst (claim_one t w n k s)) j = (if j = k then map_option (row_after_claim t w n) (get_log_row (fst s) k) else get_log_row (fst s) j)"
  by (cases s) (simp add: claim_one_cases get_update row_after_claim_def split: option.splits)

lemma claim_one_claimed: "snd (claim_one t w n k s) = snd s @ claimed_of t w n (fst s) k"
  by (cases s) (simp add: claim_one_cases claimed_of_def split: option.splits)

lemma claim_fold:
  assumes "distinct ks"
  shows "get_log_row (fst (fold (claim_one t w n) ks s)) j =
      (if j \<in> set ks then map_option (row_after_claim t w n) (get_log_row (fst s) j) else get_log_row (fst s) j) \<and>
    snd (fold (claim_one t w n) ks s) = snd s @ concat (map (claimed_of t w n (fst s)) ks)"
  using assms
proof (induction ks arbitrary: s)
  case (Cons k ks)
  let ?s = "claim_one t w n k s"
  have "claimed_of t w n (fst ?s) i = claimed_of t w n (fst s) i" if "i \<in> set ks" for i
  proof -
    have "i \<noteq> k" using that Cons.prems by auto
    then show ?thesis by (simp add: claimed_of_def claim_one_get)
  qed
  then have "map (claimed_of t w n (fst ?s)) ks = map (claimed_of t w n (fst s)) ks" by simp
  then show ?case using Cons.IH [of ?s] Cons.prems
    by (simp only: fold_simps claim_one_get claim_one_claimed) auto
qed simp

lemma claim_fold_ok:
  assumes "log_ok (fst s)" shows "log_ok (fst (fold (claim_one t w n) ks s))"
  using assms
proof (induction ks arbitrary: s)
  case (Cons k ks)
  have "log_ok (update_rows (\<lambda>x. lr_id x = k) (claim_row t w n) (fst s))"
    by (rule log_ok_update [OF Cons.prems keeps_claim]) (rule row_ok_claimed)
  then have "log_ok (fst (claim_one t w n k s))"
    using Cons.prems by (cases s) (simp add: claim_one_cases split: option.splits)
  then show ?case using Cons.IH by simp
qed simp

lemma claimed_rows:
  assumes "distinct ks" "r \<in> set (snd (fold (claim_one t w n) ks (l, [])))"
  shows "lr_id r \<in> set ks \<and> get_log_row (fst (fold (claim_one t w n) ks (l, []))) (lr_id r) = Some r \<and>
    lr_status r = EV_PROCESSING \<and> (\<exists>x. get_log_row l (lr_id r) = Some x \<and> claimable t x \<and> r = claim_row t w n x)"
proof -
  have "r \<in> set (concat (map (claimed_of t w n l) ks))" using assms claim_fold [OF assms(1), of t w n "(l, [])"] by simp
  then obtain k where k0: "k \<in> set ks" "r \<in> set (claimed_of t w n l k)" by auto
  then obtain x where k: "k \<in> set ks" "get_log_row l k = Some x" "claimable t x" "r = claim_row t w n x"
    by (cases "get_log_row l k") (auto simp: claimed_of_def split: if_splits)
  then have "lr_id r = k" using get_log_row_id [OF k(2)] by (simp add: claim_row_def)
  with k show ?thesis using claim_fold [OF assms(1), of t w n "(l, [])" k] by (simp add: row_after_claim_def) (simp add: claim_row_def)
qed

lemma claimed_distinct:
  assumes "distinct ks" shows "distinct (map lr_id (snd (fold (claim_one t w n) ks (l, []))))"
proof -
  have ids: "map lr_id (claimed_of t w n l k) = (if claimed_of t w n l k = [] then [] else [k])" for k
    by (auto simp: claimed_of_def claim_row_def dest: get_log_row_id split: option.splits)
  have "map lr_id (concat (map (claimed_of t w n l) ks)) = filter (\<lambda>k. claimed_of t w n l k \<noteq> []) ks"
    by (induction ks) (simp_all add: ids)
  then show ?thesis using assms claim_fold [OF assms, of t w n "(l, [])"] by simp
qed

section \<open>Finishing\<close>

definition finishing :: "consumer_env \<Rightarrow> consumer_config \<Rightarrow> processing_result \<Rightarrow> int \<Rightarrow> log_row \<Rightarrow> log_row" where
  "finishing env cfg result n x =
     (let err = str_or (ep_error result) (ep_reason result); now = At (whole_second (cne_now env)) in
      if ep_status result \<in> {''APPLIED'', ''DUPLICATE_ALREADY_APPLIED'', ''PROCESSED'', ''RECONCILE_REQUIRED''} then
        (finish_row EV_PROCESSED now [] x)\<lparr>lr_handler_name := ''OrderLifecycleEventConsumer'', lr_handler_version := ecf_handler_version cfg\<rparr>
      else if ep_status result = ''IGNORED'' then finish_row EV_IGNORED now [] x
      else if \<not> ep_retryable result \<or> ecf_max_attempts cfg \<le> n then
        (finish_row EV_DEAD_LETTER Blank (str_or err ''EVENT_PROCESSING_FAILED'') x)\<lparr>lr_dead_lettered_at := now\<rparr>
      else (finish_row EV_RETRY_WAIT Blank (str_or err ''EVENT_PROCESSING_RETRY'') x)\<lparr>lr_next_retry_at := retry_instant env cfg n\<rparr>)"

lemma fail_closed_log [simp]:
  "cn_log (fail_closed env cfg reason s) = cn_log s" "cn_receipts (fail_closed env cfg reason s) = cn_receipts s"
  "cn_broker (fail_closed env cfg reason s) = cn_broker s"
  by (simp_all add: fail_closed_def)

lemma finish_log: "cn_log (finish_record env cfg r result s) =
    update_rows (\<lambda>x. lr_id x = lr_id r) (finishing env cfg result (lr_attempts r)) (cn_log s)"
proof -
  have cong: "update_rows P f l = update_rows P g l" if "\<And>x. f x = g x" for P f g and l :: event_log
    using that by (simp add: update_rows_def cong: if_cong)
  show ?thesis
    unfolding finish_record_def Let_def mark_processing_result_def mark_ignored_def mark_dead_letter_def mark_retry_wait_def
    by (simp split: if_split) (intro conjI impI cong, simp_all add: finishing_def)
qed

lemma finish_frame [simp]: "cn_receipts (finish_record env cfg r result s) = cn_receipts s"
  "cn_broker (finish_record env cfg r result s) = cn_broker s"
  by (simp_all add: finish_record_def Let_def)

lemma keeps_finishing [simp]: "keeps_event (finishing env cfg result n)"
  by (simp add: keeps_event_def same_event_def finishing_def finish_row_def Let_def)

lemma finishing_status: "lr_status (finishing env cfg result n x) \<in> {EV_PROCESSED, EV_IGNORED, EV_DEAD_LETTER, EV_RETRY_WAIT}"
  by (simp add: finishing_def finish_row_def Let_def)

lemma finishing_ok: "1 \<le> lr_attempts x \<Longrightarrow> row_ok (finishing env cfg result (lr_attempts x) x)"
  by (auto simp: finishing_def finish_row_def row_ok_def retry_instant_def Let_def)

lemma apply_event_log [simp]: "cn_log (fst (apply_event env c s)) = cn_log s"
  by (simp add: apply_event_def Let_def split: prod.splits sum.splits option.splits)

lemma dispatch_log [simp]: "cn_log (fst (dispatch_event env cfg e source s)) = cn_log s"
  by (simp add: dispatch_event_def dispatch_canonical_def split: sum.splits option.splits)

lemma consume_log: "\<exists>result. snd (consume_event_log_record env cfg r s) = result \<and>
    cn_log (fst (consume_event_log_record env cfg r s)) =
      update_rows (\<lambda>x. lr_id x = lr_id r) (finishing env cfg result (lr_attempts r)) (cn_log s)"
proof -
  obtain s1 outcome where d: "dispatch_event env cfg (event_from_record env r) (record_source r) s = (s1, outcome)" by fastforce
  then have "cn_log s1 = cn_log s" using dispatch_log [of env cfg "event_from_record env r" "record_source r" s] by simp
  with d show ?thesis by (simp add: consume_event_log_record_def Let_def finish_log)
qed

lemma consume_get:
  obtains result where "get_log_row (cn_log (fst (consume_event_log_record env cfg r s))) j =
      (if j = lr_id r then map_option (finishing env cfg result (lr_attempts r)) (get_log_row (cn_log s) (lr_id r))
       else get_log_row (cn_log s) j)"
  using consume_log [of env cfg r s] by (auto simp: get_update)

lemma consume_ok:
  assumes "log_ok (cn_log s)" "get_log_row (cn_log s) (lr_id r) = Some r" "1 \<le> lr_attempts r"
  shows "log_ok (cn_log (fst (consume_event_log_record env cfg r s)))"
proof -
  obtain result where log: "cn_log (fst (consume_event_log_record env cfg r s)) =
      update_rows (\<lambda>x. lr_id x = lr_id r) (finishing env cfg result (lr_attempts r)) (cn_log s)" using consume_log by blast
  show ?thesis unfolding log
  proof (rule log_ok_update [OF assms(1) keeps_finishing])
    fix x assume "get_log_row (cn_log s) (lr_id x) = Some x" "lr_id x = lr_id r"
    then have "x = r" using assms(2) by simp
    then show "row_ok (finishing env cfg result (lr_attempts r) x)" using finishing_ok assms(3) by simp
  qed
qed

text \<open>The loop of a replay, over claimed rows with distinct ids.\<close>

definition claimed_in :: "log_row list \<Rightarrow> event_log \<Rightarrow> bool" where
  "claimed_in rs l \<longleftrightarrow> (\<forall>r\<in>set rs. get_log_row l (lr_id r) = Some r \<and> 1 \<le> lr_attempts r)"

lemma replay_fold:
  assumes "log_ok (cn_log s)" "distinct (map lr_id rs)" "claimed_in rs (cn_log s)"
  shows "log_ok (cn_log (fst (fold (replay_record env cfg) rs (s, n)))) \<and>
    (\<forall>j. j \<notin> lr_id ` set rs \<longrightarrow> get_log_row (cn_log (fst (fold (replay_record env cfg) rs (s, n)))) j = get_log_row (cn_log s) j) \<and>
    (\<forall>r\<in>set rs. \<exists>x. get_log_row (cn_log (fst (fold (replay_record env cfg) rs (s, n)))) (lr_id r) = Some x \<and> same_event x r \<and>
       lr_status x \<in> {EV_PROCESSED, EV_IGNORED, EV_DEAD_LETTER, EV_RETRY_WAIT})"
  using assms
proof (induction rs arbitrary: s n)
  case (Cons r rs)
  let ?s = "fst (consume_event_log_record env cfg r s)"
  have r: "get_log_row (cn_log s) (lr_id r) = Some r" "1 \<le> lr_attempts r" using Cons.prems(3) by (auto simp: claimed_in_def)
  obtain m where step: "replay_record env cfg r (s, n) = (?s, m)" by (simp add: replay_record_def case_prod_beta)
  obtain result where log: "cn_log ?s = update_rows (\<lambda>x. lr_id x = lr_id r) (finishing env cfg result (lr_attempts r)) (cn_log s)"
    using consume_log by blast
  have get: "get_log_row (cn_log ?s) j = (if j = lr_id r then Some (finishing env cfg result (lr_attempts r) r) else get_log_row (cn_log s) j)" for j
    using r(1) by (simp add: log get_update)
  have dist: "distinct (map lr_id rs)" "lr_id r \<notin> lr_id ` set rs" using Cons.prems(2) by auto
  have others: "claimed_in rs (cn_log ?s)"
    unfolding claimed_in_def
  proof
    fix q assume q: "q \<in> set rs"
    then have "lr_id q \<noteq> lr_id r" using dist(2) by (metis image_eqI)
    then show "get_log_row (cn_log ?s) (lr_id q) = Some q \<and> 1 \<le> lr_attempts q"
      using Cons.prems(3) q get [of "lr_id q"] unfolding claimed_in_def by simp
  qed
  let ?final = "cn_log (fst (fold (replay_record env cfg) rs (?s, m)))"
  note IH = Cons.IH [OF consume_ok [OF Cons.prems(1) r] dist(1) others, of m]
  have head: "get_log_row ?final (lr_id r) = Some (finishing env cfg result (lr_attempts r) r)"
    using IH [THEN conjunct2, THEN conjunct1, rule_format, OF dist(2)] get [of "lr_id r"] by simp
  have "same_event (finishing env cfg result (lr_attempts r) r) r" using keeps_finishing by (simp add: keeps_event_def)
  with head have first: "\<exists>x. get_log_row ?final (lr_id r) = Some x \<and> same_event x r \<and>
      lr_status x \<in> {EV_PROCESSED, EV_IGNORED, EV_DEAD_LETTER, EV_RETRY_WAIT}"
    using finishing_status by blast
  have frame: "get_log_row ?final j = get_log_row (cn_log s) j" if "j \<notin> lr_id ` set (r # rs)" for j
  proof -
    have "j \<notin> lr_id ` set rs" "j \<noteq> lr_id r" using that by auto
    then show ?thesis using IH [THEN conjunct2, THEN conjunct1, rule_format, of j] get [of j] by simp
  qed
  have "fold (replay_record env cfg) (r # rs) (s, n) = fold (replay_record env cfg) rs (?s, m)" by (simp add: step)
  then show ?case using IH [THEN conjunct1] IH [THEN conjunct2, THEN conjunct2] first frame by (metis set_ConsD)
qed simp

section \<open>Steps of the consumer\<close>

text \<open>The ids that a replay asks for, and the rows that it claims.\<close>

definition replay_ids :: "time \<Rightarrow> nat \<Rightarrow> event_log \<Rightarrow> int list" where
  "replay_ids t n l = map lr_id (take n (sort_key lr_received_at
     (filter (\<lambda>r. claimable t r \<and> lr_event_type r \<in> set REPLAYABLE_GATEWAY_EVENT_TYPES) (t_rows l))))"

lemma replay_ids_distinct:
  assumes "log_table_ok l" shows "distinct (replay_ids t n l)"
proof -
  let ?rows = "filter (\<lambda>r. claimable t r \<and> lr_event_type r \<in> set REPLAYABLE_GATEWAY_EVENT_TYPES) (t_rows l)"
  have "distinct (map lr_id (t_rows l))" using assms by (rule table_ok_distinct)
  then have "distinct (map lr_id ?rows)" by (rule distinct_map_filter)
  moreover have "mset (map lr_id (sort_key lr_received_at ?rows)) = mset (map lr_id ?rows)" by (simp only: mset_map mset_sort)
  ultimately have "distinct (map lr_id (sort_key lr_received_at ?rows))" using mset_eq_imp_distinct_iff by blast
  then show ?thesis unfolding replay_ids_def take_map [symmetric] by (rule distinct_take)
qed

definition replay_limit :: "consumer_config \<Rightarrow> event_log_config \<Rightarrow> int option \<Rightarrow> int" where
  "replay_limit cfg lcfg limit =
     min (max 0 (case limit of Some k \<Rightarrow> if k = 0 then ecf_replay_batch_size cfg else k | None \<Rightarrow> ecf_replay_batch_size cfg))
       (elc_max_pending_replay lcfg)"

definition replay_claims :: "consumer_env \<Rightarrow> consumer_config \<Rightarrow> event_log_config \<Rightarrow> int option \<Rightarrow> event_log \<Rightarrow> event_log \<times> log_row list" where
  "replay_claims env cfg lcfg limit l =
     claim_pending_events lcfg (case limit of Some k \<Rightarrow> if k = 0 then ecf_replay_batch_size cfg else k | None \<Rightarrow> ecf_replay_batch_size cfg)
       REPLAYABLE_GATEWAY_EVENT_TYPES (cne_worker_id env) (Some (ecf_processing_lease_sec cfg)) (cne_now env) l"

definition no_counts :: "nat \<Rightarrow> replay_counts" where
  "no_counts n = \<lparr>rp_claimed = n, rp_processed = 0, rp_duplicate = 0, rp_ignored = 0, rp_retry = 0,
     rp_failed = 0, rp_dead_letter = 0, rp_reconcile_required = 0\<rparr>"

lemma replay_log:
  "ecf_replay_enabled cfg \<Longrightarrow> cn_log (fst (replay_pending env cfg lcfg limit s)) =
     cn_log (fst (fold (replay_record env cfg) (snd (replay_claims env cfg lcfg limit (cn_log s)))
       (s\<lparr>cn_log := fst (replay_claims env cfg lcfg limit (cn_log s))\<rparr>,
        no_counts (length (snd (replay_claims env cfg lcfg limit (cn_log s)))))))"
  unfolding replay_pending_def replay_claims_def [symmetric] no_counts_def [symmetric] Let_def case_prod_beta by simp

lemma replay_claims_fold:
  assumes "0 < replay_limit cfg lcfg limit"
  obtains w n where "replay_claims env cfg lcfg limit l =
    fold (claim_one (whole_second (cne_now env)) w n)
      (replay_ids (whole_second (cne_now env)) (nat (replay_limit cfg lcfg limit)) l) (l, [])"
proof
  have types: "REPLAYABLE_GATEWAY_EVENT_TYPES \<noteq> []" by (simp add: REPLAYABLE_GATEWAY_EVENT_TYPES_def)
  show "replay_claims env cfg lcfg limit l =
    fold (claim_one (whole_second (cne_now env)) (cne_worker_id env)
        (if ecf_processing_lease_sec cfg = 0 then elc_processing_lease_sec lcfg else ecf_processing_lease_sec cfg))
      (replay_ids (whole_second (cne_now env)) (nat (replay_limit cfg lcfg limit)) l) (l, [])"
    using assms types unfolding replay_claims_def claim_pending_events_def replay_ids_def replay_limit_def [symmetric] Let_def by simp
qed

text \<open>A replay: the log stays well-formed, rows that were not claimed stay, claimed rows are settled.\<close>

lemma replay_effect:
  fixes env :: consumer_env
  assumes "log_ok (cn_log s)" "ecf_replay_enabled cfg" "0 < replay_limit cfg lcfg limit"
  defines "ks \<equiv> replay_ids (whole_second (cne_now env)) (nat (replay_limit cfg lcfg limit)) (cn_log s)"
    and "l \<equiv> cn_log (fst (replay_pending env cfg lcfg limit s))"
  shows "log_ok l"
    "get_log_row (cn_log s) k = Some r \<Longrightarrow> k \<notin> set ks \<or> \<not> claimable (whole_second (cne_now env)) r \<Longrightarrow> get_log_row l k = Some r"
    "get_log_row (cn_log s) k = Some r \<Longrightarrow> k \<in> set ks \<Longrightarrow> claimable (whole_second (cne_now env)) r \<Longrightarrow>
       \<exists>x. get_log_row l k = Some x \<and> same_event x r \<and> lr_status x \<in> {EV_PROCESSED, EV_IGNORED, EV_DEAD_LETTER, EV_RETRY_WAIT}"
    "get_log_row (cn_log s) k = None \<Longrightarrow> get_log_row l k = None"
proof -
  let ?t = "whole_second (cne_now env)"
  let ?c = "replay_claims env cfg lcfg limit (cn_log s)"
  obtain w n where c: "?c = fold (claim_one ?t w n) ks (cn_log s, [])"
    using replay_claims_fold [OF assms(3), of env "cn_log s"] unfolding ks_def by blast
  have log: "l = cn_log (fst (fold (replay_record env cfg) (snd ?c) (s\<lparr>cn_log := fst ?c\<rparr>, no_counts (length (snd ?c)))))"
    unfolding l_def by (rule replay_log [OF assms(2)])
  let ?s = "s\<lparr>cn_log := fst ?c\<rparr>"
  have ks: "distinct ks" unfolding ks_def by (rule replay_ids_distinct) (use assms(1) in \<open>simp add: log_ok_def\<close>)
  have ok: "log_ok (cn_log ?s)"
    using claim_fold_ok [of "(cn_log s, [])" ?t w n ks, folded c] assms(1) by simp
  have rows: "claimed_in (snd ?c) (cn_log ?s)"
    unfolding claimed_in_def
  proof
    fix q assume q: "q \<in> set (snd ?c)"
    have "get_log_row (fst ?c) (lr_id q) = Some q" "lr_status q = EV_PROCESSING" using claimed_rows [OF ks, of _ ?t w n "cn_log s", folded c, OF q] by auto
    moreover have "row_ok q" using log_ok_get [of "fst ?c"] ok calculation(1) by simp
    ultimately show "get_log_row (cn_log ?s) (lr_id q) = Some q \<and> 1 \<le> lr_attempts q" by (simp add: row_ok_def)
  qed
  note fold = replay_fold [OF ok claimed_distinct [OF ks, of ?t w n "cn_log s", folded c] rows, of env cfg "no_counts (length (snd ?c))", folded log]
  show "log_ok l" using fold by blast
  have claimed: "k \<in> lr_id ` set (snd ?c) \<longleftrightarrow> k \<in> set ks \<and> (\<exists>x. get_log_row (cn_log s) k = Some x \<and> claimable ?t x)" for k
  proof
    assume "k \<in> lr_id ` set (snd ?c)"
    then obtain q where "q \<in> set (snd ?c)" "k = lr_id q" by auto
    then show "k \<in> set ks \<and> (\<exists>x. get_log_row (cn_log s) k = Some x \<and> claimable ?t x)" using claimed_rows [OF ks, of _ ?t w n "cn_log s", folded c] by blast
  next
    assume "k \<in> set ks \<and> (\<exists>x. get_log_row (cn_log s) k = Some x \<and> claimable ?t x)"
    then obtain x where x: "k \<in> set ks" "get_log_row (cn_log s) k = Some x" "claimable ?t x" by blast
    then have "claim_row ?t w n x \<in> set (snd ?c)"
      using claim_fold [OF ks, of ?t w n "(cn_log s, [])", folded c] by (force simp: claimed_of_def)
    moreover have "lr_id (claim_row ?t w n x) = k" using get_log_row_id [OF x(2)] by (simp add: claim_row_def)
    ultimately show "k \<in> lr_id ` set (snd ?c)" by (metis image_eqI)
  qed
  have mid: "get_log_row (fst ?c) k = (if k \<in> set ks then map_option (row_after_claim ?t w n) (get_log_row (cn_log s) k) else get_log_row (cn_log s) k)" for k
    using claim_fold [OF ks, of ?t w n "(cn_log s, [])" k, folded c] by simp
  have rest: "k \<notin> lr_id ` set (snd ?c) \<Longrightarrow> get_log_row l k = get_log_row (fst ?c) k" for k using fold by simp
  show "get_log_row (cn_log s) k = Some r \<Longrightarrow> k \<notin> set ks \<or> \<not> claimable ?t r \<Longrightarrow> get_log_row l k = Some r"
    using rest [of k] claimed [of k] mid [of k] by (auto simp: row_after_claim_def)
  show "get_log_row (cn_log s) k = None \<Longrightarrow> get_log_row l k = None"
    using rest [of k] claimed [of k] mid [of k] by auto
  assume r: "get_log_row (cn_log s) k = Some r" "k \<in> set ks" "claimable ?t r"
  then have "k \<in> lr_id ` set (snd ?c)" using claimed by blast
  then obtain q where q: "q \<in> set (snd ?c)" "lr_id q = k" by auto
  then have "q = claim_row ?t w n r" using claimed_rows [OF ks, of _ ?t w n "cn_log s", folded c, OF q(1)] r(1) by auto
  then have "same_event q r" using keeps_claim by (simp add: keeps_event_def)
  moreover obtain x where "get_log_row l k = Some x" "same_event x q" "lr_status x \<in> {EV_PROCESSED, EV_IGNORED, EV_DEAD_LETTER, EV_RETRY_WAIT}"
    using fold q by blast
  ultimately show "\<exists>x. get_log_row l k = Some x \<and> same_event x r \<and> lr_status x \<in> {EV_PROCESSED, EV_IGNORED, EV_DEAD_LETTER, EV_RETRY_WAIT}"
    by (auto simp: same_event_def)
qed

lemma recover_ok: "log_ok l \<Longrightarrow> log_ok (fst (recover_stale_claims now l))"
  unfolding recover_stale_claims_def fst_conv
  by (rule log_ok_update) (simp_all add: row_ok_def keeps_event_def same_event_def)

lemma recover_get:
  "get_log_row (fst (recover_stale_claims now l)) k =
   map_option (\<lambda>r. if stale_claim (whole_second now) r
     then r\<lparr>lr_status := EV_PENDING, lr_claimed_at := Blank, lr_claimed_by := [], lr_next_retry_at := Blank\<rparr> else r) (get_log_row l k)"
  unfolding recover_stale_claims_def fst_conv by (rule get_update_all) (simp add: keeps_event_def same_event_def)

lemma log_ok_empty: "log_ok empty_table"
  by (simp add: log_ok_def) (simp add: empty_table_def)

section \<open>A consumer to compute with\<close>

definition sample_consumer_env :: consumer_env where
  "sample_consumer_env = \<lparr>cne_now = 0, cne_checksum = (\<lambda>d. ''sum''), cne_error_text = (\<lambda>e. ''bad value''),
     cne_unserializable = (\<lambda>e. None),
     cne_fresh_id = ''e0'', cne_worker_id = ''w1''\<rparr>"

definition sample_metrics :: consumer_metrics where
  "sample_metrics = \<lparr>cm_live_received = 0, cm_processed = 0, cm_replayed = 0, cm_duplicate = 0, cm_ignored = 0,
     cm_retry = 0, cm_failed = 0, cm_dead_letter = 0, cm_unmatched = 0, cm_last_success_at = Blank, cm_last_error = [],
     cm_last_event_type = [], cm_last_event_at = Blank, cm_last_processed_at = Blank, cm_replay_status = ''IDLE''\<rparr>"

definition sample_consumer :: consumer_state where
  "sample_consumer = \<lparr>cn_db = empty_db, cn_broker = empty_broker_db, cn_receipts = empty_table, cn_log = empty_table,
     cn_dirty = [], cn_running = True, cn_metrics = sample_metrics\<rparr>"

definition sample_event :: "string \<Rightarrow> string \<Rightarrow> pydict \<Rightarrow> gateway_event" where
  "sample_event typ event_id d = \<lparr>ge_type = typ, ge_payload = d, ge_event_id = event_id, ge_request_id = [],
     ge_timestamp = At 0, ge_source = ''kiwoom_gateway'', ge_command_id = [], ge_idempotency_key = []\<rparr>"

definition sample_balance :: gateway_event where
  "sample_balance = sample_event ''balance_snapshot'' ''e1'' [(''account'', PStr ''1234'')]"

end
