(* ===== verification/Event_Workers.thy ===== *)
theory Event_Workers
  imports Event_Props
begin

text \<open>
  Deliveries that overlap. \<open>GatewayEventDispatcher\<close> holds no lock: live events are consumed in the thread of the
  caller, replay and the recovery of claims run in another one (\<open>trading_app/api.py\<close>), and only the single operations of the log
  are locked. A delivery is therefore three steps here: its claim in the log, the dispatch, and the finish of the record that was
  claimed. Records between claim and finish are in flight, in any number and order. A dispatch does not write to the log, so it is
  any change of the rest of the state, in as many steps as one likes, with any result.
\<close>

section \<open>Steps\<close>

record workers =
  wk_state :: consumer_state
  wk_flight :: "log_row list"

text \<open>\<open>consume_live_event\<close> up to the record that it goes on with, and the claim of \<open>replay_pending\<close>. A live event is
  looked up before the claim, in a lock of its own: the claim reads the row again by its id, which nothing changes, so looking it up just
  before the claim gives the same, and an event that is not found does not touch the log.\<close>

definition live_claim ::
  "consumer_env \<Rightarrow> consumer_config \<Rightarrow> event_log_config \<Rightarrow> gateway_event \<Rightarrow> consumer_state \<Rightarrow> consumer_state \<times> log_row list" where
  "live_claim env cfg lcfg e s0 =
     (let s = note_live_event env e s0 in
      if ge_type e \<in> set IGNORED_REPLAY_TYPES then (s, [])
      else case log_record_of (cn_log s) e of
        None \<Rightarrow> (s, [])
      | Some r \<Rightarrow>
          (case claim_event lcfg (lr_id r) (cne_worker_id env) (Some (ecf_processing_lease_sec cfg)) (cne_now env) (cn_log s) of
             (l, None) \<Rightarrow> (s\<lparr>cn_log := l\<rparr>, [])
           | (l, Some claimed) \<Rightarrow> (s\<lparr>cn_log := l\<rparr>, if terminal_event (lr_status claimed) then [] else [claimed])))"

definition replay_claim ::
  "consumer_env \<Rightarrow> consumer_config \<Rightarrow> event_log_config \<Rightarrow> int option \<Rightarrow> consumer_state \<Rightarrow> consumer_state \<times> log_row list" where
  "replay_claim env cfg lcfg limit s =
     (if \<not> ecf_replay_enabled cfg then (s, [])
      else let (l, claimed) = replay_claims env cfg lcfg limit (cn_log s) in (s\<lparr>cn_log := l\<rparr>, claimed))"

datatype worker_call =
    WAppend gateway_event string
  | WLive gateway_event
  | WReplay "int option"
  | WRecover
  | WElsewhere consumer_state
  | WFinish nat processing_result

definition add_flight :: "workers \<Rightarrow> consumer_state \<times> log_row list \<Rightarrow> workers" where
  "add_flight w c = \<lparr>wk_state = fst c, wk_flight = wk_flight w @ snd c\<rparr>"

lemma add_flight_nothing [simp]: "add_flight w (wk_state w, []) = w"
  by (simp add: add_flight_def)

fun worker_step :: "consumer_config \<Rightarrow> event_log_config \<Rightarrow> consumer_env \<times> worker_call \<Rightarrow> workers \<Rightarrow> workers" where
  "worker_step cfg lcfg (env, WAppend e key) w =
     w\<lparr>wk_state := (wk_state w)\<lparr>cn_log := fst (append_gateway_event (cne_unserializable env) lcfg e key (cne_now env) (cn_log (wk_state w)))\<rparr>\<rparr>"
| "worker_step cfg lcfg (env, WLive e) w = add_flight w (live_claim env cfg lcfg e (wk_state w))"
| "worker_step cfg lcfg (env, WReplay limit) w = add_flight w (replay_claim env cfg lcfg limit (wk_state w))"
| "worker_step cfg lcfg (env, WRecover) w = w\<lparr>wk_state := fst (consumer_recover env (wk_state w))\<rparr>"
| "worker_step cfg lcfg (env, WElsewhere s) w = w\<lparr>wk_state := s\<lparr>cn_log := cn_log (wk_state w)\<rparr>\<rparr>"
| "worker_step cfg lcfg (env, WFinish i result) w =
     (if i < length (wk_flight w)
      then \<lparr>wk_state = finish_record env cfg (wk_flight w ! i) result (wk_state w),
            wk_flight = take i (wk_flight w) @ drop (Suc i) (wk_flight w)\<rparr>
      else w)"

definition worker_run ::
  "consumer_config \<Rightarrow> event_log_config \<Rightarrow> (consumer_env \<times> worker_call) list \<Rightarrow> workers \<Rightarrow> workers" where
  "worker_run cfg lcfg calls w = fold (worker_step cfg lcfg) calls w"

abbreviation wk_log :: "workers \<Rightarrow> event_log" where "wk_log w \<equiv> cn_log (wk_state w)"

lemma worker_run_simps [simp]:
  "worker_run cfg lcfg [] w = w" "worker_run cfg lcfg (c # cs) w = worker_run cfg lcfg cs (worker_step cfg lcfg c w)"
  "worker_run cfg lcfg (cs @ ds) w = worker_run cfg lcfg ds (worker_run cfg lcfg cs w)"
  by (simp_all add: worker_run_def)

section \<open>Calls that do not overlap\<close>

text \<open>The functions of the dispatcher are such steps, one delivery after the other.\<close>

lemma consume_is_finish:
  "\<exists>s1 s2 result. worker_run cfg lcfg [(env, WElsewhere s1), (env, WFinish 0 result), (env, WElsewhere s2)] \<lparr>wk_state = s, wk_flight = r # rs\<rparr> =
     \<lparr>wk_state = fst (consume_event_log_record env cfg r s), wk_flight = rs\<rparr>"
proof -
  obtain s1 outcome where d: "dispatch_event env cfg (event_from_record env r) (record_source r) s = (s1, outcome)" by fastforce
  let ?result = "case outcome of Inl err \<Rightarrow> failed_result env r err | Inr x \<Rightarrow> x"
  let ?s2 = "finish_record env cfg r ?result s1"
  let ?s3 = "?s2\<lparr>cn_metrics := record_result env ?result (cn_metrics ?s2)\<rparr>"
  have log: "cn_log s1 = cn_log s" using dispatch_log [of env cfg "event_from_record env r" "record_source r" s] d by simp
  have "fst (consume_event_log_record env cfg r s) = ?s3" by (simp add: consume_event_log_record_def d Let_def)
  moreover have "worker_run cfg lcfg [(env, WElsewhere s1), (env, WFinish 0 ?result), (env, WElsewhere ?s3)] \<lparr>wk_state = s, wk_flight = r # rs\<rparr> =
      \<lparr>wk_state = ?s3, wk_flight = rs\<rparr>"
    by (simp add: log [symmetric])
  ultimately show ?thesis by metis
qed

lemma live_is_run:
  "\<exists>calls. worker_run cfg lcfg calls \<lparr>wk_state = s, wk_flight = []\<rparr> =
     \<lparr>wk_state = fst (consume_live_event env cfg lcfg e s), wk_flight = []\<rparr>"
proof -
  let ?w = "\<lparr>wk_state = s, wk_flight = []\<rparr>" and ?s = "fst (consume_live_event env cfg lcfg e s)"
  let ?c = "live_claim env cfg lcfg e s"
  show ?thesis
  proof (cases "snd ?c")
    case Nil
    have "cn_log ?s = cn_log (fst ?c)"
      using Nil by (auto simp: live_claim_def consume_live_event_def consume_unlogged_def Let_def case_prod_beta
          split: option.splits sum.splits if_splits)
    then have "worker_run cfg lcfg [(env, WLive e), (env, WElsewhere ?s)] ?w = \<lparr>wk_state = ?s, wk_flight = []\<rparr>"
      using Nil by (simp add: add_flight_def)
    then show ?thesis by blast
  next
    case (Cons r rs)
    then have c: "rs = []" "?s = fst (consume_event_log_record env cfg r (fst ?c))"
      by (auto simp: live_claim_def consume_live_event_def Let_def split: option.splits prod.splits if_splits)
    obtain calls where "worker_run cfg lcfg calls \<lparr>wk_state = fst ?c, wk_flight = [r]\<rparr> = \<lparr>wk_state = ?s, wk_flight = []\<rparr>"
      using consume_is_finish [of cfg lcfg env "fst ?c" r "[]"] c(2) by metis
    then have "worker_run cfg lcfg ((env, WLive e) # calls) ?w = \<lparr>wk_state = ?s, wk_flight = []\<rparr>"
      using Cons c(1) by (simp add: add_flight_def)
    then show ?thesis by blast
  qed
qed

lemma replay_is_run:
  "\<exists>calls. worker_run cfg lcfg calls \<lparr>wk_state = s, wk_flight = []\<rparr> =
     \<lparr>wk_state = fst (replay_pending env cfg lcfg limit s), wk_flight = []\<rparr>"
proof (cases "ecf_replay_enabled cfg")
  case False
  then have "worker_run cfg lcfg [] \<lparr>wk_state = s, wk_flight = []\<rparr> = \<lparr>wk_state = fst (replay_pending env cfg lcfg limit s), wk_flight = []\<rparr>"
    by (simp add: replay_pending_def)
  then show ?thesis by blast
next
  case True
  have records: "\<exists>calls. worker_run cfg lcfg calls \<lparr>wk_state = u, wk_flight = rs\<rparr> =
      \<lparr>wk_state = fst (fold (replay_record env cfg) rs (u, n)), wk_flight = []\<rparr>" for rs u n
  proof (induction rs arbitrary: u n)
    case Nil
    show ?case by (intro exI [of _ "[]"]) simp
  next
    case (Cons r rs)
    let ?u = "fst (consume_event_log_record env cfg r u)"
    obtain m where m: "replay_record env cfg r (u, n) = (?u, m)" by (simp add: replay_record_def case_prod_beta)
    obtain c1 where c1: "worker_run cfg lcfg c1 \<lparr>wk_state = u, wk_flight = r # rs\<rparr> = \<lparr>wk_state = ?u, wk_flight = rs\<rparr>"
      using consume_is_finish by blast
    obtain c2 where c2: "worker_run cfg lcfg c2 \<lparr>wk_state = ?u, wk_flight = rs\<rparr> = \<lparr>wk_state = fst (fold (replay_record env cfg) rs (?u, m)), wk_flight = []\<rparr>"
      using Cons by blast
    have "worker_run cfg lcfg (c1 @ c2) \<lparr>wk_state = u, wk_flight = r # rs\<rparr> =
        \<lparr>wk_state = fst (fold (replay_record env cfg) (r # rs) (u, n)), wk_flight = []\<rparr>"
      by (simp add: c1 c2 m)
    then show ?case by blast
  qed
  let ?c = "replay_claim env cfg lcfg limit s" and ?s = "fst (replay_pending env cfg lcfg limit s)"
  let ?n = "no_counts (length (snd ?c))"
  have c: "?c = (s\<lparr>cn_log := fst (replay_claims env cfg lcfg limit (cn_log s))\<rparr>, snd (replay_claims env cfg lcfg limit (cn_log s)))"
    using True by (simp add: replay_claim_def case_prod_beta)
  obtain calls where calls: "worker_run cfg lcfg calls \<lparr>wk_state = fst ?c, wk_flight = snd ?c\<rparr> =
      \<lparr>wk_state = fst (fold (replay_record env cfg) (snd ?c) (fst ?c, ?n)), wk_flight = []\<rparr>" using records by blast
  have "cn_log ?s = cn_log (fst (fold (replay_record env cfg) (snd ?c) (fst ?c, ?n)))" using replay_log [OF True] by (simp add: c)
  then have "worker_run cfg lcfg ((env, WReplay limit) # calls @ [(env, WElsewhere ?s)]) \<lparr>wk_state = s, wk_flight = []\<rparr> =
      \<lparr>wk_state = ?s, wk_flight = []\<rparr>"
    by (simp add: add_flight_def calls)
  then show ?thesis by blast
qed

section \<open>Finished events\<close>

text \<open>A finished row that no delivery holds.\<close>

definition settled :: "workers \<Rightarrow> int \<Rightarrow> log_row \<Rightarrow> bool" where
  "settled w k r \<longleftrightarrow> get_log_row (wk_log w) k = Some r \<and> terminal_event (lr_status r) \<and> k \<notin> lr_id ` set (wk_flight w)"

lemma claim_one_settled:
  assumes "get_log_row (fst c) k = Some r" "terminal_event (lr_status r)" "k \<notin> lr_id ` set (snd c)"
  shows "get_log_row (fst (claim_one t wid n j c)) k = Some r \<and> k \<notin> lr_id ` set (snd (claim_one t wid n j c))"
proof -
  have "\<not> claimable t r" using assms(2) by (auto simp: claimable_def terminal_event_def)
  with assms show ?thesis
    by (cases c) (auto simp: claim_one_cases get_update claim_row_def dest: get_log_row_id split: option.splits)
qed

lemma claim_all_settled:
  assumes "get_log_row (fst c) k = Some r" "terminal_event (lr_status r)" "k \<notin> lr_id ` set (snd c)"
  shows "get_log_row (fst (fold (claim_one t wid n) js c)) k = Some r \<and> k \<notin> lr_id ` set (snd (fold (claim_one t wid n) js c))"
  using assms
proof (induction js arbitrary: c)
  case (Cons j js)
  from Cons.IH [of "claim_one t wid n j c"] claim_one_settled [OF Cons.prems] Cons.prems(2) show ?case by simp
qed simp

lemma replay_claims_cases:
  obtains wid n js where "replay_claims env cfg lcfg limit l = fold (claim_one (whole_second (cne_now env)) wid n) js (l, [])"
proof (cases "0 < replay_limit cfg lcfg limit")
  case True
  then show thesis using replay_claims_fold that by blast
next
  case False
  then have "replay_claims env cfg lcfg limit l = (l, [])"
    unfolding replay_claims_def claim_pending_events_def Let_def replay_limit_def [symmetric] by simp
  then show thesis using that [of _ _ "[]"] by simp
qed

text \<open>What a live claim does: nothing to the log, or one row that is not finished is claimed.\<close>

lemma live_claim_cases:
  obtains "cn_log (fst (live_claim env cfg lcfg e s)) = cn_log s" "snd (live_claim env cfg lcfg e s) = []"
  | j x n where "get_log_row (cn_log s) j = Some x" "\<not> terminal_event (lr_status x)"
    "cn_log (fst (live_claim env cfg lcfg e s)) = update_rows (\<lambda>q. lr_id q = j) (claim_row (whole_second (cne_now env)) (cne_worker_id env) n) (cn_log s)"
    "snd (live_claim env cfg lcfg e s) = [claim_row (whole_second (cne_now env)) (cne_worker_id env) n x]"
proof -
  let ?s = "note_live_event env e s"
  have s: "cn_log ?s = cn_log s" by (simp add: note_live_event_def)
  show thesis
  proof (cases "ge_type e \<in> set IGNORED_REPLAY_TYPES \<or> log_record_of (cn_log s) e = None")
    case True
    then show thesis using that(1) s by (auto simp: live_claim_def Let_def)
  next
    case False
    then obtain r where r: "ge_type e \<notin> set IGNORED_REPLAY_TYPES" "log_record_of (cn_log s) e = Some r" by auto
    show thesis
    proof (cases "get_log_row (cn_log s) (lr_id r)")
      case None
      then show thesis using that(1) r s by (simp add: live_claim_def claim_event_def Let_def)
    next
      case (Some x)
      show thesis
      proof (cases "terminal_event (lr_status x)")
        case True
        then show thesis using that(1) r s Some by (simp add: live_claim_def claim_event_def Let_def)
      next
        case open_row: False
        define n where "n = (if ecf_processing_lease_sec cfg = 0 then elc_processing_lease_sec lcfg else ecf_processing_lease_sec cfg)"
        have "\<not> terminal_event (lr_status (claim_row (whole_second (cne_now env)) (cne_worker_id env) n x))"
          by (simp add: claim_row_def terminal_event_def)
        then show thesis using that(2) [OF Some open_row, of n] r s Some open_row
          by (simp add: live_claim_def claim_event_def Let_def n_def [symmetric])
      qed
    qed
  qed
qed

lemma settled_step:
  assumes "settled w k r" shows "settled (worker_step cfg lcfg c w) k r"
proof -
  obtain env op where c: "c = (env, op)" by (cases c)
  have row: "get_log_row (wk_log w) k = Some r" and fin: "terminal_event (lr_status r)" and free: "k \<notin> lr_id ` set (wk_flight w)"
    using assms by (auto simp: settled_def)
  show ?thesis
  proof (cases op)
    case (WAppend e key)
    with c row fin free append_get show ?thesis by (simp add: settled_def)
  next
    case (WLive e)
    show ?thesis
    proof (rule live_claim_cases [of env cfg lcfg e "wk_state w"])
      assume "cn_log (fst (live_claim env cfg lcfg e (wk_state w))) = wk_log w" "snd (live_claim env cfg lcfg e (wk_state w)) = []"
      with c WLive row fin free show ?thesis by (simp add: settled_def add_flight_def)
    next
      fix j x n
      assume x: "get_log_row (wk_log w) j = Some x" "\<not> terminal_event (lr_status x)" and
        log: "cn_log (fst (live_claim env cfg lcfg e (wk_state w))) =
          update_rows (\<lambda>q. lr_id q = j) (claim_row (whole_second (cne_now env)) (cne_worker_id env) n) (wk_log w)"
          "snd (live_claim env cfg lcfg e (wk_state w)) = [claim_row (whole_second (cne_now env)) (cne_worker_id env) n x]"
      have "j \<noteq> k" using x row fin by auto
      moreover have "lr_id (claim_row (whole_second (cne_now env)) (cne_worker_id env) n x) = j"
        using get_log_row_id [OF x(1)] by (simp add: claim_row_def)
      ultimately show ?thesis using c WLive row fin free by (simp add: settled_def add_flight_def log get_update)
    qed
  next
    case (WReplay limit)
    show ?thesis
    proof (cases "ecf_replay_enabled cfg")
      case True
      obtain wid n js where "replay_claims env cfg lcfg limit (wk_log w) = fold (claim_one (whole_second (cne_now env)) wid n) js (wk_log w, [])"
        by (rule replay_claims_cases)
      with claim_all_settled [of "(wk_log w, [])" k r "whole_second (cne_now env)" wid n js] row fin
      have "get_log_row (fst (replay_claims env cfg lcfg limit (wk_log w))) k = Some r \<and>
          k \<notin> lr_id ` set (snd (replay_claims env cfg lcfg limit (wk_log w)))" by simp
      with True c WReplay fin free show ?thesis
        by (auto simp: settled_def add_flight_def replay_claim_def case_prod_beta)
    next
      case False
      with c WReplay row fin free show ?thesis by (simp add: settled_def add_flight_def replay_claim_def)
    qed
  next
    case WRecover
    have "\<not> stale_claim (whole_second (cne_now env)) r" using fin by (auto simp: stale_claim_def terminal_event_def)
    then have "get_log_row (fst (recover_stale_claims (cne_now env) (wk_log w))) k = Some r" using row by (simp add: recover_get)
    with c WRecover fin free show ?thesis by (simp add: settled_def consumer_recover_def case_prod_beta)
  next
    case (WElsewhere s)
    with c row fin free show ?thesis by (simp add: settled_def)
  next
    case (WFinish i result)
    show ?thesis
    proof (cases "i < length (wk_flight w)")
      case True
      then have "lr_id (wk_flight w ! i) \<noteq> k" using free by (metis image_eqI nth_mem)
      moreover have "k \<notin> lr_id ` set (take i (wk_flight w) @ drop (Suc i) (wk_flight w))"
        using free by (auto dest: in_set_takeD in_set_dropD)
      ultimately show ?thesis using True c WFinish row fin by (simp add: settled_def finish_log get_update)
    next
      case False
      with c WFinish row fin free show ?thesis by (simp add: settled_def)
    qed
  qed
qed

text \<open>C38: A finished event stays finished in every interleaving: once a row of the log is PROCESSED, IGNORED or
  DEAD_LETTER and no delivery of it is in flight, no appended event, live event, replay, recovery, dispatch or finish, in
  whatever order they overlap, changes any column of it, and no delivery takes it up again.\<close>
theorem finished_event_stays_finished:
  assumes "get_log_row (cn_log (wk_state w)) k = Some r" "lr_status r \<in> {EV_PROCESSED, EV_IGNORED, EV_DEAD_LETTER}"
    and "\<forall>q\<in>set (wk_flight w). lr_id q \<noteq> k"
  shows "get_log_row (cn_log (wk_state (worker_run cfg lcfg calls w))) k = Some r \<and>
    (\<forall>q\<in>set (wk_flight (worker_run cfg lcfg calls w)). lr_id q \<noteq> k)"
proof -
  have "settled w k r" using assms by (auto simp: settled_def terminal_event_def)
  then have "settled (worker_run cfg lcfg calls w) k r"
    by (induction calls arbitrary: w) (simp_all add: settled_step)
  then show ?thesis by (auto simp: settled_def)
qed

text \<open>While a delivery holds the row, the guard does not protect it: a live event claims a row that a replay is processing,
  the replay finishes it, and the other delivery, when it fails, puts the finished event back to wait for a retry.\<close>

lemma late_delivery_reopens_finished_event:
  fixes env :: consumer_env
  assumes "get_log_row (wk_log w) k = Some r" "lr_status r = EV_PROCESSING" "i < length (wk_flight w)" "lr_id (wk_flight w ! i) = k"
    and "ge_type e \<notin> set IGNORED_REPLAY_TYPES" "log_record_of (wk_log w) e = Some r" "lr_attempts r + 1 < ecf_max_attempts cfg"
    and "ep_status good = ''APPLIED''" "ep_status bad = ''FAILED''" "ep_retryable bad"
    and w1_def: "w1 = worker_run cfg lcfg [(env, WLive e), (env, WFinish i good)] w"
  shows "map_option lr_status (get_log_row (wk_log w1) k) = Some EV_PROCESSED \<and>
    map_option lr_status (get_log_row (wk_log (worker_step cfg lcfg (env, WFinish (length (wk_flight w1) - 1) bad) w1)) k) = Some EV_RETRY_WAIT"
proof -
  have id: "lr_id r = k" using get_log_row_id [OF assms(1)] .
  define n where "n = (if ecf_processing_lease_sec cfg = 0 then elc_processing_lease_sec lcfg else ecf_processing_lease_sec cfg)"
  define f where "f = claim_row (whole_second (cne_now env)) (cne_worker_id env) n"
  define s where "s = (note_live_event env e (wk_state w))\<lparr>cn_log := update_rows (\<lambda>q. lr_id q = k) f (wk_log w)\<rparr>"
  have fr: "lr_id (f r) = k" "lr_attempts (f r) = lr_attempts r + 1" "\<not> terminal_event (lr_status (f r))"
    by (simp_all add: f_def claim_row_def id terminal_event_def)
  have log0: "cn_log (note_live_event env e (wk_state w)) = wk_log w" by (simp add: note_live_event_def)
  have "live_claim env cfg lcfg e (wk_state w) = (s, [f r])"
    using assms(1,2,5,6) fr(3) by (simp add: live_claim_def claim_event_def Let_def log0 id terminal_event_def n_def [symmetric] f_def [symmetric] s_def)
  then have w1: "w1 = \<lparr>wk_state = finish_record env cfg (wk_flight w ! i) good s, wk_flight = take i (wk_flight w) @ drop (Suc i) (wk_flight w) @ [f r]\<rparr>"
    using assms(3) by (simp add: w1_def add_flight_def nth_append)
  have keep: "keeps_event f" by (simp add: f_def)
  have "get_log_row (cn_log s) k = Some (f r)" using assms(1) by (simp add: s_def get_update [OF keep])
  then have row1: "get_log_row (wk_log w1) k = Some (finishing env cfg good (lr_attempts (wk_flight w ! i)) (f r))"
    using assms(4) by (simp add: w1 finish_log get_update)
  have last: "wk_flight w1 ! (length (wk_flight w1) - 1) = f r" "length (wk_flight w1) - 1 < length (wk_flight w1)"
    using assms(3) by (simp_all add: w1 nth_append min.absorb2 less_imp_le)
  have "get_log_row (wk_log (worker_step cfg lcfg (env, WFinish (length (wk_flight w1) - 1) bad) w1)) k =
      Some (finishing env cfg bad (lr_attempts r + 1) (finishing env cfg good (lr_attempts (wk_flight w ! i)) (f r)))"
    using row1 last fr by (simp add: finish_log get_update)
  with row1 assms(7-10) show ?thesis by (simp add: finishing_def finish_row_def Let_def)
qed

text \<open>An event that is logged, replayed and applied.\<close>

definition sample_workers :: workers where
  "sample_workers = \<lparr>wk_state = sample_consumer, wk_flight = []\<rparr>"

definition sample_replayed :: workers where
  "sample_replayed = worker_run default_consumer_config default_event_log_config
     [(sample_consumer_env, WAppend sample_balance []), (sample_consumer_env, WReplay None),
      (sample_consumer_env, WFinish 0 (no_result\<lparr>ep_status := ''APPLIED''\<rparr>))] sample_workers"

lemma sample_replayed_facts:
  "map_option lr_status (get_log_row (wk_log sample_replayed) 1) = Some EV_PROCESSED" "length (wk_flight sample_replayed) = 0"
  by code_simp+

theorem finished_event_stays_finished_witness:
  "map_option lr_status (get_log_row (wk_log (worker_run default_consumer_config default_event_log_config
     [(sample_consumer_env, WLive sample_balance), (sample_consumer_env, WRecover), (sample_consumer_env, WReplay None)] sample_replayed)) 1) =
   Some EV_PROCESSED"
proof -
  obtain r where r: "get_log_row (wk_log sample_replayed) 1 = Some r" "lr_status r = EV_PROCESSED"
    using sample_replayed_facts(1) by auto
  have free: "\<forall>q\<in>set (wk_flight sample_replayed). lr_id q \<noteq> 1" using sample_replayed_facts(2) by simp
  have "lr_status r \<in> {EV_PROCESSED, EV_IGNORED, EV_DEAD_LETTER}" by (simp add: r(2))
  from finished_event_stays_finished [OF r(1) this free, THEN conjunct1] show ?thesis
    by (simp del: worker_run_simps add: r(2))
qed

section \<open>Attempts\<close>

text \<open>The numbers of the attempts of an event that are in flight. Each claim has a number of its own, and all of them are at
  most the number in the row.\<close>

definition numbers :: "workers \<Rightarrow> int \<Rightarrow> int list" where
  "numbers w k = map lr_attempts (filter (\<lambda>r. lr_id r = k) (wk_flight w))"

definition numbers_ok :: "(int \<Rightarrow> int list) \<Rightarrow> workers \<Rightarrow> bool" where
  "numbers_ok past w \<longleftrightarrow> log_ok (wk_log w) \<and>
     (\<forall>k. distinct (past k @ numbers w k) \<and>
        (\<forall>n\<in>set (past k @ numbers w k). 1 \<le> n \<and> (\<exists>x. get_log_row (wk_log w) k = Some x \<and> n \<le> lr_attempts x)))"

lemma numbers_okD:
  assumes "numbers_ok past w"
  shows "log_ok (wk_log w)" "distinct (past k @ numbers w k)" "n \<in> set (past k @ numbers w k) \<Longrightarrow> 1 \<le> n"
    "n \<in> set (past k @ numbers w k) \<Longrightarrow> \<exists>x. get_log_row (wk_log w) k = Some x \<and> n \<le> lr_attempts x"
  using assms unfolding numbers_ok_def by blast+

text \<open>A change of the log that keeps rows and their attempts.\<close>

lemma numbers_ok_frame:
  assumes "numbers_ok past w" "wk_flight w' = wk_flight w" "log_ok (wk_log w')"
    and "\<And>k x. get_log_row (wk_log w) k = Some x \<Longrightarrow> \<exists>y. get_log_row (wk_log w') k = Some y \<and> lr_attempts y = lr_attempts x"
  shows "numbers_ok past w'"
proof -
  have num: "numbers w' = numbers w" by (simp add: fun_eq_iff numbers_def assms(2))
  have "\<exists>y. get_log_row (wk_log w') k = Some y \<and> n \<le> lr_attempts y"
    if "\<exists>x. get_log_row (wk_log w) k = Some x \<and> n \<le> lr_attempts x" for k n
    using that assms(4) by fastforce
  with assms(1,3) show ?thesis unfolding numbers_ok_def num by blast
qed

lemma numbers_ok_claim:
  fixes w :: workers
  assumes ok: "numbers_ok past w" and x: "get_log_row (wk_log w) j = Some x"
    and w': "wk_log w' = update_rows (\<lambda>q. lr_id q = j) (claim_row t wid n) (wk_log w)" "wk_flight w' = wk_flight w @ [claim_row t wid n x]"
  shows "numbers_ok past w'"
proof -
  have id: "lr_id x = j" using get_log_row_id [OF x] .
  have num: "numbers w' k = numbers w k @ (if k = j then [lr_attempts x + 1] else [])" for k
    by (simp add: numbers_def w'(2) claim_row_def id)
  have get: "get_log_row (wk_log w') k = (if k = j then Some (claim_row t wid n x) else get_log_row (wk_log w) k)" for k
    using x by (simp add: w'(1) get_update)
  have "0 \<le> lr_attempts x" using log_ok_get [OF numbers_okD(1) [OF ok] x] by (simp add: row_ok_def)
  moreover have below: "m \<in> set (past j @ numbers w j) \<Longrightarrow> m \<le> lr_attempts x" for m
    using numbers_okD(4) [OF ok, of m j] x by auto
  moreover have "log_ok (wk_log w')"
    unfolding w'(1) by (rule log_ok_update [OF numbers_okD(1) [OF ok] keeps_claim]) (rule row_ok_claimed)
  moreover have "distinct (past k @ numbers w' k)" for k
    using numbers_okD(2) [OF ok, of k] below by (fastforce simp: num)
  moreover have "1 \<le> m \<and> (\<exists>y. get_log_row (wk_log w') k = Some y \<and> m \<le> lr_attempts y)" if "m \<in> set (past k @ numbers w' k)" for k m
  proof (cases "k = j")
    case True
    with that have "m = lr_attempts x + 1 \<or> m \<in> set (past j @ numbers w j)" by (auto simp: num)
    with True show ?thesis
      using below [of m] numbers_okD(3) [OF ok, of m j] calculation(1) by (auto simp: get claim_row_def)
  next
    case False
    with that numbers_okD(3,4) [OF ok, of m k] show ?thesis by (simp add: num get)
  qed
  ultimately show ?thesis unfolding numbers_ok_def by blast
qed

lemma numbers_ok_claims:
  assumes "numbers_ok past \<lparr>wk_state = s\<lparr>cn_log := fst c\<rparr>, wk_flight = rs @ snd c\<rparr>"
  shows "numbers_ok past \<lparr>wk_state = s\<lparr>cn_log := fst (fold (claim_one t wid n) js c)\<rparr>, wk_flight = rs @ snd (fold (claim_one t wid n) js c)\<rparr>"
  using assms
proof (induction js arbitrary: c)
  case (Cons j js)
  have "numbers_ok past \<lparr>wk_state = s\<lparr>cn_log := fst (claim_one t wid n j c)\<rparr>, wk_flight = rs @ snd (claim_one t wid n j c)\<rparr>"
  proof (cases "\<exists>x. get_log_row (fst c) j = Some x \<and> claimable t x")
    case True
    then obtain x where x: "get_log_row (fst c) j = Some x" "claimable t x" by blast
    then have "claim_one t wid n j c = (update_rows (\<lambda>q. lr_id q = j) (claim_row t wid n) (fst c), snd c @ [claim_row t wid n x])"
      by (cases c) (simp add: claim_one_cases)
    with x(1) show ?thesis by (intro numbers_ok_claim [OF Cons.prems, of j x]) simp_all
  next
    case False
    then have "claim_one t wid n j c = c" by (cases c) (auto simp: claim_one_cases split: option.split)
    with Cons.prems show ?thesis by simp
  qed
  from Cons.IH [OF this] show ?case by simp
qed simp

text \<open>The attempt that a step puts off: it finishes a delivery of the event and leaves its row waiting for a retry.\<close>

definition put_off_now :: "consumer_config \<Rightarrow> event_log_config \<Rightarrow> consumer_env \<times> worker_call \<Rightarrow> workers \<Rightarrow> int \<Rightarrow> int list" where
  "put_off_now cfg lcfg c w k =
     (case snd c of
        WFinish i result \<Rightarrow>
          if i < length (wk_flight w) \<and> lr_id (wk_flight w ! i) = k \<and>
             map_option lr_status (get_log_row (wk_log (worker_step cfg lcfg c w)) k) = Some EV_RETRY_WAIT
          then [lr_attempts (wk_flight w ! i)] else []
      | _ \<Rightarrow> [])"

fun put_off :: "consumer_config \<Rightarrow> event_log_config \<Rightarrow> (consumer_env \<times> worker_call) list \<Rightarrow> workers \<Rightarrow> int \<Rightarrow> int list" where
  "put_off cfg lcfg [] w k = []"
| "put_off cfg lcfg (c # cs) w k = put_off_now cfg lcfg c w k @ put_off cfg lcfg cs (worker_step cfg lcfg c w) k"

lemma finishing_attempts [simp]: "lr_attempts (finishing env cfg result n x) = lr_attempts x"
  by (simp add: finishing_def finish_row_def Let_def)

lemma finishing_waits: "lr_status (finishing env cfg result n x) = EV_RETRY_WAIT \<Longrightarrow> n < ecf_max_attempts cfg"
  by (auto simp: finishing_def finish_row_def Let_def split: if_splits)

lemma finish_step_ok:
  assumes ok: "numbers_ok past w" and i: "i < length (wk_flight w)"
    and w'_def: "w' = worker_step cfg lcfg (env, WFinish i result) w"
  shows "numbers_ok (\<lambda>k. past k @ put_off_now cfg lcfg (env, WFinish i result) w k) w'"
    "n \<in> set (put_off_now cfg lcfg (env, WFinish i result) w k) \<Longrightarrow> n < ecf_max_attempts cfg"
proof -
  obtain A r B where flight: "wk_flight w = A @ r # B" "length A = i" using i by (metis id_take_nth_drop length_take min.absorb4)
  have r: "wk_flight w ! i = r" and rest: "wk_flight w' = A @ B" and
    log: "wk_log w' = update_rows (\<lambda>x. lr_id x = lr_id r) (finishing env cfg result (lr_attempts r)) (wk_log w)"
    using i flight by (simp_all add: w'_def finish_log nth_append)
  have num: "numbers w k = map lr_attempts (filter (\<lambda>r. lr_id r = k) A) @ (if lr_id r = k then [lr_attempts r] else []) @
      map lr_attempts (filter (\<lambda>r. lr_id r = k) B)"
    "numbers w' k = map lr_attempts (filter (\<lambda>r. lr_id r = k) A) @ map lr_attempts (filter (\<lambda>r. lr_id r = k) B)" for k
    by (simp_all add: numbers_def flight rest)
  have now: "put_off_now cfg lcfg (env, WFinish i result) w k = (if lr_id r = k \<and>
      map_option lr_status (get_log_row (wk_log w') k) = Some EV_RETRY_WAIT then [lr_attempts r] else [])" for k
    using i by (simp add: put_off_now_def r w'_def del: worker_step.simps)
  have get: "get_log_row (wk_log w') k = (if k = lr_id r then map_option (finishing env cfg result (lr_attempts r)) (get_log_row (wk_log w) k)
      else get_log_row (wk_log w) k)" for k
    by (simp add: log get_update)
  show "n \<in> set (put_off_now cfg lcfg (env, WFinish i result) w k) \<Longrightarrow> n < ecf_max_attempts cfg"
    by (auto simp: now get split: if_splits dest: finishing_waits)
  have rows: "log_ok (wk_log w')"
    unfolding log
  proof (rule log_ok_update [OF numbers_okD(1) [OF ok] keeps_finishing])
    fix x assume "get_log_row (wk_log w) (lr_id x) = Some x" "lr_id x = lr_id r"
    moreover have "lr_attempts r \<in> set (past (lr_id r) @ numbers w (lr_id r))" by (simp add: num)
    ultimately have "1 \<le> lr_attempts x" using numbers_okD(3,4) [OF ok, of "lr_attempts r" "lr_id r"] by fastforce
    then show "row_ok (finishing env cfg result (lr_attempts r) x)"
      by (auto simp: finishing_def finish_row_def row_ok_def retry_instant_def Let_def)
  qed
  moreover have "distinct ((past k @ put_off_now cfg lcfg (env, WFinish i result) w k) @ numbers w' k)" for k
    using numbers_okD(2) [OF ok, of k] by (auto simp: num now)
  moreover have "1 \<le> m \<and> (\<exists>x. get_log_row (wk_log w') k = Some x \<and> m \<le> lr_attempts x)"
    if "m \<in> set ((past k @ put_off_now cfg lcfg (env, WFinish i result) w k) @ numbers w' k)" for k m
  proof -
    have "m \<in> set (past k @ numbers w k)" using that by (auto simp: num now split: if_splits)
    with numbers_okD(3,4) [OF ok, of m k] show ?thesis by (auto simp: get)
  qed
  ultimately show "numbers_ok (\<lambda>k. past k @ put_off_now cfg lcfg (env, WFinish i result) w k) w'" unfolding numbers_ok_def by blast
qed

lemma worker_step_ok:
  assumes ok: "numbers_ok past w"
  shows "numbers_ok (\<lambda>k. past k @ put_off_now cfg lcfg c w k) (worker_step cfg lcfg c w) \<and>
    (\<forall>k. \<forall>n\<in>set (put_off_now cfg lcfg c w k). n < ecf_max_attempts cfg)"
proof -
  obtain env op where c: "c = (env, op)" by (cases c)
  have state: "\<lparr>wk_state = (wk_state w)\<lparr>cn_log := wk_log w\<rparr>, wk_flight = wk_flight w\<rparr> = w" by simp
  have none: "numbers_ok past (worker_step cfg lcfg c w)" if "\<And>i result. op \<noteq> WFinish i result"
  proof (cases op)
    case (WAppend e key)
    then show ?thesis unfolding c
      by (intro numbers_ok_frame [OF ok]) (auto simp: append_ok [OF numbers_okD(1) [OF ok]] append_get)
  next
    case (WLive e)
    show ?thesis
    proof (rule live_claim_cases [of env cfg lcfg e "wk_state w"])
      assume "cn_log (fst (live_claim env cfg lcfg e (wk_state w))) = wk_log w" "snd (live_claim env cfg lcfg e (wk_state w)) = []"
      with numbers_okD(1) [OF ok] show ?thesis unfolding c WLive
        by (intro numbers_ok_frame [OF ok]) (simp_all add: add_flight_def)
    next
      fix j x n
      assume "get_log_row (wk_log w) j = Some x"
        "cn_log (fst (live_claim env cfg lcfg e (wk_state w))) =
          update_rows (\<lambda>q. lr_id q = j) (claim_row (whole_second (cne_now env)) (cne_worker_id env) n) (wk_log w)"
        "snd (live_claim env cfg lcfg e (wk_state w)) = [claim_row (whole_second (cne_now env)) (cne_worker_id env) n x]"
      then show ?thesis unfolding c WLive by (intro numbers_ok_claim [OF ok]) (simp_all add: add_flight_def)
    qed
  next
    case (WReplay limit)
    show ?thesis
    proof (cases "ecf_replay_enabled cfg")
      case True
      obtain wid n js where fold: "replay_claims env cfg lcfg limit (wk_log w) = fold (claim_one (whole_second (cne_now env)) wid n) js (wk_log w, [])"
        by (rule replay_claims_cases)
      have "numbers_ok past \<lparr>wk_state = (wk_state w)\<lparr>cn_log := fst (replay_claims env cfg lcfg limit (wk_log w))\<rparr>,
          wk_flight = wk_flight w @ snd (replay_claims env cfg lcfg limit (wk_log w))\<rparr>"
        unfolding fold by (rule numbers_ok_claims) (use ok in \<open>simp only: state fst_conv snd_conv append_Nil2\<close>)
      with True show ?thesis by (simp add: c WReplay add_flight_def replay_claim_def case_prod_beta)
    next
      case False
      with ok show ?thesis by (simp add: c WReplay replay_claim_def)
    qed
  next
    case WRecover
    then show ?thesis unfolding c
      by (intro numbers_ok_frame [OF ok])
        (auto simp: consumer_recover_def case_prod_beta recover_ok [OF numbers_okD(1) [OF ok]] recover_get)
  next
    case (WElsewhere s)
    with numbers_okD(1) [OF ok] show ?thesis unfolding c by (intro numbers_ok_frame [OF ok]) simp_all
  qed (use that in blast)
  show ?thesis
  proof (cases "\<exists>i result. op = WFinish i result \<and> i < length (wk_flight w)")
    case True
    then show ?thesis using finish_step_ok [OF ok _ refl] c by blast
  next
    case False
    then have "put_off_now cfg lcfg c w k = []" for k by (auto simp: put_off_now_def c split: worker_call.split)
    moreover have "numbers_ok past (worker_step cfg lcfg c w)"
    proof (cases "\<exists>i result. op = WFinish i result")
      case True
      with False ok c show ?thesis by auto
    qed (use none in blast)
    ultimately show ?thesis by simp
  qed
qed

lemma put_off_ok:
  assumes "numbers_ok past w" "\<forall>k. \<forall>n\<in>set (past k). n < ecf_max_attempts cfg"
  shows "numbers_ok (\<lambda>k. past k @ put_off cfg lcfg calls w k) (worker_run cfg lcfg calls w) \<and>
    (\<forall>k. \<forall>n\<in>set (past k @ put_off cfg lcfg calls w k). n < ecf_max_attempts cfg)"
  using assms
proof (induction calls arbitrary: past w)
  case (Cons c calls)
  let ?past = "\<lambda>k. past k @ put_off_now cfg lcfg c w k"
  from worker_step_ok [OF Cons.prems(1), of cfg lcfg c] Cons.prems(2)
  have "numbers_ok ?past (worker_step cfg lcfg c w)" "\<forall>k. \<forall>n\<in>set (?past k). n < ecf_max_attempts cfg" by auto
  from Cons.IH [OF this] show ?case by simp
qed simp

text \<open>C40: Retries are bounded in every interleaving: in any run of overlapping deliveries, replays, recoveries and finishes
  that starts with an empty log, the deliveries of one event that are put off for a retry have different attempt numbers, all
  of them below the limit of attempts, so there are fewer of them than the limit; and ids and duplicate keys of the log stay
  unique and every row is as its status demands (a claim has a lease, a finished event says when it was finished, a failed one
  why). The number of claims is not bounded: a claim whose lease runs out is pending again.\<close>
theorem retries_are_bounded:
  assumes "cn_log s = empty_table"
  defines "w \<equiv> \<lparr>wk_state = s, wk_flight = []\<rparr>"
  shows "distinct (put_off cfg lcfg calls w k) \<and> set (put_off cfg lcfg calls w k) \<subseteq> {1..<ecf_max_attempts cfg} \<and>
    int (length (put_off cfg lcfg calls w k)) \<le> max 0 (ecf_max_attempts cfg - 1) \<and>
    log_ok (cn_log (wk_state (worker_run cfg lcfg calls w)))"
proof -
  have "numbers_ok (\<lambda>k. []) w" using assms(1) log_ok_empty by (simp add: numbers_ok_def w_def numbers_def)
  from put_off_ok [OF this, of cfg lcfg calls] have ok: "numbers_ok (\<lambda>k. put_off cfg lcfg calls w k) (worker_run cfg lcfg calls w)"
    and low: "\<forall>n\<in>set (put_off cfg lcfg calls w k). n < ecf_max_attempts cfg" by simp_all
  have dist: "distinct (put_off cfg lcfg calls w k)" using numbers_okD(2) [OF ok, of k] by simp
  have sub: "set (put_off cfg lcfg calls w k) \<subseteq> {1..<ecf_max_attempts cfg}" using numbers_okD(3) [OF ok, of _ k] low by auto
  have "length (put_off cfg lcfg calls w k) = card (set (put_off cfg lcfg calls w k))" using dist by (simp add: distinct_card)
  also have "\<dots> \<le> card {1..<ecf_max_attempts cfg}" by (rule card_mono [OF _ sub]) simp
  finally have "int (length (put_off cfg lcfg calls w k)) \<le> max 0 (ecf_max_attempts cfg - 1)" by simp
  with dist sub numbers_okD(1) [OF ok] show ?thesis by blast
qed

theorem retries_are_bounded_witness:
  "set (put_off default_consumer_config default_event_log_config
     [(sample_consumer_env, WAppend sample_balance []), (sample_consumer_env, WReplay None),
      (sample_consumer_env, WFinish 0 (no_result\<lparr>ep_status := ''FAILED'', ep_retryable := True\<rparr>))] sample_workers 1) \<subseteq> {1..<5}"
proof -
  have start: "cn_log sample_consumer = empty_table" and most: "ecf_max_attempts default_consumer_config = 5"
    by (simp_all add: sample_consumer_def default_consumer_config_def)
  show ?thesis
    unfolding sample_workers_def
    using retries_are_bounded [OF start, of default_consumer_config default_event_log_config _ 1, unfolded most] by blast
qed

end
