(* ===== verification/Event_Consumer_Props.thy ===== *)
theory Event_Consumer_Props
  imports Event_Workers
begin

text \<open>
  Receipts and the properties of the consumer over any sequence of calls.
\<close>

section \<open>Decoded events\<close>

lemma dedupe_key_nonempty: "dedupe_key_for_gateway_event e \<noteq> []"
  by (simp add: dedupe_key_for_gateway_event_def Let_def)

lemma canonical_key_nonempty: "canonical_dedupe_key typ d source e \<noteq> []"
  by (simp add: canonical_dedupe_key_def Let_def dedupe_key_nonempty)

lemma map_sum_Inr: "map_sum f g m = Inr y \<longleftrightarrow> (\<exists>x. m = Inr x \<and> y = g x)"
  by (cases m) auto

definition deliverable :: "canonical_event \<Rightarrow> bool" where
  "deliverable c \<longleftrightarrow> cv_source_event_id c \<noteq> [] \<and> cv_dedupe_key c \<noteq> [] \<and> \<not> cv_ignored c"

lemma canonical_fields: "canonical e d source typ = Inr c \<Longrightarrow> deliverable c"
  using canonical_key_nonempty
  by (auto simp: canonical_def canonical_of_def map_sum_Inr Let_def str_or_def deliverable_def split: if_splits)

lemma ignored_fields: "ignored_event e d source reason = Inr c \<Longrightarrow> cv_ignored c"
  by (auto simp: ignored_event_def map_sum_Inr)

lemma decode_fill_fields: "decode_fill e d source = Inr c \<Longrightarrow> deliverable c"
  unfolding decode_fill_def bindE_eq_Inr fill_event_of_def by (elim exE conjE) (rule canonical_fields)

lemma chejan_fields: "chejan_event_of e d source n = Inr c \<Longrightarrow> deliverable c"
  unfolding chejan_event_of_def Let_def by (simp only: split: if_splits) (erule canonical_fields decode_fill_fields)+

lemma command_fields: "command_event_of e d source n = Inr c \<Longrightarrow> deliverable c"
  unfolding command_event_of_def Let_def by (simp only: split: if_splits) (erule canonical_fields)+

lemma decode_order_fields: "decode_kiwoom_order_chejan e d source = Inr c \<Longrightarrow> deliverable c"
  unfolding decode_kiwoom_order_chejan_def by (simp only: bindE_eq_Inr split: if_splits) (auto dest: canonical_fields chejan_fields)

lemma decode_command_fields: "decode_command_event e d source = Inr c \<Longrightarrow> deliverable c"
  unfolding decode_command_event_def bindE_eq_Inr by (auto dest: command_fields)

lemma decode_fields:
  assumes "decode_event cfg e source = Inr c" "\<not> cv_ignored c"
  shows "cv_source_event_id c \<noteq> [] \<and> cv_dedupe_key c \<noteq> []"
proof -
  have "deliverable c"
    using assms unfolding decode_event_def Let_def
    by (simp only: split: if_splits option.splits)
      (auto dest: canonical_fields ignored_fields decode_fill_fields decode_order_fields decode_command_fields)
  then show ?thesis by (simp add: deliverable_def)
qed

section \<open>Receipts stay\<close>

definition receipts_kept :: "event_receipt table \<Rightarrow> event_receipt table \<Rightarrow> bool" where
  "receipts_kept t t' \<longleftrightarrow>
     (\<forall>r\<in>set (t_rows t). \<exists>q\<in>set (t_rows t'). rc_source_event_id q = rc_source_event_id r \<and> rc_dedupe_key q = rc_dedupe_key r)"

lemma receipts_refl [simp]: "receipts_kept t t"
  unfolding receipts_kept_def by blast

lemma receipts_trans: "receipts_kept a b \<Longrightarrow> receipts_kept b c \<Longrightarrow> receipts_kept a c"
  unfolding receipts_kept_def by metis

lemma receipts_update: "receipts_kept t (update_rows P (\<lambda>r. r\<lparr>rc_apply_status := x\<rparr>) t)"
  unfolding receipts_kept_def
proof
  fix r assume "r \<in> set (t_rows t)"
  then have "(if P r then r\<lparr>rc_apply_status := x\<rparr> else r) \<in> set (t_rows (update_rows P (\<lambda>r. r\<lparr>rc_apply_status := x\<rparr>) t))"
    by (auto simp: update_rows_def)
  then show "\<exists>q\<in>set (t_rows (update_rows P (\<lambda>r. r\<lparr>rc_apply_status := x\<rparr>) t)). rc_source_event_id q = rc_source_event_id r \<and> rc_dedupe_key q = rc_dedupe_key r"
    by (rule rev_bexI) simp
qed

lemma save_receipt_kept: "receipts_kept t (fst (save_receipt_row p t))"
  by (auto simp: save_receipt_row_def Let_def receipts_update split: option.splits)
    (auto simp: receipts_kept_def insert_row_def)

lemma save_receipt_new:
  assumes "find_receipt t source key = None" "source \<noteq> []" "key \<noteq> []" "rc_source_event_id p = source" "rc_dedupe_key p = key"
  shows "\<exists>q\<in>set (t_rows (fst (save_receipt_row p t))). rc_source_event_id q = source \<and> rc_dedupe_key q = key"
proof -
  have none: "find (\<lambda>r. rc_source_event_id r = source) (t_rows t) = None" "find (\<lambda>r. rc_dedupe_key r = key) (t_rows t) = None"
    using assms by (auto simp: find_receipt_def split: option.splits)
  then have "\<not> (\<exists>r\<in>set (t_rows t). rc_dedupe_key r = key)" by (auto simp: find_None_iff)
  with none(1) assms(2-5) have "save_receipt_row p t = (insert_row (\<lambda>k. p\<lparr>rc_id := k\<rparr>) t, Inr (p\<lparr>rc_id := t_next t\<rparr>))"
    by (simp add: save_receipt_row_def Let_def)
  then show ?thesis using assms(4,5) by (simp add: insert_row_def)
qed

lemma find_receipt_mem:
  assumes "q \<in> set (t_rows t)" "rc_source_event_id q = s" "rc_dedupe_key q = k" "s \<noteq> []" "k \<noteq> []"
    "source = s \<or> key = k"
  shows "source \<noteq> [] \<Longrightarrow> key \<noteq> [] \<Longrightarrow> find_receipt t source key \<noteq> None"
proof -
  assume "source \<noteq> []" "key \<noteq> []"
  moreover have "source = s \<Longrightarrow> find (\<lambda>r. rc_source_event_id r = source) (t_rows t) \<noteq> None" using assms(1,2) by (auto simp: find_None_iff)
  moreover have "key = k \<Longrightarrow> find (\<lambda>r. rc_dedupe_key r = key) (t_rows t) \<noteq> None" using assms(1,3) by (auto simp: find_None_iff)
  ultimately show "find_receipt t source key \<noteq> None" using assms(6) by (auto simp: find_receipt_def split: option.splits)
qed

lemma apply_event_receipts: "receipts_kept (cn_receipts s) (cn_receipts (fst (apply_event env c s)))"
  by (simp add: apply_event_def Let_def split: prod.splits sum.splits option.splits)
    (metis fst_conv save_receipt_kept)

lemma dispatch_receipts: "receipts_kept (cn_receipts s) (cn_receipts (fst (dispatch_event env cfg e source s)))"
  by (simp add: dispatch_event_def dispatch_canonical_def apply_event_receipts split: sum.splits option.splits)

lemma consume_receipts: "receipts_kept (cn_receipts s) (cn_receipts (fst (consume_event_log_record env cfg r s)))"
  using dispatch_receipts [of s env cfg "event_from_record env r" "record_source r"]
  by (simp add: consume_event_log_record_def Let_def case_prod_beta)

lemma replay_receipts: "receipts_kept (cn_receipts s) (cn_receipts (fst (fold (replay_record env cfg) rs (s, n))))"
proof (induction rs arbitrary: s n)
  case (Cons r rs)
  show ?case using receipts_trans [OF consume_receipts Cons.IH] by (simp add: replay_record_def case_prod_beta)
qed simp

lemma step_receipts: "receipts_kept (cn_receipts s) (cn_receipts (consumer_step cfg lcfg c s))"
proof -
  obtain env op where c: "c = (env, op)" by (cases c)
  show ?thesis
  proof (cases op)
    case (LiveEvent e)
    have note_r: "cn_receipts (note_live_event env e s) = cn_receipts s" by (simp add: note_live_event_def)
    have unlogged: "receipts_kept (cn_receipts u) (cn_receipts (fst (consume_unlogged env cfg e u)))" for u
      using dispatch_receipts [of u env cfg e "ge_event_id e"]
        dispatch_receipts [of "fail_closed env cfg ''EVENT_LOG_UNAVAILABLE'' u" env cfg e "ge_event_id e"]
      by (auto simp: consume_unlogged_def Let_def case_prod_beta split: sum.splits)
    have logged: "receipts_kept (cn_receipts u) (cn_receipts (fst (consume_event_log_record env cfg x (u\<lparr>cn_log := l\<rparr>))))" for u x l
      using consume_receipts [of "u\<lparr>cn_log := l\<rparr>"] by simp
    show ?thesis
      using unlogged [of "note_live_event env e s"] logged [of "note_live_event env e s"]
      by (simp add: c LiveEvent consume_live_event_def Let_def note_r split: option.splits prod.splits)
  next
    case (ReplayPending limit)
    show ?thesis using replay_receipts
      by (simp add: c ReplayPending replay_pending_def Let_def case_prod_beta) (metis (no_types, lifting) consumer_state.select_convs(3) consumer_state.surjective consumer_state.update_convs(4) replay_receipts)
  qed (simp_all add: c dispatch_receipts consumer_recover_def case_prod_beta)
qed

lemma run_receipts: "receipts_kept (cn_receipts s) (cn_receipts (consumer_run cfg lcfg calls s))"
proof (induction calls arbitrary: s)
  case (Cons c calls)
  show ?case using receipts_trans [OF step_receipts Cons.IH] by (simp add: consumer_run_def)
qed (simp add: consumer_run_def)

section \<open>Properties\<close>

lemma apply_event_result:
  assumes "apply_event env c s = (s1, Inr result)"
  shows "ep_source_event_id result = cv_source_event_id c \<and> ep_dedupe_key result = cv_dedupe_key c"
  using assms by (auto simp: apply_event_def Let_def applied_result_def result_of_event_def split: prod.splits sum.splits option.splits)

lemma apply_event_receipt:
  assumes "apply_event env c s = (s1, Inr result)" "find_receipt (cn_receipts s) (cv_source_event_id c) (cv_dedupe_key c) = None"
    "cv_source_event_id c \<noteq> []" "cv_dedupe_key c \<noteq> []"
  shows "\<exists>q\<in>set (t_rows (cn_receipts s1)). rc_source_event_id q = cv_source_event_id c \<and> rc_dedupe_key q = cv_dedupe_key c"
proof -
  obtain r where "cn_receipts s1 = fst (save_receipt_row (receipt_of env c r) (cn_receipts s))"
    using assms(1) by (auto simp: apply_event_def Let_def split: prod.splits sum.splits option.splits) (metis fst_conv)
  moreover have "rc_source_event_id (receipt_of env c r) = cv_source_event_id c" "rc_dedupe_key (receipt_of env c r) = cv_dedupe_key c"
    by (simp_all add: receipt_of_def Let_def)
  ultimately show ?thesis using save_receipt_new [OF assms(2-4)] by simp
qed

text \<open>C36: With receipts on, an event that was applied is never applied again: after any further calls (more events,
  replays, recovered claims, restarted deliveries), every delivery of an event with the same source
  identifier or the same duplicate key is answered as already applied and changes nothing at all.\<close>
theorem applied_event_is_never_reapplied:
  assumes "ecf_receipt_enabled cfg" "ecf_order_enabled cfg"
    "dispatch_event env cfg e source s = (s1, Inr result)" "ep_status result \<in> {''APPLIED'', ''RECONCILE_REQUIRED''}"
    "decode_event cfg e' source' = Inr c'" "\<not> cv_ignored c'"
    "cv_source_event_id c' = ep_source_event_id result \<or> cv_dedupe_key c' = ep_dedupe_key result"
  shows "\<exists>again. dispatch_event env' cfg e' source' (consumer_run cfg lcfg calls s1) = (consumer_run cfg lcfg calls s1, Inr again) \<and>
    ep_status again = ''DUPLICATE_ALREADY_APPLIED''"
proof -
  obtain c where c: "decode_event cfg e source = Inr c" using assms(3) by (auto simp: dispatch_event_def split: sum.splits)
  have d: "dispatch_canonical env cfg c s = (s1, Inr result)" using assms(3) c by (simp add: dispatch_event_def)
  have live: "\<not> cv_ignored c" and new: "find_receipt (cn_receipts s) (cv_source_event_id c) (cv_dedupe_key c) = None"
    using d assms(1,2,4) by (auto simp: dispatch_canonical_def result_of_event_def split: if_splits option.splits)
  then have app: "apply_event env c s = (s1, Inr result)" using d assms(1,2) by (simp add: dispatch_canonical_def)
  have c_ok: "cv_source_event_id c \<noteq> []" "cv_dedupe_key c \<noteq> []" using decode_fields [OF c live] by auto
  obtain q0 where q0: "q0 \<in> set (t_rows (cn_receipts s1))" "rc_source_event_id q0 = cv_source_event_id c" "rc_dedupe_key q0 = cv_dedupe_key c"
    using apply_event_receipt [OF app new c_ok] by blast
  let ?s2 = "consumer_run cfg lcfg calls s1"
  obtain q where q: "q \<in> set (t_rows (cn_receipts ?s2))" "rc_source_event_id q = cv_source_event_id c" "rc_dedupe_key q = cv_dedupe_key c"
    using run_receipts [of s1 cfg lcfg calls] q0 unfolding receipts_kept_def by metis
  have "cv_source_event_id c' = cv_source_event_id c \<or> cv_dedupe_key c' = cv_dedupe_key c"
    using assms(7) apply_event_result [OF app] by simp
  then have "find_receipt (cn_receipts ?s2) (cv_source_event_id c') (cv_dedupe_key c') \<noteq> None"
    using find_receipt_mem [OF q c_ok] decode_fields [OF assms(5,6)] by blast
  then show ?thesis using assms(1,2,5,6)
    by (auto simp: dispatch_event_def dispatch_canonical_def result_of_event_def)
qed

lemma sample_balance_decoded:
  "case decode_event default_consumer_config sample_balance [] of
     Inl err \<Rightarrow> False | Inr c \<Rightarrow> \<not> cv_ignored c \<and> cv_source_event_id c = ''e1''"
  by code_simp

lemma sample_balance_applied:
  "case dispatch_event sample_consumer_env default_consumer_config sample_balance [] sample_consumer of
     (s, Inl err) \<Rightarrow> False | (s, Inr r) \<Rightarrow> ep_status r = ''APPLIED'' \<and> ep_source_event_id r = ''e1''"
  by code_simp

theorem applied_event_is_never_reapplied_witness:
  "\<exists>s1 again. fst (dispatch_event sample_consumer_env default_consumer_config sample_balance [] sample_consumer) = s1 \<and>
     dispatch_event sample_consumer_env default_consumer_config sample_balance [] s1 = (s1, Inr again) \<and>
     ep_status again = ''DUPLICATE_ALREADY_APPLIED''"
proof -
  obtain s1 r where r: "dispatch_event sample_consumer_env default_consumer_config sample_balance [] sample_consumer = (s1, Inr r)"
    "ep_status r = ''APPLIED''" "ep_source_event_id r = ''e1''"
    using sample_balance_applied by (auto split: prod.splits sum.splits)
  obtain c where c: "decode_event default_consumer_config sample_balance [] = Inr c" "\<not> cv_ignored c" "cv_source_event_id c = ''e1''"
    using sample_balance_decoded by (auto split: sum.splits)
  have cfg: "ecf_receipt_enabled default_consumer_config" "ecf_order_enabled default_consumer_config"
    by (simp_all add: default_consumer_config_def)
  have "consumer_run default_consumer_config default_event_log_config [] s1 = s1" by (simp add: consumer_run_def)
  then show ?thesis
    using applied_event_is_never_reapplied [OF cfg r(1) _ c(1,2), of sample_consumer_env default_event_log_config "[]"] r c(3) by auto
qed

text \<open>C39: A replay that runs from its start to its end with no other call in between drains the log: if its limit reaches all
  events of the order path that may be claimed, then
  afterwards none of them is pending, and each is processed, ignored, given up or waits for a later retry.\<close>
theorem replay_drains_pending:
  assumes "log_ok (cn_log s)" "ecf_replay_enabled cfg" "0 < replay_limit cfg lcfg limit"
    "int (length (filter (\<lambda>r. claimable (whole_second (cne_now env)) r \<and> lr_event_type r \<in> set REPLAYABLE_GATEWAY_EVENT_TYPES)
       (t_rows (cn_log s)))) \<le> replay_limit cfg lcfg limit"
  shows "bl_pending (critical_backlog_snapshot (cn_log (fst (replay_pending env cfg lcfg limit s)))) = 0 \<and>
    (get_log_row (cn_log s) k = Some r \<and> lr_event_type r \<in> set REPLAYABLE_GATEWAY_EVENT_TYPES \<and>
       claimable (whole_second (cne_now env)) r \<longrightarrow>
     (\<exists>x. get_log_row (cn_log (fst (replay_pending env cfg lcfg limit s))) k = Some x \<and> same_event x r \<and>
       lr_status x \<in> {EV_PROCESSED, EV_IGNORED, EV_DEAD_LETTER, EV_RETRY_WAIT}))"
proof -
  let ?t = "whole_second (cne_now env)" let ?l = "cn_log (fst (replay_pending env cfg lcfg limit s))"
  let ?due = "\<lambda>r. claimable ?t r \<and> lr_event_type r \<in> set REPLAYABLE_GATEWAY_EVENT_TYPES"
  let ?ks = "replay_ids ?t (nat (replay_limit cfg lcfg limit)) (cn_log s)"
  note effect = replay_effect [OF assms(1-3), where env = env]
  have all: "lr_id r \<in> set ?ks" if "r \<in> set (t_rows (cn_log s))" "?due r" for r
  proof -
    have "take (nat (replay_limit cfg lcfg limit)) (sort_key lr_received_at (filter ?due (t_rows (cn_log s)))) =
        sort_key lr_received_at (filter ?due (t_rows (cn_log s)))" using assms(4) by simp
    then show ?thesis using that unfolding replay_ids_def by (simp only: set_map set_sort) auto
  qed
  have settled: "\<exists>x. get_log_row ?l k = Some x \<and> same_event x r \<and> lr_status x \<in> {EV_PROCESSED, EV_IGNORED, EV_DEAD_LETTER, EV_RETRY_WAIT}"
    if r: "get_log_row (cn_log s) k = Some r" "?due r" for k r
  proof -
    have "k \<in> set ?ks" using all [OF get_log_row_mem [OF r(1)] r(2)] get_log_row_id [OF r(1)] by simp
    then show ?thesis using effect(3) [OF r(1)] r(2) by blast
  qed
  have "lr_status x \<noteq> EV_PENDING" if x: "x \<in> set (t_rows ?l)" "lr_event_type x \<in> set REPLAYABLE_GATEWAY_EVENT_TYPES" for x
  proof
    assume pending: "lr_status x = EV_PENDING"
    have x_get: "get_log_row ?l (lr_id x) = Some x" using effect(1) x(1) by (simp add: log_ok_def get_member)
    then obtain r where r: "get_log_row (cn_log s) (lr_id x) = Some r" using effect(4) by fastforce
    show False
    proof (cases "?due r")
      case True
      then show False using settled [OF r] x_get pending by auto
    next
      case False
      have "get_log_row ?l (lr_id x) = Some r \<or> claimable ?t r" using effect(2) [OF r] by blast
      then show False
      proof
        assume "get_log_row ?l (lr_id x) = Some r"
        then show False using False x_get x(2) pending by (simp add: claimable_def)
      next
        assume c: "claimable ?t r"
        show False
        proof (cases "lr_id x \<in> set ?ks")
          case True
          then show False using effect(3) [OF r True c] x_get pending by auto
        next
          case no: False
          then have "x = r" using effect(2) [OF r] x_get by simp
          then show False using False c x(2) by simp
        qed
      qed
    qed
  qed
  then have "filter (\<lambda>r. lr_status r = EV_PENDING) (critical_rows ?l) = []" by (simp add: critical_rows_def filter_empty_conv)
  then show ?thesis using settled [of k r] by (simp add: critical_backlog_snapshot_def count_status_def Let_def)
qed

definition sample_waiting :: consumer_state where
  "sample_waiting = consumer_run default_consumer_config default_event_log_config
     [(sample_consumer_env, AppendEvent sample_balance [])] sample_consumer"

lemma sample_waiting_facts:
  "map lr_status (t_rows (cn_log sample_waiting)) = [EV_PENDING]"
  by code_simp

theorem replay_drains_pending_witness:
  "bl_pending (critical_backlog_snapshot (cn_log (fst (replay_pending sample_consumer_env default_consumer_config
     default_event_log_config None sample_waiting)))) = 0"
proof -
  have "length (t_rows (cn_log sample_waiting)) = 1" using sample_waiting_facts by (metis length_map length_Cons list.size(3) One_nat_def)
  then have "length (filter P (t_rows (cn_log sample_waiting))) \<le> 1" for P by (metis length_filter_le)
  moreover have limit: "replay_limit default_consumer_config default_event_log_config None = 100"
    by (simp add: replay_limit_def default_consumer_config_def default_event_log_config_def)
  moreover have "log_ok (cn_log sample_waiting)"
    by (simp add: sample_waiting_def consumer_run_def append_ok log_ok_empty sample_consumer_def)
  moreover have "ecf_replay_enabled default_consumer_config" by (simp add: default_consumer_config_def)
  ultimately show ?thesis
    using replay_drains_pending [where cfg = default_consumer_config and s = sample_waiting and lcfg = default_event_log_config
      and limit = None and env = sample_consumer_env]
    by (metis (no_types, lifting) dual_order.trans of_nat_1 of_nat_le_iff one_le_numeral zero_less_numeral)
qed

lemma backlog_dead_letter: "bl_dead_letter (critical_backlog_snapshot l) = count_status EV_DEAD_LETTER (critical_rows l)"
  by (simp add: critical_backlog_snapshot_def Let_def)

lemma save_receipt_raises: "save_receipt_row p t = (t', Inl err) \<Longrightarrow> t' = t"
  unfolding save_receipt_row_def Let_def by (simp split: option.splits if_split_asm)

lemma apply_event_raises: "snd (apply_event env c s) = Inl err \<Longrightarrow> cn_receipts (fst (apply_event env c s)) = cn_receipts s"
  by (auto simp: apply_event_def Let_def dest: save_receipt_raises split: prod.splits sum.splits option.splits)

lemma dispatch_raises:
  "snd (dispatch_event env cfg e source s) = Inl err \<Longrightarrow> cn_receipts (fst (dispatch_event env cfg e source s)) = cn_receipts s"
  using apply_event_raises by (auto simp: dispatch_event_def dispatch_canonical_def split: sum.splits option.splits if_splits)

text \<open>C37: An event whose processing raises and that may not be tried again (the error is not one of the passing
  kinds, or its attempts are used up) becomes a dead letter: it leaves no receipt, the health of the consumer is degraded from
  then on, and a row that stops new buys is stored for the day (in UTC). That row stops nothing: the next evaluation of the
  kill switch for that day, with which each run of the order manager starts, does not look at it and overwrites it with
  what the losses of the day alone say.\<close>
theorem dead_letter_stop_is_overwritten:
  assumes "get_log_row (cn_log s) (lr_id r) = Some r" "lr_event_type r \<in> set REPLAYABLE_GATEWAY_EVENT_TYPES"
    "snd (dispatch_event env cfg (event_from_record env r) (record_source r) s) = Inl err"
    "\<not> is_retryable_error (cne_error_text env err) \<or> ecf_max_attempts cfg \<le> lr_attempts r"
    "ecf_fail_closed cfg" "ecf_dead_letter_blocks_buy cfg" "cfg_kill_switch_enabled ocfg"
    and s': "s' = fst (consume_event_log_record env cfg r s)" and day: "day = date_text (cne_now env)"
    and p: "p = latest_portfolio_risk_snapshot (cn_db s') day"
  shows "map_option lr_status (get_log_row (cn_log s') (lr_id r)) = Some EV_DEAD_LETTER \<and>
    cn_receipts s' = cn_receipts s \<and>
    ch_status (consumer_health_of cfg now s') = ''DEGRADED'' \<and>
    map_option kr_state (latest_order_kill_switch_state (cn_db s') day) = Some STOP_NEW_BUY \<and>
    kr_state (latest_state (fst (evaluate_kill_switch ocfg (cn_db s') day t)) day) =
      (if cfg_consecutive_loss_limit ocfg \<le> 0 then REDUCE_ONLY
       else if loss_limit_hit ocfg p then KILL_SWITCH_ACTIVE
       else if stop_recommended p then STOP_NEW_BUY
       else NORMAL_TRADING)"
proof -
  define s1 where "s1 = fst (dispatch_event env cfg (event_from_record env r) (record_source r) s)"
  define result where "result = failed_result env r err"
  have d: "dispatch_event env cfg (event_from_record env r) (record_source r) s = (s1, Inl err)"
    using assms(3) by (simp add: s1_def prod_eq_iff)
  have log1: "cn_log s1 = cn_log s" by (simp add: s1_def)
  have dead: "\<not> ep_retryable result \<or> ecf_max_attempts cfg \<le> lr_attempts r" and st: "ep_status result = ''FAILED''"
    using assms(4) by (simp_all add: result_def failed_result_def)
  let ?s2 = "finish_record env cfg r result s1"
  have s: "s' = ?s2\<lparr>cn_metrics := record_result env result (cn_metrics ?s2)\<rparr>"
    by (simp add: s' consume_event_log_record_def d Let_def result_def)
  have row: "get_log_row (cn_log s') (lr_id r) = Some (finishing env cfg result (lr_attempts r) r)"
    using assms(1) by (simp add: s finish_log log1 get_update)
  have status: "lr_status (finishing env cfg result (lr_attempts r) r) = EV_DEAD_LETTER"
    using dead st by (simp add: finishing_def finish_row_def Let_def)
  have kill: "cn_db s' = save_order_kill_switch_state (reconcile_row (date_text (cne_now env)) ''ORDER_EVENT_DEAD_LETTER_PRESENT'' (cne_now env)) (cn_db s1)"
    using dead st assms(5,6) by (simp add: s finish_record_def Let_def fail_closed_def)
  have "cn_receipts s' = cn_receipts s" using dispatch_raises [of env cfg] d by (simp add: s) (metis fst_conv snd_conv)
  moreover have stop: "latest_order_kill_switch_state (cn_db s') day =
      Some (reconcile_row day ''ORDER_EVENT_DEAD_LETTER_PRESENT'' (cne_now env))"
    by (simp add: kill day latest_after_save reconcile_row_def)
  then have "latest_state (cn_db s') day = reconcile_row day ''ORDER_EVENT_DEAD_LETTER_PRESENT'' (cne_now env)"
    by (simp add: latest_state_def)
  then have "kr_state (latest_state (fst (evaluate_kill_switch ocfg (cn_db s') day t)) day) =
      (if cfg_consecutive_loss_limit ocfg \<le> 0 then REDUCE_ONLY
       else if loss_limit_hit ocfg p then KILL_SWITCH_ACTIVE
       else if stop_recommended p then STOP_NEW_BUY
       else NORMAL_TRADING)"
    unfolding latest_after_evaluate using kill_switch_state_table [OF assms(7) _ p] by (simp add: reconcile_row_def)
  moreover have "ch_status (consumer_health_of cfg now s') = ''DEGRADED''"
  proof -
    let ?x = "finishing env cfg result (lr_attempts r) r"
    have "same_event ?x r" using keeps_finishing by (simp add: keeps_event_def)
    then have "?x \<in> set (filter (\<lambda>r. lr_status r = EV_DEAD_LETTER) (critical_rows (cn_log s')))"
      using get_log_row_mem [OF row] status assms(2) by (simp add: critical_rows_def same_event_def)
    then have "0 < count_status EV_DEAD_LETTER (critical_rows (cn_log s'))"
      unfolding count_status_def by (rule length_pos_if_in_set)
    then have "0 < bl_dead_letter (critical_backlog_snapshot (cn_log s'))" by (simp only: backlog_dead_letter)
    then show ?thesis by (simp add: consumer_health_of_def Let_def)
  qed
  moreover have "map_option kr_state (latest_order_kill_switch_state (cn_db s') day) = Some STOP_NEW_BUY"
    by (simp add: stop reconcile_row_def)
  ultimately show ?thesis using row status by simp
qed

definition sample_fill :: gateway_event where
  "sample_fill = sample_event ''order_fill'' ''e2'' [(''remaining_quantity'', PStr ''inf'')]"

definition sample_broken :: log_row where
  "sample_broken = (new_log_row sample_fill (gateway_event_to_dict sample_fill) [] ''event:e2'' 0 1)
     \<lparr>lr_status := EV_PROCESSING, lr_attempts := 1, lr_claimed_at := At 0, lr_next_retry_at := At 30000000\<rparr>"

definition sample_claimed :: consumer_state where
  "sample_claimed = sample_consumer\<lparr>cn_log := \<lparr>t_next = 2, t_rows = [sample_broken]\<rparr>\<rparr>"

lemma sample_broken_raises:
  "case snd (dispatch_event sample_consumer_env default_consumer_config (event_from_record sample_consumer_env sample_broken)
     (record_source sample_broken) sample_claimed) of Inl err \<Rightarrow> err = OverflowError | Inr r \<Rightarrow> False"
  by code_simp

theorem dead_letter_stop_is_overwritten_witness:
  "map_option lr_status (get_log_row (cn_log (fst (consume_event_log_record sample_consumer_env default_consumer_config
     sample_broken sample_claimed))) 1) = Some EV_DEAD_LETTER"
proof -
  have id: "lr_id sample_broken = 1" "lr_event_type sample_broken \<in> set REPLAYABLE_GATEWAY_EVENT_TYPES"
    by (simp_all add: sample_broken_def new_log_row_def sample_fill_def sample_event_def REPLAYABLE_GATEWAY_EVENT_TYPES_def Let_def)
  have row: "get_log_row (cn_log sample_claimed) (lr_id sample_broken) = Some sample_broken"
    by (simp add: sample_claimed_def get_log_row_def row_by_id_def)
  have err: "snd (dispatch_event sample_consumer_env default_consumer_config (event_from_record sample_consumer_env sample_broken)
     (record_source sample_broken) sample_claimed) = Inl OverflowError"
    using sample_broken_raises by (auto split: sum.splits)
  have "\<not> is_retryable_error (cne_error_text sample_consumer_env OverflowError)" by (simp add: sample_consumer_env_def) code_simp
  moreover have "ecf_fail_closed default_consumer_config" "ecf_dead_letter_blocks_buy default_consumer_config"
    "cfg_kill_switch_enabled default_config"
    by (simp_all add: default_consumer_config_def default_config_def)
  ultimately show ?thesis
    using dead_letter_stop_is_overwritten [OF row id(2) err _ _ _ _ refl refl refl] id(1) by metis
qed

end
