(* ===== verification/Spec2Isabelle.thy ===== *)
theory Spec2Isabelle
  imports Persistent_Gateway_Props Order_Manager_Props Live_Sim_Lifecycle Legacy_Engine Expansion_Lease Safety_Guard
    Candidate_Props Candidate_Collector Candidate_Ingestion Broker_Reconcile_Props
    Event_Consumer_Props
begin

text \<open>
  \<^bold>\<open>A model of the order path of the trading system.\<close>

  The program trades Korean stocks in simulation. A 64-bit core holds the strategy, the order
  manager and the databases; a 32-bit gateway process drives the broker's ActiveX control. The core
  queues commands for the gateway (\<open>trading/broker/command_queue.py\<close>), the gateway fetches them and
  reports events back (\<open>trading/broker/gateway_state.py\<close>), and the order manager
  (\<open>trading/strategy/order_manager.py\<close>) turns the decisions of the strategy into managed orders: it records
  an intent, has the risk guard and the kill switch judge it, creates a local order, queues the
  command, and follows acknowledgements and executions until the order is finished. Beside it
  stand the manual engine of the old user interface (\<open>trading/engine.py\<close>) and the theme engine, whose
  state machine (\<open>trading/theme_engine/state_machine.py\<close>) ranks groups of stocks.

  \<^bold>\<open>Theories and code.\<close>
  \<^item> \<open>Prelude\<close>: Python values and their truth, text and integer conversions, instants and stored time
    stamps, ordered dictionaries, and the locale \<open>keyed_table\<close>.
  \<^item> \<open>Broker_Models\<close> (\<open>trading/broker/models.py\<close>): the messages, \<open>to_dict\<close> and \<open>from_dict\<close>; every complete message
    is read back as written.
  \<^item> \<open>Command_Queue\<close>, \<open>Command_Codec\<close>, \<open>Command_Queue_Props\<close> (\<open>trading/broker/command_queue.py\<close>): the queue with
    all operations of \<open>CommandQueue\<close>, the dictionary form of its records, and its correctness: the dictionary
    of records and the list of queued ids agree, an order command is sent at most once, what
    \<open>dispatch\<close>, \<open>expire_old\<close> and \<open>prune\<close> do, and duplicate detection.
  \<^item> \<open>Gateway_State\<close> (\<open>trading/broker/gateway_state.py\<close>): the status record that events update, the bounded
    list of recent events, and the command operations in memory.
  \<^item> \<open>Command_Store\<close>, \<open>Persistent_Gateway\<close>, \<open>Persistent_Gateway_Props\<close> (\<open>trading/broker/command_persistence.py\<close> and the
    branches of \<open>gateway_state.py\<close> that use it): the tables of commands, duplicate keys and events, the operations
    that write through to them, and runs with restarts. The locale \<open>stored_contract\<close> says what an assertion
    on memory and tables must promise to be kept by every operation; it is interpreted for the number of dispatches, for
    retained duplicate keys and for the well-formedness of rows.
  \<^item> \<open>Row_Table\<close>, \<open>Order_Store\<close> (\<open>storage/db.py\<close>): the tables of the order manager as lists of rows in the
    order of their ids, with the upserts and queries of the code; the locales \<open>row_schema\<close> and
    \<open>payload_schema\<close> are interpreted for intents, orders and positions, and the order table refines a map.
  \<^item> \<open>Order_Models\<close>, \<open>Kill_Switch\<close>, \<open>Order_Risk\<close>, \<open>Order_Reconcile\<close>, \<open>Unfilled_Cancel\<close>, \<open>Order_Manager\<close>,
    \<open>Order_Manager_Props\<close> (the files of the same names in \<open>trading/strategy\<close>): the managed orders, the checks, the
    intake of reports, cancelling, and the run that composes them over the queue and the tables.
  \<^item> \<open>Live_Sim_Lifecycle\<close> (\<open>trading/live_sim/lifecycle.py\<close>): the status machine that audits simulated orders: the
    validator, and the changes that it lets pass without a warning.
  \<^item> \<open>Trading_Rules\<close>, \<open>Legacy_Engine\<close> (\<open>trading/rules.py\<close>, \<open>trading/engine.py\<close>, \<open>trading/models.py\<close>): price ticks and
    quantities, and the manual engine over them; what the broker does with an order, at once or later, is a parameter of the
    engine's calls.
  \<^item> \<open>Theme_State\<close> (\<open>trading/theme_engine/state_machine.py\<close>): one cycle of a theme and of the machine.
  \<^item> \<open>Exact_Float\<close>: rounding to decimal digits, and ratios, on rationals.
  \<^item> \<open>Theme_Signals\<close>, \<open>Theme_Cohort\<close>, \<open>Theme_Expansion\<close>, \<open>Expansion_Lease\<close> (\<open>signals.py\<close>, \<open>cohort.py\<close>, \<open>roles.py\<close> and
    \<open>expansion.py\<close>, \<open>expansion_lease.py\<close> in \<open>trading/theme_engine\<close>): the live signals of stocks and their merging, the
    statistics of a theme that feed its state machine, the role of each stock in its theme, the plan of the
    stocks to subscribe, and the leases that keep subscriptions for their hold time.
  \<^item> \<open>Candidate_Model\<close>, \<open>Candidate_Contract\<close> (\<open>trading/strategy/models.py\<close> and \<open>candidate_state_contract.py\<close>): the
    candidate and its tables, and the contract that reconciles the two state fields of a candidate.
  \<^item> \<open>Candidate_Fsm\<close>, \<open>Candidate_Fsm_Facts\<close>, \<open>Candidate_Props\<close> (\<open>candidate_fsm.py\<close>, the synchronisation in
    \<open>dirty_strategy_evaluator.py\<close>): the machine that says which candidates may enter, and what the order manager
    reads from it.
  \<^item> \<open>Candidate_Collector\<close>, \<open>Candidate_Ingestion\<close> (\<open>candidates.py\<close>, \<open>candidate_ingestion.py\<close>): the intake of stocks
    from conditions and themes, the life cycle of rows with its table of allowed steps, and expiry.
  \<^item> \<open>Broker_Reconcile\<close>, \<open>Broker_Reconcile_Run\<close>, \<open>Broker_Reconcile_Props\<close> (\<open>broker_reconcile.py\<close>, its tables in
    \<open>storage/db.py\<close>): the comparison of the broker's books with the local ones, and the runs that ask for them.
  \<^item> \<open>Event_Log\<close>, \<open>Event_Consumer\<close>, \<open>Event_Dispatcher\<close>, \<open>Event_Props\<close>, \<open>Event_Workers\<close>, \<open>Event_Consumer_Props\<close>
    (\<open>storage/event_log.py\<close>, \<open>trading_app/gateway_event_consumer.py\<close>): the log of gateway events, the codec, the
    receipts and projections, and the dispatcher that feeds the order manager from the log. The dispatcher holds no lock, so
    \<open>Event_Workers\<close> splits each delivery into claim, dispatch and finish and lets them overlap in any order; each function of
    \<open>Event_Dispatcher\<close> is a run of these steps.
  \<^item> \<open>Safety_Guard\<close> (\<open>trading/risk/safety_guard.py\<close>): the check list in front of an order sent by hand.

  \<^bold>\<open>How state and operations correspond.\<close> A dataclass is a record whose fields carry a prefix, an enum is a
  datatype with the code's member names, a method is a definition that takes the object's state
  and returns it changed, with its result. Exceptions are values of \<open>py_error\<close>, refusals are values of
  the component's own type. Databases are lists of rows; a call to the outside that returns nothing is
  recorded as an action. Definitions are executable, and the witnesses evaluate them.

  \<^bold>\<open>Conventions and bounds.\<close> Instants are integers in microseconds, as Python's clock resolves them;
  a stored time stamp is \<open>Blank\<close> or an instant. Integers are unbounded, as in Python. Floats are exact
  rationals, so rounding of binary floats is outside the model. Strings are lists of characters below 256.
  Identifiers of rows are integers with 0 for none. No definition needs fuel: every loop is structural but
  \<open>tick_loop\<close>, whose measure is the distance left. Numbers such as the 500 recent events or the page of
  500 orders are the code's own limits and appear where a statement needs them.

  \<^bold>\<open>What the lemmas show.\<close> Invariants (containers of the queue agree, active keys are unique, events are taken
  once, filled quantities never decrease, finished events stay finished), safety (no order command is sent twice or outside
  the allowed modes, an approved buy met every limit, prices never spend more than a budget, a fading
  theme is held), functional tables (kill switch, acknowledgement, guard), refinement of a map by the
  order table, round trips of messages and records, retries below their limit, and the error behaviour that modelling found:
  a late failure requeues a cancelled command, a malformed heartbeat is lost, a repeated sell
  execution reduces a position twice, a reconciliation mark forgets a manual stop, a second cancel asks for
  reconciliation, a promoted theme is demoted in the next slow cycle, an expired lease comes back. For the theme
  engine: a fading theme recovers only at the end of an unbroken row of confirming cycles, merging keeps the best source
  and all reasons per code, the ratios of a cohort lie between 0 and 1 and its strength between 0 and 100, a plan
  stays within its limits and never holds an overheated stock, and a lease is kept for its hold time. For
  candidates: each operation moves a row by at most one allowed step and records it, expiry takes exactly the due ones, the
  last lost source removes a candidate that is still being watched and leaves every other one without a source, reconciliation comes to rest after two rounds, and a stale tick bars an entry at the order manager;
  but a candidate blocked for good comes back after a reconciliation. For the reconciliation with the broker: a
  clean run means that every order number has the same quantity open on both sides and every stock that the broker lists is
  held equally; its truth is ready only after complete answers of all
  sources, unless a caller finishes the run by hand; positions that only the local side holds are not seen, and a late incomplete
  answer replaces rows and decides the run anew. For the events: an applied event is never applied again, a finished event that
  no delivery holds stays finished in every interleaving, retries stay below their limit, an undisturbed replay leaves
  nothing pending, and the stop of new buys that a lost event leaves is overwritten at the next run.

  \<^bold>\<open>Not modelled.\<close> Input and output (HTTP, WebSocket, SQL text, files, COM calls), log texts, Korean wording,
  user interface and dashboards; command stores other than the SQLite one, and its rate-limit
  events, whose text holds a float; the digest of unknown commands and the JSON reader, which are
  parameters, as is the square root that weights the return of a theme; whether an event can be written as JSON is a parameter too. Concurrency: the gateway state with its queue
  and store, the reconciliation and the single operations of the event log hold a lock in the code and are atomic steps here; the
  other components are modelled as called one operation after the other, but the dispatcher of events, whose deliveries
  overlap in \<open>Event_Workers\<close>. The strategy engines score float features; they are left for later, with their scores as parameters.
  The theme repository, the lookup of stock names and the callback of a session are parameters of the candidate
  theories; the loading of broker texts (\<open>candidate_hydrator.py\<close>) and the statistics of the funnel are left out. The parser
  of captured answers and the registry of requests, which hold Korean field names, are parameters of the reconciliation.

  \<^bold>\<open>Plan.\<close> Candles, rate limits and the load guard,
  then the entry and exit engines.
\<close>

end
